(* ===== verification/GoPrelude.thy ===== *)
theory GoPrelude
  imports Main "HOL-Library.Word" "HOL-Library.Signed_Division" "HOL-Library.Char_ord"
    "HOL-Library.List_Lexorder" "HOL-Library.Sublist"
begin

text \<open>
  Shared vocabulary of the development: Go's fixed-width signed integers, its byte strings
  and the pieces of the standard library (\<open>strconv\<close>, \<open>strings\<close>, \<open>sort\<close>,
  \<open>hash/crc32\<close>) that the modelled code calls, with the lemmas every component uses.

  A Go \<open>string\<close> is a sequence of bytes: the HOL type \<open>string\<close>, ordered
  lexicographically by byte (\<open>Char_ord\<close> with \<open>List_Lexorder\<close>), which is the order
  of Go's \<open><\<close> on strings and of \<open>sort.Strings\<close>.  An \<open>int64\<close> is an \<open>int\<close>
  in the range \<open>-2^63 .. 2^63 - 1\<close>; every arithmetic operation of the source on such a
  value is written with the wrap-around explicit (\<open>add64\<close>, \<open>sub64\<close>, \<open>mul64\<close>).
\<close>

named_theorems go_simps
named_theorems key_simps

section \<open>Fixed-width signed integers\<close>

definition wrap64 :: "int \<Rightarrow> int" where
  "wrap64 x = (x + 2 ^ 63) mod 2 ^ 64 - 2 ^ 63"

definition wrap32 :: "int \<Rightarrow> int" where
  "wrap32 x = (x + 2 ^ 31) mod 2 ^ 32 - 2 ^ 31"

definition int64 :: "int \<Rightarrow> bool" where
  "int64 x \<longleftrightarrow> - (2 ^ 63) \<le> x \<and> x < 2 ^ 63"

definition add64 :: "int \<Rightarrow> int \<Rightarrow> int" where
  "add64 a b = wrap64 (a + b)"

definition sub64 :: "int \<Rightarrow> int \<Rightarrow> int" where
  "sub64 a b = wrap64 (a - b)"

definition mul64 :: "int \<Rightarrow> int \<Rightarrow> int" where
  "mul64 a b = wrap64 (a * b)"

lemma wrap64_id [simp]: "int64 x \<Longrightarrow> wrap64 x = x"
  by (simp add: wrap64_def int64_def)

lemma int64_wrap64 [simp]: "int64 (wrap64 x)"
  by (simp add: wrap64_def int64_def)

lemma int64_add64 [simp]: "int64 (add64 a b)"
  by (simp add: add64_def)

lemma int64_sub64 [simp]: "int64 (sub64 a b)"
  by (simp add: sub64_def)

lemma add64_exact: "int64 (a + b) \<Longrightarrow> add64 a b = a + b"
  by (simp add: add64_def)

lemma sub64_exact: "int64 (a - b) \<Longrightarrow> sub64 a b = a - b"
  by (simp add: sub64_def)

lemma mul64_exact: "int64 (a * b) \<Longrightarrow> mul64 a b = a * b"
  by (simp add: mul64_def)

lemma int64_between: "int64 a \<Longrightarrow> int64 c \<Longrightarrow> a \<le> b \<Longrightarrow> b \<le> c \<Longrightarrow> int64 b"
  by (simp add: int64_def)

lemma int64_0 [simp]: "int64 0"
  by (simp add: int64_def)

section \<open>Decimal rendering of integers (strconv)\<close>

fun digits10 :: "nat \<Rightarrow> string" where
  "digits10 n =
     (if n < 10 then [char_of (48 + n)] else digits10 (n div 10) @ [char_of (48 + n mod 10)])"

declare digits10.simps [simp del]

definition itoa :: "int \<Rightarrow> string" where
  "itoa i = (if i < 0 then CHR ''-'' # digits10 (nat (- i)) else digits10 (nat i))"

fun undigits10 :: "nat \<Rightarrow> string \<Rightarrow> nat" where
  "undigits10 acc [] = acc"
| "undigits10 acc (c # cs) = undigits10 (10 * acc + (of_char c - 48)) cs"

lemma undigits10_append: "undigits10 acc (xs @ ys) = undigits10 (undigits10 acc xs) ys"
  by (induction xs arbitrary: acc) auto

lemma of_char_digit: "k < 10 \<Longrightarrow> (of_char (char_of (48 + k :: nat)) :: nat) = 48 + k"
  by (simp add: of_char_of)

lemma undigits10_digits10: "undigits10 0 (digits10 n) = n"
proof (induction n rule: digits10.induct)
  case (1 n)
  show ?case
  proof (cases "n < 10")
    case True
    then show ?thesis by (simp add: digits10.simps [of n] of_char_digit)
  next
    case False
    then show ?thesis
      using 1 by (simp add: digits10.simps [of n] undigits10_append of_char_digit)
  qed
qed

lemma digits10_inject [simp]: "digits10 m = digits10 n \<longleftrightarrow> m = n"
  by (metis undigits10_digits10)

lemma digits10_nonempty [simp]: "digits10 n \<noteq> []"
  by (subst digits10.simps) simp

lemma digits10_chars: "c \<in> set (digits10 n) \<Longrightarrow> 48 \<le> (of_char c :: nat) \<and> (of_char c :: nat) < 58"
proof (induction n rule: digits10.induct)
  case (1 n)
  show ?case
  proof (cases "n < 10")
    case True
    with "1.prems" show ?thesis by (simp add: digits10.simps [of n] of_char_digit)
  next
    case False
    with "1.prems" consider "c \<in> set (digits10 (n div 10))" | "c = char_of (48 + n mod 10)"
      by (auto simp: digits10.simps [of n])
    then show ?thesis
    proof cases
      case 1
      with "1.IH" False show ?thesis by simp
    next
      case 2
      then show ?thesis by (simp add: of_char_digit)
    qed
  qed
qed

lemma digits10_no_minus: "CHR ''-'' \<notin> set (digits10 n)"
  using digits10_chars [of "CHR ''-''" n] by auto

lemma itoa_inject [simp]: "itoa i = itoa j \<longleftrightarrow> i = j"
proof
  assume eq: "itoa i = itoa j"
  have no: "\<And>n s. digits10 n \<noteq> CHR ''-'' # s"
    using digits10_no_minus by (metis list.set_intros(1))
  show "i = j"
    using eq no [of "nat i"] no [of "nat j"]
    by (auto simp: itoa_def nat_eq_iff split: if_splits) (metis no)+
qed simp

lemma itoa_plain: "c \<in> set (itoa i) \<Longrightarrow> c \<noteq> CHR '':'' \<and> c \<noteq> CHR ''_''"
  using digits10_chars [of c] by (auto simp: itoa_def split: if_splits)

subsection \<open>Parsing\<close>

datatype parse_result = Parsed int | SyntaxError | RangeError int

definition is_digit :: "char \<Rightarrow> bool" where
  "is_digit c \<longleftrightarrow> 48 \<le> (of_char c :: nat) \<and> (of_char c :: nat) < 58"

definition parse_unsigned :: "string \<Rightarrow> nat option" where
  "parse_unsigned s = (if s = [] \<or> \<not> list_all is_digit s then None else Some (undigits10 0 s))"

text \<open>\<open>strconv.ParseInt(s, 10, 64)\<close>: a value out of range is reported with the nearest bound.\<close>

definition ParseInt :: "string \<Rightarrow> parse_result" where
  "ParseInt s =
     (let neg = (s \<noteq> [] \<and> hd s = CHR ''-'');
          body = (if s \<noteq> [] \<and> (hd s = CHR ''-'' \<or> hd s = CHR ''+'') then tl s else s)
      in case parse_unsigned body of
           None \<Rightarrow> SyntaxError
         | Some n \<Rightarrow>
             if neg then (if int n \<le> 2 ^ 63 then Parsed (- int n) else RangeError (- (2 ^ 63)))
             else (if int n < 2 ^ 63 then Parsed (int n) else RangeError (2 ^ 63 - 1)))"

text \<open>\<open>utils.StringToInt64\<close>: the error is dropped, the value kept.\<close>

definition StringToInt64 :: "string \<Rightarrow> int" where
  "StringToInt64 s = (case ParseInt s of Parsed i \<Rightarrow> i | SyntaxError \<Rightarrow> 0 | RangeError i \<Rightarrow> i)"

definition StringToInt :: "string \<Rightarrow> int" where
  "StringToInt s = (case ParseInt s of Parsed i \<Rightarrow> i | SyntaxError \<Rightarrow> 0 | RangeError i \<Rightarrow> i)"

lemma parse_unsigned_digits10: "parse_unsigned (digits10 n) = Some n"
  using digits10_chars [of _ n]
  by (auto simp: parse_unsigned_def list_all_iff is_digit_def undigits10_digits10)

lemma digits10_hd: "hd (digits10 n) \<noteq> CHR ''-'' \<and> hd (digits10 n) \<noteq> CHR ''+''"
  using digits10_chars [of "hd (digits10 n)" n] by auto

lemma ParseInt_itoa [simp]: "int64 i \<Longrightarrow> ParseInt (itoa i) = Parsed i"
proof (cases "i < 0")
  case True
  assume "int64 i"
  with True show ?thesis by (simp add: ParseInt_def itoa_def parse_unsigned_digits10 int64_def)
next
  case False
  assume "int64 i"
  with False show ?thesis
    by (simp add: ParseInt_def itoa_def parse_unsigned_digits10 digits10_hd int64_def)
qed

lemma StringToInt64_itoa [simp]: "int64 i \<Longrightarrow> StringToInt64 (itoa i) = i"
  by (simp add: StringToInt64_def)

lemma StringToInt_itoa [simp]: "int64 i \<Longrightarrow> StringToInt (itoa i) = i"
  by (simp add: StringToInt_def)

lemma ParseInt_Nil [simp]: "ParseInt [] = SyntaxError"
  by (simp add: ParseInt_def parse_unsigned_def)

section \<open>strings.Split and strings.Join on a one-byte separator\<close>

fun split_on :: "char \<Rightarrow> string \<Rightarrow> string list" where
  "split_on sep [] = [[]]"
| "split_on sep (c # cs) =
     (if c = sep then [] # split_on sep cs
      else case split_on sep cs of [] \<Rightarrow> [[c]] | w # ws \<Rightarrow> (c # w) # ws)"

fun join :: "char \<Rightarrow> string list \<Rightarrow> string" where
  "join sep [] = []"
| "join sep [w] = w"
| "join sep (w # ws) = w @ sep # join sep ws"

lemma split_on_nonempty [simp]: "split_on sep s \<noteq> []"
  by (induction s) (auto split: list.splits)

lemma join_Cons: "ws \<noteq> [] \<Longrightarrow> join sep (w # ws) = w @ sep # join sep ws"
  by (cases ws) auto

lemma join_split_on [simp]: "join sep (split_on sep s) = s"
proof (induction s)
  case (Cons c cs)
  show ?case
  proof (cases "c = sep")
    case True
    with Cons show ?thesis by (simp add: join_Cons)
  next
    case False
    obtain w ws where w: "split_on sep cs = w # ws"
      by (meson list.exhaust split_on_nonempty)
    with Cons False show ?thesis by (cases ws) auto
  qed
qed simp

lemma split_on_plain: "sep \<notin> set s \<Longrightarrow> split_on sep s = [s]"
  by (induction s) auto

lemma split_on_append:
  "sep \<notin> set s \<Longrightarrow> split_on sep (s @ sep # t) = s # split_on sep t"
  by (induction s) auto

lemma split_on_join:
  "ws \<noteq> [] \<Longrightarrow> \<forall>w \<in> set ws. sep \<notin> set w \<Longrightarrow> split_on sep (join sep ws) = ws"
proof (induction ws)
  case (Cons w ws)
  then show ?case
    by (cases ws) (auto simp: split_on_plain split_on_append join_Cons)
qed simp

lemma append_sep_inject:
  fixes x :: char
  assumes "x \<notin> set a" "x \<notin> set c" "a @ x # b = c @ x # d"
  shows "a = c \<and> b = d"
proof -
  have "split_on x (a @ x # b) = split_on x (c @ x # d)" using assms(3) by simp
  then have "a # split_on x b = c # split_on x d"
    using assms(1,2) by (simp add: split_on_append)
  then show ?thesis by (metis join_split_on list.inject)
qed

section \<open>CRC-32 (hash/crc32, IEEE polynomial)\<close>

fun crc32_bits :: "nat \<Rightarrow> 32 word \<Rightarrow> 32 word" where
  "crc32_bits 0 w = w"
| "crc32_bits (Suc k) w =
     crc32_bits k (if odd w then xor (drop_bit 1 w) 0xEDB88320 else drop_bit 1 w)"

definition crc32_byte :: "char \<Rightarrow> 32 word \<Rightarrow> 32 word" where
  "crc32_byte c w = crc32_bits 8 (xor w (of_nat (of_char c)))"

definition crc32 :: "string \<Rightarrow> 32 word" where
  "crc32 s = not (fold crc32_byte s (not 0))"

section \<open>Generic facts on lists and maps\<close>

lemma find_Some_in: "List.find P xs = Some x \<Longrightarrow> x \<in> set xs \<and> P x"
  by (induction xs) (auto split: if_splits)

lemma filter_eq_Nil_iff: "filter P xs = [] \<longleftrightarrow> (\<forall>x \<in> set xs. \<not> P x)"
  by (induction xs) auto

lemma dom_map_upds_fold [simp]:
  "dom (fold (\<lambda>x m. m(f x \<mapsto> g x)) xs m) = dom m \<union> f ` set xs"
  by (induction xs arbitrary: m) auto

lemma map_fold_upd_notin:
  "k \<notin> f ` set xs \<Longrightarrow> fold (\<lambda>x m. m(f x \<mapsto> g x)) xs m k = m k"
  by (induction xs arbitrary: m) auto

lemma sort_pair: "sort [a, b] = (if a \<le> b then [a, b] else [b, a])" for a b :: "'a::linorder"
  by simp

lemma sort_pair_commute: "sort [a, b] = sort [b, a]" for a b :: "'a::linorder"
  by auto

lemma upto_append:
  "[a + 1..a + int m] @ [a + int m + 1..a + int m + int n] = [a + 1..a + int m + int n]"
  using upto_split1 [of "a + 1" "a + int m + 1" "a + int m + int n"] by (cases n) auto

section \<open>Ranging over a map\<close>

text \<open>Hexadecimal numbers, as \<open>big.Int.SetString(s, 16)\<close> reads them.\<close>

definition hex_digit :: "char \<Rightarrow> int" where
  "hex_digit c = (let n = of_char c in if n \<ge> 97 then n - 87 else n - 48)"

definition hex_value :: "string \<Rightarrow> int" where
  "hex_value s = fold (\<lambda>c n. 16 * n + hex_digit c) s 0"

text \<open>\<open>strings.Contains\<close>.\<close>

fun str_contains :: "string \<Rightarrow> string \<Rightarrow> bool" where
  "str_contains [] sub = (sub = [])"
| "str_contains (c # cs) sub = (take (length sub) (c # cs) = sub \<or> str_contains cs sub)"

text \<open>The conversion to \<open>uint32\<close>.\<close>

definition uint32 :: "int \<Rightarrow> int" where
  "uint32 n = n mod 4294967296"

text \<open>
  Go ranges over a map in an unspecified order.  A function that does so takes the order as an
  argument \<open>ord\<close>; of it the lemmas assume only that it enumerates the finite set of keys.
\<close>

definition iter_order :: "('k set \<Rightarrow> 'k list) \<Rightarrow> bool" where
  "iter_order ord \<longleftrightarrow> (\<forall>S. finite S \<longrightarrow> distinct (ord S) \<and> set (ord S) = S)"

lemma iter_order_set [simp]: "iter_order ord \<Longrightarrow> finite S \<Longrightarrow> set (ord S) = S"
  by (simp add: iter_order_def)

lemma iter_order_distinct [simp]: "iter_order ord \<Longrightarrow> finite S \<Longrightarrow> distinct (ord S)"
  by (simp add: iter_order_def)

lemma iter_order_sorted: "iter_order (sorted_list_of_set :: 'k::linorder set \<Rightarrow> 'k list)"
  by (simp add: iter_order_def)

section \<open>Order of strings and stable sorting\<close>

text \<open>\<open><=\<close> on strings (bytewise) and \<open>slices.SortStableFunc\<close>.\<close>

fun str_leq :: "string \<Rightarrow> string \<Rightarrow> bool" where
  "str_leq [] t = True"
| "str_leq (a # as) [] = False"
| "str_leq (a # as) (b # bs) = (if a = b then str_leq as bs else (of_char a :: nat) < of_char b)"

fun insert_sorted :: "('a \<Rightarrow> 'a \<Rightarrow> bool) \<Rightarrow> 'a \<Rightarrow> 'a list \<Rightarrow> 'a list" where
  "insert_sorted le x [] = [x]"
| "insert_sorted le x (y # ys) = (if le x y then x # y # ys else y # insert_sorted le x ys)"

definition sort_stable :: "('a \<Rightarrow> 'a \<Rightarrow> bool) \<Rightarrow> 'a list \<Rightarrow> 'a list" where
  "sort_stable le xs = foldr (insert_sorted le) xs []"

end
