(* ===== verification/GoErrs.thy ===== *)
theory GoErrs
  imports GoPrelude
begin

text \<open>
  The error values of \<open>pkg/tools/errs\<close>.  A value of the Go interface \<open>error\<close> that is
  not nil is a \<open>go_error\<close>; nil is the absence of an error (\<open>None\<close>, or the \<open>Ok\<close>
  branch of an outcome).  \<open>Sentinel\<close> is one of the package variables of
  \<open>predefine.go\<close>, \<open>Coded\<close> a code error allocated at run time: the two differ because
  Go compares error interfaces by pointer.  \<open>RedisNil\<close> is \<open>redis.Nil\<close> of the client the
  program uses (\<open>redis/go-redis/v9\<close>), \<open>RedisNilV6\<close> the one of \<open>go-redis/redis\<close>, a
  different type that \<open>online_history_msg_handler.go\<close> imports.  \<open>Wrapped\<close> is what \<open>errors.Wrap\<close> and
  \<open>errors.WithStack\<close> build; the stack trace is not modelled.
\<close>

section \<open>Code errors\<close>

datatype code_error = CodeError (ce_code: int) (ce_msg: string) (ce_detail: string)

datatype go_error =
    Sentinel code_error
  | Coded code_error
  | RedisNil
  | RedisNilV6
  | MongoNoDocuments
  | MongoDuplicateKey
  | Plain string
  | Wrapped string go_error

definition NewCodeError :: "int \<Rightarrow> string \<Rightarrow> code_error" where
  "NewCodeError code msg = CodeError code msg []"

fun join_str :: "string \<Rightarrow> string list \<Rightarrow> string" where
  "join_str sep [] = []"
| "join_str sep [w] = w"
| "join_str sep (w # ws) = w @ sep @ join_str sep ws"

definition codeError_WithDetail :: "code_error \<Rightarrow> string \<Rightarrow> code_error" where
  "codeError_WithDetail e detail =
     (let d = (if ce_detail e = [] then detail else ce_detail e @ '', '' @ detail)
      in CodeError (ce_code e) (ce_msg e) d)"

definition codeError_Error :: "code_error \<Rightarrow> string" where
  "codeError_Error e =
     (let v = [itoa (ce_code e), ce_msg e];
          v' = (if ce_detail e \<noteq> [] then v @ [ce_detail e] else v)
      in join_str '' '' v')"

text \<open>\<open>errors.Wrap(err, strings.Join(w, ", "))\<close> on a package error.\<close>

definition codeError_Wrap :: "go_error \<Rightarrow> string list \<Rightarrow> go_error" where
  "codeError_Wrap e w = Wrapped (join_str '', '' w) e"

fun Unwrap :: "go_error \<Rightarrow> go_error" where
  "Unwrap (Wrapped m e) = Unwrap e"
| "Unwrap e = e"

text \<open>\<open>errs.Wrap\<close>: nil stays nil; an empty message list adds only the stack.\<close>

definition errs_Wrap :: "go_error option \<Rightarrow> string list \<Rightarrow> go_error option" where
  "errs_Wrap err msg =
     (case err of None \<Rightarrow> None
      | Some e \<Rightarrow> Some (if msg = [] then Wrapped [] e else Wrapped (join_str '', '' msg) e))"

fun code_error_of :: "go_error \<Rightarrow> code_error option" where
  "code_error_of (Sentinel c) = Some c"
| "code_error_of (Coded c) = Some c"
| "code_error_of _ = None"

lemma Unwrap_idem [simp]: "Unwrap (Unwrap e) = Unwrap e"
  by (induction e) auto

lemma Unwrap_errs_Wrap: "errs_Wrap (Some e) ms = Some e' \<Longrightarrow> Unwrap e' = Unwrap e"
  by (auto simp: errs_Wrap_def split: if_splits)

section \<open>The code hierarchy (relation.go)\<close>

type_synonym relation = "int \<rightharpoonup> int set"

fun relation_Add_loop :: "int list \<Rightarrow> relation \<Rightarrow> relation" where
  "relation_Add_loop (parent # c # cs) m =
     relation_Add_loop (c # cs)
       (m(parent \<mapsto> (case m parent of None \<Rightarrow> {} | Some s \<Rightarrow> s) \<union> set (c # cs)))"
| "relation_Add_loop _ m = m"

text \<open>\<open>None\<close> is the panic on fewer than two codes.\<close>

definition relation_Add :: "int list \<Rightarrow> relation \<Rightarrow> relation option" where
  "relation_Add codes m = (if length codes < 2 then None else Some (relation_Add_loop codes m))"

definition relation_Is :: "relation \<Rightarrow> int \<Rightarrow> int \<Rightarrow> bool" where
  "relation_Is m parent child =
     (if parent = child then True
      else case m parent of None \<Rightarrow> False | Some s \<Rightarrow> child \<in> s)"

definition Relation_init :: relation where
  "Relation_init =
     relation_Add_loop [1003, 1202] (relation_Add_loop [1004, 1201]
       (relation_Add_loop [1004, 1101] Map.empty))"

text \<open>\<open>loose = None\<close> is the call without the variadic argument.\<close>

definition codeError_Is :: "relation \<Rightarrow> code_error \<Rightarrow> go_error option \<Rightarrow> bool option \<Rightarrow> bool" where
  "codeError_Is R e err loose =
     (case err of None \<Rightarrow> False
      | Some er \<Rightarrow>
          let allowSubclasses = (case loose of None \<Rightarrow> True | Some b \<Rightarrow> b) in
          (case code_error_of (Unwrap er) of
             Some c \<Rightarrow> (if allowSubclasses then relation_Is R (ce_code e) (ce_code c)
                         else ce_code c = ce_code e)
           | None \<Rightarrow> False))"

lemma relation_Add_loop_mono:
  "relation_Is m p c \<Longrightarrow> relation_Is (relation_Add_loop codes m) p c"
proof (induction codes m rule: relation_Add_loop.induct)
  case (1 parent d cs m)
  have "relation_Is (m(parent \<mapsto> (case m parent of None \<Rightarrow> {} | Some s \<Rightarrow> s) \<union> set (d # cs))) p c"
    using "1.prems" by (auto simp: relation_Is_def split: if_splits option.splits)
  then show ?case using "1.IH" by (simp del: fun_upd_apply)
qed auto

lemma relation_Add_loop_chain:
  "i < j \<Longrightarrow> j < length codes \<Longrightarrow>
   relation_Is (relation_Add_loop codes m) (codes ! i) (codes ! j)"
proof (induction codes m arbitrary: i j rule: relation_Add_loop.induct)
  case (1 parent d cs m)
  let ?m = "m(parent \<mapsto> (case m parent of None \<Rightarrow> {} | Some s \<Rightarrow> s) \<union> set (d # cs))"
  show ?case
  proof (cases i)
    case 0
    obtain k where k: "j = Suc k" using "1.prems"(1) by (cases j) auto
    then have "(d # cs) ! k \<in> set (d # cs)" using "1.prems"(2) by (intro nth_mem) simp
    then have "relation_Is ?m parent ((d # cs) ! k)" by (auto simp: relation_Is_def)
    then show ?thesis using 0 k by (simp add: relation_Add_loop_mono)
  next
    case (Suc i')
    then obtain j' where "j = Suc j'" using "1.prems"(1) by (cases j) auto
    then show ?thesis using Suc "1.IH" [of i' j'] "1.prems" by (simp del: fun_upd_apply)
  qed
qed auto

section \<open>The predeclared errors (predefine.go with the codes of code.go)\<close>

abbreviation "ErrArgs \<equiv> Sentinel (CodeError 1001 ''ArgsError'' [])"
abbreviation "ErrNoPermission \<equiv> Sentinel (CodeError 1002 ''NoPermissionError'' [])"
abbreviation "ErrDatabase \<equiv> Sentinel (CodeError 90002 ''DatabaseError'' [])"
abbreviation "ErrInternalServer \<equiv> Sentinel (CodeError 500 ''ServerInternalError'' [])"
abbreviation "ErrData \<equiv> Sentinel (CodeError 90007 ''DataError'' [])"
abbreviation "ErrNetwork \<equiv> Sentinel (CodeError 90004 ''NetworkError'' [])"
abbreviation "ErrCallbackContinue \<equiv> Sentinel (CodeError 80000 ''ErrCallbackContinue'' [])"
abbreviation "ErrUserIDNotFound \<equiv> Sentinel (CodeError 1101 ''UserIDNotFoundError'' [])"
abbreviation "ErrGroupIDNotFound \<equiv> Sentinel (CodeError 1201 ''GroupIDNotFoundError'' [])"
abbreviation "ErrGroupIDExisted \<equiv> Sentinel (CodeError 1202 ''GroupIDExisted'' [])"
abbreviation "ErrRecordNotFound \<equiv> Sentinel (CodeError 1004 ''RecordNotFoundError'' [])"
abbreviation "ErrNotInGroupYet \<equiv> Sentinel (CodeError 1203 ''NotInGroupYetError'' [])"
abbreviation "ErrDismissedAlready \<equiv> Sentinel (CodeError 1204 ''DismissedAlreadyError'' [])"
abbreviation "ErrGroupRequestHandled \<equiv> Sentinel (CodeError 1206 ''GroupRequestHandled'' [])"
abbreviation "ErrTokenExpired \<equiv> Sentinel (CodeError 1501 ''TokenExpiredError'' [])"
abbreviation "ErrTokenInvalid \<equiv> Sentinel (CodeError 1502 ''TokenInvalidError'' [])"
abbreviation "ErrTokenMalformed \<equiv> Sentinel (CodeError 1503 ''TokenMalformedError'' [])"
abbreviation "ErrTokenNotValidYet \<equiv> Sentinel (CodeError 1504 ''TokenNotValidYetError'' [])"
abbreviation "ErrTokenUnknown \<equiv> Sentinel (CodeError 1505 ''TokenUnknownError'' [])"
abbreviation "ErrTokenKicked \<equiv> Sentinel (CodeError 1506 ''TokenKickedError'' [])"
abbreviation "ErrTokenNotExist \<equiv> Sentinel (CodeError 1507 ''TokenNotExistError'' [])"
abbreviation "ErrDuplicateKey \<equiv> Sentinel (CodeError 1003 ''DuplicateKeyError'' [])"
abbreviation "ErrMessageHasReadDisable \<equiv> Sentinel (CodeError 1401 ''MessageHasReadDisable'' [])"
abbreviation "ErrCanNotAddYourself \<equiv> Sentinel (CodeError 1301 ''CanNotAddYourselfError'' [])"
abbreviation "ErrBlockedByPeer \<equiv> Sentinel (CodeError 1302 ''BlockedByPeer'' [])"
abbreviation "ErrNotPeersFriend \<equiv> Sentinel (CodeError 1303 ''NotPeersFriend'' [])"
abbreviation "ErrRelationshipAlready \<equiv> Sentinel (CodeError 1304 ''RelationshipAlreadyError'' [])"
abbreviation "ErrMutedInGroup \<equiv> Sentinel (CodeError 1402 ''MutedInGroup'' [])"
abbreviation "ErrMutedGroup \<equiv> Sentinel (CodeError 1403 ''MutedGroup'' [])"
abbreviation "ErrMsgAlreadyRevoke \<equiv> Sentinel (CodeError 1404 ''MsgAlreadyRevoke'' [])"
abbreviation "ErrMsgSensitiveWordFailed \<equiv> Sentinel (CodeError 1406 ''MsgSensitiveWordFailed'' [])"
abbreviation "ErrConnOverMaxNumLimit \<equiv> Sentinel (CodeError 1601 ''ConnOverMaxNumLimit'' [])"
abbreviation "ErrConnArgsErr \<equiv> Sentinel (CodeError 1602 ''args err, need token, sendID, platformID'' [])"

text \<open>\<open>ErrX.Wrap(msg)\<close>.\<close>

abbreviation Wrap1m :: "go_error \<Rightarrow> string \<Rightarrow> go_error" where
  "Wrap1m e m \<equiv> codeError_Wrap e [m]"

definition GetSendMsgLimitErr :: "string \<Rightarrow> go_error" where
  "GetSendMsgLimitErr err = Coded (NewCodeError 1405 err)"

lemma Unwrap_Wrap [simp]: "Unwrap (codeError_Wrap e ms) = Unwrap e"
  by (simp add: codeError_Wrap_def)

text \<open>
  C28.  Wrapping never changes what an error is: a code error matches its own code however
  often and with whatever messages it has been wrapped, in loose and in strict mode, and the
  three parent and child pairs registered at start-up (a missing record covers a missing
  user and a missing group, a duplicate key covers an existing group) are the only further
  matches of the loose mode.
\<close>

theorem codeError_Is_wrapped:
  "codeError_Is Relation_init e (Some (Wrapped m er)) loose
     = codeError_Is Relation_init e (Some er) loose
   \<and> codeError_Is Relation_init e (Some (Sentinel e)) loose
   \<and> (codeError_Is Relation_init e (Some (Sentinel d)) None \<longleftrightarrow>
        ce_code e = ce_code d
        \<or> (ce_code e = 1004 \<and> (ce_code d = 1101 \<or> ce_code d = 1201))
        \<or> (ce_code e = 1003 \<and> ce_code d = 1202))"
  by (auto simp: codeError_Is_def relation_Is_def Relation_init_def Let_def
        split: option.splits if_splits)

end
