(* ===== verification/GoMonad.thy ===== *)
theory GoMonad
  imports GoErrs
begin

text \<open>
  The control structure of a Go function that works on shared state: it ends with a value
  (\<open>Ok\<close>), with a non-nil error (\<open>Err\<close>), or it panics (\<open>Panic\<close>), and it leaves a state
  in every case.  \<open>bindG\<close> is \<open>x, err := f(); if err != nil { return err }\<close>;
  \<open>attemptG\<close> is the call whose error the caller inspects itself.  A panic passes
  through both.  Logging and metrics are not modelled.

  \<open>preserves P m\<close> says that \<open>m\<close> keeps the state property \<open>P\<close> whatever its
  outcome; its rules are collected in \<open>pres\<close>.
\<close>

named_theorems pres
named_theorems quiet

datatype 'a outcome = Ok 'a | Err go_error | Panic string

type_synonym ('s, 'a) go = "'s \<Rightarrow> 'a outcome \<times> 's"

definition retG :: "'a \<Rightarrow> ('s, 'a) go" where
  "retG x = (\<lambda>s. (Ok x, s))"

definition failG :: "go_error \<Rightarrow> ('s, 'a) go" where
  "failG e = (\<lambda>s. (Err e, s))"

definition panicG :: "string \<Rightarrow> ('s, 'a) go" where
  "panicG p = (\<lambda>s. (Panic p, s))"

definition bindG :: "('s, 'a) go \<Rightarrow> ('a \<Rightarrow> ('s, 'b) go) \<Rightarrow> ('s, 'b) go" where
  "bindG m k = (\<lambda>s. case m s of
       (Ok a, s') \<Rightarrow> k a s'
     | (Err e, s') \<Rightarrow> (Err e, s')
     | (Panic p, s') \<Rightarrow> (Panic p, s'))"

definition attemptG :: "('s, 'a) go \<Rightarrow> ('s, go_error + 'a) go" where
  "attemptG m = (\<lambda>s. case m s of
       (Ok a, s') \<Rightarrow> (Ok (Inr a), s')
     | (Err e, s') \<Rightarrow> (Ok (Inl e), s')
     | (Panic p, s') \<Rightarrow> (Panic p, s'))"

definition thenG :: "('s, 'a) go \<Rightarrow> ('s, 'b) go \<Rightarrow> ('s, 'b) go" where
  "thenG m n = bindG m (\<lambda>_. n)"

text \<open>A field of a pointer that may be nil.\<close>

definition nil_deref :: "'a option \<Rightarrow> ('s, 'a) go" where
  "nil_deref x = (case x of None \<Rightarrow> panicG ''nil pointer dereference'' | Some v \<Rightarrow> retG v)"

text \<open>\<open>_ = f()\<close>, or a call whose error is only logged.\<close>

definition ignoreG :: "('s, 'a) go \<Rightarrow> ('s, unit) go" where
  "ignoreG m = bindG (attemptG m) (\<lambda>_. retG ())"

definition whenG :: "bool \<Rightarrow> ('s, unit) go \<Rightarrow> ('s, unit) go" where
  "whenG b m = (if b then m else retG ())"

definition liftG :: "'a outcome \<Rightarrow> ('s, 'a) go" where
  "liftG r = (\<lambda>s. (r, s))"

text \<open>Reading and writing a part of the state.\<close>

definition getsG :: "('s \<Rightarrow> 'a) \<Rightarrow> ('s, 'a) go" where
  "getsG f = (\<lambda>s. (Ok (f s), s))"

definition modG :: "('s \<Rightarrow> 's) \<Rightarrow> ('s, unit) go" where
  "modG f = (\<lambda>s. (Ok (), f s))"

text \<open>\<open>errs.Wrap(f())\<close> and \<open>utils.Wrap1(f())\<close>: the error, if any, gets a message.\<close>

definition wrapG :: "string \<Rightarrow> ('s, 'a) go \<Rightarrow> ('s, 'a) go" where
  "wrapG msg m = (\<lambda>s. case m s of
       (Err e, s') \<Rightarrow> (Err (Wrapped msg e), s')
     | r \<Rightarrow> r)"

fun forG :: "'x list \<Rightarrow> ('x \<Rightarrow> ('s, unit) go) \<Rightarrow> ('s, unit) go" where
  "forG [] f = retG ()"
| "forG (x # xs) f = bindG (f x) (\<lambda>_. forG xs f)"

fun foldG :: "('x \<Rightarrow> 'b \<Rightarrow> ('s, 'b) go) \<Rightarrow> 'x list \<Rightarrow> 'b \<Rightarrow> ('s, 'b) go" where
  "foldG f [] b = retG b"
| "foldG f (x # xs) b = bindG (f x b) (foldG f xs)"

fun mapG :: "('x \<Rightarrow> ('s, 'y) go) \<Rightarrow> 'x list \<Rightarrow> ('s, 'y list) go" where
  "mapG f [] = retG []"
| "mapG f (x # xs) = bindG (f x) (\<lambda>y. bindG (mapG f xs) (\<lambda>ys. retG (y # ys)))"

section \<open>Running\<close>

lemmas go_defs = retG_def failG_def panicG_def thenG_def ignoreG_def whenG_def liftG_def

lemma retG_run [go_simps]: "retG x s = (Ok x, s)" by (simp add: retG_def)
lemma failG_run [go_simps]: "failG e s = (Err e, s)" by (simp add: failG_def)
lemma panicG_run [go_simps]: "panicG p s = (Panic p, s)" by (simp add: panicG_def)
lemma liftG_run [go_simps]: "liftG r s = (r, s)" by (simp add: liftG_def)

lemma getsG_run [go_simps]: "getsG f s = (Ok (f s), s)" by (simp add: getsG_def)
lemma modG_run [go_simps]: "modG f s = (Ok (), f s)" by (simp add: modG_def)

lemma bindG_gets [go_simps]: "bindG (getsG f) k s = k (f s) s" by (simp add: bindG_def getsG_def)
lemma bindG_mod [go_simps]: "bindG (modG f) k s = k () (f s)" by (simp add: bindG_def modG_def)

lemma bindG_ret [simp]: "bindG (retG x) k = k x"
  by (simp add: bindG_def retG_def)

lemma bindG_fail [simp]: "bindG (failG e) k = failG e"
  by (simp add: bindG_def failG_def)

lemma bindG_panic [simp]: "bindG (panicG p) k = panicG p"
  by (simp add: bindG_def panicG_def)

lemma bindG_assoc: "bindG (bindG m k) l = bindG m (\<lambda>x. bindG (k x) l)"
  by (rule ext) (auto simp: bindG_def split: prod.splits outcome.splits)

lemma bindG_run_Ok [go_simps]: "m s = (Ok a, s') \<Longrightarrow> bindG m k s = k a s'"
  by (simp add: bindG_def)

lemma bindG_run_Err [go_simps]: "m s = (Err e, s') \<Longrightarrow> bindG m k s = (Err e, s')"
  by (simp add: bindG_def)

lemma bindG_run_Panic [go_simps]: "m s = (Panic p, s') \<Longrightarrow> bindG m k s = (Panic p, s')"
  by (simp add: bindG_def)

lemma attemptG_run_Ok [go_simps]: "m s = (Ok a, s') \<Longrightarrow> attemptG m s = (Ok (Inr a), s')"
  by (simp add: attemptG_def)

lemma attemptG_run_Err [go_simps]: "m s = (Err e, s') \<Longrightarrow> attemptG m s = (Ok (Inl e), s')"
  by (simp add: attemptG_def)

lemma bindG_Ok_iff:
  "bindG m k s = (Ok b, t) \<longleftrightarrow> (\<exists>a s'. m s = (Ok a, s') \<and> k a s' = (Ok b, t))"
  by (auto simp: bindG_def split: prod.splits outcome.splits)

lemma bindG_OkE:
  assumes "bindG m k s = (Ok b, t)"
  obtains a s' where "m s = (Ok a, s')" "k a s' = (Ok b, t)"
  using assms by (auto simp: bindG_Ok_iff)

lemma attemptG_never_Err: "attemptG m s \<noteq> (Err e, t)"
  by (auto simp: attemptG_def split: prod.splits outcome.splits)

lemma attemptG_Ok_iff:
  "attemptG m s = (Ok r, t) \<longleftrightarrow>
     (case r of Inl e \<Rightarrow> m s = (Err e, t) | Inr a \<Rightarrow> m s = (Ok a, t))"
  by (auto simp: attemptG_def split: prod.splits outcome.splits sum.splits)

lemma ignoreG_never_Err: "ignoreG m s \<noteq> (Err e, t)"
  by (auto simp: ignoreG_def bindG_def attemptG_def retG_def split: prod.splits outcome.splits)

lemma attemptG_ret [simp]: "attemptG (retG x) = retG (Inr x)"
  by (simp add: attemptG_def retG_def)

lemma attemptG_fail [simp]: "attemptG (failG e) = retG (Inl e)"
  by (simp add: attemptG_def failG_def retG_def)

lemma wrapG_Ok_iff [simp]: "wrapG msg m s = (Ok a, t) \<longleftrightarrow> m s = (Ok a, t)"
  by (auto simp: wrapG_def split: prod.splits outcome.splits)

lemma wrapG_Err_iff: "wrapG msg m s = (Err e, t) \<longleftrightarrow> (\<exists>e'. e = Wrapped msg e' \<and> m s = (Err e', t))"
  by (auto simp: wrapG_def split: prod.splits outcome.splits)

lemma wrapG_Panic_iff [simp]: "wrapG msg m s = (Panic p, t) \<longleftrightarrow> m s = (Panic p, t)"
  by (auto simp: wrapG_def split: prod.splits outcome.splits)

lemma forG_append: "forG (xs @ ys) f = bindG (forG xs f) (\<lambda>_. forG ys f)"
  by (induction xs) (auto simp: bindG_assoc)

section \<open>Computations without an error\<close>

definition never_Err :: "('s, 'a) go \<Rightarrow> bool" where
  "never_Err m \<longleftrightarrow> (\<forall>s e t. m s \<noteq> (Err e, t))"

lemma never_ErrD: "never_Err m \<Longrightarrow> m s \<noteq> (Err e, t)"
  by (simp add: never_Err_def)

lemma never_Err_basic [simp]:
  "never_Err (retG x)" "never_Err (getsG f)" "never_Err (modG g)" "never_Err (ignoreG m)" "never_Err (attemptG m)"
  by (simp_all add: never_Err_def retG_def getsG_def modG_def ignoreG_never_Err attemptG_never_Err)

lemma never_Err_bind: "never_Err m \<Longrightarrow> (\<And>a. never_Err (k a)) \<Longrightarrow> never_Err (bindG m k)"
  by (auto simp: never_Err_def bindG_def split: prod.splits outcome.splits)

lemma never_Err_for: "(\<And>x. never_Err (f x)) \<Longrightarrow> never_Err (forG xs f)"
  by (induction xs) (simp_all add: never_Err_bind)

lemma bindG_returns:
  assumes "bindG m k s = (r, t)" "\<forall>p. r \<noteq> Panic p" "never_Err m"
  obtains a s' where "m s = (Ok a, s')" "k a s' = (r, t)"
  using assms by (auto simp: bindG_def never_Err_def split: prod.splits outcome.splits)

section \<open>State properties kept by a computation\<close>

definition preserves :: "('s \<Rightarrow> bool) \<Rightarrow> ('s, 'a) go \<Rightarrow> bool" where
  "preserves P m \<longleftrightarrow> (\<forall>s. P s \<longrightarrow> P (snd (m s)))"

lemma preservesD: "preserves P m \<Longrightarrow> P s \<Longrightarrow> m s = (r, s') \<Longrightarrow> P s'"
  by (auto simp: preserves_def dest!: spec [of _ s])

lemma preservesI: "(\<And>s r s'. P s \<Longrightarrow> m s = (r, s') \<Longrightarrow> P s') \<Longrightarrow> preserves P m"
  unfolding preserves_def by (metis prod.collapse)

lemma preserves_ret [pres, simp]: "preserves P (retG x)"
  by (simp add: preserves_def retG_def)

lemma preserves_fail [pres, simp]: "preserves P (failG e)"
  by (simp add: preserves_def failG_def)

lemma preserves_panic [pres, simp]: "preserves P (panicG p)"
  by (simp add: preserves_def panicG_def)

lemma preserves_lift [pres, simp]: "preserves P (liftG r)"
  by (simp add: preserves_def liftG_def)

lemma preserves_gets [pres, simp]: "preserves P (getsG f)"
  by (simp add: preserves_def getsG_def)

lemma preserves_mod [pres]: "(\<And>s. P s \<Longrightarrow> P (f s)) \<Longrightarrow> preserves P (modG f)"
  by (simp add: preserves_def modG_def)

lemma preserves_bind [pres]:
  "preserves P m \<Longrightarrow> (\<And>a. preserves P (k a)) \<Longrightarrow> preserves P (bindG m k)"
  unfolding preserves_def bindG_def by (auto split: prod.splits outcome.splits)

lemma preserves_attempt [pres]: "preserves P m \<Longrightarrow> preserves P (attemptG m)"
  unfolding preserves_def attemptG_def by (auto split: prod.splits outcome.splits)

lemma preserves_wrap [pres]: "preserves P m \<Longrightarrow> preserves P (wrapG msg m)"
  unfolding preserves_def wrapG_def by (auto split: prod.splits outcome.splits)

lemma preserves_then [pres]: "preserves P m \<Longrightarrow> preserves P n \<Longrightarrow> preserves P (thenG m n)"
  by (simp add: thenG_def preserves_bind)

lemma preserves_ignore [pres]: "preserves P m \<Longrightarrow> preserves P (ignoreG m)"
  by (simp add: ignoreG_def preserves_bind preserves_attempt)

lemma preserves_when [pres]: "(b \<Longrightarrow> preserves P m) \<Longrightarrow> preserves P (whenG b m)"
  by (simp add: whenG_def)

lemma preserves_if [pres]:
  "(b \<Longrightarrow> preserves P m) \<Longrightarrow> (\<not> b \<Longrightarrow> preserves P n) \<Longrightarrow> preserves P (if b then m else n)"
  by simp

lemma preserves_for [pres]:
  "(\<And>x. x \<in> set xs \<Longrightarrow> preserves P (f x)) \<Longrightarrow> preserves P (forG xs f)"
  by (induction xs) (auto intro: preserves_bind)

lemma preserves_fold [pres]:
  "(\<And>x b. x \<in> set xs \<Longrightarrow> preserves P (f x b)) \<Longrightarrow> preserves P (foldG f xs b)"
  by (induction xs arbitrary: b) (auto intro: preserves_bind)

lemma preserves_map [pres]:
  "(\<And>x. x \<in> set xs \<Longrightarrow> preserves P (f x)) \<Longrightarrow> preserves P (mapG f xs)"
  by (induction xs) (auto intro!: preserves_bind)

section \<open>Parts of the state a computation leaves alone\<close>

text \<open>\<open>silent q m\<close>: \<open>m\<close> does not change the part \<open>q\<close> of the state.\<close>

definition silent :: "('s \<Rightarrow> 'q) \<Rightarrow> ('s, 'a) go \<Rightarrow> bool" where
  "silent q m \<longleftrightarrow> (\<forall>s. q (snd (m s)) = q s)"

lemma silent_iff: "silent q m \<longleftrightarrow> (\<forall>v. preserves (\<lambda>s. q s = v) m)"
  by (auto simp: silent_def preserves_def)

lemma silentD: "silent q m \<Longrightarrow> m s = (r, s') \<Longrightarrow> q s' = q s"
  by (auto simp: silent_def dest: spec [of _ s])

lemma silentI: "(\<And>s r s'. m s = (r, s') \<Longrightarrow> q s' = q s) \<Longrightarrow> silent q m"
  unfolding silent_def by (metis prod.collapse)

lemma silent_pres: "silent q m \<Longrightarrow> preserves (\<lambda>s. P (q s)) m"
  by (simp add: silent_def preserves_def)

lemma silent_comp: "silent q m \<Longrightarrow> silent (\<lambda>s. f (q s)) m"
  by (simp add: silent_def)

lemma silent_rules [quiet]:
  "silent q (retG x)" "silent q (failG e)" "silent q (panicG p)" "silent q (liftG u)" "silent q (getsG f)"
  "silent q m \<Longrightarrow> (\<And>a. silent q (k a)) \<Longrightarrow> silent q (bindG m k)"
  "silent q m \<Longrightarrow> silent q (attemptG m)" "silent q m \<Longrightarrow> silent q (ignoreG m)"
  "silent q m \<Longrightarrow> silent q (wrapG w m)"
  unfolding silent_iff by (simp_all add: preserves_bind preserves_attempt preserves_ignore preserves_wrap)

lemma silent_loops [quiet]:
  "(\<And>x. silent q (f x)) \<Longrightarrow> silent q (forG xs f)"
  "(\<And>x b. silent q (g x b)) \<Longrightarrow> silent q (foldG g xs b0)"
  "(\<And>x. silent q (h x)) \<Longrightarrow> silent q (mapG h xs)"
  unfolding silent_iff by (simp_all add: preserves_for preserves_fold preserves_map)

lemma silent_const [quiet]: "silent q (\<lambda>s. (r, s))"
  by (simp add: silent_def)

lemma silent_cases [quiet]:
  "(b \<Longrightarrow> silent q m) \<Longrightarrow> (\<not> b \<Longrightarrow> silent q n) \<Longrightarrow> silent q (if b then m else n)"
  "(\<And>e. silent q (f e)) \<Longrightarrow> (\<And>y. silent q (g y)) \<Longrightarrow> silent q (case r of Inl e \<Rightarrow> f e | Inr y \<Rightarrow> g y)"
  "silent q n \<Longrightarrow> (\<And>y. silent q (g y)) \<Longrightarrow> silent q (case z of None \<Rightarrow> n | Some y \<Rightarrow> g y)"
  "(\<And>a b. silent q (h a b)) \<Longrightarrow> silent q (case p of (a, b) \<Rightarrow> h a b)"
  by (auto split: sum.splits option.splits prod.splits)

text \<open>A step that is only taken with values the first computation can return.\<close>

lemma preserves_bind_Ok:
  assumes "preserves P m" "\<And>s a s'. P s \<Longrightarrow> m s = (Ok a, s') \<Longrightarrow> preserves P (k a)"
  shows "preserves P (bindG m k)"
proof (rule preservesI)
  fix s r s'
  assume P: "P s" and run: "bindG m k s = (r, s')"
  obtain r1 s1 where m: "m s = (r1, s1)" by (cases "m s")
  note P1 = preservesD [OF assms(1) P m]
  show "P s'"
  proof (cases r1)
    case (Ok a)
    with m run have "k a s1 = (r, s')" by (simp add: bindG_run_Ok)
    with preservesD [OF assms(2) P1] P m Ok show ?thesis by auto
  qed (use m run P1 in \<open>auto simp: bindG_def\<close>)
qed

end
