(* ===== verification/SliceUtils.thy ===== *)
theory SliceUtils
  imports GoMonad "HOL-Library.Multiset"
begin

text \<open>
  The slice helpers of \<open>pkg/tools/utils\<close> (\<open>utils_v2.go\<close>, \<open>utils.go\<close>,
  \<open>strings.go\<close>, \<open>func.go\<close>) and \<open>splitter\<close>.  A slice is a list, by value: the
  capacity of the backing array and the difference between nil and empty are not modelled.
  A \<open>map[K]struct{}\<close> used as a set of keys seen is a set, a \<open>map[K]V\<close> a partial
  function.  Go ranges over a map in an unspecified order: a function that does so takes the
  order as an argument \<open>ord\<close>, of which the lemmas assume only \<open>iter_order ord\<close>.
\<close>

section \<open>Difference, deduplication, deletion\<close>

fun SliceSub_loop :: "'e set \<Rightarrow> 'e set \<Rightarrow> 'e list \<Rightarrow> 'e list" where
  "SliceSub_loop k t [] = []"
| "SliceSub_loop k t (e # es) =
     (if e \<in> t then SliceSub_loop k t es
      else if e \<in> k then SliceSub_loop k t es
      else e # SliceSub_loop k (insert e t) es)"

definition SliceSub :: "'e list \<Rightarrow> 'e list \<Rightarrow> 'e list" where
  "SliceSub a b = (if length b = 0 then a else SliceSub_loop (set b) {} a)"

definition SliceSubAny :: "'e list \<Rightarrow> 't list \<Rightarrow> ('t \<Rightarrow> 'e) \<Rightarrow> 'e list" where
  "SliceSubAny a b fn = SliceSub a (map fn b)"

fun SliceAnySub_loop :: "('k \<rightharpoonup> 'e) \<Rightarrow> ('e \<Rightarrow> 'k) \<Rightarrow> 'e list \<Rightarrow> 'e list" where
  "SliceAnySub_loop m fn [] = []"
| "SliceAnySub_loop m fn (v # vs) =
     (case m (fn v) of None \<Rightarrow> v # SliceAnySub_loop m fn vs | Some _ \<Rightarrow> SliceAnySub_loop m fn vs)"

definition SliceAnySub :: "'e list \<Rightarrow> 'e list \<Rightarrow> ('e \<Rightarrow> 'k) \<Rightarrow> 'e list" where
  "SliceAnySub a b fn = SliceAnySub_loop (fold (\<lambda>v m. m(fn v \<mapsto> v)) b Map.empty) fn a"

fun DistinctAny_loop :: "'k set \<Rightarrow> ('e \<Rightarrow> 'k) \<Rightarrow> 'e list \<Rightarrow> 'e list" where
  "DistinctAny_loop tmp fn [] = []"
| "DistinctAny_loop tmp fn (t # ts) =
     (if fn t \<notin> tmp then t # DistinctAny_loop (insert (fn t) tmp) fn ts
      else DistinctAny_loop tmp fn ts)"

definition DistinctAny :: "'e list \<Rightarrow> ('e \<Rightarrow> 'k) \<Rightarrow> 'e list" where
  "DistinctAny es fn = DistinctAny_loop {} fn es"

fun DistinctAnyGetComparable_loop :: "'k set \<Rightarrow> ('e \<Rightarrow> 'k) \<Rightarrow> 'e list \<Rightarrow> 'k list" where
  "DistinctAnyGetComparable_loop tmp fn [] = []"
| "DistinctAnyGetComparable_loop tmp fn (t # ts) =
     (let k = fn t in
      if k \<notin> tmp then k # DistinctAnyGetComparable_loop (insert k tmp) fn ts
      else DistinctAnyGetComparable_loop tmp fn ts)"

definition DistinctAnyGetComparable :: "'e list \<Rightarrow> ('e \<Rightarrow> 'k) \<Rightarrow> 'k list" where
  "DistinctAnyGetComparable es fn = DistinctAnyGetComparable_loop {} fn es"

definition Distinct :: "'e list \<Rightarrow> 'e list" where
  "Distinct ts =
     (if length ts < 2 then ts
      else if length ts = 2 then (if ts ! 0 = ts ! 1 then take 1 ts else ts)
      else DistinctAny ts (\<lambda>t. t))"

text \<open>An index out of range in a slice expression panics.\<close>

fun Delete_slice :: "'e list \<Rightarrow> int list \<Rightarrow> 'e list outcome" where
  "Delete_slice es [] = Ok es"
| "Delete_slice es [i] =
     (let i' = (if i < 0 then int (length es) + i else i) in
      if int (length es) \<le> i' then Ok es
      else if i' < 0 then Panic ''slice bounds out of range''
      else Ok (take (nat i') es @ drop (nat i' + 1) es))"
| "Delete_slice es index =
     (let tmp = (\<lambda>i. if i < 0 then int (length es) + i else i) ` set index
      in Ok (map snd (filter (\<lambda>(i, e). int i \<notin> tmp) (enumerate 0 es))))"

section \<open>Search\<close>

fun IndexAny_loop :: "nat \<Rightarrow> 'k \<Rightarrow> ('e \<Rightarrow> 'k) \<Rightarrow> 'e list \<Rightarrow> int" where
  "IndexAny_loop i k fn [] = -1"
| "IndexAny_loop i k fn (e # es) = (if fn e = k then int i else IndexAny_loop (Suc i) k fn es)"

definition IndexAny :: "'e \<Rightarrow> 'e list \<Rightarrow> ('e \<Rightarrow> 'k) \<Rightarrow> int" where
  "IndexAny e es fn = IndexAny_loop 0 (fn e) fn es"

definition IndexOf :: "'e \<Rightarrow> 'e list \<Rightarrow> int" where
  "IndexOf e es = IndexAny e es (\<lambda>t. t)"

definition Contain :: "'e \<Rightarrow> 'e list \<Rightarrow> bool" where
  "Contain e es = (IndexOf e es \<ge> 0)"

fun DuplicateAny_loop :: "'k set \<Rightarrow> ('e \<Rightarrow> 'k) \<Rightarrow> 'e list \<Rightarrow> bool" where
  "DuplicateAny_loop t fn [] = False"
| "DuplicateAny_loop t fn (e # es) =
     (let k = fn e in if k \<in> t then True else DuplicateAny_loop (insert k t) fn es)"

definition DuplicateAny :: "'e list \<Rightarrow> ('e \<Rightarrow> 'k) \<Rightarrow> bool" where
  "DuplicateAny es fn = DuplicateAny_loop {} fn es"

definition Duplicate :: "'e list \<Rightarrow> bool" where
  "Duplicate es = DuplicateAny es (\<lambda>e. e)"

fun IsContain :: "string \<Rightarrow> string list \<Rightarrow> bool" where
  "IsContain target [] = False"
| "IsContain target (element # es) = (if target = element then True else IsContain target es)"

fun IsContainInt :: "int \<Rightarrow> int list \<Rightarrow> bool" where
  "IsContainInt target [] = False"
| "IsContainInt target (element # es) = (if target = element then True else IsContainInt target es)"

section \<open>Slices to maps and back\<close>

definition SliceToMapOkAny :: "'e list \<Rightarrow> ('e \<Rightarrow> 'k \<times> 'v \<times> bool) \<Rightarrow> ('k \<rightharpoonup> 'v)" where
  "SliceToMapOkAny es fn =
     fold (\<lambda>t kv. case fn t of (k, v, ok) \<Rightarrow> if ok then kv(k \<mapsto> v) else kv) es Map.empty"

definition SliceToMapAny :: "'e list \<Rightarrow> ('e \<Rightarrow> 'k \<times> 'v) \<Rightarrow> ('k \<rightharpoonup> 'v)" where
  "SliceToMapAny es fn = SliceToMapOkAny es (\<lambda>e. case fn e of (k, v) \<Rightarrow> (k, v, True))"

definition SliceToMap :: "'e list \<Rightarrow> ('e \<Rightarrow> 'k) \<Rightarrow> ('k \<rightharpoonup> 'e)" where
  "SliceToMap es fn = SliceToMapOkAny es (\<lambda>e. (fn e, e, True))"

definition SliceSetAny :: "'e list \<Rightarrow> ('e \<Rightarrow> 'k) \<Rightarrow> ('k \<rightharpoonup> unit)" where
  "SliceSetAny es fn = SliceToMapAny es (\<lambda>e. (fn e, ()))"

fun Filter_slice :: "'e list \<Rightarrow> ('e \<Rightarrow> 't \<times> bool) \<Rightarrow> 't list" where
  "Filter_slice [] fn = []"
| "Filter_slice (e # es) fn =
     (case fn e of (t, ok) \<Rightarrow> if ok then t # Filter_slice es fn else Filter_slice es fn)"

definition Slice :: "'e list \<Rightarrow> ('e \<Rightarrow> 't) \<Rightarrow> 't list" where
  "Slice es fn = map fn es"

definition SliceSet :: "'e list \<Rightarrow> ('e \<rightharpoonup> unit)" where
  "SliceSet es = SliceSetAny es (\<lambda>e. e)"

definition Keys :: "('k set \<Rightarrow> 'k list) \<Rightarrow> ('k \<rightharpoonup> 'v) \<Rightarrow> 'k list" where
  "Keys ord kv = ord (dom kv)"

definition Values :: "('k set \<Rightarrow> 'k list) \<Rightarrow> ('k \<rightharpoonup> 'v) \<Rightarrow> 'v list" where
  "Values ord kv = map (\<lambda>k. the (kv k)) (ord (dom kv))"

definition Min_slice :: "'e::linorder list \<Rightarrow> 'e outcome" where
  "Min_slice e = (case e of [] \<Rightarrow> Panic ''index out of range''
     | v # ts \<Rightarrow> Ok (fold (\<lambda>t v. if v > t then t else v) ts v))"

definition Max_slice :: "'e::linorder list \<Rightarrow> 'e outcome" where
  "Max_slice e = (case e of [] \<Rightarrow> Panic ''index out of range''
     | v # ts \<Rightarrow> Ok (fold (\<lambda>t v. if v < t then t else v) ts v))"

text \<open>\<open>int\<close> is 64 bits wide; \<open>es[start:end]\<close> panics when start is negative.\<close>

definition Paginate :: "'e list \<Rightarrow> int \<Rightarrow> int \<Rightarrow> 'e list outcome" where
  "Paginate es pageNumber showNumber =
     (if pageNumber \<le> 0 then Ok []
      else if showNumber \<le> 0 then Ok []
      else
        let start = mul64 (sub64 pageNumber 1) showNumber;
            end' = add64 start showNumber
        in if start \<ge> int (length es) then Ok []
           else
             let end'' = (if end' > int (length es) then int (length es) else end')
             in if start < 0 \<or> end'' < start then Panic ''slice bounds out of range''
                else Ok (take (nat (end'' - start)) (drop (nat start) es)))"

section \<open>Set algebra on slices\<close>

fun BothExistAny_build :: "('e \<Rightarrow> 'k) \<Rightarrow> 'e list list \<Rightarrow> ('k \<rightharpoonup> 'e) list option" where
  "BothExistAny_build fn [] = Some []"
| "BothExistAny_build fn (e # es) =
     (if length e = 0 then None
      else case BothExistAny_build fn es of None \<Rightarrow> None
           | Some ms \<Rightarrow> Some (fold (\<lambda>t kv. kv(fn t \<mapsto> t)) e Map.empty # ms))"

text \<open>The index of the first smallest map.\<close>

fun BothExistAny_idx :: "('k \<rightharpoonup> 'e) list \<Rightarrow> nat \<Rightarrow> nat \<Rightarrow> nat \<Rightarrow> nat" where
  "BothExistAny_idx ei 0 i idx = idx"
| "BothExistAny_idx ei (Suc n) i idx =
     BothExistAny_idx ei n (Suc i)
       (if card (dom (ei ! i)) < card (dom (ei ! idx)) then i else idx)"

definition BothExistAny ::
  "('k set \<Rightarrow> 'k list) \<Rightarrow> 'e list list \<Rightarrow> ('e \<Rightarrow> 'k) \<Rightarrow> 'e list" where
  "BothExistAny ord es fn =
     (if length es = 0 then []
      else case BothExistAny_build fn es of None \<Rightarrow> []
        | Some ei \<Rightarrow>
            let idx = BothExistAny_idx ei (length ei) 0 0 in
            map (\<lambda>k. the ((ei ! idx) k))
              (filter (\<lambda>k. \<forall>i < length ei. i = idx \<or> (ei ! i) k \<noteq> None)
                (ord (dom (ei ! idx)))))"

definition Single :: "('e set \<Rightarrow> 'e list) \<Rightarrow> 'e list \<Rightarrow> 'e list \<Rightarrow> 'e list" where
  "Single ord a b =
     (let bump = (\<lambda>e kn. kn(e \<mapsto> (case kn e of None \<Rightarrow> 1 | Some n \<Rightarrow> Suc n)));
          kn = fold bump (Distinct b) (fold bump (Distinct a) Map.empty)
      in filter (\<lambda>k. kn k = Some 1) (ord (dom kn)))"

definition Complete :: "('e set \<Rightarrow> 'e list) \<Rightarrow> 'e list \<Rightarrow> 'e list \<Rightarrow> bool" where
  "Complete ord a b = (length (Single ord a b) = 0)"

fun Equal_loop :: "'e list \<Rightarrow> 'e list \<Rightarrow> bool" where
  "Equal_loop (x # xs) (y # ys) = (if x \<noteq> y then False else Equal_loop xs ys)"
| "Equal_loop _ _ = True"

definition Equal_slice :: "'e list \<Rightarrow> 'e list \<Rightarrow> bool" where
  "Equal_slice a b = (if length a \<noteq> length b then False else Equal_loop a b)"

fun Order_take :: "'e list \<Rightarrow> ('e \<rightharpoonup> 't list) \<Rightarrow> 't list \<times> ('e \<rightharpoonup> 't list)" where
  "Order_take [] kv = ([], kv)"
| "Order_take (e # es) kv =
     (let vs = (case kv e of None \<Rightarrow> [] | Some vs \<Rightarrow> vs);
          (rs, kv') = Order_take es (kv(e := None))
      in (vs @ rs, kv'))"

definition Order :: "('e set \<Rightarrow> 'e list) \<Rightarrow> 'e list \<Rightarrow> 't list \<Rightarrow> ('t \<Rightarrow> 'e) \<Rightarrow> 't list" where
  "Order ord es ts fn =
     (if length es = 0 \<or> length ts = 0 then ts
      else
        let kv = fold (\<lambda>t kv. kv(fn t \<mapsto> (case kv (fn t) of None \<Rightarrow> [] | Some vs \<Rightarrow> vs) @ [t])) ts Map.empty;
            (rs, kv') = Order_take es kv
        in rs @ concat (map (\<lambda>k. the (kv' k)) (ord (dom kv'))))"

definition Batch :: "('t \<Rightarrow> 'v) \<Rightarrow> 't list \<Rightarrow> 'v list" where
  "Batch fn ts = map fn ts"

fun Intersect_loop :: "'e set \<Rightarrow> 'e list \<Rightarrow> 'e list" where
  "Intersect_loop m [] = []"
| "Intersect_loop m (v # vs) = (if v \<in> m then v # Intersect_loop m vs else Intersect_loop m vs)"

definition Intersect :: "int list \<Rightarrow> int list \<Rightarrow> int list" where
  "Intersect s1 s2 = Intersect_loop (set s1) s2"

definition Difference :: "int list \<Rightarrow> int list \<Rightarrow> int list" where
  "Difference s1 s2 =
     (let m = set (Intersect s1 s2)
      in filter (\<lambda>v. v \<notin> m) s1 @ filter (\<lambda>v. v \<notin> m) s2)"

definition IntersectString :: "string list \<Rightarrow> string list \<Rightarrow> string list" where
  "IntersectString s1 s2 = Intersect_loop (set s1) s2"

definition DifferenceString :: "string list \<Rightarrow> string list \<Rightarrow> string list" where
  "DifferenceString s1 s2 =
     (let m = set (IntersectString s1 s2)
      in filter (\<lambda>v. v \<notin> m) s1 @ filter (\<lambda>v. v \<notin> m) s2)"

fun RemoveDuplicate_loop :: "'e set \<Rightarrow> 'e list \<Rightarrow> 'e list" where
  "RemoveDuplicate_loop temp [] = []"
| "RemoveDuplicate_loop temp (item # xs) =
     (if item \<notin> temp then item # RemoveDuplicate_loop (insert item temp) xs
      else RemoveDuplicate_loop temp xs)"

definition RemoveDuplicate :: "'e list \<Rightarrow> 'e list" where
  "RemoveDuplicate arr = RemoveDuplicate_loop {} arr"

definition RemoveDuplicateElement :: "string list \<Rightarrow> string list" where
  "RemoveDuplicateElement idList = RemoveDuplicate_loop {} idList"

fun IsDuplicateStringSlice_loop :: "string set \<Rightarrow> string list \<Rightarrow> bool" where
  "IsDuplicateStringSlice_loop t [] = False"
| "IsDuplicateStringSlice_loop t (s # ss) =
     (if s \<in> t then True else IsDuplicateStringSlice_loop (insert s t) ss)"

definition IsDuplicateStringSlice :: "string list \<Rightarrow> bool" where
  "IsDuplicateStringSlice arr = IsDuplicateStringSlice_loop {} arr"

definition GetSeqsBeginEnd :: "int list \<Rightarrow> int \<times> int" where
  "GetSeqsBeginEnd seqs = (case seqs of [] \<Rightarrow> (0, 0) | x # _ \<Rightarrow> (x, last seqs))"

definition WaitGroupSetLimit :: "int \<Rightarrow> int \<Rightarrow> int" where
  "WaitGroupSetLimit configMax consLength =
     (if consLength < 3 then 3 else if consLength < configMax then consLength else configMax)"

text \<open>
  \<open>GetMsgSeqs\<close>: walk down from \<open>end\<close>, at most \<open>pageMsgSize\<close> numbers, never below
  \<open>minSeq\<close>; the final stable sort into descending order is on an int key.
\<close>

fun GetMsgSeqs_loop :: "nat \<Rightarrow> int \<Rightarrow> int \<Rightarrow> int \<Rightarrow> int list" where
  "GetMsgSeqs_loop 0 i minSeq end' = []"
| "GetMsgSeqs_loop (Suc n) i minSeq end' =
     (let tmp = sub64 end' i in
      if tmp < minSeq then [] else tmp # GetMsgSeqs_loop n (add64 i 1) minSeq end')"

definition GetMsgSeqs :: "int \<Rightarrow> int \<Rightarrow> int \<Rightarrow> int list" where
  "GetMsgSeqs minSeq end' pageMsgSize =
     sort_key (\<lambda>a. - a) (GetMsgSeqs_loop (nat pageMsgSize) 0 minSeq end')"

definition GetSplitResult :: "nat \<Rightarrow> string list \<Rightarrow> string list list outcome" where
  "GetSplitResult splitCount data =
     (if splitCount = 0 then Panic ''integer divide by zero''
      else
        let remain = length data mod splitCount;
            integer = length data div splitCount;
            full = map (\<lambda>i. take splitCount (drop (i * splitCount) data)) [0..<integer]
        in Ok (if remain > 0 then full @ [drop (integer * splitCount) data] else full))"

section \<open>Deduplication: one contract, three implementations\<close>

text \<open>What a deduplicating routine promises.\<close>

locale dedup =
  fixes dd :: "'e list \<Rightarrow> 'e list"
  assumes dd_set: "set (dd xs) = set xs"
    and dd_distinct: "distinct (dd xs)"
    and dd_subseq: "subseq (dd xs) xs"
begin

lemma dd_length: "length (dd xs) = card (set xs)"
  by (metis dd_distinct dd_set distinct_card)

lemma dd_id_iff: "dd xs = xs \<longleftrightarrow> distinct xs"
  by (metis dd_distinct dd_length dd_subseq distinct_card subseq_same_length)

lemma dd_idem: "dd (dd xs) = dd xs"
  by (simp add: dd_id_iff dd_distinct)

lemma dd_mset_le: "mset (dd xs) \<subseteq># mset xs"
  by (metis dd_distinct dd_set distinct_count_atmost_1 less_eq_multiset_def mset_subset_eqI
      set_mset_mset count_greater_eq_one_iff le_zero_eq nat_le_linear not_one_le_zero
      count_eq_zero_iff)

end

lemma DistinctAny_loop_keys: "set (map fn (DistinctAny_loop tmp fn es)) = fn ` set es - tmp"
  by (induction es arbitrary: tmp) auto

lemma DistinctAny_loop_distinct: "distinct (map fn (DistinctAny_loop tmp fn es))"
proof (induction es arbitrary: tmp)
  case (Cons e es)
  have "fn e \<notin> set (map fn (DistinctAny_loop (insert (fn e) tmp) fn es))"
    unfolding DistinctAny_loop_keys by simp
  with Cons show ?case by simp
qed simp

lemma DistinctAny_loop_subseq: "subseq (DistinctAny_loop tmp fn es) es"
  by (induction es arbitrary: tmp) auto

lemma DistinctAny_loop_first:
  "e \<in> set (DistinctAny_loop tmp fn es) \<Longrightarrow> List.find (\<lambda>x. fn x = fn e) es = Some e"
proof (induction es arbitrary: tmp)
  case (Cons x es)
  show ?case
  proof (cases "fn x \<in> tmp")
    case True
    have "fn e \<in> set (map fn (DistinctAny_loop tmp fn es))"
      using Cons.prems True by auto
    then have "fn e \<notin> tmp" unfolding DistinctAny_loop_keys by simp
    then show ?thesis using Cons True by auto
  next
    case False
    show ?thesis
    proof (cases "e = x")
      case False
      then have in_rest: "e \<in> set (DistinctAny_loop (insert (fn x) tmp) fn es)"
        using Cons.prems \<open>fn x \<notin> tmp\<close> by auto
      then have "fn e \<in> set (map fn (DistinctAny_loop (insert (fn x) tmp) fn es))" by auto
      then have "fn e \<noteq> fn x" unfolding DistinctAny_loop_keys by simp
      then show ?thesis using Cons.IH [OF in_rest] by auto
    qed simp
  qed
qed simp

lemma RemoveDuplicate_loop_DistinctAny: "RemoveDuplicate_loop t xs = DistinctAny_loop t (\<lambda>x. x) xs"
  by (induction xs arbitrary: t) auto

lemma DistinctAnyGetComparable_loop_DistinctAny:
  "DistinctAnyGetComparable_loop t fn xs = map fn (DistinctAny_loop t fn xs)"
  by (induction xs arbitrary: t) (auto simp: Let_def)

lemma Distinct_eq: "Distinct ts = DistinctAny_loop {} (\<lambda>t. t) ts"
proof -
  consider "ts = []" | a where "ts = [a]" | a b where "ts = [a, b]" | "length ts > 2"
    by (cases ts rule: list.exhaust; cases "tl ts"; cases "tl (tl ts)") auto
  then show ?thesis
    by cases (auto simp: Distinct_def DistinctAny_def)
qed

interpretation Distinct: dedup Distinct
proof
  fix xs :: "'a list"
  show "set (Distinct xs) = set xs"
    using DistinctAny_loop_keys [of "\<lambda>x. x" "{}" xs] by (simp add: Distinct_eq)
  show "distinct (Distinct xs)"
    using DistinctAny_loop_distinct [of "\<lambda>x. x" "{}" xs] by (simp add: Distinct_eq)
  show "subseq (Distinct xs) xs"
    by (simp add: Distinct_eq DistinctAny_loop_subseq)
qed

interpretation RemoveDuplicate: dedup RemoveDuplicate
proof
  fix xs :: "'a list"
  have eq: "RemoveDuplicate xs = Distinct xs"
    by (simp add: RemoveDuplicate_def RemoveDuplicate_loop_DistinctAny Distinct_eq)
  show "set (RemoveDuplicate xs) = set xs" unfolding eq by (rule Distinct.dd_set)
  show "distinct (RemoveDuplicate xs)" unfolding eq by (rule Distinct.dd_distinct)
  show "subseq (RemoveDuplicate xs) xs" unfolding eq by (rule Distinct.dd_subseq)
qed

interpretation RemoveDuplicateElement: dedup RemoveDuplicateElement
proof -
  have "RemoveDuplicateElement = RemoveDuplicate"
    by (rule ext) (simp add: RemoveDuplicateElement_def RemoveDuplicate_def)
  then show "dedup RemoveDuplicateElement"
    using RemoveDuplicate.dedup_axioms by metis
qed

section \<open>Membership\<close>

text \<open>The four spellings of "is it in the slice" agree with list membership.\<close>

locale membership =
  fixes mem :: "'e \<Rightarrow> 'e list \<Rightarrow> bool"
  assumes mem_iff: "mem x xs \<longleftrightarrow> x \<in> set xs"
begin

lemma mem_append: "mem x (xs @ ys) \<longleftrightarrow> mem x xs \<or> mem x ys"
  by (simp add: mem_iff)

lemma mem_Nil: "\<not> mem x []"
  by (simp add: mem_iff)

end

lemma IndexAny_loop_bounds:
  "IndexAny_loop i k fn es = -1 \<and> k \<notin> fn ` set es
   \<or> (\<exists>j < length es. IndexAny_loop i k fn es = int (i + j) \<and> fn (es ! j) = k
        \<and> (\<forall>l < j. fn (es ! l) \<noteq> k))"
proof (induction es arbitrary: i)
  case (Cons e es)
  show ?case
  proof (cases "fn e = k")
    case True
    then show ?thesis by (intro disjI2 exI [of _ 0]) simp
  next
    case False
    from Cons [of "Suc i"] show ?thesis
    proof
      assume "\<exists>j < length es. IndexAny_loop (Suc i) k fn es = int (Suc i + j) \<and> fn (es ! j) = k
        \<and> (\<forall>l < j. fn (es ! l) \<noteq> k)"
      then obtain j where j: "j < length es" "IndexAny_loop (Suc i) k fn es = int (Suc i + j)"
        "fn (es ! j) = k" "\<forall>l < j. fn (es ! l) \<noteq> k" by blast
      then show ?thesis using False
        by (intro disjI2 exI [of _ "Suc j"]) (auto simp: nth_Cons split: nat.splits)
    qed (use False in auto)
  qed
qed simp

interpretation Contain: membership Contain
proof
  fix x :: 'a and xs
  show "Contain x xs \<longleftrightarrow> x \<in> set xs"
    using IndexAny_loop_bounds [of 0 x "\<lambda>t. t" xs]
    by (auto simp: Contain_def IndexOf_def IndexAny_def)
qed

interpretation IsContain: membership IsContain
proof
  fix x xs
  show "IsContain x xs \<longleftrightarrow> x \<in> set xs" by (induction xs) auto
qed

interpretation IsContainInt: membership IsContainInt
proof
  fix x xs
  show "IsContainInt x xs \<longleftrightarrow> x \<in> set xs" by (induction xs) auto
qed

lemmas contain_iff [simp] = Contain.mem_iff IsContain.mem_iff IsContainInt.mem_iff

text \<open>The keys of the map in \<open>Single\<close>, for evaluation.\<close>

lemma Single_code [code]:
  "Single ord a b =
     (let bump = (\<lambda>e kn. kn(e \<mapsto> (case kn e of None \<Rightarrow> 1 | Some n \<Rightarrow> Suc n)));
          kn = fold bump (Distinct b) (fold bump (Distinct a) Map.empty)
      in filter (\<lambda>k. kn k = Some 1) (ord (set (Distinct a) \<union> set (Distinct b))))"
proof -
  have dom: "dom (fold (\<lambda>e kn. kn(e \<mapsto> (case kn e of None \<Rightarrow> 1 | Some n \<Rightarrow> Suc n))) xs m) = dom m \<union> set xs"
    for xs and m :: "'a \<rightharpoonup> nat"
    by (induction xs arbitrary: m) auto
  show ?thesis by (simp add: Single_def Let_def dom)
qed

end
