(* ===== verification/SliceFacts.thy ===== *)
theory SliceFacts
  imports SliceUtils "HOL-Library.Multiset"
begin

text \<open>
  What the slice helpers of \<open>SliceUtils\<close> compute: deduplication, set operations, pagination,
  splitting, reordering and windows of sequence numbers.
\<close>

text \<open>
  \<open>DistinctAny\<close> keeps exactly one element per key, the first one, in the original
  order: the keys of the result are the keys of the input, no key occurs twice, the result is
  a subsequence of the input, and each kept element is the first of the input with its key.
\<close>

theorem DistinctAny_correct:
  "set (map fn (DistinctAny es fn)) = fn ` set es
   \<and> distinct (map fn (DistinctAny es fn))
   \<and> subseq (DistinctAny es fn) es
   \<and> list_all (\<lambda>e. List.find (\<lambda>x. fn x = fn e) es = Some e) (DistinctAny es fn)
   \<and> DistinctAnyGetComparable es fn = map fn (DistinctAny es fn)"
  using DistinctAny_loop_keys [of fn "{}" es]
  by (auto simp: DistinctAny_def DistinctAnyGetComparable_def list_all_iff
      DistinctAnyGetComparable_loop_DistinctAny DistinctAny_loop_distinct
      DistinctAny_loop_subseq dest: DistinctAny_loop_first)

lemma SliceSub_loop_set: "set (SliceSub_loop k t es) = set es - k - t"
  by (induction es arbitrary: t) auto

lemma SliceSub_loop_distinct: "distinct (SliceSub_loop k t es)"
  by (induction es arbitrary: t) (auto simp: SliceSub_loop_set)

lemma Intersect_loop_filter: "Intersect_loop m xs = filter (\<lambda>v. v \<in> m) xs"
  by (induction xs) auto

lemma DifferenceString_set: "set (DifferenceString a b) = (set a - set b) \<union> (set b - set a)"
  by (auto simp: DifferenceString_def IntersectString_def Intersect_loop_filter Let_def)

lemma bump_fold:
  "distinct xs \<Longrightarrow> fold (\<lambda>e kn. kn(e \<mapsto> (case kn e of None \<Rightarrow> 1 | Some n \<Rightarrow> Suc n))) xs m
   = (\<lambda>k. if k \<in> set xs then Some (case m k of None \<Rightarrow> 1 | Some n \<Rightarrow> Suc n) else m k)"
  by (induction xs arbitrary: m) (auto simp: fun_eq_iff)

lemma Single_set:
  assumes "iter_order ord"
  shows "set (Single ord a b) = (set a - set b) \<union> (set b - set a) \<and> distinct (Single ord a b)"
proof -
  define kn where "kn = fold (\<lambda>e kn. kn(e \<mapsto> (case kn e of None \<Rightarrow> 1 | Some n \<Rightarrow> Suc n))) (Distinct b)
      (fold (\<lambda>e kn. kn(e \<mapsto> (case kn e of None \<Rightarrow> (1::nat) | Some n \<Rightarrow> Suc n))) (Distinct a) Map.empty)"
  have kn: "kn = (\<lambda>k. if k \<in> set b then Some (if k \<in> set a then 2 else 1)
                     else if k \<in> set a then Some 1 else None)"
    unfolding kn_def
    by (auto simp: bump_fold [OF Distinct.dd_distinct] Distinct.dd_set fun_eq_iff)
  have dom: "dom kn = set a \<union> set b" by (auto simp: kn split: if_splits)
  have "Single ord a b = filter (\<lambda>k. kn k = Some 1) (ord (dom kn))"
    by (simp add: Single_def kn_def Let_def)
  moreover have "finite (dom kn)" by (simp add: dom)
  ultimately show ?thesis
    using assms dom by (auto simp: kn split: if_splits)
qed

text \<open>
  The set operations compute what their comments say: \<open>SliceSub\<close> the difference,
  \<open>DifferenceString\<close> and \<open>Single\<close> the symmetric difference, \<open>Complete\<close> equality up
  to order and repetition, whatever order Go iterates the counting map in.
\<close>

theorem slice_algebra_correct:
  assumes "iter_order ord"
  shows "set (SliceSub a b) = set a - set b
    \<and> set (DifferenceString sa sb) = (set sa - set sb) \<union> (set sb - set sa)
    \<and> set (Single ord a b) = (set a - set b) \<union> (set b - set a)
    \<and> (Complete ord a b \<longleftrightarrow> set a = set b)"
proof (intro conjI)
  show "set (SliceSub a b) = set a - set b"
    by (simp add: SliceSub_def SliceSub_loop_set)
  show "set (Single ord a b) = (set a - set b) \<union> (set b - set a)"
    using Single_set [OF assms] by blast
  then have "set (Single ord a b) = {} \<longleftrightarrow> set a = set b"
    by (metis Diff_eq_empty_iff Un_empty subset_antisym subset_refl)
  then show "Complete ord a b \<longleftrightarrow> set a = set b"
    by (simp add: Complete_def)
qed (rule DifferenceString_set)

theorem slice_algebra_correct_witness:
  "set (SliceSub [3, 1, 1, 2 :: nat] [2]) = {3, 1}
   \<and> Complete sorted_list_of_set [3, 1, 1, 2 :: nat] [2] = False"
proof -
  have "(set [3, 1, 1, 2 :: nat] = set [2]) = False" by simp
  then show ?thesis
    using slice_algebra_correct [OF iter_order_sorted, of "[3, 1, 1, 2 :: nat]" "[2]" "[]" "[]"]
    by (simp add: insert_Diff_if)
qed

text \<open>\<open>SliceSub\<close> deduplicates its result, but not when nothing is to be removed.\<close>

lemma SliceSub_distinct: "b \<noteq> [] \<Longrightarrow> distinct (SliceSub a b)"
  by (simp add: SliceSub_def SliceSub_loop_distinct)

subsection \<open>Pagination\<close>

definition page_ok :: "'e list \<Rightarrow> int \<Rightarrow> int \<Rightarrow> bool" where
  "page_ok es p n \<longleftrightarrow> 0 < p \<and> 0 < n \<and> p < 2 ^ 31 \<and> n < 2 ^ 31 \<and> int (length es) < 2 ^ 62"

lemma page_product: "0 \<le> a \<Longrightarrow> a < 2 ^ 31 \<Longrightarrow> 0 < n \<Longrightarrow> n < 2 ^ 31 \<Longrightarrow> 0 \<le> a * n \<and> a * n < (2 ^ 62 :: int)"
proof -
  assume a: "0 \<le> a" "a < 2 ^ 31" "0 < n" "n < (2 ^ 31 :: int)"
  then have "a * n < 2 ^ 31 * 2 ^ 31" by (intro mult_strict_mono) auto
  with a show ?thesis by simp
qed

lemma Paginate_eq:
  assumes "page_ok es p n"
  shows "Paginate es p n = Ok (take (nat n) (drop (nat ((p - 1) * n)) es))"
proof -
  have b: "0 \<le> (p - 1) * n \<and> (p - 1) * n < 2 ^ 62"
    using assms page_product [of "p - 1" n] by (auto simp: page_ok_def)
  have "sub64 p 1 = p - 1"
    using assms by (simp add: page_ok_def sub64_exact int64_def)
  moreover have "mul64 (p - 1) n = (p - 1) * n"
    by (rule mul64_exact, unfold int64_def) (use b in simp)
  ultimately have start: "mul64 (sub64 p 1) n = (p - 1) * n" by simp
  have stop: "add64 ((p - 1) * n) n = (p - 1) * n + n"
  proof (rule add64_exact)
    obtain x where x: "(p - 1) * n = x" by simp
    show "int64 ((p - 1) * n + n)"
      using assms b unfolding x by (simp add: int64_def page_ok_def)
  qed
  obtain x where x: "(p - 1) * n = x" by simp
  have pos: "0 < p" "0 < n" "0 \<le> x" using assms b unfolding x by (simp_all add: page_ok_def)
  have len: "nat ((if x + n > int (length es) then int (length es) else x + n) - x)
      = (if x + n > int (length es) then length es - nat x else nat n)"
    using pos by auto
  have all: "take (nat n) (drop (nat x) es) = drop (nat x) es" if "x + n > int (length es)"
    using that pos by (intro take_all) simp
  show ?thesis
    unfolding Paginate_def Let_def start stop unfolding x len using pos all
    by auto
qed

lemma concat_pages:
  "concat (map (\<lambda>i. take m (drop (i * m) es)) [0..<k]) = take (k * m) es"
proof (induction k)
  case (Suc k)
  have "take (k * m) es @ take m (drop (k * m) es) = take (k * m + m) es"
    by (metis take_add)
  with Suc show ?case by (simp add: add.commute)
qed simp

text \<open>
  Pagination loses and repeats nothing: for page numbers and sizes that fit an
  \<open>int32\<close>, as every request carries, \<open>Paginate\<close> never panics, and the first \<open>k\<close>
  pages, concatenated, are the first \<open>k * n\<close> elements.
\<close>

theorem Paginate_pages:
  assumes "0 < n" "n < 2 ^ 31" "k < 2 ^ 31" "int (length es) < 2 ^ 62"
  shows "\<exists>pages. map (\<lambda>p. Paginate es (int p) n) [1..<Suc k] = map Ok pages
           \<and> concat pages = take (k * nat n) es"
proof -
  let ?page = "\<lambda>i. take (nat n) (drop (i * nat n) es)"
  have "Paginate es (int p) n = Ok (?page (p - 1))" if "p \<in> set [1..<Suc k]" for p
  proof -
    have "page_ok es (int p) n" using that assms by (auto simp: page_ok_def)
    moreover have "nat ((int p - 1) * n) = (p - 1) * nat n"
    proof -
      from that have "1 \<le> p" by (simp only: set_upt atLeastLessThan_iff)
      then obtain q where "p = Suc q" by (cases p) auto
      then show ?thesis using assms(1) by (simp add: nat_mult_distrib)
    qed
    ultimately show ?thesis by (simp add: Paginate_eq)
  qed
  then have "map (\<lambda>p. Paginate es (int p) n) [1..<Suc k] = map (\<lambda>p. Ok (?page (p - 1))) [1..<Suc k]"
    by (intro map_cong) auto
  also have "\<dots> = map (\<lambda>i. Ok (?page i)) [0..<k]"
    by (simp only: map_Suc_upt [symmetric] map_map One_nat_def) (simp add: comp_def)
  finally show ?thesis
    using concat_pages [of "nat n" es k] by (intro exI [of _ "map ?page [0..<k]"]) simp
qed

theorem Paginate_pages_witness:
  "\<exists>pages. map (\<lambda>p. Paginate [7, 8, 9 :: nat] (int p) 2) [1..<3] = map Ok pages
     \<and> concat pages = [7, 8, 9]"
  using Paginate_pages [of 2 2 "[7, 8, 9 :: nat]"] by (simp add: numeral_3_eq_3)

subsection \<open>Splitting\<close>

text \<open>
  \<open>GetSplitResult\<close> cuts the data into consecutive pieces: put back together they are
  the data, every piece is non-empty and at most \<open>splitCount\<close> long, and all but the last
  are exactly that long.
\<close>

theorem GetSplitResult_correct:
  assumes "0 < splitCount"
  shows "\<exists>pieces. GetSplitResult splitCount data = Ok pieces \<and> concat pieces = data
     \<and> list_all (\<lambda>p. p \<noteq> [] \<and> length p \<le> splitCount) pieces
     \<and> list_all (\<lambda>p. length p = splitCount) (butlast pieces)"
proof -
  let ?k = "length data div splitCount"
  let ?full = "map (\<lambda>i. take splitCount (drop (i * splitCount) data)) [0..<?k]"
  have full_len: "length p = splitCount" if p: "p \<in> set ?full" for p
  proof -
    obtain i where i: "i < ?k" "p = take splitCount (drop (i * splitCount) data)"
      using p by auto
    then have "Suc i * splitCount \<le> ?k * splitCount" by (intro mult_le_mono1) simp
    also have "\<dots> \<le> length data" by simp
    finally show ?thesis using i by simp
  qed
  have nz: "\<forall>p \<in> set ?full. p \<noteq> [] \<and> length p \<le> splitCount"
  proof
    fix p assume "p \<in> set ?full"
    then have "length p = splitCount" by (rule full_len)
    with assms show "p \<noteq> [] \<and> length p \<le> splitCount" by auto
  qed
  have len: "?k * splitCount + length data mod splitCount = length data" by simp
  show ?thesis
  proof (cases "length data mod splitCount = 0")
    case True
    with len have "take (?k * splitCount) data = data" by simp
    then have "GetSplitResult splitCount data = Ok ?full \<and> concat ?full = data"
      using True assms by (simp add: GetSplitResult_def Let_def concat_pages)
    moreover have "list_all (\<lambda>p. length p = splitCount) (butlast ?full)"
      unfolding list_all_iff by (intro ballI full_len) (rule in_set_butlastD)
    ultimately show ?thesis
      using nz unfolding list_all_iff by blast
  next
    case False
    then have rest: "length (drop (?k * splitCount) data) = length data mod splitCount"
      by (simp add: minus_div_mult_eq_mod)
    have "length data mod splitCount < splitCount" using assms by simp
    then have "drop (?k * splitCount) data \<noteq> [] \<and> length (drop (?k * splitCount) data) \<le> splitCount"
      using rest False by (auto simp del: length_drop)
    then have "\<forall>p \<in> set (?full @ [drop (?k * splitCount) data]). p \<noteq> [] \<and> length p \<le> splitCount"
      using nz by (auto simp del: set_map)
    moreover have "GetSplitResult splitCount data = Ok (?full @ [drop (?k * splitCount) data])"
      using False assms by (simp add: GetSplitResult_def Let_def)
    moreover have "concat (?full @ [drop (?k * splitCount) data]) = data"
      by (simp add: concat_pages)
    moreover have "\<forall>p \<in> set (butlast (?full @ [drop (?k * splitCount) data])). length p = splitCount"
      unfolding butlast_snoc by (intro ballI full_len)
    ultimately show ?thesis unfolding list_all_iff by blast
  qed
qed

theorem GetSplitResult_correct_witness:
  "\<exists>pieces. GetSplitResult 2 [''a'', ''b'', ''c''] = Ok pieces \<and> concat pieces = [''a'', ''b'', ''c'']"
  using GetSplitResult_correct [of 2 "[''a'', ''b'', ''c'']"] by auto

subsection \<open>Reordering\<close>

lemma Order_group:
  "fold (\<lambda>t kv. kv(fn t \<mapsto> (case kv (fn t) of None \<Rightarrow> [] | Some vs \<Rightarrow> vs) @ [t])) ts kv
   = (\<lambda>k. let new = filter (\<lambda>t. fn t = k) ts in
          if new = [] then kv k
          else Some ((case kv k of None \<Rightarrow> [] | Some vs \<Rightarrow> vs) @ new))"
  by (induction ts arbitrary: kv) (auto simp: Let_def fun_eq_iff split: option.splits)

lemma Order_take_eq:
  "Order_take es kv =
     (concat (map (\<lambda>e. case kv e of None \<Rightarrow> [] | Some vs \<Rightarrow> vs) (Distinct es)),
      \<lambda>k. if k \<in> set es then None else kv k)"
proof -
  have gen: "Order_take es (kv |` (- S)) =
     (concat (map (\<lambda>e. case kv e of None \<Rightarrow> [] | Some vs \<Rightarrow> vs) (DistinctAny_loop S (\<lambda>t. t) es)),
      \<lambda>k. if k \<in> set es then None else (kv |` (- S)) k)" for S
  proof (induction es arbitrary: S)
    case (Cons e es)
    have upd: "(kv |` (- S))(e := None) = kv |` (- insert e S)"
      by (auto simp: restrict_map_def fun_eq_iff)
    have "Order_take (e # es) (kv |` (- S)) =
      ((case (kv |` (- S)) e of None \<Rightarrow> [] | Some vs \<Rightarrow> vs)
         @ fst (Order_take es (kv |` (- insert e S))), snd (Order_take es (kv |` (- insert e S))))"
      by (simp only: Order_take.simps upd Let_def split_beta)
    then show ?case
      unfolding Cons [of "insert e S"]
      by (auto simp: insert_absorb restrict_map_def fun_eq_iff)
  qed (simp add: fun_eq_iff)
  have "kv |` (- {}) = kv" by (simp add: restrict_map_def)
  from gen [of "{}", unfolded this] show ?thesis by (simp add: Distinct_eq)
qed

lemma mset_concat_filter_keys:
  "distinct ks \<Longrightarrow> mset (concat (map (\<lambda>k. filter (\<lambda>t. fn t = k) ts) ks))
     = filter_mset (\<lambda>t. fn t \<in> set ks) (mset ts)"
proof (induction ks)
  case (Cons k ks)
  have "filter_mset (\<lambda>t. fn t = k) (mset ts) + filter_mset (\<lambda>t. fn t \<in> set ks) (mset ts)
      = filter_mset (\<lambda>t. fn t \<in> insert k (set ks)) (mset ts)"
    using Cons.prems by (intro multiset_eqI) auto
  with Cons show ?case by simp
qed simp

text \<open>
  \<open>Order\<close> sorts a slice by the order of a list of keys without losing, inventing or
  reordering anything else: the result is a permutation of the input, it begins with the
  elements of the listed keys, in the order of the list, each group in its original order,
  and the elements of keys that are not listed come last, in whatever order the map is
  iterated.
\<close>

theorem Order_correct:
  assumes ord: "iter_order ord" and nonempty: "es \<noteq> []" "ts \<noteq> []"
  shows "mset (Order ord es ts fn) = mset ts
    \<and> prefix (concat (map (\<lambda>e. filter (\<lambda>t. fn t = e) ts) (Distinct es))) (Order ord es ts fn)"
proof -
  let ?kv = "\<lambda>k. let new = filter (\<lambda>t. fn t = k) ts in if new = [] then None else Some new"
  let ?rest = "\<lambda>k. if k \<in> set es then None else ?kv k"
  have group: "fold (\<lambda>t kv. kv(fn t \<mapsto> (case kv (fn t) of None \<Rightarrow> [] | Some vs \<Rightarrow> vs) @ [t])) ts Map.empty = ?kv"
    by (subst Order_group) (auto simp: fun_eq_iff Let_def)
  have val: "(case ?kv e of None \<Rightarrow> [] | Some vs \<Rightarrow> vs) = filter (\<lambda>t. fn t = e) ts" for e
    by (auto simp: Let_def)
  have dom: "dom ?rest = fn ` set ts - set es"
    by (auto simp: dom_def Let_def filter_eq_Nil_iff split: if_splits)
  have fin: "finite (dom ?rest)" unfolding dom by simp
  have tail: "map (\<lambda>k. the (?rest k)) (ord (dom ?rest)) = map (\<lambda>k. filter (\<lambda>t. fn t = k) ts) (ord (dom ?rest))"
  proof (rule map_cong [OF refl])
    fix k assume "k \<in> set (ord (dom ?rest))"
    then have "k \<in> dom ?rest" using ord fin by simp
    then show "the (?rest k) = filter (\<lambda>t. fn t = k) ts"
      by (auto simp: dom_def Let_def split: if_splits)
  qed
  have eq: "Order ord es ts fn = concat (map (\<lambda>e. filter (\<lambda>t. fn t = e) ts) (Distinct es))
      @ concat (map (\<lambda>k. filter (\<lambda>t. fn t = k) ts) (ord (dom ?rest)))"
    using nonempty
    by (simp only: Order_def group Order_take_eq val Let_def tail [unfolded Let_def]) (simp add: tail [unfolded Let_def] val [unfolded Let_def])
  have "mset (Order ord es ts fn) = filter_mset (\<lambda>t. fn t \<in> set es) (mset ts)
      + filter_mset (\<lambda>t. fn t \<in> fn ` set ts - set es) (mset ts)"
    unfolding eq mset_append
    using mset_concat_filter_keys [OF Distinct.dd_distinct, of fn ts es]
      mset_concat_filter_keys [of "ord (dom ?rest)" fn ts] ord fin
    by (simp add: Distinct.dd_set dom)
  also have "\<dots> = mset ts"
    by (rule multiset_eqI) (auto simp: count_eq_zero_iff)
  finally show ?thesis unfolding eq by simp
qed

theorem Order_correct_witness:
  "mset (Order sorted_list_of_set [2, 1] [10, 21, 12 :: nat] (\<lambda>t. t mod 10)) = mset [10, 21, 12]"
  using Order_correct [OF iter_order_sorted, of "[2, 1 :: nat]" "[10, 21, 12 :: nat]" "\<lambda>t. t mod 10"]
  by simp

subsection \<open>Sequence windows\<close>

lemma GetMsgSeqs_loop_eq:
  assumes "int64 end'" "int64 minSeq" "0 \<le> i" "i + int n < 2 ^ 62" "- (2 ^ 62) \<le> minSeq"
    "- (2 ^ 61) \<le> end'"
  shows "GetMsgSeqs_loop n i minSeq end' = map (\<lambda>k. end' - i - int k) [0..<min n (nat (end' - i - minSeq + 1))]"
  using assms
proof (induction n arbitrary: i)
  case (Suc n)
  have tmp: "sub64 end' i = end' - i"
    using Suc.prems by (intro sub64_exact) (simp add: int64_def)
  have i1: "add64 i 1 = i + 1"
    using Suc.prems by (intro add64_exact) (simp add: int64_def)
  show ?case
  proof (cases "end' - i < minSeq")
    case False
    have "GetMsgSeqs_loop n (i + 1) minSeq end'
        = map (\<lambda>k. end' - (i + 1) - int k) [0..<min n (nat (end' - (i + 1) - minSeq + 1))]"
      using Suc.prems by (intro Suc.IH) auto
    moreover have "min (Suc n) (nat (end' - i - minSeq + 1)) = Suc (min n (nat (end' - (i + 1) - minSeq + 1)))"
      using False by linarith
    ultimately show ?thesis
      using False by (simp add: tmp i1 map_upt_Suc del: upt_Suc)
  qed (simp add: tmp)
qed simp


end
