(* ===== verification/Constants.thy ===== *)
theory Constants
  imports GoPrelude
begin

text \<open>
  The constants of \<open>pkg/proto/constant\<close> that the modelled code uses, under their source
  names, and the platform tables.  A missing key of a Go map reads as the zero value of its
  element type, which is what the four lookup functions return.
\<close>

section \<open>constant.go\<close>

abbreviation (input) Text :: int where "Text \<equiv> 101"
abbreviation (input) Picture :: int where "Picture \<equiv> 102"
abbreviation (input) Voice :: int where "Voice \<equiv> 103"
abbreviation (input) Video :: int where "Video \<equiv> 104"
abbreviation (input) File :: int where "File \<equiv> 105"
abbreviation (input) AtText :: int where "AtText \<equiv> 106"
abbreviation (input) Merger :: int where "Merger \<equiv> 107"
abbreviation (input) Card :: int where "Card \<equiv> 108"
abbreviation (input) Location :: int where "Location \<equiv> 109"
abbreviation (input) Custom :: int where "Custom \<equiv> 110"
abbreviation (input) Typing :: int where "Typing \<equiv> 113"
abbreviation (input) Quote :: int where "Quote \<equiv> 114"
abbreviation (input) Common :: int where "Common \<equiv> 200"
abbreviation (input) GroupMsg :: int where "GroupMsg \<equiv> 201"
abbreviation (input) SignalMsg :: int where "SignalMsg \<equiv> 202"
abbreviation (input) SignalingNotification :: int where "SignalingNotification \<equiv> 1601"
abbreviation (input) ReactionMessageModifier :: int where "ReactionMessageModifier \<equiv> 121"
abbreviation (input) ReactionMessageDeleter :: int where "ReactionMessageDeleter \<equiv> 122"
abbreviation (input) NotificationBegin :: int where "NotificationBegin \<equiv> 1000"
abbreviation (input) OANotification :: int where "OANotification \<equiv> 1400"
abbreviation (input) GroupDismissedNotification :: int where "GroupDismissedNotification \<equiv> 1511"
abbreviation (input) GroupCreatedNotification :: int where "GroupCreatedNotification \<equiv> 1501"
abbreviation (input) MsgDeleteNotification :: int where "MsgDeleteNotification \<equiv> 1652"
abbreviation (input) MsgRevokeNotification :: int where "MsgRevokeNotification \<equiv> 2101"
abbreviation (input) ClearConversationNotification :: int where "ClearConversationNotification \<equiv> 2101"
abbreviation (input) DeleteMsgsNotification :: int where "DeleteMsgsNotification \<equiv> 2102"
abbreviation (input) ConversationPrivateChatNotification :: int where "ConversationPrivateChatNotification \<equiv> 1701"
abbreviation (input) ConversationUnreadNotification :: int where "ConversationUnreadNotification \<equiv> 1702"
abbreviation (input) BusinessNotification :: int where "BusinessNotification \<equiv> 2001"
abbreviation (input) FriendAddedNotification :: int where "FriendAddedNotification \<equiv> 1204"
abbreviation (input) HasReadReceipt :: int where "HasReadReceipt \<equiv> 2200"
abbreviation (input) NotificationEnd :: int where "NotificationEnd \<equiv> 5000"
abbreviation (input) MsgNormal :: int where "MsgNormal \<equiv> 1"
abbreviation (input) MsgDeleted :: int where "MsgDeleted \<equiv> 4"
abbreviation (input) UserMsgType :: int where "UserMsgType \<equiv> 100"
abbreviation (input) SysMsgType :: int where "SysMsgType \<equiv> 200"
abbreviation (input) SingleChatType :: int where "SingleChatType \<equiv> 1"
abbreviation (input) GroupChatType :: int where "GroupChatType \<equiv> 2"
abbreviation (input) SuperGroupChatType :: int where "SuperGroupChatType \<equiv> 3"
abbreviation (input) NotificationChatType :: int where "NotificationChatType \<equiv> 4"
abbreviation (input) NormalToken :: int where "NormalToken \<equiv> 0"
abbreviation (input) InValidToken :: int where "InValidToken \<equiv> 1"
abbreviation (input) KickedToken :: int where "KickedToken \<equiv> 2"
abbreviation (input) ExpiredToken :: int where "ExpiredToken \<equiv> 3"
abbreviation (input) DefalutNotKick :: int where "DefalutNotKick \<equiv> 0"
abbreviation (input) AllLoginButSameTermKick :: int where "AllLoginButSameTermKick \<equiv> 1"
abbreviation (input) SingleTerminalLogin :: int where "SingleTerminalLogin \<equiv> 2"
abbreviation (input) WebAndOther :: int where "WebAndOther \<equiv> 3"
abbreviation (input) PcMobileAndWeb :: int where "PcMobileAndWeb \<equiv> 4"
abbreviation (input) PCAndOther :: int where "PCAndOther \<equiv> 5"
abbreviation (input) OnlineStatus :: string where "OnlineStatus \<equiv> ''online''"
abbreviation (input) OfflineStatus :: string where "OfflineStatus \<equiv> ''offline''"
abbreviation (input) Online :: int where "Online \<equiv> 1"
abbreviation (input) Offline :: int where "Offline \<equiv> 0"
abbreviation (input) ReceiveMessage :: int where "ReceiveMessage \<equiv> 0"
abbreviation (input) NotReceiveMessage :: int where "NotReceiveMessage \<equiv> 1"
abbreviation (input) ReceiveNotNotifyMessage :: int where "ReceiveNotNotifyMessage \<equiv> 2"
abbreviation (input) IsHistory :: string where "IsHistory \<equiv> ''history''"
abbreviation (input) IsPersistent :: string where "IsPersistent \<equiv> ''persistent''"
abbreviation (input) IsOfflinePush :: string where "IsOfflinePush \<equiv> ''offlinePush''"
abbreviation (input) IsUnreadCount :: string where "IsUnreadCount \<equiv> ''unreadCount''"
abbreviation (input) IsConversationUpdate :: string where "IsConversationUpdate \<equiv> ''conversationUpdate''"
abbreviation (input) IsSenderSync :: string where "IsSenderSync \<equiv> ''senderSync''"
abbreviation (input) IsNotPrivate :: string where "IsNotPrivate \<equiv> ''notPrivate''"
abbreviation (input) IsSenderConversationUpdate :: string where "IsSenderConversationUpdate \<equiv> ''senderConversationUpdate''"
abbreviation (input) IsSenderNotificationPush :: string where "IsSenderNotificationPush \<equiv> ''senderNotificationPush''"
abbreviation (input) IsReactionFromCache :: string where "IsReactionFromCache \<equiv> ''reactionFromCache''"
abbreviation (input) IsNotNotification :: string where "IsNotNotification \<equiv> ''isNotNotification''"
abbreviation (input) IsSendMsg :: string where "IsSendMsg \<equiv> ''isSendMsg''"
abbreviation (input) GroupOk :: int where "GroupOk \<equiv> 0"
abbreviation (input) GroupStatusDismissed :: int where "GroupStatusDismissed \<equiv> 2"
abbreviation (input) GroupStatusMuted :: int where "GroupStatusMuted \<equiv> 3"
abbreviation (input) NormalGroup :: int where "NormalGroup \<equiv> 0"
abbreviation (input) SuperGroup :: int where "SuperGroup \<equiv> 1"
abbreviation (input) WorkingGroup :: int where "WorkingGroup \<equiv> 2"
abbreviation (input) GroupBanPrivateChat :: int where "GroupBanPrivateChat \<equiv> 4"
abbreviation (input) JoinByAdmin :: int where "JoinByAdmin \<equiv> 1"
abbreviation (input) JoinByInvitation :: int where "JoinByInvitation \<equiv> 2"
abbreviation (input) JoinBySearch :: int where "JoinBySearch \<equiv> 3"
abbreviation (input) JoinByQRCode :: int where "JoinByQRCode \<equiv> 4"
abbreviation (input) MsgStatusNotExist :: int where "MsgStatusNotExist \<equiv> 0"
abbreviation (input) MsgIsSending :: int where "MsgIsSending \<equiv> 1"
abbreviation (input) MsgSendSuccessed :: int where "MsgSendSuccessed \<equiv> 2"
abbreviation (input) MsgSendFailed :: int where "MsgSendFailed \<equiv> 3"
abbreviation (input) AtAllString :: string where "AtAllString \<equiv> ''AtAllTag''"
abbreviation (input) AtNormal :: int where "AtNormal \<equiv> 0"
abbreviation (input) AtMe :: int where "AtMe \<equiv> 1"
abbreviation (input) AtAll :: int where "AtAll \<equiv> 2"
abbreviation (input) AtAllAtMe :: int where "AtAllAtMe \<equiv> 3"
abbreviation (input) GroupNotification :: int where "GroupNotification \<equiv> 4"
abbreviation (input) IMOrdinaryUser :: int where "IMOrdinaryUser \<equiv> 0"
abbreviation (input) AppOrdinaryUsers :: int where "AppOrdinaryUsers \<equiv> 1"
abbreviation (input) AppAdmin :: int where "AppAdmin \<equiv> 2"
abbreviation (input) AppNotificationAdmin :: int where "AppNotificationAdmin \<equiv> 3"
abbreviation (input) GroupOwner :: int where "GroupOwner \<equiv> 100"
abbreviation (input) GroupAdmin :: int where "GroupAdmin \<equiv> 60"
abbreviation (input) GroupOrdinaryUsers :: int where "GroupOrdinaryUsers \<equiv> 20"
abbreviation (input) GroupResponseAgree :: int where "GroupResponseAgree \<equiv> 1"
abbreviation (input) GroupResponseRefuse :: int where "GroupResponseRefuse \<equiv> - 1"
abbreviation (input) FriendResponseNotHandle :: int where "FriendResponseNotHandle \<equiv> 0"
abbreviation (input) FriendResponseAgree :: int where "FriendResponseAgree \<equiv> 1"
abbreviation (input) FriendResponseRefuse :: int where "FriendResponseRefuse \<equiv> - 1"
abbreviation (input) BecomeFriendByImport :: int where "BecomeFriendByImport \<equiv> 1"
abbreviation (input) BecomeFriendByApply :: int where "BecomeFriendByApply \<equiv> 2"
abbreviation (input) ApplyNeedVerificationInviteDirectly :: int where "ApplyNeedVerificationInviteDirectly \<equiv> 0"
abbreviation (input) AllNeedVerification :: int where "AllNeedVerification \<equiv> 1"
abbreviation (input) Directly :: int where "Directly \<equiv> 2"
abbreviation (input) UnreliableNotification :: int where "UnreliableNotification \<equiv> 1"
abbreviation (input) ReliableNotificationNoMsg :: int where "ReliableNotificationNoMsg \<equiv> 2"
abbreviation (input) ReliableNotificationMsg :: int where "ReliableNotificationMsg \<equiv> 3"
abbreviation (input) WriteDiffusion :: int where "WriteDiffusion \<equiv> 0"
abbreviation (input) ReadDiffusion :: int where "ReadDiffusion \<equiv> 1"
abbreviation (input) Revoke :: int where "Revoke \<equiv> 111"
abbreviation (input) UserStatusChangeNotification :: int where "UserStatusChangeNotification \<equiv> 1304"
abbreviation (input) UserInfoUpdatedNotification :: int where "UserInfoUpdatedNotification \<equiv> 1303"
abbreviation (input) FriendApplicationNotification :: int where "FriendApplicationNotification \<equiv> 1203"
abbreviation (input) FriendApplicationApprovedNotification :: int where "FriendApplicationApprovedNotification \<equiv> 1201"
abbreviation (input) FriendApplicationRejectedNotification :: int where "FriendApplicationRejectedNotification \<equiv> 1202"
abbreviation (input) FriendDeletedNotification :: int where "FriendDeletedNotification \<equiv> 1205"
abbreviation (input) FriendRemarkSetNotification :: int where "FriendRemarkSetNotification \<equiv> 1206"
abbreviation (input) BlackAddedNotification :: int where "BlackAddedNotification \<equiv> 1207"
abbreviation (input) BlackDeletedNotification :: int where "BlackDeletedNotification \<equiv> 1208"
abbreviation (input) FriendInfoUpdatedNotification :: int where "FriendInfoUpdatedNotification \<equiv> 1209"
abbreviation (input) FriendsInfoUpdateNotification :: int where "FriendsInfoUpdateNotification \<equiv> 1210"
abbreviation (input) ConversationChangeNotification :: int where "ConversationChangeNotification \<equiv> 1300"
abbreviation (input) SuperGroupUpdateNotification :: int where "SuperGroupUpdateNotification \<equiv> 1651"
abbreviation (input) GroupInfoSetNotification :: int where "GroupInfoSetNotification \<equiv> 1502"
abbreviation (input) JoinGroupApplicationNotification :: int where "JoinGroupApplicationNotification \<equiv> 1503"
abbreviation (input) MemberQuitNotification :: int where "MemberQuitNotification \<equiv> 1504"
abbreviation (input) GroupApplicationAcceptedNotification :: int where "GroupApplicationAcceptedNotification \<equiv> 1505"
abbreviation (input) GroupApplicationRejectedNotification :: int where "GroupApplicationRejectedNotification \<equiv> 1506"
abbreviation (input) GroupOwnerTransferredNotification :: int where "GroupOwnerTransferredNotification \<equiv> 1507"
abbreviation (input) MemberKickedNotification :: int where "MemberKickedNotification \<equiv> 1508"
abbreviation (input) MemberInvitedNotification :: int where "MemberInvitedNotification \<equiv> 1509"
abbreviation (input) MemberEnterNotification :: int where "MemberEnterNotification \<equiv> 1510"
abbreviation (input) GroupMutedNotification :: int where "GroupMutedNotification \<equiv> 1514"
abbreviation (input) GroupCancelMutedNotification :: int where "GroupCancelMutedNotification \<equiv> 1515"
abbreviation (input) GroupMemberMutedNotification :: int where "GroupMemberMutedNotification \<equiv> 1512"
abbreviation (input) GroupMemberCancelMutedNotification :: int where "GroupMemberCancelMutedNotification \<equiv> 1513"
abbreviation (input) GroupMemberInfoSetNotification :: int where "GroupMemberInfoSetNotification \<equiv> 1516"
abbreviation (input) GroupMemberSetToAdminNotification :: int where "GroupMemberSetToAdminNotification \<equiv> 1517"
abbreviation (input) GroupMemberSetToOrdinaryUserNotification :: int where "GroupMemberSetToOrdinaryUserNotification \<equiv> 1518"
abbreviation (input) GroupInfoSetAnnouncementNotification :: int where "GroupInfoSetAnnouncementNotification \<equiv> 1519"
abbreviation (input) GroupInfoSetNameNotification :: int where "GroupInfoSetNameNotification \<equiv> 1520"
abbreviation (input) GroupInfoSetFaceURLNotification :: int where "GroupInfoSetFaceURLNotification \<equiv> 1521"

definition GroupIsBanChat :: "int \<Rightarrow> bool" where
  "GroupIsBanChat status = (if status \<noteq> GroupStatusMuted then False else True)"

definition GroupIsBanPrivateChat :: "int \<Rightarrow> bool" where
  "GroupIsBanPrivateChat status = (if status \<noteq> GroupBanPrivateChat then False else True)"

section \<open>Platforms\<close>

abbreviation (input) IOSPlatformID :: int where "IOSPlatformID \<equiv> 1"
abbreviation (input) AndroidPlatformID :: int where "AndroidPlatformID \<equiv> 2"
abbreviation (input) WindowsPlatformID :: int where "WindowsPlatformID \<equiv> 3"
abbreviation (input) OSXPlatformID :: int where "OSXPlatformID \<equiv> 4"
abbreviation (input) WebPlatformID :: int where "WebPlatformID \<equiv> 5"
abbreviation (input) MiniWebPlatformID :: int where "MiniWebPlatformID \<equiv> 6"
abbreviation (input) LinuxPlatformID :: int where "LinuxPlatformID \<equiv> 7"
abbreviation (input) AndroidPadPlatformID :: int where "AndroidPadPlatformID \<equiv> 8"
abbreviation (input) IPadPlatformID :: int where "IPadPlatformID \<equiv> 9"
abbreviation (input) AdminPlatformID :: int where "AdminPlatformID \<equiv> 10"
abbreviation (input) IOSPlatformStr :: string where "IOSPlatformStr \<equiv> ''IOS''"
abbreviation (input) AndroidPlatformStr :: string where "AndroidPlatformStr \<equiv> ''Android''"
abbreviation (input) WindowsPlatformStr :: string where "WindowsPlatformStr \<equiv> ''Windows''"
abbreviation (input) OSXPlatformStr :: string where "OSXPlatformStr \<equiv> ''OSX''"
abbreviation (input) WebPlatformStr :: string where "WebPlatformStr \<equiv> ''Web''"
abbreviation (input) MiniWebPlatformStr :: string where "MiniWebPlatformStr \<equiv> ''MiniWeb''"
abbreviation (input) LinuxPlatformStr :: string where "LinuxPlatformStr \<equiv> ''Linux''"
abbreviation (input) AndroidPadPlatformStr :: string where "AndroidPadPlatformStr \<equiv> ''APad''"
abbreviation (input) IPadPlatformStr :: string where "IPadPlatformStr \<equiv> ''IPad''"
abbreviation (input) AdminPlatformStr :: string where "AdminPlatformStr \<equiv> ''Admin''"
abbreviation (input) TerminalPC :: string where "TerminalPC \<equiv> ''PC''"
abbreviation (input) TerminalMobile :: string where "TerminalMobile \<equiv> ''Mobile''"

definition PlatformID2Name :: "int \<rightharpoonup> string" where
  "PlatformID2Name = map_of
     [(IOSPlatformID, IOSPlatformStr),
      (AndroidPlatformID, AndroidPlatformStr),
      (WindowsPlatformID, WindowsPlatformStr),
      (OSXPlatformID, OSXPlatformStr),
      (WebPlatformID, WebPlatformStr),
      (MiniWebPlatformID, MiniWebPlatformStr),
      (LinuxPlatformID, LinuxPlatformStr),
      (AndroidPadPlatformID, AndroidPadPlatformStr),
      (IPadPlatformID, IPadPlatformStr),
      (AdminPlatformID, AdminPlatformStr)]"

definition PlatformIDToName :: "int \<Rightarrow> string" where
  "PlatformIDToName k = (case PlatformID2Name k of None \<Rightarrow> '''' | Some v \<Rightarrow> v)"

definition PlatformName2ID :: "string \<rightharpoonup> int" where
  "PlatformName2ID = map_of
     [(IOSPlatformStr, IOSPlatformID),
      (AndroidPlatformStr, AndroidPlatformID),
      (WindowsPlatformStr, WindowsPlatformID),
      (OSXPlatformStr, OSXPlatformID),
      (WebPlatformStr, WebPlatformID),
      (MiniWebPlatformStr, MiniWebPlatformID),
      (LinuxPlatformStr, LinuxPlatformID),
      (AndroidPadPlatformStr, AndroidPadPlatformID),
      (IPadPlatformStr, IPadPlatformID),
      (AdminPlatformStr, AdminPlatformID)]"

definition PlatformNameToID :: "string \<Rightarrow> int" where
  "PlatformNameToID k = (case PlatformName2ID k of None \<Rightarrow> 0 | Some v \<Rightarrow> v)"

definition PlatformName2class :: "string \<rightharpoonup> string" where
  "PlatformName2class = map_of
     [(IOSPlatformStr, TerminalMobile),
      (AndroidPlatformStr, TerminalMobile),
      (MiniWebPlatformStr, WebPlatformStr),
      (WebPlatformStr, WebPlatformStr),
      (WindowsPlatformStr, TerminalPC),
      (OSXPlatformStr, TerminalPC),
      (LinuxPlatformStr, TerminalPC)]"

definition PlatformNameToClass :: "string \<Rightarrow> string" where
  "PlatformNameToClass k = (case PlatformName2class k of None \<Rightarrow> '''' | Some v \<Rightarrow> v)"

definition PlatformID2class :: "int \<rightharpoonup> string" where
  "PlatformID2class = map_of
     [(IOSPlatformID, TerminalMobile),
      (AndroidPlatformID, TerminalMobile),
      (MiniWebPlatformID, WebPlatformStr),
      (WebPlatformID, WebPlatformStr),
      (WindowsPlatformID, TerminalPC),
      (OSXPlatformID, TerminalPC),
      (LinuxPlatformID, TerminalPC)]"

definition PlatformIDToClass :: "int \<Rightarrow> string" where
  "PlatformIDToClass k = (case PlatformID2class k of None \<Rightarrow> '''' | Some v \<Rightarrow> v)"

text \<open>The two tables of names are inverse to each other, and the two tables of classes agree.\<close>

lemma PlatformName_round:
  "PlatformID2Name k = Some n \<Longrightarrow> PlatformName2ID n = Some k"
  by (auto simp: PlatformID2Name_def PlatformName2ID_def split: if_splits)

lemma PlatformName2ID_round:
  "PlatformName2ID n = Some k \<Longrightarrow> PlatformID2Name k = Some n"
  by (auto simp: PlatformID2Name_def PlatformName2ID_def split: if_splits)

lemma PlatformID2Name_inject:
  "PlatformID2Name k = Some n \<Longrightarrow> PlatformID2Name l = Some n \<Longrightarrow> k = l"
  by (auto dest!: PlatformName_round)

lemma PlatformClass_agree:
  "PlatformID2Name k = Some n \<Longrightarrow> PlatformID2class k = PlatformName2class n"
  by (auto simp: PlatformID2Name_def PlatformID2class_def PlatformName2class_def split: if_splits)

end
