(* ===== verification/MsgModel.thy ===== *)
theory MsgModel
  imports Constants GoMonad
begin

text \<open>
  The messages of the system: the wire message \<open>sdkws.MsgData\<close>, the stored message of
  \<open>pkg/common/db/table/unrelation/msg.go\<close> and the conversions between them
  (\<open>pkg/common/convert/msg.go\<close>).

  A Go map with keys and values is an optional partial function: \<open>None\<close> is the nil map, on
  which a lookup finds nothing and an assignment panics.  A pointer that the code tests
  against nil is an option.
\<close>

section \<open>Go maps that may be nil\<close>

type_synonym ('k, 'v) gomap = "('k \<rightharpoonup> 'v) option"

definition map_get :: "('k, 'v) gomap \<Rightarrow> 'k \<Rightarrow> 'v option" where
  "map_get m k = (case m of None \<Rightarrow> None | Some f \<Rightarrow> f k)"

definition map_put :: "('k, 'v) gomap \<Rightarrow> 'k \<Rightarrow> 'v \<Rightarrow> ('k, 'v) gomap outcome" where
  "map_put m k v = (case m of
       None \<Rightarrow> Panic ''assignment to entry in nil map''
     | Some f \<Rightarrow> Ok (Some (f(k \<mapsto> v))))"

lemma map_get_simps [simp]: "map_get None k = None" "map_get (Some f) k = f k"
  by (simp_all add: map_get_def)

type_synonym options = "(string, bool) gomap"

section \<open>Wire messages\<close>

record OfflinePushInfo =
  Title :: string
  Desc :: string
  PushEx :: string
  IOSPushSound :: string
  IOSBadgeCount :: bool
  SignalInfo :: string

record MsgData =
  SendID :: string
  RecvID :: string
  GroupID :: string
  ClientMsgID :: string
  ServerMsgID :: string
  SenderPlatformID :: int
  SenderNickname :: string
  SenderFaceURL :: string
  SessionType :: int
  MsgFrom :: int
  ContentType :: int
  Content :: string
  Seq :: int
  SendTime :: int
  CreateTime :: int
  Status :: int
  IsRead :: bool
  Options :: options
  OfflinePush :: "OfflinePushInfo option"
  AtUserIDList :: "string list"
  AttachedInfo :: string
  Ex :: string
  Ip :: string

definition empty_msg :: MsgData where
  "empty_msg = \<lparr> SendID = [], RecvID = [], GroupID = [], ClientMsgID = [], ServerMsgID = [],
     SenderPlatformID = 0, SenderNickname = [], SenderFaceURL = [], SessionType = 0, MsgFrom = 0,
     ContentType = 0, Content = [], Seq = 0, SendTime = 0, CreateTime = 0, Status = 0,
     IsRead = False, Options = None, OfflinePush = None, AtUserIDList = [], AttachedInfo = [],
     Ex = [], Ip = [] \<rparr>"

section \<open>Stored messages\<close>

record RevokeModel =
  RevRole :: int
  RevUserID :: string
  RevNickname :: string
  RevTime :: int

record OfflinePushModel =
  OpmTitle :: string
  OpmDesc :: string
  OpmEx :: string
  OpmIOSPushSound :: string
  OpmIOSBadgeCount :: bool

record MsgDataModel =
  mSendID :: string
  mRecvID :: string
  mGroupID :: string
  mClientMsgID :: string
  mServerMsgID :: string
  mSenderPlatformID :: int
  mSenderNickname :: string
  mSenderFaceURL :: string
  mSessionType :: int
  mMsgFrom :: int
  mContentType :: int
  mContent :: string
  mSeq :: int
  mSendTime :: int
  mCreateTime :: int
  mStatus :: int
  mIsRead :: bool
  mOptions :: options
  mOfflinePush :: "OfflinePushModel option"
  mAtUserIDList :: "string list"
  mAttachedInfo :: string
  mEx :: string

record MsgInfoModel =
  InfoMsg :: "MsgDataModel option"
  InfoRevoke :: "RevokeModel option"
  DelList :: "string list"
  InfoIsRead :: bool

record MsgDocModel =
  DocID :: string
  DocMsg :: "MsgInfoModel list"

section \<open>Conversion\<close>

text \<open>Both functions map nil to nil; their callers pass what a model pointer may be.\<close>

definition OfflinePush_Pb2DB :: "OfflinePushInfo \<Rightarrow> OfflinePushModel" where
  "OfflinePush_Pb2DB p = \<lparr> OpmTitle = Title p, OpmDesc = Desc p, OpmEx = PushEx p,
     OpmIOSPushSound = IOSPushSound p, OpmIOSBadgeCount = IOSBadgeCount p \<rparr>"

definition OfflinePush_DB2Pb :: "OfflinePushModel \<Rightarrow> OfflinePushInfo" where
  "OfflinePush_DB2Pb p = \<lparr> Title = OpmTitle p, Desc = OpmDesc p, PushEx = OpmEx p,
     IOSPushSound = OpmIOSPushSound p, IOSBadgeCount = OpmIOSBadgeCount p, SignalInfo = [] \<rparr>"

definition MsgPb2DB :: "MsgData \<Rightarrow> MsgDataModel" where
  "MsgPb2DB msg = \<lparr> mSendID = SendID msg, mRecvID = RecvID msg, mGroupID = GroupID msg,
     mClientMsgID = ClientMsgID msg, mServerMsgID = ServerMsgID msg,
     mSenderPlatformID = SenderPlatformID msg, mSenderNickname = SenderNickname msg,
     mSenderFaceURL = SenderFaceURL msg, mSessionType = SessionType msg, mMsgFrom = MsgFrom msg,
     mContentType = ContentType msg, mContent = Content msg, mSeq = Seq msg,
     mSendTime = SendTime msg, mCreateTime = CreateTime msg, mStatus = Status msg,
     mIsRead = False, mOptions = Options msg,
     mOfflinePush = map_option OfflinePush_Pb2DB (OfflinePush msg),
     mAtUserIDList = AtUserIDList msg, mAttachedInfo = AttachedInfo msg, mEx = Ex msg \<rparr>"

definition MsgDB2Pb :: "MsgDataModel \<Rightarrow> MsgData" where
  "MsgDB2Pb m = \<lparr> SendID = mSendID m, RecvID = mRecvID m, GroupID = mGroupID m,
     ClientMsgID = mClientMsgID m, ServerMsgID = mServerMsgID m,
     SenderPlatformID = mSenderPlatformID m, SenderNickname = mSenderNickname m,
     SenderFaceURL = mSenderFaceURL m, SessionType = mSessionType m, MsgFrom = mMsgFrom m,
     ContentType = mContentType m, Content = mContent m, Seq = mSeq m,
     SendTime = mSendTime m, CreateTime = mCreateTime m, Status = mStatus m,
     IsRead = (if mSessionType m = SingleChatType then mIsRead m else False),
     Options = mOptions m,
     OfflinePush = map_option OfflinePush_DB2Pb (mOfflinePush m),
     AtUserIDList = mAtUserIDList m, AttachedInfo = mAttachedInfo m, Ex = mEx m, Ip = [] \<rparr>"

lemma OfflinePush_round [simp]: "OfflinePush_Pb2DB (OfflinePush_DB2Pb p) = p"
  by (simp add: OfflinePush_Pb2DB_def OfflinePush_DB2Pb_def)

lemma OfflinePush_round' [simp]: "OfflinePush_DB2Pb (OfflinePush_Pb2DB p) = p\<lparr> SignalInfo := [] \<rparr>"
  by (simp add: OfflinePush_Pb2DB_def OfflinePush_DB2Pb_def)

text \<open>
  C26.  Storing a message and reading it back returns it, except for what the stored model does
  not hold: the read flag, the sender's address and the signalling part of the push info.
  Reading a stored message and storing it again forgets only its read flag.
\<close>

theorem MsgConvert_roundtrip:
  "MsgDB2Pb (MsgPb2DB msg) = msg\<lparr> IsRead := False, Ip := [],
       OfflinePush := map_option (\<lambda>p. p\<lparr> SignalInfo := [] \<rparr>) (OfflinePush msg) \<rparr>
   \<and> MsgPb2DB (MsgDB2Pb m) = m\<lparr> mIsRead := False \<rparr>"
proof
  show "MsgPb2DB (MsgDB2Pb m) = m\<lparr> mIsRead := False \<rparr>"
    by (simp add: MsgPb2DB_def MsgDB2Pb_def option.map_comp comp_def option.map_ident)
  show "MsgDB2Pb (MsgPb2DB msg) = msg\<lparr> IsRead := False, Ip := [],
       OfflinePush := map_option (\<lambda>p. p\<lparr> SignalInfo := [] \<rparr>) (OfflinePush msg) \<rparr>"
    by (simp add: MsgPb2DB_def MsgDB2Pb_def option.map_comp comp_def)
qed

end
