(* ===== verification/MsgOptions.thy ===== *)
theory MsgOptions
  imports MsgModel
begin

text \<open>
  Message options (\<open>pkg/msgprocessor/options.go\<close> and the switch functions of
  \<open>pkg/tools/utils/map.go\<close>): a map of named switches in which a missing key means that
  the switch is on.

  An \<open>OptionsOpt\<close> is a function that assigns into the map; here it returns the updated
  map, or the panic of an assignment into a nil map.
\<close>

type_synonym OptionsOpt = "options \<Rightarrow> options outcome"

fun apply_opts :: "OptionsOpt list \<Rightarrow> options \<Rightarrow> options outcome" where
  "apply_opts [] o' = Ok o'"
| "apply_opts (f # fs) o' = (case f o' of
     Ok o'' \<Rightarrow> apply_opts fs o'' | Err e \<Rightarrow> Err e | Panic p \<Rightarrow> Panic p)"

definition NewOptions_base :: options where
  "NewOptions_base = Some (Map.empty
     (IsNotNotification \<mapsto> False, IsSendMsg \<mapsto> False, IsHistory \<mapsto> False,
      IsPersistent \<mapsto> False, IsOfflinePush \<mapsto> False, IsUnreadCount \<mapsto> False,
      IsConversationUpdate \<mapsto> False, IsSenderSync \<mapsto> True, IsNotPrivate \<mapsto> False,
      IsSenderConversationUpdate \<mapsto> False, IsReactionFromCache \<mapsto> False))"

definition NewOptions :: "OptionsOpt list \<Rightarrow> options outcome" where
  "NewOptions opts = apply_opts opts NewOptions_base"

definition NewMsgOptions :: options where
  "NewMsgOptions = (let options' = Map.empty(IsOfflinePush \<mapsto> False) in Some Map.empty)"

definition WithOptions :: "options \<Rightarrow> OptionsOpt list \<Rightarrow> options outcome" where
  "WithOptions o' opts = apply_opts opts o'"

definition WithNotNotification :: "bool \<Rightarrow> OptionsOpt" where
  "WithNotNotification b = (\<lambda>o'. map_put o' IsNotNotification b)"

definition WithSendMsg :: "bool \<Rightarrow> OptionsOpt" where
  "WithSendMsg b = (\<lambda>o'. map_put o' IsSendMsg b)"

definition WithHistory :: "bool \<Rightarrow> OptionsOpt" where
  "WithHistory b = (\<lambda>o'. map_put o' IsHistory b)"

definition WithPersistent :: OptionsOpt where
  "WithPersistent = (\<lambda>o'. map_put o' IsPersistent True)"

definition WithOfflinePush :: "bool \<Rightarrow> OptionsOpt" where
  "WithOfflinePush b = (\<lambda>o'. map_put o' IsOfflinePush b)"

definition WithUnreadCount :: "bool \<Rightarrow> OptionsOpt" where
  "WithUnreadCount b = (\<lambda>o'. map_put o' IsUnreadCount b)"

definition WithConversationUpdate :: OptionsOpt where
  "WithConversationUpdate = (\<lambda>o'. map_put o' IsConversationUpdate True)"

definition WithSenderSync :: OptionsOpt where
  "WithSenderSync = (\<lambda>o'. map_put o' IsSenderSync True)"

definition WithNotPrivate :: OptionsOpt where
  "WithNotPrivate = (\<lambda>o'. map_put o' IsNotPrivate True)"

definition WithSenderConversationUpdate :: OptionsOpt where
  "WithSenderConversationUpdate = (\<lambda>o'. map_put o' IsSenderConversationUpdate True)"

definition WithReactionFromCache :: OptionsOpt where
  "WithReactionFromCache = (\<lambda>o'. map_put o' IsReactionFromCache True)"

lemmas with_opt_defs = WithNotNotification_def WithSendMsg_def WithHistory_def
  WithPersistent_def WithOfflinePush_def WithUnreadCount_def WithConversationUpdate_def
  WithSenderSync_def WithNotPrivate_def WithSenderConversationUpdate_def
  WithReactionFromCache_def

section \<open>Reading switches\<close>

definition Options_Is :: "options \<Rightarrow> string \<Rightarrow> bool" where
  "Options_Is o' notification = (case map_get o' notification of
     None \<Rightarrow> True | Some v \<Rightarrow> if v then True else False)"

definition Options_IsNotNotification :: "options \<Rightarrow> bool" where
  "Options_IsNotNotification o' = Options_Is o' IsNotNotification"

definition Options_IsSendMsg :: "options \<Rightarrow> bool" where
  "Options_IsSendMsg o' = Options_Is o' IsSendMsg"

definition Options_IsHistory :: "options \<Rightarrow> bool" where
  "Options_IsHistory o' = Options_Is o' IsHistory"

definition Options_IsPersistent :: "options \<Rightarrow> bool" where
  "Options_IsPersistent o' = Options_Is o' IsPersistent"

definition Options_IsOfflinePush :: "options \<Rightarrow> bool" where
  "Options_IsOfflinePush o' = Options_Is o' IsOfflinePush"

definition Options_IsUnreadCount :: "options \<Rightarrow> bool" where
  "Options_IsUnreadCount o' = Options_Is o' IsUnreadCount"

definition Options_IsConversationUpdate :: "options \<Rightarrow> bool" where
  "Options_IsConversationUpdate o' = Options_Is o' IsConversationUpdate"

definition Options_IsSenderSync :: "options \<Rightarrow> bool" where
  "Options_IsSenderSync o' = Options_Is o' IsSenderSync"

definition Options_IsNotPrivate :: "options \<Rightarrow> bool" where
  "Options_IsNotPrivate o' = Options_Is o' IsNotPrivate"

definition Options_IsSenderConversationUpdate :: "options \<Rightarrow> bool" where
  "Options_IsSenderConversationUpdate o' = Options_Is o' IsSenderConversationUpdate"

definition Options_IsReactionFromCache :: "options \<Rightarrow> bool" where
  "Options_IsReactionFromCache o' = Options_Is o' IsReactionFromCache"

definition GetSwitchFromOptions :: "options \<Rightarrow> string \<Rightarrow> bool" where
  "GetSwitchFromOptions o' key =
     (case o' of None \<Rightarrow> True
      | Some m \<Rightarrow> (case m key of None \<Rightarrow> True | Some flag \<Rightarrow> if flag then True else False))"

text \<open>
  \<open>SetSwitchFromOptions\<close> returns nothing: what the caller sees afterwards is the map it
  passed, and a nil map stays nil, because the map made here replaces only the parameter.
\<close>

definition SetSwitchFromOptions :: "options \<Rightarrow> string \<Rightarrow> bool \<Rightarrow> options" where
  "SetSwitchFromOptions o' key v =
     (case o' of None \<Rightarrow> (let local = Map.empty(key \<mapsto> v) in None)
      | Some m \<Rightarrow> Some (m(key \<mapsto> v)))"

lemma Options_Is_iff [simp]: "Options_Is o' k \<longleftrightarrow> map_get o' k \<noteq> Some False"
  by (auto simp: Options_Is_def split: option.splits)

lemma GetSwitch_eq [simp]: "GetSwitchFromOptions o' k = Options_Is o' k"
  by (auto simp: GetSwitchFromOptions_def split: option.splits)

lemma apply_opts_append:
  "apply_opts (fs @ gs) o' = (case apply_opts fs o' of
     Ok o'' \<Rightarrow> apply_opts gs o'' | Err e \<Rightarrow> Err e | Panic p \<Rightarrow> Panic p)"
  by (induction fs arbitrary: o') (auto split: outcome.splits)

definition puts_key :: "OptionsOpt \<Rightarrow> string \<Rightarrow> bool \<Rightarrow> bool" where
  "puts_key f k v \<longleftrightarrow> (\<forall>m. f (Some m) = Ok (Some (m(k \<mapsto> v))))"

lemma puts_key_run: "puts_key f k v \<Longrightarrow> f (Some m) = Ok (Some (m(k \<mapsto> v)))"
  by (simp add: puts_key_def)

lemma apply_opts_puts:
  "list_all2 (\<lambda>f (k, v). puts_key f k v) fs kvs
   \<Longrightarrow> apply_opts fs (Some m) = Ok (Some (m ++ map_of (rev kvs)))"
proof (induction fs kvs arbitrary: m rule: list_all2_induct)
  case (Cons f fs kv kvs)
  obtain k v where kv: "kv = (k, v)" by (cases kv)
  with Cons have "f (Some m) = Ok (Some (m(k \<mapsto> v)))" by (simp add: puts_key_run)
  with Cons show ?case
    by (auto simp: kv map_add_def fun_eq_iff split: option.splits)
qed simp

lemma with_opts_put:
  "puts_key (WithNotNotification b) IsNotNotification b"
  "puts_key (WithSendMsg b) IsSendMsg b"
  "puts_key (WithHistory b) IsHistory b"
  "puts_key WithPersistent IsPersistent True"
  "puts_key (WithOfflinePush b) IsOfflinePush b"
  "puts_key (WithUnreadCount b) IsUnreadCount b"
  "puts_key WithConversationUpdate IsConversationUpdate True"
  "puts_key WithSenderSync IsSenderSync True"
  "puts_key WithNotPrivate IsNotPrivate True"
  "puts_key WithSenderConversationUpdate IsSenderConversationUpdate True"
  "puts_key WithReactionFromCache IsReactionFromCache True"
  by (simp_all add: puts_key_def with_opt_defs map_put_def)

text \<open>
  C29.  The options of a new notification are what its option functions say and nothing else:
  applied to \<open>NewOptions\<close>, setters for the keys \<open>kvs\<close> give a map in which the last
  setting of a key wins, every key set by nobody keeps its default (only the sender is
  synchronised), and a key that options do not have reads as on.
\<close>

theorem NewOptions_Is:
  assumes "list_all2 (\<lambda>f (k, v). puts_key f k v) opts kvs"
  shows "\<exists>o'. NewOptions opts = Ok o'
    \<and> Options_Is o' key = (case map_of (rev kvs) key of
         Some v \<Rightarrow> v
       | None \<Rightarrow> key = IsSenderSync \<or>
           key \<notin> {IsNotNotification, IsSendMsg, IsHistory, IsPersistent, IsOfflinePush,
             IsUnreadCount, IsConversationUpdate, IsNotPrivate, IsSenderConversationUpdate,
             IsReactionFromCache})"
proof -
  obtain base where base: "NewOptions_base = Some base" by (simp add: NewOptions_base_def)
  have "NewOptions opts = Ok (Some (base ++ map_of (rev kvs)))"
    using apply_opts_puts [OF assms] by (simp add: NewOptions_def base)
  moreover have "base key \<noteq> Some False \<longleftrightarrow> key = IsSenderSync \<or>
           key \<notin> {IsNotNotification, IsSendMsg, IsHistory, IsPersistent, IsOfflinePush,
             IsUnreadCount, IsConversationUpdate, IsNotPrivate, IsSenderConversationUpdate,
             IsReactionFromCache}"
    using base by (auto simp: NewOptions_base_def split: if_splits)
  ultimately show ?thesis
    by (auto simp: map_add_def split: option.splits)
qed

theorem NewOptions_Is_witness:
  "\<exists>o'. NewOptions [WithHistory True, WithUnreadCount False] = Ok o' \<and> Options_Is o' IsHistory"
  using NewOptions_Is [of "[WithHistory True, WithUnreadCount False]"
      "[(IsHistory, True), (IsUnreadCount, False)]" IsHistory]
  by (simp add: with_opts_put)

text \<open>\<open>NewMsgOptions\<close> drops the map it prepared: every switch of its result is on.\<close>

lemma NewMsgOptions_all_on: "Options_Is NewMsgOptions k"
  by (simp add: NewMsgOptions_def)

end
