(* ===== verification/ConversationID.thy ===== *)
theory ConversationID
  imports MsgOptions "HOL-Library.Multiset"
begin

text \<open>
  Conversation identifiers (\<open>pkg/msgprocessor/conversation.go\<close> and the generators of
  \<open>pkg/tools/utils/utils.go\<close>).  A conversation id is a prefix, an underscore and the
  participants: everything the server stores is filed under it, so the theorems here ask which
  messages share an id.  The panics of \<open>ids[0]\<close> cannot happen: the length is checked first.
\<close>

section \<open>Definitions\<close>

definition GetNotificationConversationIDByMsg :: "MsgData \<Rightarrow> string" where
  "GetNotificationConversationIDByMsg msg =
     (if SessionType msg = SingleChatType then
        (let l = sort [SendID msg, RecvID msg] in ''n_'' @ join CHR ''_'' l)
      else if SessionType msg = GroupChatType then ''n_'' @ GroupID msg
      else if SessionType msg = SuperGroupChatType then ''n_'' @ GroupID msg
      else if SessionType msg = NotificationChatType then
        ''n_'' @ SendID msg @ ''_'' @ RecvID msg
      else '''')"

definition GetChatConversationIDByMsg :: "MsgData \<Rightarrow> string" where
  "GetChatConversationIDByMsg msg =
     (if SessionType msg = SingleChatType then
        (let l = sort [SendID msg, RecvID msg] in ''si_'' @ join CHR ''_'' l)
      else if SessionType msg = GroupChatType then ''g_'' @ GroupID msg
      else if SessionType msg = SuperGroupChatType then ''sg_'' @ GroupID msg
      else if SessionType msg = NotificationChatType then
        ''sn_'' @ SendID msg @ ''_'' @ RecvID msg
      else '''')"

definition GenConversationUniqueKey :: "MsgData \<Rightarrow> string" where
  "GenConversationUniqueKey msg =
     (if SessionType msg = SingleChatType \<or> SessionType msg = NotificationChatType then
        (let l = sort [SendID msg, RecvID msg] in join CHR ''_'' l)
      else if SessionType msg = SuperGroupChatType then GroupID msg
      else '''')"

definition GetConversationIDByMsg :: "MsgData \<Rightarrow> string" where
  "GetConversationIDByMsg msg =
     (let options = Options msg in
      if SessionType msg = SingleChatType then
        (let l = sort [SendID msg, RecvID msg] in
         if \<not> Options_IsNotNotification options then ''n_'' @ join CHR ''_'' l
         else ''si_'' @ join CHR ''_'' l)
      else if SessionType msg = GroupChatType then
        (if \<not> Options_IsNotNotification options then ''n_'' @ GroupID msg
         else ''g_'' @ GroupID msg)
      else if SessionType msg = SuperGroupChatType then
        (if \<not> Options_IsNotNotification options then ''n_'' @ GroupID msg
         else ''sg_'' @ GroupID msg)
      else if SessionType msg = NotificationChatType then
        (if \<not> Options_IsNotNotification options then ''n_'' @ SendID msg @ ''_'' @ RecvID msg
         else ''sn_'' @ SendID msg @ ''_'' @ RecvID msg)
      else '''')"

definition GetConversationIDBySessionType :: "int \<Rightarrow> string list \<Rightarrow> string" where
  "GetConversationIDBySessionType sessionType ids' =
     (let ids = sort ids' in
      if length ids > 2 \<or> length ids < 1 then ''''
      else if sessionType = SingleChatType then ''si_'' @ join CHR ''_'' ids
      else if sessionType = GroupChatType then ''g_'' @ ids ! 0
      else if sessionType = SuperGroupChatType then ''sg_'' @ ids ! 0
      else if sessionType = NotificationChatType then ''sn_'' @ ids ! 0
      else '''')"

definition GetNotificationConversationIDByConversationID :: "string \<Rightarrow> string" where
  "GetNotificationConversationIDByConversationID conversationID =
     (let l = split_on CHR ''_'' conversationID in
      if length l > 1 then join CHR ''_'' (l[0 := ''n'']) else '''')"

definition GetNotificationConversationID :: "int \<Rightarrow> string list \<Rightarrow> string" where
  "GetNotificationConversationID sessionType ids' =
     (let ids = sort ids' in
      if length ids > 2 \<or> length ids < 1 then ''''
      else if sessionType = SingleChatType then ''n_'' @ join CHR ''_'' ids
      else if sessionType = SuperGroupChatType then ''n_'' @ ids ! 0
      else '''')"

definition IsNotification :: "string \<Rightarrow> bool" where
  "IsNotification conversationID = prefix ''n_'' conversationID"

definition IsNotificationByMsg :: "MsgData \<Rightarrow> bool" where
  "IsNotificationByMsg msg = (\<not> Options_IsNotNotification (Options msg))"

definition ParseConversationID :: "MsgData \<Rightarrow> bool \<times> string" where
  "ParseConversationID msg =
     (let options = Options msg in
      if SessionType msg = SingleChatType then
        (let l = sort [SendID msg, RecvID msg] in
         if \<not> Options_IsNotNotification options then (True, ''n_'' @ join CHR ''_'' l)
         else (False, ''si_'' @ join CHR ''_'' l))
      else if SessionType msg = SuperGroupChatType then
        (if \<not> Options_IsNotNotification options then (True, ''n_'' @ GroupID msg)
         else (False, ''sg_'' @ GroupID msg))
      else if SessionType msg = NotificationChatType then
        (if \<not> Options_IsNotNotification options
         then (True, ''n_'' @ SendID msg @ ''_'' @ RecvID msg)
         else (False, ''sn_'' @ SendID msg @ ''_'' @ RecvID msg))
      else (False, ''''))"

definition MsgBySeq_Less :: "MsgData list \<Rightarrow> nat \<Rightarrow> nat \<Rightarrow> bool" where
  "MsgBySeq_Less s i j = (Seq (s ! i) < Seq (s ! j))"

definition MsgBySeq_Swap :: "MsgData list \<Rightarrow> nat \<Rightarrow> nat \<Rightarrow> MsgData list" where
  "MsgBySeq_Swap s i j = s[i := s ! j, j := s ! i]"

text \<open>\<open>sort.Sort(MsgBySeq(s))\<close>: some sorting permutation; ties are not ordered.\<close>

definition sorts_by_seq :: "MsgData list \<Rightarrow> MsgData list \<Rightarrow> bool" where
  "sorts_by_seq s t \<longleftrightarrow> mset t = mset s \<and>
     (\<forall>j < length t. \<forall>i < j. \<not> MsgBySeq_Less t j i)"

subsection \<open>Generators of the tools library\<close>

definition GenConversationIDForSingle :: "string \<Rightarrow> string \<Rightarrow> string" where
  "GenConversationIDForSingle sendID recvID =
     (let l = sort [sendID, recvID] in ''si_'' @ join CHR ''_'' l)"

definition GenConversationUniqueKeyForGroup :: "string \<Rightarrow> string" where
  "GenConversationUniqueKeyForGroup groupID = groupID"

definition GenGroupConversationID :: "string \<Rightarrow> string" where
  "GenGroupConversationID groupID = ''sg_'' @ groupID"

definition GenConversationUniqueKeyForSingle :: "string \<Rightarrow> string \<Rightarrow> string" where
  "GenConversationUniqueKeyForSingle sendID recvID =
     (let l = sort [sendID, recvID] in join CHR ''_'' l)"

definition GetSelfNotificationConversationID :: "string \<Rightarrow> string" where
  "GetSelfNotificationConversationID userID = ''n_'' @ userID @ ''_'' @ userID"

definition GetHashCode :: "string \<Rightarrow> 32 word" where
  "GetHashCode s = crc32 s"

section \<open>Which messages share a conversation\<close>

text \<open>The abstract conversation of a message: what an id is meant to name.\<close>

datatype conversation =
    SingleConv "string set"
  | GroupConv string
  | SuperGroupConv string
  | SystemConv string string
  | NoConv

definition conversation_of :: "MsgData \<Rightarrow> conversation" where
  "conversation_of msg =
     (if SessionType msg = SingleChatType then SingleConv {SendID msg, RecvID msg}
      else if SessionType msg = GroupChatType then GroupConv (GroupID msg)
      else if SessionType msg = SuperGroupChatType then SuperGroupConv (GroupID msg)
      else if SessionType msg = NotificationChatType then SystemConv (SendID msg) (RecvID msg)
      else NoConv)"

definition plain_users :: "MsgData \<Rightarrow> bool" where
  "plain_users msg \<longleftrightarrow> CHR ''_'' \<notin> set (SendID msg) \<and> CHR ''_'' \<notin> set (RecvID msg)"

lemma join_pair [simp]: "join sep [a, b] = a @ sep # b"
  by simp

lemma sorted_pair_id:
  assumes "CHR ''_'' \<notin> set a" "CHR ''_'' \<notin> set b" "CHR ''_'' \<notin> set c" "CHR ''_'' \<notin> set d"
  shows "join CHR ''_'' (sort [a, b]) = join CHR ''_'' (sort [c, d]) \<longleftrightarrow> {a, b} = {c, d}"
proof -
  have inj: "x @ CHR ''_'' # y = z @ CHR ''_'' # w \<longleftrightarrow> x = z \<and> y = w"
    if "CHR ''_'' \<notin> set x" "CHR ''_'' \<notin> set z" for x y z w :: string
    using append_sep_inject that by metis
  show ?thesis
  proof (cases "a \<le> b"; cases "c \<le> d")
  qed (simp_all only: sort_pair join_pair if_True if_False inj assms not_False_eq_True
      doubleton_eq_iff, auto)
qed

lemma GetConversationIDByMsg_cases:
  "GetConversationIDByMsg msg =
     (if IsNotificationByMsg msg then GetNotificationConversationIDByMsg msg
      else GetChatConversationIDByMsg msg)"
  by (simp add: GetConversationIDByMsg_def IsNotificationByMsg_def Let_def
      GetNotificationConversationIDByMsg_def GetChatConversationIDByMsg_def)

lemma chat_id_prefix:
  "\<not> prefix ''n_'' (GetChatConversationIDByMsg msg)"
  by (auto simp: GetChatConversationIDByMsg_def Let_def)

lemma notification_id_prefix:
  "conversation_of msg \<noteq> NoConv \<Longrightarrow> prefix ''n_'' (GetNotificationConversationIDByMsg msg)"
  by (auto simp: GetNotificationConversationIDByMsg_def conversation_of_def Let_def split: if_splits)

lemma chat_id_faithful:
  assumes "plain_users m1" "plain_users m2"
  shows "GetChatConversationIDByMsg m1 = GetChatConversationIDByMsg m2
           \<longleftrightarrow> conversation_of m1 = conversation_of m2"
proof -
  have pair: "join CHR ''_'' (sort [SendID m1, RecvID m1]) = join CHR ''_'' (sort [SendID m2, RecvID m2])
      \<longleftrightarrow> {SendID m1, RecvID m1} = {SendID m2, RecvID m2}"
    using assms unfolding plain_users_def by (intro sorted_pair_id) auto
  have sys: "SendID m1 @ ''_'' @ RecvID m1 = SendID m2 @ ''_'' @ RecvID m2
      \<longleftrightarrow> SendID m1 = SendID m2 \<and> RecvID m1 = RecvID m2"
    using assms append_sep_inject unfolding plain_users_def by (metis append_Cons append_Nil)
  show ?thesis
    unfolding GetChatConversationIDByMsg_def conversation_of_def Let_def
    using pair sys by (simp del: join.simps sort_pair set_sort)
qed

text \<open>
  C10.  Conversation ids are faithful: two messages, the first not a notification, are filed
  under the same id exactly when neither is a notification and they belong to the same
  conversation: the same unordered pair of users, the same group, or the same system channel.
  User ids must not contain the underscore that separates them.  The second message must have one of the known session types.
\<close>

theorem GetConversationIDByMsg_faithful:
  assumes "plain_users m1" "plain_users m2"
    and "\<not> IsNotificationByMsg m1" "conversation_of m2 \<noteq> NoConv"
  shows "GetConversationIDByMsg m1 = GetConversationIDByMsg m2
           \<longleftrightarrow> \<not> IsNotificationByMsg m2 \<and> conversation_of m1 = conversation_of m2"
proof (cases "IsNotificationByMsg m2")
  case True
  then show ?thesis
    using assms(3) notification_id_prefix [OF assms(4)] chat_id_prefix [of m1]
    by (auto simp: GetConversationIDByMsg_cases)
next
  case False
  with assms chat_id_faithful [of m1 m2] show ?thesis
    by (simp add: GetConversationIDByMsg_cases)
qed

theorem GetConversationIDByMsg_faithful_witness:
  "GetConversationIDByMsg (empty_msg\<lparr> SendID := ''a'', RecvID := ''b'', SessionType := SingleChatType \<rparr>)
   = GetConversationIDByMsg (empty_msg\<lparr> SendID := ''b'', RecvID := ''a'', SessionType := SingleChatType \<rparr>)"
  by (subst GetConversationIDByMsg_faithful)
     (auto simp: plain_users_def IsNotificationByMsg_def Options_IsNotNotification_def
        conversation_of_def empty_msg_def)

text \<open>
  C27.  The ways to find a message's conversation agree: \<open>GetConversationIDByMsg\<close> is the
  notification id for notifications and the chat id otherwise, the notification id is what
  \<open>GetNotificationConversationIDByConversationID\<close> derives from the chat id whatever the
  participants are called, \<open>IsNotification\<close> recognises exactly the ids of notifications, and
  \<open>ParseConversationID\<close> returns the same id and flag for every session type it knows.
\<close>

theorem conversation_id_agree:
  "GetNotificationConversationIDByConversationID (GetChatConversationIDByMsg msg)
     = GetNotificationConversationIDByMsg msg
   \<and> GetConversationIDByMsg msg
     = (if IsNotificationByMsg msg
        then GetNotificationConversationIDByConversationID (GetChatConversationIDByMsg msg)
        else GetChatConversationIDByMsg msg)
   \<and> (conversation_of msg \<noteq> NoConv
       \<longrightarrow> IsNotification (GetConversationIDByMsg msg) = IsNotificationByMsg msg)
   \<and> (conversation_of msg \<noteq> NoConv \<and> SessionType msg \<noteq> GroupChatType
       \<longrightarrow> ParseConversationID msg = (IsNotificationByMsg msg, GetConversationIDByMsg msg))"
proof -
  have derive: "GetNotificationConversationIDByConversationID (p @ ''_'' @ s) = ''n_'' @ s"
    if "CHR ''_'' \<notin> set p" for p s :: string
    using that by (simp add: GetNotificationConversationIDByConversationID_def split_on_append join_Cons)
  have derived: "GetNotificationConversationIDByConversationID (GetChatConversationIDByMsg msg)
     = GetNotificationConversationIDByMsg msg"
    using derive [of "''si''"] derive [of "''g''"] derive [of "''sg''"] derive [of "''sn''"]
    by (simp add: GetChatConversationIDByMsg_def GetNotificationConversationIDByMsg_def Let_def
        GetNotificationConversationIDByConversationID_def)
  moreover have "conversation_of msg \<noteq> NoConv
       \<longrightarrow> IsNotification (GetConversationIDByMsg msg) = IsNotificationByMsg msg"
    using chat_id_prefix notification_id_prefix
    by (simp add: IsNotification_def GetConversationIDByMsg_cases)
  moreover have "conversation_of msg \<noteq> NoConv \<and> SessionType msg \<noteq> GroupChatType
       \<longrightarrow> ParseConversationID msg = (IsNotificationByMsg msg, GetConversationIDByMsg msg)"
    by (simp add: ParseConversationID_def GetConversationIDByMsg_def conversation_of_def
        IsNotificationByMsg_def Let_def)
  ultimately show ?thesis by (simp add: GetConversationIDByMsg_cases)
qed

theorem conversation_id_agree_witness:
  "IsNotification (GetConversationIDByMsg
      (empty_msg\<lparr> GroupID := ''g'', SessionType := SuperGroupChatType,
                   Options := Some (Map.empty(IsNotNotification \<mapsto> False)) \<rparr>))"
proof -
  let ?m = "empty_msg\<lparr> GroupID := ''g'', SessionType := SuperGroupChatType,
                   Options := Some (Map.empty(IsNotNotification \<mapsto> False)) \<rparr>"
  have "conversation_of ?m \<noteq> NoConv" by (simp add: conversation_of_def)
  moreover have "IsNotificationByMsg ?m"
    by (simp add: IsNotificationByMsg_def Options_IsNotNotification_def)
  ultimately show ?thesis using conversation_id_agree [of ?m] by blast
qed

text \<open>
  The id built from a session type and a list of participants is the id of the messages
  exchanged, for a single chat and for groups, but not for the system channel, where only the
  smaller participant is used.
\<close>

lemma GetConversationIDBySessionType_single:
  "SessionType msg = SingleChatType \<Longrightarrow>
   GetConversationIDBySessionType SingleChatType [SendID msg, RecvID msg] = GetChatConversationIDByMsg msg
   \<and> GetNotificationConversationID SingleChatType [SendID msg, RecvID msg]
     = GetNotificationConversationIDByMsg msg
   \<and> GenConversationIDForSingle (SendID msg) (RecvID msg) = GetChatConversationIDByMsg msg"
  by (simp add: GetConversationIDBySessionType_def GetChatConversationIDByMsg_def Let_def
      GetNotificationConversationID_def GetNotificationConversationIDByMsg_def
      GenConversationIDForSingle_def del: sort_pair)

lemma GetConversationIDBySessionType_super:
  "SessionType msg = SuperGroupChatType \<Longrightarrow>
   GetConversationIDBySessionType SuperGroupChatType [GroupID msg] = GetChatConversationIDByMsg msg
   \<and> GenGroupConversationID (GroupID msg) = GetChatConversationIDByMsg msg"
  by (simp add: GetConversationIDBySessionType_def GetChatConversationIDByMsg_def Let_def
      GenGroupConversationID_def)

lemma GetConversationIDBySessionType_system_differs:
  "GetConversationIDBySessionType NotificationChatType [''admin'', ''u1'']
   \<noteq> GetChatConversationIDByMsg (empty_msg\<lparr> SendID := ''admin'', RecvID := ''u1'',
        SessionType := NotificationChatType \<rparr>)"
  by (simp add: GetConversationIDBySessionType_def GetChatConversationIDByMsg_def empty_msg_def)

end
