(* ===== verification/MsgDoc.thy ===== *)
theory MsgDoc
  imports ConversationID
begin

text \<open>
  Where a message lives: the documents of \<open>pkg/common/db/table/unrelation/msg.go\<close>.  A
  conversation's messages are stored in documents of \<open>singleGocMsgNum\<close> slots; the document
  and the slot are computed from the sequence number.  Go's division truncates towards zero,
  so the functions are written with \<open>sdiv\<close> and \<open>smod\<close>.
\<close>

section \<open>Definitions\<close>

abbreviation (input) singleGocMsgNum :: int where "singleGocMsgNum \<equiv> 100"

definition GetSingleGocMsgNum :: int where
  "GetSingleGocMsgNum = singleGocMsgNum"

definition indexGen :: "string \<Rightarrow> int \<Rightarrow> string" where
  "indexGen conversationID seqSuffix = conversationID @ '':'' @ itoa seqSuffix"

definition GetDocID :: "string \<Rightarrow> int \<Rightarrow> string" where
  "GetDocID conversationID seq =
     (let seqSuffix = sub64 seq 1 sdiv singleGocMsgNum in indexGen conversationID seqSuffix)"

definition GetMsgIndex :: "int \<Rightarrow> int" where
  "GetMsgIndex seq = sub64 seq 1 smod singleGocMsgNum"

fun GetDocIDSeqsMap_loop :: "string \<Rightarrow> int list \<Rightarrow> (string \<rightharpoonup> int list) \<Rightarrow> (string \<rightharpoonup> int list)" where
  "GetDocIDSeqsMap_loop c [] t = t"
| "GetDocIDSeqsMap_loop c (s # seqs) t =
     (let docID = GetDocID c s in
      case t docID of
        None \<Rightarrow> GetDocIDSeqsMap_loop c seqs (t(docID \<mapsto> [s]))
      | Some v \<Rightarrow> GetDocIDSeqsMap_loop c seqs (t(docID \<mapsto> v @ [s])))"

definition GetDocIDSeqsMap :: "string \<Rightarrow> int list \<Rightarrow> (string \<rightharpoonup> int list)" where
  "GetDocIDSeqsMap conversationID seqs = GetDocIDSeqsMap_loop conversationID seqs Map.empty"

definition IsFull :: "MsgDocModel \<Rightarrow> bool outcome" where
  "IsFull m = (if DocMsg m = [] then Panic ''index out of range''
               else Ok (InfoMsg (DocMsg m ! (length (DocMsg m) - 1)) \<noteq> None))"

definition GenExceptionMessageBySeqs :: "int list \<Rightarrow> MsgData list" where
  "GenExceptionMessageBySeqs seqs = map (\<lambda>v. empty_msg\<lparr> Seq := v \<rparr>) seqs"

section \<open>Slots\<close>

definition valid_seq :: "int \<Rightarrow> bool" where
  "valid_seq seq \<longleftrightarrow> 0 < seq \<and> seq < 2 ^ 63"

lemma valid_seq_sub: "valid_seq seq \<Longrightarrow> sub64 seq 1 = seq - 1"
  by (rule sub64_exact) (simp add: valid_seq_def int64_def)

lemma sdiv_nonneg: "0 \<le> a \<Longrightarrow> 0 < b \<Longrightarrow> a sdiv b = (a :: int) div b"
  by (cases "a = 0") (simp_all add: signed_divide_int_def)

lemma smod_nonneg: "0 \<le> a \<Longrightarrow> 0 < b \<Longrightarrow> a smod b = (a :: int) mod b"
  by (cases "a = 0") (simp_all add: signed_modulo_int_def)

lemma GetDocID_eq [key_simps]:
  "valid_seq seq \<Longrightarrow> GetDocID c seq = c @ '':'' @ itoa ((seq - 1) div 100)"
  by (simp add: GetDocID_def indexGen_def valid_seq_sub sdiv_nonneg valid_seq_def [of seq])

lemma GetMsgIndex_eq [key_simps]:
  "valid_seq seq \<Longrightarrow> GetMsgIndex seq = (seq - 1) mod 100"
  by (simp add: GetMsgIndex_def valid_seq_sub smod_nonneg valid_seq_def [of seq])

lemma GetMsgIndex_bounds:
  assumes "valid_seq seq" shows "0 \<le> GetMsgIndex seq" "GetMsgIndex seq < 100"
  using assms by (simp_all add: GetMsgIndex_eq)

lemma append_colon_itoa:
  "a @ '':'' @ itoa i = b @ '':'' @ itoa j \<longleftrightarrow> a = b \<and> i = j"
proof
  assume eq: "a @ '':'' @ itoa i = b @ '':'' @ itoa j"
  have "rev (itoa i) @ CHR '':'' # rev a = rev (itoa j) @ CHR '':'' # rev b"
    using arg_cong [OF eq, of rev] by simp
  moreover have "CHR '':'' \<notin> set (rev (itoa i))" "CHR '':'' \<notin> set (rev (itoa j))"
    using itoa_plain by auto
  ultimately have "rev (itoa i) = rev (itoa j) \<and> rev a = rev b"
    by (intro append_sep_inject)
  then show "a = b \<and> i = j" by simp
qed simp

lemma GetDocID_inject:
  "valid_seq s \<Longrightarrow> valid_seq s' \<Longrightarrow>
   GetDocID c s = GetDocID c' s' \<longleftrightarrow> c = c' \<and> (s - 1) div 100 = (s' - 1) div 100"
  by (simp only: GetDocID_eq append_colon_itoa)

lemma slot_unique_helper:
  assumes "valid_seq s" "valid_seq s'"
  shows "GetDocID c s = GetDocID c' s' \<and> GetMsgIndex s = GetMsgIndex s' \<longleftrightarrow> c = c' \<and> s = s'"
proof -
  have "s = s'" if "(s - 1) div 100 = (s' - 1) div 100" "(s - 1) mod 100 = (s' - 1) mod 100"
    using that by (metis diff_add_cancel div_mult_mod_eq)
  then show ?thesis
    using assms GetDocID_inject [OF assms] by (auto simp: GetMsgIndex_eq)
qed

text \<open>
  C9.  Every message has a slot of its own: for sequence numbers from 1 on, the slot index is
  within the document, and two messages, of the same or of different conversations, share a
  document and a slot only if they are the same message.
\<close>

theorem slot_unique:
  assumes "valid_seq s" "valid_seq s'"
  shows "0 \<le> GetMsgIndex s \<and> GetMsgIndex s < GetSingleGocMsgNum
    \<and> (GetDocID c s = GetDocID c' s' \<and> GetMsgIndex s = GetMsgIndex s' \<longleftrightarrow> c = c' \<and> s = s')"
  using slot_unique_helper [OF assms] GetMsgIndex_bounds [OF assms(1)]
  by (simp add: GetSingleGocMsgNum_def)

theorem slot_unique_witness:
  "GetDocID ''si_a_b'' 100 = GetDocID ''si_a_b'' 1 \<and> GetMsgIndex 100 \<noteq> GetMsgIndex 1"
proof -
  have "valid_seq 100" "valid_seq 1" by (simp_all add: valid_seq_def)
  then show ?thesis
    using slot_unique [of 100 1 "''si_a_b''" "''si_a_b''"] by (simp add: GetDocID_inject)
qed

text \<open>At sequence number 0 the index is negative: Go's remainder takes the dividend's sign.\<close>

lemma GetMsgIndex_zero: "GetMsgIndex 0 = -1 \<and> GetDocID c 0 = GetDocID c 1"
  by (simp add: GetMsgIndex_def GetDocID_def sub64_exact int64_def signed_modulo_int_def
      signed_divide_int_def)

section \<open>Grouping by document\<close>

lemma GetDocIDSeqsMap_loop_eq:
  "GetDocIDSeqsMap_loop c seqs t =
     (\<lambda>d. let new = filter (\<lambda>s. GetDocID c s = d) seqs in
          if new = [] then t d else Some ((case t d of None \<Rightarrow> [] | Some v \<Rightarrow> v) @ new))"
  by (induction seqs arbitrary: t) (auto simp: Let_def fun_eq_iff split: option.splits)

lemma GetDocIDSeqsMap_eq:
  "GetDocIDSeqsMap c seqs d =
     (let new = filter (\<lambda>s. GetDocID c s = d) seqs in if new = [] then None else Some new)"
  by (simp add: GetDocIDSeqsMap_def GetDocIDSeqsMap_loop_eq Let_def)

lemma GetDocIDSeqsMap_dom: "dom (GetDocIDSeqsMap c seqs) = GetDocID c ` set seqs"
  by (auto simp: GetDocIDSeqsMap_eq Let_def filter_empty_conv split: if_splits)

lemma mset_concat_partition:
  "distinct ks \<Longrightarrow> f ` set xs \<subseteq> set ks \<Longrightarrow>
   mset (concat (map (\<lambda>k. filter (\<lambda>x. f x = k) xs) ks)) = mset xs"
proof (induction ks arbitrary: xs)
  case (Cons k ks)
  let ?ys = "filter (\<lambda>x. f x \<noteq> k) xs"
  have "filter (\<lambda>x. f x = k') ?ys = filter (\<lambda>x. f x = k') xs" if "k' \<in> set ks" for k'
    using Cons.prems that by (auto intro: filter_cong)
  then have "mset (concat (map (\<lambda>k. filter (\<lambda>x. f x = k) xs) ks)) = mset ?ys"
    using Cons.IH [of ?ys] Cons.prems by (auto cong: map_cong)
  then show ?case
    using multiset_partition [of "mset xs" "\<lambda>x. f x = k"] by simp
qed simp

text \<open>
  C25.  \<open>GetDocIDSeqsMap\<close> partitions the requested sequence numbers by document: the
  documents are exactly those of the numbers, each gets its numbers in request order, and
  over all documents, in whatever order the map is iterated, every number occurs exactly as
  often as it was requested.
\<close>

theorem GetDocIDSeqsMap_partition:
  assumes "iter_order ord"
  shows "dom (GetDocIDSeqsMap c seqs) = GetDocID c ` set seqs
    \<and> (\<forall>d \<in> dom (GetDocIDSeqsMap c seqs).
          GetDocIDSeqsMap c seqs d = Some (filter (\<lambda>s. GetDocID c s = d) seqs))
    \<and> mset (concat (map (\<lambda>d. the (GetDocIDSeqsMap c seqs d)) (ord (dom (GetDocIDSeqsMap c seqs)))))
        = mset seqs"
proof -
  let ?ds = "ord (dom (GetDocIDSeqsMap c seqs))"
  have fin: "finite (dom (GetDocIDSeqsMap c seqs))" by (simp add: GetDocIDSeqsMap_dom)
  have val: "GetDocIDSeqsMap c seqs d = Some (filter (\<lambda>s. GetDocID c s = d) seqs)"
    if "d \<in> dom (GetDocIDSeqsMap c seqs)" for d
    using that by (auto simp: GetDocIDSeqsMap_eq Let_def split: if_splits)
  have "map (\<lambda>d. the (GetDocIDSeqsMap c seqs d)) ?ds = map (\<lambda>d. filter (\<lambda>s. GetDocID c s = d) seqs) ?ds"
  proof (rule map_cong [OF refl])
    fix d assume "d \<in> set ?ds"
    then have "d \<in> dom (GetDocIDSeqsMap c seqs)" using assms fin by simp
    then show "the (GetDocIDSeqsMap c seqs d) = filter (\<lambda>s. GetDocID c s = d) seqs"
      by (simp only: val option.sel)
  qed
  then have "mset (concat (map (\<lambda>d. the (GetDocIDSeqsMap c seqs d)) ?ds)) = mset seqs"
    using assms fin mset_concat_partition [of ?ds "GetDocID c" seqs]
    by (simp only:) (simp add: GetDocIDSeqsMap_dom)
  with val show ?thesis by (simp only: GetDocIDSeqsMap_dom) simp
qed

theorem GetDocIDSeqsMap_partition_witness:
  "mset (concat (map (\<lambda>d. the (GetDocIDSeqsMap ''g_1'' [100, 101, 1] d))
      (sorted_list_of_set (dom (GetDocIDSeqsMap ''g_1'' [100, 101, 1]))))) = mset [100, 101, 1]"
  using GetDocIDSeqsMap_partition [OF iter_order_sorted, of "''g_1''" "[100, 101, 1]"] by blast

end
