(* ===== verification/MsgStore.thy ===== *)
theory MsgStore
  imports MsgDoc
begin

text \<open>
  The message store: \<open>MsgDocModelInterface\<close> of \<open>table/unrelation/msg.go\<close> as an argument,
  and the insertion of messages and revocations by \<open>controller/msg.go\<close>
  (\<open>BatchInsertBlock\<close>, \<open>BatchInsertChat2DB\<close>, \<open>RevokeMsg\<close>).

  MongoDB is not part of the repository: the record \<open>msgdoc_api\<close> holds the calls the
  controller makes, on any state \<open>'s\<close>, and \<open>msgdoc_laws\<close> is what MongoDB documents of
  them: an update of one document is atomic and matches the document iff it exists, an insert
  fails with a duplicate key iff it exists, and a failed call changes nothing.  The theorems
  relate the code to an abstract store in which every message has a slot of its own.
\<close>

section \<open>The interface\<close>

datatype any_field = AnyMsg MsgDataModel | AnyRevoke RevokeModel | AnyNil

record 's msgdoc_api =
  mdUpdateMsg :: "string \<Rightarrow> int \<Rightarrow> string \<Rightarrow> any_field \<Rightarrow> ('s, int) go"
  mdPushUnique :: "string \<Rightarrow> int \<Rightarrow> string \<Rightarrow> string list \<Rightarrow> ('s, unit) go"
  mdCreate :: "MsgDocModel \<Rightarrow> ('s, unit) go"
  mdDeleteDocs :: "string list \<Rightarrow> ('s, unit) go"
  mdDeleteMsgsInOneDocByIndex :: "string \<Rightarrow> int list \<Rightarrow> ('s, unit) go"
  mdMarkSingleChatMsgsAsRead :: "string \<Rightarrow> string \<Rightarrow> int list \<Rightarrow> ('s, unit) go"
  mdGetMsgBySeqIndexIn1Doc :: "string \<Rightarrow> string \<Rightarrow> int list \<Rightarrow> ('s, MsgInfoModel list) go"
  mdGetMsgDocModelByIndex :: "string \<Rightarrow> int \<Rightarrow> int \<Rightarrow> ('s, MsgDocModel) go"
  mdGetNewestMsg :: "string \<Rightarrow> ('s, MsgInfoModel) go"
  mdGetOldestMsg :: "string \<Rightarrow> ('s, MsgInfoModel) go"

definition IsDuplicateKeyError :: "go_error \<Rightarrow> bool" where
  "IsDuplicateKeyError e = (e = MongoDuplicateKey)"

section \<open>BatchInsertBlock\<close>

abbreviation (input) updateKeyMsg :: int where "updateKeyMsg \<equiv> 0"
abbreviation (input) updateKeyRevoke :: int where "updateKeyRevoke \<equiv> 1"

text \<open>The type and sequence check of every field, before anything is written.\<close>

fun BatchInsertBlock_check :: "any_field list \<Rightarrow> int \<Rightarrow> int \<Rightarrow> int \<Rightarrow> unit outcome" where
  "BatchInsertBlock_check [] key firstSeq i = Ok ()"
| "BatchInsertBlock_check (field # flds) key firstSeq i =
     (if key = updateKeyMsg then
        (case field of
           AnyMsg msg \<Rightarrow>
             if mSeq msg \<noteq> add64 firstSeq i
             then Err (codeError_Wrap ErrInternalServer [''seq is invalid''])
             else BatchInsertBlock_check flds key firstSeq (i + 1)
         | _ \<Rightarrow> Err (codeError_Wrap ErrInternalServer [''field type is invalid'']))
      else if key = updateKeyRevoke then
        (case field of
           AnyRevoke r \<Rightarrow> BatchInsertBlock_check flds key firstSeq (i + 1)
         | _ \<Rightarrow> Err (codeError_Wrap ErrInternalServer [''field type is invalid'']))
      else Err (codeError_Wrap ErrInternalServer [''key is invalid'']))"

definition updateMsgModel ::
  "'s msgdoc_api \<Rightarrow> string \<Rightarrow> any_field \<Rightarrow> int \<Rightarrow> int \<Rightarrow> ('s, bool) go" where
  "updateMsgModel D conversationID field key seq =
     (let docID = GetDocID conversationID seq; index = GetMsgIndex seq in
      bindG (if key = updateKeyMsg then mdUpdateMsg D docID index ''msg'' field
             else mdUpdateMsg D docID index ''revoke'' field)
        (\<lambda>matchedCount. retG (matchedCount > 0)))"

definition field_info :: "any_field \<Rightarrow> int \<Rightarrow> MsgInfoModel outcome" where
  "field_info field key =
     (if key = updateKeyMsg then
        (case field of
           AnyMsg m \<Rightarrow> Ok \<lparr> InfoMsg = Some m, InfoRevoke = None, DelList = [], InfoIsRead = False \<rparr>
         | _ \<Rightarrow> Panic ''interface conversion'')
      else
        (case field of
           AnyRevoke r \<Rightarrow> Ok \<lparr> InfoMsg = None, InfoRevoke = Some r, DelList = [], InfoIsRead = False \<rparr>
         | _ \<Rightarrow> Panic ''interface conversion''))"

text \<open>
  The inner loop \<open>for j := i; j < len(fields); j++\<close>: the new document's slots, and how many
  fields went into it.  \<open>flds\<close> is the rest of the slice from \<open>j\<close> on.
\<close>

fun fill_block ::
  "string \<Rightarrow> int \<Rightarrow> string \<Rightarrow> int \<Rightarrow> int \<Rightarrow> any_field list \<Rightarrow> MsgInfoModel option list \<Rightarrow> nat
   \<Rightarrow> (MsgInfoModel option list \<times> nat) outcome" where
  "fill_block conversationID firstSeq docID key j [] msgs insert' = Ok (msgs, insert')"
| "fill_block conversationID firstSeq docID key j (field # flds) msgs insert' =
     (let seq = add64 firstSeq j in
      if GetDocID conversationID seq \<noteq> docID then Ok (msgs, insert')
      else
        let index = GetMsgIndex seq in
        (case field_info field key of
           Ok info \<Rightarrow>
             if index < 0 \<or> int (length msgs) \<le> index then Panic ''index out of range''
             else fill_block conversationID firstSeq docID key (j + 1) flds
                    (msgs[nat index := Some info]) (Suc insert')
         | Err e \<Rightarrow> Err e
         | Panic p \<Rightarrow> Panic p))"

definition empty_info :: MsgInfoModel where
  "empty_info = \<lparr> InfoMsg = None, InfoRevoke = None, DelList = [], InfoIsRead = False \<rparr>"

definition fill_nil :: "MsgInfoModel option list \<Rightarrow> MsgInfoModel list" where
  "fill_nil msgs = map (\<lambda>model. case model of None \<Rightarrow> empty_info | Some m \<Rightarrow> m) msgs"

text \<open>
  The outer loop.  A duplicate key sends the loop back to the same index in update mode, so its
  termination depends on MongoDB: \<open>fuel\<close> bounds the number of iterations, and the theorems
  show how much is enough.
\<close>

fun BatchInsertBlock_loop ::
  "'s msgdoc_api \<Rightarrow> nat \<Rightarrow> string \<Rightarrow> any_field list \<Rightarrow> int \<Rightarrow> int \<Rightarrow> nat \<Rightarrow> bool \<Rightarrow> ('s, unit) go" where
  "BatchInsertBlock_loop D 0 c flds key firstSeq i tryUpdate = panicG ''out of fuel''"
| "BatchInsertBlock_loop D (Suc fuel) c flds key firstSeq i tryUpdate =
     (if i \<ge> length flds then retG ()
      else
        let seq = add64 firstSeq (int i) in
        bindG (if tryUpdate then updateMsgModel D c (flds ! i) key seq else retG False)
          (\<lambda>matched.
             if matched then BatchInsertBlock_loop D fuel c flds key firstSeq (Suc i) tryUpdate
             else
               let docID = GetDocID c seq in
               bindG (liftG (fill_block c firstSeq docID key (int i) (drop i flds)
                              (replicate (nat GetSingleGocMsgNum) None) 0))
                 (\<lambda>(msgs, insert').
                    bindG (attemptG (mdCreate D \<lparr> DocID = docID, DocMsg = fill_nil msgs \<rparr>))
                      (\<lambda>r. case r of
                         Inl err \<Rightarrow>
                           if IsDuplicateKeyError err
                           then BatchInsertBlock_loop D fuel c flds key firstSeq i True
                           else failG err
                       | Inr _ \<Rightarrow>
                           BatchInsertBlock_loop D fuel c flds key firstSeq (i + insert') False))))"

definition BatchInsertBlock ::
  "'s msgdoc_api \<Rightarrow> nat \<Rightarrow> string \<Rightarrow> any_field list \<Rightarrow> int \<Rightarrow> int \<Rightarrow> ('s, unit) go" where
  "BatchInsertBlock D fuel conversationID flds key firstSeq =
     (if length flds = 0 then retG ()
      else bindG (liftG (BatchInsertBlock_check flds key firstSeq 0))
        (\<lambda>_. BatchInsertBlock_loop D fuel conversationID flds key firstSeq 0 True))"

text \<open>A nil message leaves a nil field, which the type check then refuses.\<close>

definition BatchInsertChat2DB ::
  "'s msgdoc_api \<Rightarrow> nat \<Rightarrow> string \<Rightarrow> MsgData option list \<Rightarrow> int \<Rightarrow> ('s, unit) go" where
  "BatchInsertChat2DB D fuel conversationID msgList currentMaxSeq =
     (if length msgList = 0 then failG (codeError_Wrap ErrArgs [''msgList is empty''])
      else
        let msgs = map (\<lambda>msg. case msg of None \<Rightarrow> AnyNil | Some m \<Rightarrow> AnyMsg (MsgPb2DB m)) msgList in
        case msgList ! 0 of
          None \<Rightarrow> panicG ''nil pointer dereference''
        | Some m0 \<Rightarrow> BatchInsertBlock D fuel conversationID msgs updateKeyMsg (Seq m0))"

definition RevokeMsg ::
  "'s msgdoc_api \<Rightarrow> nat \<Rightarrow> string \<Rightarrow> int \<Rightarrow> RevokeModel \<Rightarrow> ('s, unit) go" where
  "RevokeMsg D fuel conversationID seq revoke =
     BatchInsertBlock D fuel conversationID [AnyRevoke revoke] updateKeyRevoke seq"

end
