(* ===== verification/MsgStoreFacts.thy ===== *)
theory MsgStoreFacts
  imports MsgStore
begin

text \<open>
  The insertion of messages and revocations stores each field in its message's slot and
  touches no other slot: the documented behaviour of MongoDB, the abstract store of slots, the
  simulation by \<open>BatchInsertBlock\<close>, and an in-memory instance that satisfies the laws.
\<close>

section \<open>The documented behaviour of the store\<close>

definition set_field :: "any_field \<Rightarrow> MsgInfoModel \<Rightarrow> MsgInfoModel" where
  "set_field f info = (case f of
       AnyMsg m \<Rightarrow> info\<lparr> InfoMsg := Some m \<rparr>
     | AnyRevoke r \<Rightarrow> info\<lparr> InfoRevoke := Some r \<rparr>
     | AnyNil \<Rightarrow> info)"

definition key_field :: "string \<Rightarrow> any_field \<Rightarrow> bool" where
  "key_field k f \<longleftrightarrow> (case f of AnyMsg _ \<Rightarrow> k = ''msg'' | AnyRevoke _ \<Rightarrow> k = ''revoke'' | AnyNil \<Rightarrow> False)"

definition put_slot :: "MsgDocModel \<Rightarrow> int \<Rightarrow> any_field \<Rightarrow> MsgDocModel" where
  "put_slot doc i f = doc\<lparr> DocMsg := (DocMsg doc)[nat i := set_field f (DocMsg doc ! nat i)] \<rparr>"

definition msgdoc_laws :: "'s msgdoc_api \<Rightarrow> ('s \<Rightarrow> string \<rightharpoonup> MsgDocModel) \<Rightarrow> bool" where
  "msgdoc_laws D view \<longleftrightarrow>
     (\<forall>d i k f s r s'. key_field k f \<longrightarrow> 0 \<le> i \<longrightarrow> mdUpdateMsg D d i k f s = (r, s') \<longrightarrow>
        (case r of
           Ok n \<Rightarrow> (case view s d of
               None \<Rightarrow> n = 0 \<and> view s' = view s
             | Some doc \<Rightarrow> i < int (length (DocMsg doc)) \<longrightarrow>
                 n = 1 \<and> view s' = (view s)(d \<mapsto> put_slot doc i f))
         | Err e \<Rightarrow> view s' = view s
         | Panic p \<Rightarrow> False))
   \<and> (\<forall>doc s r s'. mdCreate D doc s = (r, s') \<longrightarrow>
        (case r of
           Ok _ \<Rightarrow> view s (DocID doc) = None \<and> view s' = (view s)(DocID doc \<mapsto> doc)
         | Err e \<Rightarrow> view s' = view s \<and> (e = MongoDuplicateKey \<longrightarrow> view s (DocID doc) \<noteq> None)
         | Panic p \<Rightarrow> False))"

lemma msgdoc_laws_create:
  assumes "msgdoc_laws D view" "mdCreate D doc s = (r, s')"
  shows "case r of
           Ok _ \<Rightarrow> view s (DocID doc) = None \<and> view s' = (view s)(DocID doc \<mapsto> doc)
         | Err e \<Rightarrow> view s' = view s \<and> (e = MongoDuplicateKey \<longrightarrow> view s (DocID doc) \<noteq> None)
         | Panic p \<Rightarrow> False"
  using assms unfolding msgdoc_laws_def by blast

text \<open>A store whose calls fail only to report a duplicate key.\<close>

definition msgdoc_reliable :: "'s msgdoc_api \<Rightarrow> bool" where
  "msgdoc_reliable D \<longleftrightarrow>
     (\<forall>d i k f s e s'. mdUpdateMsg D d i k f s \<noteq> (Err e, s'))
   \<and> (\<forall>doc s e s'. mdCreate D doc s = (Err e, s') \<longrightarrow> e = MongoDuplicateKey)"

definition docs_wf :: "(string \<rightharpoonup> MsgDocModel) \<Rightarrow> bool" where
  "docs_wf v \<longleftrightarrow> (\<forall>d doc. v d = Some doc \<longrightarrow> length (DocMsg doc) = 100)"

section \<open>The abstract store\<close>

definition slot :: "(string \<rightharpoonup> MsgDocModel) \<Rightarrow> string \<Rightarrow> int \<Rightarrow> MsgInfoModel" where
  "slot v c q = (case v (GetDocID c q) of
       None \<Rightarrow> empty_info
     | Some doc \<Rightarrow> DocMsg doc ! nat (GetMsgIndex q))"

definition put_fields ::
  "string \<Rightarrow> int \<Rightarrow> any_field list \<Rightarrow> (string \<Rightarrow> int \<Rightarrow> MsgInfoModel) \<Rightarrow> string \<Rightarrow> int \<Rightarrow> MsgInfoModel" where
  "put_fields c first fs \<sigma> c' q =
     (if c' = c \<and> first \<le> q \<and> q < first + int (length fs)
      then set_field (fs ! nat (q - first)) (\<sigma> c' q) else \<sigma> c' q)"

definition stored ::
  "(string \<rightharpoonup> MsgDocModel) \<Rightarrow> (string \<rightharpoonup> MsgDocModel) \<Rightarrow> string \<Rightarrow> int \<Rightarrow> any_field list \<Rightarrow> bool" where
  "stored v v' c first fs \<longleftrightarrow>
     docs_wf v' \<and> (\<forall>c' q. valid_seq q \<longrightarrow> slot v' c' q = put_fields c first fs (slot v) c' q)"

lemma put_fields_Nil [simp]: "put_fields c first [] \<sigma> c' q = \<sigma> c' q"
  by (auto simp: put_fields_def)

lemma stored_Nil: "docs_wf v \<Longrightarrow> v' = v \<Longrightarrow> stored v v' c first []"
  by (simp add: stored_def)

lemma nth_append_shift:
  assumes "first + int (length fs) \<le> q"
  shows "(fs @ gs) ! nat (q - first) = gs ! nat (q - (first + int (length fs)))"
proof -
  have "\<not> nat (q - first) < length fs" "nat (q - first) - length fs = nat (q - (first + int (length fs)))"
    using assms by linarith+
  then show ?thesis by (simp add: nth_append)
qed

lemma stored_append:
  assumes "stored v v1 c first fs" "stored v1 v2 c (first + int (length fs)) gs"
  shows "stored v v2 c first (fs @ gs)"
proof -
  have "slot v2 c' q = put_fields c first (fs @ gs) (slot v) c' q" if "valid_seq q" for c' q
  proof (cases "c' = c \<and> first + int (length fs) \<le> q")
    case True
    then have "slot v1 c' q = slot v c' q"
      using assms(1) that by (simp add: stored_def put_fields_def)
    with True show ?thesis
      using assms(2) that by (simp add: stored_def put_fields_def nth_append_shift)
  next
    case False
    then have "slot v2 c' q = slot v1 c' q"
      using assms(2) that by (auto simp: stored_def put_fields_def)
    with False show ?thesis
      using assms(1) that by (auto simp: stored_def put_fields_def nth_append nat_less_iff)
  qed
  with assms(2) show ?thesis by (simp add: stored_def)
qed

section \<open>One update\<close>

lemma slot_update:
  assumes "docs_wf v" "v (GetDocID c seq) = Some doc" "valid_seq seq"
  shows "stored v (v(GetDocID c seq \<mapsto> put_slot doc (GetMsgIndex seq) f)) c seq [f]"
proof -
  have len: "length (DocMsg doc) = 100" using assms(1,2) by (auto simp: docs_wf_def)
  have idx: "nat (GetMsgIndex q) < 100" if "valid_seq q" for q
    using GetMsgIndex_bounds [OF that] by simp
  have "slot (v(GetDocID c seq \<mapsto> put_slot doc (GetMsgIndex seq) f)) c' q
      = put_fields c seq [f] (slot v) c' q" if q: "valid_seq q" for c' q
  proof (cases "GetDocID c' q = GetDocID c seq")
    case True
    have "nat (GetMsgIndex q) = nat (GetMsgIndex seq) \<longleftrightarrow> c' = c \<and> q = seq"
      using True q assms(3) slot_unique_helper [OF q assms(3), of c' c] GetMsgIndex_bounds [OF q]
        GetMsgIndex_bounds [OF assms(3)] by (auto simp: nat_eq_iff)
    with True assms(2) idx [OF assms(3)] show ?thesis
      by (auto simp: slot_def put_slot_def put_fields_def nth_list_update len)
  next
    case False
    then have "\<not> (c' = c \<and> q = seq)" by auto
    with False show ?thesis by (auto simp: slot_def put_fields_def)
  qed
  moreover have "docs_wf (v(GetDocID c seq \<mapsto> put_slot doc (GetMsgIndex seq) f))"
    using assms(1) len by (auto simp: docs_wf_def put_slot_def)
  ultimately show ?thesis by (simp add: stored_def)
qed

section \<open>One new document\<close>

definition good_fields :: "int \<Rightarrow> any_field list \<Rightarrow> bool" where
  "good_fields key fs \<longleftrightarrow>
     (if key = updateKeyMsg then \<forall>f \<in> set fs. \<exists>m. f = AnyMsg m
      else key = updateKeyRevoke \<and> (\<forall>f \<in> set fs. \<exists>r. f = AnyRevoke r))"

lemma field_info_good:
  "good_fields key fs \<Longrightarrow> f \<in> set fs \<Longrightarrow> field_info f key = Ok (set_field f empty_info)"
  by (auto simp: good_fields_def field_info_def set_field_def empty_info_def split: if_splits)

lemma good_fields_Cons: "good_fields key (f # fs) \<Longrightarrow> good_fields key fs"
  by (auto simp: good_fields_def split: if_splits)

lemma fill_block_spec:
  assumes "good_fields key fs" "length msgs = 100"
    and "0 < first + j" "first + j + int (length fs) < 2 ^ 63"
    and "int64 (first + j)"
  shows "\<exists>m msgs'. m \<le> length fs
     \<and> fill_block c first d key j fs msgs n = Ok (msgs', n + m) \<and> length msgs' = 100
     \<and> (\<forall>k < m. GetDocID c (first + j + int k) = d)
     \<and> (m < length fs \<longrightarrow> GetDocID c (first + j + int m) \<noteq> d)
     \<and> (\<forall>x < 100. (\<forall>k < m. nat (GetMsgIndex (first + j + int k)) \<noteq> x) \<longrightarrow> msgs' ! x = msgs ! x)
     \<and> (\<forall>k < m. (\<forall>l < m. k < l \<longrightarrow> GetMsgIndex (first + j + int l) \<noteq> GetMsgIndex (first + j + int k))
          \<longrightarrow> msgs' ! nat (GetMsgIndex (first + j + int k)) = Some (set_field (fs ! k) empty_info))"
  using assms
proof (induction fs arbitrary: j msgs n)
  case Nil
  then show ?case by (intro exI [of _ 0]) simp
next
  case (Cons f fs)
  let ?q = "first + j"
  have q: "valid_seq ?q" "add64 first j = ?q"
    using Cons.prems by (auto simp: valid_seq_def add64_exact)
  note idx = GetMsgIndex_bounds [OF q(1)]
  show ?case
  proof (cases "GetDocID c ?q = d")
    case False
    then show ?thesis using Cons.prems q by (intro exI [of _ 0]) simp
  next
    case True
    let ?msgs = "msgs[nat (GetMsgIndex ?q) := Some (set_field f empty_info)]"
    have next': "good_fields key fs" "length ?msgs = 100" "0 < first + (j + 1)"
      "first + (j + 1) + int (length fs) < 2 ^ 63" "int64 (first + (j + 1))"
      using Cons.prems good_fields_Cons by (auto simp: int64_def)
    obtain m msgs' where m: "m \<le> length fs"
      "fill_block c first d key (j + 1) fs ?msgs (Suc n) = Ok (msgs', Suc n + m)" "length msgs' = 100"
      "\<forall>k < m. GetDocID c (first + (j + 1) + int k) = d"
      "m < length fs \<longrightarrow> GetDocID c (first + (j + 1) + int m) \<noteq> d"
      "\<forall>x < 100. (\<forall>k < m. nat (GetMsgIndex (first + (j + 1) + int k)) \<noteq> x) \<longrightarrow> msgs' ! x = ?msgs ! x"
      "\<forall>k < m. (\<forall>l < m. k < l \<longrightarrow>
            GetMsgIndex (first + (j + 1) + int l) \<noteq> GetMsgIndex (first + (j + 1) + int k))
          \<longrightarrow> msgs' ! nat (GetMsgIndex (first + (j + 1) + int k)) = Some (set_field (fs ! k) empty_info)"
      using Cons.IH [OF next', of "Suc n"] by blast
    have shift: "first + (j + 1) + int k = first + j + int (Suc k)" for k by simp
    have run: "fill_block c first d key j (f # fs) msgs n = Ok (msgs', n + Suc m)"
      using True q idx Cons.prems(1,2) m(2) by (simp add: field_info_good [of key "f # fs"])
    have docs: "\<forall>k < Suc m. GetDocID c (first + j + int k) = d"
      using True m(4) unfolding shift by (auto simp: less_Suc_eq_0_disj)
    have old: "msgs' ! x = msgs ! x"
      if "x < 100" "\<forall>k < Suc m. nat (GetMsgIndex (first + j + int k)) \<noteq> x" for x
    proof -
      have "nat (GetMsgIndex ?q) \<noteq> x" using that(2) [rule_format, of 0] by simp
      moreover have "msgs' ! x = ?msgs ! x"
        using that(1) m(6) that(2) unfolding shift by (metis Suc_less_eq)
      ultimately show ?thesis by simp
    qed
    have new: "msgs' ! nat (GetMsgIndex (first + j + int k)) = Some (set_field ((f # fs) ! k) empty_info)"
      if k: "k < Suc m"
        and later: "\<forall>l < Suc m. k < l \<longrightarrow> GetMsgIndex (first + j + int l) \<noteq> GetMsgIndex (first + j + int k)" for k
    proof (cases k)
      case 0
      have "nat (GetMsgIndex (first + j + int (Suc l))) \<noteq> nat (GetMsgIndex ?q)" if l: "l < m" for l
      proof -
        have "valid_seq (first + j + int (Suc l))"
          using Cons.prems l m(1) by (auto simp: valid_seq_def)
        from GetMsgIndex_bounds [OF this] idx show ?thesis
          using later [rule_format, of "Suc l"] l 0 by (simp add: nat_eq_iff)
      qed
      then have "msgs' ! nat (GetMsgIndex ?q) = ?msgs ! nat (GetMsgIndex ?q)"
        using m(6) [rule_format, of "nat (GetMsgIndex ?q)"] idx unfolding shift by auto
      with 0 idx Cons.prems(2) show ?thesis by simp
    next
      case (Suc k')
      have "\<forall>l < m. k' < l \<longrightarrow>
            GetMsgIndex (first + (j + 1) + int l) \<noteq> GetMsgIndex (first + (j + 1) + int k')"
        using later unfolding shift Suc by auto
      then show ?thesis
        using m(7) k Suc unfolding shift by auto
    qed
    show ?thesis
      using m(1,3,5) run docs old new unfolding shift
      by (intro exI [of _ "Suc m"] exI [of _ msgs']) auto
  qed
qed

lemma slot_create:
  assumes wf: "docs_wf v" "v (GetDocID c q0) = None"
    and fs: "good_fields key fs" "fs \<noteq> []" "q0 = first + j" "0 < q0" "q0 + int (length fs) < 2 ^ 63"
  shows "\<exists>m msgs'. 0 < m \<and> m \<le> length fs
     \<and> fill_block c first (GetDocID c q0) key j fs (replicate 100 None) 0 = Ok (msgs', m)
     \<and> stored v (v(GetDocID c q0 \<mapsto> \<lparr> DocID = GetDocID c q0, DocMsg = fill_nil msgs' \<rparr>)) c q0 (take m fs)"
proof -
  let ?d = "GetDocID c q0"
  obtain m msgs' where m: "m \<le> length fs"
     "fill_block c first ?d key j fs (replicate 100 None) 0 = Ok (msgs', m)" "length msgs' = 100"
     "\<forall>k < m. GetDocID c (q0 + int k) = ?d"
     "m < length fs \<longrightarrow> GetDocID c (q0 + int m) \<noteq> ?d"
     "\<forall>x < 100. (\<forall>k < m. nat (GetMsgIndex (q0 + int k)) \<noteq> x) \<longrightarrow> msgs' ! x = None"
     "\<forall>k < m. (\<forall>l < m. k < l \<longrightarrow> GetMsgIndex (q0 + int l) \<noteq> GetMsgIndex (q0 + int k))
          \<longrightarrow> msgs' ! nat (GetMsgIndex (q0 + int k)) = Some (set_field (fs ! k) empty_info)"
    using fill_block_spec [of key fs "replicate 100 None" first j c ?d 0] fs by (auto simp: int64_def)
  have pos: "0 < m" using m(5) fs(2) by (cases m) auto
  have valid: "valid_seq (q0 + int k)" if "k < m" for k
    using that fs m(1) by (simp add: valid_seq_def)
  have idx: "nat (GetMsgIndex q) < 100" "0 \<le> GetMsgIndex q" if "valid_seq q" for q
    using GetMsgIndex_bounds [OF that] by simp_all
  have same: "GetMsgIndex q = GetMsgIndex (q0 + int k) \<longleftrightarrow> c' = c \<and> q = q0 + int k"
    if "valid_seq q" "GetDocID c' q = ?d" "k < m" for q c' k
    using slot_unique_helper [OF that(1) valid [OF that(3)], of c' c] m(4) that by auto
  have at: "msgs' ! nat (GetMsgIndex (q0 + int k)) = Some (set_field (fs ! k) empty_info)" if "k < m" for k
  proof -
    have "GetMsgIndex (q0 + int l) \<noteq> GetMsgIndex (q0 + int k)" if "l < m" "k < l" for l
      using same [of "q0 + int l" c k] valid m(4) \<open>k < m\<close> that by auto
    with m(7) that show ?thesis by blast
  qed
  let ?v' = "v(?d \<mapsto> \<lparr> DocID = ?d, DocMsg = fill_nil msgs' \<rparr>)"
  have "slot ?v' c' q = put_fields c q0 (take m fs) (slot v) c' q" if q: "valid_seq q" for c' q
  proof (cases "GetDocID c' q = ?d")
    case True
    have old: "slot v c' q = empty_info" using True wf(2) by (simp add: slot_def)
    have new: "slot ?v' c' q = (case msgs' ! nat (GetMsgIndex q) of None \<Rightarrow> empty_info | Some i \<Rightarrow> i)"
      using True idx [OF q] m(3) by (simp add: slot_def fill_nil_def)
    show ?thesis
    proof (cases "c' = c \<and> q0 \<le> q \<and> q < q0 + int m")
      case inside: True
      define k where "k = nat (q - q0)"
      have k: "k < m" "q = q0 + int k" using inside by (auto simp: k_def)
      show ?thesis
        unfolding put_fields_def old new using k inside m(1) at [OF k(1)] by simp
    next
      case False
      have "nat (GetMsgIndex (q0 + int k)) \<noteq> nat (GetMsgIndex q)" if "k < m" for k
        using False same [OF q True that] idx [OF q] idx [OF valid [OF that]] that
        by (auto simp: nat_eq_iff)
      then have "msgs' ! nat (GetMsgIndex q) = None" using m(6) idx [OF q] by blast
      then show ?thesis
        unfolding put_fields_def old new using False m(1) by auto
    qed
  next
    case False
    then have "\<not> (c' = c \<and> q0 \<le> q \<and> q < q0 + int m)"
      using m(4) [rule_format, of "nat (q - q0)"] by (auto simp: nat_less_iff)
    with False m(1) show ?thesis by (auto simp: slot_def put_fields_def)
  qed
  moreover have "docs_wf ?v'" using wf m(3) by (auto simp: docs_wf_def fill_nil_def)
  ultimately have "stored v ?v' c q0 (take m fs)" by (simp add: stored_def)
  with pos m(1,2) show ?thesis by blast
qed

text \<open>The same without the assumption that the document is new.\<close>

lemma fill_block_ok:
  assumes "good_fields key fs" "fs \<noteq> []" "q0 = first + j" "0 < q0" "q0 + int (length fs) < 2 ^ 63"
    and "docs_wf v"
  shows "\<exists>m msgs'. m \<le> length fs
     \<and> fill_block c first (GetDocID c q0) key j fs (replicate 100 None) 0 = Ok (msgs', m) \<and> 0 < m
     \<and> (v (GetDocID c q0) = None \<longrightarrow>
        stored v (v(GetDocID c q0 \<mapsto> \<lparr> DocID = GetDocID c q0, DocMsg = fill_nil msgs' \<rparr>)) c q0 (take m fs))"
proof -
  have "docs_wf Map.empty" by (simp add: docs_wf_def)
  from slot_create [OF this _ assms(1-5), of c] obtain m msgs'
    where m: "0 < m" "m \<le> length fs"
      "fill_block c first (GetDocID c q0) key j fs (replicate 100 None) 0 = Ok (msgs', m)"
    by auto
  show ?thesis
  proof (intro exI conjI impI)
    assume "v (GetDocID c q0) = None"
    from slot_create [OF assms(6) this assms(1-5)] m(3)
    show "stored v (v(GetDocID c q0 \<mapsto> \<lparr> DocID = GetDocID c q0, DocMsg = fill_nil msgs' \<rparr>)) c q0 (take m fs)"
      by auto
  qed (use m in auto)
qed

section \<open>The loop\<close>

text \<open>
  What a run of the loop from \<open>i\<close> on leaves behind, with the fields \<open>fs\<close> still to be
  stored: some prefix of them is in its slots, all of them when the run succeeds, and it never
  panics; when the store is reliable it succeeds.
\<close>

definition block_post ::
  "'s msgdoc_api \<Rightarrow> (string \<rightharpoonup> MsgDocModel) \<Rightarrow> string \<Rightarrow> int \<Rightarrow> any_field list
   \<Rightarrow> unit outcome \<Rightarrow> (string \<rightharpoonup> MsgDocModel) \<Rightarrow> bool" where
  "block_post D v c q0 fs r v' \<longleftrightarrow>
     (\<exists>k \<le> length fs. stored v v' c q0 (take k fs) \<and> (r = Ok () \<longrightarrow> k = length fs))
   \<and> (\<forall>p. r \<noteq> Panic p) \<and> (msgdoc_reliable D \<longrightarrow> r = Ok ())"

lemma block_post_advance:
  assumes "stored v v1 c q0 (take m fs)" "m \<le> length fs"
    and "block_post D v1 c (q0 + int m) (drop m fs) r v'"
  shows "block_post D v c q0 fs r v'"
proof -
  obtain k where k: "k \<le> length (drop m fs)" "stored v1 v' c (q0 + int m) (take k (drop m fs))"
    "r = Ok () \<longrightarrow> k = length (drop m fs)"
    using assms(3) unfolding block_post_def by blast
  have "stored v v' c q0 (take m fs @ take k (drop m fs))"
    using stored_append [of v v1 c q0 "take m fs" v' "take k (drop m fs)"] assms(1,2) k(2) by simp
  then have "stored v v' c q0 (take (m + k) fs)" by (simp add: take_add)
  with k assms(2,3) show ?thesis
    unfolding block_post_def by (intro conjI exI [of _ "m + k"]) auto
qed

lemma block_post_Err:
  "docs_wf v \<Longrightarrow> v' = v \<Longrightarrow> \<not> msgdoc_reliable D \<Longrightarrow> block_post D v c q0 fs (Err e) v'"
  unfolding block_post_def by (intro conjI exI [of _ 0]) (auto simp: stored_Nil)

lemma updateMsgModel_spec:
  assumes laws: "msgdoc_laws D view" and wf: "docs_wf (view s)" and q: "valid_seq q"
    and f: "good_fields key [f]" and run: "updateMsgModel D c f key q s = (r, s')"
  shows "(r = Ok True \<and> stored (view s) (view s') c q [f])
       \<or> (r = Ok False \<and> view s (GetDocID c q) = None \<and> view s' = view s)
       \<or> (\<exists>e. r = Err e \<and> view s' = view s \<and> \<not> msgdoc_reliable D)"
proof -
  let ?d = "GetDocID c q" and ?i = "GetMsgIndex q"
  define k where "k = (if key = updateKeyMsg then ''msg'' else ''revoke'')"
  have kf: "key_field k f"
    using f by (auto simp: good_fields_def key_field_def k_def split: if_splits)
  have bnd: "0 \<le> ?i" "?i < 100" using GetMsgIndex_bounds [OF q] by auto
  obtain r1 s1 where up: "mdUpdateMsg D ?d ?i k f s = (r1, s1)" by (cases "mdUpdateMsg D ?d ?i k f s")
  have run': "(r, s') = bindG (mdUpdateMsg D ?d ?i k f) (\<lambda>n. retG (n > 0)) s"
    using run by (simp add: updateMsgModel_def k_def Let_def split: if_splits)
  have law: "case r1 of
           Ok n \<Rightarrow> (case view s ?d of
               None \<Rightarrow> n = 0 \<and> view s1 = view s
             | Some doc \<Rightarrow> ?i < int (length (DocMsg doc)) \<longrightarrow>
                 n = 1 \<and> view s1 = (view s)(?d \<mapsto> put_slot doc ?i f))
         | Err e \<Rightarrow> view s1 = view s
         | Panic p \<Rightarrow> False"
    using laws kf bnd(1) up unfolding msgdoc_laws_def by blast
  show ?thesis
  proof (cases r1)
    case (Ok n)
    show ?thesis
    proof (cases "view s ?d")
      case None
      with Ok law run' up show ?thesis by (simp add: bindG_def retG_def)
    next
      case (Some doc)
      then have "length (DocMsg doc) = 100" using wf by (auto simp: docs_wf_def)
      with Ok law run' up Some bnd slot_update [OF wf Some q, of f] show ?thesis
        by (simp add: bindG_def retG_def)
    qed
  next
    case (Err e)
    with up law run' show ?thesis by (auto simp: bindG_def msgdoc_reliable_def)
  next
    case (Panic p)
    with law show ?thesis by simp
  qed
qed

lemma BatchInsertBlock_loop_spec:
  assumes laws: "msgdoc_laws D view" and good: "good_fields key flds"
    and first: "0 < firstSeq" "firstSeq + int (length flds) < 2 ^ 63"
  shows "docs_wf (view s) \<Longrightarrow> 2 * (length flds - i) + (if tryUpdate then 0 else 1) < fuel \<Longrightarrow>
    BatchInsertBlock_loop D fuel c flds key firstSeq i tryUpdate s = (r, s') \<Longrightarrow>
    block_post D (view s) c (firstSeq + int i) (drop i flds) r (view s')"
proof (induction fuel arbitrary: i tryUpdate s)
  case (Suc fuel)
  show ?case
  proof (cases "length flds \<le> i")
    case True
    with Suc.prems show ?thesis
      unfolding block_post_def by (auto simp: retG_def stored_Nil)
  next
    case False
    let ?q = "firstSeq + int i" and ?fs = "drop i flds"
    let ?d = "GetDocID c ?q"
    have q: "valid_seq ?q" "add64 firstSeq (int i) = ?q"
      using False first by (auto simp: valid_seq_def add64_exact int64_def)
    have fs: "?fs = flds ! i # drop (Suc i) flds" using False by (simp add: Cons_nth_drop_Suc)
    have good': "good_fields key [flds ! i]" "good_fields key ?fs"
      using good False set_drop_subset [of i flds] by (auto simp: good_fields_def split: if_splits)
    have insert: "block_post D (view s1) c ?q ?fs r (view s')"
      if wf1: "docs_wf (view s1)" "view s1 = view s"
        and miss: "tryUpdate \<Longrightarrow> view s1 ?d = None"
        and run: "bindG (liftG (fill_block c firstSeq ?d key (int i) ?fs
                              (replicate (nat GetSingleGocMsgNum) None) 0))
                 (\<lambda>(msgs, insert').
                    bindG (attemptG (mdCreate D \<lparr> DocID = ?d, DocMsg = fill_nil msgs \<rparr>))
                      (\<lambda>r. case r of
                         Inl err \<Rightarrow>
                           if IsDuplicateKeyError err
                           then BatchInsertBlock_loop D fuel c flds key firstSeq i True
                           else failG err
                       | Inr _ \<Rightarrow>
                           BatchInsertBlock_loop D fuel c flds key firstSeq (i + insert') False)) s1 = (r, s')"
      for s1
    proof -
      let ?mk = "\<lambda>msgs. \<lparr> DocID = ?d, DocMsg = fill_nil msgs \<rparr>"
      obtain m msgs' where m: "m \<le> length ?fs"
        "fill_block c firstSeq ?d key (int i) ?fs (replicate 100 None) 0 = Ok (msgs', m)"
        "0 < m"
        and st: "view s1 ?d = None \<Longrightarrow> stored (view s1) ((view s1)(?d \<mapsto> ?mk msgs')) c ?q (take m ?fs)"
        using fill_block_ok [of key ?fs ?q firstSeq "int i" "view s1" c] wf1(1) good' q first False
        by (auto simp: valid_seq_def)
      obtain r2 s2 where cr: "mdCreate D (?mk msgs') s1 = (r2, s2)" by (cases "mdCreate D (?mk msgs') s1")
      have law: "case r2 of
           Ok _ \<Rightarrow> view s1 ?d = None \<and> view s2 = (view s1)(?d \<mapsto> ?mk msgs')
         | Err e \<Rightarrow> view s2 = view s1 \<and> (e = MongoDuplicateKey \<longrightarrow> view s1 ?d \<noteq> None)
         | Panic p \<Rightarrow> False"
        using msgdoc_laws_create [OF laws cr] by (cases r2) simp_all
      have run2: "(case r2 of
              Ok _ \<Rightarrow> BatchInsertBlock_loop D fuel c flds key firstSeq (i + m) False s2
            | Err e \<Rightarrow> if IsDuplicateKeyError e
                then BatchInsertBlock_loop D fuel c flds key firstSeq i True s2 else (Err e, s2)
            | Panic p \<Rightarrow> (Panic p, s2)) = (r, s')"
        using run m(2) cr
        by (cases r2) (auto simp: GetSingleGocMsgNum_def bindG_def liftG_def attemptG_def failG_def
            split: if_splits)
      show ?thesis
      proof (cases r2)
        case (Ok u)
        then have s2: "stored (view s1) (view s2) c ?q (take m ?fs)" using st law by simp
        have "block_post D (view s2) c (firstSeq + int (i + m)) (drop (i + m) flds) r (view s')"
          using Suc.IH [of s2 "i + m" False] Suc.prems(2) run2 Ok s2 m False
          by (auto simp: stored_def split: if_splits)
        then show ?thesis
          using block_post_advance [OF s2 m(1)] by (simp add: algebra_simps)
      next
        case (Err e)
        show ?thesis
        proof (cases "e = MongoDuplicateKey")
          case True
          then have "\<not> tryUpdate" "view s2 = view s1" using law miss Err by auto
          then show ?thesis
            using Suc.IH [of s2 i True] Suc.prems(2) run2 Err True wf1
            by (simp add: IsDuplicateKeyError_def)
        next
          case False
          moreover have "\<not> msgdoc_reliable D"
            using cr Err False unfolding msgdoc_reliable_def by blast
          ultimately show ?thesis
            using run2 Err law wf1 block_post_Err by (auto simp: IsDuplicateKeyError_def)
        qed
      qed (use law in simp)
    qed
    show ?thesis
    proof (cases tryUpdate)
      case False
      with insert [of s] Suc.prems \<open>\<not> length flds \<le> i\<close> show ?thesis by (simp add: q Let_def)
    next
      case True
      obtain r1 s1 where up: "updateMsgModel D c (flds ! i) key ?q s = (r1, s1)"
        by (cases "updateMsgModel D c (flds ! i) key ?q s")
      from updateMsgModel_spec [OF laws Suc.prems(1) q(1) good'(1) up]
      consider (hit) "r1 = Ok True" "stored (view s) (view s1) c ?q [flds ! i]"
        | (miss) "r1 = Ok False" "view s ?d = None" "view s1 = view s"
        | (fail) e where "r1 = Err e" "view s1 = view s" "\<not> msgdoc_reliable D" by auto
      then show ?thesis
      proof cases
        case hit
        have "block_post D (view s1) c (firstSeq + int (Suc i)) (drop (Suc i) flds) r (view s')"
          using Suc.IH [of s1 "Suc i" True] Suc.prems hit up True False
          by (simp add: q Let_def bindG_def stored_def)
        then show ?thesis
          using block_post_advance [of "view s" "view s1" c ?q 1 ?fs] hit(2) False
          by (simp add: fs algebra_simps)
      next
        case miss
        then show ?thesis
          using insert [of s1] Suc.prems up True False by (simp add: q Let_def bindG_run_Ok)
      next
        case fail
        then show ?thesis
          using Suc.prems up True False by (auto simp: q Let_def bindG_def intro!: block_post_Err)
      qed
    qed
  qed
qed simp

section \<open>BatchInsertBlock\<close>

lemma BatchInsertBlock_check_all:
  "BatchInsertBlock_check flds key first i = Ok () \<Longrightarrow> f \<in> set flds \<Longrightarrow>
   (key = updateKeyMsg \<and> (\<exists>m. f = AnyMsg m)) \<or> (key = updateKeyRevoke \<and> (\<exists>r. f = AnyRevoke r))"
  by (induction flds key first i rule: BatchInsertBlock_check.induct)
     (fastforce split: if_splits any_field.splits)+

lemma BatchInsertBlock_check_good:
  "BatchInsertBlock_check flds key first i = Ok () \<Longrightarrow> flds \<noteq> [] \<Longrightarrow> good_fields key flds"
proof -
  assume ok: "BatchInsertBlock_check flds key first i = Ok ()" and ne: "flds \<noteq> []"
  note all = BatchInsertBlock_check_all [OF ok]
  show "good_fields key flds"
    using all [of "hd flds"] all list.set_sel(1) [OF ne] unfolding good_fields_def by auto
qed

text \<open>An in-memory collection: the laws hold of it, and it never fails.\<close>

type_synonym msg_collection = "string \<rightharpoonup> MsgDocModel"

definition mem_msgdoc :: "msg_collection msgdoc_api" where
  "mem_msgdoc = \<lparr>
     mdUpdateMsg = (\<lambda>d i k f s. case s d of
         None \<Rightarrow> (Ok 0, s)
       | Some doc \<Rightarrow> if key_field k f then (Ok 1, s(d \<mapsto> put_slot doc i f)) else (Ok 0, s)),
     mdPushUnique = (\<lambda>d i k us s. case s d of
         None \<Rightarrow> (Ok (), s)
       | Some doc \<Rightarrow> (Ok (), s(d \<mapsto> doc\<lparr> DocMsg := (DocMsg doc)[nat i := (DocMsg doc ! nat i)
             \<lparr> DelList := remdups (DelList (DocMsg doc ! nat i) @ us) \<rparr>] \<rparr>))),
     mdCreate = (\<lambda>doc s. case s (DocID doc) of
         None \<Rightarrow> (Ok (), s(DocID doc \<mapsto> doc))
       | Some _ \<Rightarrow> (Err MongoDuplicateKey, s)),
     mdDeleteDocs = (\<lambda>ds s. (Ok (), s |` (- set ds))),
     mdDeleteMsgsInOneDocByIndex = (\<lambda>d is s. case s d of
         None \<Rightarrow> (Ok (), s)
       | Some doc \<Rightarrow> (Ok (), s(d \<mapsto> doc\<lparr> DocMsg := fold (\<lambda>i ms. ms[nat i := empty_info]) is (DocMsg doc) \<rparr>))),
     mdMarkSingleChatMsgsAsRead = (\<lambda>u d is s. (Ok (), s)),
     mdGetMsgBySeqIndexIn1Doc = (\<lambda>u d qs s. case s d of
         None \<Rightarrow> (Ok [], s)
       | Some doc \<Rightarrow> (Ok (map (\<lambda>q. DocMsg doc ! nat (GetMsgIndex q)) qs), s)),
     mdGetMsgDocModelByIndex = (\<lambda>c i dir s. (Err (Plain ''not found''), s)),
     mdGetNewestMsg = (\<lambda>c s. (Err MongoNoDocuments, s)),
     mdGetOldestMsg = (\<lambda>c s. (Err MongoNoDocuments, s)) \<rparr>"

lemma mem_msgdoc_update:
  "mdUpdateMsg mem_msgdoc d i k f s = (case s d of
         None \<Rightarrow> (Ok 0, s)
       | Some doc \<Rightarrow> if key_field k f then (Ok 1, s(d \<mapsto> put_slot doc i f)) else (Ok 0, s))"
  by (simp add: mem_msgdoc_def)

lemma mem_msgdoc_create:
  "mdCreate mem_msgdoc doc s = (case s (DocID doc) of
         None \<Rightarrow> (Ok (), s(DocID doc \<mapsto> doc))
       | Some _ \<Rightarrow> (Err MongoDuplicateKey, s))"
  by (simp add: mem_msgdoc_def)

lemma mem_msgdoc_laws: "msgdoc_laws mem_msgdoc (\<lambda>s. s)"
  unfolding msgdoc_laws_def
proof (intro conjI allI impI)
  fix d i k f s s' and r :: "int outcome"
  assume "key_field k f" "mdUpdateMsg mem_msgdoc d i k f s = (r, s')"
  then show "case r of
           Ok n \<Rightarrow> (case s d of
               None \<Rightarrow> n = 0 \<and> s' = s
             | Some doc \<Rightarrow> i < int (length (DocMsg doc)) \<longrightarrow>
                 n = 1 \<and> s' = s(d \<mapsto> put_slot doc i f))
         | Err e \<Rightarrow> s' = s
         | Panic p \<Rightarrow> False"
    by (cases "s d") (auto simp: mem_msgdoc_update)
next
  fix doc s s' and r :: "unit outcome"
  assume "mdCreate mem_msgdoc doc s = (r, s')"
  then show "case r of
           Ok _ \<Rightarrow> s (DocID doc) = None \<and> s' = s(DocID doc \<mapsto> doc)
         | Err e \<Rightarrow> s' = s \<and> (e = MongoDuplicateKey \<longrightarrow> s (DocID doc) \<noteq> None)
         | Panic p \<Rightarrow> False"
    by (cases "s (DocID doc)") (auto simp: mem_msgdoc_create)
qed

lemma mem_msgdoc_reliable: "msgdoc_reliable mem_msgdoc"
  by (simp add: msgdoc_reliable_def mem_msgdoc_update mem_msgdoc_create split: option.split)

text \<open>
  C6.  Batch insertion refines the abstract store of slots.  For a checked batch with positive
  sequence numbers, whatever documents already exist and whatever calls of the store fail,
  after \<open>BatchInsertBlock\<close> a prefix of the batch is in the slots of its messages and every
  other slot of every conversation is untouched: a message update keeps the slot's revocation,
  reader list and read flag, a revocation keeps its message.  If the call returns without error
  the whole batch is stored.  The call ends after at most two iterations per field and one,
  never panics, and succeeds when the store does not fail.  Existing documents are assumed to be well formed (100 slots).
\<close>

theorem BatchInsertBlock_refines:
  assumes laws: "msgdoc_laws D view" and wf: "docs_wf (view s)"
    and check: "BatchInsertBlock_check flds key firstSeq 0 = Ok ()"
    and range: "0 < firstSeq" "firstSeq + int (length flds) < 2 ^ 63"
    and fuel: "2 * length flds < fuel"
    and run: "BatchInsertBlock D fuel c flds key firstSeq s = (r, s')"
  shows "(\<exists>k \<le> length flds. stored (view s) (view s') c firstSeq (take k flds)
            \<and> (r = Ok () \<longrightarrow> k = length flds))
    \<and> (\<forall>p. r \<noteq> Panic p) \<and> (msgdoc_reliable D \<longrightarrow> r = Ok ())"
proof (cases "flds = []")
  case True
  with run wf show ?thesis by (auto simp: BatchInsertBlock_def retG_def stored_Nil)
next
  case False
  have "BatchInsertBlock_loop D fuel c flds key firstSeq 0 True s = (r, s')"
    using run check False by (simp add: BatchInsertBlock_def bindG_def liftG_def)
  from BatchInsertBlock_loop_spec [OF laws BatchInsertBlock_check_good [OF check False] range wf _ this]
  show ?thesis using fuel by (simp add: block_post_def)
qed

definition demo_msg :: "string \<Rightarrow> int \<Rightarrow> MsgDataModel" where
  "demo_msg u q = MsgPb2DB (empty_msg\<lparr> SendID := u, Seq := q \<rparr>)"

theorem BatchInsertBlock_refines_witness:
  "InfoMsg (slot (snd (BatchInsertBlock mem_msgdoc 5 ''g_1'' [AnyMsg (demo_msg ''a'' 100),
       AnyMsg (demo_msg ''b'' 101)] updateKeyMsg 100 Map.empty)) ''g_1'' 101) = Some (demo_msg ''b'' 101)"
proof -
  let ?flds = "[AnyMsg (demo_msg ''a'' 100), AnyMsg (demo_msg ''b'' 101)]"
  let ?run = "BatchInsertBlock mem_msgdoc 5 ''g_1'' ?flds updateKeyMsg 100 Map.empty"
  have check: "BatchInsertBlock_check ?flds updateKeyMsg 100 0 = Ok ()"
    by (simp add: demo_msg_def MsgPb2DB_def add64_exact int64_def empty_msg_def)
  have wf: "docs_wf Map.empty" by (simp add: docs_wf_def)
  have all: "(\<exists>k \<le> length ?flds. stored Map.empty (snd ?run) ''g_1'' 100 (take k ?flds)
            \<and> (fst ?run = Ok () \<longrightarrow> k = length ?flds))
    \<and> (\<forall>p. fst ?run \<noteq> Panic p) \<and> (msgdoc_reliable mem_msgdoc \<longrightarrow> fst ?run = Ok ())"
    by (rule BatchInsertBlock_refines [where view = "\<lambda>s. s" and s = Map.empty and fuel = 5,
        OF mem_msgdoc_laws wf check]) simp_all
  then obtain k where "stored Map.empty (snd ?run) ''g_1'' 100 (take k ?flds)" "k = length ?flds"
    using mem_msgdoc_reliable by blast
  then have "stored Map.empty (snd ?run) ''g_1'' 100 ?flds" by (simp only: take_all order_refl)
  then have "slot (snd ?run) ''g_1'' 101 = put_fields ''g_1'' 100 ?flds (slot Map.empty) ''g_1'' 101"
    by (simp add: stored_def valid_seq_def)
  then show ?thesis by (simp add: put_fields_def set_field_def slot_def)
qed

end
