(* ===== verification/RedisCache.thy ===== *)
theory RedisCache
  imports ConversationID MsgDoc
begin

text \<open>
  The Redis cache of \<open>pkg/common/db/cache/msg.go\<close>: sequence numbers, cached messages,
  per-user deletion lists, login tokens and send status.

  Redis itself is an argument: the record \<open>redis_api\<close> holds the commands the code issues, on
  any state \<open>'s\<close>.  A Redis error reply, redis.Nil for a missing key among them, is the \<open>Err\<close>
  of a command.  Protocol buffers and JSON are arguments too (\<open>pb_codec\<close>).  The goroutines of
  the \<open>Parallel\<close> functions work on one key each; they are run here in slice order.  Expiry is
  passed to Redis; no key expires while an operation runs.
\<close>

section \<open>The services used\<close>

record 's redis_api =
  rdGet :: "string \<Rightarrow> ('s, string) go"
  rdSet :: "string \<Rightarrow> string \<Rightarrow> int \<Rightarrow> ('s, unit) go"
  rdDel :: "string \<Rightarrow> ('s, unit) go"
  rdKeys :: "string \<Rightarrow> ('s, string list) go"
  rdExpire :: "string \<Rightarrow> int \<Rightarrow> ('s, bool) go"
  rdIncr :: "string \<Rightarrow> ('s, int) go"
  rdExists :: "string \<Rightarrow> ('s, int) go"
  rdSetNX :: "string \<Rightarrow> string \<Rightarrow> int \<Rightarrow> ('s, bool) go"
  rdSAdd :: "string \<Rightarrow> string \<Rightarrow> ('s, unit) go"
  rdSRem :: "string \<Rightarrow> string \<Rightarrow> ('s, unit) go"
  rdSMembers :: "string \<Rightarrow> ('s, string list) go"
  rdHSet :: "string \<Rightarrow> (string \<rightharpoonup> string) \<Rightarrow> ('s, unit) go"
  rdHGet :: "string \<Rightarrow> string \<Rightarrow> ('s, string) go"
  rdHGetAll :: "string \<Rightarrow> ('s, string \<rightharpoonup> string) go"
  rdHDel :: "string \<Rightarrow> string list \<Rightarrow> ('s, unit) go"
  rdPipeGet :: "string list \<Rightarrow> ('s, (go_error + string) list \<times> go_error option) go"
  rdPipeSet :: "(string \<times> string \<times> int) list \<Rightarrow> ('s, (go_error + unit) list \<times> go_error option) go"
  rdPipeDel :: "string list \<Rightarrow> ('s, (go_error + unit) list \<times> go_error option) go"

record pb_codec =
  pbMarshal :: "MsgData \<Rightarrow> go_error + string"
  pbUnmarshal :: "string \<Rightarrow> go_error + MsgData"
  jsonpbUnmarshal :: "string \<Rightarrow> go_error + MsgData"

record cache_config =
  EnablePipeline :: bool
  MsgCacheTimeout :: int

abbreviation (input) seconds :: "int \<Rightarrow> int" where "seconds n \<equiv> mul64 n 1000000000"

text \<open>\<open>Get(key).Int64()\<close>: a value that is not a decimal \<open>int64\<close> is an error.\<close>

definition rdGetInt64 :: "'s redis_api \<Rightarrow> string \<Rightarrow> ('s, int) go" where
  "rdGetInt64 R key = bindG (rdGet R key) (\<lambda>v. case ParseInt v of
       Parsed i \<Rightarrow> retG i
     | SyntaxError \<Rightarrow> failG (Plain ''invalid syntax'')
     | RangeError _ \<Rightarrow> failG (Plain ''value out of range''))"

section \<open>Keys\<close>

definition getMaxSeqKey :: "string \<Rightarrow> string" where
  "getMaxSeqKey conversationID = ''MAX_SEQ:'' @ conversationID"

definition getMinSeqKey :: "string \<Rightarrow> string" where
  "getMinSeqKey conversationID = ''MIN_SEQ:'' @ conversationID"

definition getHasReadSeqKey :: "string \<Rightarrow> string \<Rightarrow> string" where
  "getHasReadSeqKey conversationID userID = ''HAS_READ_SEQ:'' @ userID @ '':'' @ conversationID"

definition getConversationUserMinSeqKey :: "string \<Rightarrow> string \<Rightarrow> string" where
  "getConversationUserMinSeqKey conversationID userID =
     ''CON_USER_MIN_SEQ:'' @ conversationID @ ''u:'' @ userID"

definition getRevokeConversationKey :: "string \<Rightarrow> string" where
  "getRevokeConversationKey clientId = ''REVOKE_CONVERSATION_ID:'' @ clientId"

definition getMessageCacheKey :: "string \<Rightarrow> int \<Rightarrow> string" where
  "getMessageCacheKey conversationID seq = ''MESSAGE_CACHE:'' @ conversationID @ ''_'' @ itoa seq"

definition allMessageCacheKey :: "string \<Rightarrow> string" where
  "allMessageCacheKey conversationID = ''MESSAGE_CACHE:'' @ conversationID @ ''_*''"

definition getMessageDelUserListKey :: "string \<Rightarrow> int \<Rightarrow> string" where
  "getMessageDelUserListKey conversationID seq =
     ''MESSAGE_DEL_USER_LIST:'' @ conversationID @ '':'' @ itoa seq"

definition getUserDelList :: "string \<Rightarrow> string \<Rightarrow> string" where
  "getUserDelList conversationID userID = ''USER_DEL_MESSAGES_LIST:'' @ conversationID @ '':'' @ userID"

section \<open>Sequence numbers\<close>

definition setSeq :: "'s redis_api \<Rightarrow> string \<Rightarrow> int \<Rightarrow> (string \<Rightarrow> string) \<Rightarrow> ('s, unit) go" where
  "setSeq R conversationID seq getkey = wrapG ''==> '' (rdSet R (getkey conversationID) (itoa seq) 0)"

definition getSeq :: "'s redis_api \<Rightarrow> string \<Rightarrow> (string \<Rightarrow> string) \<Rightarrow> ('s, int) go" where
  "getSeq R conversationID getkey = wrapG ''==> '' (rdGetInt64 R (getkey conversationID))"

fun getSeqs_loop ::
  "'s redis_api \<Rightarrow> string list \<Rightarrow> (string \<Rightarrow> string) \<Rightarrow> (string \<rightharpoonup> int) \<Rightarrow> ('s, string \<rightharpoonup> int) go" where
  "getSeqs_loop R [] getkey m = retG m"
| "getSeqs_loop R (v # items) getkey m =
     bindG (attemptG (rdGet R (getkey v))) (\<lambda>r.
       let continue = (\<lambda>res.
             let val = StringToInt64 res in
             getSeqs_loop R items getkey (if val \<noteq> 0 then m(v \<mapsto> val) else m))
       in case r of
            Inl err \<Rightarrow> if err \<noteq> RedisNil then failG (Wrapped [] err) else continue []
          | Inr res \<Rightarrow> continue res)"

definition getSeqs ::
  "'s redis_api \<Rightarrow> string list \<Rightarrow> (string \<Rightarrow> string) \<Rightarrow> ('s, string \<rightharpoonup> int) go" where
  "getSeqs R items getkey = getSeqs_loop R items getkey Map.empty"

text \<open>\<open>seqs\<close> is a Go map: \<open>ord\<close> is the order in which it is ranged over.\<close>

definition setSeqs ::
  "'s redis_api \<Rightarrow> (string set \<Rightarrow> string list) \<Rightarrow> (string \<rightharpoonup> int) \<Rightarrow> (string \<Rightarrow> string) \<Rightarrow> ('s, unit) go" where
  "setSeqs R ord seqs getkey =
     forG (ord (dom seqs)) (\<lambda>k. wrapG [] (rdSet R (getkey k) (itoa (the (seqs k))) 0))"

definition SetMaxSeq :: "'s redis_api \<Rightarrow> string \<Rightarrow> int \<Rightarrow> ('s, unit) go" where
  "SetMaxSeq R conversationID maxSeq = setSeq R conversationID maxSeq getMaxSeqKey"

definition GetMaxSeqs :: "'s redis_api \<Rightarrow> string list \<Rightarrow> ('s, string \<rightharpoonup> int) go" where
  "GetMaxSeqs R conversationIDs = getSeqs R conversationIDs getMaxSeqKey"

definition GetMaxSeq :: "'s redis_api \<Rightarrow> string \<Rightarrow> ('s, int) go" where
  "GetMaxSeq R conversationID = getSeq R conversationID getMaxSeqKey"

definition SetMinSeq :: "'s redis_api \<Rightarrow> string \<Rightarrow> int \<Rightarrow> ('s, unit) go" where
  "SetMinSeq R conversationID minSeq = setSeq R conversationID minSeq getMinSeqKey"

definition SetMinSeqs :: "'s redis_api \<Rightarrow> (string set \<Rightarrow> string list) \<Rightarrow> (string \<rightharpoonup> int) \<Rightarrow> ('s, unit) go" where
  "SetMinSeqs R ord seqs = setSeqs R ord seqs getMinSeqKey"

definition GetMinSeqs :: "'s redis_api \<Rightarrow> string list \<Rightarrow> ('s, string \<rightharpoonup> int) go" where
  "GetMinSeqs R conversationIDs = getSeqs R conversationIDs getMinSeqKey"

definition GetMinSeq :: "'s redis_api \<Rightarrow> string \<Rightarrow> ('s, int) go" where
  "GetMinSeq R conversationID = getSeq R conversationID getMinSeqKey"

definition GetConversationUserMinSeq :: "'s redis_api \<Rightarrow> string \<Rightarrow> string \<Rightarrow> ('s, int) go" where
  "GetConversationUserMinSeq R conversationID userID =
     wrapG ''==> '' (rdGetInt64 R (getConversationUserMinSeqKey conversationID userID))"

definition GetConversationUserMinSeqs ::
  "'s redis_api \<Rightarrow> string \<Rightarrow> string list \<Rightarrow> ('s, string \<rightharpoonup> int) go" where
  "GetConversationUserMinSeqs R conversationID userIDs =
     getSeqs R userIDs (\<lambda>userID. getConversationUserMinSeqKey conversationID userID)"

definition SetConversationUserMinSeq ::
  "'s redis_api \<Rightarrow> string \<Rightarrow> string \<Rightarrow> int \<Rightarrow> ('s, unit) go" where
  "SetConversationUserMinSeq R conversationID userID minSeq =
     wrapG ''==> '' (rdSet R (getConversationUserMinSeqKey conversationID userID) (itoa minSeq) 0)"

definition SetConversationUserMinSeqs ::
  "'s redis_api \<Rightarrow> (string set \<Rightarrow> string list) \<Rightarrow> string \<Rightarrow> (string \<rightharpoonup> int) \<Rightarrow> ('s, unit) go" where
  "SetConversationUserMinSeqs R ord conversationID seqs =
     setSeqs R ord seqs (\<lambda>userID. getConversationUserMinSeqKey conversationID userID)"

definition SetUserConversationsMinSeqs ::
  "'s redis_api \<Rightarrow> (string set \<Rightarrow> string list) \<Rightarrow> string \<Rightarrow> (string \<rightharpoonup> int) \<Rightarrow> ('s, unit) go" where
  "SetUserConversationsMinSeqs R ord userID seqs =
     setSeqs R ord seqs (\<lambda>conversationID. getConversationUserMinSeqKey conversationID userID)"

definition SetHasReadSeq :: "'s redis_api \<Rightarrow> string \<Rightarrow> string \<Rightarrow> int \<Rightarrow> ('s, unit) go" where
  "SetHasReadSeq R userID conversationID hasReadSeq =
     wrapG ''==> '' (rdSet R (getHasReadSeqKey conversationID userID) (itoa hasReadSeq) 0)"

definition SetHasReadSeqs ::
  "'s redis_api \<Rightarrow> (string set \<Rightarrow> string list) \<Rightarrow> string \<Rightarrow> (string \<rightharpoonup> int) \<Rightarrow> ('s, unit) go" where
  "SetHasReadSeqs R ord conversationID hasReadSeqs =
     setSeqs R ord hasReadSeqs (\<lambda>userID. getHasReadSeqKey conversationID userID)"

definition UserSetHasReadSeqs ::
  "'s redis_api \<Rightarrow> (string set \<Rightarrow> string list) \<Rightarrow> string \<Rightarrow> (string \<rightharpoonup> int) \<Rightarrow> ('s, unit) go" where
  "UserSetHasReadSeqs R ord userID hasReadSeqs =
     setSeqs R ord hasReadSeqs (\<lambda>conversationID. getHasReadSeqKey conversationID userID)"

definition GetHasReadSeqs :: "'s redis_api \<Rightarrow> string \<Rightarrow> string list \<Rightarrow> ('s, string \<rightharpoonup> int) go" where
  "GetHasReadSeqs R userID conversationIDs =
     getSeqs R conversationIDs (\<lambda>conversationID. getHasReadSeqKey conversationID userID)"

definition GetHasReadSeq :: "'s redis_api \<Rightarrow> string \<Rightarrow> string \<Rightarrow> ('s, int) go" where
  "GetHasReadSeq R userID conversationID =
     wrapG ''==> '' (rdGetInt64 R (getHasReadSeqKey conversationID userID))"

section \<open>Login tokens\<close>

definition uidPidToken_key :: "string \<Rightarrow> int \<Rightarrow> string" where
  "uidPidToken_key userID platformID =
     ''UID_PID_TOKEN_STATUS:'' @ userID @ '':'' @ PlatformIDToName platformID"

definition AddTokenFlag :: "'s redis_api \<Rightarrow> string \<Rightarrow> int \<Rightarrow> string \<Rightarrow> int \<Rightarrow> ('s, unit) go" where
  "AddTokenFlag R userID platformID token flag =
     (let key = uidPidToken_key userID platformID in
      wrapG [] (rdHSet R key (Map.empty(token \<mapsto> itoa flag))))"

definition GetTokensWithoutError :: "'s redis_api \<Rightarrow> string \<Rightarrow> int \<Rightarrow> ('s, string \<rightharpoonup> int) go" where
  "GetTokensWithoutError R userID platformID =
     (let key = uidPidToken_key userID platformID in
      bindG (wrapG [] (rdHGetAll R key)) (\<lambda>m. retG (\<lambda>k. map_option StringToInt (m k))))"

definition SetTokenMapByUidPid :: "'s redis_api \<Rightarrow> string \<Rightarrow> int \<Rightarrow> (string \<rightharpoonup> int) \<Rightarrow> ('s, unit) go" where
  "SetTokenMapByUidPid R userID platform m =
     (let key = uidPidToken_key userID platform in
      wrapG [] (rdHSet R key (\<lambda>k. map_option itoa (m k))))"

definition DeleteTokenByUidPid :: "'s redis_api \<Rightarrow> string \<Rightarrow> int \<Rightarrow> string list \<Rightarrow> ('s, unit) go" where
  "DeleteTokenByUidPid R userID platform flds =
     (let key = uidPidToken_key userID platform in wrapG [] (rdHDel R key flds))"

section \<open>Cached messages\<close>

text \<open>
  The three results of a read: the messages found, the sequence numbers not found, and the
  error.  A message is a pointer: \<open>None\<close> is a nil pointer in the slice.
\<close>

type_synonym seq_msgs = "MsgData option list \<times> int list \<times> go_error option"

fun PipeGet_results ::
  "pb_codec \<Rightarrow> (int \<times> (go_error + string)) list \<Rightarrow> seq_msgs \<Rightarrow> seq_msgs" where
  "PipeGet_results P [] acc = acc"
| "PipeGet_results P ((seq, res) # rest) (seqMsgs, failedSeqs, err) =
     (case res of
        Inl _ \<Rightarrow> PipeGet_results P rest (seqMsgs, failedSeqs @ [seq], err)
      | Inr val \<Rightarrow> (case pbUnmarshal P val of
            Inl e \<Rightarrow> PipeGet_results P rest (seqMsgs, failedSeqs @ [seq], Some e)
          | Inr msg \<Rightarrow>
              if Status msg = MsgDeleted then PipeGet_results P rest (seqMsgs, failedSeqs @ [seq], None)
              else PipeGet_results P rest (seqMsgs @ [Some msg], failedSeqs, None)))"

definition PipeGetMessagesBySeq ::
  "'s redis_api \<Rightarrow> pb_codec \<Rightarrow> string \<Rightarrow> int list \<Rightarrow> ('s, seq_msgs) go" where
  "PipeGetMessagesBySeq R P conversationID seqs =
     bindG (rdPipeGet R (map (getMessageCacheKey conversationID) seqs)) (\<lambda>(results, err).
       if err \<noteq> None \<and> err \<noteq> Some RedisNil then retG ([], [], errs_Wrap err [''pipe.get''])
       else retG (PipeGet_results P (zip seqs results) ([], [], err)))"

text \<open>The entry of one goroutine: a non-nil error, or the message pointer.\<close>

definition ParallelGet_entry ::
  "'s redis_api \<Rightarrow> pb_codec \<Rightarrow> string \<Rightarrow> int \<Rightarrow> ('s, go_error option \<times> MsgData option) go" where
  "ParallelGet_entry R P conversationID seq =
     bindG (attemptG (rdGet R (getMessageCacheKey conversationID seq))) (\<lambda>r. case r of
         Inl err \<Rightarrow> retG (Some err, None)
       | Inr res \<Rightarrow> (case pbUnmarshal P res of
             Inl err \<Rightarrow> retG (Some err, None)
           | Inr msg \<Rightarrow>
               if Status msg = MsgDeleted then retG (None, None)
               else retG (None, Some msg)))"

fun ParallelGet_results ::
  "(int \<times> go_error option \<times> MsgData option) list \<Rightarrow> MsgData option list \<times> int list" where
  "ParallelGet_results [] = ([], [])"
| "ParallelGet_results ((seq, err, msg) # rest) =
     (let (seqMsgs, failedSeqs) = ParallelGet_results rest in
      if err \<noteq> None then (seqMsgs, seq # failedSeqs) else (msg # seqMsgs, failedSeqs))"

definition ParallelGetMessagesBySeq ::
  "'s redis_api \<Rightarrow> pb_codec \<Rightarrow> string \<Rightarrow> int list \<Rightarrow> ('s, seq_msgs) go" where
  "ParallelGetMessagesBySeq R P conversationID seqs =
     bindG (mapG (ParallelGet_entry R P conversationID) seqs) (\<lambda>results.
       let (seqMsgs, failedSeqs) = ParallelGet_results (zip seqs results)
       in retG (seqMsgs, failedSeqs, None))"

definition GetMessagesBySeq ::
  "'s redis_api \<Rightarrow> pb_codec \<Rightarrow> cache_config \<Rightarrow> string \<Rightarrow> int list \<Rightarrow> ('s, seq_msgs) go" where
  "GetMessagesBySeq R P cfg conversationID seqs =
     (if EnablePipeline cfg then PipeGetMessagesBySeq R P conversationID seqs
      else ParallelGetMessagesBySeq R P conversationID seqs)"

fun marshal_all :: "pb_codec \<Rightarrow> MsgData list \<Rightarrow> go_error + string list" where
  "marshal_all P [] = Inr []"
| "marshal_all P (m # ms) = (case pbMarshal P m of
     Inl e \<Rightarrow> Inl e
   | Inr s \<Rightarrow> (case marshal_all P ms of Inl e \<Rightarrow> Inl e | Inr ss \<Rightarrow> Inr (s # ss)))"

text \<open>The loop over the replies wraps the nil error of \<open>Exec\<close>: a failed reply is not reported.\<close>

definition PipeSetMessageToCache ::
  "'s redis_api \<Rightarrow> pb_codec \<Rightarrow> cache_config \<Rightarrow> string \<Rightarrow> MsgData list \<Rightarrow> ('s, int \<times> go_error option) go" where
  "PipeSetMessageToCache R P cfg conversationID msgs =
     (case marshal_all P msgs of
        Inl err \<Rightarrow> retG (0, errs_Wrap (Some err) [''pb.marshal''])
      | Inr ss \<Rightarrow>
          bindG (rdPipeSet R (map (\<lambda>(m, s). (getMessageCacheKey conversationID (Seq m), s,
                                 seconds (MsgCacheTimeout cfg))) (zip msgs ss))) (\<lambda>(results, err).
            if err \<noteq> None then retG (0, errs_Wrap err [''pipe.set''])
            else if list_ex (\<lambda>res. res \<noteq> Inr ()) results then retG (0, errs_Wrap err [])
            else retG (int (length msgs), None)))"

definition ParallelSet_one ::
  "'s redis_api \<Rightarrow> pb_codec \<Rightarrow> cache_config \<Rightarrow> string \<Rightarrow> MsgData \<Rightarrow> ('s, unit) go" where
  "ParallelSet_one R P cfg conversationID msg =
     (case pbMarshal P msg of
        Inl err \<Rightarrow> failG (Wrapped [] err)
      | Inr s \<Rightarrow> wrapG [] (rdSet R (getMessageCacheKey conversationID (Seq msg)) s
                            (seconds (MsgCacheTimeout cfg))))"

text \<open>\<open>errgroup\<close>: every function runs, \<open>Wait\<close> returns the first error.\<close>

fun errgroup :: "('s, unit) go list \<Rightarrow> ('s, go_error option) go" where
  "errgroup [] = retG None"
| "errgroup (f # fs) =
     bindG (attemptG f) (\<lambda>r. bindG (errgroup fs) (\<lambda>rest.
       retG (case r of Inl e \<Rightarrow> Some e | Inr _ \<Rightarrow> rest)))"

definition ParallelSetMessageToCache ::
  "'s redis_api \<Rightarrow> pb_codec \<Rightarrow> cache_config \<Rightarrow> string \<Rightarrow> MsgData list \<Rightarrow> ('s, int \<times> go_error option) go" where
  "ParallelSetMessageToCache R P cfg conversationID msgs =
     bindG (errgroup (map (ParallelSet_one R P cfg conversationID) msgs)) (\<lambda>err.
       if err \<noteq> None then retG (0, err) else retG (int (length msgs), None))"

definition SetMessageToCache ::
  "'s redis_api \<Rightarrow> pb_codec \<Rightarrow> cache_config \<Rightarrow> string \<Rightarrow> MsgData list \<Rightarrow> ('s, int \<times> go_error option) go" where
  "SetMessageToCache R P cfg conversationID msgs =
     (if EnablePipeline cfg then PipeSetMessageToCache R P cfg conversationID msgs
      else ParallelSetMessageToCache R P cfg conversationID msgs)"

definition ParallelDeleteMessages :: "'s redis_api \<Rightarrow> string \<Rightarrow> int list \<Rightarrow> ('s, unit) go" where
  "ParallelDeleteMessages R conversationID seqs =
     bindG (errgroup (map (\<lambda>seq. wrapG [] (rdDel R (getMessageCacheKey conversationID seq))) seqs))
       (\<lambda>err. case err of None \<Rightarrow> retG () | Some e \<Rightarrow> failG e)"

definition PipeDeleteMessages :: "'s redis_api \<Rightarrow> string \<Rightarrow> int list \<Rightarrow> ('s, unit) go" where
  "PipeDeleteMessages R conversationID seqs =
     bindG (rdPipeDel R (map (getMessageCacheKey conversationID) seqs)) (\<lambda>(results, err).
       case err of Some e \<Rightarrow> failG (Wrapped ''pipe.del'' e) | None \<Rightarrow> retG ())"

definition DeleteMessages :: "'s redis_api \<Rightarrow> cache_config \<Rightarrow> string \<Rightarrow> int list \<Rightarrow> ('s, unit) go" where
  "DeleteMessages R cfg conversationID seqs =
     (if EnablePipeline cfg then PipeDeleteMessages R conversationID seqs
      else ParallelDeleteMessages R conversationID seqs)"

definition CleanUpOneConversationAllMsg :: "'s redis_api \<Rightarrow> string \<Rightarrow> ('s, unit) go" where
  "CleanUpOneConversationAllMsg R conversationID =
     bindG (attemptG (rdKeys R (allMessageCacheKey conversationID))) (\<lambda>r. case r of
         Inl err \<Rightarrow> if Unwrap err = RedisNil then retG () else failG (Wrapped [] err)
       | Inr vals \<Rightarrow> forG vals (\<lambda>v. wrapG [] (rdDel R v)))"

definition DelMsgFromCache ::
  "'s redis_api \<Rightarrow> pb_codec \<Rightarrow> cache_config \<Rightarrow> string \<Rightarrow> int list \<Rightarrow> ('s, unit) go" where
  "DelMsgFromCache R P cfg userID seqs =
     forG seqs (\<lambda>seq.
       let key = getMessageCacheKey userID seq in
       bindG (attemptG (rdGet R key)) (\<lambda>r. case r of
           Inl err \<Rightarrow> if Unwrap err = RedisNil then retG () else failG (Wrapped [] err)
         | Inr result \<Rightarrow> (case jsonpbUnmarshal P result of
               Inl err \<Rightarrow> failG err
             | Inr msg \<Rightarrow> (case pbMarshal P (msg\<lparr> Status := MsgDeleted \<rparr>) of
                   Inl err \<Rightarrow> failG (Wrapped [] err)
                 | Inr s \<Rightarrow> wrapG [] (rdSet R key s (seconds (MsgCacheTimeout cfg)))))))"

section \<open>Messages deleted by users\<close>

definition UserDeleteMsgs ::
  "'s redis_api \<Rightarrow> cache_config \<Rightarrow> string \<Rightarrow> int list \<Rightarrow> string \<Rightarrow> ('s, unit) go" where
  "UserDeleteMsgs R cfg conversationID seqs userID =
     forG seqs (\<lambda>seq.
       let delUserListKey = getMessageDelUserListKey conversationID seq;
           userDelListKey = getUserDelList conversationID userID
       in bindG (wrapG [] (rdSAdd R delUserListKey userID)) (\<lambda>_.
          bindG (wrapG [] (rdSAdd R userDelListKey (itoa seq))) (\<lambda>_.
          bindG (wrapG [] (rdExpire R delUserListKey (seconds (MsgCacheTimeout cfg)))) (\<lambda>_.
          bindG (wrapG [] (rdExpire R userDelListKey (seconds (MsgCacheTimeout cfg)))) (\<lambda>_.
            retG ())))))"

definition GetUserDelList :: "'s redis_api \<Rightarrow> string \<Rightarrow> string \<Rightarrow> ('s, int list) go" where
  "GetUserDelList R userID conversationID =
     bindG (wrapG [] (rdSMembers R (getUserDelList conversationID userID)))
       (\<lambda>result. retG (map StringToInt64 result))"

definition DelUserDeleteMsgsList :: "'s redis_api \<Rightarrow> string \<Rightarrow> int list \<Rightarrow> ('s, unit) go" where
  "DelUserDeleteMsgsList R conversationID seqs =
     forG seqs (\<lambda>seq.
       bindG (attemptG (rdSMembers R (getMessageDelUserListKey conversationID seq))) (\<lambda>r. case r of
           Inl err \<Rightarrow> retG ()
         | Inr delUsers \<Rightarrow>
             if length delUsers > 0 then
               bindG (foldG (\<lambda>userID failedFlag.
                        bindG (attemptG (rdSRem R (getUserDelList conversationID userID) (itoa seq)))
                          (\<lambda>r. case r of Inl err \<Rightarrow> retG True | Inr _ \<Rightarrow> retG failedFlag))
                      delUsers False)
                 (\<lambda>failedFlag. if \<not> failedFlag
                    then ignoreG (rdDel R (getMessageDelUserListKey conversationID seq)) else retG ())
             else retG ()))"

section \<open>Flags and counters\<close>

definition SetSendMsgStatus :: "'s redis_api \<Rightarrow> string \<Rightarrow> int \<Rightarrow> ('s, unit) go" where
  "SetSendMsgStatus R id' status =
     wrapG [] (rdSet R (''SEND_MSG_FAILED_FLAG:'' @ id') (itoa status) (seconds 86400))"

definition GetSendMsgStatus :: "'s redis_api \<Rightarrow> string \<Rightarrow> ('s, int) go" where
  "GetSendMsgStatus R id' =
     bindG (wrapG [] (rdGetInt64 R (''SEND_MSG_FAILED_FLAG:'' @ id'))) (\<lambda>v. retG (wrap32 v))"

definition IncrUserBadgeUnreadCountSum :: "'s redis_api \<Rightarrow> string \<Rightarrow> ('s, int) go" where
  "IncrUserBadgeUnreadCountSum R userID = wrapG [] (rdIncr R (''USER_BADGE_UNREAD_COUNT_SUM:'' @ userID))"

definition SetUserBadgeUnreadCountSum :: "'s redis_api \<Rightarrow> string \<Rightarrow> int \<Rightarrow> ('s, unit) go" where
  "SetUserBadgeUnreadCountSum R userID value' =
     wrapG [] (rdSet R (''USER_BADGE_UNREAD_COUNT_SUM:'' @ userID) (itoa value') 0)"

definition GetUserBadgeUnreadCountSum :: "'s redis_api \<Rightarrow> string \<Rightarrow> ('s, int) go" where
  "GetUserBadgeUnreadCountSum R userID =
     wrapG ''==> '' (rdGetInt64 R (''USER_BADGE_UNREAD_COUNT_SUM:'' @ userID))"

definition SetRevokeConversationIdExpire :: "'s redis_api \<Rightarrow> string \<Rightarrow> string \<Rightarrow> ('s, unit) go" where
  "SetRevokeConversationIdExpire R conversationID clientMsgID =
     ignoreG (rdSet R (getRevokeConversationKey clientMsgID) conversationID (seconds 86400))"

definition GetRevokeConversationIdExpire :: "'s redis_api \<Rightarrow> string \<Rightarrow> ('s, string) go" where
  "GetRevokeConversationIdExpire R clientMsgID = rdGet R (getRevokeConversationKey clientMsgID)"

definition SetFcmToken :: "'s redis_api \<Rightarrow> string \<Rightarrow> int \<Rightarrow> string \<Rightarrow> int \<Rightarrow> ('s, unit) go" where
  "SetFcmToken R account platformID fcmToken expireTime =
     wrapG [] (rdSet R (''FCM_TOKEN:'' @ account @ '':'' @ itoa platformID) fcmToken (seconds expireTime))"

definition GetFcmToken :: "'s redis_api \<Rightarrow> string \<Rightarrow> int \<Rightarrow> ('s, string) go" where
  "GetFcmToken R account platformID =
     wrapG ''==> '' (rdGet R (''FCM_TOKEN:'' @ account @ '':'' @ itoa platformID))"

definition DelFcmToken :: "'s redis_api \<Rightarrow> string \<Rightarrow> int \<Rightarrow> ('s, unit) go" where
  "DelFcmToken R account platformID =
     wrapG [] (rdDel R (''FCM_TOKEN:'' @ account @ '':'' @ itoa platformID))"

end
