(* ===== verification/Entities.thy ===== *)
theory Entities
  imports MsgModel
begin

text \<open>
  The users, group members, groups and conversations that the message services read from the
  other services, as the generated messages of \<open>pkg/proto\<close> declare them, and the JSON
  documents embedded in them.  JSON decoding (\<open>encoding/json\<close>, \<open>gjson\<close>) is an argument,
  the record \<open>json_codec\<close>; what the code does with the decoded fields is modelled.
\<close>

record UserInfo =
  uUserID :: string
  uNickname :: string
  uFaceURL :: string
  uEx :: string
  uCreateTime :: int
  uAppMangerLevel :: int
  uGlobalRecvMsgOpt :: int

record GroupMemberFullInfo =
  gmGroupID :: string
  gmUserID :: string
  gmRoleLevel :: int
  gmJoinTime :: int
  gmNickname :: string
  gmFaceURL :: string
  gmAppMangerLevel :: int
  gmJoinSource :: int
  gmOperatorUserID :: string
  gmEx :: string
  gmMuteEndTime :: int
  gmInviterUserID :: string
  gmRemark :: string

record Conversation =
  cOwnerUserID :: string
  cConversationID :: string
  cRecvMsgOpt :: int
  cConversationType :: int
  cUserID :: string
  cGroupID :: string
  cIsPinned :: bool
  cAttachedInfo :: string
  cIsPrivateChat :: bool
  cGroupAtType :: int
  cEx :: string
  cBurnDuration :: int
  cMinSeq :: int
  cMaxSeq :: int
  cMsgDestructTime :: int
  cLatestMsgDestructTime :: int
  cIsMsgDestruct :: bool

record GroupInfo =
  giGroupID :: string
  giGroupName :: string
  giNotification :: string
  giIntroduction :: string
  giFaceURL :: string
  giOwnerUserID :: string
  giCreateTime :: int
  giMemberCount :: int
  giEx :: string
  giStatus :: int
  giCreatorUserID :: string
  giGroupType :: int
  giNeedVerification :: int
  giLookMemberInfo :: int
  giApplyMemberFriend :: int
  giNotificationUpdateTime :: int
  giNotificationUserID :: string
  giJoinTime :: int

record ConversationReq =
  crConversationID :: string
  crConversationType :: int
  crUserID :: string
  crGroupID :: string
  crRecvMsgOpt :: "int option"
  crIsPinned :: "bool option"
  crAttachedInfo :: "string option"
  crIsPrivateChat :: "bool option"
  crEx :: "string option"
  crBurnDuration :: "int option"
  crMinSeq :: "int option"
  crMaxSeq :: "int option"
  crGroupAtType :: "int option"
  crMsgDestructTime :: "int option"
  crIsMsgDestruct :: "bool option"
  crLatestMsgSendTime :: "int option"

definition empty_conversation_req :: ConversationReq where
  "empty_conversation_req = \<lparr> crConversationID = [], crConversationType = 0, crUserID = [], crGroupID = [], crRecvMsgOpt = None,
     crIsPinned = None, crAttachedInfo = None, crIsPrivateChat = None, crEx = None, crBurnDuration = None, crMinSeq = None,
     crMaxSeq = None, crGroupAtType = None, crMsgDestructTime = None, crIsMsgDestruct = None, crLatestMsgSendTime = None \<rparr>"

section \<open>Embedded JSON\<close>

record UserRights =
  AnchorAuth :: string
  HighAuth :: string
  OperationAuth :: string

record QuoteMsg =
  QuoteText :: string
  QuoteMessage :: "MsgData option"
  MessageEntityList :: string

text \<open>
  \<open>jsCustomType\<close>, \<open>jsCreatorId\<close> and \<open>jsRcreator\<close> read the type and the two creators out
  of the content of a custom message; a field that is absent or malformed reads as 0 or empty.
\<close>

record json_codec =
  jsUserRights :: "string \<Rightarrow> go_error + UserRights"
  jsSendStatus :: "string \<Rightarrow> go_error + int"
  jsQuoteUnmarshal :: "string \<Rightarrow> go_error + QuoteMsg"
  jsQuoteMarshal :: "QuoteMsg \<Rightarrow> go_error + string"
  jsCustomType :: "string \<Rightarrow> int"
  jsCreatorId :: "string \<Rightarrow> string"
  jsRcreator :: "string \<Rightarrow> string"

definition VerifyRights :: "json_codec \<Rightarrow> string \<Rightarrow> int \<times> go_error option" where
  "VerifyRights J ex =
     (case (if ex \<noteq> '''' then jsUserRights J ex
            else Inr \<lparr> AnchorAuth = ''false'', HighAuth = ''false'', OperationAuth = ''false'' \<rparr>) of
        Inl err \<Rightarrow> (0, Some err)
      | Inr userRights \<Rightarrow>
          if HighAuth userRights = ''true'' then (3, None)
          else if OperationAuth userRights = ''true'' then (2, None)
          else if AnchorAuth userRights = ''true'' then (1, None)
          else (0, None))"

definition VerifySendStatus :: "json_codec \<Rightarrow> string \<Rightarrow> int \<times> go_error option" where
  "VerifySendStatus J ex =
     (if ex \<noteq> '''' then (case jsSendStatus J ex of Inl err \<Rightarrow> (0, Some err) | Inr st \<Rightarrow> (st, None))
      else (0, None))"

fun InArray :: "string \<Rightarrow> string list \<Rightarrow> bool" where
  "InArray v [] = False"
| "InArray v (m # ms) = (if m = v then True else InArray v ms)"

text \<open>\<open>FilterMsg\<close> reads \<open>msg.Msg\<close> first: a stored entry without a message is a nil dereference.\<close>

definition FilterMsg :: "json_codec \<Rightarrow> int \<Rightarrow> int \<Rightarrow> MsgInfoModel \<Rightarrow> UserInfo \<Rightarrow> bool outcome" where
  "FilterMsg J userAuth roleLevel info userInfo =
     (case InfoMsg info of
        None \<Rightarrow> Panic ''nil pointer dereference''
      | Some m \<Rightarrow>
          if mContentType m = 110 then
            (let customType = jsCustomType J (mContent m) in
             if customType = 1208 then Ok False
             else if customType = 1101 then
               (if uUserID userInfo \<noteq> jsCreatorId J (mContent m)
                   \<and> uUserID userInfo \<noteq> jsRcreator J (mContent m) then Ok False else Ok True)
             else Ok True)
          else if InfoRevoke info \<noteq> None then
            (if userAuth = 0 \<and> roleLevel = 20 then Ok False else Ok True)
          else if mContentType m = 1508 then
            (if userAuth = 0 \<and> roleLevel = 20 then Ok False else Ok True)
          else Ok True)"

lemma InArray_iff [simp]: "InArray v ms \<longleftrightarrow> v \<in> set ms"
  by (induction ms) auto

lemma VerifyRights_range: "fst (VerifyRights J ex) \<in> {0..3}"
  by (auto simp: VerifyRights_def split: sum.splits)

definition demo_json :: json_codec where
  "demo_json = \<lparr> jsUserRights = (\<lambda>s. Inl (Plain ''bad json'')), jsSendStatus = (\<lambda>s. Inl (Plain ''bad json'')),
     jsQuoteUnmarshal = (\<lambda>s. Inl (Plain ''bad json'')), jsQuoteMarshal = (\<lambda>q. Inl (Plain ''bad json'')),
     jsCustomType = (\<lambda>s. 0), jsCreatorId = (\<lambda>s. []), jsRcreator = (\<lambda>s. []) \<rparr>"

definition demo_user :: "string \<Rightarrow> UserInfo" where
  "demo_user u = \<lparr> uUserID = u, uNickname = [], uFaceURL = [], uEx = [], uCreateTime = 0,
     uAppMangerLevel = 0, uGlobalRecvMsgOpt = 0 \<rparr>"

end
