(* ===== verification/MsgDatabase.thy ===== *)
theory MsgDatabase
  imports MsgStore RedisCache Entities SliceUtils
begin

text \<open>
  The message database of \<open>pkg/common/db/controller/msg.go\<close>, over the cache and the document
  store: allocation of sequence numbers, reading by sequence numbers with per-user filtering,
  and deletion.

  \<open>msg_db\<close> is the struct \<open>commonMsgDatabase\<close>: its two stores, the codecs, and the order in
  which Go ranges over its maps.  The clock is read once per operation (\<open>now\<close>, in milliseconds).
\<close>

record 's msg_db =
  db_doc :: "'s msgdoc_api"
  db_rdb :: "'s redis_api"
  db_pb :: pb_codec
  db_cfg :: cache_config
  db_json :: json_codec
  db_ord :: "string set \<Rightarrow> string list"

abbreviation (input) pageMsgLimit :: nat where "pageMsgLimit \<equiv> 50"

text \<open>
  \<open>v, err := get(); if err != nil && errs.Unwrap(err) != redis.Nil { return err }\<close>: a missing
  key leaves the zero value.
\<close>

definition or_zero :: "('s, int) go \<Rightarrow> ('s, int) go" where
  "or_zero m = bindG (attemptG m) (\<lambda>r. case r of
       Inr v \<Rightarrow> retG v
     | Inl err \<Rightarrow> if Unwrap err \<noteq> RedisNil then failG err else retG 0)"

section \<open>Allocation of sequence numbers\<close>

fun assign_seqs :: "int \<Rightarrow> MsgData list \<Rightarrow> MsgData list \<times> int" where
  "assign_seqs currentMaxSeq [] = ([], currentMaxSeq)"
| "assign_seqs currentMaxSeq (m # msgs) =
     (let seq = add64 currentMaxSeq 1; (ms, last) = assign_seqs seq msgs
      in (m\<lparr> Seq := seq \<rparr> # ms, last))"

definition userSeqMap :: "MsgData list \<Rightarrow> (string \<rightharpoonup> int)" where
  "userSeqMap msgs = fold (\<lambda>m t. t(SendID m \<mapsto> Seq m)) msgs Map.empty"

text \<open>
  The messages are updated in place (\<open>m.Seq = currentMaxSeq\<close>): the updated list is returned
  with the two results.  The result of \<open>SetHasReadSeqs\<close> is dropped: the code tests \<open>err\<close>
  where it has \<open>err2\<close>.
\<close>

definition BatchInsertChat2Cache ::
  "'s msg_db \<Rightarrow> string \<Rightarrow> MsgData list \<Rightarrow> ('s, (int \<times> bool \<times> go_error option) \<times> MsgData list) go" where
  "BatchInsertChat2Cache db conversationID msgs =
     bindG (attemptG (GetMaxSeq (db_rdb db) conversationID)) (\<lambda>r.
       let failed = (case r of Inl err \<Rightarrow> Unwrap err \<noteq> RedisNil | Inr _ \<Rightarrow> False) in
       if failed then retG ((0, False, (case r of Inl err \<Rightarrow> Some err | Inr _ \<Rightarrow> None)), msgs)
       else
         let currentMaxSeq = (case r of Inl _ \<Rightarrow> 0 | Inr v \<Rightarrow> v);
             lenList = int (length msgs)
         in if lenList > GetSingleGocMsgNum then retG ((0, False, Some (Plain ''too large'')), msgs)
            else if lenList < 1 then retG ((0, False, Some (Plain ''too short as 0'')), msgs)
            else
              let isNew = (case r of Inl _ \<Rightarrow> True | Inr _ \<Rightarrow> False);
                  lastMaxSeq = currentMaxSeq;
                  (msgs', newMaxSeq) = assign_seqs currentMaxSeq msgs
              in bindG (SetMessageToCache (db_rdb db) (db_pb db) (db_cfg db) conversationID msgs') (\<lambda>_.
                 bindG (attemptG (SetMaxSeq (db_rdb db) conversationID newMaxSeq)) (\<lambda>r2.
                 bindG (ignoreG (SetHasReadSeqs (db_rdb db) (db_ord db) conversationID (userSeqMap msgs'))) (\<lambda>_.
                   retG ((lastMaxSeq, isNew,
                          (case r2 of Inl err \<Rightarrow> Some (Wrapped ''==> '' err) | Inr _ \<Rightarrow> None)),
                         msgs')))))"

section \<open>Reading from the document store\<close>

type_synonym quote_cache = "int \<rightharpoonup> MsgInfoModel list"

text \<open>
  \<open>handlerDBMsg\<close>: the read flag is copied into the message, and a quoted message that has been
  revoked or deleted since is replaced in the quoting message.  The entry and the cache of quoted
  messages are updated in place; both are returned.
\<close>

definition handlerDBMsg ::
  "'s msg_db \<Rightarrow> quote_cache \<Rightarrow> string \<Rightarrow> string \<Rightarrow> MsgInfoModel \<Rightarrow> ('s, quote_cache \<times> MsgInfoModel) go" where
  "handlerDBMsg db cache userID conversationID info =
     (case InfoMsg info of None \<Rightarrow> panicG ''nil pointer dereference'' | Some m0 \<Rightarrow>
        let m = (if InfoIsRead info then m0\<lparr> mIsRead := True \<rparr> else m0);
            info' = info\<lparr> InfoMsg := Some m \<rparr>
        in if mContentType m \<noteq> Quote then retG (cache, info')
           else if mContent m = '''' then retG (cache, info')
           else (case jsQuoteUnmarshal (db_json db) (mContent m) of Inl err \<Rightarrow> retG (cache, info') | Inr q \<Rightarrow>
             (case QuoteMessage q of None \<Rightarrow> retG (cache, info') | Some qm \<Rightarrow>
               if ContentType qm = MsgRevokeNotification then retG (cache, info')
               else
                 bindG (case cache (Seq qm) of
                     Some v \<Rightarrow> retG (Some (v, cache))
                   | None \<Rightarrow>
                       if Seq qm > 0 then
                         bindG (attemptG (mdGetMsgBySeqIndexIn1Doc (db_doc db) userID
                                  (GetDocID conversationID (Seq qm)) [Seq qm]))
                           (\<lambda>r. case r of
                              Inl err \<Rightarrow> retG None
                            | Inr ms \<Rightarrow> retG (Some (ms, cache(Seq qm \<mapsto> ms))))
                       else retG (Some ([], cache)))
                 (\<lambda>found. case found of None \<Rightarrow> retG (cache, info') | Some (msgs, cache') \<Rightarrow>
                    let replace = (\<lambda>content.
                          let qm' = qm\<lparr> ContentType := MsgRevokeNotification, Content := content \<rparr> in
                          (case jsQuoteMarshal (db_json db) (q\<lparr> QuoteMessage := Some qm' \<rparr>) of
                             Inl err \<Rightarrow> retG (cache', info')
                           | Inr data \<Rightarrow>
                               let m' = m\<lparr> mContent := data \<rparr> in
                               bindG (ignoreG (mdUpdateMsg (db_doc db) (GetDocID conversationID (mSeq m'))
                                        (GetMsgIndex (mSeq m')) ''msg'' (AnyMsg m')))
                                 (\<lambda>_. retG (cache', info'\<lparr> InfoMsg := Some m' \<rparr>))))
                    in (case msgs of
                          [] \<Rightarrow> replace ''{}''
                        | i0 # _ \<Rightarrow> (case InfoMsg i0 of
                              None \<Rightarrow> panicG ''nil pointer dereference''
                            | Some m1 \<Rightarrow>
                                if mContentType m1 \<noteq> MsgRevokeNotification then retG (cache', info')
                                else replace (mContent m1)))))))"

fun findMsgInfoBySeq_loop ::
  "'s msg_db \<Rightarrow> string \<Rightarrow> string \<Rightarrow> UserInfo \<Rightarrow> int \<Rightarrow> int \<Rightarrow> quote_cache \<Rightarrow> MsgInfoModel list
   \<Rightarrow> MsgInfoModel list \<Rightarrow> ('s, MsgInfoModel list) go" where
  "findMsgInfoBySeq_loop db userID c userInfo auth role cache [] acc = retG acc"
| "findMsgInfoBySeq_loop db userID c userInfo auth role cache (msg # msgs) acc =
     bindG (handlerDBMsg db cache userID c msg) (\<lambda>(cache', msg').
     bindG (liftG (FilterMsg (db_json db) auth role msg' userInfo)) (\<lambda>visible.
       if visible then
         let acc' = acc @ [msg'] in
         if length acc' \<ge> pageMsgLimit then retG acc'
         else findMsgInfoBySeq_loop db userID c userInfo auth role cache' msgs acc'
       else findMsgInfoBySeq_loop db userID c userInfo auth role cache' msgs acc))"

definition member_role :: "GroupMemberFullInfo option \<Rightarrow> int" where
  "member_role groupMemberCache = (case groupMemberCache of None \<Rightarrow> 20 | Some g \<Rightarrow> gmRoleLevel g)"

definition findMsgInfoBySeq ::
  "'s msg_db \<Rightarrow> string \<Rightarrow> string \<Rightarrow> string \<Rightarrow> int list \<Rightarrow> UserInfo \<Rightarrow> GroupMemberFullInfo option
   \<Rightarrow> ('s, MsgInfoModel list) go" where
  "findMsgInfoBySeq db userID docID conversationID seqs userInfo groupMemberCache =
     bindG (mdGetMsgBySeqIndexIn1Doc (db_doc db) userID docID seqs) (\<lambda>msgs.
       let userAuth = fst (VerifyRights (db_json db) (uEx userInfo));
           roleLevel = member_role groupMemberCache
       in findMsgInfoBySeq_loop db userID conversationID userInfo userAuth roleLevel Map.empty msgs [])"

text \<open>\<open>convert.MsgDB2Pb\<close> maps a nil message to a nil pointer.\<close>

definition DB2Pb :: "MsgDataModel option \<Rightarrow> MsgData option" where
  "DB2Pb m = map_option MsgDB2Pb m"

definition getMsgBySeqs ::
  "'s msg_db \<Rightarrow> string \<Rightarrow> string \<Rightarrow> int list \<Rightarrow> UserInfo \<Rightarrow> GroupMemberFullInfo option
   \<Rightarrow> ('s, MsgData option list) go" where
  "getMsgBySeqs db userID conversationID seqs userInfo groupMemberCache =
     (let t = GetDocIDSeqsMap conversationID seqs in
      foldG (\<lambda>docID totalMsgs.
          bindG (findMsgInfoBySeq db userID docID conversationID (the (t docID)) userInfo groupMemberCache)
            (\<lambda>msgs. retG (totalMsgs @ map (\<lambda>msg. DB2Pb (InfoMsg msg)) msgs)))
        (db_ord db (dom t)) [])"

definition mark_read :: "MsgInfoModel \<Rightarrow> MsgInfoModel" where
  "mark_read msg = (if InfoIsRead msg
     then msg\<lparr> InfoMsg := map_option (\<lambda>m. m\<lparr> mIsRead := True \<rparr>) (InfoMsg msg) \<rparr> else msg)"

definition getMsgBySeqsRange ::
  "'s msg_db \<Rightarrow> string \<Rightarrow> string \<Rightarrow> int list \<Rightarrow> int \<Rightarrow> int \<Rightarrow> UserInfo \<Rightarrow> GroupMemberFullInfo option
   \<Rightarrow> ('s, MsgData option list) go" where
  "getMsgBySeqsRange db userID conversationID allSeqs minSeq end' userInfo groupMemberCache =
     (let t = GetDocIDSeqsMap conversationID allSeqs in
      foldG (\<lambda>docID seqMsgs.
          bindG (findMsgInfoBySeq db userID docID conversationID (the (t docID)) userInfo groupMemberCache)
            (\<lambda>msgs. retG (seqMsgs @ map (\<lambda>msg. DB2Pb (InfoMsg (mark_read msg))) msgs)))
        (db_ord db (dom t)) [])"

section \<open>Reading through the cache\<close>

text \<open>The sequence numbers of a page: the whole range, or its last \<open>num\<close> numbers.\<close>

definition range_seqs :: "int \<Rightarrow> int \<Rightarrow> int \<Rightarrow> int list" where
  "range_seqs begin' end' num =
     (if add64 (sub64 end' begin') 1 \<le> num then [begin'..end']
      else [add64 (sub64 end' num) 1..end'])"

text \<open>
  The loop that looks for older messages in place of those the user deleted.  Its counter
  advances only when the candidate is not deleted, so it may never end: \<open>None\<close> is a loop that
  does not return.
\<close>

partial_function (option) reGetSeqsCache_loop ::
  "int list \<Rightarrow> int \<Rightarrow> int \<Rightarrow> int \<Rightarrow> int \<Rightarrow> int list \<Rightarrow> int list option" where
  "reGetSeqsCache_loop delSeqs newBegin begin' cacheDelNum i acc =
     (if i \<le> cacheDelNum then
        (let newSeq = sub64 newBegin i in
         if newSeq \<ge> begin' then
           (if \<not> Contain newSeq delSeqs
            then reGetSeqsCache_loop delSeqs newBegin begin' cacheDelNum (i + 1) (acc @ [newSeq])
            else reGetSeqsCache_loop delSeqs newBegin begin' cacheDelNum i acc)
         else Some acc)
      else Some acc)"

text \<open>\<open>msg.Seq\<close> on a nil pointer of the slice panics.\<close>

fun split_deleted :: "int list \<Rightarrow> MsgData option list \<Rightarrow> (MsgData option list \<times> nat) outcome" where
  "split_deleted delSeqs [] = Ok ([], 0)"
| "split_deleted delSeqs (None # msgs) = Panic ''nil pointer dereference''"
| "split_deleted delSeqs (Some m # msgs) =
     (case split_deleted delSeqs msgs of
        Ok (ok, n) \<Rightarrow> if \<not> Contain (Seq m) delSeqs then Ok (Some m # ok, n) else Ok (ok, Suc n)
      | r \<Rightarrow> r)"

fun set_remarks :: "(string \<rightharpoonup> string) \<Rightarrow> MsgData option list \<Rightarrow> MsgData option list outcome" where
  "set_remarks remark [] = Ok []"
| "set_remarks remark (None # msgs) = Panic ''nil pointer dereference''"
| "set_remarks remark (Some m # msgs) =
     (case set_remarks remark msgs of
        Ok ms \<Rightarrow> Ok (Some (case remark (SendID m) of
            None \<Rightarrow> m | Some r \<Rightarrow> m\<lparr> SenderNickname := r \<rparr>) # ms)
      | r \<Rightarrow> r)"

definition GetMsgBySeqsRange_cached ::
  "'s msg_db \<Rightarrow> UserInfo \<Rightarrow> string \<Rightarrow> int \<Rightarrow> int list \<Rightarrow> MsgData option list \<Rightarrow> int list
   \<Rightarrow> ('s, MsgData option list \<times> int list) go" where
  "GetMsgBySeqsRange_cached db userInfo conversationID begin' seqs cachedMsgs failedSeqs =
     (if length cachedMsgs > 0 then
        bindG (attemptG (GetUserDelList (db_rdb db) (uUserID userInfo) conversationID)) (\<lambda>r.
          case r of
            Inl err \<Rightarrow> if Unwrap err \<noteq> RedisNil then failG err
                       else bindG (liftG (split_deleted [] cachedMsgs)) (\<lambda>(ok, n). retG (ok, failedSeqs))
          | Inr delSeqs \<Rightarrow>
              bindG (liftG (split_deleted delSeqs cachedMsgs)) (\<lambda>(successMsgs, cacheDelNum).
                case reGetSeqsCache_loop delSeqs (hd seqs) begin' (int cacheDelNum) 1 [] of
                  None \<Rightarrow> panicG ''does not return''
                | Some reGet \<Rightarrow>
                    if length reGet > 0 then
                      bindG (GetMessagesBySeq (db_rdb db) (db_pb db) (db_cfg db) conversationID reGet)
                        (\<lambda>(msgs2, failed2, err). retG (successMsgs @ msgs2, failedSeqs @ failed2))
                    else retG (successMsgs, failedSeqs)))
      else retG ([], failedSeqs))"

definition GetMsgBySeqsRange ::
  "'s msg_db \<Rightarrow> UserInfo \<Rightarrow> string \<Rightarrow> int \<Rightarrow> int \<Rightarrow> int \<Rightarrow> Conversation \<Rightarrow> GroupMemberFullInfo option
   \<Rightarrow> (string, string) gomap \<Rightarrow> ('s, int \<times> int \<times> MsgData option list) go" where
  "GetMsgBySeqsRange db userInfo conversationID begin0 end0 num conversation groupMemberCache friendsRemark =
     (let userMaxSeq = cMaxSeq conversation in
      bindG (or_zero (GetConversationUserMinSeq (db_rdb db) conversationID (uUserID userInfo))) (\<lambda>userMinSeq.
      bindG (or_zero (GetMinSeq (db_rdb db) conversationID)) (\<lambda>minSeq0.
        let minSeq = (if userMinSeq > minSeq0 then userMinSeq else minSeq0) in
        if minSeq > end0 then retG (0, 0, [])
        else
          bindG (or_zero (GetMaxSeq (db_rdb db) conversationID)) (\<lambda>maxSeq0.
            let maxSeq = (if userMaxSeq \<noteq> 0 \<and> userMaxSeq < maxSeq0 then userMaxSeq else maxSeq0);
                begin' = (if begin0 < minSeq then minSeq else begin0);
                end' = (if end0 > maxSeq then maxSeq else end0)
            in if end' < begin' then failG (codeError_Wrap ErrArgs [''seq end < begin''])
               else
                 let seqs = range_seqs begin' end' num in
                 if length seqs = 0 then retG (0, 0, [])
                 else
                   bindG (GetMessagesBySeq (db_rdb db) (db_pb db) (db_cfg db) conversationID seqs)
                     (\<lambda>(cachedMsgs, failedSeqs, err).
                   bindG (GetMsgBySeqsRange_cached db userInfo conversationID begin' seqs cachedMsgs failedSeqs)
                     (\<lambda>(successMsgs, failedSeqs').
                   bindG (if length failedSeqs' > 0 then
                            bindG (getMsgBySeqsRange db (uUserID userInfo) conversationID failedSeqs'
                                     begin' end' userInfo groupMemberCache)
                              (\<lambda>mongoMsgs. retG (mongoMsgs @ successMsgs))
                          else retG successMsgs)
                     (\<lambda>successMsgs'.
                   bindG (case friendsRemark of
                            None \<Rightarrow> retG successMsgs'
                          | Some remark \<Rightarrow> liftG (set_remarks remark successMsgs'))
                     (\<lambda>msgs. retG (minSeq, maxSeq, msgs)))))))))"

definition GetMsgBySeqs ::
  "'s msg_db \<Rightarrow> string \<Rightarrow> string \<Rightarrow> int list \<Rightarrow> UserInfo \<Rightarrow> GroupMemberFullInfo option
   \<Rightarrow> ('s, int \<times> int \<times> MsgData option list) go" where
  "GetMsgBySeqs db userID conversationID seqs userInfo groupMemberCache =
     bindG (or_zero (GetConversationUserMinSeq (db_rdb db) conversationID userID)) (\<lambda>userMinSeq.
     bindG (or_zero (GetMinSeq (db_rdb db) conversationID)) (\<lambda>minSeq0.
     bindG (or_zero (GetMaxSeq (db_rdb db) conversationID)) (\<lambda>maxSeq.
       let minSeq = (if userMinSeq < minSeq0 then userMinSeq else minSeq0);
           newSeqs = filter (\<lambda>seq. seq \<ge> minSeq \<and> seq \<le> maxSeq) seqs
       in bindG (GetMessagesBySeq (db_rdb db) (db_pb db) (db_cfg db) conversationID newSeqs)
            (\<lambda>(successMsgs, failedSeqs, err).
            if length failedSeqs > 0 then
              bindG (getMsgBySeqs db userID conversationID failedSeqs userInfo groupMemberCache)
                (\<lambda>mongoMsgs. retG (minSeq, maxSeq, successMsgs @ mongoMsgs))
            else retG (minSeq, maxSeq, successMsgs)))))"

section \<open>Deletion\<close>

record delMsgRecursionStruct =
  delMinSeq :: int
  delDocIDs :: "string list"

definition getSetMinSeq :: "delMsgRecursionStruct \<Rightarrow> int" where
  "getSetMinSeq d = delMinSeq d"

text \<open>The indexes, from \<open>i\<close> on, of the entries whose message has expired.\<close>

fun expired_indexes :: "int \<Rightarrow> int \<Rightarrow> nat \<Rightarrow> MsgInfoModel list \<Rightarrow> nat list" where
  "expired_indexes now remainTime i [] = []"
| "expired_indexes now remainTime i (info # infos) =
     (case InfoMsg info of
        Some m \<Rightarrow>
          if now > add64 (mSendTime m) (mul64 remainTime 1000)
          then i # expired_indexes now remainTime (Suc i) infos
          else expired_indexes now remainTime (Suc i) infos
      | None \<Rightarrow> expired_indexes now remainTime (Suc i) infos)"

text \<open>What one document contributes; an empty document makes \<open>IsFull\<close> panic.\<close>

definition deleteMsgRecursion_doc ::
  "'s msg_db \<Rightarrow> int \<Rightarrow> int \<Rightarrow> MsgDocModel \<Rightarrow> delMsgRecursionStruct \<Rightarrow> ('s, delMsgRecursionStruct) go" where
  "deleteMsgRecursion_doc db now remainTime doc delStruct =
     bindG (liftG (IsFull doc)) (\<lambda>full.
       let lastMsg = InfoMsg (last (DocMsg doc)) in
       if full \<and> add64 (mSendTime (the lastMsg)) (mul64 remainTime 1000) < now then
         retG (delStruct\<lparr> delDocIDs := delDocIDs delStruct @ [DocID doc], delMinSeq := mSeq (the lastMsg) \<rparr>)
       else
         let delMsgIndexs = expired_indexes now remainTime 0 (DocMsg doc) in
         if length delMsgIndexs > 0 then
           bindG (ignoreG (mdDeleteMsgsInOneDocByIndex (db_doc db) (DocID doc) (map int delMsgIndexs)))
             (\<lambda>_. retG (delStruct\<lparr> delMinSeq := mSeq (the (InfoMsg (DocMsg doc ! last delMsgIndexs))) \<rparr>))
         else retG delStruct)"

text \<open>
  The recursion over the documents from the oldest on; it ends when there is no further
  document, so \<open>fuel\<close> bounds the number of documents.
\<close>

fun deleteMsgRecursion ::
  "'s msg_db \<Rightarrow> nat \<Rightarrow> int \<Rightarrow> string \<Rightarrow> int \<Rightarrow> delMsgRecursionStruct \<Rightarrow> int \<Rightarrow> ('s, int) go" where
  "deleteMsgRecursion db 0 now conversationID index delStruct remainTime = panicG ''out of fuel''"
| "deleteMsgRecursion db (Suc fuel) now conversationID index delStruct remainTime =
     bindG (attemptG (mdGetMsgDocModelByIndex (db_doc db) conversationID index 1)) (\<lambda>r.
       let stop = bindG (mdDeleteDocs (db_doc db) (delDocIDs delStruct))
                    (\<lambda>_. retG (add64 (getSetMinSeq delStruct) 1))
       in case r of
            Inl err \<Rightarrow> stop
          | Inr doc \<Rightarrow>
              if DocID doc = '''' then stop
              else bindG (deleteMsgRecursion_doc db now remainTime doc delStruct) (\<lambda>delStruct'.
                     deleteMsgRecursion db fuel now conversationID (add64 index 1) delStruct' remainTime))"

definition DeleteConversationMsgsAndSetMinSeq ::
  "'s msg_db \<Rightarrow> nat \<Rightarrow> int \<Rightarrow> string \<Rightarrow> int \<Rightarrow> ('s, unit) go" where
  "DeleteConversationMsgsAndSetMinSeq db fuel now conversationID remainTime =
     bindG (deleteMsgRecursion db fuel now conversationID 0 \<lparr> delMinSeq = 0, delDocIDs = [] \<rparr> remainTime)
       (\<lambda>minSeq.
          if minSeq = 0 then retG ()
          else bindG (if remainTime = 0
                      then ignoreG (CleanUpOneConversationAllMsg (db_rdb db) conversationID) else retG ())
                 (\<lambda>_. SetMinSeq (db_rdb db) conversationID minSeq))"

text \<open>One document of \<open>UserMsgsDestruct\<close>: the numbers found, and whether the search is over.\<close>

fun destruct_scan :: "int \<Rightarrow> int \<Rightarrow> int \<Rightarrow> string \<Rightarrow> MsgInfoModel list \<Rightarrow> int list \<times> bool" where
  "destruct_scan now destructTime lastTime userID [] = ([], False)"
| "destruct_scan now destructTime lastTime userID (info # infos) =
     (case InfoMsg info of
        Some m \<Rightarrow>
          (let t = add64 (mSendTime m) (mul64 destructTime 1000) in
           if t \<le> now then
             let (seqs, over) = destruct_scan now destructTime lastTime userID infos in
             (if t > lastTime \<and> \<not> Contain userID (DelList info) then mSeq m # seqs else seqs, over)
           else ([], True))
      | None \<Rightarrow> ([], True))"

fun UserMsgsDestruct_loop ::
  "'s msg_db \<Rightarrow> nat \<Rightarrow> int \<Rightarrow> string \<Rightarrow> string \<Rightarrow> int \<Rightarrow> int \<Rightarrow> int \<Rightarrow> int list \<Rightarrow> ('s, int list) go" where
  "UserMsgsDestruct_loop db 0 now userID c destructTime lastTime index seqs = panicG ''out of fuel''"
| "UserMsgsDestruct_loop db (Suc fuel) now userID c destructTime lastTime index seqs =
     bindG (attemptG (mdGetMsgDocModelByIndex (db_doc db) c index 1)) (\<lambda>r. case r of
         Inl err \<Rightarrow> retG seqs
       | Inr doc \<Rightarrow>
           if DocID doc = '''' then retG seqs
           else
             let (new, over) = destruct_scan now destructTime lastTime userID (DocMsg doc) in
             if over then retG (seqs @ new)
             else UserMsgsDestruct_loop db fuel now userID c destructTime lastTime (add64 index 1) (seqs @ new))"

definition UserMsgsDestruct ::
  "'s msg_db \<Rightarrow> nat \<Rightarrow> int \<Rightarrow> string \<Rightarrow> string \<Rightarrow> int \<Rightarrow> int \<Rightarrow> ('s, int list) go" where
  "UserMsgsDestruct db fuel now userID conversationID destructTime lastMsgDestructTime =
     bindG (UserMsgsDestruct_loop db fuel now userID conversationID destructTime lastMsgDestructTime 0 [])
       (\<lambda>seqs.
          if length seqs > 0 then
            let userMinSeq = add64 (last seqs) 1 in
            bindG (or_zero (GetConversationUserMinSeq (db_rdb db) conversationID userID)) (\<lambda>currentUserMinSeq.
              if currentUserMinSeq < userMinSeq then
                bindG (SetConversationUserMinSeq (db_rdb db) conversationID userID userMinSeq) (\<lambda>_. retG seqs)
              else retG seqs)
          else retG seqs)"

definition DeleteMsgsPhysicalBySeqs :: "'s msg_db \<Rightarrow> string \<Rightarrow> int list \<Rightarrow> ('s, unit) go" where
  "DeleteMsgsPhysicalBySeqs db conversationID allSeqs =
     bindG (DeleteMessages (db_rdb db) (db_cfg db) conversationID allSeqs) (\<lambda>_.
       let t = GetDocIDSeqsMap conversationID allSeqs in
       forG (db_ord db (dom t)) (\<lambda>docID.
         mdDeleteMsgsInOneDocByIndex (db_doc db) docID (map GetMsgIndex (the (t docID)))))"

fun msg_seqs :: "MsgData option list \<Rightarrow> int list outcome" where
  "msg_seqs [] = Ok []"
| "msg_seqs (None # ms) = Panic ''nil pointer dereference''"
| "msg_seqs (Some m # ms) = (case msg_seqs ms of Ok qs \<Rightarrow> Ok (Seq m # qs) | r \<Rightarrow> r)"

definition DeleteUserMsgsBySeqs :: "'s msg_db \<Rightarrow> string \<Rightarrow> string \<Rightarrow> int list \<Rightarrow> ('s, unit) go" where
  "DeleteUserMsgsBySeqs db userID conversationID seqs =
     bindG (GetMessagesBySeq (db_rdb db) (db_pb db) (db_cfg db) conversationID seqs)
       (\<lambda>(cachedMsgs, _, err).
       let hard = (case err of Some e \<Rightarrow> Unwrap e \<noteq> RedisNil | None \<Rightarrow> False) in
       if hard then failG (the err)
       else
         bindG (if length cachedMsgs > 0 then
                  bindG (liftG (msg_seqs cachedMsgs)) (\<lambda>cacheSeqs.
                    UserDeleteMsgs (db_rdb db) (db_cfg db) conversationID cacheSeqs userID)
                else retG ())
           (\<lambda>_. let t = GetDocIDSeqsMap conversationID seqs in
             forG (db_ord db (dom t)) (\<lambda>docID.
               forG (the (t docID)) (\<lambda>seq.
                 mdPushUnique (db_doc db) docID (GetMsgIndex seq) ''del_list'' [userID]))))"

definition DeleteMsgsBySeqs :: "'s msg_db \<Rightarrow> string \<Rightarrow> int list \<Rightarrow> ('s, unit) go" where
  "DeleteMsgsBySeqs db conversationID seqs = retG ()"

definition CleanUpUserConversationsMsgs :: "'s msg_db \<Rightarrow> string \<Rightarrow> string list \<Rightarrow> ('s, unit) go" where
  "CleanUpUserConversationsMsgs db user conversationIDs =
     forG conversationIDs (\<lambda>conversationID.
       bindG (attemptG (GetMaxSeq (db_rdb db) conversationID)) (\<lambda>r. case r of
           Inl err \<Rightarrow> retG ()
         | Inr maxSeq \<Rightarrow> ignoreG (SetMinSeq (db_rdb db) conversationID (add64 maxSeq 1))))"

definition MarkSingleChatMsgsAsRead :: "'s msg_db \<Rightarrow> string \<Rightarrow> string \<Rightarrow> int list \<Rightarrow> ('s, unit) go" where
  "MarkSingleChatMsgsAsRead db userID conversationID totalSeqs =
     (let t = GetDocIDSeqsMap conversationID totalSeqs in
      forG (db_ord db (dom t)) (\<lambda>docID.
        mdMarkSingleChatMsgsAsRead (db_doc db) userID docID (map GetMsgIndex (the (t docID)))))"

section \<open>Sequence numbers of both stores\<close>

definition info_seq :: "MsgInfoModel \<Rightarrow> ('s, int) go" where
  "info_seq info = (case InfoMsg info of None \<Rightarrow> panicG ''nil pointer dereference'' | Some m \<Rightarrow> retG (mSeq m))"

definition GetMinMaxSeqMongo :: "'s msg_db \<Rightarrow> string \<Rightarrow> ('s, int \<times> int) go" where
  "GetMinMaxSeqMongo db conversationID =
     bindG (mdGetOldestMsg (db_doc db) conversationID) (\<lambda>oldest.
     bindG (info_seq oldest) (\<lambda>minSeqMongo.
     bindG (mdGetNewestMsg (db_doc db) conversationID) (\<lambda>newest.
     bindG (info_seq newest) (\<lambda>maxSeqMongo. retG (minSeqMongo, maxSeqMongo)))))"

definition GetConversationMinMaxSeqInMongoAndCache ::
  "'s msg_db \<Rightarrow> string \<Rightarrow> ('s, int \<times> int \<times> int \<times> int) go" where
  "GetConversationMinMaxSeqInMongoAndCache db conversationID =
     bindG (GetMinMaxSeqMongo db conversationID) (\<lambda>(minSeqMongo, maxSeqMongo).
     bindG (GetMinSeq (db_rdb db) conversationID) (\<lambda>minSeqCache.
     bindG (GetMaxSeq (db_rdb db) conversationID) (\<lambda>maxSeqCache.
       retG (minSeqMongo, maxSeqMongo, minSeqCache, maxSeqCache))))"

end
