(* ===== verification/MsgTransfer.thy ===== *)
theory MsgTransfer
  imports MsgDatabase
begin

text \<open>
  The message transfer service: \<open>internal/msgtransfer/online_history_msg_handler.go\<close>, which
  takes messages from Kafka, distributes them over channels, gives them sequence numbers in the
  cache and hands them on, and \<open>online_msg_to_mongo_handler.go\<close>, which stores them.

  Messages are pointers that several lists share, and the cache writes the sequence numbers
  through them: messages live in a heap (\<open>msg_heap\<close>), the lists hold addresses.  Kafka
  producers and RPC clients are arguments (\<open>transfer_api\<close>); \<open>producerToModify\<close> is never
  created by \<open>NewCommonMsgDatabase\<close>, so it may be nil.
\<close>

type_synonym ref = nat
type_synonym msg_heap = "ref \<Rightarrow> MsgData"

record 's transfer_api =
  tfToMongo :: "string \<Rightarrow> string \<Rightarrow> MsgData list \<Rightarrow> int \<Rightarrow> ('s, unit) go"
  tfToPush :: "string \<Rightarrow> string \<Rightarrow> MsgData \<Rightarrow> ('s, unit) go"
  tfToModify :: "(string \<Rightarrow> string \<Rightarrow> MsgData list \<Rightarrow> ('s, unit) go) option"
  tfToEs :: "string \<Rightarrow> MsgData list \<Rightarrow> ('s, unit) go"
  tfGetGroupMemberIDs :: "string \<Rightarrow> ('s, string list) go"
  tfGroupChatFirstCreate :: "string \<Rightarrow> string list \<Rightarrow> ('s, unit) go"
  tfSingleChatFirstCreate :: "string \<Rightarrow> string \<Rightarrow> string \<Rightarrow> int \<Rightarrow> ('s, unit) go"

section \<open>Sorting the messages of a batch\<close>

record push_lists =
  storageMsgList :: "ref list"
  notStorageMsgList :: "ref list"
  storageNotificationList :: "ref list"
  notStorageNotificationList :: "ref list"
  modifyMsgList :: "ref list"

definition isStorage :: "MsgData \<Rightarrow> bool" where
  "isStorage msg = (let options2 = Options msg in if Options_IsHistory options2 then True else False)"

definition empty_lists :: push_lists where
  "empty_lists = \<lparr> storageMsgList = [], notStorageMsgList = [], storageNotificationList = [],
     notStorageNotificationList = [], modifyMsgList = [] \<rparr>"

text \<open>
  \<open>next'\<close> is the next free address, for the clone of a notification that is also a message.
\<close>

definition clone_as_msg :: "MsgData \<Rightarrow> (MsgData \<times> MsgData) outcome" where
  "clone_as_msg m =
     (let options = Options m;
          msg = (if Options m \<noteq> None then m\<lparr> Options := NewMsgOptions \<rparr> else m)
      in case WithOptions (Options msg) [WithOfflinePush (Options_IsOfflinePush options),
                WithUnreadCount (Options_IsUnreadCount options)] of
           Ok o1 \<Rightarrow> (case WithOptions (Options m) [WithOfflinePush False, WithUnreadCount False] of
               Ok o2 \<Rightarrow> Ok (msg\<lparr> Options := o1 \<rparr>, m\<lparr> Options := o2 \<rparr>)
             | Err e \<Rightarrow> Err e | Panic p \<Rightarrow> Panic p)
         | Err e \<Rightarrow> Err e | Panic p \<Rightarrow> Panic p)"

definition place_notification :: "ref \<Rightarrow> MsgData \<Rightarrow> push_lists \<Rightarrow> push_lists" where
  "place_notification v m l =
     (if isStorage m then l\<lparr> storageNotificationList := storageNotificationList l @ [v] \<rparr>
      else l\<lparr> notStorageNotificationList := notStorageNotificationList l @ [v] \<rparr>)"

definition place_message :: "ref \<Rightarrow> MsgData \<Rightarrow> push_lists \<Rightarrow> push_lists" where
  "place_message v m l =
     (if isStorage m then l\<lparr> storageMsgList := storageMsgList l @ [v] \<rparr>
      else l\<lparr> notStorageMsgList := notStorageMsgList l @ [v] \<rparr>)"

definition place_modify :: "ref \<Rightarrow> MsgData \<Rightarrow> push_lists \<Rightarrow> push_lists" where
  "place_modify v m l =
     (if ContentType m = ReactionMessageModifier \<or> ContentType m = ReactionMessageDeleter
      then l\<lparr> modifyMsgList := modifyMsgList l @ [v] \<rparr> else l)"

fun getPushStorageMsgList_loop ::
  "ref list \<Rightarrow> msg_heap \<Rightarrow> ref \<Rightarrow> push_lists \<Rightarrow> (msg_heap \<times> push_lists) outcome" where
  "getPushStorageMsgList_loop [] h next' l = Ok (h, l)"
| "getPushStorageMsgList_loop (v # vs) h next' l =
     (let m = h v; options = Options m in
      if \<not> Options_IsNotNotification options then
        (if Options_IsSendMsg options then
           (case clone_as_msg m of
              Ok (msg, m') \<Rightarrow>
                let h' = h(v := m', next' := msg);
                    l' = l\<lparr> storageMsgList := storageMsgList l @ [next'] \<rparr>
                in getPushStorageMsgList_loop vs h' (Suc next')
                     (place_modify v m' (place_notification v m' l'))
            | Err e \<Rightarrow> Err e
            | Panic p \<Rightarrow> Panic p)
         else getPushStorageMsgList_loop vs h next' (place_modify v m (place_notification v m l)))
      else getPushStorageMsgList_loop vs h next' (place_modify v m (place_message v m l)))"

definition getPushStorageMsgList :: "MsgData list \<Rightarrow> (msg_heap \<times> push_lists) outcome" where
  "getPushStorageMsgList totalMsgs =
     getPushStorageMsgList_loop [0..<length totalMsgs] (\<lambda>r. if r < length totalMsgs then totalMsgs ! r else empty_msg)
       (length totalMsgs) empty_lists"

section \<open>Handing messages on\<close>

definition write_back :: "msg_heap \<Rightarrow> ref list \<Rightarrow> MsgData list \<Rightarrow> msg_heap" where
  "write_back h rs ms = fold (\<lambda>(r, m) h. h(r := m)) (zip rs ms) h"

definition MsgToMongoMQ ::
  "'s transfer_api \<Rightarrow> string \<Rightarrow> string \<Rightarrow> MsgData list \<Rightarrow> int \<Rightarrow> ('s, unit) go" where
  "MsgToMongoMQ T key conversationID messages lastSeq =
     (if length messages > 0 then tfToMongo T key conversationID messages lastSeq else retG ())"

definition MsgToModifyMQ ::
  "'s transfer_api \<Rightarrow> string \<Rightarrow> string \<Rightarrow> MsgData list \<Rightarrow> ('s, unit) go" where
  "MsgToModifyMQ T key conversationID messages =
     (if length messages > 0 then
        (case tfToModify T of
           None \<Rightarrow> panicG ''nil pointer dereference''
         | Some send \<Rightarrow> send key conversationID messages)
      else retG ())"

definition toPushTopic :: "'s transfer_api \<Rightarrow> string \<Rightarrow> string \<Rightarrow> MsgData list \<Rightarrow> ('s, unit) go" where
  "toPushTopic T key conversationID msgs = forG msgs (\<lambda>v. ignoreG (tfToPush T key conversationID v))"

definition handleNotification ::
  "'s transfer_api \<Rightarrow> 's msg_db \<Rightarrow> msg_heap \<Rightarrow> string \<Rightarrow> string \<Rightarrow> ref list \<Rightarrow> ref list \<Rightarrow> ('s, msg_heap) go" where
  "handleNotification T db h key conversationID storageList notStorageList =
     bindG (toPushTopic T key conversationID (map h notStorageList)) (\<lambda>_.
       if length storageList > 0 then
         bindG (BatchInsertChat2Cache db conversationID (map h storageList)) (\<lambda>((lastSeq, _, err), ms).
           let h' = write_back h storageList ms in
           if err \<noteq> None then retG h'
           else
             bindG (ignoreG (MsgToMongoMQ T key conversationID (map h' storageList) lastSeq)) (\<lambda>_.
             bindG (toPushTopic T key conversationID (map h' storageList)) (\<lambda>_. retG h')))
       else retG h)"

definition first_create :: "'s transfer_api \<Rightarrow> string \<Rightarrow> MsgData \<Rightarrow> ('s, unit) go" where
  "first_create T conversationID m =
     (if SessionType m = SuperGroupChatType then
        bindG (attemptG (tfGetGroupMemberIDs T (GroupID m))) (\<lambda>r. case r of
            Inl err \<Rightarrow> retG ()
          | Inr userIDs \<Rightarrow> ignoreG (tfGroupChatFirstCreate T (GroupID m) userIDs))
      else if SessionType m = SingleChatType \<or> SessionType m = NotificationChatType then
        ignoreG (tfSingleChatFirstCreate T (RecvID m) (SendID m) conversationID (SessionType m))
      else retG ())"

definition handleMsg ::
  "'s transfer_api \<Rightarrow> 's msg_db \<Rightarrow> msg_heap \<Rightarrow> string \<Rightarrow> string \<Rightarrow> ref list \<Rightarrow> ref list \<Rightarrow> ('s, msg_heap) go" where
  "handleMsg T db h key conversationID storageList notStorageList =
     bindG (toPushTopic T key conversationID (map h notStorageList)) (\<lambda>_.
       if length storageList > 0 then
         bindG (BatchInsertChat2Cache db conversationID (map h storageList))
           (\<lambda>((lastSeq, isNewConversation, err), ms).
           let h' = write_back h storageList ms;
               hard = (case err of Some e \<Rightarrow> Unwrap e \<noteq> RedisNilV6 | None \<Rightarrow> False)
           in if hard then retG h'
              else
                bindG (if isNewConversation then first_create T conversationID (h' (storageList ! 0)) else retG ()) (\<lambda>_.
                bindG (ignoreG (MsgToMongoMQ T key conversationID (map h' storageList) lastSeq)) (\<lambda>_.
                bindG (toPushTopic T key conversationID (map h' storageList)) (\<lambda>_.
                bindG (ignoreG (tfToEs T conversationID (map h' storageList))) (\<lambda>_. retG h')))))
       else retG h)"

text \<open>One command of a channel: the body of the loop of \<open>Run\<close>.\<close>

definition Run_command :: "'s transfer_api \<Rightarrow> 's msg_db \<Rightarrow> string \<Rightarrow> MsgData list \<Rightarrow> ('s, unit) go" where
  "Run_command T db uniqueKey ctxMsgList =
     bindG (liftG (getPushStorageMsgList ctxMsgList)) (\<lambda>(h, l).
       if ctxMsgList = [] then panicG ''index out of range''
       else
         let conversationIDMsg = GetChatConversationIDByMsg (h 0);
             conversationIDNotification = GetNotificationConversationIDByMsg (h 0)
         in bindG (handleMsg T db h uniqueKey conversationIDMsg (storageMsgList l) (notStorageMsgList l)) (\<lambda>h1.
            bindG (handleNotification T db h1 uniqueKey conversationIDNotification
                     (storageNotificationList l) (notStorageNotificationList l)) (\<lambda>h2.
            ignoreG (MsgToModifyMQ T uniqueKey conversationIDNotification (map h2 (modifyMsgList l))))))"

section \<open>Distribution over the channels\<close>

abbreviation (input) ChannelNum :: nat where "ChannelNum \<equiv> 100"

record ConsumerMessage =
  cmKey :: string
  cmValue :: string
  cmOperationID :: string

record MsgChannelValue =
  uniqueKey :: string
  opID :: string
  ctxMsgList :: "(string \<times> MsgData) list"

text \<open>The operation ids of the messages, joined; the first has no separator before it.\<close>

fun withAggregationCtx_loop :: "nat \<Rightarrow> (string \<times> MsgData) list \<Rightarrow> string" where
  "withAggregationCtx_loop i [] = []"
| "withAggregationCtx_loop i ((opid, m) # vs) =
     (if opid \<noteq> [] then (if i = 0 then opid else ''$'' @ opid) else []) @ withAggregationCtx_loop (Suc i) vs"

definition withAggregationCtx :: "(string \<times> MsgData) list \<Rightarrow> string" where
  "withAggregationCtx values' = withAggregationCtx_loop 0 values'"

fun aggregate ::
  "pb_codec \<Rightarrow> ConsumerMessage list \<Rightarrow> (string \<rightharpoonup> (string \<times> MsgData) list) \<Rightarrow> (string \<rightharpoonup> (string \<times> MsgData) list)" where
  "aggregate P [] agg = agg"
| "aggregate P (cm # cms) agg =
     (case pbUnmarshal P (cmValue cm) of
        Inl err \<Rightarrow> aggregate P cms agg
      | Inr msgFromMQ \<Rightarrow>
          let ctxMsg = (cmOperationID cm, msgFromMQ) in
          (case agg (cmKey cm) of
             Some oldM \<Rightarrow> aggregate P cms (agg(cmKey cm \<mapsto> oldM @ [ctxMsg]))
           | None \<Rightarrow> aggregate P cms (agg(cmKey cm \<mapsto> [ctxMsg]))))"

definition channel_of :: "string \<Rightarrow> nat" where
  "channel_of key = unat (GetHashCode key mod of_nat ChannelNum)"

text \<open>
  The distributor takes a piece of messages and sends one value for each key to the channel of the key, in
  the order in which Go ranges over the map.  The values of a piece, in that order:
\<close>

definition MessagesDistributionHandle ::
  "pb_codec \<Rightarrow> (string set \<Rightarrow> string list) \<Rightarrow> ConsumerMessage list \<Rightarrow> MsgChannelValue list" where
  "MessagesDistributionHandle P ord consumerMessages =
     (let aggregationMsgs = aggregate P consumerMessages Map.empty in
      map (\<lambda>key. let v = the (aggregationMsgs key) in
            \<lparr> uniqueKey = key, opID = withAggregationCtx v, ctxMsgList = v \<rparr>)
        (ord (dom aggregationMsgs)))"

text \<open>One send: a channel holds 50 values, and the distributor waits (\<open>None\<close>) while it is full.\<close>

type_synonym channels = "nat \<Rightarrow> MsgChannelValue list"

abbreviation (input) ChannelSize :: nat where "ChannelSize \<equiv> 50"

definition send_value :: "MsgChannelValue \<Rightarrow> channels \<Rightarrow> channels option" where
  "send_value v ch =
     (let channelID = channel_of (uniqueKey v) in
      if length (ch channelID) < ChannelSize then Some (ch(channelID := ch channelID @ [v])) else None)"

text \<open>The consumer cuts what arrived since the last tick into pieces of at most 1000.\<close>

definition split_buffer :: "'m list \<Rightarrow> 'm list list" where
  "split_buffer buffer =
     (let split = 1000; n = length buffer div split in
      map (\<lambda>i. take split (drop (i * split) buffer)) [0..<n]
        @ (if length buffer mod split > 0 then [drop (split * n) buffer] else []))"

section \<open>Storing\<close>

definition handleChatWs2Mongo ::
  "'s msg_db \<Rightarrow> nat \<Rightarrow> (go_error + string \<times> MsgData list \<times> int) \<Rightarrow> ('s, unit) go" where
  "handleChatWs2Mongo db fuel msg =
     (case msg of
        Inl err \<Rightarrow> retG ()
      | Inr (conversationID, MsgData, lastSeq) \<Rightarrow>
          if length MsgData = 0 then retG ()
          else
            bindG (ignoreG (BatchInsertChat2DB (db_doc db) fuel conversationID (map Some MsgData) lastSeq)) (\<lambda>_.
              let seqs = map Seq MsgData in
              bindG (ignoreG (DeleteMessages (db_rdb db) (db_cfg db) conversationID seqs)) (\<lambda>_.
                DelUserDeleteMsgsList (db_rdb db) conversationID seqs)))"

end
