(* ===== verification/RedisFacts.thy ===== *)
theory RedisFacts
  imports RedisCache
begin

text \<open>
  What Redis documents of \<open>GET\<close> and \<open>SET\<close> (\<open>redis_laws\<close>), the store of sequence numbers
  that the cache builds on them (locale \<open>seq_store\<close>, provided by every injective family of keys,
  locale \<open>keyed_seq\<close>), and an in-memory Redis that satisfies the laws.
\<close>

section \<open>Documented behaviour\<close>

text \<open>
  A successful command returns or stores the value; a missing key is redis.Nil; a failed
  \<open>SET\<close> may or may not have reached the server.  \<open>view\<close> is the string part of the key space.
\<close>

definition redis_laws :: "'s redis_api \<Rightarrow> ('s \<Rightarrow> string \<rightharpoonup> string) \<Rightarrow> bool" where
  "redis_laws R view \<longleftrightarrow>
     (\<forall>k s r s'. rdGet R k s = (r, s') \<longrightarrow> view s' = view s \<and>
        (case r of
           Ok v \<Rightarrow> view s k = Some v
         | Err e \<Rightarrow> Unwrap e = RedisNil \<longrightarrow> view s k = None
         | Panic p \<Rightarrow> False))
   \<and> (\<forall>k v t s r s'. rdSet R k v t s = (r, s') \<longrightarrow>
        (case r of
           Ok _ \<Rightarrow> view s' = (view s)(k \<mapsto> v)
         | Err e \<Rightarrow> view s' = view s \<or> view s' = (view s)(k \<mapsto> v)
         | Panic p \<Rightarrow> False))"

text \<open>A Redis that answers: the only error is the missing key.\<close>

definition redis_reliable :: "'s redis_api \<Rightarrow> bool" where
  "redis_reliable R \<longleftrightarrow>
     (\<forall>k s e s'. rdGet R k s = (Err e, s') \<longrightarrow> e = RedisNil)
   \<and> (\<forall>k v t s e s'. rdSet R k v t s \<noteq> (Err e, s'))"

lemma redis_law_get:
  assumes "redis_laws R view" "rdGet R k s = (r, s')"
  shows "view s' = view s \<and> (case r of
           Ok v \<Rightarrow> view s k = Some v
         | Err e \<Rightarrow> Unwrap e = RedisNil \<longrightarrow> view s k = None
         | Panic p \<Rightarrow> False)"
  using assms unfolding redis_laws_def by blast

lemma redis_law_set:
  assumes "redis_laws R view" "rdSet R k v t s = (r, s')"
  shows "case r of
           Ok _ \<Rightarrow> view s' = (view s)(k \<mapsto> v)
         | Err e \<Rightarrow> view s' = view s \<or> view s' = (view s)(k \<mapsto> v)
         | Panic p \<Rightarrow> False"
  using assms unfolding redis_laws_def by blast

lemma redis_get_Ok: "redis_laws R view \<Longrightarrow> rdGet R k s = (Ok v, s') \<Longrightarrow> view s k = Some v \<and> view s' = view s"
  by (drule redis_law_get) auto

lemma redis_get_view: "redis_laws R view \<Longrightarrow> rdGet R k s = (r, s') \<Longrightarrow> view s' = view s"
  by (drule redis_law_get) auto

lemma redis_get_Nil:
  "redis_laws R view \<Longrightarrow> rdGet R k s = (Err e, s') \<Longrightarrow> Unwrap e = RedisNil \<Longrightarrow> view s k = None"
  by (drule redis_law_get) auto

lemma redis_get_Panic: "redis_laws R view \<Longrightarrow> rdGet R k s \<noteq> (Panic p, s')"
  using redis_law_get [of R view k s "Panic p" s'] by auto

lemma redis_set_Ok: "redis_laws R view \<Longrightarrow> rdSet R k v t s = (Ok u, s') \<Longrightarrow> view s' = (view s)(k \<mapsto> v)"
  by (drule redis_law_set) auto

lemma redis_set_Err:
  "redis_laws R view \<Longrightarrow> rdSet R k v t s = (Err e, s') \<Longrightarrow> view s' = view s \<or> view s' = (view s)(k \<mapsto> v)"
  by (drule redis_law_set) auto

lemma redis_set_Panic: "redis_laws R view \<Longrightarrow> rdSet R k v t s \<noteq> (Panic p, s')"
  using redis_law_set [of R view k v t s "Panic p" s'] by auto

lemmas redis_get = redis_get_Ok redis_get_view redis_get_Nil redis_get_Panic
lemmas redis_set = redis_set_Ok redis_set_Err redis_set_Panic

section \<open>Sequence numbers in the key space\<close>

definition seq_of :: "string option \<Rightarrow> int option" where
  "seq_of v = (case v of None \<Rightarrow> None
     | Some t \<Rightarrow> (case ParseInt t of Parsed i \<Rightarrow> Some i | _ \<Rightarrow> None))"

lemma seq_of_simps [simp]: "seq_of None = None" "int64 i \<Longrightarrow> seq_of (Some (itoa i)) = Some i"
  by (simp_all add: seq_of_def)

text \<open>What a user of stored sequence numbers relies on.\<close>

locale seq_store =
  fixes laws :: bool
    and get :: "'k \<Rightarrow> ('s, int) go"
    and put :: "'k \<Rightarrow> int \<Rightarrow> ('s, unit) go"
    and val :: "'s \<Rightarrow> 'k \<Rightarrow> int option"
  assumes get_Ok: "laws \<Longrightarrow> get k s = (Ok i, s') \<Longrightarrow> val s k = Some i"
    and get_Nil: "laws \<Longrightarrow> get k s = (Err e, s') \<Longrightarrow> Unwrap e = RedisNil \<Longrightarrow> val s k = None"
    and get_keeps: "laws \<Longrightarrow> get k s = (r, s') \<Longrightarrow> val s' = val s"
    and get_no_Panic: "laws \<Longrightarrow> get k s \<noteq> (Panic p, s')"
    and put_Ok: "laws \<Longrightarrow> int64 i \<Longrightarrow> put k i s = (Ok u, s') \<Longrightarrow> val s' = (val s)(k \<mapsto> i)"
    and put_Err: "laws \<Longrightarrow> int64 i \<Longrightarrow> put k i s = (Err e, s') \<Longrightarrow>
                   val s' = val s \<or> val s' = (val s)(k \<mapsto> i)"
    and put_no_Panic: "laws \<Longrightarrow> put k i s \<noteq> (Panic p, s')"
begin

lemma get_put_same:
  assumes "laws" "int64 i" "put k i s = (Ok u, s1)" "get k s1 = (Ok j, s2)"
  shows "j = i"
  using put_Ok [OF assms(1-3)] get_Ok [OF assms(1,4)] by simp

lemma get_put_other:
  assumes "laws" "int64 i" "put k i s = (Ok u, s1)" "l \<noteq> k" "get l s = (Ok j, s2)" "get l s1 = (Ok j', s3)"
  shows "j' = j"
  using put_Ok [OF assms(1-3)] get_Ok [OF assms(1,5)] get_Ok [OF assms(1,6)] assms(4) by simp

text \<open>The value read, with the zero that the code continues with when the key is missing.\<close>

lemma get_or_zero:
  assumes "laws" "get k s = (r, s1)" "r = Ok i \<or> (\<exists>e. r = Err e \<and> Unwrap e = RedisNil \<and> i = 0)"
  shows "val s k = (case r of Ok _ \<Rightarrow> Some i | _ \<Rightarrow> None) \<and> val s1 = val s"
  using assms get_Ok get_Nil get_keeps by auto

end

text \<open>An injective family of keys gives such a store.\<close>

lemma rdGetInt64_cases:
  assumes "redis_laws R view" "rdGetInt64 R k s = (r, s')"
  shows "view s' = view s \<and> (case r of
           Ok i \<Rightarrow> seq_of (view s k) = Some i
         | Err e \<Rightarrow> seq_of (view s k) = None \<or> Unwrap e \<noteq> RedisNil
         | Panic p \<Rightarrow> False)"
proof -
  obtain r1 s1 where get: "rdGet R k s = (r1, s1)" by (cases "rdGet R k s")
  from redis_law_get [OF assms(1) get] assms(2) get show ?thesis
    by (cases r1)
       (auto simp: rdGetInt64_def bindG_def retG_def failG_def seq_of_def split: parse_result.splits)
qed

locale keyed_seq =
  fixes R :: "'s redis_api" and view :: "'s \<Rightarrow> string \<rightharpoonup> string" and key :: "string \<Rightarrow> string"
  assumes key_inj: "key a = key b \<Longrightarrow> a = b"
begin

lemma val_upd:
  "int64 i \<Longrightarrow> (\<lambda>k. seq_of (((view s)(key c \<mapsto> itoa i)) (key k))) = (\<lambda>k. seq_of (view s (key k)))(c \<mapsto> i)"
  using key_inj by (auto simp: fun_eq_iff)

end

sublocale keyed_seq \<subseteq> seq_store "redis_laws R view" "\<lambda>c. getSeq R c key" "\<lambda>c i. setSeq R c i key"
    "\<lambda>s c. seq_of (view s (key c))"
proof (unfold_locales, goal_cases)
  case (1 k s i s')
  then show ?case using rdGetInt64_cases by (fastforce simp: getSeq_def)
next
  case (2 k s e s')
  then show ?case using rdGetInt64_cases [of R view "key k" s]
    by (fastforce simp: getSeq_def wrapG_Err_iff)
next
  case (3 k s r s')
  obtain r1 where "rdGetInt64 R (key k) s = (r1, s')"
    using 3(2) by (cases "rdGetInt64 R (key k) s") (auto simp: getSeq_def wrapG_def split: outcome.splits)
  from rdGetInt64_cases [OF 3(1) this] show ?case by simp
next
  case (4 k s p s')
  then show ?case using rdGetInt64_cases [of R view "key k" s "Panic p" s'] by (auto simp: getSeq_def)
next
  case (5 i k s u s')
  then show ?case using val_upd [OF 5(2)] redis_set_Ok [OF 5(1), of "key k"] by (auto simp: setSeq_def)
next
  case (6 i k s e s')
  then obtain e' where "rdSet R (key k) (itoa i) 0 s = (Err e', s')"
    by (auto simp: setSeq_def wrapG_Err_iff)
  from redis_set_Err [OF 6(1) this] show ?case using val_upd [OF 6(2), of s k] by auto
next
  case (7 k i s p s')
  then show ?case using redis_set_Panic by (fastforce simp: setSeq_def)
qed

interpretation MaxSeq: keyed_seq R view getMaxSeqKey for R view
  by unfold_locales (simp add: getMaxSeqKey_def)

interpretation MinSeq: keyed_seq R view getMinSeqKey for R view
  by unfold_locales (simp add: getMinSeqKey_def)

interpretation HasReadOfUser: keyed_seq R view "\<lambda>c. getHasReadSeqKey c u" for R view u
  by unfold_locales (simp add: getHasReadSeqKey_def)

interpretation HasReadOfConv: keyed_seq R view "\<lambda>u. getHasReadSeqKey c u" for R view c
  by unfold_locales (simp add: getHasReadSeqKey_def)

interpretation UserMinOfConv: keyed_seq R view "\<lambda>u. getConversationUserMinSeqKey c u" for R view c
  by unfold_locales (simp add: getConversationUserMinSeqKey_def)

interpretation UserMinOfUser: keyed_seq R view "\<lambda>c. getConversationUserMinSeqKey c u" for R view u
  by unfold_locales (simp add: getConversationUserMinSeqKey_def)

section \<open>Reading and writing many\<close>

definition seq_or_zero :: "string option \<Rightarrow> int" where
  "seq_or_zero v = (case v of None \<Rightarrow> 0 | Some t \<Rightarrow> StringToInt64 t)"

lemma seq_or_zero_simps [simp]: "seq_or_zero None = 0" "int64 i \<Longrightarrow> seq_or_zero (Some (itoa i)) = i"
  by (simp_all add: seq_or_zero_def)

lemma StringToInt64_Nil [simp]: "StringToInt64 [] = 0"
  by (simp add: StringToInt64_def)

lemma getSeqs_loop_spec:
  assumes laws: "redis_laws R view"
  shows "getSeqs_loop R items key m s = (Ok m', s') \<Longrightarrow> view s' = view s \<and>
     m' = (\<lambda>k. if k \<in> set items \<and> seq_or_zero (view s (key k)) \<noteq> 0
               then Some (seq_or_zero (view s (key k))) else m k)"
proof (induction items arbitrary: m s)
  case (Cons v items)
  obtain r1 s1 where get: "rdGet R (key v) s = (r1, s1)" by (cases "rdGet R (key v) s")
  let ?val = "seq_or_zero (view s (key v))"
  have s1: "view s1 = view s" using redis_get_view [OF laws get] .
  have rest: "getSeqs_loop R items key (if ?val \<noteq> 0 then m(v \<mapsto> ?val) else m) s1 = (Ok m', s')"
  proof (cases r1)
    case (Ok t)
    then have "view s (key v) = Some t" using redis_get_Ok [OF laws] get by simp
    with Ok Cons.prems get show ?thesis
      by (auto simp: bindG_def attemptG_def Let_def seq_or_zero_def)
  next
    case (Err e)
    with Cons.prems get have "e = RedisNil"
      by (auto simp: bindG_def attemptG_def Let_def failG_def split: if_splits)
    with Err have "view s (key v) = None" using redis_get_Nil [OF laws] get by simp
    with Err Cons.prems get \<open>e = RedisNil\<close> show ?thesis
      by (simp add: bindG_def attemptG_def Let_def)
  next
    case (Panic p)
    with Cons.prems get show ?thesis by (simp add: bindG_def attemptG_def)
  qed
  from Cons.IH [OF rest] s1 show ?case by (auto simp: fun_eq_iff)
qed (simp add: retG_def)

lemma getSeqs_spec:
  assumes "redis_laws R view" "getSeqs R items key s = (Ok m', s')"
  shows "view s' = view s \<and>
     m' = (\<lambda>k. if k \<in> set items \<and> seq_or_zero (view s (key k)) \<noteq> 0
               then Some (seq_or_zero (view s (key k))) else None)"
  using getSeqs_loop_spec [OF assms(1), of items key Map.empty s m' s'] assms(2)
  by (simp add: getSeqs_def)

lemma setSeqs_spec_list:
  assumes laws: "redis_laws R view" and inj: "inj key"
  shows "forG ks (\<lambda>k. wrapG [] (rdSet R (key k) (itoa (f k)) 0)) s = (Ok (), s') \<Longrightarrow>
    (\<forall>k. view s' (key k) = (if k \<in> set ks then Some (itoa (f k)) else view s (key k)))
    \<and> (\<forall>x. x \<notin> range key \<longrightarrow> view s' x = view s x)"
proof (induction ks arbitrary: s)
  case (Cons k ks)
  from Cons.prems obtain s1 where
    set1: "rdSet R (key k) (itoa (f k)) 0 s = (Ok (), s1)" and
    rest: "forG ks (\<lambda>k. wrapG [] (rdSet R (key k) (itoa (f k)) 0)) s1 = (Ok (), s')"
    by (auto simp: bindG_Ok_iff)
  have "view s1 = (view s)(key k \<mapsto> itoa (f k))" using redis_set_Ok [OF laws set1] .
  with Cons.IH [OF rest] show ?case using inj by (auto simp: inj_eq)
qed (simp add: retG_def)

lemma setSeqs_spec:
  assumes "redis_laws R view" "inj key" "iter_order ord" "finite (dom m)"
    and "setSeqs R ord m key s = (Ok (), s')"
  shows "(\<forall>k. view s' (key k) = (case m k of Some i \<Rightarrow> Some (itoa i) | None \<Rightarrow> view s (key k)))
    \<and> (\<forall>x. x \<notin> range key \<longrightarrow> view s' x = view s x)"
  using setSeqs_spec_list [OF assms(1,2), of "ord (dom m)" "\<lambda>k. the (m k)" s s'] assms(3-5)
  by (auto simp: setSeqs_def split: option.splits)

text \<open>The families of keys do not meet.\<close>

lemma key_families_disjoint [key_simps]:
  "getMaxSeqKey c \<noteq> getMinSeqKey c'" "getMaxSeqKey c \<noteq> getHasReadSeqKey c' u"
  "getMinSeqKey c \<noteq> getHasReadSeqKey c' u" "getMaxSeqKey c \<noteq> getConversationUserMinSeqKey c' u"
  "getMinSeqKey c \<noteq> getConversationUserMinSeqKey c' u"
  "getHasReadSeqKey c u \<noteq> getConversationUserMinSeqKey c' u'"
  "getMaxSeqKey c \<noteq> getMessageCacheKey c' q" "getHasReadSeqKey c u \<noteq> getMessageCacheKey c' q"
  by (simp_all add: getMaxSeqKey_def getMinSeqKey_def getHasReadSeqKey_def
      getConversationUserMinSeqKey_def getMessageCacheKey_def)

lemma getHasReadSeqKey_inj: "inj (\<lambda>c. getHasReadSeqKey c u)" "inj (\<lambda>u. getHasReadSeqKey c u)"
  by (simp_all add: inj_def getHasReadSeqKey_def)

lemma getMessageCacheKey_inject:
  "getMessageCacheKey c q = getMessageCacheKey c' q' \<longleftrightarrow> c = c' \<and> q = q'"
proof
  assume eq: "getMessageCacheKey c q = getMessageCacheKey c' q'"
  have "rev (itoa q) @ CHR ''_'' # rev c = rev (itoa q') @ CHR ''_'' # rev c'"
    using arg_cong [OF eq, of rev] by (simp add: getMessageCacheKey_def)
  moreover have "CHR ''_'' \<notin> set (rev (itoa q))" "CHR ''_'' \<notin> set (rev (itoa q'))"
    using itoa_plain by auto
  ultimately have "rev (itoa q) = rev (itoa q') \<and> rev c = rev c'"
    by (intro append_sep_inject)
  then show "c = c' \<and> q = q'" by simp
qed simp

section \<open>An in-memory Redis\<close>

record mem_redis =
  strings :: "string \<rightharpoonup> string"
  hashes :: "string \<Rightarrow> string \<rightharpoonup> string"
  sets :: "string \<Rightarrow> string list"

definition mem_redis_api :: "mem_redis redis_api" where
  "mem_redis_api = \<lparr>
     rdGet = (\<lambda>k s. (case strings s k of None \<Rightarrow> Err RedisNil | Some v \<Rightarrow> Ok v, s)),
     rdSet = (\<lambda>k v t s. (Ok (), s\<lparr> strings := (strings s)(k \<mapsto> v) \<rparr>)),
     rdDel = (\<lambda>k s. (Ok (), s\<lparr> strings := (strings s)(k := None), sets := (sets s)(k := []) \<rparr>)),
     rdKeys = (\<lambda>p s. (Ok [], s)),
     rdExpire = (\<lambda>k t s. (Ok True, s)),
     rdIncr = (\<lambda>k s. (Ok 1, s)),
     rdExists = (\<lambda>k s. (Ok (if strings s k = None then 0 else 1), s)),
     rdSetNX = (\<lambda>k v t s. case strings s k of
         None \<Rightarrow> (Ok True, s\<lparr> strings := (strings s)(k \<mapsto> v) \<rparr>) | Some _ \<Rightarrow> (Ok False, s)),
     rdSAdd = (\<lambda>k v s. (Ok (), s\<lparr> sets := (sets s)(k := List.insert v (sets s k)) \<rparr>)),
     rdSRem = (\<lambda>k v s. (Ok (), s\<lparr> sets := (sets s)(k := removeAll v (sets s k)) \<rparr>)),
     rdSMembers = (\<lambda>k s. (Ok (sets s k), s)),
     rdHSet = (\<lambda>k m s. (Ok (), s\<lparr> hashes := (hashes s)(k := hashes s k ++ m) \<rparr>)),
     rdHGet = (\<lambda>k f s. (case hashes s k f of None \<Rightarrow> Err RedisNil | Some v \<Rightarrow> Ok v, s)),
     rdHGetAll = (\<lambda>k s. (Ok (hashes s k), s)),
     rdHDel = (\<lambda>k fs s. (Ok (), s\<lparr> hashes := (hashes s)(k := hashes s k |` (- set fs)) \<rparr>)),
     rdPipeGet = (\<lambda>ks s. (Ok (map (\<lambda>k. case strings s k of None \<Rightarrow> Inl RedisNil | Some v \<Rightarrow> Inr v) ks,
         if list_ex (\<lambda>k. strings s k = None) ks then Some RedisNil else None), s)),
     rdPipeSet = (\<lambda>kvs s. (Ok (map (\<lambda>_. Inr ()) kvs, None),
         s\<lparr> strings := fold (\<lambda>(k, v, t) m. m(k \<mapsto> v)) kvs (strings s) \<rparr>)),
     rdPipeDel = (\<lambda>ks s. (Ok (map (\<lambda>_. Inr ()) ks, None),
         s\<lparr> strings := (strings s) |` (- set ks) \<rparr>)) \<rparr>"

definition mem_redis_empty :: mem_redis where
  "mem_redis_empty = \<lparr> strings = Map.empty, hashes = (\<lambda>_. Map.empty), sets = (\<lambda>_. []) \<rparr>"

lemma mem_redis_get:
  "rdGet mem_redis_api k s = (case strings s k of None \<Rightarrow> Err RedisNil | Some v \<Rightarrow> Ok v, s)"
  by (simp add: mem_redis_api_def)

lemma mem_redis_set: "rdSet mem_redis_api k v t s = (Ok (), s\<lparr> strings := (strings s)(k \<mapsto> v) \<rparr>)"
  by (simp add: mem_redis_api_def)

lemma mem_redis_laws: "redis_laws mem_redis_api strings"
  unfolding redis_laws_def
  by (auto simp: mem_redis_get mem_redis_set split: option.splits)

lemma mem_redis_reliable: "redis_reliable mem_redis_api"
  unfolding redis_reliable_def by (auto simp: mem_redis_get mem_redis_set split: option.splits)

lemma mem_redis_getSeqs: "\<exists>m'. getSeqs_loop mem_redis_api items key m s = (Ok m', s)"
proof (induction items arbitrary: m)
  case (Cons v items)
  then show ?case
    by (cases "strings s (key v)") (simp_all add: bindG_def attemptG_def mem_redis_get Let_def)
qed (simp add: retG_def)

section \<open>Round trip\<close>

text \<open>
  C13.  Read positions survive the cache: after a user's positions \<open>m\<close> were written with
  \<open>UserSetHasReadSeqs\<close>, in whatever order Go ranges over the map, \<open>GetHasReadSeqs\<close> returns
  for every requested conversation of \<open>m\<close> exactly the position written, except that a zero
  position reads as absent; conversations that were not requested are absent; the maximum and
  minimum sequence numbers of all conversations and the positions of other conversations are
  untouched.
\<close>

theorem HasReadSeqs_roundtrip:
  assumes laws: "redis_laws R view" and ord: "iter_order ord" "finite (dom m)"
    and int: "\<forall>i \<in> ran m. int64 i"
    and wr: "UserSetHasReadSeqs R ord u m s = (Ok (), s1)"
    and rd: "GetHasReadSeqs R u cs s1 = (Ok m', s2)"
  shows "(\<forall>c i. c \<in> set cs \<and> m c = Some i \<longrightarrow> m' c = (if i = 0 then None else Some i))
    \<and> (\<forall>c. c \<notin> set cs \<longrightarrow> m' c = None)
    \<and> (\<forall>c. view s2 (getMaxSeqKey c) = view s (getMaxSeqKey c)
         \<and> view s2 (getMinSeqKey c) = view s (getMinSeqKey c)
         \<and> (m c = None \<longrightarrow> view s2 (getHasReadSeqKey c u) = view s (getHasReadSeqKey c u)))"
proof -
  note w = setSeqs_spec [OF laws getHasReadSeqKey_inj(1) ord wr [unfolded UserSetHasReadSeqs_def]]
  note r = getSeqs_spec [OF laws rd [unfolded GetHasReadSeqs_def]]
  have "int64 i" if "m c = Some i" for c i using int that by (auto simp: ran_def)
  then show ?thesis
    using w r key_families_disjoint by (auto simp: image_iff)
qed

theorem HasReadSeqs_roundtrip_witness:
  "\<exists>m'. fst (GetHasReadSeqs mem_redis_api ''u'' [''sg_1'']
       (snd (UserSetHasReadSeqs mem_redis_api sorted_list_of_set ''u'' (Map.empty(''sg_1'' \<mapsto> 7)) mem_redis_empty)))
     = Ok m' \<and> m' ''sg_1'' = Some 7"
proof -
  let ?m = "Map.empty(''sg_1'' \<mapsto> 7 :: int)"
  let ?w = "UserSetHasReadSeqs mem_redis_api sorted_list_of_set ''u'' ?m mem_redis_empty"
  let ?r = "GetHasReadSeqs mem_redis_api ''u'' [''sg_1''] (snd ?w)"
  have w: "?w = (Ok (), snd ?w)"
    by (simp add: UserSetHasReadSeqs_def setSeqs_def wrapG_def mem_redis_set bindG_def retG_def)
  obtain m' where r: "?r = (Ok m', snd ?r)"
    using mem_redis_getSeqs [of "[''sg_1'']" "\<lambda>c. getHasReadSeqKey c ''u''" Map.empty "snd ?w"]
    by (auto simp: GetHasReadSeqs_def getSeqs_def)
  have "\<forall>i \<in> ran ?m. int64 i" by (simp add: int64_def)
  with HasReadSeqs_roundtrip [OF mem_redis_laws iter_order_sorted _ _ w r]
  have "m' ''sg_1'' = Some 7" by simp
  with r show ?thesis by (metis fst_conv)
qed

text \<open>
  The keys of the per-user families are ambiguous when ids contain their separators: two
  different pairs can share a key.
\<close>

lemma user_keys_ambiguous:
  "getConversationUserMinSeqKey ''si_a'' ''b'' = ''CON_USER_MIN_SEQ:si_au:b''
   \<and> getConversationUserMinSeqKey ''sg_1'' ''xu:y'' = getConversationUserMinSeqKey ''sg_1u:x'' ''y''
   \<and> getHasReadSeqKey ''y'' ''u:x'' = getHasReadSeqKey ''x:y'' ''u''"
  by (simp add: getConversationUserMinSeqKey_def getHasReadSeqKey_def)

end
