(* ===== verification/MsgDatabaseFacts.thy ===== *)
theory MsgDatabaseFacts
  imports MsgDatabase RedisFacts MsgStoreFacts
begin

text \<open>
  Properties of the message database: sequence numbers are allocated without gaps or repetition,
  the window of a range read, the search for replacements of deleted messages, and what deletion
  does to the minimum sequence numbers.
\<close>

section \<open>Allocation of sequence numbers\<close>

text \<open>A pipeline of \<open>SET\<close>s writes only its keys.\<close>

definition redis_pipe_laws :: "'s redis_api \<Rightarrow> ('s \<Rightarrow> string \<rightharpoonup> string) \<Rightarrow> bool" where
  "redis_pipe_laws R view \<longleftrightarrow>
     (\<forall>kvs s r s' x. rdPipeSet R kvs s = (r, s') \<longrightarrow> x \<notin> fst ` set kvs \<longrightarrow> view s' x = view s x)"

definition agree_outside :: "string \<Rightarrow> (string \<rightharpoonup> string) \<Rightarrow> (string \<rightharpoonup> string) \<Rightarrow> bool" where
  "agree_outside p v w \<longleftrightarrow> (\<forall>x. \<not> prefix p x \<longrightarrow> v x = w x)"

lemma agree_outside_refl [simp]: "agree_outside p v v"
  by (simp add: agree_outside_def)

lemma rdSet_agree:
  assumes "redis_laws R view" "prefix p k"
  shows "preserves (\<lambda>s. agree_outside p v (view s)) (rdSet R k x t)"
proof (rule preservesI)
  fix s r s'
  assume "agree_outside p v (view s)" "rdSet R k x t s = (r, s')"
  with redis_law_set [OF assms(1)] assms(2) show "agree_outside p v (view s')"
    by (cases r) (fastforce simp: agree_outside_def)+
qed

lemma preserves_errgroup [pres]:
  "(\<And>f. f \<in> set fs \<Longrightarrow> preserves P f) \<Longrightarrow> preserves P (errgroup fs)"
  by (induction fs) (auto intro!: pres)

lemma SetMessageToCache_agree:
  assumes "redis_laws R view" "redis_pipe_laws R view"
  shows "preserves (\<lambda>s. agree_outside ''MESSAGE_CACHE:'' v (view s)) (SetMessageToCache R P cfg c msgs)"
proof -
  let ?Q = "\<lambda>s. agree_outside ''MESSAGE_CACHE:'' v (view s)"
  have key: "prefix ''MESSAGE_CACHE:'' (getMessageCacheKey c q)" for q
    by (simp add: getMessageCacheKey_def)
  have one: "preserves ?Q (ParallelSet_one R P cfg c m)" for m
    unfolding ParallelSet_one_def
    by (auto split: sum.splits intro!: pres rdSet_agree [OF assms(1) key])
  have pipe: "preserves ?Q (rdPipeSet R kvs)"
    if keys: "\<forall>x \<in> set kvs. prefix ''MESSAGE_CACHE:'' (fst x)" for kvs
  proof (rule preservesI)
    fix s r s'
    assume a: "?Q s" "rdPipeSet R kvs s = (r, s')"
    have "view s' x = view s x" if "\<not> prefix ''MESSAGE_CACHE:'' x" for x
      using assms(2) a(2) keys that unfolding redis_pipe_laws_def by fastforce
    with a(1) show "?Q s'" by (simp add: agree_outside_def)
  qed
  have "preserves ?Q (PipeSetMessageToCache R P cfg c msgs)"
    unfolding PipeSetMessageToCache_def
    by (auto split: sum.splits prod.splits intro!: pres pipe simp: key)
  moreover have "preserves ?Q (ParallelSetMessageToCache R P cfg c msgs)"
    unfolding ParallelSetMessageToCache_def by (auto intro!: pres one)
  ultimately show ?thesis by (simp add: SetMessageToCache_def)
qed

lemma SetHasReadSeqs_agree:
  assumes "redis_laws R view"
  shows "preserves (\<lambda>s. agree_outside ''HAS_READ_SEQ:'' v (view s)) (SetHasReadSeqs R ord c m)"
  unfolding SetHasReadSeqs_def setSeqs_def
  by (intro pres rdSet_agree [OF assms]) (simp add: getHasReadSeqKey_def)

lemma assign_seqs_spec:
  assumes "assign_seqs m0 msgs = (msgs', m1)" "int64 m0" "m0 + int (length msgs) < 2 ^ 63"
  shows "m1 = m0 + int (length msgs) \<and> map Seq msgs' = [m0 + 1..m1]
     \<and> map (Seq_update (\<lambda>_. 0)) msgs' = map (Seq_update (\<lambda>_. 0)) msgs"
  using assms
proof (induction msgs arbitrary: m0 m1 msgs')
  case (Cons m msgs)
  obtain ms l where rec: "assign_seqs (m0 + 1) msgs = (ms, l)" by (cases "assign_seqs (m0 + 1) msgs")
  have add: "add64 m0 1 = m0 + 1"
    using Cons.prems by (intro add64_exact) (simp add: int64_def)
  have eq: "msgs' = m\<lparr> Seq := m0 + 1 \<rparr> # ms" "m1 = l"
    using Cons.prems(1) rec by (simp_all add: add)
  have "l = m0 + 1 + int (length msgs) \<and> map Seq ms = [m0 + 1 + 1..l]
     \<and> map (Seq_update (\<lambda>_. 0)) ms = map (Seq_update (\<lambda>_. 0)) msgs"
    using Cons.IH [OF rec] Cons.prems by (simp add: int64_def)
  then show ?case by (auto simp: eq upto_rec1)
qed auto

definition max_seq :: "(string \<rightharpoonup> string) \<Rightarrow> string \<Rightarrow> int option" where
  "max_seq v c = seq_of (v (getMaxSeqKey c))"

definition seq_base :: "int option \<Rightarrow> int" where
  "seq_base m = (case m of None \<Rightarrow> 0 | Some i \<Rightarrow> i)"

lemma agree_max_seq:
  "agree_outside ''MESSAGE_CACHE:'' v w \<Longrightarrow> max_seq w c = max_seq v c"
  "agree_outside ''HAS_READ_SEQ:'' v w \<Longrightarrow> max_seq w c = max_seq v c"
  by (simp_all add: agree_outside_def max_seq_def getMaxSeqKey_def)

lemma SetMaxSeq_max_seq:
  assumes "redis_laws R view" "int64 i" "SetMaxSeq R c i s = (r, s')"
  shows "r \<noteq> Panic p \<and> (r = Ok () \<longrightarrow> max_seq (view s') = (max_seq (view s))(c \<mapsto> i))
    \<and> (max_seq (view s') = max_seq (view s) \<or> max_seq (view s') = (max_seq (view s))(c \<mapsto> i))"
  using MaxSeq.put_Ok [of R view i c s "()" s'] MaxSeq.put_Err [of R view i c s _ s']
    MaxSeq.put_no_Panic [of R view c i s _ s'] assms
  unfolding SetMaxSeq_def max_seq_def by (cases r) auto

lemma GetMaxSeq_max_seq:
  assumes "redis_laws R view" "GetMaxSeq R c s = (r, s')"
  shows "view s' = view s \<and> (case r of Ok i \<Rightarrow> max_seq (view s) c = Some i
     | Err e \<Rightarrow> Unwrap e = RedisNil \<longrightarrow> max_seq (view s) c = None | Panic p \<Rightarrow> False)"
proof -
  obtain r1 where get: "rdGetInt64 R (getMaxSeqKey c) s = (r1, s')"
    using assms(2) by (cases "rdGetInt64 R (getMaxSeqKey c) s")
      (auto simp: GetMaxSeq_def getSeq_def wrapG_def split: outcome.splits)
  with rdGetInt64_cases [OF assms(1) get] assms(2) show ?thesis
    by (cases r1) (auto simp: GetMaxSeq_def getSeq_def wrapG_def max_seq_def)
qed

lemma ParseInt_int64: "ParseInt t = Parsed i \<Longrightarrow> int64 i"
  by (auto simp: ParseInt_def Let_def int64_def split: option.splits if_splits)

lemma max_seq_int64: "int64 (seq_base (max_seq v c))"
  by (auto simp: seq_base_def max_seq_def seq_of_def dest: ParseInt_int64 split: option.splits parse_result.splits)

lemma not_Inl_unit [simp]: "(\<forall>x. (r :: 'e + unit) \<noteq> Inl x) \<longleftrightarrow> r = Inr ()"
  by (cases r) auto

lemma BatchInsertChat2Cache_run:
  assumes run: "BatchInsertChat2Cache db c msgs s = (Ok ((last', isNew, None), msgs'), s')"
    and laws: "redis_laws (db_rdb db) view"
  obtains newMax s1 s2 s3 x
  where "last' = seq_base (max_seq (view s) c)" "isNew \<longleftrightarrow> max_seq (view s) c = None"
    "1 \<le> length msgs" "length msgs \<le> 100" "view s1 = view s"
    "assign_seqs last' msgs = (msgs', newMax)"
    "SetMessageToCache (db_rdb db) (db_pb db) (db_cfg db) c msgs' s1 = (Ok x, s2)"
    "SetMaxSeq (db_rdb db) c newMax s2 = (Ok (), s3)"
    "ignoreG (SetHasReadSeqs (db_rdb db) (db_ord db) c (userSeqMap msgs')) s3 = (Ok (), s')"
proof -
  obtain r s1 where get: "GetMaxSeq (db_rdb db) c s = (r, s1)" by (cases "GetMaxSeq (db_rdb db) c s")
  note g = GetMaxSeq_max_seq [OF laws get]
  obtain ms m where as: "assign_seqs (case r of Ok i \<Rightarrow> i | _ \<Rightarrow> 0) msgs = (ms, m)"
    by (cases "assign_seqs (case r of Ok i \<Rightarrow> i | _ \<Rightarrow> 0) msgs")
  have base: "(case r of Ok i \<Rightarrow> i | _ \<Rightarrow> 0) = seq_base (max_seq (view s) c)"
    if "\<not> (\<exists>e. r = Err e \<and> Unwrap e \<noteq> RedisNil)"
    using g that by (cases r) (auto simp: seq_base_def)
  from run get g as base show thesis
    by (cases r)
       (auto simp: BatchInsertChat2Cache_def bindG_Ok_iff attemptG_Ok_iff retG_def GetSingleGocMsgNum_def
         Let_def seq_base_def Suc_le_eq split: if_splits sum.splits intro: that)
qed

text \<open>
  C2.  Allocation of sequence numbers: a batch that \<open>BatchInsertChat2Cache\<close> accepts has 1 to
  100 messages; its messages get, in order, the numbers that follow the conversation's maximum
  (which starts at 0 for a new conversation, reported as such), nothing else of them changes, and
  afterwards the maximum is the last number given.  The maxima of all other conversations stay.
\<close>

theorem BatchInsertChat2Cache_allocates:
  assumes laws: "redis_laws (db_rdb db) view" "redis_pipe_laws (db_rdb db) view"
    and room: "seq_base (max_seq (view s) c) + int (length msgs) < 2 ^ 63"
    and run: "BatchInsertChat2Cache db c msgs s = (Ok ((last', isNew, None), msgs'), s')"
  shows "1 \<le> length msgs \<and> length msgs \<le> 100
    \<and> last' = seq_base (max_seq (view s) c) \<and> (isNew \<longleftrightarrow> max_seq (view s) c = None)
    \<and> map Seq msgs' = [last' + 1..last' + int (length msgs)]
    \<and> map (Seq_update (\<lambda>_. 0)) msgs' = map (Seq_update (\<lambda>_. 0)) msgs
    \<and> max_seq (view s') = (max_seq (view s))(c \<mapsto> last' + int (length msgs))"
proof -
  from BatchInsertChat2Cache_run [OF run laws(1)] obtain newMax s1 s2 s3 x where
    b: "last' = seq_base (max_seq (view s) c)" "isNew \<longleftrightarrow> max_seq (view s) c = None"
    "1 \<le> length msgs" "length msgs \<le> 100" "view s1 = view s"
    "assign_seqs last' msgs = (msgs', newMax)"
    "SetMessageToCache (db_rdb db) (db_pb db) (db_cfg db) c msgs' s1 = (Ok x, s2)"
    "SetMaxSeq (db_rdb db) c newMax s2 = (Ok (), s3)"
    "ignoreG (SetHasReadSeqs (db_rdb db) (db_ord db) c (userSeqMap msgs')) s3 = (Ok (), s')"
    by metis
  have a: "newMax = last' + int (length msgs)" "map Seq msgs' = [last' + 1..newMax]"
    "map (Seq_update (\<lambda>_. 0)) msgs' = map (Seq_update (\<lambda>_. 0)) msgs"
    using assign_seqs_spec [OF b(6)] max_seq_int64 room by (simp_all add: b(1))
  have i: "int64 newMax"
    using a(1) room max_seq_int64 [of "view s" c] b(1) by (simp add: int64_def)
  have "max_seq (view s2) = max_seq (view s)"
    using preservesD [OF SetMessageToCache_agree [OF laws, of "view s"] _ b(7)] b(5) agree_max_seq(1)
    by (auto simp: fun_eq_iff)
  moreover have "max_seq (view s3) = (max_seq (view s2))(c \<mapsto> newMax)"
    using SetMaxSeq_max_seq [OF laws(1) i b(8)] by simp
  moreover have "max_seq (view s') = max_seq (view s3)"
    using preservesD [OF preserves_ignore [OF SetHasReadSeqs_agree [OF laws(1), of "view s3"]] _ b(9)]
      agree_max_seq(2) by (auto simp: fun_eq_iff)
  ultimately show ?thesis using a b(1-4) by simp
qed

section \<open>A database for the examples\<close>

text \<open>A document store that lists the given documents and refuses every change.\<close>

definition listing_docs :: "MsgDocModel list \<Rightarrow> 's msgdoc_api" where
  "listing_docs docs = \<lparr>
     mdUpdateMsg = (\<lambda>d i k f s. (Err (Plain ''read only''), s)),
     mdPushUnique = (\<lambda>d i k us s. (Err (Plain ''read only''), s)),
     mdCreate = (\<lambda>doc s. (Err (Plain ''read only''), s)),
     mdDeleteDocs = (\<lambda>ds s. (Ok (), s)),
     mdDeleteMsgsInOneDocByIndex = (\<lambda>d is s. (Err (Plain ''read only''), s)),
     mdMarkSingleChatMsgsAsRead = (\<lambda>u d is s. (Err (Plain ''read only''), s)),
     mdGetMsgBySeqIndexIn1Doc = (\<lambda>u d qs s. (Ok [], s)),
     mdGetMsgDocModelByIndex = (\<lambda>c i dir s.
        (if 0 \<le> i \<and> nat i < length docs then Ok (docs ! nat i) else Err (Plain ''no more''), s)),
     mdGetNewestMsg = (\<lambda>c s. (Err MongoNoDocuments, s)),
     mdGetOldestMsg = (\<lambda>c s. (Err MongoNoDocuments, s)) \<rparr>"

text \<open>A codec that can store exactly one text: every message is written as the empty one.\<close>

definition demo_pb :: pb_codec where
  "demo_pb = \<lparr> pbMarshal = (\<lambda>m. Inr ''msg''), pbUnmarshal = (\<lambda>t. Inr empty_msg),
     jsonpbUnmarshal = (\<lambda>t. Inl (Plain ''not json'')) \<rparr>"

definition demo_db :: "MsgDocModel list \<Rightarrow> mem_redis msg_db" where
  "demo_db docs = \<lparr> db_doc = listing_docs docs, db_rdb = mem_redis_api, db_pb = demo_pb,
     db_cfg = \<lparr> EnablePipeline = True, MsgCacheTimeout = 86400 \<rparr>, db_json = demo_json,
     db_ord = sorted_list_of_set \<rparr>"

lemma demo_db_simps [simp]:
  "db_doc (demo_db docs) = listing_docs docs" "db_rdb (demo_db docs) = mem_redis_api"
  "db_pb (demo_db docs) = demo_pb" "EnablePipeline (db_cfg (demo_db docs)) = True"
  "db_ord (demo_db docs) = sorted_list_of_set"
  by (simp_all add: demo_db_def)

lemma mem_redis_pipe_get:
  "rdPipeGet mem_redis_api ks s =
     (Ok (map (\<lambda>k. case strings s k of None \<Rightarrow> Inl RedisNil | Some v \<Rightarrow> Inr v) ks,
          if list_ex (\<lambda>k. strings s k = None) ks then Some RedisNil else None), s)"
  by (simp add: mem_redis_api_def)

lemma mem_redis_pipe_laws: "redis_pipe_laws mem_redis_api strings"
proof -
  have keep: "fold (\<lambda>(k, v, t) m. m(k \<mapsto> v)) kvs m x = m x"
    if "x \<notin> fst ` set kvs" for kvs :: "(string \<times> string \<times> int) list" and m and x
    using that by (induction kvs arbitrary: m) auto
  show ?thesis
    unfolding redis_pipe_laws_def by (auto simp: mem_redis_api_def keep)
qed

lemma demo_batch_run:
  "\<exists>msgs' s'. BatchInsertChat2Cache (demo_db []) ''sg_1'' [empty_msg, empty_msg] mem_redis_empty
       = (Ok ((0, True, None), msgs'), s')"
proof -
  let ?run = "BatchInsertChat2Cache (demo_db []) ''sg_1'' [empty_msg, empty_msg] mem_redis_empty"
  have get: "GetMaxSeq mem_redis_api c mem_redis_empty = (Err (Wrapped ''==> '' RedisNil), mem_redis_empty)" for c
    by (simp add: GetMaxSeq_def getSeq_def wrapG_def rdGetInt64_def bindG_def mem_redis_get mem_redis_empty_def)
  have has: "\<exists>s'. ignoreG (SetHasReadSeqs mem_redis_api sorted_list_of_set c m) s = (Ok (), s')"
    if "\<exists>u i. m = Map.empty(u \<mapsto> i)" for c m s
    using that by (auto simp: ignoreG_def SetHasReadSeqs_def setSeqs_def wrapG_def mem_redis_set
        bindG_def retG_def attemptG_def)
  have pipe: "\<exists>r s'. SetMessageToCache mem_redis_api demo_pb cfg c ms s = (Ok r, s')"
    if "EnablePipeline cfg" for cfg c ms s
  proof -
    have "\<exists>ss. marshal_all demo_pb ms = Inr ss"
      by (induction ms) (auto simp: demo_pb_def)
    then show ?thesis
      using that
      by (auto simp: SetMessageToCache_def PipeSetMessageToCache_def bindG_def mem_redis_api_def retG_def
          split: sum.splits)
  qed
  obtain msgs' where as: "assign_seqs 0 [empty_msg, empty_msg] = (msgs', 2)" "map SendID msgs' = [[], []]"
    by (simp add: add64_exact int64_def Let_def empty_msg_def)
  then have "userSeqMap msgs' = Map.empty([] \<mapsto> Seq (last msgs'))"
    by (auto simp: userSeqMap_def)
  then have one: "\<exists>u i. userSeqMap msgs' = Map.empty(u \<mapsto> i)" by blast
  obtain x s2 where p: "SetMessageToCache mem_redis_api demo_pb (db_cfg (demo_db [])) ''sg_1'' msgs'
      mem_redis_empty = (Ok x, s2)" using pipe [of "db_cfg (demo_db [])" "''sg_1''" msgs' mem_redis_empty] by (auto simp del: split_paired_Ex)
  obtain s3 where m: "SetMaxSeq mem_redis_api ''sg_1'' 2 s2 = (Ok (), s3)"
    by (simp add: SetMaxSeq_def setSeq_def wrapG_def mem_redis_set)
  obtain s' where h: "ignoreG (SetHasReadSeqs mem_redis_api sorted_list_of_set ''sg_1'' (userSeqMap msgs')) s3
      = (Ok (), s')" using has [OF one] by blast
  have run: "?run = (Ok ((0, True, None), msgs'), s')"
    using as(1) p m h
    by (simp add: BatchInsertChat2Cache_def bindG_def attemptG_def get GetSingleGocMsgNum_def retG_def
        del: assign_seqs.simps)
  then show ?thesis by blast
qed

lemma demo_max_seq_empty [simp]: "max_seq (strings mem_redis_empty) c = None"
  by (simp add: max_seq_def mem_redis_empty_def)

theorem BatchInsertChat2Cache_allocates_witness:
  "\<exists>msgs' s'. BatchInsertChat2Cache (demo_db []) ''sg_1'' [empty_msg, empty_msg] mem_redis_empty
       = (Ok ((0, True, None), msgs'), s') \<and> map Seq msgs' = [1, 2] \<and> max_seq (strings s') ''sg_1'' = Some 2"
proof -
  obtain msgs' s' where run: "BatchInsertChat2Cache (demo_db []) ''sg_1'' [empty_msg, empty_msg] mem_redis_empty
       = (Ok ((0, True, None), msgs'), s')" using demo_batch_run by blast
  from BatchInsertChat2Cache_allocates [of "demo_db []" strings, OF _ _ _ run]
  have "map Seq msgs' = [0 + 1..0 + 2]" "max_seq (strings s') ''sg_1'' = Some 2"
    by (simp_all add: mem_redis_laws mem_redis_pipe_laws seq_base_def)
  with run show ?thesis by (simp add: upto_rec1)
qed

section \<open>The window of a range read\<close>

text \<open>
  C24.  A range read asks for the newest messages of the range: the numbers requested are
  consecutive, end at the upper bound, never leave the range, and there are as many as asked for
  or as many as the range holds.
\<close>

theorem range_seqs_newest:
  assumes "0 \<le> begin'" "begin' \<le> end'" "end' < 2 ^ 62" "0 < num" "num < 2 ^ 62"
  shows "range_seqs begin' end' num = [max begin' (end' - num + 1)..end']
    \<and> length (range_seqs begin' end' num) = nat (min num (end' - begin' + 1))"
proof -
  have "sub64 end' begin' = end' - begin'" "sub64 end' num = end' - num"
    using assms by (auto intro!: sub64_exact simp: int64_def)
  moreover have "add64 (end' - begin') 1 = end' - begin' + 1" "add64 (end' - num) 1 = end' - num + 1"
    using assms by (auto intro!: add64_exact simp: int64_def)
  ultimately have "range_seqs begin' end' num = [max begin' (end' - num + 1)..end']"
    by (cases "end' - begin' + 1 \<le> num") (simp_all add: range_seqs_def max_absorb1 max_absorb2)
  then show ?thesis using assms by (auto simp: min_def max_def)
qed

theorem range_seqs_newest_witness: "range_seqs 1 5 3 = [3, 4, 5]"
  using range_seqs_newest [of 1 5 3] by (simp add: upto_rec1)

section \<open>Replacing deleted messages\<close>

lemma reGetSeqsCache_loop_stuck:
  assumes "i \<le> n" "b \<le> sub64 nb i" "Contain (sub64 nb i) del"
  shows "reGetSeqsCache_loop del nb b n i acc = None"
proof (rule ccontr)
  assume "reGetSeqsCache_loop del nb b n i acc \<noteq> None"
  then obtain y where y: "reGetSeqsCache_loop del nb b n i acc = Some y" by blast
  have "\<not> (i \<le> n \<and> b \<le> sub64 nb i \<and> Contain (sub64 nb i) del)"
    by (rule reGetSeqsCache_loop.raw_induct [OF _ y,
          where P = "\<lambda>del nb b n i acc y. \<not> (i \<le> n \<and> b \<le> sub64 nb i \<and> Contain (sub64 nb i) del)"])
       (auto simp: Let_def split: if_splits)
  with assms show False by blast
qed

lemma reGetSeqsCache_loop_spec:
  assumes "0 \<le> nb" "nb < 2 ^ 62" "n < 2 ^ 62" "1 \<le> i"
  shows "reGetSeqsCache_loop del nb b n i acc =
     (if \<exists>j \<in> {i..n}. b \<le> nb - j \<and> nb - j \<in> set del then None
      else Some (acc @ map (\<lambda>j. nb - j) [i..min n (nb - b)]))"
  using assms(4)
proof (induction "nat (n + 1 - i)" arbitrary: i acc)
  case 0
  then show ?case by (subst reGetSeqsCache_loop.simps) auto
next
  case (Suc k)
  have le: "i \<le> n" using Suc.hyps(2) by linarith
  have sub: "sub64 nb i = nb - i"
    using assms le Suc.prems by (intro sub64_exact) (auto simp: int64_def)
  have split: "(\<exists>j \<in> {i..n}. P j) \<longleftrightarrow> P i \<or> (\<exists>j \<in> {i + 1..n}. P j)" for P
  proof -
    have "{i..n} = insert i {i + 1..n}" using le by auto
    then show ?thesis by simp
  qed
  consider (below) "nb - i < b" | (stuck) "b \<le> nb - i" "nb - i \<in> set del"
    | (take) "b \<le> nb - i" "nb - i \<notin> set del" by linarith
  then show ?case
  proof cases
    case below
    then show ?thesis using le by (subst reGetSeqsCache_loop.simps) (auto simp: sub)
  next
    case stuck
    have "reGetSeqsCache_loop del nb b n i acc = None"
      by (rule reGetSeqsCache_loop_stuck) (use le stuck in \<open>auto simp: sub\<close>)
    with stuck le show ?thesis by auto
  next
    case take
    have "reGetSeqsCache_loop del nb b n i acc = reGetSeqsCache_loop del nb b n (i + 1) (acc @ [nb - i])"
      using take le by (subst reGetSeqsCache_loop.simps) (simp add: sub)
    also have "\<dots> = (if \<exists>j \<in> {i + 1..n}. b \<le> nb - j \<and> nb - j \<in> set del then None
      else Some ((acc @ [nb - i]) @ map (\<lambda>j. nb - j) [i + 1..min n (nb - b)]))"
      using Suc.hyps(2) Suc.prems by (intro Suc.hyps(1)) auto
    also have "\<dots> = (if \<exists>j \<in> {i..n}. b \<le> nb - j \<and> nb - j \<in> set del then None
      else Some (acc @ map (\<lambda>j. nb - j) [i..min n (nb - b)]))"
      using take le unfolding split by (simp add: upto_rec1 [of i])
    finally show ?thesis .
  qed
qed

text \<open>
  C18.  The search for replacements of \<open>n\<close> deleted messages returns exactly when none of the
  \<open>n\<close> numbers before the page, within the range, is itself deleted by the user; it then yields
  those numbers.  As soon as one of them is deleted too, the loop does not return, since its
  counter advances only past numbers that are not deleted.
\<close>

theorem reGetSeqsCache_returns_iff:
  assumes "0 \<le> newBegin" "newBegin < 2 ^ 62" "n < 2 ^ 62"
  shows "reGetSeqsCache_loop delSeqs newBegin begin' n 1 [] =
     (if \<exists>j \<in> {1..n}. begin' \<le> newBegin - j \<and> newBegin - j \<in> set delSeqs then None
      else Some (map (\<lambda>j. newBegin - j) [1..min n (newBegin - begin')]))"
  using reGetSeqsCache_loop_spec [OF assms, of 1 delSeqs begin' "[]"] by simp

theorem reGetSeqsCache_returns_iff_witness:
  "reGetSeqsCache_loop [10, 9] 10 1 1 1 [] = None \<and> reGetSeqsCache_loop [10] 10 1 1 1 [] = Some [9]"
  using reGetSeqsCache_returns_iff [of 10 1 "[10, 9]" 1] reGetSeqsCache_returns_iff [of 10 1 "[10]" 1]
  by simp

section \<open>Bounds of a read by numbers\<close>

lemma or_zero_Ok:
  "or_zero m s = (Ok i, s') \<longleftrightarrow> m s = (Ok i, s') \<or> (\<exists>e. m s = (Err e, s') \<and> Unwrap e = RedisNil \<and> i = 0)"
  by (auto simp: or_zero_def bindG_def attemptG_def retG_def failG_def split: prod.splits outcome.splits)

definition min_seq :: "(string \<rightharpoonup> string) \<Rightarrow> string \<Rightarrow> int" where
  "min_seq v c = seq_base (seq_of (v (getMinSeqKey c)))"

definition user_min_seq :: "(string \<rightharpoonup> string) \<Rightarrow> string \<Rightarrow> string \<Rightarrow> int" where
  "user_min_seq v c u = seq_base (seq_of (v (getConversationUserMinSeqKey c u)))"

lemma or_zero_getSeq:
  assumes "redis_laws R view" "or_zero (wrapG m (rdGetInt64 R k)) s = (Ok i, s')"
  shows "i = seq_base (seq_of (view s k)) \<and> view s' = view s"
proof -
  from assms(2) obtain r where get: "rdGetInt64 R k s = (r, s')"
    and r: "r = Ok i \<or> (\<exists>e. r = Err e \<and> Unwrap e = RedisNil \<and> i = 0)"
    by (auto simp: or_zero_Ok wrapG_Err_iff)
  from rdGetInt64_cases [OF assms(1) get] r show ?thesis by (auto simp: seq_base_def)
qed

lemma or_zero_reads:
  assumes "redis_laws R view"
  shows "or_zero (GetMinSeq R c) s = (Ok i, s') \<Longrightarrow> i = min_seq (view s) c \<and> view s' = view s"
    and "or_zero (GetMaxSeq R c) s = (Ok i, s') \<Longrightarrow> i = seq_base (max_seq (view s) c) \<and> view s' = view s"
    and "or_zero (GetConversationUserMinSeq R c u) s = (Ok i, s') \<Longrightarrow>
           i = user_min_seq (view s) c u \<and> view s' = view s"
  using or_zero_getSeq [OF assms]
  by (simp_all add: GetMinSeq_def GetMaxSeq_def GetConversationUserMinSeq_def getSeq_def min_seq_def
      max_seq_def user_min_seq_def)

text \<open>
  C22.  What a read by numbers asks for: the bounds it reports are the conversation's maximum and, as
  minimum, the smaller of the conversation's and the user's own; the numbers it asks of the cache are exactly
  those of the request between these bounds, in the order of the request, the cache's misses are asked of
  MongoDB, and the answer is what the cache gave and then what MongoDB gave.  So a number between the
  conversation's minimum and the user's own, which exists to hide older messages, is still asked for, and
  for a user who has no minimum of its own so is every number from 0 to the maximum.
\<close>

theorem GetMsgBySeqs_bounds:
  assumes laws: "redis_laws (db_rdb db) view"
    and run: "GetMsgBySeqs db userID c seqs userInfo member s = (Ok (minSeq, maxSeq, msgs), s')"
  shows "minSeq = min (user_min_seq (view s) c userID) (min_seq (view s) c)
    \<and> maxSeq = seq_base (max_seq (view s) c)
    \<and> (\<exists>s1 hits misses err s2. view s1 = view s
        \<and> GetMessagesBySeq (db_rdb db) (db_pb db) (db_cfg db) c (filter (\<lambda>q. minSeq \<le> q \<and> q \<le> maxSeq) seqs) s1
            = (Ok (hits, misses, err), s2)
        \<and> (misses = [] \<and> msgs = hits \<and> s' = s2
         \<or> misses \<noteq> [] \<and> (\<exists>found. getMsgBySeqs db userID c misses userInfo member s2 = (Ok found, s') \<and> msgs = hits @ found)))
    \<and> {q \<in> set seqs. min_seq (view s) c \<le> q \<and> q < user_min_seq (view s) c userID \<and> q \<le> maxSeq}
        \<subseteq> set (filter (\<lambda>q. minSeq \<le> q \<and> q \<le> maxSeq) seqs)
    \<and> (user_min_seq (view s) c userID = 0 \<and> 0 \<le> min_seq (view s) c \<longrightarrow> minSeq = 0)"
proof -
  from run obtain u s1 mn s2 mx s3 where reads:
    "or_zero (GetConversationUserMinSeq (db_rdb db) c userID) s = (Ok u, s1)"
    "or_zero (GetMinSeq (db_rdb db) c) s1 = (Ok mn, s2)"
    "or_zero (GetMaxSeq (db_rdb db) c) s2 = (Ok mx, s3)"
    and rest: "(let minSeq = (if u < mn then u else mn); newSeqs = filter (\<lambda>seq. seq \<ge> minSeq \<and> seq \<le> mx) seqs
       in bindG (GetMessagesBySeq (db_rdb db) (db_pb db) (db_cfg db) c newSeqs)
            (\<lambda>(successMsgs, failedSeqs, err).
            if length failedSeqs > 0 then
              bindG (getMsgBySeqs db userID c failedSeqs userInfo member)
                (\<lambda>mongoMsgs. retG (minSeq, mx, successMsgs @ mongoMsgs))
            else retG (minSeq, mx, successMsgs))) s3 = (Ok (minSeq, maxSeq, msgs), s')"
    unfolding GetMsgBySeqs_def by (elim bindG_OkE)
  from rest have q: "minSeq = (if u < mn then u else mn)" "maxSeq = mx"
    by (auto simp: Let_def bindG_Ok_iff retG_def split: if_splits)
  obtain hits misses err s4 where
    get: "GetMessagesBySeq (db_rdb db) (db_pb db) (db_cfg db) c (filter (\<lambda>q. minSeq \<le> q \<and> q \<le> maxSeq) seqs) s3
      = (Ok (hits, misses, err), s4)"
    and out: "misses = [] \<and> msgs = hits \<and> s' = s4
      \<or> misses \<noteq> [] \<and> (\<exists>found. getMsgBySeqs db userID c misses userInfo member s4 = (Ok found, s') \<and> msgs = hits @ found)"
    using rest unfolding Let_def q(1) [symmetric] q(2) [symmetric]
    by (auto simp: bindG_Ok_iff retG_def split: if_splits)
  have v: "view s3 = view s" and m: "minSeq = min (user_min_seq (view s) c userID) (min_seq (view s) c)"
    "maxSeq = seq_base (max_seq (view s) c)"
    using or_zero_reads(3) [OF laws reads(1)] or_zero_reads(1) [OF laws reads(2)]
      or_zero_reads(2) [OF laws reads(3)] q by (auto simp: min_def)
  show ?thesis using v m get out by auto
qed

lemma demo_reads_seq:
  assumes "strings s k = Some (itoa n)" "int64 n"
  shows "or_zero (wrapG m (rdGetInt64 mem_redis_api k)) s = (Ok n, s)"
  using assms by (simp add: or_zero_def wrapG_def rdGetInt64_def bindG_def attemptG_def mem_redis_get retG_def)

lemma demo_reads_empty:
  "or_zero (GetMinSeq mem_redis_api c) mem_redis_empty = (Ok 0, mem_redis_empty)"
  "or_zero (GetMaxSeq mem_redis_api c) mem_redis_empty = (Ok 0, mem_redis_empty)"
  "or_zero (GetConversationUserMinSeq mem_redis_api c u) mem_redis_empty = (Ok 0, mem_redis_empty)"
  by (simp_all add: or_zero_def GetMinSeq_def GetMaxSeq_def GetConversationUserMinSeq_def getSeq_def
      wrapG_def rdGetInt64_def bindG_def attemptG_def mem_redis_get mem_redis_empty_def retG_def)

text \<open>A user whose own minimum is 7, in a conversation with the numbers 3 to 9, is given the message 3.\<close>

theorem GetMsgBySeqs_bounds_witness:
  "\<exists>s s'. user_min_seq (strings s) ''sg_1'' ''u'' = 7
     \<and> GetMsgBySeqs (demo_db []) ''u'' ''sg_1'' [2, 3, 8, 10] (demo_user ''u'') None s
         = (Ok (min 7 (min_seq (strings s) ''sg_1''), 9, [Some empty_msg, Some empty_msg]), s')
     \<and> (\<exists>s1 x s2. strings s1 = strings s \<and> GetMessagesBySeq mem_redis_api demo_pb (db_cfg (demo_db [])) ''sg_1'' [3, 8] s1 = (Ok x, s2))"
proof -
  define t where "t = mem_redis_empty\<lparr> strings := Map.empty(getConversationUserMinSeqKey ''sg_1'' ''u'' \<mapsto> itoa 7,
     getMinSeqKey ''sg_1'' \<mapsto> itoa 3, getMaxSeqKey ''sg_1'' \<mapsto> itoa 9,
     getMessageCacheKey ''sg_1'' 3 \<mapsto> ''msg'', getMessageCacheKey ''sg_1'' 8 \<mapsto> ''msg'') \<rparr>"
  have keys: "getMessageCacheKey ''sg_1'' 3 \<noteq> getMessageCacheKey ''sg_1'' 8" by (simp add: getMessageCacheKey_inject)
  have other: "getMinSeqKey ''sg_1'' \<noteq> getMessageCacheKey ''sg_1'' q" "getConversationUserMinSeqKey ''sg_1'' ''u'' \<noteq> getMessageCacheKey ''sg_1'' q" for q
    by (simp_all add: getMinSeqKey_def getConversationUserMinSeqKey_def getMessageCacheKey_def)
  note apart = keys other other [symmetric] key_families_disjoint key_families_disjoint [symmetric]
  have at: "strings t (getConversationUserMinSeqKey ''sg_1'' ''u'') = Some (itoa 7)" "strings t (getMinSeqKey ''sg_1'') = Some (itoa 3)"
    "strings t (getMaxSeqKey ''sg_1'') = Some (itoa 9)" "strings t (getMessageCacheKey ''sg_1'' 3) = Some ''msg''"
    "strings t (getMessageCacheKey ''sg_1'' 8) = Some ''msg''"
    unfolding t_def using apart by simp_all
  have reads: "or_zero (GetConversationUserMinSeq mem_redis_api ''sg_1'' ''u'') t = (Ok 7, t)"
    "or_zero (GetMinSeq mem_redis_api ''sg_1'') t = (Ok 3, t)" "or_zero (GetMaxSeq mem_redis_api ''sg_1'') t = (Ok 9, t)"
    by (simp_all add: GetConversationUserMinSeq_def GetMinSeq_def GetMaxSeq_def getSeq_def demo_reads_seq [OF at(1)]
        demo_reads_seq [OF at(2)] demo_reads_seq [OF at(3)] int64_def)
  have "Status empty_msg = 0" by (simp add: empty_msg_def)
  then have run: "GetMsgBySeqs (demo_db []) ''u'' ''sg_1'' [2, 3, 8, 10] (demo_user ''u'') None t
     = (Ok (3, 9, [Some empty_msg, Some empty_msg]), t)"
    by (simp add: GetMsgBySeqs_def GetMessagesBySeq_def PipeGetMessagesBySeq_def mem_redis_pipe_get at reads bindG_def retG_def demo_pb_def Let_def)
  from GetMsgBySeqs_bounds [of "demo_db []" strings, OF _ run] obtain s1 x s2 where
    "3 = min (user_min_seq (strings t) ''sg_1'' ''u'') (min_seq (strings t) ''sg_1'')" "strings s1 = strings t"
    "GetMessagesBySeq mem_redis_api demo_pb (db_cfg (demo_db [])) ''sg_1'' [3, 8] s1 = (Ok x, s2)"
    by (fastforce simp: mem_redis_laws)
  moreover have "user_min_seq (strings t) ''sg_1'' ''u'' = 7" using at(1) by (simp add: user_min_seq_def seq_base_def int64_def)
  ultimately show ?thesis using run by (intro exI [of _ t] exI [of _ s1] conjI) (auto intro!: exI [of _ s1] exI [of _ x] exI [of _ s2] simp del: split_paired_Ex)
qed

section \<open>What a reader sees of a document\<close>














section \<open>Deletion and the minimum sequence numbers\<close>

text \<open>
  The documents of a conversation as they are listed: \<open>I i s\<close> says that in state \<open>s\<close> the
  documents from index \<open>i\<close> on are still the last of \<open>docs\<close>.  Deleting messages inside the
  document at hand keeps the later ones, and the document calls do not touch Redis.
\<close>

definition doc_listing ::
  "'s msgdoc_api \<Rightarrow> ('s \<Rightarrow> string \<rightharpoonup> string) \<Rightarrow> string \<Rightarrow> MsgDocModel list \<Rightarrow> (nat \<Rightarrow> 's \<Rightarrow> bool) \<Rightarrow> bool" where
  "doc_listing D view c docs I \<longleftrightarrow>
     (\<forall>i s. I i s \<longrightarrow> (\<exists>r s'. mdGetMsgDocModelByIndex D c (int i) 1 s = (r, s') \<and> view s' = view s
        \<and> (if i < length docs then r = Ok (docs ! i) \<and> I (Suc i) s' else (\<exists>e. r = Err e))))
   \<and> (\<forall>i s idx. I (Suc i) s \<longrightarrow> (\<exists>r s'. mdDeleteMsgsInOneDocByIndex D (DocID (docs ! i)) idx s = (r, s')
        \<and> view s' = view s \<and> I (Suc i) s' \<and> (\<forall>p. r \<noteq> Panic p)))
   \<and> (\<forall>ds s. \<exists>r s'. mdDeleteDocs D ds s = (r, s') \<and> view s' = view s \<and> (\<forall>p. r \<noteq> Panic p))"

definition docs_ok :: "MsgDocModel list \<Rightarrow> bool" where
  "docs_ok docs \<longleftrightarrow> (\<forall>doc \<in> set docs. DocID doc \<noteq> [] \<and> DocMsg doc \<noteq> [])"

definition demo_doc :: MsgDocModel where
  "demo_doc = \<lparr> DocID = ''sg_1:0'', DocMsg = [\<lparr> InfoMsg = Some (demo_msg ''a'' 7), InfoRevoke = None,
     DelList = [], InfoIsRead = False \<rparr>] \<rparr>"

lemma demo_listing: "doc_listing (db_doc (demo_db [demo_doc])) strings c [demo_doc] (\<lambda>i s. True)"
  by (simp add: doc_listing_def listing_docs_def)

lemma demo_docs_ok: "docs_ok [demo_doc]"
  by (simp add: docs_ok_def demo_doc_def)

lemma or_zero_run:
  assumes laws: "redis_laws R view" and run: "or_zero (GetConversationUserMinSeq R c u) s = (r, s')"
  shows "view s' = view s \<and> (\<forall>p. r \<noteq> Panic p)"
proof -
  obtain r1 s1 where g: "rdGetInt64 R (getConversationUserMinSeqKey c u) s = (r1, s1)"
    by (cases "rdGetInt64 R (getConversationUserMinSeqKey c u) s")
  from rdGetInt64_cases [OF laws g] run g show ?thesis
    by (cases r1) (auto simp: or_zero_def GetConversationUserMinSeq_def getSeq_def wrapG_def bindG_def attemptG_def retG_def failG_def
      split: if_splits)
qed

lemma user_min_put:
  assumes laws: "redis_laws R view" and run: "SetConversationUserMinSeq R c u q s = (r, s')" and q: "int64 q"
  shows "case r of Ok _ \<Rightarrow> user_min_seq (view s') c u = q
    | Err e \<Rightarrow> user_min_seq (view s') c u \<in> {user_min_seq (view s) c u, q} | Panic p \<Rightarrow> False"
proof -
  obtain r1 s1 where g: "rdSet R (getConversationUserMinSeqKey c u) (itoa q) 0 s = (r1, s1)"
    by (cases "rdSet R (getConversationUserMinSeqKey c u) (itoa q) 0 s")
  from redis_law_set [OF laws g] run g q show ?thesis
    by (cases r1) (auto simp: SetConversationUserMinSeq_def wrapG_def bindG_def retG_def user_min_seq_def seq_base_def)
qed

subsection \<open>Self-destruction\<close>

text \<open>
  What \<open>UserMsgsDestruct\<close> is meant to find in the entries of a conversation: of the longest run of entries from
  the oldest on that all hold a message due by now, those that were not yet due at the last time
  and that the user has not deleted.
\<close>

definition due_at :: "int \<Rightarrow> MsgInfoModel \<Rightarrow> int" where
  "due_at dt info = add64 (mSendTime (the (InfoMsg info))) (mul64 dt 1000)"

definition due :: "int \<Rightarrow> int \<Rightarrow> MsgInfoModel \<Rightarrow> bool" where
  "due now dt info \<longleftrightarrow> InfoMsg info \<noteq> None \<and> due_at dt info \<le> now"

definition to_destruct :: "int \<Rightarrow> int \<Rightarrow> string \<Rightarrow> MsgInfoModel list \<Rightarrow> int list" where
  "to_destruct dt lt u infos =
     map (\<lambda>info. mSeq (the (InfoMsg info))) (filter (\<lambda>info. lt < due_at dt info \<and> u \<notin> set (DelList info)) infos)"

lemma to_destruct_append: "to_destruct dt lt u (xs @ ys) = to_destruct dt lt u xs @ to_destruct dt lt u ys"
  by (simp add: to_destruct_def)

lemma destruct_scan_spec:
  "destruct_scan now dt lt u infos = (to_destruct dt lt u (takeWhile (due now dt) infos), \<exists>info \<in> set infos. \<not> due now dt info)"
  by (induction infos) (auto simp: to_destruct_def due_def due_at_def Let_def split: option.splits)

lemma takeWhile_concat_end: "\<exists>x \<in> set xs. \<not> P x \<Longrightarrow> takeWhile P (xs @ ys) = takeWhile P xs"
  by (induction xs) auto

lemma takeWhile_concat_on: "\<not> (\<exists>x \<in> set xs. \<not> P x) \<Longrightarrow> takeWhile P (xs @ ys) = xs @ takeWhile P ys"
  by (induction xs) auto

lemma UserMsgsDestruct_loop_spec:
  assumes L: "doc_listing (db_doc db) view c docs I" "docs_ok docs" "int (length docs) < 2 ^ 62"
  shows "i \<le> length docs \<Longrightarrow> length docs - i < fuel \<Longrightarrow> I i s \<Longrightarrow>
    \<exists>s'. UserMsgsDestruct_loop db fuel now u c dt lt (int i) seqs s =
        (Ok (seqs @ to_destruct dt lt u (takeWhile (due now dt) (concat (map DocMsg (drop i docs))))), s')
      \<and> view s' = view s"
proof (induction fuel arbitrary: i seqs s)
  case (Suc fuel)
  obtain r1 s1 where get: "mdGetMsgDocModelByIndex (db_doc db) c (int i) 1 s = (r1, s1)" "view s1 = view s"
    "if i < length docs then r1 = Ok (docs ! i) \<and> I (Suc i) s1 else (\<exists>e. r1 = Err e)"
    using L(1) Suc.prems(3) unfolding doc_listing_def by blast
  show ?case
  proof (cases "i < length docs")
    case True
    let ?doc = "docs ! i"
    have r1: "r1 = Ok ?doc" "I (Suc i) s1" "DocID ?doc \<noteq> []"
      using get(3) True L(2) by (auto simp: docs_ok_def)
    have rest: "concat (map DocMsg (drop i docs)) = DocMsg ?doc @ concat (map DocMsg (drop (Suc i) docs))"
      using True by (simp add: Cons_nth_drop_Suc [symmetric])
    have idx: "add64 (int i) 1 = int (Suc i)"
      using True L(3) by (subst add64_exact) (auto simp: int64_def)
    show ?thesis
    proof (cases "\<exists>info \<in> set (DocMsg ?doc). \<not> due now dt info")
      case over: True
      then have "UserMsgsDestruct_loop db (Suc fuel) now u c dt lt (int i) seqs s
          = (Ok (seqs @ to_destruct dt lt u (takeWhile (due now dt) (DocMsg ?doc))), s1)"
        using get(1) r1 by (simp add: bindG_def attemptG_def retG_def destruct_scan_spec)
      then show ?thesis using get(2) unfolding rest takeWhile_concat_end [OF over] by simp
    next
      case on: False
      then have all: "takeWhile (due now dt) (DocMsg ?doc) = DocMsg ?doc" by simp
      from on have step: "UserMsgsDestruct_loop db (Suc fuel) now u c dt lt (int i) seqs s
          = UserMsgsDestruct_loop db fuel now u c dt lt (int (Suc i)) (seqs @ to_destruct dt lt u (DocMsg ?doc)) s1"
        using get(1) r1 idx on
        by (simp add: bindG_def attemptG_def destruct_scan_spec all)
      show ?thesis
        using Suc.IH [OF _ _ r1(2), of "seqs @ to_destruct dt lt u (DocMsg ?doc)"] True Suc.prems(2) get(2)
        unfolding step rest takeWhile_concat_on [OF on] by (simp add: to_destruct_append)
    qed
  next
    case False
    then obtain e where "r1 = Err e" using get(3) by auto
    with get False show ?thesis by (simp add: bindG_def attemptG_def retG_def to_destruct_def)
  qed
qed simp

text \<open>
  C20.  Self-destruction, on documents that are listed oldest first and read without failing: with fuel for
  one step more than there are documents, \<open>UserMsgsDestruct\<close> never runs out of it and never panics; what
  it returns are the numbers of exactly the messages due by now, from the oldest on up to the first entry
  that is not due, without those already due at the last run and those the user has deleted.  The user's
  minimum only moves forward: on success it is the larger of its old value and the number after the
  last message returned, and unchanged when there is none; when Redis fails it is one of the two.
\<close>

theorem UserMsgsDestruct_monotone:
  assumes laws: "redis_laws (db_rdb db) view"
    and L: "doc_listing (db_doc db) view c docs I" "docs_ok docs" "int (length docs) < 2 ^ 62" "I 0 s"
    and fuel: "length docs < fuel"
    and run: "UserMsgsDestruct db fuel now u c dt lt s = (r, s')"
  shows "let found = to_destruct dt lt u (takeWhile (due now dt) (concat (map DocMsg docs)));
             old = user_min_seq (view s) c u;
             new = (if found = [] then old else max old (add64 (last found) 1))
    in (\<forall>p. r \<noteq> Panic p) \<and> (\<forall>seqs. r = Ok seqs \<longrightarrow> seqs = found \<and> user_min_seq (view s') c u = new)
     \<and> user_min_seq (view s') c u \<in> {old, new} \<and> old \<le> user_min_seq (view s') c u"
proof -
  let ?found = "to_destruct dt lt u (takeWhile (due now dt) (concat (map DocMsg docs)))"
  let ?next = "add64 (last ?found) 1"
  let ?store = "\<lambda>cur. if cur < ?next then bindG (SetConversationUserMinSeq (db_rdb db) c u ?next) (\<lambda>_. retG ?found) else retG ?found"
  from UserMsgsDestruct_loop_spec [OF L(1-3) _ _ L(4), of fuel now u dt lt "[]"] fuel
  obtain s1 where loop: "UserMsgsDestruct_loop db fuel now u c dt lt 0 [] s = (Ok ?found, s1)" and v1: "view s1 = view s" by auto
  have rest: "(if length ?found > 0
      then bindG (or_zero (GetConversationUserMinSeq (db_rdb db) c u)) ?store else retG ?found) s1 = (r, s')"
    using run unfolding UserMsgsDestruct_def Let_def by (subst (asm) bindG_run_Ok [where s = s and m = "UserMsgsDestruct_loop db fuel now u c dt lt 0 []", OF loop]) assumption
  show ?thesis
  proof (cases "?found = []")
    case True
    with rest v1 show ?thesis by (auto simp: retG_def Let_def)
  next
    case False
    with rest have rest: "bindG (or_zero (GetConversationUserMinSeq (db_rdb db) c u)) ?store s1 = (r, s')" by simp
    obtain r2 s2 where cur: "or_zero (GetConversationUserMinSeq (db_rdb db) c u) s1 = (r2, s2)"
      by (cases "or_zero (GetConversationUserMinSeq (db_rdb db) c u) s1")
    have v2: "view s2 = view s1" "\<forall>p. r2 \<noteq> Panic p" using or_zero_run [OF laws cur] by auto
    show ?thesis
    proof (cases r2)
      case (Ok n)
      with cur have n: "n = user_min_seq (view s) c u" using or_zero_reads(3) [OF laws] v1 by metis
      have w: "?store n s2 = (r, s')" using rest cur Ok by (simp add: bindG_def)
      show ?thesis
      proof (cases "n < ?next")
        case True
        obtain r3 where put: "SetConversationUserMinSeq (db_rdb db) c u ?next s2 = (r3, s')"
          and r: "r = (case r3 of Ok _ \<Rightarrow> Ok ?found | Err e \<Rightarrow> Err e | Panic p \<Rightarrow> Panic p)"
          using w True by (cases "SetConversationUserMinSeq (db_rdb db) c u ?next s2")
            (auto simp: bindG_def retG_def split: outcome.splits)
        have "case r3 of Ok _ \<Rightarrow> user_min_seq (view s') c u = ?next
            | Err e \<Rightarrow> user_min_seq (view s') c u \<in> {user_min_seq (view s) c u, ?next} | Panic p \<Rightarrow> False"
          using user_min_put [OF laws put int64_add64] v1 v2(1) by (simp split: outcome.splits)
        then show ?thesis using r True n False by (auto simp: Let_def max_def split: outcome.splits)
      next
        case no: False
        with w v1 v2 n False show ?thesis by (auto simp: retG_def Let_def max_def)
      qed
    next
      case (Err e)
      with rest cur v1 v2 False show ?thesis by (auto simp: bindG_def Let_def)
    qed (use v2 in simp)
  qed
qed

theorem UserMsgsDestruct_monotone_witness:
  "\<exists>s'. UserMsgsDestruct (demo_db [demo_doc]) 2 100000 ''u'' ''sg_1'' 60 0 mem_redis_empty = (Ok [7], s')
     \<and> user_min_seq (strings s') ''sg_1'' ''u'' = 8"
proof -
  have arith: "mul64 60 1000 = 60000" "add64 0 60000 = 60000" "add64 0 1 = 1" "add64 7 1 = 8"
    by (simp_all add: mul64_exact add64_exact int64_def)
  then obtain s' where run: "UserMsgsDestruct (demo_db [demo_doc]) 2 100000 ''u'' ''sg_1'' 60 0 mem_redis_empty
      = (Ok [7], s')"
    by (simp add: UserMsgsDestruct_def numeral_2_eq_2 bindG_def attemptG_def listing_docs_def retG_def
        demo_doc_def demo_msg_def MsgPb2DB_def empty_msg_def demo_reads_empty
        SetConversationUserMinSeq_def wrapG_def mem_redis_set)
  have "user_min_seq (strings mem_redis_empty) ''sg_1'' ''u'' = 0"
    by (simp add: user_min_seq_def mem_redis_empty_def seq_base_def)
  moreover have "to_destruct 60 0 ''u'' (takeWhile (due 100000 60) (concat (map DocMsg [demo_doc]))) = [7]"
    by (simp add: to_destruct_def due_def due_at_def demo_doc_def demo_msg_def MsgPb2DB_def empty_msg_def arith)
  ultimately have "user_min_seq (strings s') ''sg_1'' ''u'' = 8"
    using UserMsgsDestruct_monotone [OF _ demo_listing demo_docs_ok _ _ _ run] mem_redis_laws
    by (simp add: Let_def \<open>add64 7 1 = 8\<close>)
  with run show ?thesis by blast
qed

subsection \<open>Expiry of whole conversations\<close>

definition expired :: "int \<Rightarrow> int \<Rightarrow> MsgDataModel \<Rightarrow> bool" where
  "expired now remainTime m \<longleftrightarrow> now > add64 (mSendTime m) (mul64 remainTime 1000)"

definition expired_msgs :: "int \<Rightarrow> int \<Rightarrow> MsgDocModel \<Rightarrow> MsgDataModel list" where
  "expired_msgs now remainTime doc =
     filter (expired now remainTime) (List.map_filter InfoMsg (DocMsg doc))"

lemma expired_indexes_spec:
  "map (\<lambda>i. the (InfoMsg (infos ! (i - k)))) (expired_indexes now rt k infos)
     = filter (expired now rt) (List.map_filter InfoMsg infos)
   \<and> (\<forall>i \<in> set (expired_indexes now rt k infos). k \<le> i \<and> i < k + length infos)"
proof (induction infos arbitrary: k)
  case (Cons info infos)
  let ?is = "expired_indexes now rt (Suc k) infos"
  have shift: "map (\<lambda>i. the (InfoMsg ((info # infos) ! (i - k)))) ?is
      = map (\<lambda>i. the (InfoMsg (infos ! (i - Suc k)))) ?is"
  proof (rule map_cong [OF refl])
    fix i assume "i \<in> set ?is"
    then have "i - k = Suc (i - Suc k)" using Cons [of "Suc k"] by auto
    then show "the (InfoMsg ((info # infos) ! (i - k))) = the (InfoMsg (infos ! (i - Suc k)))" by simp
  qed
  then show ?case
    using Cons [of "Suc k"]
    by (auto simp: expired_def List.map_filter_def split: option.splits)
qed (simp add: List.map_filter_def)

lemma last_expired:
  assumes "expired_indexes now rt 0 (DocMsg doc) \<noteq> []"
  shows "the (InfoMsg (DocMsg doc ! last (expired_indexes now rt 0 (DocMsg doc))))
     = last (expired_msgs now rt doc)"
proof -
  let ?is = "expired_indexes now rt 0 (DocMsg doc)"
  have "map (\<lambda>i. the (InfoMsg (DocMsg doc ! i))) ?is = expired_msgs now rt doc"
    using expired_indexes_spec [of "DocMsg doc" 0 now rt] by (simp add: expired_msgs_def)
  then show ?thesis using assms by (metis last_map)
qed

definition last_seq :: "int \<Rightarrow> MsgDataModel list \<Rightarrow> int" where
  "last_seq q ms = (if ms = [] then q else mSeq (last ms))"

lemma last_seq_append: "last_seq q (ms @ ns) = last_seq (last_seq q ms) ns"
  by (simp add: last_seq_def)

lemma IsFull_last:
  "DocMsg doc \<noteq> [] \<Longrightarrow> IsFull doc = Ok (InfoMsg (last (DocMsg doc)) \<noteq> None)"
  by (simp add: IsFull_def last_conv_nth)

lemma expired_msgs_last:
  assumes "DocMsg doc \<noteq> []" "InfoMsg (last (DocMsg doc)) = Some m" "expired now rt m"
  shows "expired_msgs now rt doc \<noteq> [] \<and> last (expired_msgs now rt doc) = m"
proof -
  obtain init x where d: "DocMsg doc = init @ [x]" using assms(1) by (meson rev_exhaust)
  then have "expired_msgs now rt doc
      = filter (expired now rt) (List.map_filter InfoMsg init) @ [m]"
    using assms(2,3) by (simp add: expired_msgs_def List.map_filter_def)
  then show ?thesis by simp
qed

lemma deleteMsgRecursion_doc_spec:
  assumes L: "doc_listing (db_doc db) view c docs I" "docs_ok docs" "i < length docs" "I (Suc i) s"
    and run: "deleteMsgRecursion_doc db now rt (docs ! i) d s = (r, s')"
  shows "\<exists>d'. r = Ok d' \<and> delMinSeq d' = last_seq (delMinSeq d) (expired_msgs now rt (docs ! i))
     \<and> view s' = view s \<and> I (Suc i) s'"
proof -
  let ?doc = "docs ! i" and ?is = "expired_indexes now rt 0 (DocMsg (docs ! i))"
  have ne: "DocMsg ?doc \<noteq> []" using L(2,3) by (auto simp: docs_ok_def)
  have "?is = [] \<longleftrightarrow> expired_msgs now rt ?doc = []"
    using expired_indexes_spec [of "DocMsg ?doc" 0 now rt] by (auto simp: expired_msgs_def)
  note empty = this
  consider (whole) m where "InfoMsg (last (DocMsg ?doc)) = Some m" "expired now rt m"
    | (part) "\<not> (\<exists>m. InfoMsg (last (DocMsg ?doc)) = Some m \<and> expired now rt m)" by blast
  then show ?thesis
  proof cases
    case whole
    with run ne expired_msgs_last [OF ne whole] L(4) show ?thesis
      by (auto simp: deleteMsgRecursion_doc_def IsFull_last bindG_def liftG_def retG_def expired_def last_seq_def)
  next
    case part
    obtain r1 s1 where del: "mdDeleteMsgsInOneDocByIndex (db_doc db) (DocID ?doc) (map int ?is) s = (r1, s1)"
      "view s1 = view s" "I (Suc i) s1" "\<forall>p. r1 \<noteq> Panic p"
      using L(1,4) unfolding doc_listing_def by blast
    have ign: "ignoreG (mdDeleteMsgsInOneDocByIndex (db_doc db) (DocID ?doc) (map int ?is)) s = (Ok (), s1)"
      using del by (cases r1) (auto simp: ignoreG_def bindG_def attemptG_def retG_def)
    have "bindG (liftG (IsFull ?doc)) k s = k (InfoMsg (last (DocMsg ?doc)) \<noteq> None) s" for k :: "bool \<Rightarrow> ('a, delMsgRecursionStruct) go"
      using ne by (simp add: IsFull_last bindG_def liftG_def)
    with run part have "(if length ?is > 0 then
           bindG (ignoreG (mdDeleteMsgsInOneDocByIndex (db_doc db) (DocID ?doc) (map int ?is)))
             (\<lambda>_. retG (d\<lparr> delMinSeq := mSeq (the (InfoMsg (DocMsg ?doc ! last ?is))) \<rparr>))
         else retG d) s = (r, s')"
      by (auto simp: deleteMsgRecursion_doc_def Let_def expired_def split: if_splits)
    then show ?thesis
      using ign del empty last_expired [of now rt ?doc] L(4)
      by (auto simp: bindG_def retG_def last_seq_def split: if_splits)
  qed
qed

lemma deleteMsgRecursion_spec:
  assumes L: "doc_listing (db_doc db) view c docs I" "docs_ok docs" "int (length docs) < 2 ^ 62"
  shows "i \<le> length docs \<Longrightarrow> length docs - i < fuel \<Longrightarrow> I i s \<Longrightarrow>
    deleteMsgRecursion db fuel now c (int i) d rt s = (r, s') \<Longrightarrow>
    view s' = view s \<and> (\<forall>p. r \<noteq> Panic p)
    \<and> (\<forall>q. r = Ok q \<longrightarrow>
         q = add64 (last_seq (delMinSeq d) (concat (map (expired_msgs now rt) (drop i docs)))) 1)"
proof (induction fuel arbitrary: i d s)
  case (Suc fuel)
  obtain r1 s1 where get: "mdGetMsgDocModelByIndex (db_doc db) c (int i) 1 s = (r1, s1)" "view s1 = view s"
    "if i < length docs then r1 = Ok (docs ! i) \<and> I (Suc i) s1 else (\<exists>e. r1 = Err e)"
    using L(1) Suc.prems(3) unfolding doc_listing_def by blast
  show ?case
  proof (cases "i < length docs")
    case True
    let ?doc = "docs ! i"
    have r1: "r1 = Ok ?doc" "I (Suc i) s1" "DocID ?doc \<noteq> []"
      using get(3) True L(2) by (auto simp: docs_ok_def)
    obtain r2 s2 where one: "deleteMsgRecursion_doc db now rt ?doc d s1 = (r2, s2)"
      by (cases "deleteMsgRecursion_doc db now rt ?doc d s1")
    obtain d' where d': "r2 = Ok d'" "delMinSeq d' = last_seq (delMinSeq d) (expired_msgs now rt ?doc)"
      "view s2 = view s1" "I (Suc i) s2"
      using deleteMsgRecursion_doc_spec [OF L(1,2) True r1(2) one] by blast
    have idx: "add64 (int i) 1 = int (Suc i)"
      using True L(3) by (subst add64_exact) (auto simp: int64_def)
    have "deleteMsgRecursion db fuel now c (int (Suc i)) d' rt s2 = (r, s')"
      using Suc.prems(4) get(1) r1 one d'(1) idx by (simp add: bindG_def attemptG_def Let_def)
    from Suc.IH [OF _ _ d'(4) this] True Suc.prems(2) d' get(2) show ?thesis
      by (simp add: last_seq_append Cons_nth_drop_Suc [symmetric])
  next
    case False
    then obtain e where e: "r1 = Err e" using get(3) by auto
    obtain r2 s2 where del: "mdDeleteDocs (db_doc db) (delDocIDs d) s1 = (r2, s2)" "view s2 = view s1"
      "\<forall>p. r2 \<noteq> Panic p" using L(1) unfolding doc_listing_def by blast
    have "bindG (mdDeleteDocs (db_doc db) (delDocIDs d)) (\<lambda>_. retG (add64 (getSetMinSeq d) 1)) s1 = (r, s')"
      using Suc.prems(4) get(1) e by (simp add: bindG_def attemptG_def Let_def)
    with del get(2) False show ?thesis
      by (cases r2) (auto simp: bindG_def retG_def getSetMinSeq_def last_seq_def)
  qed
qed simp

text \<open>
  C19.  Expiry of a conversation, when the remaining time is not 0 (with 0 the cached messages are
  deleted first, which is not part of this claim), and its documents, fewer than 2 to the 62, hold entries
  and are listed without failing: one step per document and one more are enough, it never panics, and on
  success the conversation's minimum is the number after the last expired message, the last in the
  order of the listing, which sorts the document names as strings.  Deletions of documents and entries
  may fail.  When no message has expired it still writes the minimum: it becomes 1, whatever it
  was before, because the test for \<open>minSeq == 0\<close> follows an addition of 1.
\<close>

theorem DeleteConversationMsgs_min_seq:
  assumes laws: "redis_laws (db_rdb db) view"
    and L: "doc_listing (db_doc db) view c docs I" "docs_ok docs" "int (length docs) < 2 ^ 62" "I 0 s"
    and fuel: "length docs < fuel" and rt: "rt \<noteq> 0"
    and run: "DeleteConversationMsgsAndSetMinSeq db fuel now c rt s = (r, s')"
  shows "(\<forall>p. r \<noteq> Panic p)
    \<and> (r = Ok () \<longrightarrow>
        (let q = add64 (last_seq 0 (concat (map (expired_msgs now rt) docs))) 1 in
         q \<noteq> 0 \<longrightarrow> min_seq (view s') c = q))
    \<and> (r = Ok () \<and> concat (map (expired_msgs now rt) docs) = [] \<longrightarrow> min_seq (view s') c = 1)"
proof -
  let ?q = "add64 (last_seq 0 (concat (map (expired_msgs now rt) docs))) 1"
  obtain r1 s1 where rec: "deleteMsgRecursion db fuel now c 0 \<lparr> delMinSeq = 0, delDocIDs = [] \<rparr> rt s = (r1, s1)"
    by (cases "deleteMsgRecursion db fuel now c 0 \<lparr> delMinSeq = 0, delDocIDs = [] \<rparr> rt s")
  note spec = deleteMsgRecursion_spec [OF L(1-3) _ _ L(4), of fuel now "\<lparr> delMinSeq = 0, delDocIDs = [] \<rparr>" rt r1 s1,
      simplified, OF fuel rec]
  have set: "(\<forall>p. r2 \<noteq> Panic p) \<and> (r2 = Ok () \<longrightarrow> min_seq (view s2) c = ?q)"
    if "SetMinSeq (db_rdb db) c ?q s1 = (r2, s2)" for r2 s2
    using MinSeq.put_Ok [OF laws int64_add64, of c _ _ s1 "()" s2] MinSeq.put_no_Panic [OF laws, of c ?q s1 _ s2] that
    unfolding SetMinSeq_def min_seq_def by (auto simp: seq_base_def fun_eq_iff)
  have one: "?q = 1" if "concat (map (expired_msgs now rt) docs) = []"
    using that by (simp add: last_seq_def add64_exact int64_def)
  show ?thesis
  proof (cases r1)
    case (Ok q)
    with spec have q: "q = ?q" by simp
    have "(if q = 0 then retG () else SetMinSeq (db_rdb db) c q) s1 = (r, s')"
      using run rec Ok rt by (simp add: DeleteConversationMsgsAndSetMinSeq_def bindG_def retG_def split: if_splits)
    then show ?thesis using set one unfolding q Let_def by (auto simp: retG_def split: if_splits)
  next
    case (Err e)
    with run rec show ?thesis by (auto simp: DeleteConversationMsgsAndSetMinSeq_def bindG_def)
  next
    case (Panic p)
    with spec show ?thesis by simp
  qed
qed

text \<open>The minimum goes from 5 to 8 when message 7 expires, and from 500 to 1 when nothing does.\<close>

theorem DeleteConversationMsgs_min_seq_witness:
  "\<exists>s1 s2. DeleteConversationMsgsAndSetMinSeq (demo_db [demo_doc]) 2 100000 ''sg_1'' 60
       (mem_redis_empty\<lparr> strings := Map.empty(getMinSeqKey ''sg_1'' \<mapsto> itoa 5) \<rparr>) = (Ok (), s1)
     \<and> min_seq (strings s1) ''sg_1'' = 8
     \<and> DeleteConversationMsgsAndSetMinSeq (demo_db [demo_doc]) 2 50000 ''sg_1'' 60
       (mem_redis_empty\<lparr> strings := Map.empty(getMinSeqKey ''sg_1'' \<mapsto> itoa 500) \<rparr>) = (Ok (), s2)
     \<and> min_seq (strings s2) ''sg_1'' = 1"
proof -
  let ?db = "demo_db [demo_doc]" and ?s = "\<lambda>n. mem_redis_empty\<lparr> strings := Map.empty(getMinSeqKey ''sg_1'' \<mapsto> itoa n) \<rparr>"
  have arith: "mul64 60 1000 = 60000" "add64 0 60000 = 60000" "add64 0 1 = 1" "add64 7 1 = 8" "add64 1 1 = 2"
    by (simp_all add: mul64_exact add64_exact int64_def)
  note defs = DeleteConversationMsgsAndSetMinSeq_def numeral_2_eq_2 deleteMsgRecursion_doc_def IsFull_def bindG_def attemptG_def liftG_def
    ignoreG_def listing_docs_def retG_def getSetMinSeq_def SetMinSeq_def setSeq_def wrapG_def mem_redis_set demo_doc_def demo_msg_def
    MsgPb2DB_def empty_msg_def arith Let_def
  have "\<exists>s1. DeleteConversationMsgsAndSetMinSeq ?db 2 100000 ''sg_1'' 60 (?s 5) = (Ok (), s1)"
    "\<exists>s2. DeleteConversationMsgsAndSetMinSeq ?db 2 50000 ''sg_1'' 60 (?s 500) = (Ok (), s2)"
    by (simp_all add: defs)
  then obtain s1 s2 where run: "DeleteConversationMsgsAndSetMinSeq ?db 2 100000 ''sg_1'' 60 (?s 5) = (Ok (), s1)"
    "DeleteConversationMsgsAndSetMinSeq ?db 2 50000 ''sg_1'' 60 (?s 500) = (Ok (), s2)" by blast
  have "expired_msgs 100000 60 demo_doc = [demo_msg ''a'' 7]" "expired_msgs 50000 60 demo_doc = []"
    by (simp_all add: expired_msgs_def expired_def demo_doc_def demo_msg_def MsgPb2DB_def empty_msg_def arith List.map_filter_def)
  moreover have "mSeq (demo_msg ''a'' 7) = 7" by (simp add: demo_msg_def MsgPb2DB_def)
  ultimately have "min_seq (strings s1) ''sg_1'' = 8" "min_seq (strings s2) ''sg_1'' = 1"
    using DeleteConversationMsgs_min_seq [OF _ demo_listing demo_docs_ok _ _ _ _ run(1)]
      DeleteConversationMsgs_min_seq [OF _ demo_listing demo_docs_ok _ _ _ _ run(2)]
    by (simp_all add: mem_redis_laws last_seq_def arith)
  with run show ?thesis by blast
qed

end
