(* ===== verification/MsgTransferFacts.thy ===== *)
theory MsgTransferFacts
  imports MsgTransfer MsgDatabaseFacts
begin

text \<open>
  The transfer service as a state machine: the distributor and the hundred workers run
  concurrently, and the messages of a key are still processed in the order of their arrival; how
  a batch is sorted; and what happens to batches that are too large or cannot be stored.
\<close>

section \<open>Distribution\<close>

text \<open>The messages that decode, with their keys, in order of arrival.\<close>

definition decoded :: "pb_codec \<Rightarrow> ConsumerMessage list \<Rightarrow> (string \<times> string \<times> MsgData) list" where
  "decoded P cms = concat (map (\<lambda>cm. case pbUnmarshal P (cmValue cm) of
       Inl _ \<Rightarrow> [] | Inr m \<Rightarrow> [(cmKey cm, cmOperationID cm, m)]) cms)"

definition of_key :: "'k \<Rightarrow> ('k \<times> 'v) list \<Rightarrow> 'v list" where
  "of_key k xs = map snd (filter (\<lambda>x. fst x = k) xs)"

lemma of_key_simps [simp]:
  "of_key k [] = []" "of_key k (xs @ ys) = of_key k xs @ of_key k ys"
  "of_key k ((k', v) # xs) = (if k' = k then v # of_key k xs else of_key k xs)"
  by (simp_all add: of_key_def)

lemma decoded_simps [simp]:
  "decoded P [] = []"
  "decoded P (cm # cms) = (case pbUnmarshal P (cmValue cm) of
     Inl _ \<Rightarrow> [] | Inr m \<Rightarrow> [(cmKey cm, cmOperationID cm, m)]) @ decoded P cms"
  by (simp_all add: decoded_def)

lemma aggregate_spec:
  "aggregate P cms agg k = (let new = of_key k (decoded P cms) in
     if new = [] then agg k else Some ((case agg k of None \<Rightarrow> [] | Some old \<Rightarrow> old) @ new))"
  by (induction cms arbitrary: agg) (auto simp: Let_def split: sum.splits option.splits)

lemma aggregate_dom: "dom (aggregate P cms Map.empty) = fst ` set (decoded P cms)"
proof -
  have "of_key k xs = [] \<longleftrightarrow> k \<notin> fst ` set xs" for k and xs :: "(string \<times> string \<times> MsgData) list"
    by (auto simp: of_key_def filter_empty_conv)
  then show ?thesis by (auto simp: dom_def aggregate_spec Let_def split: if_splits)
qed

lemma channel_of_bound: "channel_of key < 100"
  by (simp add: channel_of_def unat_mod)

definition queued :: "MsgChannelValue list \<Rightarrow> (string \<times> string \<times> MsgData) list" where
  "queued vs = concat (map (\<lambda>v. map (\<lambda>x. (uniqueKey v, x)) (ctxMsgList v)) vs)"

lemma queued_simps [simp]:
  "queued [] = []" "queued (v # vs) = map (\<lambda>x. (uniqueKey v, x)) (ctxMsgList v) @ queued vs"
  "queued (vs @ ws) = queued vs @ queued ws"
  by (simp_all add: queued_def)

lemma of_key_tagged: "of_key k (map (\<lambda>x. (k', x)) xs) = (if k' = k then xs else [])"
  by (induction xs) auto

lemma queued_map: "queued (map (\<lambda>k. \<lparr> uniqueKey = k, opID = g k, ctxMsgList = f k \<rparr>) ks) = concat (map (\<lambda>k. map (Pair k) (f k)) ks)"
  by (induction ks) simp_all

lemma of_key_concat:
  "distinct ks \<Longrightarrow> of_key k (concat (map (\<lambda>k. map (Pair k) (f k)) ks)) = (if k \<in> set ks then f k else [])"
  by (induction ks) (auto simp: of_key_tagged)

lemma distribute_spec:
  assumes "iter_order ord"
  shows "of_key k (queued (MessagesDistributionHandle P ord cms)) = of_key k (decoded P cms)"
proof -
  let ?agg = "aggregate P cms Map.empty"
  have fin: "finite (dom ?agg)" by (simp add: aggregate_dom)
  have ord: "distinct (ord (dom ?agg))" "set (ord (dom ?agg)) = dom ?agg"
    using assms fin unfolding iter_order_def by blast+
  have agg: "?agg k = (if of_key k (decoded P cms) = [] then None else Some (of_key k (decoded P cms)))"
    by (simp add: aggregate_spec Let_def)
  have "of_key k (queued (MessagesDistributionHandle P ord cms)) = (if k \<in> dom ?agg then the (?agg k) else [])"
    unfolding MessagesDistributionHandle_def Let_def queued_map of_key_concat [OF ord(1)] ord(2) ..
  also have "\<dots> = of_key k (decoded P cms)"
    by (cases "of_key k (decoded P cms) = []") (simp_all add: domIff agg)
  finally show ?thesis .
qed

section \<open>The state machine\<close>

text \<open>
  The distributor holds the values of its piece that it has not sent yet (\<open>unsent\<close>); a worker holds the
  value it is working on (\<open>busy\<close>).
\<close>

record transfer_state =
  arrived :: "(string \<times> string \<times> MsgData) list"
  unsent :: "MsgChannelValue list"
  chans :: channels
  busy :: "nat \<Rightarrow> MsgChannelValue option"
  processed :: "(string \<times> string \<times> MsgData) list"

definition transfer_init :: transfer_state where
  "transfer_init = \<lparr> arrived = [], unsent = [], chans = (\<lambda>_. []), busy = (\<lambda>_. None), processed = [] \<rparr>"

definition msgs_of :: "MsgChannelValue \<Rightarrow> (string \<times> string \<times> MsgData) list" where
  "msgs_of v = map (Pair (uniqueKey v)) (ctxMsgList v)"

text \<open>
  The distributor takes a piece when it has sent the one before, and sends one value when its channel has
  room; a worker takes the next value of its channel when it is done with the one before.
\<close>

inductive transfer_step :: "pb_codec \<Rightarrow> transfer_state \<Rightarrow> transfer_state \<Rightarrow> bool" for P where
  piece: "unsent x = [] \<Longrightarrow> iter_order ord \<Longrightarrow> transfer_step P x
     (x\<lparr> arrived := arrived x @ decoded P cms, unsent := MessagesDistributionHandle P ord cms \<rparr>)"
| send: "unsent x = v # rest \<Longrightarrow> send_value v (chans x) = Some ch \<Longrightarrow> transfer_step P x (x\<lparr> unsent := rest, chans := ch \<rparr>)"
| take: "i < ChannelNum \<Longrightarrow> busy x i = None \<Longrightarrow> chans x i = v # rest \<Longrightarrow> transfer_step P x
     (x\<lparr> chans := (chans x)(i := rest), busy := (busy x)(i \<mapsto> v) \<rparr>)"
| finish: "i < ChannelNum \<Longrightarrow> busy x i = Some v \<Longrightarrow> transfer_step P x
     (x\<lparr> busy := (busy x)(i := None), processed := processed x @ msgs_of v \<rparr>)"

text \<open>What waits in one channel and with its worker, the oldest first.\<close>

definition waiting :: "transfer_state \<Rightarrow> nat \<Rightarrow> (string \<times> string \<times> MsgData) list" where
  "waiting x i = (case busy x i of None \<Rightarrow> [] | Some v \<Rightarrow> msgs_of v) @ queued (chans x i)"

definition transfer_inv :: "transfer_state \<Rightarrow> bool" where
  "transfer_inv x \<longleftrightarrow>
     (\<forall>k. of_key k (processed x) @ of_key k (waiting x (channel_of k)) @ of_key k (queued (unsent x)) = of_key k (arrived x))
   \<and> (\<forall>k i. i \<noteq> channel_of k \<longrightarrow> of_key k (waiting x i) = [])
   \<and> (\<forall>i. length (chans x i) \<le> ChannelSize)"

lemma of_key_msgs_of [simp]: "of_key k (msgs_of v) = (if uniqueKey v = k then ctxMsgList v else [])"
  by (simp add: msgs_of_def of_key_tagged)

lemma queued_Cons_msgs: "queued (v # vs) = msgs_of v @ queued vs"
  by (simp add: msgs_of_def)

declare queued_simps(2) [simp del]
declare queued_Cons_msgs [simp]

lemma transfer_inv_step:
  assumes "transfer_step P x y" "transfer_inv x"
  shows "transfer_inv y"
  using assms(1)
proof (cases rule: transfer_step.cases)
  case (piece ord cms)
  with assms(2) show ?thesis
    by (auto simp: transfer_inv_def waiting_def distribute_spec)
next
  case (send v rest ch)
  from send(3) have ch: "ch = (chans x)(channel_of (uniqueKey v) := chans x (channel_of (uniqueKey v)) @ [v])"
    and room: "length (chans x (channel_of (uniqueKey v))) < 50"
    by (auto simp: send_value_def Let_def split: if_splits)
  have w: "of_key k (waiting y i) = of_key k (waiting x i) @ (if i = channel_of (uniqueKey v) \<and> uniqueKey v = k then ctxMsgList v else [])" for k i
    using send(1) ch by (simp add: waiting_def)
  have same: "processed y = processed x" "arrived y = arrived x" "unsent y = rest" "chans y = ch"
    using send(1) by simp_all
  have x: "of_key k (queued (unsent x)) = (if uniqueKey v = k then ctxMsgList v else []) @ of_key k (queued rest)" for k
    by (simp add: send(2))
  show ?thesis
    unfolding transfer_inv_def w same
  proof (intro conjI allI impI)
    fix k
    have "of_key k (processed x) @ of_key k (waiting x (channel_of k)) @ of_key k (queued (unsent x)) = of_key k (arrived x)"
      using assms(2) by (simp add: transfer_inv_def)
    then show "of_key k (processed x) @ (of_key k (waiting x (channel_of k)) @ (if channel_of k = channel_of (uniqueKey v)
        \<and> uniqueKey v = k then ctxMsgList v else [])) @ of_key k (queued rest) = of_key k (arrived x)"
      unfolding x by (cases "uniqueKey v = k") simp_all
  next
    fix k i assume "i \<noteq> channel_of k"
    moreover from this have "of_key k (waiting x i) = []" using assms(2) by (simp add: transfer_inv_def)
    ultimately show "of_key k (waiting x i) @ (if i = channel_of (uniqueKey v) \<and> uniqueKey v = k then ctxMsgList v else []) = []"
      by auto
  next
    fix i
    have "length (chans x i) \<le> 50" using assms(2) by (simp add: transfer_inv_def)
    then show "length (ch i) \<le> 50" using room by (simp add: ch)
  qed
next
  case (take i v rest)
  have w: "waiting y j = waiting x j" for j
    using take by (simp add: waiting_def)
  have "length (v # rest) \<le> 50" using assms(2) unfolding transfer_inv_def take(4) [symmetric] by simp
  then show ?thesis using assms(2) take unfolding transfer_inv_def w by auto
next
  case (finish i v)
  have w: "of_key k (waiting x i) = (if uniqueKey v = k then ctxMsgList v else []) @ of_key k (waiting y i)" for k
    using finish by (simp add: waiting_def)
  have o': "waiting y j = waiting x j" if "j \<noteq> i" for j using that finish by (simp add: waiting_def)
  have key: "ctxMsgList v = [] \<or> channel_of (uniqueKey v) = i"
    using assms(2) w [of "uniqueKey v"] by (auto simp: transfer_inv_def)
  show ?thesis
    unfolding transfer_inv_def
  proof (intro conjI allI impI)
    fix k
    have "of_key k (processed x) @ of_key k (waiting x (channel_of k)) @ of_key k (queued (unsent x)) = of_key k (arrived x)"
      using assms(2) by (simp add: transfer_inv_def)
    then show "of_key k (processed y) @ of_key k (waiting y (channel_of k)) @ of_key k (queued (unsent y)) = of_key k (arrived y)"
      using finish(1) w [of k] o' [of "channel_of k"] key by (cases "channel_of k = i") auto
  next
    fix k j assume "j \<noteq> channel_of k"
    then have "of_key k (waiting x j) = []" using assms(2) by (simp add: transfer_inv_def)
    then show "of_key k (waiting y j) = []" using w [of k] o' [of j] by (cases "j = i") auto
  next
    fix j show "length (chans y j) \<le> 50" using assms(2) finish by (simp add: transfer_inv_def)
  qed
qed

lemma transfer_inv_reachable: "(transfer_step P)\<^sup>*\<^sup>* transfer_init x \<Longrightarrow> transfer_inv x"
proof (induction rule: rtranclp_induct)
  case base
  then show ?case by (simp add: transfer_inv_def transfer_init_def waiting_def)
next
  case (step y z)
  then show ?case by (blast intro: transfer_inv_step)
qed

definition idle :: "transfer_state \<Rightarrow> bool" where
  "idle x \<longleftrightarrow> unsent x = [] \<and> (\<forall>i < ChannelNum. chans x i = [] \<and> busy x i = None)"

text \<open>The distributor and the workers never wait for each other.\<close>

lemma not_idle_moves:
  assumes "\<not> idle x"
  obtains y where "transfer_step P x y" "arrived y = arrived x"
proof -
  consider (b) i v where "i < 100" "busy x i = Some v"
    | (c) i v rest where "i < 100" "busy x i = None" "chans x i = v # rest"
    | (s) v rest where "unsent x = v # rest" "\<forall>i < 100. chans x i = []"
    using assms by (auto simp: idle_def neq_Nil_conv) (metis neq_Nil_conv not_Some_eq)+
  then show thesis
  proof cases
    case b from that [OF transfer_step.finish [OF b]] show thesis by simp
  next
    case c from that [OF transfer_step.take [OF c]] show thesis by simp
  next
    case s
    then have "send_value v (chans x) = Some ((chans x)(channel_of (uniqueKey v) := [v]))"
      using channel_of_bound [of "uniqueKey v"] by (simp add: send_value_def)
    from that [OF transfer_step.send [OF s(1) this]] show thesis by simp
  qed
qed

text \<open>
  C1.  Order is preserved: in every reachable state of the distributor and the hundred workers, where the
  distributor sends the values of a piece one at a time into channels of 50 places and waits for room, and
  these sends and the work on the values are interleaved in any way, the messages of a key that have been
  processed are the first messages of that key to reach the distributor, in order of arrival; behind them
  come those with the worker and in the one channel of the key, then those the distributor has still to
  send, and nothing else.  No channel holds more than 50 values, some goroutine can go on as long as
  anything waits, and when nothing waits every message that decodes has been processed.
\<close>

theorem transfer_order:
  assumes "(transfer_step P)\<^sup>*\<^sup>* transfer_init x"
  shows "of_key k (processed x) @ of_key k (waiting x (channel_of k)) @ of_key k (queued (unsent x)) = of_key k (arrived x)
    \<and> prefix (of_key k (processed x)) (of_key k (arrived x))
    \<and> channel_of k < ChannelNum \<and> (\<forall>i. i \<noteq> channel_of k \<longrightarrow> of_key k (waiting x i) = [])
    \<and> (\<forall>i. length (chans x i) \<le> ChannelSize)
    \<and> (\<not> idle x \<longrightarrow> (\<exists>y. transfer_step P x y \<and> arrived y = arrived x))
    \<and> (idle x \<longrightarrow> of_key k (processed x) = of_key k (arrived x))"
proof -
  note I = transfer_inv_reachable [OF assms]
  then have inv: "of_key k (processed x) @ of_key k (waiting x (channel_of k)) @ of_key k (queued (unsent x)) = of_key k (arrived x)"
    by (simp add: transfer_inv_def)
  then have "prefix (of_key k (processed x)) (of_key k (arrived x))" by (metis prefixI)
  moreover have "of_key k (processed x) = of_key k (arrived x)" if "idle x"
    using inv that channel_of_bound [of k] by (simp add: idle_def waiting_def)
  moreover have "\<exists>y. transfer_step P x y \<and> arrived y = arrived x" if "\<not> idle x" using not_idle_moves [OF that] by blast
  ultimately show ?thesis using I inv channel_of_bound by (auto simp: transfer_inv_def)
qed

text \<open>Two pieces with the same key: the second one is distributed while the first is worked on.\<close>

theorem transfer_order_witness:
  "\<exists>x. (transfer_step demo_pb)\<^sup>*\<^sup>* transfer_init x \<and> of_key ''k'' (arrived x) = [(''op'', empty_msg), (''op2'', empty_msg)]
     \<and> of_key ''k'' (processed x) = [(''op'', empty_msg)] \<and> of_key ''k'' (waiting x (channel_of ''k'')) = [(''op2'', empty_msg)]"
proof -
  let ?step = "transfer_step demo_pb" and ?c = "channel_of ''k''"
  define cms where "cms o' = [\<lparr> cmKey = ''k'', cmValue = ''v'', cmOperationID = o' \<rparr>]" for o'
  define v where "v o' = \<lparr> uniqueKey = ''k'', opID = o', ctxMsgList = [(o', empty_msg)] \<rparr>" for o' :: string
  have d: "decoded demo_pb (cms o') = [(''k'', o', empty_msg)]" for o' by (simp add: cms_def demo_pb_def)
  have M: "MessagesDistributionHandle demo_pb sorted_list_of_set (cms o') = [v o']" if "o' \<noteq> []" for o'
    using that by (simp add: MessagesDistributionHandle_def cms_def v_def demo_pb_def withAggregationCtx_def)
  have room: "send_value (v o') (\<lambda>_. []) = Some ((\<lambda>_. [])(?c := [v o']))" for o' by (simp add: send_value_def v_def)
  define x1 where "x1 = transfer_init\<lparr> arrived := [(''k'', ''op'', empty_msg)], unsent := [v ''op''] \<rparr>"
  define x2 where "x2 = x1\<lparr> unsent := [], chans := (\<lambda>_. [])(?c := [v ''op'']) \<rparr>"
  define x3 where "x3 = x1\<lparr> unsent := [], busy := Map.empty(?c \<mapsto> v ''op'') \<rparr>"
  define x4 where "x4 = x3\<lparr> arrived := [(''k'', ''op'', empty_msg), (''k'', ''op2'', empty_msg)], unsent := [v ''op2''] \<rparr>"
  define x5 where "x5 = x4\<lparr> unsent := [], chans := (\<lambda>_. [])(?c := [v ''op2'']) \<rparr>"
  define x6 where "x6 = x5\<lparr> busy := Map.empty, processed := [(''k'', ''op'', empty_msg)] \<rparr>"
  note defs = x1_def x2_def x3_def x4_def x5_def x6_def transfer_init_def
  have "?step transfer_init x1"
    using transfer_step.piece [OF _ iter_order_sorted, of transfer_init demo_pb "cms ''op''"] by (simp add: defs d M)
  moreover have "?step x1 x2"
    using transfer_step.send [of x1 "v ''op''" "[]"] by (simp add: defs room)
  moreover have "?step x2 x3"
    using transfer_step.take [of ?c x2 "v ''op''" "[]" demo_pb] channel_of_bound [of "''k''"] by (simp add: defs fun_upd_idem)
  moreover have "?step x3 x4"
    using transfer_step.piece [OF _ iter_order_sorted, of x3 demo_pb "cms ''op2''"] by (simp add: defs d M)
  moreover have "?step x4 x5"
    using transfer_step.send [of x4 "v ''op2''" "[]"] by (simp add: defs room)
  moreover have "?step x5 x6"
    using transfer_step.finish [of ?c x5 "v ''op''" demo_pb] channel_of_bound [of "''k''"] by (simp add: defs msgs_of_def v_def fun_upd_idem)
  ultimately have reach: "?step\<^sup>*\<^sup>* transfer_init x6"
    by (iprover intro: rtranclp.rtrancl_into_rtrancl rtranclp.rtrancl_refl)
  have "of_key ''k'' (arrived x6) = [(''op'', empty_msg), (''op2'', empty_msg)]" "of_key ''k'' (processed x6) = [(''op'', empty_msg)]"
    "queued (unsent x6) = []"
    by (simp_all add: defs)
  with transfer_order [OF reach, of "''k''"] have "of_key ''k'' (waiting x6 ?c) = [(''op2'', empty_msg)]" by simp
  with reach show ?thesis by (intro exI [of _ x6]) (simp add: defs)
qed

section \<open>Sorting a batch\<close>

text \<open>
  The message that a notification also is, and the notification with its push and unread
  switches turned off.
\<close>

definition also_message :: "MsgData \<Rightarrow> bool" where
  "also_message m \<longleftrightarrow> IsNotificationByMsg m \<and> Options_IsSendMsg (Options m)"

definition as_message :: "MsgData \<Rightarrow> MsgData" where
  "as_message m = m\<lparr> Options := Some (Map.empty(IsOfflinePush \<mapsto> Options_IsOfflinePush (Options m),
     IsUnreadCount \<mapsto> Options_IsUnreadCount (Options m))) \<rparr>"

definition kept :: "MsgData \<Rightarrow> MsgData" where
  "kept m = (if also_message m
     then m\<lparr> Options := map_option (\<lambda>f. f(IsOfflinePush \<mapsto> False, IsUnreadCount \<mapsto> False)) (Options m) \<rparr> else m)"

definition message_part :: "MsgData \<Rightarrow> MsgData list" where
  "message_part m = (if also_message m then [as_message m]
     else if \<not> IsNotificationByMsg m \<and> Options_IsHistory (Options m) then [m] else [])"

lemma clone_as_msg_spec:
  "IsNotificationByMsg m \<Longrightarrow> Options_IsSendMsg (Options m) \<Longrightarrow> clone_as_msg m = Ok (as_message m, kept m)"
  by (cases "Options m")
     (auto simp: clone_as_msg_def kept_def as_message_def also_message_def WithOptions_def with_opt_defs
       map_put_def NewMsgOptions_def IsNotificationByMsg_def Options_IsNotNotification_def Let_def)

lemma kept_keys:
  "Options_IsHistory (Options (kept m)) = Options_IsHistory (Options m)" "ContentType (kept m) = ContentType m"
  by (cases "Options m"; simp add: kept_def Options_IsHistory_def)+

definition refs_ok :: "ref list \<Rightarrow> ref \<Rightarrow> push_lists \<Rightarrow> bool" where
  "refs_ok vs n l \<longleftrightarrow> distinct vs \<and> (\<forall>v \<in> set vs. v < n) \<and>
     (\<forall>r \<in> set (storageMsgList l) \<union> set (notStorageMsgList l) \<union> set (storageNotificationList l)
         \<union> set (notStorageNotificationList l) \<union> set (modifyMsgList l). r < n \<and> r \<notin> set vs)"

definition is_reaction :: "MsgData \<Rightarrow> bool" where
  "is_reaction m \<longleftrightarrow> ContentType m = ReactionMessageModifier \<or> ContentType m = ReactionMessageDeleter"

definition sorted_into :: "msg_heap \<Rightarrow> push_lists \<Rightarrow> MsgData list \<Rightarrow> msg_heap \<Rightarrow> push_lists \<Rightarrow> bool" where
  "sorted_into h l ms h' l' \<longleftrightarrow>
     map h' (storageMsgList l') = map h (storageMsgList l) @ concat (map message_part ms)
   \<and> map h' (notStorageMsgList l') = map h (notStorageMsgList l)
       @ filter (\<lambda>m. \<not> IsNotificationByMsg m \<and> \<not> Options_IsHistory (Options m)) ms
   \<and> map h' (storageNotificationList l') = map h (storageNotificationList l)
       @ map kept (filter (\<lambda>m. IsNotificationByMsg m \<and> Options_IsHistory (Options m)) ms)
   \<and> map h' (notStorageNotificationList l') = map h (notStorageNotificationList l)
       @ map kept (filter (\<lambda>m. IsNotificationByMsg m \<and> \<not> Options_IsHistory (Options m)) ms)
   \<and> map h' (modifyMsgList l') = map h (modifyMsgList l) @ map kept (filter is_reaction ms)"

lemma sorted_into_trans:
  "sorted_into h l ms h1 l1 \<Longrightarrow> sorted_into h1 l1 ns h2 l2 \<Longrightarrow> sorted_into h l (ms @ ns) h2 l2"
  by (simp add: sorted_into_def)

lemmas place_defs = place_modify_def place_notification_def place_message_def isStorage_def Let_def

lemma sort_one:
  fixes h :: msg_heap and v :: ref
  assumes "refs_ok (v # vs) n l"
  defines "h1 \<equiv> if also_message (h v) then h(v := kept (h v), n := as_message (h v)) else h"
    and "n1 \<equiv> if also_message (h v) then Suc n else n"
    and "l1 \<equiv> place_modify v (kept (h v)) (if IsNotificationByMsg (h v)
            then place_notification v (kept (h v))
                   (if also_message (h v) then l\<lparr> storageMsgList := storageMsgList l @ [n] \<rparr> else l)
            else place_message v (h v) l)"
  shows "getPushStorageMsgList_loop (v # vs) h n l = getPushStorageMsgList_loop vs h1 n1 l1"
    and "refs_ok vs n1 l1" and "sorted_into h l [h v] h1 l1" and "\<forall>w \<in> set vs. h1 w = h w"
proof -
  have keep: "\<And>r. r < n \<Longrightarrow> r \<noteq> v \<Longrightarrow> h1 r = h r" by (simp add: h1_def)
  have r: "r < n \<and> r \<noteq> v" if "r \<in> set (storageMsgList l) \<union> set (notStorageMsgList l) \<union> set (storageNotificationList l)
         \<union> set (notStorageNotificationList l) \<union> set (modifyMsgList l)" for r
    using assms(1) that by (auto simp: refs_ok_def)
  have maps: "map h1 (storageMsgList l) = map h (storageMsgList l)"
    "map h1 (notStorageMsgList l) = map h (notStorageMsgList l)"
    "map h1 (storageNotificationList l) = map h (storageNotificationList l)"
    "map h1 (notStorageNotificationList l) = map h (notStorageNotificationList l)"
    "map h1 (modifyMsgList l) = map h (modifyMsgList l)"
    using r keep by auto
  have vn: "v < n" "v \<notin> set vs" "\<forall>w \<in> set vs. w < n" using assms(1) by (auto simp: refs_ok_def)
  have nk: "\<not> also_message (h v) \<Longrightarrow> kept (h v) = h v" by (simp add: kept_def)
  have h1v: "h1 v = kept (h v)" using vn nk by (auto simp: h1_def)
  show "getPushStorageMsgList_loop (v # vs) h n l = getPushStorageMsgList_loop vs h1 n1 l1"
    using clone_as_msg_spec [of "h v"] nk
    by (auto simp: h1_def n1_def l1_def also_message_def IsNotificationByMsg_def Let_def)
  show "refs_ok vs n1 l1"
    using assms(1) vn
    by (auto simp: refs_ok_def n1_def l1_def place_modify_def place_notification_def place_message_def
        less_Suc_eq split: if_splits)
  show "sorted_into h l [h v] h1 l1"
  proof (cases "also_message (h v)")
    case True
    then have "IsNotificationByMsg (h v)" "h1 n = as_message (h v)" using vn by (auto simp: also_message_def h1_def)
    with True maps h1v show ?thesis
      by (simp add: sorted_into_def l1_def message_part_def kept_keys is_reaction_def place_defs)
  next
    case False
    then have "h1 = h" "h v = kept (h v)" using nk by (simp_all add: h1_def)
    with False show ?thesis
      by (simp add: sorted_into_def l1_def message_part_def is_reaction_def place_defs)
  qed
  show "\<forall>w \<in> set vs. h1 w = h w" using vn keep by auto
qed

lemma getPushStorageMsgList_loop_spec:
  "refs_ok vs n l \<Longrightarrow> \<exists>h' l'. getPushStorageMsgList_loop vs h n l = Ok (h', l') \<and> sorted_into h l (map h vs) h' l'"
proof (induction vs arbitrary: h n l)
  case Nil
  then show ?case by (simp add: sorted_into_def)
next
  case (Cons v vs)
  obtain h1 n1 l1 where step: "getPushStorageMsgList_loop (v # vs) h n l = getPushStorageMsgList_loop vs h1 n1 l1"
    and ok: "refs_ok vs n1 l1" and one: "sorted_into h l [h v] h1 l1" and same: "\<forall>w \<in> set vs. h1 w = h w"
    using sort_one [OF Cons.prems, of h] by blast
  obtain h' l' where run: "getPushStorageMsgList_loop vs h1 n1 l1 = Ok (h', l')"
    and rest: "sorted_into h1 l1 (map h1 vs) h' l'"
    using Cons.IH [OF ok, of h1] by blast
  have "map h1 vs = map h vs" using same by simp
  with sorted_into_trans [OF one rest] run step show ?case by simp
qed

text \<open>
  Which objects the lists hold: \<open>placed\<close> names the references that the messages at \<open>vs\<close> add to each
  list.  References below \<open>N\<close> are the messages of the batch, the others the copies.
\<close>

definition placed :: "ref \<Rightarrow> msg_heap \<Rightarrow> ref list \<Rightarrow> ref \<Rightarrow> push_lists \<Rightarrow> push_lists \<Rightarrow> bool" where
  "placed N h vs n l l' \<longleftrightarrow>
     notStorageMsgList l' = notStorageMsgList l
       @ filter (\<lambda>v. \<not> IsNotificationByMsg (h v) \<and> \<not> Options_IsHistory (Options (h v))) vs
   \<and> storageNotificationList l' = storageNotificationList l
       @ filter (\<lambda>v. IsNotificationByMsg (h v) \<and> Options_IsHistory (Options (h v))) vs
   \<and> notStorageNotificationList l' = notStorageNotificationList l
       @ filter (\<lambda>v. IsNotificationByMsg (h v) \<and> \<not> Options_IsHistory (Options (h v))) vs
   \<and> modifyMsgList l' = modifyMsgList l @ filter (\<lambda>v. is_reaction (h v)) vs
   \<and> filter (\<lambda>r. r < N) (storageMsgList l') = filter (\<lambda>r. r < N) (storageMsgList l)
       @ filter (\<lambda>v. \<not> IsNotificationByMsg (h v) \<and> Options_IsHistory (Options (h v))) vs
   \<and> filter (\<lambda>r. N \<le> r) (storageMsgList l') = filter (\<lambda>r. N \<le> r) (storageMsgList l)
       @ [n..<n + length (filter (\<lambda>v. also_message (h v)) vs)]"

lemma placed_cong: "\<forall>v \<in> set vs. h v = h' v \<Longrightarrow> placed N h vs n l l' = placed N h' vs n l l'"
  unfolding placed_def by (simp cong: filter_cong)

lemma placed_trans:
  assumes "placed N h [v] n l l1" "placed N h vs (if also_message (h v) then Suc n else n) l1 l'"
  shows "placed N h (v # vs) n l l'"
proof -
  have "[n..<Suc n + k] = n # [Suc n..<Suc n + k]" for k by (simp add: upt_conv_Cons)
  with assms show ?thesis unfolding placed_def by auto
qed

lemma getPushStorageMsgList_loop_refs:
  assumes "N \<le> n" "\<forall>v \<in> set vs. v < N" "refs_ok vs n l" "getPushStorageMsgList_loop vs h n l = Ok (h', l')"
  shows "placed N h vs n l l'"
  using assms
proof (induction vs arbitrary: h n l)
  case (Cons v vs)
  let ?h = "if also_message (h v) then h(v := kept (h v), n := as_message (h v)) else h"
  let ?n = "if also_message (h v) then Suc n else n"
  let ?l = "place_modify v (kept (h v)) (if IsNotificationByMsg (h v)
            then place_notification v (kept (h v))
                   (if also_message (h v) then l\<lparr> storageMsgList := storageMsgList l @ [n] \<rparr> else l)
            else place_message v (h v) l)"
  note one = sort_one [OF Cons.prems(3), of h]
  have "getPushStorageMsgList_loop vs ?h ?n ?l = Ok (h', l')" using one(1) Cons.prems(4) by simp
  from Cons.IH [OF _ _ one(2) this] Cons.prems(1,2) have "placed N ?h vs ?n ?l l'" by simp
  then have rest: "placed N h vs ?n ?l l'" using placed_cong [OF one(4)] by simp
  have k: "\<not> also_message (h v) \<Longrightarrow> kept (h v) = h v" by (simp add: kept_def)
  have "also_message (h v) \<Longrightarrow> IsNotificationByMsg (h v)" by (simp add: also_message_def)
  then have "placed N h [v] n l ?l"
    using Cons.prems(1,2) k
    by (cases "also_message (h v)") (auto simp: placed_def place_defs kept_keys is_reaction_def)
  from placed_trans [OF this rest] show ?case .
qed (simp add: placed_def)

text \<open>
  C12.  A batch is sorted without losing, inventing or reordering anything, and without a panic:
  ordinary messages go, in order, to the stored or the unstored list by their history switch;
  notifications likewise, with push and unread turned off where a notification is also a message;
  each such notification adds one stored message, a new object, that carries its push and unread
  switches; and reactions are also listed for modification.  The lists hold the objects of the batch
  themselves, identified by their positions, so a reaction in the last list is the same object as in the list
  of messages or notifications it is in.
\<close>

theorem getPushStorageMsgList_sorts:
  "\<exists>h l. getPushStorageMsgList ms = Ok (h, l) \<and> sorted_into (\<lambda>_. empty_msg) empty_lists ms h l
     \<and> placed (length ms) (\<lambda>r. if r < length ms then ms ! r else empty_msg) [0..<length ms] (length ms) empty_lists l"
proof -
  let ?h = "\<lambda>r. if r < length ms then ms ! r else empty_msg"
  have ok: "refs_ok [0..<length ms] (length ms) empty_lists" by (simp add: refs_ok_def empty_lists_def)
  have "map ?h [0..<length ms] = ms" by (rule nth_equalityI) auto
  with getPushStorageMsgList_loop_spec [OF ok, of ?h] obtain h l where
    run: "getPushStorageMsgList ms = Ok (h, l)" "sorted_into ?h empty_lists ms h l"
    by (auto simp: getPushStorageMsgList_def)
  have "placed (length ms) ?h [0..<length ms] (length ms) empty_lists l"
    by (rule getPushStorageMsgList_loop_refs [OF _ _ ok]) (use run in \<open>auto simp: getPushStorageMsgList_def\<close>)
  with run show ?thesis by (intro exI [of _ h] exI [of _ l]) (simp add: sorted_into_def empty_lists_def)
qed

section \<open>Batches that are too large\<close>

text \<open>
  C23.  The consumer hands on up to 1000 messages at a time, but the cache takes at most 100 of one
  conversation: when a batch holds more stored messages than that, all of them are dropped.  The
  worker pushes the unstored ones, reads the maximal sequence number, and returns: no message gets
  a number, none is cached, sent to the store or pushed, and no error is reported.
\<close>

theorem handleMsg_drops_large_batches:
  assumes "length storageList > 100"
    and "toPushTopic T key conversationID (map h notStorageList) s = (Ok (), s1)"
    and "GetMaxSeq (db_rdb db) conversationID s1 = (r, s2)"
    and "(\<exists>n. r = Ok n) \<or> (\<exists>e. r = Err e \<and> Unwrap e \<noteq> RedisNilV6)"
  shows "handleMsg T db h key conversationID storageList notStorageList s = (Ok h, s2)"
proof -
  have same: "write_back h rs (map h rs) = h" for rs
    by (induction rs) (auto simp: write_back_def)
  have "\<exists>n isNew e. BatchInsertChat2Cache db conversationID (map h storageList) s1
          = (Ok ((n, isNew, Some e), map h storageList), s2) \<and> Unwrap e \<noteq> RedisNilV6"
    using assms(1,3,4) by (auto simp: BatchInsertChat2Cache_def bindG_def attemptG_def retG_def GetSingleGocMsgNum_def)
  then obtain n isNew e where "BatchInsertChat2Cache db conversationID (map h storageList) s1
          = (Ok ((n, isNew, Some e), map h storageList), s2)" "Unwrap e \<noteq> RedisNilV6"
    by blast
  moreover have "length storageList > 0" using assms(1) by linarith
  ultimately show ?thesis
    using assms(2) same [of storageList]
    unfolding handleMsg_def by (simp add: bindG_def retG_def del: length_greater_0_conv)
qed

definition quiet_transfer :: "'s transfer_api" where
  "quiet_transfer = \<lparr> tfToMongo = (\<lambda>_ _ _ _. retG ()), tfToPush = (\<lambda>_ _ _. retG ()), tfToModify = None,
     tfToEs = (\<lambda>_ _. retG ()), tfGetGroupMemberIDs = (\<lambda>_. retG []), tfGroupChatFirstCreate = (\<lambda>_ _. retG ()),
     tfSingleChatFirstCreate = (\<lambda>_ _ _ _. retG ()) \<rparr>"

theorem handleMsg_drops_large_batches_witness:
  "handleMsg quiet_transfer (demo_db []) (\<lambda>_. empty_msg) ''k'' ''sg_1'' [0..<101] [] mem_redis_empty
     = (Ok (\<lambda>_. empty_msg), mem_redis_empty)"
proof -
  have push: "toPushTopic quiet_transfer ''k'' ''sg_1'' (map (\<lambda>_. empty_msg) []) mem_redis_empty
     = (Ok (), mem_redis_empty)" by (simp add: toPushTopic_def retG_def)
  have get: "GetMaxSeq (db_rdb (demo_db [])) ''sg_1'' mem_redis_empty
     = (Err (Wrapped ''==> '' RedisNil), mem_redis_empty)"
    by (simp add: GetMaxSeq_def getSeq_def wrapG_def rdGetInt64_def bindG_def mem_redis_get mem_redis_empty_def)
  show ?thesis by (rule handleMsg_drops_large_batches [OF _ push get]) simp_all
qed

end
