(* ===== verification/Auth.thy ===== *)
theory Auth
  imports RedisCache SliceUtils
begin

text \<open>
  Login tokens and access control: \<open>pkg/tools/tokenverify\<close>, \<open>pkg/authverify/token.go\<close>,
  \<open>pkg/common/db/controller/auth.go\<close> and the authentication service
  \<open>internal/rpc/auth/auth.go\<close>.

  The JSON web token library is an argument (\<open>jwt_api\<close>): it signs claims with a secret and
  parses a token with a secret at a point in time.  Times are in nanoseconds, the dates of a
  claim in seconds.  \<open>auth_env\<close> holds what the services get from their surroundings: Redis,
  the configuration, the user service and the gateways found through the registry.
\<close>

section \<open>Tokens\<close>

record Claims =
  clUserID :: string
  clPlatformID :: int
  ExpiresAt :: int
  IssuedAt :: int
  NotBefore :: int

datatype jwt_error =
    ValidationError (veMalformed: bool) (veExpired: bool) (veNotValidYet: bool)
  | OtherJwtError string

record jwt_api =
  jwtParseWithClaims :: "string \<Rightarrow> int \<Rightarrow> string \<Rightarrow> jwt_error + (Claims \<times> bool)"
  jwtSignedString :: "string \<Rightarrow> Claims \<Rightarrow> go_error + string"

text \<open>\<open>jwt.NewNumericDate\<close> cuts a time to whole seconds.\<close>

definition NewNumericDate :: "int \<Rightarrow> int" where
  "NewNumericDate t = t div 1000000000"

abbreviation (input) Minute :: int where "Minute \<equiv> 60000000000"
abbreviation (input) Hour :: int where "Hour \<equiv> 3600000000000"

definition BuildClaims :: "int \<Rightarrow> string \<Rightarrow> int \<Rightarrow> int \<Rightarrow> Claims" where
  "BuildClaims now uid platformID ttl =
     (let before = now + mul64 (- Minute) 5 in
      \<lparr> clUserID = uid, clPlatformID = platformID,
        ExpiresAt = NewNumericDate (now + mul64 (mul64 ttl 24) Hour),
        IssuedAt = NewNumericDate now,
        NotBefore = NewNumericDate before \<rparr>)"

definition GetClaimFromToken :: "jwt_api \<Rightarrow> string \<Rightarrow> int \<Rightarrow> string \<Rightarrow> go_error + Claims" where
  "GetClaimFromToken J secret now tokensString =
     (case jwtParseWithClaims J secret now tokensString of
        Inl err \<Rightarrow>
          (case err of
             ValidationError malformed expired notValidYet \<Rightarrow>
               if malformed then Inl (Wrapped ''==> '' ErrTokenMalformed)
               else if expired then Inl (Wrapped ''==> '' ErrTokenExpired)
               else if notValidYet then Inl (Wrapped ''==> '' ErrTokenNotValidYet)
               else Inl (Wrapped ''==> '' ErrTokenUnknown)
           | OtherJwtError _ \<Rightarrow> Inl (Wrapped ''==> '' ErrTokenUnknown))
      | Inr (claims, valid) \<Rightarrow> if valid then Inr claims else Inl (Wrapped ''==> '' ErrTokenUnknown))"

section \<open>Access control (authverify)\<close>

record auth_config =
  cfgSecret :: string
  cfgExpire :: int
  cfgManager :: "string list"
  cfgIMAdmin :: "string list"

definition CheckAccessV3 :: "auth_config \<Rightarrow> string \<Rightarrow> string \<Rightarrow> go_error option" where
  "CheckAccessV3 cfg opUserID ownerUserID =
     (if IsContain opUserID (cfgManager cfg) then None
      else if IsContain opUserID (cfgIMAdmin cfg) then None
      else if opUserID = ownerUserID then None
      else Some (Wrap1m ErrNoPermission ''CheckAccessV3''))"

definition IsAppManagerUid :: "auth_config \<Rightarrow> string \<Rightarrow> bool" where
  "IsAppManagerUid cfg opUserID \<longleftrightarrow> IsContain opUserID (cfgManager cfg) \<or> IsContain opUserID (cfgIMAdmin cfg)"

definition CheckAdmin :: "auth_config \<Rightarrow> string \<Rightarrow> go_error option" where
  "CheckAdmin cfg opUserID =
     (if IsContain opUserID (cfgManager cfg) then None
      else if IsContain opUserID (cfgIMAdmin cfg) then None
      else Some (Wrap1m ErrNoPermission (''user '' @ opUserID @ '' is not admin userID'')))"

definition CheckIMAdmin :: "auth_config \<Rightarrow> string \<Rightarrow> go_error option" where
  "CheckIMAdmin cfg opUserID =
     (if IsContain opUserID (cfgIMAdmin cfg) then None
      else if IsContain opUserID (cfgManager cfg) then None
      else Some (Wrap1m ErrNoPermission (''user '' @ opUserID @ '' is not CheckIMAdmin userID'')))"

definition CheckUserIDIsAdmin :: "auth_config \<Rightarrow> string \<Rightarrow> bool" where
  "CheckUserIDIsAdmin cfg userID \<longleftrightarrow> IsContain userID (cfgManager cfg) \<or> IsContain userID (cfgIMAdmin cfg)"

definition IsManagerUserID :: "auth_config \<Rightarrow> string \<Rightarrow> bool" where
  "IsManagerUserID cfg opUserID \<longleftrightarrow> IsContain opUserID (cfgManager cfg) \<or> IsContain opUserID (cfgIMAdmin cfg)"

definition WsVerifyToken :: "jwt_api \<Rightarrow> auth_config \<Rightarrow> int \<Rightarrow> string \<Rightarrow> string \<Rightarrow> int \<Rightarrow> go_error option" where
  "WsVerifyToken J cfg now token userID platformID =
     (case GetClaimFromToken J (cfgSecret cfg) now token of
        Inl err \<Rightarrow> Some err
      | Inr claim \<Rightarrow>
          if clUserID claim \<noteq> userID
          then Some (Wrap1m ErrTokenInvalid (''token uid '' @ clUserID claim @ '' != userID '' @ userID))
          else if clPlatformID claim \<noteq> platformID
          then Some (Wrap1m ErrTokenInvalid
                 (''token platform '' @ itoa (clPlatformID claim) @ '' != '' @ itoa platformID))
          else None)"

section \<open>Creating tokens (controller/auth.go)\<close>

record 's auth_env =
  auRedis :: "'s redis_api"
  auJwt :: jwt_api
  auCfg :: auth_config
  auOrd :: "string set \<Rightarrow> string list"
  auGetUserInfo :: "string \<Rightarrow> ('s, unit) go"
  auGetConns :: "('s, string list) go"
  auKickUserOffline :: "string \<Rightarrow> string list \<Rightarrow> int \<Rightarrow> ('s, unit) go"

definition stale_tokens :: "'s auth_env \<Rightarrow> int \<Rightarrow> (string \<rightharpoonup> int) \<Rightarrow> string list" where
  "stale_tokens A now tokens =
     filter (\<lambda>k. (case GetClaimFromToken (auJwt A) (cfgSecret (auCfg A)) now k of Inl _ \<Rightarrow> True | Inr _ \<Rightarrow> False)
                  \<or> the (tokens k) \<noteq> NormalToken)
       (auOrd A (dom tokens))"

definition CreateToken :: "'s auth_env \<Rightarrow> int \<Rightarrow> string \<Rightarrow> int \<Rightarrow> ('s, string) go" where
  "CreateToken A now userID platformID =
     bindG (GetTokensWithoutError (auRedis A) userID platformID) (\<lambda>tokens.
       let deleteTokenKey = stale_tokens A now tokens in
       bindG (if length deleteTokenKey \<noteq> 0
              then DeleteTokenByUidPid (auRedis A) userID platformID deleteTokenKey else retG ()) (\<lambda>_.
         let claims = BuildClaims now userID platformID (cfgExpire (auCfg A)) in
         (case jwtSignedString (auJwt A) (cfgSecret (auCfg A)) claims of
            Inl err \<Rightarrow> failG (Wrapped ''==> '' err)
          | Inr tokenString \<Rightarrow>
              bindG (AddTokenFlag (auRedis A) userID platformID tokenString NormalToken)
                (\<lambda>_. retG tokenString))))"

section \<open>The authentication service (rpc/auth)\<close>

definition UserToken :: "'s auth_env \<Rightarrow> int \<Rightarrow> string \<Rightarrow> string \<Rightarrow> int \<Rightarrow> ('s, string \<times> int) go" where
  "UserToken A now secret userID platformID =
     (if secret \<noteq> cfgSecret (auCfg A) then failG (Wrap1m ErrNoPermission ''secret invalid'')
      else
        bindG (auGetUserInfo A userID) (\<lambda>_.
        bindG (CreateToken A now userID platformID) (\<lambda>token.
          retG (token, mul64 (mul64 (mul64 (cfgExpire (auCfg A)) 24) 60) 60))))"

definition parseToken :: "'s auth_env \<Rightarrow> int \<Rightarrow> string \<Rightarrow> ('s, Claims) go" where
  "parseToken A now tokensString =
     (case GetClaimFromToken (auJwt A) (cfgSecret (auCfg A)) now tokensString of
        Inl err \<Rightarrow> failG (Wrapped ''==> '' err)
      | Inr claims \<Rightarrow>
          bindG (GetTokensWithoutError (auRedis A) (clUserID claims) (clPlatformID claims)) (\<lambda>m.
            if m = Map.empty then failG (codeError_Wrap ErrTokenNotExist [])
            else case m tokensString of
                Some v \<Rightarrow>
                  if v = NormalToken then retG claims
                  else if v = KickedToken then failG (codeError_Wrap ErrTokenKicked [])
                  else failG (Wrapped ''==> '' ErrTokenUnknown)
              | None \<Rightarrow> failG (codeError_Wrap ErrTokenNotExist [])))"

definition ParseToken :: "'s auth_env \<Rightarrow> int \<Rightarrow> string \<Rightarrow> ('s, string \<times> string \<times> int) go" where
  "ParseToken A now token =
     bindG (parseToken A now token) (\<lambda>claims.
       retG (clUserID claims, PlatformIDToName (clPlatformID claims), ExpiresAt claims))"

definition forceKickOff :: "'s auth_env \<Rightarrow> string \<Rightarrow> int \<Rightarrow> ('s, unit) go" where
  "forceKickOff A userID platformID =
     bindG (auGetConns A) (\<lambda>conns.
       forG conns (\<lambda>v. ignoreG (auKickUserOffline A v [userID] platformID)))"

definition ForceLogout :: "'s auth_env \<Rightarrow> string \<Rightarrow> string \<Rightarrow> int \<Rightarrow> ('s, unit) go" where
  "ForceLogout A opUserID userID platformID =
     (case CheckAdmin (auCfg A) opUserID of
        Some err \<Rightarrow> failG err
      | None \<Rightarrow> forceKickOff A userID platformID)"

end
