(* ===== verification/Gateway.thy ===== *)
theory Gateway
  imports Auth
begin

text \<open>
  The message gateway, \<open>internal/msggateway\<close>: the map of connected users (\<open>user_map.go\<close>), the
  connections (\<open>client.go\<close>, \<open>context.go\<close>), the connection server (\<open>n_ws_server.go\<close>) and the
  RPC service in front of it (\<open>hub_server.go\<close>).

  Clients are shared pointers: they live in a heap (\<open>gwHeap\<close>) and are recycled through
  \<open>clientPool\<close>.  The three channels are queues of capacity 1000; a send on a full channel does
  not return.  The network, the codecs, the user service, the webhooks, Redis and the other
  gateway nodes are arguments (\<open>gw_api\<close>) that work on the rest of the world (\<open>gwWorld\<close>).
\<close>

section \<open>Connections (context.go, client.go)\<close>

type_synonym cref = nat
type_synonym conn = nat

text \<open>
  The part of a connection's HTTP request that the gateway reads: \<open>Query\<close> and \<open>Header\<close> are
  \<open>URL.Query().Get\<close> and \<open>Header.Get\<close>, empty for a missing key.
\<close>

record UserConnContext =
  RemoteAddr :: string
  ConnID :: string
  Query :: "string \<Rightarrow> string"
  Header :: "string \<Rightarrow> string"

abbreviation (input) WsUserID :: string where "WsUserID \<equiv> ''sendID''"
abbreviation (input) WsPlatformID :: string where "WsPlatformID \<equiv> ''platformID''"
abbreviation (input) WsToken :: string where "WsToken \<equiv> ''token''"
abbreviation (input) WsCompression :: string where "WsCompression \<equiv> ''compression''"
abbreviation (input) GzipCompressionProtocol :: string where "GzipCompressionProtocol \<equiv> ''gzip''"
abbreviation (input) BackgroundStatus :: string where "BackgroundStatus \<equiv> ''isBackground''"
abbreviation (input) WsMsgResp :: string where "WsMsgResp \<equiv> ''isMsgResp''"

abbreviation (input) WSGetNewestSeq :: int where "WSGetNewestSeq \<equiv> 1001"
abbreviation (input) WSPullMsgBySeqList :: int where "WSPullMsgBySeqList \<equiv> 1002"
abbreviation (input) WSSendMsg :: int where "WSSendMsg \<equiv> 1003"
abbreviation (input) WSSendSignalMsg :: int where "WSSendSignalMsg \<equiv> 1004"
abbreviation (input) WSPushMsg :: int where "WSPushMsg \<equiv> 2001"
abbreviation (input) WSKickOnlineMsg :: int where "WSKickOnlineMsg \<equiv> 2002"
abbreviation (input) WsLogoutMsg :: int where "WsLogoutMsg \<equiv> 2003"
abbreviation (input) WsSetBackgroundStatus :: int where "WsSetBackgroundStatus \<equiv> 2004"

abbreviation (input) MessageText :: int where "MessageText \<equiv> 1"
abbreviation (input) MessageBinary :: int where "MessageBinary \<equiv> 2"
abbreviation (input) CloseMessage :: int where "CloseMessage \<equiv> 8"
abbreviation (input) PingMessage :: int where "PingMessage \<equiv> 9"
abbreviation (input) PongMessage :: int where "PongMessage \<equiv> 10"

definition GetRemoteAddr :: "UserConnContext \<Rightarrow> string" where
  "GetRemoteAddr c = RemoteAddr c"

definition GetUserID :: "UserConnContext \<Rightarrow> string" where
  "GetUserID c = Query c WsUserID"

definition GetPlatformID :: "UserConnContext \<Rightarrow> string" where
  "GetPlatformID c = Query c WsPlatformID"

definition GetToken :: "UserConnContext \<Rightarrow> string" where
  "GetToken c = Query c WsToken"

text \<open>\<open>strconv.ParseBool\<close>, with the error dropped.\<close>

definition ParseBool :: "string \<Rightarrow> bool" where
  "ParseBool s \<longleftrightarrow> s \<in> {''1'', ''t'', ''T'', ''TRUE'', ''true'', ''True''}"

definition GetBackground :: "UserConnContext \<Rightarrow> bool" where
  "GetBackground c = ParseBool (Query c BackgroundStatus)"

text \<open>
  \<open>SetToken\<close> writes the query string \<open>token=\<close> followed by the token.  Tokens are JSON web
  tokens, which contain no character that has a meaning in a query string.
\<close>

definition newTempContext :: "UserConnContext" where
  "newTempContext = \<lparr> RemoteAddr = [], ConnID = [], Query = (\<lambda>_. []), Header = (\<lambda>_. []) \<rparr>"

definition SetToken :: "string \<Rightarrow> UserConnContext \<Rightarrow> UserConnContext" where
  "SetToken token c = c\<lparr> Query := (\<lambda>k. if k = WsToken then token else []) \<rparr>"

definition SetOperationID :: "string \<Rightarrow> UserConnContext \<Rightarrow> UserConnContext" where
  "SetOperationID operationID c = c\<lparr> Query := (Query c)(''operationID'' := operationID) \<rparr>"

record Client =
  cconn :: conn
  cPlatformID :: int
  cIsCompress :: bool
  cUserID :: string
  cIsBackground :: bool
  cctx :: UserConnContext
  cclosed :: bool
  cclosedErr :: "go_error option"
  ctoken :: string

definition addr :: "Client \<Rightarrow> string" where
  "addr c = GetRemoteAddr (cctx c)"

definition ResetClient :: "UserConnContext \<Rightarrow> conn \<Rightarrow> bool \<Rightarrow> bool \<Rightarrow> string \<Rightarrow> Client" where
  "ResetClient ctx conn isBackground isCompress token =
     \<lparr> cconn = conn, cPlatformID = StringToInt (GetPlatformID ctx), cIsCompress = isCompress,
       cUserID = GetUserID ctx, cIsBackground = False, cctx = ctx, cclosed = False, cclosedErr = None,
       ctoken = token \<rparr>"

definition GetClientIP :: "UserConnContext \<Rightarrow> string" where
  "GetClientIP r =
     (let ip = Header r ''X-Real-Ip'';
          ip' = (if ip = [] then Header r ''X-Forwarded-For'' else ip)
      in if ip' = [] then RemoteAddr r else ip')"

record Req =
  ReqIdentifier :: int
  ReqToken :: string
  ReqSendID :: string
  ReqOperationID :: string
  ReqMsgIncr :: string
  ReqData :: string
  ReqIP :: string

record Resp =
  RespIdentifier :: int
  RespMsgIncr :: string
  RespOperationID :: string
  RespErrCode :: int
  RespErrMsg :: string
  RespData :: string

record 'w message_handler =
  mhGetSeq :: "Req \<Rightarrow> ('w, string) go"
  mhSendMessage :: "Req \<Rightarrow> ('w, string) go"
  mhSendSignalMessage :: "Req \<Rightarrow> ('w, string) go"
  mhPullMessageBySeqList :: "Req \<Rightarrow> ('w, string) go"
  mhUserLogout :: "Req \<Rightarrow> ('w, string) go"
  mhSetUserDeviceBackground :: "Req \<Rightarrow> ('w, string \<times> bool) go"

record PushMessages =
  PushMsgs :: "string \<rightharpoonup> MsgData list"
  PushNotificationMsgs :: "string \<rightharpoonup> MsgData list"

record 'w gw_api =
  gwRedis :: "'w redis_api"
  gwJwt :: jwt_api
  gwEncode :: "Resp \<Rightarrow> go_error + string"
  gwDecode :: "string \<Rightarrow> go_error + Req"
  gwValidate :: "Req \<Rightarrow> go_error option"
  gwCompressWithPool :: "string \<Rightarrow> go_error + string"
  gwDecompressWithPool :: "string \<Rightarrow> go_error + string"
  gwMarshalPush :: "PushMessages \<Rightarrow> go_error + string"
  gwErrorText :: "go_error \<Rightarrow> string"
  gwUpgrade :: "UserConnContext \<Rightarrow> ('w, conn) go"
  gwHttpError :: "UserConnContext \<Rightarrow> go_error \<Rightarrow> ('w, unit) go"
  gwSetWriteDeadline :: "conn \<Rightarrow> ('w, unit) go"
  gwSetReadDeadline :: "conn \<Rightarrow> ('w, unit) go"
  gwWriteMessage :: "conn \<Rightarrow> int \<Rightarrow> string \<Rightarrow> ('w, unit) go"
  gwCloseConn :: "conn \<Rightarrow> ('w, unit) go"
  gwHandler :: "'w message_handler"
  gwSetUserStatus :: "string \<Rightarrow> int \<Rightarrow> int \<Rightarrow> ('w, unit) go"
  gwCallbackUserOnline :: "string \<Rightarrow> int \<Rightarrow> bool \<Rightarrow> string \<Rightarrow> ('w, unit) go"
  gwCallbackUserOffline :: "string \<Rightarrow> int \<Rightarrow> string \<Rightarrow> ('w, unit) go"
  gwGetConns :: "('w, string list) go"
  gwMultiTerminalLoginCheck :: "string \<Rightarrow> string \<Rightarrow> int \<Rightarrow> string \<Rightarrow> ('w, unit) go"

record gw_config =
  MultiLoginPolicy :: int
  wsMaxConnNum :: int
  Zookeeper :: bool
  SelfConnTarget :: string
  gwAuth :: auth_config

section \<open>The map of connected users (user\_map.go)\<close>

type_synonym user_map = "string \<rightharpoonup> cref list"

definition UserMap_GetAll :: "user_map \<Rightarrow> string \<Rightarrow> cref list \<times> bool" where
  "UserMap_GetAll m key = (case m key of Some allClients \<Rightarrow> (allClients, True) | None \<Rightarrow> ([], False))"

definition UserMap_Get :: "(cref \<Rightarrow> Client) \<Rightarrow> user_map \<Rightarrow> string \<Rightarrow> int \<Rightarrow> cref list \<times> bool \<times> bool" where
  "UserMap_Get h m key platformID =
     (case m key of
        Some allClients \<Rightarrow>
          let cs = filter (\<lambda>c. cPlatformID (h c) = platformID) allClients in
          if length cs > 0 then (cs, True, True) else (cs, True, False)
      | None \<Rightarrow> ([], False, False))"

definition UserMap_Set :: "user_map \<Rightarrow> string \<Rightarrow> cref \<Rightarrow> user_map" where
  "UserMap_Set m key v =
     (case m key of Some oldClients \<Rightarrow> m(key \<mapsto> oldClients @ [v]) | None \<Rightarrow> m(key \<mapsto> [v]))"

definition UserMap_delete :: "(cref \<Rightarrow> Client) \<Rightarrow> user_map \<Rightarrow> string \<Rightarrow> string \<Rightarrow> user_map \<times> bool" where
  "UserMap_delete h m key connRemoteAddr =
     (case m key of
        Some oldClients \<Rightarrow>
          let a = filter (\<lambda>c. addr (h c) \<noteq> connRemoteAddr) oldClients in
          if length a = 0 then (m(key := None), True) else (m(key \<mapsto> a), False)
      | None \<Rightarrow> (m, False))"

definition UserMap_deleteClients :: "(cref \<Rightarrow> Client) \<Rightarrow> user_map \<Rightarrow> string \<Rightarrow> cref list \<Rightarrow> user_map \<times> bool" where
  "UserMap_deleteClients h m key cs =
     (let addrs = set (map (\<lambda>c. addr (h c)) cs) in
      case m key of
        Some oldClients \<Rightarrow>
          let a = filter (\<lambda>c. addr (h c) \<notin> addrs) oldClients in
          if length a = 0 then (m(key := None), True) else (m(key \<mapsto> a), False)
      | None \<Rightarrow> (m, False))"

definition UserMap_DeleteAll :: "user_map \<Rightarrow> string \<Rightarrow> user_map" where
  "UserMap_DeleteAll m key = m(key := None)"

section \<open>The connection server\<close>

record kickHandler =
  khClientOK :: bool
  khOldClients :: "cref list"
  khNewClient :: Client

record 'w gateway =
  gwClients :: user_map
  gwHeap :: "cref \<Rightarrow> Client"
  gwNext :: cref
  clientPool :: "cref list"
  registerChan :: "cref list"
  unregisterChan :: "cref list"
  kickHandlerChan :: "kickHandler list"
  onlineUserNum :: int
  onlineUserConnNum :: int
  gwWorld :: 'w

abbreviation (input) chanCap :: nat where "chanCap \<equiv> 1000"

text \<open>A call that works on the rest of the world.\<close>

definition extG :: "('w, 'a) go \<Rightarrow> ('w gateway, 'a) go" where
  "extG m = (\<lambda>s. case m (gwWorld s) of (r, w) \<Rightarrow> (r, s\<lparr> gwWorld := w \<rparr>))"

definition clientG :: "cref \<Rightarrow> ('w gateway, Client) go" where
  "clientG c = getsG (\<lambda>s. gwHeap s c)"

definition setClientG :: "cref \<Rightarrow> (Client \<Rightarrow> Client) \<Rightarrow> ('w gateway, unit) go" where
  "setClientG c f = modG (\<lambda>s. s\<lparr> gwHeap := (gwHeap s)(c := f (gwHeap s c)) \<rparr>)"

text \<open>A send on a full channel waits for its receiver: the call does not return.\<close>

definition UnRegister :: "cref \<Rightarrow> ('w gateway, unit) go" where
  "UnRegister c = (\<lambda>s. if length (unregisterChan s) < chanCap
      then (Ok (), s\<lparr> unregisterChan := unregisterChan s @ [c] \<rparr>)
      else (Panic ''blocked: unregisterChan is full'', s))"

definition SetKickHandlerInfo :: "kickHandler \<Rightarrow> ('w gateway, unit) go" where
  "SetKickHandlerInfo i = (\<lambda>s. if length (kickHandlerChan s) < chanCap
      then (Ok (), s\<lparr> kickHandlerChan := kickHandlerChan s @ [i] \<rparr>)
      else (Panic ''blocked: kickHandlerChan is full'', s))"

text \<open>
  \<open>close\<close> loads the flag before it takes the lock of the client; \<open>close_locked\<close> is the part
  under the lock, which does not look at the flag again.  \<open>close\<close> runs the two without another
  goroutine in between; two goroutines that have both passed the test are two runs of \<open>close_locked\<close>.
\<close>

definition close_locked :: "'w gw_api \<Rightarrow> cref \<Rightarrow> ('w gateway, unit) go" where
  "close_locked A c =
     bindG (setClientG c (\<lambda>x. x\<lparr> cclosed := True \<rparr>)) (\<lambda>_.
     bindG (clientG c) (\<lambda>cl.
     bindG (ignoreG (extG (gwCloseConn A (cconn cl)))) (\<lambda>_.
     UnRegister c)))"

definition close :: "'w gw_api \<Rightarrow> cref \<Rightarrow> ('w gateway, unit) go" where
  "close A c = bindG (clientG c) (\<lambda>cl. if cclosed cl then retG () else close_locked A c)"

definition writeBinaryMsg :: "'w gw_api \<Rightarrow> cref \<Rightarrow> Resp \<Rightarrow> ('w gateway, unit) go" where
  "writeBinaryMsg A c resp =
     bindG (clientG c) (\<lambda>cl.
       if cclosed cl then retG ()
       else case gwEncode A resp of
           Inl err \<Rightarrow> failG (Wrapped ''==> '' err)
         | Inr encodedBuf \<Rightarrow>
             bindG (ignoreG (extG (gwSetWriteDeadline A (cconn cl)))) (\<lambda>_.
               if cIsCompress cl then
                 (case gwCompressWithPool A encodedBuf of
                    Inl compressErr \<Rightarrow> failG (Wrapped ''==> '' compressErr)
                  | Inr resultBuf \<Rightarrow> extG (gwWriteMessage A (cconn cl) MessageBinary resultBuf))
               else extG (gwWriteMessage A (cconn cl) MessageBinary encodedBuf)))"

definition writePongMsg :: "'w gw_api \<Rightarrow> cref \<Rightarrow> ('w gateway, unit) go" where
  "writePongMsg A c =
     bindG (clientG c) (\<lambda>cl.
       if cclosed cl then retG ()
       else
         bindG (wrapG ''==> '' (extG (gwSetWriteDeadline A (cconn cl)))) (\<lambda>_.
         extG (gwWriteMessage A (cconn cl) PongMessage [])))"

definition KickOnlineMessage :: "'w gw_api \<Rightarrow> cref \<Rightarrow> ('w gateway, unit) go" where
  "KickOnlineMessage A c =
     (let resp = \<lparr> RespIdentifier = WSKickOnlineMsg, RespMsgIncr = [], RespOperationID = [],
                    RespErrCode = 0, RespErrMsg = [], RespData = [] \<rparr> in
      bindG (attemptG (writeBinaryMsg A c resp)) (\<lambda>r.
      bindG (close A c) (\<lambda>_.
        case r of Inl err \<Rightarrow> failG err | Inr _ \<Rightarrow> retG ())))"

definition PushMessage :: "'w gw_api \<Rightarrow> string \<Rightarrow> cref \<Rightarrow> MsgData \<Rightarrow> ('w gateway, unit) go" where
  "PushMessage A operationID c msgData =
     (let conversationID = GetConversationIDByMsg msgData;
          m = Map.empty(conversationID \<mapsto> [msgData]);
          msg = (if IsNotification conversationID
                 then \<lparr> PushMsgs = Map.empty, PushNotificationMsgs = m \<rparr>
                 else \<lparr> PushMsgs = m, PushNotificationMsgs = Map.empty \<rparr>)
      in case gwMarshalPush A msg of
           Inl err \<Rightarrow> failG err
         | Inr data \<Rightarrow> writeBinaryMsg A c \<lparr> RespIdentifier = WSPushMsg, RespMsgIncr = [],
             RespOperationID = operationID, RespErrCode = 0, RespErrMsg = [], RespData = data \<rparr>)"

section \<open>Requests of a client\<close>

text \<open>\<open>apiresp.ParseError\<close>: the code and the message of a response.\<close>

definition ParseError :: "(go_error \<Rightarrow> string) \<Rightarrow> go_error option \<Rightarrow> int \<times> string" where
  "ParseError text err =
     (case err of
        None \<Rightarrow> (0, [])
      | Some e \<Rightarrow> (case code_error_of (Unwrap e) of
            Some c \<Rightarrow> (ce_code c, ce_msg c)
          | None \<Rightarrow> (500, text e)))"

definition replyMessage ::
  "'w gw_api \<Rightarrow> cref \<Rightarrow> Req \<Rightarrow> go_error option \<Rightarrow> string \<Rightarrow> ('w gateway, unit) go" where
  "replyMessage A c binaryReq err resp =
     (let (code, msg) = ParseError (gwErrorText A) err;
          mReply = \<lparr> RespIdentifier = ReqIdentifier binaryReq, RespMsgIncr = ReqMsgIncr binaryReq,
                     RespOperationID = ReqOperationID binaryReq, RespErrCode = code, RespErrMsg = msg,
                     RespData = resp \<rparr>
      in bindG (ignoreG (writeBinaryMsg A c mReply)) (\<lambda>_.
           if ReqIdentifier binaryReq = WsLogoutMsg then failG (Plain ''user logout'') else retG ()))"

definition setAppBackgroundStatus :: "'w gw_api \<Rightarrow> cref \<Rightarrow> Req \<Rightarrow> ('w gateway, string) go" where
  "setAppBackgroundStatus A c req =
     bindG (extG (mhSetUserDeviceBackground (gwHandler A) req)) (\<lambda>(resp, isBackground).
     bindG (setClientG c (\<lambda>x. x\<lparr> cIsBackground := isBackground \<rparr>)) (\<lambda>_. retG resp))"

text \<open>The handler of a request kind; \<open>None\<close> is the default branch of the switch.\<close>

definition dispatch :: "'w gw_api \<Rightarrow> cref \<Rightarrow> Req \<Rightarrow> ('w gateway, string) go option" where
  "dispatch A c req =
     (let k = ReqIdentifier req; H = gwHandler A in
      if k = WSGetNewestSeq then Some (extG (mhGetSeq H req))
      else if k = WSSendMsg then Some (extG (mhSendMessage H req))
      else if k = WSSendSignalMsg then Some (extG (mhSendSignalMessage H req))
      else if k = WSPullMsgBySeqList then Some (extG (mhPullMessageBySeqList H req))
      else if k = WsLogoutMsg then Some (extG (mhUserLogout H req))
      else if k = WsSetBackgroundStatus then Some (setAppBackgroundStatus A c req)
      else None)"

definition handleMessage :: "'w gw_api \<Rightarrow> cref \<Rightarrow> string \<Rightarrow> ('w gateway, unit) go" where
  "handleMessage A c message =
     bindG (clientG c) (\<lambda>cl.
     bindG (if cIsCompress cl then
              (case gwDecompressWithPool A message of Inl err \<Rightarrow> failG (Wrapped ''==> '' err) | Inr m \<Rightarrow> retG m)
            else retG message) (\<lambda>message'.
       case gwDecode A message' of
         Inl err \<Rightarrow> failG (Wrapped ''==> '' err)
       | Inr binaryReq \<Rightarrow>
           if gwValidate A binaryReq \<noteq> None then failG (Wrapped ''==> '' (the (gwValidate A binaryReq)))
           else if ReqSendID binaryReq \<noteq> cUserID cl
           then failG (Wrapped ''==> '' (Plain ''exception conn userID not same to req userID''))
           else
             let req = binaryReq\<lparr> ReqIP := GetClientIP (cctx cl) \<rparr> in
             (case dispatch A c req of
                None \<Rightarrow> failG (Plain ''ReqIdentifier failed'')
              | Some handler \<Rightarrow>
                  bindG (attemptG handler) (\<lambda>r. case r of
                      Inl messageErr \<Rightarrow> replyMessage A c req (Some messageErr) []
                    | Inr resp \<Rightarrow> replyMessage A c req None resp))))"

text \<open>
  One turn of the loop of \<open>readMessage\<close> on what the connection delivers: an error or a message
  with its type.  The result is the reason to leave the loop, if any.
\<close>

definition readMessage_turn ::
  "'w gw_api \<Rightarrow> cref \<Rightarrow> (go_error + int \<times> string) \<Rightarrow> ('w gateway, go_error option) go" where
  "readMessage_turn A c delivered =
     (case delivered of
        Inl returnErr \<Rightarrow> retG (Some returnErr)
      | Inr (messageType, message) \<Rightarrow>
          bindG (clientG c) (\<lambda>cl.
            if cclosed cl then retG (Some (Plain ''conn has closed''))
            else if messageType = MessageBinary then
              bindG (ignoreG (extG (gwSetReadDeadline A (cconn cl)))) (\<lambda>_.
              bindG (attemptG (handleMessage A c message)) (\<lambda>r.
                retG (case r of Inl parseDataErr \<Rightarrow> Some parseDataErr | Inr _ \<Rightarrow> None)))
            else if messageType = MessageText then retG (Some (Plain ''not support message protocol''))
            else if messageType = PingMessage then bindG (ignoreG (writePongMsg A c)) (\<lambda>_. retG None)
            else if messageType = CloseMessage then retG (Some (Plain ''client actively close the connection''))
            else retG None))"

text \<open>
  The whole loop on a finite sequence of deliveries: the deferred function records a panic, and
  closes the connection.  When the sequence ends the goroutine waits for the next delivery.
\<close>

fun readMessage :: "'w gw_api \<Rightarrow> cref \<Rightarrow> (go_error + int \<times> string) list \<Rightarrow> ('w gateway, unit) go" where
  "readMessage A c [] = retG ()"
| "readMessage A c (d # ds) = (\<lambda>s. case readMessage_turn A c d s of
       (Ok None, s') \<Rightarrow> readMessage A c ds s'
     | (Ok (Some err), s') \<Rightarrow>
         bindG (setClientG c (\<lambda>x. x\<lparr> cclosedErr := Some err \<rparr>)) (\<lambda>_. close A c) s'
     | (Err err, s') \<Rightarrow>
         bindG (setClientG c (\<lambda>x. x\<lparr> cclosedErr := Some err \<rparr>)) (\<lambda>_. close A c) s'
     | (Panic p, s') \<Rightarrow>
         bindG (setClientG c (\<lambda>x. x\<lparr> cclosedErr := Some (Plain ''panic error'') \<rparr>)) (\<lambda>_. close A c) s')"

section \<open>Registration (n\_ws\_server.go)\<close>

definition SetUserOnlineStatus :: "'w gw_api \<Rightarrow> Client \<Rightarrow> int \<Rightarrow> ('w gateway, unit) go" where
  "SetUserOnlineStatus A client status =
     bindG (ignoreG (extG (gwSetUserStatus A (cUserID client) status (cPlatformID client)))) (\<lambda>_.
       if status = Online then
         ignoreG (extG (gwCallbackUserOnline A (cUserID client) (cPlatformID client) (cIsBackground client)
                          (ConnID (cctx client))))
       else if status = Offline then
         ignoreG (extG (gwCallbackUserOffline A (cUserID client) (cPlatformID client) (ConnID (cctx client))))
       else retG ())"

definition sendUserOnlineInfoToOtherNode ::
  "'w gw_api \<Rightarrow> gw_config \<Rightarrow> Client \<Rightarrow> ('w gateway, unit) go" where
  "sendUserOnlineInfoToOtherNode A cfg client =
     bindG (extG (gwGetConns A)) (\<lambda>conns.
       forG conns (\<lambda>v.
         if v = SelfConnTarget cfg then retG ()
         else ignoreG (extG (gwMultiTerminalLoginCheck A v (cUserID client) (cPlatformID client) (ctoken client)))))"

text \<open>The token map with every token but the new client's own marked as kicked.\<close>

definition kick_tokens :: "string \<Rightarrow> (string \<rightharpoonup> int) \<Rightarrow> (string \<rightharpoonup> int)" where
  "kick_tokens token m = (\<lambda>k. if k \<noteq> token then map_option (\<lambda>_. KickedToken) (m k) else m k)"

definition kick_same_terminal ::
  "'w gw_api \<Rightarrow> bool \<Rightarrow> cref list \<Rightarrow> Client \<Rightarrow> ('w gateway, unit) go" where
  "kick_same_terminal A clientOK oldClients newClient =
     (if \<not> clientOK then retG ()
      else
        bindG (modG (\<lambda>s. s\<lparr> gwClients := fst (UserMap_deleteClients (gwHeap s) (gwClients s) (cUserID newClient) oldClients) \<rparr>)) (\<lambda>_.
        bindG (forG oldClients (\<lambda>c. ignoreG (KickOnlineMessage A c))) (\<lambda>_.
        bindG (attemptG (extG (GetTokensWithoutError (gwRedis A) (cUserID newClient) (cPlatformID newClient)))) (\<lambda>r.
          case r of
            Inl err \<Rightarrow> retG ()
          | Inr m \<Rightarrow>
              ignoreG (extG (SetTokenMapByUidPid (gwRedis A) (cUserID newClient) (cPlatformID newClient)
                               (kick_tokens (GetToken (cctx newClient)) m)))))))"

definition multiTerminalLoginChecker ::
  "'w gw_api \<Rightarrow> gw_config \<Rightarrow> bool \<Rightarrow> cref list \<Rightarrow> Client \<Rightarrow> ('w gateway, unit) go" where
  "multiTerminalLoginChecker A cfg clientOK oldClients newClient =
     (let policy = MultiLoginPolicy cfg in
      if policy = DefalutNotKick then retG ()
      else if policy = PCAndOther then
        (if PlatformIDToClass (cPlatformID newClient) = TerminalPC then retG ()
         else kick_same_terminal A clientOK oldClients newClient)
      else if policy = AllLoginButSameTermKick then kick_same_terminal A clientOK oldClients newClient
      else retG ())"

definition registerClient :: "'w gw_api \<Rightarrow> gw_config \<Rightarrow> cref \<Rightarrow> ('w gateway, unit) go" where
  "registerClient A cfg c =
     bindG (clientG c) (\<lambda>client.
     bindG (getsG (\<lambda>s. UserMap_Get (gwHeap s) (gwClients s) (cUserID client) (cPlatformID client)))
       (\<lambda>(oldClients, userOK, clientOK).
     bindG (if \<not> userOK then
              modG (\<lambda>s. s\<lparr> gwClients := UserMap_Set (gwClients s) (cUserID client) c,
                             onlineUserNum := add64 (onlineUserNum s) 1,
                             onlineUserConnNum := add64 (onlineUserConnNum s) 1 \<rparr>)
            else
              bindG (multiTerminalLoginChecker A cfg clientOK oldClients client) (\<lambda>_.
              modG (\<lambda>s. s\<lparr> gwClients := UserMap_Set (gwClients s) (cUserID client) c,
                             onlineUserConnNum := add64 (onlineUserConnNum s) 1 \<rparr>))) (\<lambda>_.
     bindG (if Zookeeper cfg then ignoreG (sendUserOnlineInfoToOtherNode A cfg client) else retG ()) (\<lambda>_.
     SetUserOnlineStatus A client Online))))"

definition unregisterClient :: "'w gw_api \<Rightarrow> cref \<Rightarrow> ('w gateway, unit) go" where
  "unregisterClient A c =
     bindG (clientG c) (\<lambda>client.
     bindG (modG (\<lambda>s.
        let (m, isDeleteUser) = UserMap_delete (gwHeap s) (gwClients s) (cUserID client) (addr client) in
        s\<lparr> gwClients := m,
           onlineUserNum := (if isDeleteUser then add64 (onlineUserNum s) (-1) else onlineUserNum s),
           onlineUserConnNum := add64 (onlineUserConnNum s) (-1) \<rparr>)) (\<lambda>_.
     bindG (SetUserOnlineStatus A client Offline) (\<lambda>_.
       modG (\<lambda>s. s\<lparr> clientPool := clientPool s @ [c] \<rparr>))))"

definition KickUserConn :: "'w gw_api \<Rightarrow> cref \<Rightarrow> ('w gateway, unit) go" where
  "KickUserConn A c =
     bindG (clientG c) (\<lambda>client.
     bindG (modG (\<lambda>s. s\<lparr> gwClients := fst (UserMap_deleteClients (gwHeap s) (gwClients s) (cUserID client) [c]) \<rparr>)) (\<lambda>_.
       KickOnlineMessage A c))"

text \<open>One turn of the loop of \<open>Run\<close>: the channel to serve is chosen by the scheduler.\<close>

datatype channel = Register | Unregister | Kick

definition Run_turn :: "'w gw_api \<Rightarrow> gw_config \<Rightarrow> channel \<Rightarrow> ('w gateway, unit) go" where
  "Run_turn A cfg ch = (\<lambda>s.
     case ch of
       Register \<Rightarrow> (case registerChan s of
           [] \<Rightarrow> (Ok (), s)
         | c # cs \<Rightarrow> registerClient A cfg c (s\<lparr> registerChan := cs \<rparr>))
     | Unregister \<Rightarrow> (case unregisterChan s of
           [] \<Rightarrow> (Ok (), s)
         | c # cs \<Rightarrow> unregisterClient A c (s\<lparr> unregisterChan := cs \<rparr>))
     | Kick \<Rightarrow> (case kickHandlerChan s of
           [] \<Rightarrow> (Ok (), s)
         | k # ks \<Rightarrow> multiTerminalLoginChecker A cfg (khClientOK k) (khOldClients k) (khNewClient k)
                        (s\<lparr> kickHandlerChan := ks \<rparr>)))"

section \<open>New connections\<close>

record WSArgs =
  waToken :: string
  waUserID :: string
  waPlatformID :: int
  waCompression :: bool
  waMsgResp :: bool

definition empty_args :: WSArgs where
  "empty_args = \<lparr> waToken = [], waUserID = [], waPlatformID = 0, waCompression = False, waMsgResp = False \<rparr>"

text \<open>\<open>strconv.Atoi\<close>.\<close>

definition Atoi :: "string \<Rightarrow> int option" where
  "Atoi s = (case ParseInt s of Parsed i \<Rightarrow> Some i | _ \<Rightarrow> None)"

text \<open>The deferred function returns the arguments read so far next to the error.\<close>

definition ParseWSArgs ::
  "'w gw_api \<Rightarrow> gw_config \<Rightarrow> int \<Rightarrow> UserConnContext \<Rightarrow> ('w gateway, WSArgs \<times> go_error option) go" where
  "ParseWSArgs A cfg now r =
     bindG (getsG onlineUserConnNum) (\<lambda>n.
       let v0 = empty_args\<lparr> waMsgResp := ParseBool (Query r WsMsgResp) \<rparr> in
       if n \<ge> wsMaxConnNum cfg then retG (v0, Some (Wrap1m ErrConnOverMaxNumLimit ''over max conn num limit''))
       else let v1 = v0\<lparr> waToken := Query r WsToken \<rparr> in
       if waToken v1 = [] then retG (v1, Some (Wrap1m ErrConnArgsErr ''token is empty''))
       else let v2 = v1\<lparr> waUserID := Query r WsUserID \<rparr> in
       if waUserID v2 = [] then retG (v2, Some (Wrap1m ErrConnArgsErr ''sendID is empty''))
       else let platformIDStr = Query r WsPlatformID in
       if platformIDStr = [] then retG (v2, Some (Wrap1m ErrConnArgsErr ''platformID is empty''))
       else case Atoi platformIDStr of
         None \<Rightarrow> retG (v2, Some (Wrap1m ErrConnArgsErr ''platformID is not int''))
       | Some platformID \<Rightarrow>
           let v3 = v2\<lparr> waPlatformID := platformID \<rparr> in
           (case WsVerifyToken (gwJwt A) (gwAuth cfg) now (waToken v3) (waUserID v3) platformID of
              Some err \<Rightarrow> retG (v3, Some err)
            | None \<Rightarrow>
                let v4 = v3\<lparr> waCompression := (Query r WsCompression = GzipCompressionProtocol
                               \<or> Header r WsCompression = GzipCompressionProtocol) \<rparr> in
                bindG (attemptG (extG (GetTokensWithoutError (gwRedis A) (waUserID v4) platformID))) (\<lambda>res.
                  case res of
                    Inl err \<Rightarrow> retG (v4, Some err)
                  | Inr m \<Rightarrow>
                      (case m (waToken v4) of
                         Some v \<Rightarrow>
                           if v = NormalToken then retG (v4, None)
                           else if v = KickedToken then retG (v4, Some (codeError_Wrap ErrTokenKicked []))
                           else retG (v4, Some (Wrap1m ErrTokenUnknown (''token status is '' @ itoa v)))
                       | None \<Rightarrow> retG (v4, Some (codeError_Wrap ErrTokenNotExist []))))))"

text \<open>
  \<open>clientPool.Get\<close> returns a pooled client or a new one (\<open>pooled\<close>).  \<open>respData\<close> is the
  encoding of the response that \<open>isMsgResp\<close> asks for, or the encoder's error.
\<close>

definition admit ::
  "UserConnContext \<Rightarrow> conn \<Rightarrow> WSArgs \<Rightarrow> cref option \<Rightarrow> ('w gateway, cref) go" where
  "admit ctx conn args pooled = (\<lambda>s.
     let c = (case pooled of Some c \<Rightarrow> c | None \<Rightarrow> gwNext s);
         client = ResetClient ctx conn (GetBackground ctx) (waCompression args) (waToken args);
         s' = s\<lparr> gwHeap := (gwHeap s)(c := client),
                 gwNext := (case pooled of Some _ \<Rightarrow> gwNext s | None \<Rightarrow> Suc (gwNext s)),
                 clientPool := (case pooled of Some c \<Rightarrow> remove1 c (clientPool s) | None \<Rightarrow> clientPool s) \<rparr>
     in if length (registerChan s') < chanCap
        then (Ok c, s'\<lparr> registerChan := registerChan s' @ [c] \<rparr>)
        else (Panic ''blocked: registerChan is full'', s'))"

definition wsHandler ::
  "'w gw_api \<Rightarrow> gw_config \<Rightarrow> int \<Rightarrow> UserConnContext \<Rightarrow> (go_error option \<Rightarrow> go_error + string) \<Rightarrow> cref option
   \<Rightarrow> ('w gateway, cref option) go" where
  "wsHandler A cfg now ctx respData pooled =
     bindG (ParseWSArgs A cfg now ctx) (\<lambda>(args, pErr).
       if waMsgResp args then
         bindG (attemptG (extG (gwUpgrade A ctx))) (\<lambda>r. case r of
             Inl err \<Rightarrow> bindG (extG (gwHttpError A ctx err)) (\<lambda>_. retG None)
           | Inr conn \<Rightarrow>
               (case respData pErr of
                  Inl err \<Rightarrow> bindG (ignoreG (extG (gwCloseConn A conn))) (\<lambda>_. retG None)
                | Inr data \<Rightarrow>
                    bindG (attemptG (extG (gwWriteMessage A conn MessageText data))) (\<lambda>r2.
                      if r2 \<noteq> Inr () \<or> pErr \<noteq> None
                      then bindG (ignoreG (extG (gwCloseConn A conn))) (\<lambda>_. retG None)
                      else bindG (admit ctx conn args pooled) (\<lambda>c. retG (Some c)))))
       else case pErr of
           Some err \<Rightarrow> bindG (extG (gwHttpError A ctx err)) (\<lambda>_. retG None)
         | None \<Rightarrow>
             bindG (attemptG (extG (gwUpgrade A ctx))) (\<lambda>r. case r of
                 Inl err \<Rightarrow> bindG (extG (gwHttpError A ctx err)) (\<lambda>_. retG None)
               | Inr conn \<Rightarrow> bindG (admit ctx conn args pooled) (\<lambda>c. retG (Some c))))"

section \<open>The RPC service (hub\_server.go)\<close>

record SuccessDetail =
  sdPlatform :: string
  sdStatus :: string
  sdConnID :: string
  sdToken :: string
  sdIsBackground :: bool

definition detail_of :: "Client \<Rightarrow> SuccessDetail" where
  "detail_of client = \<lparr> sdPlatform = PlatformIDToName (cPlatformID client), sdStatus = OnlineStatus,
     sdConnID = ConnID (cctx client), sdToken = ctoken client, sdIsBackground = cIsBackground client \<rparr>"

definition GetUsersOnlineStatus ::
  "gw_config \<Rightarrow> string \<Rightarrow> string list \<Rightarrow> ('w gateway, (string \<times> SuccessDetail list) list) go" where
  "GetUsersOnlineStatus cfg opUserID userIDs =
     (if \<not> IsAppManagerUid (gwAuth cfg) opUserID then failG (Wrap1m ErrNoPermission ''only app manager'')
      else getsG (\<lambda>s. concat (map (\<lambda>userID.
        let (cs, ok) = UserMap_GetAll (gwClients s) userID in
        if \<not> ok then []
        else let ds = map (\<lambda>c. detail_of (gwHeap s c)) cs in
             if ds \<noteq> [] then [(userID, ds)] else []) userIDs)))"

record SingleMsgToUserPlatform =
  spResultCode :: int
  spRecvID :: string
  spRecvPlatFormID :: int

record SingleMsgToUserResults =
  srUserID :: string
  srResp :: "SingleMsgToUserPlatform list"
  srOnlinePush :: bool

abbreviation (input) pushTerminal :: "int list" where
  "pushTerminal \<equiv> [IOSPlatformID, AndroidPlatformID]"

definition push_client ::
  "'w gw_api \<Rightarrow> string \<Rightarrow> MsgData \<Rightarrow> string \<Rightarrow> cref \<Rightarrow> SingleMsgToUserResults
   \<Rightarrow> ('w gateway, SingleMsgToUserResults) go" where
  "push_client A operationID msg v c results =
     bindG (clientG c) (\<lambda>client.
       let userPlatform = \<lparr> spResultCode = 0, spRecvID = v, spRecvPlatFormID = wrap32 (cPlatformID client) \<rparr> in
       if \<not> cIsBackground client \<or> (cIsBackground client \<and> cPlatformID client \<noteq> IOSPlatformID) then
         bindG (attemptG (PushMessage A operationID c msg)) (\<lambda>r. case r of
             Inl err \<Rightarrow> retG (results\<lparr> srResp := srResp results @ [userPlatform\<lparr> spResultCode := -2 \<rparr>] \<rparr>)
           | Inr _ \<Rightarrow>
               if IsContainInt (cPlatformID client) pushTerminal
               then retG (results\<lparr> srOnlinePush := True, srResp := srResp results @ [userPlatform] \<rparr>)
               else retG results)
       else retG (results\<lparr> srResp := srResp results @ [userPlatform\<lparr> spResultCode := -3 \<rparr>] \<rparr>))"

definition SuperGroupOnlineBatchPushOneMsg ::
  "'w gw_api \<Rightarrow> string \<Rightarrow> MsgData \<Rightarrow> string list \<Rightarrow> ('w gateway, SingleMsgToUserResults list) go" where
  "SuperGroupOnlineBatchPushOneMsg A operationID msg PushToUserIDs =
     mapG (\<lambda>v.
       let results = \<lparr> srUserID = v, srResp = [], srOnlinePush = False \<rparr> in
       bindG (getsG (\<lambda>s. UserMap_GetAll (gwClients s) v)) (\<lambda>(cs, ok).
         if \<not> ok then retG results
         else foldG (push_client A operationID msg v) cs results)) PushToUserIDs"

definition KickUserOffline :: "'w gw_api \<Rightarrow> string list \<Rightarrow> int \<Rightarrow> ('w gateway, unit) go" where
  "KickUserOffline A KickUserIDList PlatformID =
     forG KickUserIDList (\<lambda>v.
       bindG (getsG (\<lambda>s. UserMap_Get (gwHeap s) (gwClients s) v PlatformID)) (\<lambda>(cs, _, ok).
         if \<not> ok then retG () else forG cs (\<lambda>c. ignoreG (KickUserConn A c))))"

definition MultiTerminalLoginCheck :: "string \<Rightarrow> string \<Rightarrow> int \<Rightarrow> string \<Rightarrow> ('w gateway, unit) go" where
  "MultiTerminalLoginCheck operationID UserID PlatformID token =
     bindG (getsG (\<lambda>s. UserMap_Get (gwHeap s) (gwClients s) UserID PlatformID)) (\<lambda>(oldClients, userOK, clientOK).
       if userOK then
         let ctx = SetOperationID operationID (SetToken token newTempContext);
             client = \<lparr> cconn = 0, cPlatformID = PlatformID, cIsCompress = False, cUserID = UserID,
               cIsBackground = False, cctx = ctx, cclosed = False, cclosedErr = None, ctoken = [] \<rparr>
         in SetKickHandlerInfo \<lparr> khClientOK = clientOK, khOldClients = oldClients, khNewClient = client \<rparr>
       else retG ())"

end
