(* ===== verification/AuthFacts.thy ===== *)
theory AuthFacts
  imports Auth RedisFacts
begin

text \<open>
  Tokens in the cache: the contract of the token store (\<open>token_store\<close>), its interpretation on
  the Redis operations, and the life of a token from its creation to its expiry.
\<close>

section \<open>Documented behaviour of Redis hashes and of the token library\<close>

definition redis_hash_laws :: "'s redis_api \<Rightarrow> ('s \<Rightarrow> string \<Rightarrow> string \<rightharpoonup> string) \<Rightarrow> bool" where
  "redis_hash_laws R hv \<longleftrightarrow>
     (\<forall>k s r s'. rdHGetAll R k s = (r, s') \<longrightarrow> hv s' = hv s \<and>
        (case r of Ok m \<Rightarrow> m = hv s k | Err _ \<Rightarrow> True | Panic _ \<Rightarrow> False))
   \<and> (\<forall>k m s r s'. rdHSet R k m s = (r, s') \<longrightarrow>
        (case r of
           Ok _ \<Rightarrow> hv s' = (hv s)(k := hv s k ++ m)
         | Err _ \<Rightarrow> hv s' = hv s \<or> hv s' = (hv s)(k := hv s k ++ m)
         | Panic _ \<Rightarrow> False))
   \<and> (\<forall>k fs s r s'. rdHDel R k fs s = (r, s') \<longrightarrow>
        (case r of
           Ok _ \<Rightarrow> hv s' = (hv s)(k := hv s k |` (- set fs))
         | Err _ \<Rightarrow> hv s' = hv s \<or> hv s' = (hv s)(k := hv s k |` (- set fs))
         | Panic _ \<Rightarrow> False))"

definition hash_reads_answer :: "'s redis_api \<Rightarrow> bool" where
  "hash_reads_answer R \<longleftrightarrow> (\<forall>k s e s'. rdHGetAll R k s \<noteq> (Err e, s'))"

definition claims_valid_at :: "Claims \<Rightarrow> int \<Rightarrow> bool" where
  "claims_valid_at c now \<longleftrightarrow> now < ExpiresAt c * 1000000000 \<and> IssuedAt c * 1000000000 \<le> now
     \<and> NotBefore c * 1000000000 \<le> now"

definition jwt_laws :: "jwt_api \<Rightarrow> bool" where
  "jwt_laws J \<longleftrightarrow> (\<forall>secret c t now. jwtSignedString J secret c = Inr t \<and> claims_valid_at c now
     \<longrightarrow> jwtParseWithClaims J secret now t = Inr (c, True))"

section \<open>The token store\<close>

text \<open>
  What the clients of the token cache rely on: reading gives the status of every token of a user
  on a platform, writing changes the tokens of that user and platform only.
\<close>

locale token_store =
  fixes laws :: bool
    and tokens :: "'s \<Rightarrow> string \<Rightarrow> string \<rightharpoonup> int"
    and get :: "string \<Rightarrow> int \<Rightarrow> ('s, string \<rightharpoonup> int) go"
    and add :: "string \<Rightarrow> int \<Rightarrow> string \<Rightarrow> int \<Rightarrow> ('s, unit) go"
    and put :: "string \<Rightarrow> int \<Rightarrow> (string \<rightharpoonup> int) \<Rightarrow> ('s, unit) go"
    and del :: "string \<Rightarrow> int \<Rightarrow> string list \<Rightarrow> ('s, unit) go"
  assumes get_Ok: "laws \<Longrightarrow> get u p s = (Ok m, s') \<Longrightarrow> m = tokens s (uidPidToken_key u p) \<and> tokens s' = tokens s"
    and get_Err: "laws \<Longrightarrow> get u p s = (Err e, s') \<Longrightarrow> tokens s' = tokens s"
    and get_Panic: "laws \<Longrightarrow> get u p s \<noteq> (Panic pmsg, s')"
    and add_Ok: "laws \<Longrightarrow> int64 flag \<Longrightarrow> add u p t flag s = (Ok x, s')
      \<Longrightarrow> tokens s' = (tokens s)(uidPidToken_key u p := (tokens s (uidPidToken_key u p))(t \<mapsto> flag))"
    and put_Ok: "laws \<Longrightarrow> \<forall>i \<in> ran m. int64 i \<Longrightarrow> put u p m s = (Ok x, s')
      \<Longrightarrow> tokens s' = (tokens s)(uidPidToken_key u p := tokens s (uidPidToken_key u p) ++ m)"
    and del_Ok: "laws \<Longrightarrow> del u p ts s = (Ok x, s')
      \<Longrightarrow> tokens s' = (tokens s)(uidPidToken_key u p := tokens s (uidPidToken_key u p) |` (- set ts))"
begin

lemma add_then_get:
  assumes "laws" "int64 flag" "add u p t flag s = (Ok x, s1)" "get u p s1 = (Ok m, s2)"
  shows "m t = Some flag"
  using add_Ok [OF assms(1-3)] get_Ok [OF assms(1,4)] by simp

lemma del_add:
  assumes "laws" "int64 flag" "del u p ts s = (Ok x, s1)" "add u p t flag s1 = (Ok y, s2)"
  shows "tokens s2 = (tokens s)(uidPidToken_key u p := ((tokens s (uidPidToken_key u p)) |` (- set ts))(t \<mapsto> flag))"
  using del_Ok [OF assms(1,3)] add_Ok [OF assms(1,2,4)] by (simp add: fun_eq_iff)

lemma revoke_others:
  assumes "laws" "int64 flag" "get u p s = (Ok m, s1)"
    and "put u p (\<lambda>k. if k \<noteq> t then map_option (\<lambda>_. flag) (m k) else m k) s1 = (Ok x, s2)"
    and "\<forall>i \<in> ran (tokens s (uidPidToken_key u p)). int64 i"
  shows "tokens s2 (uidPidToken_key u p) = (\<lambda>k. if k \<noteq> t then map_option (\<lambda>_. flag) (m k) else m k)"
proof -
  have m: "m = tokens s (uidPidToken_key u p)" "tokens s1 = tokens s" using get_Ok [OF assms(1,3)] by auto
  have "\<forall>i \<in> ran (\<lambda>k. if k \<noteq> t then map_option (\<lambda>_. flag) (m k) else m k). int64 i"
    using assms(2,5) by (auto simp: m(1) ran_def)
  from put_Ok [OF assms(1) this assms(4)] show ?thesis
    by (auto simp: fun_eq_iff map_add_def m split: option.splits)
qed

end

definition token_view :: "('s \<Rightarrow> string \<Rightarrow> string \<rightharpoonup> string) \<Rightarrow> 's \<Rightarrow> string \<Rightarrow> string \<rightharpoonup> int" where
  "token_view hv s key = (\<lambda>t. map_option StringToInt (hv s key t))"

lemma hash_get:
  assumes "redis_hash_laws R hv" "rdHGetAll R k s = (r, s')"
  shows "hv s' = hv s \<and> (case r of Ok m \<Rightarrow> m = hv s k | Err _ \<Rightarrow> True | Panic _ \<Rightarrow> False)"
  using assms unfolding redis_hash_laws_def by blast

lemma hash_set:
  assumes "redis_hash_laws R hv" "rdHSet R k m s = (r, s')"
  shows "case r of Ok _ \<Rightarrow> hv s' = (hv s)(k := hv s k ++ m)
         | Err _ \<Rightarrow> hv s' = hv s \<or> hv s' = (hv s)(k := hv s k ++ m) | Panic _ \<Rightarrow> False"
  using assms unfolding redis_hash_laws_def by blast

lemma hash_del:
  assumes "redis_hash_laws R hv" "rdHDel R k fs s = (r, s')"
  shows "case r of Ok _ \<Rightarrow> hv s' = (hv s)(k := hv s k |` (- set fs))
         | Err _ \<Rightarrow> hv s' = hv s \<or> hv s' = (hv s)(k := hv s k |` (- set fs)) | Panic _ \<Rightarrow> False"
  using assms unfolding redis_hash_laws_def by blast

lemma hash_set_Ok:
  "redis_hash_laws R hv \<Longrightarrow> rdHSet R k m s = (Ok x, s') \<Longrightarrow> hv s' = (hv s)(k := hv s k ++ m)"
  by (drule hash_set) auto

lemma hash_del_Ok:
  "redis_hash_laws R hv \<Longrightarrow> rdHDel R k fs s = (Ok x, s') \<Longrightarrow> hv s' = (hv s)(k := hv s k |` (- set fs))"
  by (drule hash_del) auto

lemma GetTokens_cases:
  assumes "redis_hash_laws R hv" "GetTokensWithoutError R u p s = (r, s')"
  shows "hv s' = hv s \<and> (case r of Ok m \<Rightarrow> m = token_view hv s (uidPidToken_key u p) | Err _ \<Rightarrow> True | Panic _ \<Rightarrow> False)"
proof (cases "rdHGetAll R (uidPidToken_key u p) s")
  case (Pair r0 s0)
  with hash_get [OF assms(1) Pair] assms(2) show ?thesis
    by (cases r0) (auto simp: GetTokensWithoutError_def bindG_def wrapG_def retG_def token_view_def Let_def)
qed

interpretation tok: token_store "redis_hash_laws R hv" "token_view hv" "GetTokensWithoutError R" "AddTokenFlag R"
    "SetTokenMapByUidPid R" "DeleteTokenByUidPid R" for R hv
proof
  fix u p s m s'
  assume l: "redis_hash_laws R hv"
  show "GetTokensWithoutError R u p s = (Ok m, s') \<Longrightarrow> m = token_view hv s (uidPidToken_key u p) \<and> token_view hv s' = token_view hv s"
    using GetTokens_cases [OF l, of u p s "Ok m" s'] by (auto simp: token_view_def fun_eq_iff)
  show "GetTokensWithoutError R u p s = (Err e, s') \<Longrightarrow> token_view hv s' = token_view hv s" for e
    using GetTokens_cases [OF l, of u p s "Err e" s'] by (auto simp: token_view_def fun_eq_iff)
  show "GetTokensWithoutError R u p s \<noteq> (Panic e, s')" for e
    using GetTokens_cases [OF l, of u p s "Panic e" s'] by auto
  show "token_view hv s' = (token_view hv s)(uidPidToken_key u p := (token_view hv s (uidPidToken_key u p))(t \<mapsto> flag))"
    if "int64 flag" "AddTokenFlag R u p t flag s = (Ok x, s')" for t flag x
    using hash_set_Ok [OF l, of "uidPidToken_key u p" "Map.empty(t \<mapsto> itoa flag)" s x s'] that
    by (auto simp: AddTokenFlag_def token_view_def fun_eq_iff Let_def)
  show "token_view hv s' = (token_view hv s)(uidPidToken_key u p := token_view hv s (uidPidToken_key u p) ++ f)"
    if "\<forall>i \<in> ran f. int64 i" "SetTokenMapByUidPid R u p f s = (Ok x, s')" for f x
  proof -
    have rt: "StringToInt (itoa i) = i" if "f k = Some i" for k i
      using that \<open>\<forall>i \<in> ran f. int64 i\<close> by (auto simp: ran_def)
    have "hv s' = (hv s)(uidPidToken_key u p := hv s (uidPidToken_key u p) ++ (\<lambda>k. map_option itoa (f k)))"
      using hash_set_Ok [OF l] that(2) by (simp add: SetTokenMapByUidPid_def Let_def)
    then show ?thesis
      by (auto simp: token_view_def fun_eq_iff map_add_def rt split: option.splits)
  qed
  show "token_view hv s' = (token_view hv s)(uidPidToken_key u p := token_view hv s (uidPidToken_key u p) |` (- set ts))"
    if "DeleteTokenByUidPid R u p ts s = (Ok x, s')" for ts x
    using hash_del_Ok [OF l, of "uidPidToken_key u p" ts s x s'] that
    by (auto simp: DeleteTokenByUidPid_def token_view_def fun_eq_iff restrict_map_def Let_def)
qed

lemma mem_redis_hash_laws: "redis_hash_laws mem_redis_api hashes"
  by (simp add: redis_hash_laws_def mem_redis_api_def)

lemma mem_redis_hash_reads: "hash_reads_answer mem_redis_api"
  by (simp add: hash_reads_answer_def mem_redis_api_def)

section \<open>The life of a token\<close>

lemma CreateToken_run:
  assumes "redis_hash_laws (auRedis A) hv" "CreateToken A now u p s = (Ok tok, s')"
  shows "\<exists>ts. jwtSignedString (auJwt A) (cfgSecret (auCfg A)) (BuildClaims now u p (cfgExpire (auCfg A))) = Inr tok
    \<and> ts = stale_tokens A now (token_view hv s (uidPidToken_key u p))
    \<and> token_view hv s' = (token_view hv s)(uidPidToken_key u p :=
         (token_view hv s (uidPidToken_key u p) |` (- set ts))(tok \<mapsto> NormalToken))"
proof -
  let ?v = "token_view hv" and ?k = "uidPidToken_key u p"
  from assms(2) obtain m s1 x s2 y where
    get: "GetTokensWithoutError (auRedis A) u p s = (Ok m, s1)" and
    del: "(if length (stale_tokens A now m) \<noteq> 0 then DeleteTokenByUidPid (auRedis A) u p (stale_tokens A now m) else retG ()) s1 = (Ok x, s2)" and
    sign: "jwtSignedString (auJwt A) (cfgSecret (auCfg A)) (BuildClaims now u p (cfgExpire (auCfg A))) = Inr tok" and
    add: "AddTokenFlag (auRedis A) u p tok NormalToken s2 = (Ok y, s')"
    unfolding CreateToken_def
    by (auto simp: bindG_Ok_iff Let_def retG_def failG_def split: sum.splits)
  have m: "m = ?v s ?k" "?v s1 = ?v s" using tok.get_Ok [OF assms(1) get] by auto
  have "?v s2 = (?v s)(?k := ?v s ?k |` (- set (stale_tokens A now m)))"
    using del tok.del_Ok [OF assms(1), of u p "stale_tokens A now m" s1 x s2] m
    by (auto simp: retG_def restrict_map_def split: if_splits)
  moreover have "?v s' = (?v s2)(?k := (?v s2 ?k)(tok \<mapsto> NormalToken))"
    using tok.add_Ok [OF assms(1) _ add] by (simp add: int64_def)
  ultimately show ?thesis using sign m by (auto simp: fun_eq_iff)
qed

lemma BuildClaims_valid:
  assumes "0 \<le> ttl" "ttl \<le> 100000" "t0 \<le> now" "now < (t0 div 1000000000 + ttl * 86400) * 1000000000"
  shows "claims_valid_at (BuildClaims t0 u p ttl) now"
    and "ExpiresAt (BuildClaims t0 u p ttl) = t0 div 1000000000 + ttl * 86400"
proof -
  have m1: "mul64 ttl 24 = ttl * 24" using assms(1,2) by (intro mul64_exact) (simp add: int64_def)
  have m2: "mul64 (ttl * 24) Hour = ttl * 24 * Hour" using assms(1,2) by (intro mul64_exact) (simp add: int64_def)
  have m3: "mul64 (- Minute) 5 = - 300000000000" by (subst mul64_exact) (simp_all add: int64_def)
  have d: "(t0 + ttl * 24 * Hour) div 1000000000 = t0 div 1000000000 + ttl * 86400"
    using div_mult_self1 [of 1000000000 t0 "ttl * 86400"] by (simp add: algebra_simps)
  have "t0 div 1000000000 * 1000000000 \<le> t0" by linarith
  moreover have "(t0 - 300000000000) div 1000000000 * 1000000000 \<le> t0 - 300000000000"
    by linarith
  ultimately show "claims_valid_at (BuildClaims t0 u p ttl) now"
    "ExpiresAt (BuildClaims t0 u p ttl) = t0 div 1000000000 + ttl * 86400"
    using assms(3,4) m1 m2 m3 d by (auto simp: claims_valid_at_def BuildClaims_def NewNumericDate_def Let_def)
qed

text \<open>
  C33.  A token works from its creation to its expiry: the token that \<open>UserToken\<close> returns is
  accepted, until the announced number of seconds has passed since the second of its creation, by
  \<open>ParseToken\<close>, which reports the user, the platform and that expiry, and by
  \<open>WsVerifyToken\<close> for that user and platform only.  \<open>UserToken\<close> answers only callers who
  know the secret.  Assumed: the token cache is as it
  was after the creation and answers, and the configured expiry is at most 100000 days.
\<close>

theorem UserToken_roundtrip:
  assumes laws: "redis_hash_laws (auRedis A) hv" "hash_reads_answer (auRedis A)" "jwt_laws (auJwt A)"
    and ttl: "0 \<le> cfgExpire (auCfg A)" "cfgExpire (auCfg A) \<le> 100000"
    and run: "UserToken A t0 secret u p s = (Ok (tok, secs), s1)"
    and time: "t0 \<le> now" "now < (t0 div 1000000000 + secs) * 1000000000"
  shows "secret = cfgSecret (auCfg A) \<and> secs = cfgExpire (auCfg A) * 86400
    \<and> (\<exists>s2. ParseToken A now tok s1 = (Ok (u, PlatformIDToName p, t0 div 1000000000 + secs), s2))
    \<and> (WsVerifyToken (auJwt A) (auCfg A) now tok u' p' = None \<longleftrightarrow> u' = u \<and> p' = p)"
proof -
  let ?ttl = "cfgExpire (auCfg A)" and ?k = "uidPidToken_key u p"
  from run obtain s0 where sec: "secret = cfgSecret (auCfg A)"
    and create: "CreateToken A t0 u p s0 = (Ok tok, s1)" and secs: "secs = mul64 (mul64 (mul64 ?ttl 24) 60) 60"
    by (auto simp: UserToken_def bindG_Ok_iff retG_def failG_def split: if_splits)
  have "int64 (?ttl * 24)" "int64 (?ttl * 24 * 60)" "int64 (?ttl * 24 * 60 * 60)" using ttl by (auto simp: int64_def)
  then have n: "secs = ?ttl * 86400" using secs by (simp add: mul64_exact)
  let ?c = "BuildClaims t0 u p ?ttl"
  have sign: "jwtSignedString (auJwt A) (cfgSecret (auCfg A)) ?c = Inr tok"
    and stored: "token_view hv s1 ?k tok = Some NormalToken"
    using CreateToken_run [OF laws(1) create] by auto
  have valid: "claims_valid_at ?c now" "ExpiresAt ?c = t0 div 1000000000 + secs"
    using BuildClaims_valid [OF ttl time(1), of u p] time(2) n by auto
  then have claim: "GetClaimFromToken (auJwt A) (cfgSecret (auCfg A)) now tok = Inr ?c"
    using laws(3) sign by (auto simp: GetClaimFromToken_def jwt_laws_def)
  have who: "clUserID ?c = u" "clPlatformID ?c = p" by (simp_all add: BuildClaims_def Let_def)
  obtain r s2 where get: "GetTokensWithoutError (auRedis A) u p s1 = (r, s2)" by fastforce
  have "\<exists>m. r = Ok m"
    using get laws(2) tok.get_Panic [OF laws(1)]
    by (cases r) (auto simp: GetTokensWithoutError_def hash_reads_answer_def bindG_def wrapG_def retG_def Let_def
        split: prod.splits outcome.splits)
  then obtain m where m: "r = Ok m" by blast
  then have "m = token_view hv s1 ?k" using tok.get_Ok [OF laws(1)] get by blast
  then have "parseToken A now tok s1 = (Ok ?c, s2)"
    using stored claim get m who by (auto simp: parseToken_def bindG_def retG_def)
  then have "ParseToken A now tok s1 = (Ok (u, PlatformIDToName p, t0 div 1000000000 + secs), s2)"
    using who valid by (simp add: ParseToken_def bindG_def retG_def)
  then show ?thesis using sec n claim who by (auto simp: WsVerifyToken_def)
qed

definition demo_claims :: Claims where
  "demo_claims = BuildClaims 0 ''u'' 1 90"

definition demo_jwt :: jwt_api where
  "demo_jwt = \<lparr>
     jwtParseWithClaims = (\<lambda>sec now t. if t = ''jwt'' \<and> claims_valid_at demo_claims now
        then Inr (demo_claims, True) else Inl (ValidationError True False False)),
     jwtSignedString = (\<lambda>sec c. if c = demo_claims then Inr ''jwt'' else Inl (Plain ''key'')) \<rparr>"

definition demo_auth :: "mem_redis auth_env" where
  "demo_auth = \<lparr> auRedis = mem_redis_api, auJwt = demo_jwt,
     auCfg = \<lparr> cfgSecret = ''sec'', cfgExpire = 90, cfgManager = [''admin''], cfgIMAdmin = [] \<rparr>,
     auOrd = sorted_list_of_set, auGetUserInfo = (\<lambda>_. retG ()), auGetConns = retG [],
     auKickUserOffline = (\<lambda>_ _ _. retG ()) \<rparr>"

lemma demo_auth_simps [simp]:
  "auRedis demo_auth = mem_redis_api" "auJwt demo_auth = demo_jwt" "cfgExpire (auCfg demo_auth) = 90"
  "cfgSecret (auCfg demo_auth) = ''sec''" "auOrd demo_auth = sorted_list_of_set"
  by (simp_all add: demo_auth_def)

lemma demo_jwt_laws: "jwt_laws demo_jwt"
  by (simp add: jwt_laws_def demo_jwt_def)

lemma demo_CreateToken:
  "\<exists>s'. CreateToken demo_auth 0 ''u'' 1 mem_redis_empty = (Ok ''jwt'', s')"
  by (simp add: CreateToken_def GetTokensWithoutError_def stale_tokens_def AddTokenFlag_def mem_redis_api_def
      mem_redis_empty_def bindG_def wrapG_def retG_def Let_def demo_jwt_def demo_claims_def dom_def)

theorem UserToken_roundtrip_witness:
  "\<exists>s1 s2. UserToken demo_auth 0 ''sec'' ''u'' 1 mem_redis_empty = (Ok (''jwt'', 7776000), s1)
     \<and> ParseToken demo_auth 5 ''jwt'' s1 = (Ok (''u'', ''IOS'', 7776000), s2)"
proof -
  obtain s1 where "CreateToken demo_auth 0 ''u'' 1 mem_redis_empty = (Ok ''jwt'', s1)" using demo_CreateToken by blast
  then have run: "UserToken demo_auth 0 ''sec'' ''u'' 1 mem_redis_empty = (Ok (''jwt'', 7776000), s1)"
    by (simp add: UserToken_def bindG_def retG_def mul64_exact int64_def) (simp add: demo_auth_def retG_def)
  have name: "PlatformIDToName 1 = ''IOS''" by (simp add: PlatformIDToName_def PlatformID2Name_def)
  have "\<exists>s2. ParseToken demo_auth 5 ''jwt'' s1 = (Ok (''u'', PlatformIDToName 1, 0 div 1000000000 + 7776000), s2)"
    using UserToken_roundtrip [OF _ _ _ _ _ run, of hashes 5]
    by (simp add: mem_redis_hash_laws mem_redis_hash_reads demo_jwt_laws)
  with run name show ?thesis by auto
qed

text \<open>
  C34.  Creating a token cleans up: afterwards every token of the user on the platform has the
  normal status and still parses, so kicked, expired and malformed tokens are gone; every token
  that was in order before is kept, the new one is added, and no token of another user or platform
  name changes.  The configured expiry is assumed to be in
  bounds, and the token cache to follow the documented behaviour of Redis hashes.
\<close>

theorem CreateToken_prunes:
  assumes laws: "redis_hash_laws (auRedis A) hv" "jwt_laws (auJwt A)" "iter_order (auOrd A)"
    and fin: "finite (dom (token_view hv s (uidPidToken_key u p)))"
    and ttl: "0 < cfgExpire (auCfg A)" "cfgExpire (auCfg A) \<le> 100000"
    and run: "CreateToken A now u p s = (Ok tok, s')"
  shows "(\<forall>t v. token_view hv s' (uidPidToken_key u p) t = Some v
            \<longrightarrow> v = NormalToken \<and> (\<exists>c. GetClaimFromToken (auJwt A) (cfgSecret (auCfg A)) now t = Inr c))
    \<and> (\<forall>t c. token_view hv s (uidPidToken_key u p) t = Some NormalToken
            \<and> GetClaimFromToken (auJwt A) (cfgSecret (auCfg A)) now t = Inr c
            \<longrightarrow> token_view hv s' (uidPidToken_key u p) t = Some NormalToken)
    \<and> token_view hv s' (uidPidToken_key u p) tok = Some NormalToken
    \<and> (\<forall>k. k \<noteq> uidPidToken_key u p \<longrightarrow> token_view hv s' k = token_view hv s k)"
proof -
  let ?v = "token_view hv" and ?k = "uidPidToken_key u p" and ?ttl = "cfgExpire (auCfg A)"
  let ?ts = "stale_tokens A now (?v s ?k)"
  have sign: "jwtSignedString (auJwt A) (cfgSecret (auCfg A)) (BuildClaims now u p ?ttl) = Inr tok"
    and v': "?v s' = (?v s)(?k := (?v s ?k |` (- set ?ts))(tok \<mapsto> NormalToken))"
    using CreateToken_run [OF laws(1) run] by auto
  have now: "now < (now div 1000000000 + ?ttl * 86400) * 1000000000"
  proof -
    have "now < now div 1000000000 * 1000000000 + 1000000000" by linarith
    with ttl(1) show ?thesis unfolding distrib_right by linarith
  qed
  have new: "GetClaimFromToken (auJwt A) (cfgSecret (auCfg A)) now tok = Inr (BuildClaims now u p ?ttl)"
    using BuildClaims_valid [OF _ ttl(2) order_refl now, of u p] ttl laws(2) sign
    by (auto simp: GetClaimFromToken_def jwt_laws_def)
  have stale: "t \<in> set ?ts \<longleftrightarrow> t \<in> dom (?v s ?k)
      \<and> ((\<exists>e. GetClaimFromToken (auJwt A) (cfgSecret (auCfg A)) now t = Inl e) \<or> ?v s ?k t \<noteq> Some NormalToken)" for t
    using laws(3) fin by (auto simp: stale_tokens_def dom_def split: sum.splits)
  have "v = NormalToken \<and> (\<exists>c. GetClaimFromToken (auJwt A) (cfgSecret (auCfg A)) now t = Inr c)"
    if "?v s' ?k t = Some v" for t v
  proof (cases "t = tok")
    case True
    with that new v' show ?thesis by simp
  next
    case False
    with that v' have "?v s ?k t = Some v" "t \<notin> set ?ts" by (auto simp: restrict_map_def split: if_splits)
    with stale [of t] show ?thesis by (cases "GetClaimFromToken (auJwt A) (cfgSecret (auCfg A)) now t") auto
  qed
  moreover have "?v s' ?k t = Some NormalToken"
    if "?v s ?k t = Some NormalToken" "GetClaimFromToken (auJwt A) (cfgSecret (auCfg A)) now t = Inr c" for t c
    using that stale [of t] v' by (auto simp: restrict_map_def)
  ultimately show ?thesis using v' by auto
qed

theorem CreateToken_prunes_witness:
  "\<exists>s'. CreateToken demo_auth 0 ''u'' 1 mem_redis_empty = (Ok ''jwt'', s')
     \<and> token_view hashes s' (uidPidToken_key ''u'' 1) ''jwt'' = Some NormalToken"
proof -
  obtain s' where run: "CreateToken demo_auth 0 ''u'' 1 mem_redis_empty = (Ok ''jwt'', s')"
    using demo_CreateToken by blast
  have "finite (dom (token_view hashes mem_redis_empty (uidPidToken_key ''u'' 1)))"
    by (simp add: token_view_def mem_redis_empty_def dom_def)
  then have "token_view hashes s' (uidPidToken_key ''u'' 1) ''jwt'' = Some NormalToken"
    using CreateToken_prunes [OF _ _ _ _ _ _ run, of hashes]
    by (simp add: mem_redis_hash_laws demo_jwt_laws iter_order_sorted)
  with run show ?thesis by blast
qed

end
