(* ===== verification/GatewayFacts.thy ===== *)
theory GatewayFacts
  imports Gateway AuthFacts
begin

text \<open>
  The gateway's data: the map of users behind the interface \<open>conn_registry\<close>, the effect of
  kicking, the well-formedness of the server's state, and that each operation keeps it.
\<close>

section \<open>The registry of connections\<close>

text \<open>
  What the server needs of the map of users: it holds a list of connections per user, and says who
  has one.  \<open>del P\<close> removes the connections of a user that satisfy \<open>P\<close> and reports whether
  the user has gone.
\<close>

locale conn_registry =
  fixes wf :: "'m \<Rightarrow> bool"
    and conns :: "'m \<Rightarrow> string \<Rightarrow> 'c list"
    and online :: "'m \<Rightarrow> string \<Rightarrow> bool"
    and set_conn :: "'m \<Rightarrow> string \<Rightarrow> 'c \<Rightarrow> 'm"
    and del :: "('c \<Rightarrow> bool) \<Rightarrow> 'm \<Rightarrow> string \<Rightarrow> 'm \<times> bool"
  assumes online_iff: "wf m \<Longrightarrow> online m u \<longleftrightarrow> conns m u \<noteq> []"
    and wf_set: "wf m \<Longrightarrow> wf (set_conn m u c)"
    and conns_set: "conns (set_conn m u c) = (conns m)(u := conns m u @ [c])"
    and wf_del: "wf m \<Longrightarrow> wf (fst (del P m u))"
    and conns_del: "conns (fst (del P m u)) = (conns m)(u := filter (\<lambda>c. \<not> P c) (conns m u))"
    and del_last: "wf m \<Longrightarrow> snd (del P m u) \<longleftrightarrow> conns m u \<noteq> [] \<and> (\<forall>c \<in> set (conns m u). P c)"
begin

definition all_conns :: "'m \<Rightarrow> 'c set" where
  "all_conns m = (\<Union>u. set (conns m u))"

definition users :: "'m \<Rightarrow> string set" where
  "users m = {u. conns m u \<noteq> []}"

lemma all_conns_set: "all_conns (set_conn m u c) = insert c (all_conns m)"
  by (auto simp: all_conns_def conns_set split: if_splits)

lemma all_conns_del:
  assumes "\<And>v c. v \<noteq> u \<Longrightarrow> c \<in> set (conns m v) \<Longrightarrow> c \<notin> set (conns m u)"
  shows "all_conns (fst (del P m u)) = all_conns m - {c \<in> set (conns m u). P c}"
  using assms by (auto simp: all_conns_def conns_del split: if_splits)

lemma users_set: "users (set_conn m u c) = insert u (users m)"
  by (auto simp: users_def conns_set)

lemma users_del: "wf m \<Longrightarrow> users (fst (del P m u)) = (if snd (del P m u) then users m - {u} else users m)"
  by (auto simp: users_def conns_del del_last filter_empty_conv)

end

definition UserMap_wf :: "user_map \<Rightarrow> bool" where
  "UserMap_wf m \<longleftrightarrow> (\<forall>u. m u \<noteq> Some [])"

definition UserMap_conns :: "user_map \<Rightarrow> string \<Rightarrow> cref list" where
  "UserMap_conns m u = (case m u of None \<Rightarrow> [] | Some cs \<Rightarrow> cs)"

definition UserMap_remove :: "(cref \<Rightarrow> bool) \<Rightarrow> user_map \<Rightarrow> string \<Rightarrow> user_map \<times> bool" where
  "UserMap_remove P m key =
     (case m key of
        Some cs \<Rightarrow> let a = filter (\<lambda>c. \<not> P c) cs in if a = [] then (m(key := None), True) else (m(key \<mapsto> a), False)
      | None \<Rightarrow> (m, False))"

lemma UserMap_delete_remove: "UserMap_delete h m key a = UserMap_remove (\<lambda>c. addr (h c) = a) m key"
  by (simp add: UserMap_delete_def UserMap_remove_def split: option.splits)

lemma UserMap_deleteClients_remove:
  "UserMap_deleteClients h m key cs = UserMap_remove (\<lambda>c. addr (h c) \<in> (\<lambda>c. addr (h c)) ` set cs) m key"
  by (simp add: UserMap_deleteClients_def UserMap_remove_def split: option.splits)

interpretation um: conn_registry UserMap_wf UserMap_conns "\<lambda>m u. snd (UserMap_GetAll m u)" UserMap_Set UserMap_remove
proof
  fix m u c P
  show "UserMap_wf m \<Longrightarrow> snd (UserMap_GetAll m u) \<longleftrightarrow> UserMap_conns m u \<noteq> []"
    by (auto simp: UserMap_wf_def UserMap_GetAll_def UserMap_conns_def split: option.splits)
  show "UserMap_wf m \<Longrightarrow> UserMap_wf (UserMap_Set m u c)"
    by (auto simp: UserMap_wf_def UserMap_Set_def split: option.splits)
  show "UserMap_conns (UserMap_Set m u c) = (UserMap_conns m)(u := UserMap_conns m u @ [c])"
    by (auto simp: UserMap_conns_def UserMap_Set_def fun_eq_iff split: option.splits)
  show "UserMap_wf m \<Longrightarrow> UserMap_wf (fst (UserMap_remove P m u))"
    by (auto simp: UserMap_wf_def UserMap_remove_def Let_def split: option.splits)
  show "UserMap_conns (fst (UserMap_remove P m u)) = (UserMap_conns m)(u := filter (\<lambda>c. \<not> P c) (UserMap_conns m u))"
    by (auto simp: UserMap_conns_def UserMap_remove_def fun_eq_iff Let_def split: option.splits)
  show "UserMap_wf m \<Longrightarrow> snd (UserMap_remove P m u) \<longleftrightarrow> UserMap_conns m u \<noteq> [] \<and> (\<forall>c \<in> set (UserMap_conns m u). P c)"
    by (auto simp: UserMap_wf_def UserMap_conns_def UserMap_remove_def filter_empty_conv Let_def split: option.splits)
qed

lemma UserMap_Get_conns:
  "UserMap_wf m \<Longrightarrow> UserMap_Get h m u p =
     (let cs = filter (\<lambda>c. cPlatformID (h c) = p) (UserMap_conns m u) in (cs, UserMap_conns m u \<noteq> [], cs \<noteq> []))"
  by (auto simp: UserMap_Get_def UserMap_conns_def UserMap_wf_def Let_def split: option.splits)

section \<open>Calls that only touch the world\<close>

definition world_only :: "('w gateway, 'a) go \<Rightarrow> bool" where
  "world_only m \<longleftrightarrow> (\<forall>s. \<exists>w. snd (m s) = s\<lparr> gwWorld := w \<rparr>)"

lemma world_onlyD: "world_only m \<Longrightarrow> m s = (r, s') \<Longrightarrow> \<exists>w. s' = s\<lparr> gwWorld := w \<rparr>"
  unfolding world_only_def by (metis snd_conv)

lemma same_world: "\<exists>w. s = s\<lparr> gwWorld := w \<rparr>"
  by (rule exI [of _ "gwWorld s"]) simp

lemma world_only_ret [simp, pres]: "world_only (retG x)"
  by (auto simp: world_only_def retG_def same_world)

lemma world_only_fail [simp, pres]: "world_only (failG x)"
  by (auto simp: world_only_def failG_def same_world)

lemma world_only_client [simp, pres]: "world_only (clientG c)"
  by (auto simp: world_only_def clientG_def getsG_def same_world)

lemma world_only_ext [simp, pres]: "world_only (extG m)"
  by (auto simp: world_only_def extG_def split: prod.splits)

lemma world_only_bind [pres]: "world_only m \<Longrightarrow> (\<And>a. world_only (k a)) \<Longrightarrow> world_only (bindG m k)"
  unfolding world_only_def bindG_def
  by (auto split: prod.splits outcome.splits) (metis gateway.surjective gateway.update_convs(10) snd_conv)+

lemma world_only_attempt [pres]: "world_only m \<Longrightarrow> world_only (attemptG m)"
  unfolding world_only_def attemptG_def by (auto split: prod.splits outcome.splits) (metis snd_conv)+

lemma world_only_wrap [pres]: "world_only m \<Longrightarrow> world_only (wrapG msg m)"
  unfolding world_only_def wrapG_def by (auto split: prod.splits outcome.splits) (metis snd_conv)+

lemma world_only_ignore [pres]: "world_only m \<Longrightarrow> world_only (ignoreG m)"
  by (simp add: ignoreG_def world_only_bind world_only_attempt)

lemma world_only_for [pres]: "(\<And>x. world_only (f x)) \<Longrightarrow> world_only (forG xs f)"
  by (induction xs) (simp_all add: world_only_bind)

lemma world_only_writeBinaryMsg: "world_only (writeBinaryMsg A c resp)"
  unfolding writeBinaryMsg_def
  by (intro world_only_bind world_only_client) (auto intro!: world_only_bind world_only_ignore split: sum.splits)

lemma world_only_status: "world_only (SetUserOnlineStatus A client st)"
  unfolding SetUserOnlineStatus_def by (auto intro!: world_only_bind world_only_ignore)

lemma world_only_other_nodes: "world_only (sendUserOnlineInfoToOtherNode A cfg client)"
  unfolding sendUserOnlineInfoToOtherNode_def
  by (auto intro!: world_only_bind world_only_ignore world_only_for)

section \<open>Kicking\<close>

definition close_refs :: "cref list \<Rightarrow> (cref \<Rightarrow> Client) \<Rightarrow> cref \<Rightarrow> Client" where
  "close_refs cs h = (\<lambda>c. if c \<in> set cs then (h c)\<lparr> cclosed := True \<rparr> else h c)"

lemma close_refs_simps [simp]:
  "cclosed (close_refs cs h c) \<longleftrightarrow> c \<in> set cs \<or> cclosed (h c)"
  "cUserID (close_refs cs h c) = cUserID (h c)" "cPlatformID (close_refs cs h c) = cPlatformID (h c)"
  "addr (close_refs cs h c) = addr (h c)" "cctx (close_refs cs h c) = cctx (h c)"
  "close_refs [] h = h"
  by (auto simp: close_refs_def addr_def)

lemma close_refs_Cons: "close_refs cs (close_refs [c] h) = close_refs (c # cs) h"
  by (auto simp: close_refs_def fun_eq_iff)

lemma close_locked_run:
  assumes "close_locked A c s = (Ok x, s')"
  shows "\<exists>w. s' = s\<lparr> gwHeap := close_refs [c] (gwHeap s), unregisterChan := unregisterChan s @ [c], gwWorld := w \<rparr>
   \<and> length (unregisterChan s) < chanCap"
proof -
  let ?s1 = "s\<lparr> gwHeap := close_refs [c] (gwHeap s) \<rparr>"
  have h: "(gwHeap s)(c := (gwHeap s c)\<lparr> cclosed := True \<rparr>) = close_refs [c] (gwHeap s)"
    by (auto simp: close_refs_def fun_eq_iff)
  from assms have run: "bindG (ignoreG (extG (gwCloseConn A (cconn (close_refs [c] (gwHeap s) c))))) (\<lambda>_. UnRegister c) ?s1 = (Ok x, s')"
    by (simp add: close_locked_def clientG_def setClientG_def bindG_gets bindG_mod h)
  then obtain y s2 where ext: "ignoreG (extG (gwCloseConn A (cconn (close_refs [c] (gwHeap s) c)))) ?s1 = (Ok y, s2)"
    and un: "UnRegister c s2 = (Ok x, s')" by (auto elim: bindG_OkE)
  obtain w where "s2 = ?s1\<lparr> gwWorld := w \<rparr>"
    using world_onlyD [OF world_only_ignore [OF world_only_ext] ext] by blast
  with un show ?thesis by (cases s) (auto simp: UnRegister_def split: if_splits)
qed

lemma close_run:
  assumes "close A c s = (Ok x, s')"
  shows "\<exists>w. s' = s\<lparr> gwHeap := close_refs [c] (gwHeap s),
     unregisterChan := unregisterChan s @ (if cclosed (gwHeap s c) then [] else [c]), gwWorld := w \<rparr>
   \<and> (\<not> cclosed (gwHeap s c) \<longrightarrow> length (unregisterChan s) < chanCap)"
proof (cases "cclosed (gwHeap s c)")
  case True
  then have "close_refs [c] (gwHeap s) = gwHeap s" by (auto simp: close_refs_def fun_eq_iff)
  with True assms show ?thesis
    using same_world [of s] by (auto simp: close_def clientG_def bindG_gets retG_def)
next
  case False
  with assms have "close_locked A c s = (Ok x, s')" by (simp add: close_def clientG_def bindG_gets)
  from close_locked_run [OF this] False show ?thesis by auto
qed

lemma close_never_Err [simp]: "never_Err (close A c)"
proof -
  have "never_Err (UnRegister c)" by (auto simp: never_Err_def UnRegister_def)
  then show ?thesis unfolding close_def close_locked_def clientG_def setClientG_def by (auto intro!: never_Err_bind)
qed

lemma KickOnlineMessage_run:
  assumes "ignoreG (KickOnlineMessage A c) s = (Ok x, s')"
  shows "\<exists>w. s' = s\<lparr> gwHeap := close_refs [c] (gwHeap s),
     unregisterChan := unregisterChan s @ (if cclosed (gwHeap s c) then [] else [c]), gwWorld := w \<rparr>"
proof -
  from assms obtain r where "KickOnlineMessage A c s = (r, s')" "\<forall>p. r \<noteq> Panic p"
    by (auto simp: ignoreG_def bindG_def attemptG_def retG_def split: prod.splits outcome.splits)
  then obtain z s1 y where wr: "attemptG (writeBinaryMsg A c \<lparr> RespIdentifier = WSKickOnlineMsg, RespMsgIncr = [],
      RespOperationID = [], RespErrCode = 0, RespErrMsg = [], RespData = [] \<rparr>) s = (Ok z, s1)"
    and cl: "close A c s1 = (Ok y, s')"
    unfolding KickOnlineMessage_def Let_def
    by (auto elim!: bindG_returns simp: failG_def retG_def split: sum.splits)
  obtain w where "s1 = s\<lparr> gwWorld := w \<rparr>"
    using world_onlyD [OF world_only_attempt [OF world_only_writeBinaryMsg] wr] by blast
  with close_run [OF cl] show ?thesis by (cases s) auto
qed

lemma kick_all_run:
  assumes "forG cs (\<lambda>c. ignoreG (KickOnlineMessage A c)) s = (Ok x, s')" "distinct cs"
  shows "\<exists>w. s' = s\<lparr> gwHeap := close_refs cs (gwHeap s),
     unregisterChan := unregisterChan s @ filter (\<lambda>c. \<not> cclosed (gwHeap s c)) cs, gwWorld := w \<rparr>"
  using assms
proof (induction cs arbitrary: s)
  case Nil
  then show ?case using same_world [of s] by (auto simp: retG_def)
next
  case (Cons c cs)
  then obtain y s1 where one: "ignoreG (KickOnlineMessage A c) s = (Ok y, s1)"
    and rest: "forG cs (\<lambda>c. ignoreG (KickOnlineMessage A c)) s1 = (Ok x, s')"
    by (auto elim: bindG_OkE)
  obtain w where s1: "s1 = s\<lparr> gwHeap := close_refs [c] (gwHeap s),
     unregisterChan := unregisterChan s @ (if cclosed (gwHeap s c) then [] else [c]), gwWorld := w \<rparr>"
    using KickOnlineMessage_run [OF one] by blast
  have "filter (\<lambda>d. \<not> cclosed (close_refs [c] (gwHeap s) d)) cs = filter (\<lambda>d. \<not> cclosed (gwHeap s d)) cs"
    using Cons.prems(2) by (intro filter_cong) auto
  with Cons.IH [OF rest] Cons.prems(2) s1 show ?case by (cases s) (auto simp: close_refs_Cons)
qed

definition kicked :: "string \<Rightarrow> cref list \<Rightarrow> 'w \<Rightarrow> 'w gateway \<Rightarrow> 'w gateway" where
  "kicked u cs w s = s\<lparr> gwClients := fst (UserMap_deleteClients (gwHeap s) (gwClients s) u cs),
     gwHeap := close_refs cs (gwHeap s),
     unregisterChan := unregisterChan s @ filter (\<lambda>c. \<not> cclosed (gwHeap s c)) cs, gwWorld := w \<rparr>"

lemma KickUserConn_run:
  assumes "KickUserConn A c s = (r, s')" "\<forall>p. r \<noteq> Panic p"
  shows "\<exists>w. s' = kicked (cUserID (gwHeap s c)) [c] w s"
proof -
  let ?s1 = "s\<lparr> gwClients := fst (UserMap_deleteClients (gwHeap s) (gwClients s) (cUserID (gwHeap s c)) [c]) \<rparr>"
  have "KickOnlineMessage A c ?s1 = (r, s')"
    using assms(1) by (simp add: KickUserConn_def clientG_def bindG_gets bindG_mod)
  then have "ignoreG (KickOnlineMessage A c) ?s1 = (Ok (), s')"
    using assms(2) by (cases r) (auto simp: ignoreG_def bindG_def attemptG_def retG_def)
  from KickOnlineMessage_run [OF this] show ?thesis by (cases s) (auto simp: kicked_def)
qed

lemma kick_same_terminal_run:
  assumes "kick_same_terminal A ok cs new s = (Ok x, s')" "distinct cs"
  shows "\<exists>w. s' = (if ok then kicked (cUserID new) cs w s else s\<lparr> gwWorld := w \<rparr>)"
proof (cases ok)
  case False
  then show ?thesis using assms(1) same_world [of s] by (auto simp: kick_same_terminal_def retG_def)
next
  case True
  let ?s1 = "s\<lparr> gwClients := fst (UserMap_deleteClients (gwHeap s) (gwClients s) (cUserID new) cs) \<rparr>"
  from assms(1) True obtain y s2 where kick: "forG cs (\<lambda>c. ignoreG (KickOnlineMessage A c)) ?s1 = (Ok y, s2)"
    and rest: "bindG (attemptG (extG (GetTokensWithoutError (gwRedis A) (cUserID new) (cPlatformID new)))) (\<lambda>r.
          case r of Inl err \<Rightarrow> retG ()
          | Inr m \<Rightarrow> ignoreG (extG (SetTokenMapByUidPid (gwRedis A) (cUserID new) (cPlatformID new)
                               (kick_tokens (GetToken (cctx new)) m)))) s2 = (Ok x, s')"
    by (auto simp: kick_same_terminal_def bindG_mod elim: bindG_OkE)
  have "world_only (bindG (attemptG (extG (GetTokensWithoutError (gwRedis A) (cUserID new) (cPlatformID new)))) (\<lambda>r.
          case r of Inl err \<Rightarrow> retG ()
          | Inr m \<Rightarrow> ignoreG (extG (SetTokenMapByUidPid (gwRedis A) (cUserID new) (cPlatformID new)
                               (kick_tokens (GetToken (cctx new)) m)))))"
    by (auto intro!: world_only_bind world_only_attempt world_only_ignore split: sum.splits)
  then obtain w where "s' = s2\<lparr> gwWorld := w \<rparr>" using world_onlyD rest by blast
  with kick_all_run [OF kick assms(2)] True show ?thesis by (cases s) (auto simp: kicked_def)
qed

lemma multiTerminalLoginChecker_run:
  assumes "multiTerminalLoginChecker A cfg ok cs new s = (Ok x, s')" "distinct cs"
  shows "\<exists>w. s' = (if ok \<and> (MultiLoginPolicy cfg = AllLoginButSameTermKick
       \<or> MultiLoginPolicy cfg = PCAndOther \<and> PlatformIDToClass (cPlatformID new) \<noteq> TerminalPC)
     then kicked (cUserID new) cs w s else s\<lparr> gwWorld := w \<rparr>)"
  using kick_same_terminal_run [of A ok cs new s x s'] assms same_world [of s]
  by (auto simp: multiTerminalLoginChecker_def Let_def retG_def split: if_splits)

section \<open>The invariant\<close>

abbreviation live :: "'w gateway \<Rightarrow> cref set" where
  "live s \<equiv> um.all_conns (gwClients s)"

definition gw_wf :: "'w gateway \<Rightarrow> bool" where
  "gw_wf s \<longleftrightarrow> UserMap_wf (gwClients s)
     \<and> (\<forall>u. distinct (UserMap_conns (gwClients s) u))
     \<and> (\<forall>u. \<forall>c \<in> set (UserMap_conns (gwClients s) u). cUserID (gwHeap s c) = u \<and> c < gwNext s)
     \<and> (\<forall>c < gwNext s. cclosed (gwHeap s c) \<or> c \<in> live s \<or> c \<in> set (registerChan s))
     \<and> distinct (unregisterChan s) \<and> (\<forall>c \<in> set (unregisterChan s). c < gwNext s \<and> cclosed (gwHeap s c))
     \<and> (\<forall>c \<in> live s. cclosed (gwHeap s c) \<longrightarrow> c \<in> set (unregisterChan s))
     \<and> distinct (registerChan s)
     \<and> (\<forall>c \<in> set (registerChan s). c < gwNext s \<and> \<not> cclosed (gwHeap s c) \<and> c \<notin> live s)
     \<and> distinct (clientPool s)
     \<and> (\<forall>c \<in> set (clientPool s). c < gwNext s \<and> cclosed (gwHeap s c) \<and> c \<notin> live s \<and> c \<notin> set (unregisterChan s))
     \<and> inj_on (\<lambda>c. addr (gwHeap s c)) {..<gwNext s}
     \<and> (\<forall>k \<in> set (kickHandlerChan s). distinct (khOldClients k) \<and> (\<forall>c \<in> set (khOldClients k).
          c < gwNext s \<and> c \<notin> set (registerChan s) \<and> cUserID (gwHeap s c) = cUserID (khNewClient k)))"

lemma conns_user:
  "gw_wf s \<Longrightarrow> c \<in> set (UserMap_conns (gwClients s) u) \<Longrightarrow> cUserID (gwHeap s c) = u \<and> c < gwNext s"
  unfolding gw_wf_def by blast

lemma live_conns: "gw_wf s \<Longrightarrow> c \<in> live s \<Longrightarrow> c \<in> set (UserMap_conns (gwClients s) (cUserID (gwHeap s c)))"
  by (auto simp: um.all_conns_def dest: conns_user)

lemma live_bound: "gw_wf s \<Longrightarrow> c \<in> live s \<Longrightarrow> c < gwNext s"
  by (auto simp: um.all_conns_def dest: conns_user)

lemma addr_inj: "gw_wf s \<Longrightarrow> inj_on (\<lambda>c. addr (gwHeap s c)) {..<gwNext s}"
  unfolding gw_wf_def by blast

lemma live_finite: "gw_wf s \<Longrightarrow> finite (live s)"
  by (rule finite_subset [of _ "{..<gwNext s}"]) (auto dest: live_bound)

lemma users_finite:
  assumes "gw_wf s"
  shows "finite (um.users (gwClients s))"
proof (rule finite_subset)
  show "um.users (gwClients s) \<subseteq> (\<lambda>c. cUserID (gwHeap s c)) ` {..<gwNext s}"
  proof
    fix u assume "u \<in> um.users (gwClients s)"
    then have "hd (UserMap_conns (gwClients s) u) \<in> set (UserMap_conns (gwClients s) u)" by (simp add: um.users_def)
    with conns_user [OF assms this] show "u \<in> (\<lambda>c. cUserID (gwHeap s c)) ` {..<gwNext s}"
      by (intro image_eqI [of _ _ "hd (UserMap_conns (gwClients s) u)"]) auto
  qed
qed simp

text \<open>Removing clients by their addresses removes exactly them.\<close>

lemma conns_deleteClients:
  assumes "gw_wf s" "\<forall>c \<in> set cs. c < gwNext s"
  shows "UserMap_conns (fst (UserMap_deleteClients (gwHeap s) (gwClients s) u cs))
     = (UserMap_conns (gwClients s))(u := filter (\<lambda>c. c \<notin> set cs) (UserMap_conns (gwClients s) u))"
proof -
  have "addr (gwHeap s c) \<in> (\<lambda>c. addr (gwHeap s c)) ` set cs \<longleftrightarrow> c \<in> set cs"
    if "c \<in> set (UserMap_conns (gwClients s) u)" for c
    using assms that conns_user [OF assms(1) that]
    by (intro inj_on_image_mem_iff [OF addr_inj [OF assms(1)]]) auto
  then have "filter (\<lambda>c. addr (gwHeap s c) \<notin> (\<lambda>c. addr (gwHeap s c)) ` set cs) (UserMap_conns (gwClients s) u)
      = filter (\<lambda>c. c \<notin> set cs) (UserMap_conns (gwClients s) u)"
    by (intro filter_cong) auto
  then show ?thesis by (simp add: UserMap_deleteClients_remove um.conns_del)
qed

lemma live_kicked:
  assumes "gw_wf s" "\<forall>c \<in> set cs. c < gwNext s \<and> cUserID (gwHeap s c) = u"
  shows "live (kicked u cs w s) = live s - set cs"
proof -
  have "c \<in> set (UserMap_conns (gwClients s) u)" if "c \<in> live s" "c \<in> set cs" for c
    using live_conns [OF assms(1) that(1)] assms(2) that(2) by auto
  then show ?thesis
    using assms conns_deleteClients [OF assms(1), of cs u] conns_user [OF assms(1)]
    by (auto simp: kicked_def um.all_conns_def split: if_splits)
qed

lemma wf_closed_cases:
  "gw_wf s \<Longrightarrow> c < gwNext s \<Longrightarrow> c \<notin> set (registerChan s) \<Longrightarrow> \<not> cclosed (gwHeap s c) \<Longrightarrow> c \<in> live s"
  "gw_wf s \<Longrightarrow> c \<in> live s \<Longrightarrow> cclosed (gwHeap s c) \<Longrightarrow> c \<in> set (unregisterChan s)"
  unfolding gw_wf_def by blast+

lemma wf_queues:
  "gw_wf s \<Longrightarrow> distinct (unregisterChan s)" "gw_wf s \<Longrightarrow> distinct (registerChan s)" "gw_wf s \<Longrightarrow> distinct (clientPool s)"
  "gw_wf s \<Longrightarrow> c \<in> set (unregisterChan s) \<Longrightarrow> c < gwNext s \<and> cclosed (gwHeap s c)"
  "gw_wf s \<Longrightarrow> c \<in> set (registerChan s) \<Longrightarrow> c < gwNext s \<and> \<not> cclosed (gwHeap s c) \<and> c \<notin> live s"
  "gw_wf s \<Longrightarrow> c \<in> set (clientPool s) \<Longrightarrow> c < gwNext s \<and> cclosed (gwHeap s c) \<and> c \<notin> live s \<and> c \<notin> set (unregisterChan s)"
  "gw_wf s \<Longrightarrow> UserMap_wf (gwClients s)" "gw_wf s \<Longrightarrow> distinct (UserMap_conns (gwClients s) u)"
  "gw_wf s \<Longrightarrow> k \<in> set (kickHandlerChan s) \<Longrightarrow> distinct (khOldClients k) \<and> (\<forall>c \<in> set (khOldClients k).
          c < gwNext s \<and> c \<notin> set (registerChan s) \<and> cUserID (gwHeap s c) = cUserID (khNewClient k))"
  unfolding gw_wf_def by blast+

lemma kicked_sel [simp]:
  "gwHeap (kicked u cs w s) = close_refs cs (gwHeap s)" "gwNext (kicked u cs w s) = gwNext s"
  "registerChan (kicked u cs w s) = registerChan s" "clientPool (kicked u cs w s) = clientPool s"
  "kickHandlerChan (kicked u cs w s) = kickHandlerChan s"
  "unregisterChan (kicked u cs w s) = unregisterChan s @ filter (\<lambda>c. \<not> cclosed (gwHeap s c)) cs"
  "gwClients (kicked u cs w s) = fst (UserMap_deleteClients (gwHeap s) (gwClients s) u cs)"
  "onlineUserNum (kicked u cs w s) = onlineUserNum s" "onlineUserConnNum (kicked u cs w s) = onlineUserConnNum s"
  by (simp_all add: kicked_def)

definition kickable :: "'w gateway \<Rightarrow> string \<Rightarrow> cref list \<Rightarrow> bool" where
  "kickable s u cs \<longleftrightarrow> distinct cs \<and> (\<forall>c \<in> set cs. c < gwNext s \<and> c \<notin> set (registerChan s) \<and> cUserID (gwHeap s c) = u)"

lemma gw_wf_kicked:
  assumes wf: "gw_wf s" and ok: "kickable s u cs"
  shows "gw_wf (kicked u cs w s)"
    and "live (kicked u cs w s) \<union> set (unregisterChan (kicked u cs w s)) = live s \<union> set (unregisterChan s)"
proof -
  let ?t = "kicked u cs w s"
  have lt: "live ?t = live s - set cs" using live_kicked [OF wf] ok by (auto simp: kickable_def)
  have ct: "UserMap_conns (gwClients ?t) = (UserMap_conns (gwClients s))(u := filter (\<lambda>c. c \<notin> set cs) (UserMap_conns (gwClients s) u))"
    using conns_deleteClients [OF wf] ok by (simp add: kickable_def)
  show "live ?t \<union> set (unregisterChan ?t) = live s \<union> set (unregisterChan s)"
    using lt ok wf_closed_cases [OF wf] by (auto simp: kickable_def)
  have "distinct (unregisterChan ?t)"
    using wf_queues(1,4) [OF wf] ok by (auto simp: kickable_def)
  moreover have "\<forall>c < gwNext ?t. cclosed (gwHeap ?t c) \<or> c \<in> live ?t \<or> c \<in> set (registerChan ?t)"
    using lt wf_closed_cases(1) [OF wf] by auto
  moreover have "\<forall>c \<in> live ?t. cclosed (gwHeap ?t c) \<longrightarrow> c \<in> set (unregisterChan ?t)"
    using lt wf_closed_cases(2) [OF wf] by auto
  moreover have "UserMap_wf (gwClients ?t)"
    using um.wf_del [OF wf_queues(7) [OF wf]] by (simp add: UserMap_deleteClients_remove)
  moreover have "\<forall>v. \<forall>c \<in> set (UserMap_conns (gwClients ?t) v). cUserID (gwHeap ?t c) = v \<and> c < gwNext ?t"
    using conns_user [OF wf] ct by auto
  moreover have "\<forall>v. distinct (UserMap_conns (gwClients ?t) v)" using wf_queues(8) [OF wf] ct by auto
  moreover have "\<forall>c \<in> set (unregisterChan ?t). c < gwNext ?t \<and> cclosed (gwHeap ?t c)"
    using wf_queues(4) [OF wf] ok by (auto simp: kickable_def)
  moreover have "\<forall>c \<in> set (registerChan ?t). c < gwNext ?t \<and> \<not> cclosed (gwHeap ?t c) \<and> c \<notin> live ?t"
    using wf_queues(5) [OF wf] ok lt by (auto simp: kickable_def)
  moreover have "\<forall>c \<in> set (clientPool ?t). c < gwNext ?t \<and> cclosed (gwHeap ?t c) \<and> c \<notin> live ?t \<and> c \<notin> set (unregisterChan ?t)"
    using wf_queues(6) [OF wf] lt by auto
  ultimately show "gw_wf ?t"
    unfolding gw_wf_def using wf_queues(2,3,9) [OF wf] addr_inj [OF wf] by simp
qed

lemma kicked_commute: "kicked u cs w (s\<lparr> registerChan := r \<rparr>) = (kicked u cs w s)\<lparr> registerChan := r \<rparr>"
  by (cases s) (simp add: kicked_def)

lemma gw_wf_register:
  fixes s :: "'w gateway" and a b :: int and w :: 'w
  assumes wf: "gw_wf s" and reg: "registerChan s = c # cs"
  defines "t \<equiv> s\<lparr> registerChan := cs, gwClients := UserMap_Set (gwClients s) (cUserID (gwHeap s c)) c,
     onlineUserNum := a, onlineUserConnNum := b, gwWorld := w \<rparr>"
  shows "gw_wf t" and "live t = insert c (live s)" and "c \<notin> live s \<union> set (unregisterChan s)"
proof -
  let ?u = "cUserID (gwHeap s c)"
  have c: "c < gwNext s" "\<not> cclosed (gwHeap s c)" "c \<notin> live s" "c \<notin> set cs" "distinct cs"
    using wf_queues(5) [OF wf, of c] wf_queues(2) [OF wf] reg by auto
  show lt: "live t = insert c (live s)" by (simp add: t_def um.all_conns_set)
  show "c \<notin> live s \<union> set (unregisterChan s)" using c wf_queues(4) [OF wf, of c] by auto
  have ct: "UserMap_conns (gwClients t) = (UserMap_conns (gwClients s))(?u := UserMap_conns (gwClients s) ?u @ [c])"
    by (simp add: t_def um.conns_set)
  have "c \<notin> set (UserMap_conns (gwClients s) ?u)" using c(3) by (auto simp: um.all_conns_def)
  then have "\<forall>v. distinct (UserMap_conns (gwClients t) v)" using wf_queues(8) [OF wf] ct by auto
  moreover have "\<forall>v. \<forall>d \<in> set (UserMap_conns (gwClients t) v). cUserID (gwHeap t d) = v \<and> d < gwNext t"
    using conns_user [OF wf] ct c by (auto simp: t_def)
  moreover have "UserMap_wf (gwClients t)" using um.wf_set [OF wf_queues(7) [OF wf]] by (simp add: t_def)
  moreover have "\<forall>d < gwNext t. cclosed (gwHeap t d) \<or> d \<in> live t \<or> d \<in> set (registerChan t)"
    using wf_closed_cases(1) [OF wf] lt reg by (auto simp: t_def)
  moreover have "\<forall>d \<in> live t. cclosed (gwHeap t d) \<longrightarrow> d \<in> set (unregisterChan t)"
    using wf_closed_cases(2) [OF wf] lt c by (auto simp: t_def)
  moreover have "\<forall>d \<in> set (registerChan t). d < gwNext t \<and> \<not> cclosed (gwHeap t d) \<and> d \<notin> live t"
    using wf_queues(5) [OF wf] c reg lt by (auto simp: t_def)
  moreover have "\<forall>d \<in> set (clientPool t). d < gwNext t \<and> cclosed (gwHeap t d) \<and> d \<notin> live t \<and> d \<notin> set (unregisterChan t)"
    using wf_queues(6) [OF wf] c lt by (auto simp: t_def)
  moreover have "\<forall>k \<in> set (kickHandlerChan t). distinct (khOldClients k) \<and> (\<forall>d \<in> set (khOldClients k).
          d < gwNext t \<and> d \<notin> set (registerChan t) \<and> cUserID (gwHeap t d) = cUserID (khNewClient k))"
    using wf_queues(9) [OF wf] reg by (auto simp: t_def)
  ultimately show "gw_wf t"
    unfolding gw_wf_def using wf_queues(1,3,4) [OF wf] addr_inj [OF wf] c(5) by (simp add: t_def)
qed

lemma gw_wf_unregister:
  fixes s :: "'w gateway" and a b :: int and w :: 'w
  assumes wf: "gw_wf s" and un: "unregisterChan s = c # cs"
  defines "t \<equiv> s\<lparr> unregisterChan := cs, clientPool := clientPool s @ [c],
     gwClients := fst (UserMap_delete (gwHeap s) (gwClients s) (cUserID (gwHeap s c)) (addr (gwHeap s c))),
     onlineUserNum := a, onlineUserConnNum := b, gwWorld := w \<rparr>"
  shows "gw_wf t" and "live t \<union> set cs = (live s \<union> set (unregisterChan s)) - {c}" and "live t = live s - {c}"
proof -
  let ?u = "cUserID (gwHeap s c)"
  have c: "c < gwNext s" "cclosed (gwHeap s c)" "c \<notin> set cs" "distinct cs"
    using wf_queues(4) [OF wf, of c] wf_queues(1) [OF wf] un by auto
  have same: "UserMap_delete (gwHeap s) (gwClients s) ?u (addr (gwHeap s c)) = UserMap_deleteClients (gwHeap s) (gwClients s) ?u [c]"
    by (simp add: UserMap_delete_remove UserMap_deleteClients_remove)
  have ct: "UserMap_conns (gwClients t) = (UserMap_conns (gwClients s))(?u := filter (\<lambda>d. d \<noteq> c) (UserMap_conns (gwClients s) ?u))"
    using conns_deleteClients [OF wf, of "[c]" ?u] c by (simp add: t_def same)
  show lt: "live t = live s - {c}"
    using live_kicked [OF wf, of "[c]" ?u] c by (simp add: t_def same)
  then show "live t \<union> set cs = (live s \<union> set (unregisterChan s)) - {c}" using c un by auto
  have "UserMap_wf (gwClients t)"
    using um.wf_del [OF wf_queues(7) [OF wf]] by (simp add: t_def UserMap_delete_remove)
  moreover have "\<forall>v. \<forall>d \<in> set (UserMap_conns (gwClients t) v). cUserID (gwHeap t d) = v \<and> d < gwNext t"
    using conns_user [OF wf] ct by (auto simp: t_def)
  moreover have "\<forall>v. distinct (UserMap_conns (gwClients t) v)" using wf_queues(8) [OF wf] ct by auto
  moreover have "\<forall>d < gwNext t. cclosed (gwHeap t d) \<or> d \<in> live t \<or> d \<in> set (registerChan t)"
    using wf_closed_cases(1) [OF wf] lt c by (auto simp: t_def)
  moreover have "\<forall>d \<in> live t. cclosed (gwHeap t d) \<longrightarrow> d \<in> set (unregisterChan t)"
    using wf_closed_cases(2) [OF wf] lt c un by (auto simp: t_def)
  moreover have "\<forall>d \<in> set (unregisterChan t). d < gwNext t \<and> cclosed (gwHeap t d)"
    using wf_queues(4) [OF wf] un by (auto simp: t_def)
  moreover have "\<forall>d \<in> set (registerChan t). d < gwNext t \<and> \<not> cclosed (gwHeap t d) \<and> d \<notin> live t"
    using wf_queues(5) [OF wf] lt by (auto simp: t_def)
  moreover have "\<forall>d \<in> set (clientPool t). d < gwNext t \<and> cclosed (gwHeap t d) \<and> d \<notin> live t \<and> d \<notin> set (unregisterChan t)"
    using wf_queues(6) [OF wf] c lt un by (auto simp: t_def)
  moreover have "distinct (clientPool t)" using wf_queues(3) [OF wf] wf_queues(6) [OF wf, of c] un by (auto simp: t_def)
  ultimately show "gw_wf t"
    unfolding gw_wf_def using wf_queues(2,9) [OF wf] addr_inj [OF wf] c(4) by (simp add: t_def)
qed

lemma gw_wf_closed:
  fixes s :: "'w gateway" and w :: 'w
  assumes wf: "gw_wf s" and c: "c < gwNext s" "c \<notin> set (registerChan s)"
  defines "t \<equiv> s\<lparr> gwHeap := close_refs [c] (gwHeap s),
     unregisterChan := unregisterChan s @ (if cclosed (gwHeap s c) then [] else [c]), gwWorld := w \<rparr>"
  shows "gw_wf t" and "live t \<union> set (unregisterChan t) = live s \<union> set (unregisterChan s)"
proof -
  have lv: "\<not> cclosed (gwHeap s c) \<Longrightarrow> c \<in> live s" using wf_closed_cases(1) [OF wf] c by blast
  then show "live t \<union> set (unregisterChan t) = live s \<union> set (unregisterChan s)" by (auto simp: t_def)
  have "\<forall>v. \<forall>d \<in> set (UserMap_conns (gwClients t) v). cUserID (gwHeap t d) = v \<and> d < gwNext t"
    using conns_user [OF wf] by (auto simp: t_def)
  moreover have "\<forall>d < gwNext t. cclosed (gwHeap t d) \<or> d \<in> live t \<or> d \<in> set (registerChan t)"
    using wf_closed_cases(1) [OF wf] by (auto simp: t_def)
  moreover have "\<forall>d \<in> live t. cclosed (gwHeap t d) \<longrightarrow> d \<in> set (unregisterChan t)"
    using wf_closed_cases(2) [OF wf] by (auto simp: t_def)
  moreover have "\<forall>d \<in> set (unregisterChan t). d < gwNext t \<and> cclosed (gwHeap t d)"
    using wf_queues(4) [OF wf] c by (auto simp: t_def)
  moreover have "distinct (unregisterChan t)" using wf_queues(1,4) [OF wf] by (auto simp: t_def)
  moreover have "\<forall>d \<in> set (registerChan t). d < gwNext t \<and> \<not> cclosed (gwHeap t d) \<and> d \<notin> live t"
    using wf_queues(5) [OF wf] c by (auto simp: t_def)
  moreover have "\<forall>d \<in> set (clientPool t). d < gwNext t \<and> cclosed (gwHeap t d) \<and> d \<notin> live t \<and> d \<notin> set (unregisterChan t)"
    using wf_queues(6) [OF wf] lv by (auto simp: t_def)
  ultimately show "gw_wf t"
    unfolding gw_wf_def using wf_queues(2,3,7,8,9) [OF wf] addr_inj [OF wf] by (simp add: t_def)
qed

text \<open>A new connection: a pooled client is reset, or a new one allocated, and queued.\<close>

lemma gw_wf_admit:
  fixes s :: "'w gateway"
  assumes wf: "gw_wf s" and run: "admit ctx conn args pooled s = (Ok c, s')"
    and pool: "\<forall>d. pooled = Some d \<longrightarrow> d \<in> set (clientPool s) \<and> (\<forall>k \<in> set (kickHandlerChan s). d \<notin> set (khOldClients k))"
    and fresh: "RemoteAddr ctx \<notin> (\<lambda>d. addr (gwHeap s d)) ` {..<gwNext s}"
  shows "gw_wf s'" and "gwClients s' = gwClients s" and "unregisterChan s' = unregisterChan s"
    and "\<forall>d \<in> live s. gwHeap s' d = gwHeap s d"
proof -
  define cl where "cl = ResetClient ctx conn (GetBackground ctx) (waCompression args) (waToken args)"
  have cl: "\<not> cclosed cl" "addr cl = RemoteAddr ctx" by (auto simp: cl_def ResetClient_def addr_def GetRemoteAddr_def)
  have c: "c = (case pooled of Some d \<Rightarrow> d | None \<Rightarrow> gwNext s)"
    and s': "s' = s\<lparr> gwHeap := (gwHeap s)(c := cl), gwNext := (case pooled of Some _ \<Rightarrow> gwNext s | None \<Rightarrow> Suc (gwNext s)),
       clientPool := (case pooled of Some c \<Rightarrow> remove1 c (clientPool s) | None \<Rightarrow> clientPool s),
       registerChan := registerChan s @ [c] \<rparr>"
    using run by (auto simp: admit_def Let_def cl_def split: if_splits)
  show gc: "gwClients s' = gwClients s" "unregisterChan s' = unregisterChan s" by (simp_all add: s')
  have nc: "c \<notin> live s" "c \<notin> set (unregisterChan s)" "c \<notin> set (registerChan s)" "c \<notin> set (clientPool s')"
    "\<forall>k \<in> set (kickHandlerChan s). c \<notin> set (khOldClients k)" "c < gwNext s'"
    using pool wf_queues(3,4,5,6,9) [OF wf] live_bound [OF wf]
    by (fastforce simp: c s' split: option.splits)+
  have bound: "gwNext s \<le> gwNext s'" "\<And>d. d < gwNext s' \<Longrightarrow> d \<noteq> c \<Longrightarrow> d < gwNext s"
    by (auto simp: s' c split: option.splits)
  have hs: "gwHeap s' d = (if d = c then cl else gwHeap s d)" for d by (simp add: s')
  show "\<forall>d \<in> live s. gwHeap s' d = gwHeap s d" using nc(1) by (auto simp: hs)
  have "\<forall>v. \<forall>d \<in> set (UserMap_conns (gwClients s') v). cUserID (gwHeap s' d) = v \<and> d < gwNext s'"
  proof (intro allI ballI)
    fix v d assume "d \<in> set (UserMap_conns (gwClients s') v)"
    then have "d \<in> live s" "cUserID (gwHeap s d) = v \<and> d < gwNext s"
      using conns_user [OF wf] by (auto simp: gc um.all_conns_def)
    then show "cUserID (gwHeap s' d) = v \<and> d < gwNext s'" using nc(1) bound(1) by (auto simp: hs)
  qed
  moreover have "\<forall>d < gwNext s'. cclosed (gwHeap s' d) \<or> d \<in> live s' \<or> d \<in> set (registerChan s')"
    using wf_closed_cases(1) [OF wf] bound(2) by (auto simp: hs gc) (auto simp: s')
  moreover have "\<forall>d \<in> set (unregisterChan s'). d < gwNext s' \<and> cclosed (gwHeap s' d)"
    using wf_queues(4) [OF wf] nc(2) bound(1) by (auto simp: hs gc intro: less_le_trans)
  moreover have "\<forall>d \<in> live s'. cclosed (gwHeap s' d) \<longrightarrow> d \<in> set (unregisterChan s')"
    using wf_closed_cases(2) [OF wf] cl by (auto simp: hs gc)
  moreover have "\<forall>d \<in> set (registerChan s'). d < gwNext s' \<and> \<not> cclosed (gwHeap s' d) \<and> d \<notin> live s'"
    using wf_queues(5) [OF wf] nc cl bound(1) by (auto simp: hs gc) (auto simp: s' intro: less_SucI split: option.splits)
  moreover have "\<forall>d \<in> set (clientPool s'). d < gwNext s' \<and> cclosed (gwHeap s' d) \<and> d \<notin> live s' \<and> d \<notin> set (unregisterChan s')"
  proof
    fix d assume d: "d \<in> set (clientPool s')"
    then have "d \<in> set (clientPool s)" "d \<noteq> c" using nc(4) by (auto simp: s' split: option.splits dest: subsetD [OF set_remove1_subset])
    with wf_queues(6) [OF wf] bound(1) show "d < gwNext s' \<and> cclosed (gwHeap s' d) \<and> d \<notin> live s' \<and> d \<notin> set (unregisterChan s')"
      by (auto simp: hs gc intro: less_le_trans)
  qed
  moreover have "inj_on (\<lambda>d. addr (gwHeap s' d)) {..<gwNext s'}"
  proof -
    have "addr (gwHeap s d) \<noteq> RemoteAddr ctx" if "d < gwNext s" for d
    proof
      assume "addr (gwHeap s d) = RemoteAddr ctx"
      then have "RemoteAddr ctx \<in> (\<lambda>d. addr (gwHeap s d)) ` {..<gwNext s}"
        using that by (intro image_eqI [of _ _ d]) auto
      with fresh show False by contradiction
    qed
    note na = this
    show ?thesis
    proof (rule inj_onI)
      fix x y assume "x \<in> {..<gwNext s'}" "y \<in> {..<gwNext s'}" "addr (gwHeap s' x) = addr (gwHeap s' y)"
      then show "x = y"
        using na [of x] na [of y] inj_onD [OF addr_inj [OF wf], of x y] cl(2) bound(2) [of x] bound(2) [of y]
        by (auto simp: hs split: if_splits)
    qed
  qed
  moreover have "\<forall>k \<in> set (kickHandlerChan s'). distinct (khOldClients k) \<and> (\<forall>d \<in> set (khOldClients k).
          d < gwNext s' \<and> d \<notin> set (registerChan s') \<and> cUserID (gwHeap s' d) = cUserID (khNewClient k))"
  proof
    fix k assume "k \<in> set (kickHandlerChan s')"
    then have k: "k \<in> set (kickHandlerChan s)" by (simp add: s')
    show "distinct (khOldClients k) \<and> (\<forall>d \<in> set (khOldClients k).
          d < gwNext s' \<and> d \<notin> set (registerChan s') \<and> cUserID (gwHeap s' d) = cUserID (khNewClient k))"
      using wf_queues(9) [OF wf k] nc(5) k bound(1) by (auto simp: hs) (auto simp: s' intro: less_le_trans)
  qed
  ultimately show "gw_wf s'"
    unfolding gw_wf_def using wf_queues(1,2,3,7,8) [OF wf] nc(3)
    by (simp add: gc) (simp add: s' distinct_remove1 split: option.splits)
qed

end
