(* ===== verification/GatewayInv.thy ===== *)
theory GatewayInv
  imports GatewayFacts
begin

text \<open>
  The gateway as a state machine: under every interleaving of the steps below the connection count
  is exact, no connection is unregistered twice, and a kicking policy leaves one connection per
  terminal.
\<close>

section \<open>The state machine\<close>

text \<open>
  A step of the gateway: a connection is accepted, the server's goroutine serves a channel, the
  reader of a registered connection closes it, an RPC kicks a connection or announces a login on
  another node, or a client reports its background state.  Each of these is one step: the
  loads and stores of the map and of the closed flag inside one are not interleaved with those of another,
  so two goroutines that close a connection at the same moment are no steps of this relation
  (\<open>double_close_miscounts\<close> is about them).  Remote addresses identify connections: that of a new
  connection is assumed to differ from those of all earlier clients.  Two more schedules are set apart: a
  reader that closes its connection before it is registered (\<open>early_close_ghost\<close>), and a client that is
  recycled while a pending kick still names it.
\<close>

inductive gw_step :: "'w gw_api \<Rightarrow> gw_config \<Rightarrow> 'w gateway \<Rightarrow> 'w gateway \<Rightarrow> bool" for A cfg where
  connect: "admit ctx conn args pooled s = (Ok c, s')
    \<Longrightarrow> \<forall>d. pooled = Some d \<longrightarrow> d \<in> set (clientPool s) \<and> (\<forall>k \<in> set (kickHandlerChan s). d \<notin> set (khOldClients k))
    \<Longrightarrow> RemoteAddr ctx \<notin> (\<lambda>d. addr (gwHeap s d)) ` {..<gwNext s} \<Longrightarrow> gw_step A cfg s s'"
| run: "Run_turn A cfg ch s = (Ok (), s') \<Longrightarrow> gw_step A cfg s s'"
| reader: "close A c s = (Ok (), s') \<Longrightarrow> c < gwNext s \<Longrightarrow> c \<notin> set (registerChan s) \<Longrightarrow> gw_step A cfg s s'"
| kick: "KickUserConn A c s = (r, s') \<Longrightarrow> \<forall>p. r \<noteq> Panic p \<Longrightarrow> c \<in> live s \<Longrightarrow> gw_step A cfg s s'"
| login: "MultiTerminalLoginCheck op u p token s = (Ok (), s') \<Longrightarrow> gw_step A cfg s s'"
| background: "setAppBackgroundStatus A c req s = (r, s') \<Longrightarrow> gw_step A cfg s s'"

definition gw_counts :: "'w gateway \<Rightarrow> bool" where
  "gw_counts s \<longleftrightarrow>
     onlineUserConnNum s = wrap64 (int (card (live s \<union> set (unregisterChan s))))
   \<and> (\<exists>d. onlineUserNum s = wrap64 (int (card (um.users (gwClients s)) + d)))"

definition one_per_terminal :: "'w gateway \<Rightarrow> bool" where
  "one_per_terminal s \<longleftrightarrow> (\<forall>u. distinct (map (\<lambda>c. cPlatformID (gwHeap s c)) (UserMap_conns (gwClients s) u)))"

definition gw_inv :: "gw_config \<Rightarrow> 'w gateway \<Rightarrow> bool" where
  "gw_inv cfg s \<longleftrightarrow> gw_wf s \<and> gw_counts s
     \<and> (MultiLoginPolicy cfg = AllLoginButSameTermKick \<longrightarrow> one_per_terminal s)"

definition gw_init :: "'w \<Rightarrow> 'w gateway" where
  "gw_init w = \<lparr> gwClients = Map.empty, gwHeap = (\<lambda>_. ResetClient newTempContext 0 False False []), gwNext = 0,
     clientPool = [], registerChan = [], unregisterChan = [], kickHandlerChan = [], onlineUserNum = 0,
     onlineUserConnNum = 0, gwWorld = w \<rparr>"

lemma gw_inv_init: "gw_inv cfg (gw_init w)"
proof -
  have "UserMap_conns Map.empty = (\<lambda>_. [])" by (auto simp: UserMap_conns_def)
  then show ?thesis
    by (simp add: gw_inv_def gw_wf_def gw_counts_def gw_init_def one_per_terminal_def UserMap_wf_def um.all_conns_def
        um.users_def wrap64_def exI [of _ 0])
qed

lemma wrap64_step: "add64 (wrap64 x) y = wrap64 (x + y)"
  by (simp add: add64_def wrap64_def mod_simps algebra_simps)

lemma gw_counts_kicked:
  assumes "gw_wf s" "kickable s u cs" "gw_counts s"
  shows "gw_counts (kicked u cs w s)"
proof -
  let ?t = "kicked u cs w s"
  have "um.users (gwClients ?t) = um.users (gwClients s) \<or> (u \<in> um.users (gwClients s) \<and> um.users (gwClients ?t) = um.users (gwClients s) - {u})"
    using um.users_del [OF wf_queues(7) [OF assms(1)], of "\<lambda>c. addr (gwHeap s c) \<in> (\<lambda>c. addr (gwHeap s c)) ` set cs" u]
      um.del_last [OF wf_queues(7) [OF assms(1)], of "\<lambda>c. addr (gwHeap s c) \<in> (\<lambda>c. addr (gwHeap s c)) ` set cs" u]
    by (auto simp: UserMap_deleteClients_remove um.users_def)
  then have "\<exists>e. card (um.users (gwClients s)) = card (um.users (gwClients ?t)) + e"
    using users_finite [OF assms(1)] by (metis add.commute add_0 card_Suc_Diff1 plus_1_eq_Suc)
  then obtain e where "card (um.users (gwClients s)) = card (um.users (gwClients ?t)) + e" by blast
  moreover obtain d where "onlineUserNum s = wrap64 (int (card (um.users (gwClients s)) + d))"
    using assms(3) by (auto simp: gw_counts_def)
  ultimately have "onlineUserNum ?t = wrap64 (int (card (um.users (gwClients ?t)) + (e + d)))" by (simp add: add.assoc)
  then show ?thesis
    using gw_wf_kicked(2) [OF assms(1,2), of w] assms(3) unfolding gw_counts_def by (metis kicked_sel(9))
qed

lemma one_per_terminal_kicked:
  assumes "gw_wf s" "kickable s u cs" "one_per_terminal s"
  shows "one_per_terminal (kicked u cs w s)"
  using assms conns_deleteClients [OF assms(1), of cs u]
  by (auto simp: one_per_terminal_def kickable_def intro: distinct_map_filter)

lemma gw_inv_kicked: "gw_inv cfg s \<Longrightarrow> kickable s u cs \<Longrightarrow> gw_inv cfg (kicked u cs w s)"
  by (auto simp: gw_inv_def gw_wf_kicked gw_counts_kicked one_per_terminal_kicked)

lemma gw_inv_world: "gw_inv cfg s \<Longrightarrow> gw_inv cfg (s\<lparr> gwWorld := w \<rparr>)"
  by (simp add: gw_inv_def gw_wf_def gw_counts_def one_per_terminal_def)

text \<open>Registering the client at the head of the queue, after the kicks.\<close>

lemma gw_counts_register:
  assumes wf: "gw_wf s" and counts: "gw_counts s" and reg: "registerChan s = c # cs"
    and new: "new \<longleftrightarrow> cUserID (gwHeap s c) \<notin> um.users (gwClients s)"
  shows "gw_counts (s\<lparr> registerChan := cs, gwClients := UserMap_Set (gwClients s) (cUserID (gwHeap s c)) c,
     onlineUserNum := (if new then add64 (onlineUserNum s) 1 else onlineUserNum s),
     onlineUserConnNum := add64 (onlineUserConnNum s) 1, gwWorld := w \<rparr>)" (is "gw_counts ?t")
proof -
  let ?u = "cUserID (gwHeap s c)"
  have fin: "finite (live s \<union> set (unregisterChan s))" using live_finite [OF wf] by simp
  have "live ?t \<union> set (unregisterChan ?t) = insert c (live s \<union> set (unregisterChan s))"
    by (simp add: um.all_conns_set)
  then have "card (live ?t \<union> set (unregisterChan ?t)) = Suc (card (live s \<union> set (unregisterChan s)))"
    using card_insert_disjoint [OF fin gw_wf_register(3) [OF wf reg]] by simp
  moreover obtain d where d: "onlineUserNum s = wrap64 (int (card (um.users (gwClients s)) + d))"
    using counts by (auto simp: gw_counts_def)
  have "card (um.users (gwClients ?t)) = (if new then Suc (card (um.users (gwClients s))) else card (um.users (gwClients s)))"
    using new users_finite [OF wf] by (auto simp: um.users_set insert_absorb)
  then have "onlineUserNum ?t = wrap64 (int (card (um.users (gwClients ?t)) + d))"
    using d by (simp add: wrap64_step algebra_simps)
  ultimately show ?thesis
    using counts unfolding gw_counts_def by (auto simp: wrap64_step algebra_simps)
qed

lemma gw_inv_registered:
  assumes inv: "gw_inv cfg s" and reg: "registerChan s = c # cs"
    and new: "new \<longleftrightarrow> cUserID (gwHeap s c) \<notin> um.users (gwClients s)"
    and free: "MultiLoginPolicy cfg = AllLoginButSameTermKick \<longrightarrow>
       (\<forall>d \<in> set (UserMap_conns (gwClients s) (cUserID (gwHeap s c))). cPlatformID (gwHeap s d) \<noteq> cPlatformID (gwHeap s c))"
  shows "gw_inv cfg (s\<lparr> registerChan := cs, gwClients := UserMap_Set (gwClients s) (cUserID (gwHeap s c)) c,
     onlineUserNum := (if new then add64 (onlineUserNum s) 1 else onlineUserNum s),
     onlineUserConnNum := add64 (onlineUserConnNum s) 1, gwWorld := w \<rparr>)"
  using inv gw_wf_register(1) [OF _ reg] gw_counts_register [OF _ _ reg new] free
  by (auto simp: gw_inv_def one_per_terminal_def um.conns_set)

text \<open>
  A registration that returns: the client at the head of the queue joins the map of the state
  in which, under a kicking policy, the other clients of its terminal have been kicked.
\<close>

lemma registerClient_run:
  assumes run: "registerClient A cfg c s = (Ok x, s')" and wf: "UserMap_wf (gwClients s)"
    and dist: "distinct (UserMap_conns (gwClients s) (cUserID (gwHeap s c)))"
  defines "u \<equiv> cUserID (gwHeap s c)" and "p \<equiv> cPlatformID (gwHeap s c)"
  defines "old \<equiv> filter (\<lambda>d. cPlatformID (gwHeap s d) = p) (UserMap_conns (gwClients s) u)"
  defines "kicks \<equiv> UserMap_conns (gwClients s) u \<noteq> [] \<and> old \<noteq> [] \<and> (MultiLoginPolicy cfg = AllLoginButSameTermKick
       \<or> MultiLoginPolicy cfg = PCAndOther \<and> PlatformIDToClass p \<noteq> TerminalPC)"
  shows "\<exists>w w'. s' = (let s1 = (if kicks then kicked u old w s else s) in
     s1\<lparr> gwClients := UserMap_Set (gwClients s1) u c,
        onlineUserNum := (if UserMap_conns (gwClients s) u = [] then add64 (onlineUserNum s1) 1 else onlineUserNum s1),
        onlineUserConnNum := add64 (onlineUserConnNum s1) 1, gwWorld := w' \<rparr>)"
proof -
  let ?conns = "UserMap_conns (gwClients s) u"
  let ?join = "\<lambda>s. s\<lparr> gwClients := UserMap_Set (gwClients s) u c, onlineUserConnNum := add64 (onlineUserConnNum s) 1 \<rparr>"
  let ?new = "\<lambda>s. s\<lparr> gwClients := UserMap_Set (gwClients s) u c, onlineUserNum := add64 (onlineUserNum s) 1,
     onlineUserConnNum := add64 (onlineUserConnNum s) 1 \<rparr>"
  have get: "UserMap_Get (gwHeap s) (gwClients s) u p = (old, ?conns \<noteq> [], old \<noteq> [])"
    using UserMap_Get_conns [OF wf] by (simp add: old_def Let_def)
  have "bindG (if ?conns = [] then modG ?new else
              bindG (multiTerminalLoginChecker A cfg (old \<noteq> []) old (gwHeap s c)) (\<lambda>_. modG ?join)) (\<lambda>_.
       bindG (if Zookeeper cfg then ignoreG (sendUserOnlineInfoToOtherNode A cfg (gwHeap s c)) else retG ()) (\<lambda>_.
       SetUserOnlineStatus A (gwHeap s c) Online)) s = (Ok x, s')"
    using run get unfolding u_def p_def
    by (simp add: registerClient_def clientG_def bindG_gets split del: if_split)
  then obtain y s1 where
    first: "(if ?conns = [] then modG ?new else
              bindG (multiTerminalLoginChecker A cfg (old \<noteq> []) old (gwHeap s c)) (\<lambda>_. modG ?join)) s = (Ok y, s1)"
    and rest: "bindG (if Zookeeper cfg then ignoreG (sendUserOnlineInfoToOtherNode A cfg (gwHeap s c)) else retG ()) (\<lambda>_.
       SetUserOnlineStatus A (gwHeap s c) Online) s1 = (Ok x, s')"
    by (rule bindG_OkE)
  have "world_only (bindG (if Zookeeper cfg then ignoreG (sendUserOnlineInfoToOtherNode A cfg (gwHeap s c)) else retG ()) (\<lambda>_.
       SetUserOnlineStatus A (gwHeap s c) Online))"
    by (auto intro!: world_only_bind world_only_ignore world_only_status world_only_other_nodes)
  then obtain w' where s': "s' = s1\<lparr> gwWorld := w' \<rparr>" using world_onlyD rest by blast
  show ?thesis
  proof (cases "?conns = []")
    case True
    then have "s1 = ?new s" using first by (simp add: modG_def)
    then show ?thesis using True s' by (auto simp: kicks_def Let_def)
  next
    case False
    then obtain z s2 where chk: "multiTerminalLoginChecker A cfg (old \<noteq> []) old (gwHeap s c) s = (Ok z, s2)"
      and s1: "s1 = ?join s2" using first by (auto simp: modG_def elim: bindG_OkE)
    have "distinct old" using dist by (simp add: old_def u_def)
    from multiTerminalLoginChecker_run [OF chk this] obtain w where
      "s2 = (if old \<noteq> [] \<and> (MultiLoginPolicy cfg = AllLoginButSameTermKick
          \<or> MultiLoginPolicy cfg = PCAndOther \<and> PlatformIDToClass (cPlatformID (gwHeap s c)) \<noteq> TerminalPC)
        then kicked (cUserID (gwHeap s c)) old w s else s\<lparr> gwWorld := w \<rparr>)"
      by blast
    then have "s2 = (if kicks then kicked u old w s else s\<lparr> gwWorld := w \<rparr>)"
      using False by (simp add: kicks_def u_def p_def)
    then have "s' = (let s1 = (if kicks then kicked u old w s else s) in
     s1\<lparr> gwClients := UserMap_Set (gwClients s1) u c,
        onlineUserNum := (if ?conns = [] then add64 (onlineUserNum s1) 1 else onlineUserNum s1),
        onlineUserConnNum := add64 (onlineUserConnNum s1) 1, gwWorld := w' \<rparr>)"
      using s' s1 False by (cases s) (auto simp: Let_def kicked_def)
    then show ?thesis by blast
  qed
qed

lemma gw_inv_register:
  assumes inv: "gw_inv cfg s" and reg: "registerChan s = c # cs"
    and run: "registerClient A cfg c (s\<lparr> registerChan := cs \<rparr>) = (Ok x, s')"
  shows "gw_inv cfg s'"
proof -
  define u where "u = cUserID (gwHeap s c)"
  define p where "p = cPlatformID (gwHeap s c)"
  define old where "old = filter (\<lambda>d. cPlatformID (gwHeap s d) = p) (UserMap_conns (gwClients s) u)"
  have wf: "gw_wf s" using inv by (simp add: gw_inv_def)
  have c: "c \<notin> live s" using wf_queues(5) [OF wf, of c] reg by simp
  have ok: "kickable s u old" 
    using wf_queues(5,8) [OF wf] conns_user [OF wf]
    by (auto simp: kickable_def old_def um.all_conns_def)
  define kicks where "kicks \<longleftrightarrow> UserMap_conns (gwClients s) u \<noteq> [] \<and> old \<noteq> [] \<and> (MultiLoginPolicy cfg = AllLoginButSameTermKick
       \<or> MultiLoginPolicy cfg = PCAndOther \<and> PlatformIDToClass p \<noteq> TerminalPC)"
  have "\<exists>w w'. s' = (let s1 = (if kicks then kicked u old w (s\<lparr> registerChan := cs \<rparr>) else s\<lparr> registerChan := cs \<rparr>) in
     s1\<lparr> gwClients := UserMap_Set (gwClients s1) u c,
        onlineUserNum := (if UserMap_conns (gwClients s) u = [] then add64 (onlineUserNum s1) 1 else onlineUserNum s1),
        onlineUserConnNum := add64 (onlineUserConnNum s1) 1, gwWorld := w' \<rparr>)"
    using registerClient_run [OF run] wf_queues(7,8) [OF wf]
    by (simp add: u_def p_def old_def kicks_def cong: if_cong)
  then obtain w w' where s': "s' = (let s1 = (if kicks then kicked u old w (s\<lparr> registerChan := cs \<rparr>) else s\<lparr> registerChan := cs \<rparr>) in
     s1\<lparr> gwClients := UserMap_Set (gwClients s1) u c,
        onlineUserNum := (if UserMap_conns (gwClients s) u = [] then add64 (onlineUserNum s1) 1 else onlineUserNum s1),
        onlineUserConnNum := add64 (onlineUserConnNum s1) 1, gwWorld := w' \<rparr>)"
    by blast
  define s1 where "s1 = (if kicks then kicked u old w s else s)"
  have inv1: "gw_inv cfg s1" using inv gw_inv_kicked [OF inv ok] by (simp add: s1_def)
  have r1: "registerChan s1 = c # cs" and h1: "cUserID (gwHeap s1 c) = u" "cPlatformID (gwHeap s1 c) = p"
    "\<And>d. cPlatformID (gwHeap s1 d) = cPlatformID (gwHeap s d)"
    using reg by (auto simp: s1_def u_def p_def)
  have conns1: "UserMap_conns (gwClients s1) u = (if kicks then filter (\<lambda>d. d \<notin> set old) (UserMap_conns (gwClients s) u)
      else UserMap_conns (gwClients s) u)"
    using conns_deleteClients [OF wf, of old u] ok by (auto simp: s1_def kickable_def)
  have free: "MultiLoginPolicy cfg = AllLoginButSameTermKick \<longrightarrow>
       (\<forall>d \<in> set (UserMap_conns (gwClients s1) (cUserID (gwHeap s1 c))). cPlatformID (gwHeap s1 d) \<noteq> cPlatformID (gwHeap s1 c))"
    unfolding h1 conns1 by (auto simp: kicks_def old_def filter_empty_conv p_def)
  define new where "new \<longleftrightarrow> cUserID (gwHeap s1 c) \<notin> um.users (gwClients s1)"
  have num: "gw_counts (s1\<lparr> onlineUserNum := onlineUserNum s1 \<rparr>)" using inv1 by (simp add: gw_inv_def)
  let ?t = "s1\<lparr> registerChan := cs, gwClients := UserMap_Set (gwClients s1) (cUserID (gwHeap s1 c)) c,
     onlineUserNum := (if new then add64 (onlineUserNum s1) 1 else onlineUserNum s1),
     onlineUserConnNum := add64 (onlineUserConnNum s1) 1, gwWorld := w' \<rparr>"
  have invt: "gw_inv cfg ?t" by (rule gw_inv_registered [OF inv1 r1 new_def free])
  show ?thesis
  proof (cases "new \<longleftrightarrow> UserMap_conns (gwClients s) u = []")
    case True
    then have "s' = ?t" using s' h1 by (cases s) (auto simp: s1_def Let_def kicked_commute)
    then show ?thesis using invt by simp
  next
    case False
    then have f: "new" "UserMap_conns (gwClients s) u \<noteq> []"
      by (auto simp: new_def h1 um.users_def conns1 split: if_splits)
    then have kicks using conns1 by (auto simp: new_def h1 um.users_def split: if_splits)
    have "s' = ?t\<lparr> onlineUserNum := onlineUserNum s1 \<rparr>"
      using s' h1 f \<open>kicks\<close> by (cases s) (auto simp: s1_def Let_def kicked_commute)
    moreover have "\<exists>d. onlineUserNum s1 = wrap64 (int (card (um.users (gwClients ?t)) + d))"
    proof -
      obtain d where d: "onlineUserNum s = wrap64 (int (card (um.users (gwClients s)) + d))"
        using inv by (auto simp: gw_inv_def gw_counts_def)
      have "um.users (gwClients ?t) = um.users (gwClients s)"
        using f \<open>kicks\<close> conns_deleteClients [OF wf, of old u] ok h1
        by (auto simp: um.users_def um.conns_set s1_def kickable_def)
      then show ?thesis using d by (auto simp: s1_def)
    qed
    ultimately show ?thesis using invt by (auto simp: gw_inv_def gw_wf_def gw_counts_def one_per_terminal_def)
  qed
qed

lemma gw_inv_unregister:
  assumes inv: "gw_inv cfg s" and un: "unregisterChan s = c # cs"
    and run: "unregisterClient A c (s\<lparr> unregisterChan := cs \<rparr>) = (Ok x, s')"
  shows "gw_inv cfg s'"
proof -
  let ?u = "cUserID (gwHeap s c)" and ?del = "UserMap_delete (gwHeap s) (gwClients s) (cUserID (gwHeap s c)) (addr (gwHeap s c))"
  have wf: "gw_wf s" and counts: "gw_counts s" using inv by (simp_all add: gw_inv_def)
  let ?s1 = "s\<lparr> unregisterChan := cs, gwClients := fst ?del,
       onlineUserNum := (if snd ?del then add64 (onlineUserNum s) (-1) else onlineUserNum s),
       onlineUserConnNum := add64 (onlineUserConnNum s) (-1) \<rparr>"
  from run obtain y s2 where st: "SetUserOnlineStatus A (gwHeap s c) Offline ?s1 = (Ok y, s2)"
    and s': "s' = s2\<lparr> clientPool := clientPool s2 @ [c] \<rparr>"
    by (auto simp: unregisterClient_def clientG_def bindG_gets bindG_mod modG_def case_prod_beta elim!: bindG_OkE cong: if_cong)
  obtain w where "s2 = ?s1\<lparr> gwWorld := w \<rparr>" using world_onlyD [OF world_only_status st] by blast
  then have t: "s' = s\<lparr> unregisterChan := cs, clientPool := clientPool s @ [c], gwClients := fst ?del,
     onlineUserNum := (if snd ?del then add64 (onlineUserNum s) (-1) else onlineUserNum s),
     onlineUserConnNum := add64 (onlineUserConnNum s) (-1), gwWorld := w \<rparr>" using s' by (cases s) simp
  note W = gw_wf_unregister [OF wf un, where a = "if snd ?del then add64 (onlineUserNum s) (-1) else onlineUserNum s"
      and b = "add64 (onlineUserConnNum s) (-1)" and w = w, folded t]
  have fin: "finite (live s \<union> set (unregisterChan s))" using live_finite [OF wf] by simp
  have "card (live s' \<union> set cs) + 1 = card (live s \<union> set (unregisterChan s))"
    using W(2) card_Suc_Diff1 [OF fin, of c] un by simp
  then have n: "int (card (live s' \<union> set (unregisterChan s'))) = int (card (live s \<union> set (unregisterChan s))) - 1"
    by (simp add: t)
  obtain d where d: "onlineUserNum s = wrap64 (int (card (um.users (gwClients s)) + d))"
    using counts by (auto simp: gw_counts_def)
  have us: "um.users (gwClients s') = (if snd ?del then um.users (gwClients s) - {?u} else um.users (gwClients s))"
    "snd ?del \<Longrightarrow> ?u \<in> um.users (gwClients s)"
    using um.users_del [OF wf_queues(7) [OF wf]] um.del_last [OF wf_queues(7) [OF wf]]
    by (simp_all add: t UserMap_delete_remove um.users_def)
  have "onlineUserNum s' = wrap64 (int (card (um.users (gwClients s')) + d))"
  proof (cases "snd ?del")
    case True
    have "card (um.users (gwClients s')) + 1 = card (um.users (gwClients s))"
      using us True card_Suc_Diff1 [OF users_finite [OF wf], of ?u] by simp
    then have e: "int (card (um.users (gwClients s)) + d) + - 1 = int (card (um.users (gwClients s')) + d)" by linarith
    have "onlineUserNum s' = add64 (onlineUserNum s) (- 1)" using True by (simp add: t)
    also have "\<dots> = wrap64 (int (card (um.users (gwClients s)) + d) + - 1)" by (simp only: d wrap64_step)
    finally show ?thesis by (simp only: e)
  qed (use us d in \<open>simp add: t\<close>)
  moreover have "onlineUserConnNum s' = wrap64 (int (card (live s' \<union> set (unregisterChan s'))))"
    using counts n by (simp add: gw_counts_def t wrap64_step)
  ultimately have "gw_counts s'" unfolding gw_counts_def by blast
  moreover have "one_per_terminal s \<Longrightarrow> one_per_terminal s'"
    by (auto simp: one_per_terminal_def t UserMap_delete_remove um.conns_del intro: distinct_map_filter)
  ultimately show ?thesis using inv W(1) by (auto simp: gw_inv_def)
qed

lemma gw_inv_kick_turn:
  assumes inv: "gw_inv cfg s" and ks: "kickHandlerChan s = k # ks"
    and run: "multiTerminalLoginChecker A cfg (khClientOK k) (khOldClients k) (khNewClient k)
       (s\<lparr> kickHandlerChan := ks \<rparr>) = (Ok x, s')"
  shows "gw_inv cfg s'"
proof -
  let ?s1 = "s\<lparr> kickHandlerChan := ks \<rparr>"
  have wf: "gw_wf s" using inv by (simp add: gw_inv_def)
  have inv1: "gw_inv cfg ?s1" using inv ks by (auto simp: gw_inv_def gw_wf_def gw_counts_def one_per_terminal_def)
  have ok: "kickable ?s1 (cUserID (khNewClient k)) (khOldClients k)"
    using wf_queues(9) [OF wf, of k] ks by (auto simp: kickable_def)
  show ?thesis
    using multiTerminalLoginChecker_run [OF run] gw_inv_kicked [OF inv1 ok] gw_inv_world [OF inv1] ok
    by (auto simp: kickable_def split: if_splits)
qed

lemma gw_inv_queue_kick:
  "gw_inv cfg s \<Longrightarrow> kickable s (cUserID (khNewClient k)) (khOldClients k)
   \<Longrightarrow> gw_inv cfg (s\<lparr> kickHandlerChan := kickHandlerChan s @ [k] \<rparr>)"
  by (simp add: gw_inv_def gw_wf_def gw_counts_def one_per_terminal_def kickable_def ball_Un)

lemma setAppBackgroundStatus_run:
  assumes "setAppBackgroundStatus A c req s = (r, s')"
  shows "\<exists>h w. s' = s\<lparr> gwHeap := h, gwWorld := w \<rparr> \<and> (\<forall>d. cclosed (h d) = cclosed (gwHeap s d)
     \<and> cUserID (h d) = cUserID (gwHeap s d) \<and> cPlatformID (h d) = cPlatformID (gwHeap s d) \<and> addr (h d) = addr (gwHeap s d))"
proof (cases "extG (mhSetUserDeviceBackground (gwHandler A) req) s")
  case (Pair r0 s0)
  obtain w where s0: "s0 = s\<lparr> gwWorld := w \<rparr>" using world_onlyD [OF world_only_ext Pair] by blast
  show ?thesis
  proof (cases r0)
    case (Ok a)
    then have "s' = s\<lparr> gwHeap := (gwHeap s)(c := (gwHeap s c)\<lparr> cIsBackground := snd a \<rparr>), gwWorld := w \<rparr>"
      using assms Pair s0
      by (cases s) (auto simp: setAppBackgroundStatus_def bindG_def setClientG_def modG_def retG_def split: prod.splits)
    then show ?thesis by (intro exI conjI) (auto simp: addr_def split: if_splits)
  next
    case (Err e)
    then have "s' = s\<lparr> gwHeap := gwHeap s, gwWorld := w \<rparr>"
      using assms Pair s0 by (simp add: setAppBackgroundStatus_def bindG_def)
    then show ?thesis by blast
  next
    case (Panic e)
    then have "s' = s\<lparr> gwHeap := gwHeap s, gwWorld := w \<rparr>"
      using assms Pair s0 by (simp add: setAppBackgroundStatus_def bindG_def)
    then show ?thesis by blast
  qed
qed

lemma gw_inv_step:
  assumes "gw_step A cfg s s'" "gw_inv cfg s"
  shows "gw_inv cfg s'"
  using assms(1)
proof (cases rule: gw_step.cases)
  case (connect ctx conn args pooled c)
  have wf: "gw_wf s" using assms(2) by (simp add: gw_inv_def)
  note W = gw_wf_admit [OF wf connect]
  have "gw_counts s'"
    using assms(2) connect(1) W(2,3) by (auto simp: gw_inv_def gw_counts_def admit_def Let_def split: if_splits)
  moreover have plat: "map (\<lambda>d. cPlatformID (gwHeap s' d)) (UserMap_conns (gwClients s) u)
      = map (\<lambda>d. cPlatformID (gwHeap s d)) (UserMap_conns (gwClients s) u)" for u
    using W(4) by (intro map_cong) (auto simp: um.all_conns_def)
  have "one_per_terminal s \<Longrightarrow> one_per_terminal s'" by (simp only: one_per_terminal_def W(2) plat simp_thms)
  ultimately show ?thesis using W(1) assms(2) by (auto simp: gw_inv_def)
next
  case (run ch)
  show ?thesis
  proof (cases ch)
    case Register
    with run assms(2) show ?thesis
      by (cases "registerChan s") (auto simp: Run_turn_def intro: gw_inv_register [OF assms(2)])
  next
    case Unregister
    with run assms(2) show ?thesis
      by (cases "unregisterChan s") (auto simp: Run_turn_def intro: gw_inv_unregister [OF assms(2)])
  next
    case Kick
    with run assms(2) show ?thesis
      by (cases "kickHandlerChan s") (auto simp: Run_turn_def intro: gw_inv_kick_turn [OF assms(2)])
  qed
next
  case (reader c)
  have wf: "gw_wf s" using assms(2) by (simp add: gw_inv_def)
  obtain w where s': "s' = s\<lparr> gwHeap := close_refs [c] (gwHeap s),
     unregisterChan := unregisterChan s @ (if cclosed (gwHeap s c) then [] else [c]), gwWorld := w \<rparr>"
    using close_run [OF reader(1)] by blast
  note W = gw_wf_closed [OF wf reader(2,3), where w = w, folded s']
  have "gw_counts s'" using assms(2) W(2) by (auto simp: gw_inv_def gw_counts_def s')
  moreover have "one_per_terminal s \<Longrightarrow> one_per_terminal s'" by (simp add: one_per_terminal_def s')
  ultimately show ?thesis using W(1) assms(2) by (auto simp: gw_inv_def)
next
  case (kick c r)
  have wf: "gw_wf s" using assms(2) by (simp add: gw_inv_def)
  have "kickable s (cUserID (gwHeap s c)) [c]"
    using live_bound [OF wf kick(3)] wf_queues(5) [OF wf, of c] kick(3) by (auto simp: kickable_def)
  then show ?thesis using KickUserConn_run [OF kick(1,2)] gw_inv_kicked [OF assms(2)] by auto
next
  case (login op u p token)
  have wf: "gw_wf s" using assms(2) by (simp add: gw_inv_def)
  have "\<forall>c \<in> set (UserMap_conns (gwClients s) u). c < gwNext s \<and> c \<notin> set (registerChan s) \<and> cUserID (gwHeap s c) = u"
    using conns_user [OF wf] wf_queues(5) [OF wf] by (auto simp: um.all_conns_def)
  then have ok: "kickable s u (filter (\<lambda>c. cPlatformID (gwHeap s c) = p) (UserMap_conns (gwClients s) u))"
    using wf_queues(8) [OF wf, of u] by (simp add: kickable_def)
  define k where "k = \<lparr> khClientOK = (filter (\<lambda>c. cPlatformID (gwHeap s c) = p) (UserMap_conns (gwClients s) u) \<noteq> []),
     khOldClients = filter (\<lambda>c. cPlatformID (gwHeap s c) = p) (UserMap_conns (gwClients s) u),
     khNewClient = \<lparr> cconn = 0, cPlatformID = p, cIsCompress = False, cUserID = u, cIsBackground = False,
       cctx = SetOperationID op (SetToken token newTempContext), cclosed = False, cclosedErr = None, ctoken = [] \<rparr> \<rparr>"
  have "s' = s \<or> s' = s\<lparr> kickHandlerChan := kickHandlerChan s @ [k] \<rparr>"
    using login
    by (auto simp: MultiTerminalLoginCheck_def bindG_gets SetKickHandlerInfo_def UserMap_Get_conns [OF wf_queues(7) [OF wf]]
        Let_def retG_def k_def split: if_splits)
  then show ?thesis using assms(2) gw_inv_queue_kick [OF assms(2), of k] ok by (auto simp: k_def)
next
  case (background c req r)
  obtain h w where s': "s' = s\<lparr> gwHeap := h, gwWorld := w \<rparr>"
    and h: "\<forall>d. cclosed (h d) = cclosed (gwHeap s d) \<and> cUserID (h d) = cUserID (gwHeap s d)
       \<and> cPlatformID (h d) = cPlatformID (gwHeap s d) \<and> addr (h d) = addr (gwHeap s d)"
    using setAppBackgroundStatus_run [OF background] by blast
  then show ?thesis using assms(2)
    by (simp add: gw_inv_def gw_wf_def gw_counts_def one_per_terminal_def)
qed

lemma gw_inv_reachable: "(gw_step A cfg)\<^sup>*\<^sup>* (gw_init w) s \<Longrightarrow> gw_inv cfg s"
  by (induction rule: rtranclp_induct) (auto intro: gw_inv_init gw_inv_step)

text \<open>
  C30.  The gateway keeps its books, as long as its operations do not overlap: in every state that new
  connections, readers, kicks, logins on other nodes and turns of the server's own goroutine reach in any
  order, each of them run to its end, each user in the map has at least one connection, no connection appears
  twice or under another user, the connection counter is the number of connections that are in the map
  or wait to be unregistered, nothing waits twice, and every closed connection still in the map waits to be
  unregistered.  Under the policy that kicks the same terminal, a user has at most one connection per
  platform.  Excluded are two goroutines inside \<open>close\<close> or the map at once (the closed flag is tested
  before the lock is taken, and \<open>double_close_miscounts\<close> shows what follows), a close before the
  registration, and a client recycled while a pending kick names it; a new remote address is assumed to
  differ from all earlier ones.
\<close>

theorem gateway_invariant:
  assumes "(gw_step A cfg)\<^sup>*\<^sup>* (gw_init w) s"
  shows "(\<forall>u cs. gwClients s u = Some cs \<longrightarrow> cs \<noteq> [] \<and> distinct cs \<and> (\<forall>c \<in> set cs. cUserID (gwHeap s c) = u))
    \<and> onlineUserConnNum s = wrap64 (int (card (live s \<union> set (unregisterChan s))))
    \<and> distinct (unregisterChan s)
    \<and> (\<forall>c \<in> live s. cclosed (gwHeap s c) \<longrightarrow> c \<in> set (unregisterChan s))
    \<and> (MultiLoginPolicy cfg = AllLoginButSameTermKick \<longrightarrow>
         (\<forall>u cs. gwClients s u = Some cs \<longrightarrow> distinct (map (\<lambda>c. cPlatformID (gwHeap s c)) cs)))"
proof -
  have inv: "gw_wf s" "gw_counts s" "MultiLoginPolicy cfg = AllLoginButSameTermKick \<Longrightarrow> one_per_terminal s"
    using gw_inv_reachable [OF assms] by (auto simp: gw_inv_def)
  have conns: "UserMap_conns (gwClients s) u = cs" if "gwClients s u = Some cs" for u cs
    using that by (simp add: UserMap_conns_def)
  have "cs \<noteq> [] \<and> distinct cs \<and> (\<forall>c \<in> set cs. cUserID (gwHeap s c) = u)" if "gwClients s u = Some cs" for u cs
    using conns [OF that] wf_queues(7) [OF inv(1)] wf_queues(8) [OF inv(1), of u] conns_user [OF inv(1), of _ u] that
    by (auto simp: UserMap_wf_def)
  moreover have "distinct (map (\<lambda>c. cPlatformID (gwHeap s c)) cs)"
    if "MultiLoginPolicy cfg = AllLoginButSameTermKick" "gwClients s u = Some cs" for u cs
    using inv(3) [OF that(1)] conns [OF that(2)] by (auto simp: one_per_terminal_def)
  moreover have "onlineUserConnNum s = wrap64 (int (card (live s \<union> set (unregisterChan s))))"
    using inv(2) by (simp add: gw_counts_def)
  ultimately show ?thesis using wf_queues(1) [OF inv(1)] wf_closed_cases(2) [OF inv(1)] by blast
qed

definition demo_ctx :: "string \<Rightarrow> string \<Rightarrow> UserConnContext" where
  "demo_ctx user address = \<lparr> RemoteAddr = address, ConnID = address,
     Query = (\<lambda>k. if k = WsUserID then user else if k = WsPlatformID then ''1'' else if k = WsToken then ''jwt'' else []),
     Header = (\<lambda>_. []) \<rparr>"

definition demo_cfg :: gw_config where
  "demo_cfg = \<lparr> MultiLoginPolicy = AllLoginButSameTermKick, wsMaxConnNum = 10, Zookeeper = False,
     SelfConnTarget = [], gwAuth = auCfg demo_auth \<rparr>"

definition demo_handler :: "'w message_handler" where
  "demo_handler = \<lparr> mhGetSeq = (\<lambda>_. retG []), mhSendMessage = (\<lambda>_. retG []), mhSendSignalMessage = (\<lambda>_. retG []),
     mhPullMessageBySeqList = (\<lambda>_. retG []), mhUserLogout = (\<lambda>_. retG []),
     mhSetUserDeviceBackground = (\<lambda>_. retG ([], True)) \<rparr>"

definition demo_req :: Req where
  "demo_req = \<lparr> ReqIdentifier = WSSendMsg, ReqToken = [], ReqSendID = ''u'', ReqOperationID = [], ReqMsgIncr = [],
     ReqData = [], ReqIP = [] \<rparr>"

definition demo_gw :: "mem_redis gw_api" where
  "demo_gw = \<lparr> gwRedis = mem_redis_api, gwJwt = demo_jwt, gwEncode = (\<lambda>_. Inr []), gwDecode = (\<lambda>_. Inr demo_req), gwValidate = (\<lambda>_. None),
     gwCompressWithPool = Inr, gwDecompressWithPool = Inr, gwMarshalPush = (\<lambda>_. Inr []), gwErrorText = (\<lambda>_. []),
     gwUpgrade = (\<lambda>_. retG 0), gwHttpError = (\<lambda>_ _. retG ()), gwSetWriteDeadline = (\<lambda>_. retG ()),
     gwSetReadDeadline = (\<lambda>_. retG ()), gwWriteMessage = (\<lambda>_ _ _. retG ()), gwCloseConn = (\<lambda>_. retG ()),
     gwHandler = demo_handler, gwSetUserStatus = (\<lambda>_ _ _. retG ()), gwCallbackUserOnline = (\<lambda>_ _ _ _. retG ()),
     gwCallbackUserOffline = (\<lambda>_ _ _. retG ()), gwGetConns = retG [],
     gwMultiTerminalLoginCheck = (\<lambda>_ _ _ _. retG ()) \<rparr>"

lemma demo_gw_simps [simp]:
  "gwRedis demo_gw = mem_redis_api" "gwJwt demo_gw = demo_jwt" "gwCloseConn demo_gw c = retG ()"
  "gwEncode demo_gw r = Inr []" "gwSetWriteDeadline demo_gw c = retG ()" "gwWriteMessage demo_gw c k d = retG ()"
  "gwSetUserStatus demo_gw u st p = retG ()" "gwCallbackUserOnline demo_gw u p b i = retG ()"
  "gwCallbackUserOffline demo_gw u p i = retG ()" "gwDecode demo_gw m = Inr demo_req"
  "gwSetReadDeadline demo_gw c = retG ()" "gwValidate demo_gw q = None"
  by (simp_all add: demo_gw_def)

lemma extG_ret [simp]: "extG (retG x) = retG x"
  by (auto simp: extG_def retG_def fun_eq_iff)

lemma ignoreG_ret [simp]: "ignoreG (retG x) = retG ()"
  by (simp add: ignoreG_def)

lemma demo_register_first:
  assumes "registerChan s = [c]" "gwClients s (cUserID (gwHeap s c)) = None"
  shows "Run_turn demo_gw demo_cfg Register s = (Ok (), s\<lparr> registerChan := [],
     gwClients := (gwClients s)(cUserID (gwHeap s c) \<mapsto> [c]), onlineUserNum := add64 (onlineUserNum s) 1,
     onlineUserConnNum := add64 (onlineUserConnNum s) 1 \<rparr>)"
  using assms
  by (simp add: Run_turn_def registerClient_def clientG_def SetUserOnlineStatus_def bindG_gets UserMap_Get_def UserMap_Set_def bindG_mod
      demo_cfg_def bindG_assoc) (simp add: retG_def)

text \<open>A connection is opened and registered.\<close>

theorem gateway_invariant_witness:
  "\<exists>s. (gw_step demo_gw demo_cfg)\<^sup>*\<^sup>* (gw_init mem_redis_empty) s \<and> gwClients s ''u'' = Some [0] \<and> live s = {0}
     \<and> onlineUserConnNum s = wrap64 (int (card (live s \<union> set (unregisterChan s)))) \<and> onlineUserConnNum s = 1"
proof -
  let ?s0 = "gw_init mem_redis_empty"
  obtain s1 where conn: "admit (demo_ctx ''u'' ''a1'') 0 empty_args None ?s0 = (Ok 0, s1)" and r: "registerChan s1 = [0]"
    and s1: "gwClients s1 = Map.empty" "cUserID (gwHeap s1 0) = ''u''" "onlineUserConnNum s1 = 0" "unregisterChan s1 = []"
    by (simp add: admit_def gw_init_def ResetClient_def demo_ctx_def GetUserID_def)
  have "gw_step demo_gw demo_cfg ?s0 s1" by (rule gw_step.connect [OF conn]) (simp_all add: gw_init_def)
  moreover define s2 where "s2 = s1\<lparr> registerChan := [], gwClients := (gwClients s1)(cUserID (gwHeap s1 0) \<mapsto> [0]),
     onlineUserNum := add64 (onlineUserNum s1) 1, onlineUserConnNum := add64 (onlineUserConnNum s1) 1 \<rparr>"
  have "gw_step demo_gw demo_cfg s1 s2"
    unfolding s2_def using gw_step.run [OF demo_register_first [OF r]] s1 by simp
  ultimately have reach: "(gw_step demo_gw demo_cfg)\<^sup>*\<^sup>* ?s0 s2" by simp
  have "gwClients s2 = Map.empty(''u'' \<mapsto> [0])" "onlineUserConnNum s2 = 1" "unregisterChan s2 = []"
    using s1 by (simp_all add: s2_def add64_def wrap64_def)
  moreover from this have "live s2 = {0}" by (auto simp: um.all_conns_def UserMap_conns_def split: if_splits)
  ultimately show ?thesis using gateway_invariant [OF reach] reach by (intro exI [of _ s2]) simp
qed

end
