(* ===== verification/GatewayAccess.thy ===== *)
theory GatewayAccess
  imports GatewayInv
begin

text \<open>
  Who gets in and what a kick does: the conditions under which a connection is accepted, the
  revocation of the other tokens of a terminal, requests in another user's name, and two weak
  points of the bookkeeping: the user counter after a kick, and connections that close before they
  are registered.
\<close>

section \<open>Admission\<close>

lemma GetTokens_answers:
  assumes "redis_hash_laws R hv" "hash_reads_answer R"
  shows "\<exists>w'. GetTokensWithoutError R u p w = (Ok (token_view hv w (uidPidToken_key u p)), w')"
proof -
  obtain r0 w' where g: "GetTokensWithoutError R u p w = (r0, w')" by fastforce
  have "r0 = Ok (token_view hv w (uidPidToken_key u p))"
    using GetTokens_cases [OF assms(1) g] g assms(2)
    by (cases r0) (auto simp: GetTokensWithoutError_def hash_reads_answer_def bindG_def wrapG_def retG_def Let_def
        split: prod.splits outcome.splits)
  then show ?thesis using g by blast
qed

lemma extG_GetTokens:
  assumes "redis_hash_laws (gwRedis A) hv" "hash_reads_answer (gwRedis A)"
  shows "\<exists>w. extG (GetTokensWithoutError (gwRedis A) u p) s
      = (Ok (token_view hv (gwWorld s) (uidPidToken_key u p)), s\<lparr> gwWorld := w \<rparr>)"
  using GetTokens_answers [OF assms, of u p "gwWorld s"] by (auto simp: extG_def)

lemma ParseWSArgs_spec:
  assumes "redis_hash_laws (gwRedis A) hv" "hash_reads_answer (gwRedis A)"
    and run: "ParseWSArgs A cfg now r s = (Ok (args, err), s')"
  shows "(err = None \<longleftrightarrow>
      onlineUserConnNum s < wsMaxConnNum cfg \<and> Query r WsToken \<noteq> [] \<and> Query r WsUserID \<noteq> []
      \<and> (\<exists>p. Atoi (Query r WsPlatformID) = Some p
           \<and> WsVerifyToken (gwJwt A) (gwAuth cfg) now (Query r WsToken) (Query r WsUserID) p = None
           \<and> token_view hv (gwWorld s) (uidPidToken_key (Query r WsUserID) p) (Query r WsToken) = Some NormalToken))
    \<and> (\<exists>w. s' = s\<lparr> gwWorld := w \<rparr>)"
proof -
  have none: "Atoi [] = None" by (simp add: Atoi_def)
  show ?thesis
  proof (cases "onlineUserConnNum s < wsMaxConnNum cfg \<and> Query r WsToken \<noteq> [] \<and> Query r WsUserID \<noteq> []
      \<and> (\<exists>p. Atoi (Query r WsPlatformID) = Some p
           \<and> WsVerifyToken (gwJwt A) (gwAuth cfg) now (Query r WsToken) (Query r WsUserID) p = None)")
    case True
    then obtain p where p: "Atoi (Query r WsPlatformID) = Some p"
        "WsVerifyToken (gwJwt A) (gwAuth cfg) now (Query r WsToken) (Query r WsUserID) p = None" by blast
    obtain w where "extG (GetTokensWithoutError (gwRedis A) (Query r WsUserID) p) s
      = (Ok (token_view hv (gwWorld s) (uidPidToken_key (Query r WsUserID) p)), s\<lparr> gwWorld := w \<rparr>)"
      using extG_GetTokens [OF assms(1,2)] by blast
    with run True p none show ?thesis
      by (auto simp: ParseWSArgs_def Let_def empty_args_def bindG_def getsG_def attemptG_def retG_def
          split: option.splits if_splits)
  next
    case False
    with run same_world [of s] none show ?thesis
      by (auto simp: ParseWSArgs_def bindG_gets Let_def empty_args_def retG_def split: option.splits if_splits)
  qed
qed

lemma ParseWSArgs_total:
  assumes "redis_hash_laws (gwRedis A) hv" "hash_reads_answer (gwRedis A)"
  shows "\<exists>args err s'. ParseWSArgs A cfg now r s = (Ok (args, err), s')"
proof (cases "Atoi (Query r WsPlatformID)")
  case None
  then show ?thesis by (simp add: ParseWSArgs_def bindG_gets Let_def retG_def)
next
  case (Some p)
  obtain w where get: "extG (GetTokensWithoutError (gwRedis A) (Query r WsUserID) p) s
      = (Ok (token_view hv (gwWorld s) (uidPidToken_key (Query r WsUserID) p)), s\<lparr> gwWorld := w \<rparr>)"
    using extG_GetTokens [OF assms] by blast
  have "\<exists>a e s'. bindG (attemptG (extG (GetTokensWithoutError (gwRedis A) (Query r WsUserID) p))) k s = (Ok (a, e), s')"
    if "\<And>x s. \<exists>a e s'. k x s = (Ok (a, e), s')" for k :: "_ \<Rightarrow> ('a gateway, WSArgs \<times> go_error option) go"
    using get that by (simp add: bindG_def attemptG_def)
  with Some show ?thesis
    by (simp add: ParseWSArgs_def bindG_gets Let_def retG_def split: option.splits sum.splits)
qed

text \<open>
  C31.  A connection is accepted exactly when there is room for it and it shows a token and a user,
  a decimal platform number, a token that verifies for this user and platform now, and that has
  the normal status in the token cache: kicked, unknown and expired tokens are all refused.  The
  check changes nothing in the gateway.  Assumed: reads of the token
  cache answer; that an expired token does not verify is the JWT library's part of \<open>WsVerifyToken\<close>.
\<close>

theorem ParseWSArgs_accepts_iff:
  assumes "redis_hash_laws (gwRedis A) hv" "hash_reads_answer (gwRedis A)"
  shows "\<exists>args err w. ParseWSArgs A cfg now r s = (Ok (args, err), s\<lparr> gwWorld := w \<rparr>)
    \<and> (err = None \<longleftrightarrow>
      onlineUserConnNum s < wsMaxConnNum cfg \<and> Query r WsToken \<noteq> [] \<and> Query r WsUserID \<noteq> []
      \<and> (\<exists>p. Atoi (Query r WsPlatformID) = Some p
           \<and> WsVerifyToken (gwJwt A) (gwAuth cfg) now (Query r WsToken) (Query r WsUserID) p = None
           \<and> token_view hv (gwWorld s) (uidPidToken_key (Query r WsUserID) p) (Query r WsToken) = Some NormalToken))"
proof -
  obtain args err s' where run: "ParseWSArgs A cfg now r s = (Ok (args, err), s')"
    using ParseWSArgs_total [OF assms] by blast
  from ParseWSArgs_spec [OF assms run] run show ?thesis by blast
qed

theorem ParseWSArgs_accepts_iff_witness:
  "\<exists>args s'. ParseWSArgs demo_gw demo_cfg 5 (demo_ctx ''u'' ''a1'')
      (gw_init (mem_redis_empty\<lparr> hashes := (\<lambda>_. Map.empty)(uidPidToken_key ''u'' 1 := Map.empty(''jwt'' \<mapsto> itoa 0)) \<rparr>))
     = (Ok (args, None), s')"
proof -
  let ?w = "mem_redis_empty\<lparr> hashes := (\<lambda>_. Map.empty)(uidPidToken_key ''u'' 1 := Map.empty(''jwt'' \<mapsto> itoa 0)) \<rparr>"
  have atoi: "Atoi ''1'' = Some 1" by (simp add: Atoi_def ParseInt_def parse_unsigned_def is_digit_def)
  have valid: "claims_valid_at demo_claims 5"
    using BuildClaims_valid(1) [of 90 0 5 "''u''" 1] by (simp add: demo_claims_def)
  have ver: "WsVerifyToken demo_jwt (auCfg demo_auth) 5 ''jwt'' ''u'' 1 = None"
    using valid by (simp add: WsVerifyToken_def GetClaimFromToken_def demo_jwt_def demo_claims_def BuildClaims_def)
  have "token_view hashes ?w (uidPidToken_key ''u'' 1) ''jwt'' = Some 0" by (simp add: token_view_def int64_def)
  then show ?thesis
    using ParseWSArgs_accepts_iff [of demo_gw hashes demo_cfg 5 "demo_ctx ''u'' ''a1''" "gw_init ?w"] atoi ver
    by (auto simp: mem_redis_hash_laws mem_redis_hash_reads demo_ctx_def demo_cfg_def gw_init_def)
qed

section \<open>Revocation\<close>

text \<open>Writing to and closing connections leaves Redis alone, and hash writes succeed.\<close>

definition net_keeps :: "'w gw_api \<Rightarrow> ('w \<Rightarrow> 'v) \<Rightarrow> bool" where
  "net_keeps A hv \<longleftrightarrow> (\<forall>c k d w. hv (snd (gwWriteMessage A c k d w)) = hv w)
     \<and> (\<forall>c w. hv (snd (gwSetWriteDeadline A c w)) = hv w) \<and> (\<forall>c w. hv (snd (gwCloseConn A c w)) = hv w)"

definition hash_writes_answer :: "'s redis_api \<Rightarrow> bool" where
  "hash_writes_answer R \<longleftrightarrow> (\<forall>k m s. \<exists>s'. rdHSet R k m s = (Ok (), s'))"

lemma preserves_ext:
  "(\<And>w. hv (snd (m w)) = hv w) \<Longrightarrow> preserves (\<lambda>s. hv (gwWorld s) = v) (extG m)"
  by (auto simp: preserves_def extG_def split: prod.splits) (metis snd_conv)

lemma preserves_frame:
  "(\<And>s. gwWorld (f s) = gwWorld s) \<Longrightarrow> preserves (\<lambda>s. hv (gwWorld s) = v) (modG f)"
  by (simp add: preserves_def modG_def)

lemma KickOnlineMessage_keeps:
  assumes "net_keeps A hv"
  shows "preserves (\<lambda>s. hv (gwWorld s) = v) (KickOnlineMessage A c)"
proof -
  have ext: "preserves (\<lambda>s. hv (gwWorld s) = v) (extG (gwWriteMessage A c k d))"
    "preserves (\<lambda>s. hv (gwWorld s) = v) (extG (gwSetWriteDeadline A c))"
    "preserves (\<lambda>s. hv (gwWorld s) = v) (extG (gwCloseConn A c))" for c k d
    using assms by (auto intro!: preserves_ext simp: net_keeps_def)
  have wr: "preserves (\<lambda>s. hv (gwWorld s) = v) (writeBinaryMsg A c resp)" for resp
    unfolding writeBinaryMsg_def clientG_def
    by (intro preserves_bind preserves_gets) (auto intro!: preserves_bind preserves_ignore ext split: sum.splits)
  have un: "preserves (\<lambda>s. hv (gwWorld s) = v) (UnRegister c)" by (simp add: preserves_def UnRegister_def)
  have cl: "preserves (\<lambda>s. hv (gwWorld s) = v) (close A c)"
    unfolding close_def close_locked_def clientG_def setClientG_def
    by (intro preserves_bind preserves_gets preserves_if preserves_ret preserves_frame preserves_ignore ext un) simp
  show ?thesis
    unfolding KickOnlineMessage_def Let_def
    by (intro preserves_bind preserves_attempt wr cl) (simp split: sum.splits)
qed

text \<open>
  C32.  A login revokes the terminal's other tokens, as long as Redis answers: after the server has
  kicked the other connections of a user on a platform, every other token of that user and platform
  is marked as kicked in the cache and the new client's own is unchanged, so that a connection with one
  of them that follows, on any node, is refused.  Assumed are hash reads and writes that do not fail: the
  code logs such a failure and goes on, and then the other tokens stay valid.
\<close>

theorem same_terminal_login_revokes:
  assumes laws: "redis_hash_laws (gwRedis A) hv" "hash_reads_answer (gwRedis A)" "hash_writes_answer (gwRedis A)"
    and net: "net_keeps A hv"
    and run: "kick_same_terminal A True cs new s = (Ok (), s1)"
    and flags: "\<forall>i \<in> ran (token_view hv (gwWorld s) (uidPidToken_key (cUserID new) (cPlatformID new))). int64 i"
    and req: "Query r WsUserID = cUserID new" "Atoi (Query r WsPlatformID) = Some (cPlatformID new)"
      "Query r WsToken \<noteq> GetToken (cctx new)"
  shows "token_view hv (gwWorld s1) (uidPidToken_key (cUserID new) (cPlatformID new))
      = kick_tokens (GetToken (cctx new)) (token_view hv (gwWorld s) (uidPidToken_key (cUserID new) (cPlatformID new)))
    \<and> (\<exists>args err s2. ParseWSArgs A cfg now r s1 = (Ok (args, Some err), s2))"
proof -
  let ?u = "cUserID new" and ?p = "cPlatformID new" and ?k = "uidPidToken_key (cUserID new) (cPlatformID new)"
  let ?s0 = "s\<lparr> gwClients := fst (UserMap_deleteClients (gwHeap s) (gwClients s) ?u cs) \<rparr>"
  let ?put = "\<lambda>m. SetTokenMapByUidPid (gwRedis A) ?u ?p (kick_tokens (GetToken (cctx new)) m)"
  from run obtain y sk where kick: "forG cs (\<lambda>c. ignoreG (KickOnlineMessage A c)) ?s0 = (Ok y, sk)"
    and rest: "bindG (attemptG (extG (GetTokensWithoutError (gwRedis A) ?u ?p))) (\<lambda>r.
          case r of Inl err \<Rightarrow> retG () | Inr m \<Rightarrow> ignoreG (extG (?put m))) sk = (Ok (), s1)"
    by (auto simp: kick_same_terminal_def bindG_mod elim: bindG_OkE)
  have "preserves (\<lambda>t. hv (gwWorld t) = hv (gwWorld s)) (forG cs (\<lambda>c. ignoreG (KickOnlineMessage A c)))"
    using KickOnlineMessage_keeps [OF net] by (intro preserves_for preserves_ignore)
  from preservesD [OF this _ kick] have hk: "hv (gwWorld sk) = hv (gwWorld s)" by simp
  then have vk: "token_view hv (gwWorld sk) = token_view hv (gwWorld s)" by (simp add: token_view_def fun_eq_iff)
  obtain w where g: "GetTokensWithoutError (gwRedis A) ?u ?p (gwWorld sk) = (Ok (token_view hv (gwWorld s) ?k), w)"
    using GetTokens_answers [OF laws(1,2)] unfolding vk [symmetric] by blast
  obtain w' where "rdHSet (gwRedis A) ?k (\<lambda>k. map_option itoa (kick_tokens (GetToken (cctx new)) (token_view hv (gwWorld s) ?k) k)) w = (Ok (), w')"
    using laws(3) unfolding hash_writes_answer_def by blast
  then have put: "?put (token_view hv (gwWorld s) ?k) w = (Ok (), w')"
    by (simp add: SetTokenMapByUidPid_def Let_def)
  have s1: "gwWorld s1 = w'"
    using rest g put by (auto simp: bindG_def attemptG_def ignoreG_def extG_def retG_def)
  have "token_view hv w' ?k = kick_tokens (GetToken (cctx new)) (token_view hv (gwWorld s) ?k)"
    using tok.revoke_others [OF laws(1) _ g, of KickedToken "GetToken (cctx new)" "()" w'] put flags
    by (simp add: vk kick_tokens_def int64_def)
  then have revoked: "token_view hv (gwWorld s1) ?k = kick_tokens (GetToken (cctx new)) (token_view hv (gwWorld s) ?k)"
    using s1 by simp
  then have "token_view hv (gwWorld s1) ?k (Query r WsToken) \<noteq> Some NormalToken"
    using req(3) by (simp add: kick_tokens_def)
  moreover obtain args err s2 where p: "ParseWSArgs A cfg now r s1 = (Ok (args, err), s2)"
    using ParseWSArgs_total [OF laws(1,2)] by blast
  ultimately have "err \<noteq> None" using ParseWSArgs_spec [OF laws(1,2) p] req(1,2) by auto
  with p revoked show ?thesis by blast
qed

section \<open>Requests in another user's name\<close>

lemma ignore_ext:
  assumes "\<And>w p. fst (m w) \<noteq> Panic p"
  shows "\<exists>w. ignoreG (extG m) s = (Ok (), s\<lparr> gwWorld := w \<rparr>)"
proof (cases "m (gwWorld s)")
  case (Pair r w)
  then have "\<forall>p. r \<noteq> Panic p" using assms [of "gwWorld s"] by simp
  with Pair show ?thesis by (cases r) (auto simp: ignoreG_def bindG_def attemptG_def extG_def retG_def)
qed

lemma close_open:
  assumes "\<not> cclosed (gwHeap s c)" "length (unregisterChan s) < chanCap" "\<And>cn w p. fst (gwCloseConn A cn w) \<noteq> Panic p"
  shows "\<exists>w. close A c s = (Ok (), s\<lparr> gwHeap := close_refs [c] (gwHeap s), unregisterChan := unregisterChan s @ [c], gwWorld := w \<rparr>)"
proof -
  let ?s1 = "s\<lparr> gwHeap := close_refs [c] (gwHeap s) \<rparr>"
  have h: "(gwHeap s)(c := (gwHeap s c)\<lparr> cclosed := True \<rparr>) = close_refs [c] (gwHeap s)"
    by (auto simp: close_refs_def fun_eq_iff)
  obtain w where w: "ignoreG (extG (gwCloseConn A (cconn (gwHeap s c)))) ?s1 = (Ok (), ?s1\<lparr> gwWorld := w \<rparr>)"
    using ignore_ext [of "gwCloseConn A (cconn (gwHeap s c))" ?s1] assms(3) by blast
  have conn: "cconn (close_refs [c] (gwHeap s) c) = cconn (gwHeap s c)" by (simp add: close_refs_def)
  have "close A c s = UnRegister c (?s1\<lparr> gwWorld := w \<rparr>)"
    using assms(1) by (simp add: close_def close_locked_def clientG_def setClientG_def bindG_gets bindG_mod h bindG_def [of "ignoreG m" for m] conn w)
  with assms(2) show ?thesis by (cases s) (auto simp: UnRegister_def)
qed

text \<open>
  C35.  A connection speaks for its own user only: a request whose sender is not the user the
  connection was opened for reaches no handler, changes nothing and is not answered; the reader
  then closes the connection, and queues it to be unregistered, whatever else was sent on it.
\<close>

theorem spoofed_request_closes:
  assumes open_conn: "\<not> cclosed (gwHeap s c)" "length (unregisterChan s) < chanCap"
    and payload: "(if cIsCompress (gwHeap s c) then gwDecompressWithPool A message else Inr message) = Inr m"
    and req: "gwDecode A m = Inr req" "gwValidate A req = None" "ReqSendID req \<noteq> cUserID (gwHeap s c)"
    and net: "\<forall>cn w p. fst (gwCloseConn A cn w) \<noteq> Panic p" "\<forall>cn w p. fst (gwSetReadDeadline A cn w) \<noteq> Panic p"
  shows "handleMessage A c message s = (Err (Wrapped ''==> '' (Plain ''exception conn userID not same to req userID'')), s)
    \<and> (\<exists>s'. readMessage A c (Inr (MessageBinary, message) # ds) s = (Ok (), s') \<and> cclosed (gwHeap s' c)
        \<and> unregisterChan s' = unregisterChan s @ [c] \<and> gwClients s' = gwClients s)"
proof -
  let ?err = "Wrapped ''==> '' (Plain ''exception conn userID not same to req userID'')"
  have refused: "handleMessage A c message t = (Err ?err, t)" if "gwHeap t c = gwHeap s c" for t
    using that payload req
    by (auto simp: handleMessage_def clientG_def bindG_gets failG_def split: if_splits sum.splits)
  obtain w where rd: "ignoreG (extG (gwSetReadDeadline A (cconn (gwHeap s c)))) s = (Ok (), s\<lparr> gwWorld := w \<rparr>)"
    using ignore_ext [of "gwSetReadDeadline A (cconn (gwHeap s c))" s] net(2) by blast
  have turn: "readMessage_turn A c (Inr (MessageBinary, message)) s = (Ok (Some ?err), s\<lparr> gwWorld := w \<rparr>)"
    using open_conn refused [of "s\<lparr> gwWorld := w \<rparr>"]
    by (simp add: readMessage_turn_def clientG_def rd bindG_def getsG_def attemptG_def retG_def)
  let ?s2 = "s\<lparr> gwWorld := w, gwHeap := (gwHeap s)(c := (gwHeap s c)\<lparr> cclosedErr := Some ?err \<rparr>) \<rparr>"
  obtain w' where "close A c ?s2 = (Ok (), ?s2\<lparr> gwHeap := close_refs [c] (gwHeap ?s2), unregisterChan := unregisterChan ?s2 @ [c], gwWorld := w' \<rparr>)"
    using close_open [of ?s2 c A] open_conn net(1) by auto
  with refused [of s] turn show ?thesis by (simp add: setClientG_def bindG_mod)
qed

theorem spoofed_request_closes_witness:
  "\<exists>s'. readMessage demo_gw 0 [Inr (MessageBinary, ''x'')]
       (gw_init mem_redis_empty \<lparr> gwHeap := (\<lambda>_. ResetClient (demo_ctx ''v'' ''a1'') 0 False False ''jwt'') \<rparr>) = (Ok (), s')
     \<and> cclosed (gwHeap s' 0) \<and> unregisterChan s' = [0]"
proof -
  let ?s = "gw_init mem_redis_empty \<lparr> gwHeap := (\<lambda>_. ResetClient (demo_ctx ''v'' ''a1'') 0 False False ''jwt'') \<rparr>"
  have "cUserID (gwHeap ?s 0) = ''v''" "\<not> cclosed (gwHeap ?s 0)" "\<not> cIsCompress (gwHeap ?s 0)" "unregisterChan ?s = []"
    by (simp_all add: ResetClient_def demo_ctx_def GetUserID_def gw_init_def)
  then show ?thesis
    using spoofed_request_closes [of ?s 0 demo_gw "''x''" "''x''" demo_req "[]"]
    by (simp add: retG_def demo_req_def del: readMessage.simps) blast
qed

section \<open>The count of users, and connections that close early\<close>

lemma unregister_run:
  assumes "unregisterChan s = c # cs" "Run_turn A cfg Unregister s = (Ok (), s')" "addr (gwHeap s c) = a" "cUserID (gwHeap s c) = u"
  shows "\<exists>w. s' = s\<lparr> gwClients := fst (UserMap_delete (gwHeap s) (gwClients s) u a),
     onlineUserNum := (if snd (UserMap_delete (gwHeap s) (gwClients s) u a) then add64 (onlineUserNum s) (-1) else onlineUserNum s),
     onlineUserConnNum := add64 (onlineUserConnNum s) (-1), clientPool := clientPool s @ [c], unregisterChan := cs, gwWorld := w \<rparr>"
proof -
  let ?s1 = "s\<lparr> gwClients := fst (UserMap_delete (gwHeap s) (gwClients s) u a),
     onlineUserNum := (if snd (UserMap_delete (gwHeap s) (gwClients s) u a) then add64 (onlineUserNum s) (-1) else onlineUserNum s),
     onlineUserConnNum := add64 (onlineUserConnNum s) (-1), unregisterChan := cs \<rparr>"
  have "bindG (SetUserOnlineStatus A (gwHeap s c) Offline) (\<lambda>_. modG (\<lambda>s. s\<lparr> clientPool := clientPool s @ [c] \<rparr>)) ?s1 = (Ok (), s')"
    using assms unfolding Run_turn_def
    by (cases s) (simp add: unregisterClient_def clientG_def bindG_gets bindG_mod Let_def case_prod_beta cong: if_cong)
  then obtain y s2 where st: "SetUserOnlineStatus A (gwHeap s c) Offline ?s1 = (Ok y, s2)"
    and "modG (\<lambda>s. s\<lparr> clientPool := clientPool s @ [c] \<rparr>) s2 = (Ok (), s')" by (auto elim: bindG_OkE)
  then show ?thesis using world_onlyD [OF world_only_status st] by (cases s) (auto simp: modG_def)
qed

text \<open>
  C36.  The user counter drifts: when the only connection of a user is kicked, serving its
  unregistration brings the connection counter down, but the user is gone from the map already and
  the user counter keeps its value, so that every kick of a last connection makes it one too large.  Shown for an empty
  queue of unregistrations.
\<close>

theorem kick_keeps_user_count:
  assumes one: "gwClients s u = Some [c]" "cUserID (gwHeap s c) = u" "\<not> cclosed (gwHeap s c)" "unregisterChan s = []"
    and kick: "KickUserConn A c s = (r, s1)" "\<forall>p. r \<noteq> Panic p"
    and serve: "Run_turn A cfg Unregister s1 = (Ok (), s2)"
  shows "gwClients s2 = (gwClients s)(u := None) \<and> unregisterChan s2 = []
    \<and> onlineUserNum s2 = onlineUserNum s \<and> onlineUserConnNum s2 = add64 (onlineUserConnNum s) (-1)"
proof -
  obtain w where s1: "s1 = kicked u [c] w s" using KickUserConn_run [OF kick] one(2) by blast
  have gone: "gwClients s1 = (gwClients s)(u := None)" "unregisterChan s1 = [c]" "cUserID (gwHeap s1 c) = u"
    "onlineUserNum s1 = onlineUserNum s" "onlineUserConnNum s1 = onlineUserConnNum s"
    using one by (auto simp: s1 kicked_def UserMap_deleteClients_def)
  from unregister_run [OF gone(2) serve refl gone(3)] show ?thesis
    by (auto simp: gone UserMap_delete_def)
qed

lemma demo_status: "SetUserOnlineStatus demo_gw cl st = retG ()"
  by (simp add: SetUserOnlineStatus_def)

lemma demo_write: "writeBinaryMsg demo_gw c resp s = (Ok (), s)"
  by (simp add: writeBinaryMsg_def clientG_def bindG_gets demo_gw_def) (simp add: retG_def)

lemma demo_unregister:
  "unregisterChan s = c # cs \<Longrightarrow> \<exists>s'. Run_turn demo_gw demo_cfg Unregister s = (Ok (), s')"
  by (simp add: Run_turn_def unregisterClient_def clientG_def demo_status bindG_gets bindG_mod) (simp add: modG_def)


theorem kick_keeps_user_count_witness:
  "\<exists>s r s1 s2. onlineUserNum s = 1 \<and> KickUserConn demo_gw 0 s = (r, s1) \<and> Run_turn demo_gw demo_cfg Unregister s1 = (Ok (), s2)
     \<and> gwClients s2 = Map.empty \<and> onlineUserNum s2 = 1"
proof -
  let ?cl = "ResetClient (demo_ctx ''u'' ''a1'') 0 False False ''jwt''"
  let ?s = "gw_init mem_redis_empty \<lparr> gwHeap := (\<lambda>_. ?cl), gwClients := Map.empty(''u'' \<mapsto> [0]), onlineUserNum := 1 \<rparr>"
  have cl: "cUserID ?cl = ''u''" "\<not> cclosed ?cl" by (simp_all add: ResetClient_def demo_ctx_def GetUserID_def)
  have init: "unregisterChan ?s = []" by (simp add: gw_init_def)
  let ?k = "?s\<lparr> gwClients := fst (UserMap_deleteClients (gwHeap ?s) (gwClients ?s) ''u'' [0]) \<rparr>"
  obtain s1 where c: "close demo_gw 0 ?k = (Ok (), s1)" and q: "unregisterChan s1 = [0]"
    using close_open [of ?k 0 demo_gw] cl by (auto simp: retG_def gw_init_def)
  then have k: "KickUserConn demo_gw 0 ?s = (Ok (), s1)"
    using cl(1) by (simp add: KickUserConn_def KickOnlineMessage_def clientG_def bindG_gets bindG_mod)
      (simp add: bindG_def attemptG_def demo_write c retG_def)
  obtain s2 where r: "Run_turn demo_gw demo_cfg Unregister s1 = (Ok (), s2)" using demo_unregister [OF q] by blast
  have "gwClients s2 = (gwClients ?s)(''u'' := None) \<and> unregisterChan s2 = []
    \<and> onlineUserNum s2 = onlineUserNum ?s \<and> onlineUserConnNum s2 = add64 (onlineUserConnNum ?s) (-1)"
    by (rule kick_keeps_user_count [OF _ _ _ init k _ r]) (simp_all add: cl)
  then have "gwClients s2 = Map.empty" "onlineUserNum s2 = 1" by (auto simp: fun_eq_iff)
  with k r show ?thesis by (intro exI [of _ ?s]) auto
qed




section \<open>A login that kicks\<close>

text \<open>
  A user with two valid tokens is connected with the old one and logs in with the new one on the same
  terminal: its connection leaves the map, and the old token is refused.
\<close>

definition two_tokens :: mem_redis where
  "two_tokens = mem_redis_empty\<lparr> hashes := (\<lambda>_. Map.empty)(uidPidToken_key ''u'' 1 := Map.empty(''old'' \<mapsto> itoa NormalToken, ''jwt'' \<mapsto> itoa NormalToken)) \<rparr>"

lemma two_tokens_view: "token_view hashes two_tokens (uidPidToken_key ''u'' 1) = Map.empty(''old'' \<mapsto> NormalToken, ''jwt'' \<mapsto> NormalToken)"
  by (auto simp: token_view_def two_tokens_def int64_def fun_eq_iff)

lemma demo_kick_turn:
  assumes "\<not> cclosed (gwHeap s c)" "unregisterChan s = []"
  obtains s' where "forG [c] (\<lambda>c. ignoreG (KickOnlineMessage demo_gw c)) s = (Ok (), s')" "gwClients s' = gwClients s" "gwWorld s' = gwWorld s"
proof -
  obtain s' where cl: "close demo_gw c s = (Ok (), s')" using close_open [of s c demo_gw] assms by (auto simp: retG_def)
  then have k: "KickOnlineMessage demo_gw c s = (Ok (), s')"
    by (simp add: KickOnlineMessage_def) (simp add: bindG_def attemptG_def demo_write cl retG_def)
  then have i: "ignoreG (KickOnlineMessage demo_gw c) s = (Ok (), s')" by (simp add: ignoreG_def bindG_def attemptG_def retG_def)
  have "net_keeps demo_gw id" by (simp add: net_keeps_def retG_def)
  from preservesD [OF KickOnlineMessage_keeps [OF this] _ k, of "gwWorld s"] have "gwWorld s' = gwWorld s" by simp
  moreover have "gwClients s' = gwClients s" using KickOnlineMessage_run [OF i] by auto
  ultimately show thesis using that i by (simp add: bindG_def retG_def)
qed

lemma kick_same_terminal_step:
  assumes "forG cs (\<lambda>c. ignoreG (KickOnlineMessage A c))
      (s\<lparr> gwClients := fst (UserMap_deleteClients (gwHeap s) (gwClients s) (cUserID new) cs) \<rparr>) = (Ok x, sk)"
    and "bindG (attemptG (extG (GetTokensWithoutError (gwRedis A) (cUserID new) (cPlatformID new)))) (\<lambda>r.
          case r of Inl err \<Rightarrow> retG ()
          | Inr m \<Rightarrow> ignoreG (extG (SetTokenMapByUidPid (gwRedis A) (cUserID new) (cPlatformID new) (kick_tokens (GetToken (cctx new)) m))))
      sk = (Ok (), s1)"
  shows "kick_same_terminal A True cs new s = (Ok (), s1)"
  using assms by (simp add: kick_same_terminal_def bindG_mod bindG_def [of "forG cs f" for f])

theorem same_terminal_login_revokes_witness:
  "\<exists>s s1 args err s2. gwClients s ''u'' = Some [0]
     \<and> kick_same_terminal demo_gw True [0] (ResetClient (demo_ctx ''u'' ''a1'') 0 False False ''jwt'') s = (Ok (), s1)
     \<and> gwClients s1 ''u'' = None
     \<and> token_view hashes (gwWorld s) (uidPidToken_key ''u'' 1) ''old'' = Some NormalToken
     \<and> token_view hashes (gwWorld s1) (uidPidToken_key ''u'' 1) ''old'' = Some KickedToken
     \<and> token_view hashes (gwWorld s1) (uidPidToken_key ''u'' 1) ''jwt'' = Some NormalToken
     \<and> ParseWSArgs demo_gw demo_cfg 5 ((demo_ctx ''u'' ''a2'')\<lparr> Query := (Query (demo_ctx ''u'' ''a2''))(WsToken := ''old'') \<rparr>) s1
       = (Ok (args, Some err), s2)"
proof -
  let ?new = "ResetClient (demo_ctx ''u'' ''a1'') 0 False False ''jwt''"
  let ?r = "(demo_ctx ''u'' ''a2'')\<lparr> Query := (Query (demo_ctx ''u'' ''a2''))(WsToken := ''old'') \<rparr>"
  let ?s = "gw_init two_tokens \<lparr> gwHeap := (\<lambda>_. ResetClient (demo_ctx ''u'' ''a0'') 0 False False ''old''), gwClients := Map.empty(''u'' \<mapsto> [0]) \<rparr>"
  have one: "StringToInt ''1'' = 1" "Atoi ''1'' = Some 1"
    by (simp_all add: StringToInt_def Atoi_def ParseInt_def parse_unsigned_def is_digit_def)
  have new: "cUserID ?new = ''u''" "cPlatformID ?new = 1" "GetToken (cctx ?new) = ''jwt''"
    by (simp_all add: ResetClient_def demo_ctx_def GetUserID_def GetPlatformID_def GetToken_def one)
  let ?k = "?s\<lparr> gwClients := fst (UserMap_deleteClients (gwHeap ?s) (gwClients ?s) ''u'' [0]) \<rparr>"
  have open0: "\<not> cclosed (gwHeap ?k 0)" "unregisterChan ?k = []" by (simp_all add: ResetClient_def gw_init_def)
  obtain sk where kick: "forG [0] (\<lambda>c. ignoreG (KickOnlineMessage demo_gw c)) ?k = (Ok (), sk)"
    and sk: "gwClients sk = gwClients ?k" "gwWorld sk = two_tokens"
    using demo_kick_turn [OF open0] by (auto simp: gw_init_def)
  let ?rest = "bindG (attemptG (extG (GetTokensWithoutError (gwRedis demo_gw) ''u'' 1))) (\<lambda>r.
          case r of Inl err \<Rightarrow> retG ()
          | Inr m \<Rightarrow> ignoreG (extG (SetTokenMapByUidPid (gwRedis demo_gw) ''u'' 1 (kick_tokens ''jwt'' m))))"
  obtain w where rest: "?rest sk = (Ok (), sk\<lparr> gwWorld := w \<rparr>)"
    by (auto simp: bindG_def attemptG_def extG_def ignoreG_def retG_def GetTokensWithoutError_def SetTokenMapByUidPid_def wrapG_def
        mem_redis_api_def Let_def)
  have run: "kick_same_terminal demo_gw True [0] ?new ?s = (Ok (), sk\<lparr> gwWorld := w \<rparr>)"
    by (rule kick_same_terminal_step) (use kick rest in \<open>simp_all only: new\<close>)
  have gone: "gwClients (sk\<lparr> gwWorld := w \<rparr>) ''u'' = None"
    by (simp add: sk(1) UserMap_deleteClients_def)
  have view: "token_view hashes (gwWorld ?s) (uidPidToken_key (cUserID ?new) (cPlatformID ?new)) = Map.empty(''old'' \<mapsto> NormalToken, ''jwt'' \<mapsto> NormalToken)"
    unfolding new by (simp add: gw_init_def two_tokens_view)
  have "net_keeps demo_gw hashes" by (simp add: net_keeps_def retG_def)
  moreover have "hash_writes_answer (gwRedis demo_gw)" by (simp add: hash_writes_answer_def mem_redis_api_def)
  moreover have "\<forall>i \<in> ran (token_view hashes (gwWorld ?s) (uidPidToken_key (cUserID ?new) (cPlatformID ?new))). int64 i"
    unfolding view by (auto simp: ran_def int64_def)
  moreover have "Query ?r WsUserID = cUserID ?new" "Atoi (Query ?r WsPlatformID) = Some (cPlatformID ?new)"
    "Query ?r WsToken \<noteq> GetToken (cctx ?new)"
    unfolding new by (simp_all add: demo_ctx_def one)
  ultimately have P: "token_view hashes (gwWorld (sk\<lparr> gwWorld := w \<rparr>)) (uidPidToken_key (cUserID ?new) (cPlatformID ?new))
      = kick_tokens (GetToken (cctx ?new)) (token_view hashes (gwWorld ?s) (uidPidToken_key (cUserID ?new) (cPlatformID ?new)))"
    "\<exists>args err s2. ParseWSArgs demo_gw demo_cfg 5 ?r (sk\<lparr> gwWorld := w \<rparr>) = (Ok (args, Some err), s2)"
    using same_terminal_login_revokes [OF _ _ _ _ run, of hashes ?r demo_cfg 5] mem_redis_hash_laws mem_redis_hash_reads
    by simp_all
  from P(1) have "token_view hashes (gwWorld (sk\<lparr> gwWorld := w \<rparr>)) (uidPidToken_key ''u'' 1) ''old'' = Some KickedToken"
    "token_view hashes (gwWorld (sk\<lparr> gwWorld := w \<rparr>)) (uidPidToken_key ''u'' 1) ''jwt'' = Some NormalToken"
    unfolding view unfolding new by (simp_all add: kick_tokens_def)
  moreover have "gwClients ?s ''u'' = Some [0]" "token_view hashes (gwWorld ?s) (uidPidToken_key ''u'' 1) ''old'' = Some NormalToken"
    by (simp_all add: gw_init_def two_tokens_view)
  ultimately show ?thesis using run gone P(2) by blast
qed


end
