(* ===== verification/Live.thy ===== *)
theory Live
  imports RedisCache
begin

text \<open>
  The anti-flood limit and the word filter of \<open>tools/live\<close>, which the message service applies to
  ordinary users.  Both keep their configuration and counters in Redis; \<open>live_api\<close> holds the
  Redis commands the cache does not use, the JSON decoders and the trie of the go-zero library.
  A duration is in nanoseconds; \<open>TTL\<close> answers in whole seconds, or with a negative number.
\<close>

section \<open>Flood limit (limit.go)\<close>

record BrushConfig =
  BrushTime :: string
  BrushLimitCfg :: string
  BrushSpeechTime :: string
  BrushBanLimit :: string

record TriggerUser =
  tuUserId :: string
  tuBrushTime :: string
  tuDataType :: string

record HitSensitiveMessage =
  hmFrom :: string
  hmType :: int
  hmTarget :: string
  hmContent :: string
  hmDT :: int
  hmIP :: string
  hmExtra :: string

record 's live_api =
  lvTTL :: "string \<Rightarrow> ('s, int) go"
  lvPersist :: "string \<Rightarrow> ('s, unit) go"
  lvLPush :: "string \<Rightarrow> string \<Rightarrow> ('s, unit) go"
  lvBrushConfig :: "string \<Rightarrow> go_error + BrushConfig"
  lvTriggerJson :: "TriggerUser \<Rightarrow> string"
  lvHitJson :: "HitSensitiveMessage \<Rightarrow> string"
  lvSensitiveConfig :: "string \<Rightarrow> string"
  lvSensitiveWords :: "string \<Rightarrow> go_error + string list"
  lvTrieFilter :: "string list \<Rightarrow> string \<Rightarrow> string \<times> string list \<times> bool"
  lvNowText :: string

definition RedisConfigKey :: string where "RedisConfigKey = ''brush_config''"
definition RedisUserKey :: "string \<Rightarrow> string" where "RedisUserKey u = ''im_brush_user:'' @ u"
definition RedisBlockImKey :: "string \<Rightarrow> string" where "RedisBlockImKey u = ''brush_user_block_im:'' @ u"
definition RedisBrushAllKey :: "string \<Rightarrow> string" where "RedisBrushAllKey u = ''im_super_brush_all_mute:'' @ u"
definition RedisImTriggerKey :: string where "RedisImTriggerKey = ''im_brush_user_trigger_push_key''"
definition RedisImBlockKey :: string where "RedisImBlockKey = ''im_brush_user_block_push_key''"

text \<open>The texts shown to the user are Chinese; they are given by their UTF-8 bytes.\<close>

definition SendMessageFastError :: "string \<Rightarrow> string" where
  "SendMessageFastError n =
     [CHR 0xE6, CHR 0x82, CHR 0xA8, CHR 0xE8, CHR 0xAF, CHR 0xB4, CHR 0xE8, CHR 0xAF, CHR 0x9D,
     CHR 0xE5, CHR 0xA4, CHR 0xAA, CHR 0xE5, CHR 0xBF, CHR 0xAB, CHR 0xE5, CHR 0x95, CHR 0xA6,
     CHR 0xEF, CHR 0xBC, CHR 0x8C, CHR 0xE4, CHR 0xBC, CHR 0x91, CHR 0xE6, CHR 0x81, CHR 0xAF]
     @ n @
     [CHR 0xE7, CHR 0xA7, CHR 0x92, CHR 0xE5, CHR 0x90, CHR 0xA7, CHR 0xEF, CHR 0xBC, CHR 0x81]"

definition brush_config_failed :: string where
  "brush_config_failed =
     [CHR 0xE8, CHR 0x8E, CHR 0xB7, CHR 0xE5, CHR 0x8F, CHR 0x96, CHR 0xE7, CHR 0xA6, CHR 0x81,
     CHR 0xE7, CHR 0x94, CHR 0xA8, CHR 0xE8, CHR 0xAE, CHR 0xBE, CHR 0xE7, CHR 0xBD, CHR 0xAE,
     CHR 0xE5, CHR 0xA4, CHR 0xB1, CHR 0xE8, CHR 0xB4, CHR 0xA5]"

text \<open>\<open>.Val()\<close> of a command: the zero value when it failed.\<close>

definition valG :: "'a \<Rightarrow> ('s, 'a) go \<Rightarrow> ('s, 'a) go" where
  "valG zero m = bindG (attemptG m) (\<lambda>r. case r of Inl _ \<Rightarrow> retG zero | Inr v \<Rightarrow> retG v)"

abbreviation (input) SecondNs :: int where "SecondNs \<equiv> 1000000000"

definition tooFast :: "int \<Rightarrow> go_error" where
  "tooFast ttl = Plain (SendMessageFastError (itoa (ttl div SecondNs)))"

text \<open>What \<open>Check\<close> does when the user has sent more than the limit.\<close>

definition block_user :: "'s redis_api \<Rightarrow> 's live_api \<Rightarrow> BrushConfig \<Rightarrow> string \<Rightarrow> ('s, unit) go" where
  "block_user R L cfg userId =
     (let brushBanLimit = StringToInt (BrushBanLimit cfg); brushSpeechTime = StringToInt (BrushSpeechTime cfg);
          trigger = lvTriggerJson L \<lparr> tuUserId = userId, tuBrushTime = lvNowText L, tuDataType = ''open_im'' \<rparr>
      in bindG (ignoreG (rdSet R (RedisBrushAllKey userId) (itoa brushSpeechTime) (mul64 brushSpeechTime (60 * SecondNs)))) (\<lambda>_.
         bindG (valG 0 (rdIncr R (RedisBlockImKey userId))) (\<lambda>blockNumIm.
         bindG (ignoreG (lvPersist L (RedisBlockImKey userId))) (\<lambda>_.
           if blockNumIm < brushBanLimit
           then bindG (ignoreG (lvLPush L RedisImTriggerKey trigger)) (\<lambda>_. ignoreG (rdDel R (RedisUserKey userId)))
           else bindG (ignoreG (lvLPush L RedisImBlockKey trigger)) (\<lambda>_. ignoreG (rdDel R (RedisBlockImKey userId)))))))"

text \<open>
  \<open>Check\<close> returns a flag and an error next to each other; a missing configuration lets the user
  pass with an error.
\<close>

definition Check :: "'s redis_api \<Rightarrow> 's live_api \<Rightarrow> string \<Rightarrow> ('s, bool \<times> go_error option) go" where
  "Check R L userId =
     bindG (valG 0 (lvTTL L (RedisBrushAllKey userId))) (\<lambda>muteAll.
       if muteAll > 0 then retG (False, Some (tooFast muteAll))
       else bindG (attemptG (rdGet R RedisConfigKey)) (\<lambda>r. case r of
           Inl err \<Rightarrow> retG (True, Some (Plain brush_config_failed))
         | Inr bytes \<Rightarrow>
             (case lvBrushConfig L bytes of
                Inl err \<Rightarrow> retG (True, Some (Plain ''BrushConfig Unmarshal failed''))
              | Inr cfg \<Rightarrow>
                  bindG (valG 0 (rdIncr R (RedisUserKey userId))) (\<lambda>messagesNum.
                  bindG (valG 0 (lvTTL L (RedisUserKey userId))) (\<lambda>ttl.
                  bindG (if ttl < 0 then ignoreG (rdExpire R (RedisUserKey userId) (mul64 (StringToInt (BrushTime cfg)) SecondNs))
                         else retG ()) (\<lambda>_.
                  bindG (if messagesNum > StringToInt (BrushLimitCfg cfg) then block_user R L cfg userId else retG ()) (\<lambda>_.
                  bindG (valG 0 (lvTTL L (RedisBrushAllKey userId))) (\<lambda>blockAll.
                    if blockAll > 0 then retG (False, Some (tooFast blockAll)) else retG (True, None)))))))))"

section \<open>Word filter (sensitive.go)\<close>

definition SensitiveConfigKey :: string where "SensitiveConfigKey = ''sensitive_filter_set''"
definition SensitiveWordKey :: string where "SensitiveWordKey = ''sensitive_word''"
definition SensitiveHitMqKey :: string where "SensitiveHitMqKey = ''sensitive_hit_word_mq''"

definition GetSensitiveWord :: "'s redis_api \<Rightarrow> 's live_api \<Rightarrow> ('s, string list) go" where
  "GetSensitiveWord R L = bindG (attemptG (rdGet R SensitiveWordKey)) (\<lambda>r. case r of
       Inl err \<Rightarrow> retG []
     | Inr bytes \<Rightarrow> (case lvSensitiveWords L bytes of Inl err \<Rightarrow> retG [] | Inr words \<Rightarrow> retG words))"

definition sensitive_Filter :: "'s redis_api \<Rightarrow> 's live_api \<Rightarrow> string \<Rightarrow> ('s, string \<times> string list \<times> bool) go" where
  "sensitive_Filter R L word = bindG (GetSensitiveWord R L) (\<lambda>words.
     if length words > 0 then retG (lvTrieFilter L words word) else retG ([], [], False))"

definition GetSensitiveConfig :: "'s redis_api \<Rightarrow> 's live_api \<Rightarrow> ('s, string) go" where
  "GetSensitiveConfig R L = bindG (attemptG (rdGet R SensitiveConfigKey)) (\<lambda>r. case r of
       Inl err \<Rightarrow> retG []
     | Inr bytes \<Rightarrow> retG (lvSensitiveConfig L bytes))"

definition PushToHitMQ :: "'s live_api \<Rightarrow> HitSensitiveMessage \<Rightarrow> ('s, unit) go" where
  "PushToHitMQ L hitMessage = ignoreG (lvLPush L SensitiveHitMqKey (lvHitJson L hitMessage))"

end
