(* ===== verification/Callbacks.thy ===== *)
theory Callbacks
  imports MsgOptions GoMonad Constants
begin

text \<open>
  The webhooks around the message service: the request and its answer
  (\<open>pkg/common/http/http\_client.go\<close>, \<open>pkg/callbackstruct/common.go\<close>) and the calls of
  \<open>internal/rpc/msg/callback.go\<close>.  The HTTP post and the JSON decoders are arguments.
\<close>

section \<open>Requests and answers\<close>

record CallBackConfig =
  cbcEnable :: bool
  cbcFailedContinue :: "bool option"

record CommonCallbackReq =
  ccSendID :: string
  ccCallbackCommand :: string
  ccServerMsgID :: string
  ccClientMsgID :: string
  ccOperationID :: string
  ccSenderPlatformID :: int
  ccSenderNickname :: string
  ccSessionType :: int
  ccMsgFrom :: int
  ccContentType :: int
  ccStatus :: int
  ccCreateTime :: int
  ccContent :: string
  ccSeq :: int
  ccAtUserIDList :: "string list"
  ccSenderFaceURL :: string
  ccEx :: string

record CommonCallbackResp =
  ActionCode :: int
  cbErrCode :: int
  cbErrMsg :: string
  cbErrDlt :: string
  NextCode :: int

definition CommonCallbackResp_Parse :: "CommonCallbackResp \<Rightarrow> go_error option" where
  "CommonCallbackResp_Parse c =
     (if ActionCode c \<noteq> 0 \<or> NextCode c = 1
      then Some (Coded (codeError_WithDetail (NewCodeError (cbErrCode c) (cbErrMsg c)) (cbErrDlt c)))
      else None)"

record CallbackMsgModifyResp =
  mmCommon :: CommonCallbackResp
  mmContent :: "string option"
  mmRecvID :: "string option"
  mmGroupID :: "string option"
  mmClientMsgID :: "string option"
  mmServerMsgID :: "string option"
  mmSenderPlatformID :: "int option"
  mmSenderNickname :: "string option"
  mmSenderFaceURL :: "string option"
  mmSessionType :: "int option"
  mmMsgFrom :: "int option"
  mmContentType :: "int option"
  mmStatus :: "int option"
  mmOptions :: "options option"
  mmOfflinePushInfo :: "OfflinePushInfo option"
  mmAtUserIDList :: "string list option"
  mmAttachedInfo :: "string option"
  mmEx :: "string option"

datatype callback_body =
    BodyRecv CommonCallbackReq string
  | BodyGroup CommonCallbackReq string
  | BodyModify CommonCallbackReq
  | BodyGroupRead string string string int int
  | BodySingleRead string string string int "int list"
  | BodyRevoke string string int string

fun GetCallbackCommand :: "callback_body \<Rightarrow> string" where
  "GetCallbackCommand (BodyRecv c r) = ccCallbackCommand c"
| "GetCallbackCommand (BodyGroup c g) = ccCallbackCommand c"
| "GetCallbackCommand (BodyModify c) = ccCallbackCommand c"
| "GetCallbackCommand (BodyGroupRead cmd s r n t) = cmd"
| "GetCallbackCommand (BodySingleRead cmd u c t qs) = cmd"
| "GetCallbackCommand (BodyRevoke cmd c q u) = cmd"

record callback_config =
  cfBeforeSendSingle :: CallBackConfig
  cfAfterSendSingle :: CallBackConfig
  cfBeforeSendGroup :: CallBackConfig
  cfAfterSendGroup :: CallBackConfig
  cfMsgModify :: CallBackConfig
  cfGroupMsgRead :: CallBackConfig
  cfSingleMsgRead :: CallBackConfig
  cfAfterRevoke :: CallBackConfig

record 's callback_api =
  cbPost :: "string \<Rightarrow> callback_body \<Rightarrow> ('s, string) go"
  cbDecode :: "string \<Rightarrow> go_error + CommonCallbackResp"
  cbDecodeModify :: "string \<Rightarrow> go_error + CallbackMsgModifyResp"
  cbErrorText :: "go_error \<Rightarrow> string"
  cbTipsDetail :: "string \<Rightarrow> string"
  cbConfig :: callback_config

text \<open>
  \<open>None\<close> is an answer that stays as it was initialised, because the call or the decoding failed and
  the configuration says to go on.
\<close>

definition callBackPostReturn ::
  "(go_error \<Rightarrow> string) \<Rightarrow> ('s, string) go \<Rightarrow> (string \<Rightarrow> go_error + 'r) \<Rightarrow> ('r \<Rightarrow> CommonCallbackResp) \<Rightarrow> CallBackConfig
   \<Rightarrow> ('s, 'r option) go" where
  "callBackPostReturn text post decode common cfg =
     bindG (attemptG post) (\<lambda>r. case r of
         Inl err \<Rightarrow> if cbcFailedContinue cfg = Some True then retG None
                    else failG (Wrap1m ErrNetwork (text err))
       | Inr b \<Rightarrow>
           (case decode b of
              Inl err \<Rightarrow> if cbcFailedContinue cfg = Some True then retG None
                         else failG (Coded (codeError_WithDetail (NewCodeError 90007 ''DataError'')
                                (text err @ ''response format error'')))
            | Inr output \<Rightarrow>
                (case CommonCallbackResp_Parse (common output) of
                   Some err \<Rightarrow> failG err
                 | None \<Rightarrow> retG (Some output))))"

definition CallBackPostReturn ::
  "'s callback_api \<Rightarrow> callback_body \<Rightarrow> (string \<Rightarrow> go_error + 'r) \<Rightarrow> ('r \<Rightarrow> CommonCallbackResp) \<Rightarrow> CallBackConfig
   \<Rightarrow> ('s, 'r option) go" where
  "CallBackPostReturn A req decode common cfg =
     callBackPostReturn (cbErrorText A) (cbPost A (GetCallbackCommand req) req) decode common cfg"

definition post_common :: "'s callback_api \<Rightarrow> callback_body \<Rightarrow> CallBackConfig \<Rightarrow> ('s, unit) go" where
  "post_common A req cfg = bindG (CallBackPostReturn A req (cbDecode A) (\<lambda>c. c) cfg) (\<lambda>_. retG ())"

section \<open>The calls of the message service (callback.go)\<close>

definition GetContent :: "'s callback_api \<Rightarrow> MsgData \<Rightarrow> string" where
  "GetContent A msg =
     (if ContentType msg \<ge> NotificationBegin \<and> ContentType msg \<le> NotificationEnd
      then cbTipsDetail A (Content msg) else Content msg)"

definition toCommonCallback :: "'s callback_api \<Rightarrow> string \<Rightarrow> MsgData \<Rightarrow> string \<Rightarrow> CommonCallbackReq" where
  "toCommonCallback A operationID msg command =
     \<lparr> ccSendID = SendID msg, ccCallbackCommand = command, ccServerMsgID = ServerMsgID msg,
       ccClientMsgID = ClientMsgID msg, ccOperationID = operationID, ccSenderPlatformID = SenderPlatformID msg,
       ccSenderNickname = SenderNickname msg, ccSessionType = SessionType msg, ccMsgFrom = MsgFrom msg,
       ccContentType = ContentType msg, ccStatus = Status msg, ccCreateTime = CreateTime msg,
       ccContent = GetContent A msg, ccSeq = Seq msg mod 2 ^ 32, ccAtUserIDList = AtUserIDList msg,
       ccSenderFaceURL = SenderFaceURL msg, ccEx = Ex msg \<rparr>"

definition callbackBeforeSendSingleMsg :: "'s callback_api \<Rightarrow> string \<Rightarrow> MsgData \<Rightarrow> ('s, unit) go" where
  "callbackBeforeSendSingleMsg A op msg =
     (let cfg = cfBeforeSendSingle (cbConfig A) in
      if \<not> cbcEnable cfg \<or> ContentType msg = Typing then retG ()
      else post_common A (BodyRecv (toCommonCallback A op msg ''callbackBeforeSendSingleMsgCommand'') (RecvID msg)) cfg)"

definition callbackAfterSendSingleMsg :: "'s callback_api \<Rightarrow> string \<Rightarrow> MsgData \<Rightarrow> ('s, unit) go" where
  "callbackAfterSendSingleMsg A op msg =
     (let cfg = cfAfterSendSingle (cbConfig A) in
      if \<not> cbcEnable cfg \<or> ContentType msg = Typing then retG ()
      else post_common A (BodyRecv (toCommonCallback A op msg ''callbackAfterSendSingleMsgCommand'') (RecvID msg)) cfg)"

definition callbackBeforeSendGroupMsg :: "'s callback_api \<Rightarrow> string \<Rightarrow> MsgData \<Rightarrow> ('s, unit) go" where
  "callbackBeforeSendGroupMsg A op msg =
     (let cfg = cfBeforeSendGroup (cbConfig A) in
      if \<not> cbcEnable cfg \<or> ContentType msg = Typing then retG ()
      else post_common A (BodyGroup (toCommonCallback A op msg ''callbackBeforeSendGroupMsgCommand'') (GroupID msg)) cfg)"

definition callbackAfterSendGroupMsg :: "'s callback_api \<Rightarrow> string \<Rightarrow> MsgData \<Rightarrow> ('s, unit) go" where
  "callbackAfterSendGroupMsg A op msg =
     (let cfg = cfAfterSendGroup (cbConfig A) in
      if \<not> cbcEnable cfg \<or> ContentType msg = Typing then retG ()
      else post_common A (BodyGroup (toCommonCallback A op msg ''callbackAfterSendGroupMsgCommand'') (GroupID msg)) cfg)"

text \<open>\<open>NotNilReplace(&msg.F, resp.F)\<close>.\<close>

definition NotNilReplace :: "'a \<Rightarrow> 'a option \<Rightarrow> 'a" where
  "NotNilReplace old v = (case v of None \<Rightarrow> old | Some x \<Rightarrow> x)"

text \<open>The answer replaces the fields it has; a push text needs a message that has one.\<close>

definition modify_msg :: "CallbackMsgModifyResp \<Rightarrow> MsgData \<Rightarrow> MsgData outcome" where
  "modify_msg resp msg =
     (let msg' = msg\<lparr> Content := NotNilReplace (Content msg) (mmContent resp) \<rparr> in
      if mmOfflinePushInfo resp \<noteq> None \<and> OfflinePush msg = None then Panic ''nil pointer dereference''
      else Ok (msg'\<lparr>
        OfflinePush := (case mmOfflinePushInfo resp of None \<Rightarrow> OfflinePush msg | Some p \<Rightarrow> Some p),
        RecvID := NotNilReplace (RecvID msg) (mmRecvID resp),
        GroupID := NotNilReplace (GroupID msg) (mmGroupID resp),
        ClientMsgID := NotNilReplace (ClientMsgID msg) (mmClientMsgID resp),
        ServerMsgID := NotNilReplace (ServerMsgID msg) (mmServerMsgID resp),
        SenderPlatformID := NotNilReplace (SenderPlatformID msg) (mmSenderPlatformID resp),
        SenderNickname := NotNilReplace (SenderNickname msg) (mmSenderNickname resp),
        SenderFaceURL := NotNilReplace (SenderFaceURL msg) (mmSenderFaceURL resp),
        SessionType := NotNilReplace (SessionType msg) (mmSessionType resp),
        MsgFrom := NotNilReplace (MsgFrom msg) (mmMsgFrom resp),
        ContentType := NotNilReplace (ContentType msg) (mmContentType resp),
        Status := NotNilReplace (Status msg) (mmStatus resp),
        Options := NotNilReplace (Options msg) (mmOptions resp),
        AtUserIDList := NotNilReplace (AtUserIDList msg) (mmAtUserIDList resp),
        AttachedInfo := NotNilReplace (AttachedInfo msg) (mmAttachedInfo resp),
        Ex := NotNilReplace (Ex msg) (mmEx resp) \<rparr>))"

definition callbackMsgModify :: "'s callback_api \<Rightarrow> string \<Rightarrow> MsgData \<Rightarrow> ('s, MsgData) go" where
  "callbackMsgModify A op msg =
     (let cfg = cfMsgModify (cbConfig A) in
      if \<not> cbcEnable cfg \<or> ContentType msg \<noteq> Text then retG msg
      else bindG (CallBackPostReturn A (BodyModify (toCommonCallback A op msg ''callbackMsgModifyCommand''))
                    (cbDecodeModify A) mmCommon cfg) (\<lambda>r. case r of
          None \<Rightarrow> retG msg
        | Some resp \<Rightarrow> liftG (modify_msg resp msg)))"

text \<open>The two read callbacks post with the configuration of the modification callback.\<close>

definition CallbackGroupMsgRead ::
  "'s callback_api \<Rightarrow> string \<Rightarrow> string \<Rightarrow> int \<Rightarrow> int \<Rightarrow> ('s, unit) go" where
  "CallbackGroupMsgRead A sendID receiveID unread contentType =
     (if \<not> cbcEnable (cfGroupMsgRead (cbConfig A)) \<or> contentType \<noteq> Text then retG ()
      else post_common A (BodyGroupRead ''callbackGroupMsgReadCommand'' sendID receiveID unread contentType)
             (cfMsgModify (cbConfig A)))"

definition CallbackSingleMsgRead ::
  "'s callback_api \<Rightarrow> string \<Rightarrow> string \<Rightarrow> int \<Rightarrow> int list \<Rightarrow> ('s, unit) go" where
  "CallbackSingleMsgRead A userID conversationID contentType seqs =
     (if \<not> cbcEnable (cfSingleMsgRead (cbConfig A)) \<or> contentType \<noteq> Text then retG ()
      else post_common A (BodySingleRead ''callbackSingleMsgRead'' userID conversationID contentType seqs)
             (cfMsgModify (cbConfig A)))"

definition CallbackAfterRevokeMsg :: "'s callback_api \<Rightarrow> string \<Rightarrow> int \<Rightarrow> string \<Rightarrow> ('s, unit) go" where
  "CallbackAfterRevokeMsg A conversationID seq userID =
     (if \<not> cbcEnable (cfAfterRevoke (cbConfig A)) then retG ()
      else post_common A (BodyRevoke ''callbackBeforeAfterMsgCommand'' conversationID seq userID)
             (cfAfterRevoke (cbConfig A)))"

end
