(* ===== verification/MsgServer.thy ===== *)
theory MsgServer
  imports MsgDatabase Auth Live Callbacks
begin

text \<open>
  Sending a message: \<open>internal/rpc/msg/verify.go\<close>, \<open>send.go\<close>, \<open>utils.go\<close>,
  \<open>message\_interceptor.go\<close>.  The calls to the friend, user, group and conversation services go
  over the network and are arguments (\<open>msg_server\<close>), like the Kafka producers and the JSON
  documents of a message's content.  \<open>now\<close> is the time in milliseconds.
\<close>

record rpc_ctx =
  ctxOpUserID :: string
  ctxOperationID :: string

record msg_config =
  SingleMessageHasReadReceiptEnable :: bool
  GroupMessageHasReadReceiptEnable :: bool
  FriendVerify :: bool

record 's msg_server =
  msDB :: "'s msg_db"
  msLive :: "'s live_api"
  msCallback :: "'s callback_api"
  msAuth :: auth_config
  msConfig :: msg_config
  msToMQ :: "string \<Rightarrow> MsgData \<Rightarrow> ('s, unit) go"
  msRevokeMsgToEsMQ :: "string \<Rightarrow> ('s, unit) go"
  msNewMsgID :: "string \<Rightarrow> ('s, string) go"
  msContentText :: "int \<Rightarrow> string \<Rightarrow> string"
  msTextContent :: "int \<Rightarrow> string \<Rightarrow> string"
  msWordsJson :: "string list \<Rightarrow> string"
  msIsBlocked :: "string \<Rightarrow> string \<Rightarrow> ('s, bool) go"
  msIsFriend :: "string \<Rightarrow> string \<Rightarrow> ('s, bool) go"
  msGetFriendsRemark :: "string \<Rightarrow> ('s, string \<rightharpoonup> string) go"
  msGetUserGlobalMsgRecvOpt :: "string \<Rightarrow> ('s, int) go"
  msGetUserInfo :: "string \<Rightarrow> ('s, UserInfo) go"
  msGetGroupInfoCache :: "string \<Rightarrow> ('s, GroupInfo) go"
  msGetGroupMemberCache :: "string \<Rightarrow> string \<Rightarrow> ('s, GroupMemberFullInfo) go"
  msTakeGroupMember :: "string \<Rightarrow> string \<Rightarrow> ('s, GroupMemberFullInfo) go"
  msGetGroupMemberIDs :: "string \<Rightarrow> ('s, string list) go"
  msGetGroupMemberInfoMap :: "string \<Rightarrow> string list \<Rightarrow> ('s, string \<rightharpoonup> GroupMemberFullInfo) go"
  msGetSingleConversationRecvMsgOpt :: "string \<Rightarrow> string \<Rightarrow> ('s, int) go"
  msSetConversations :: "string list \<Rightarrow> ConversationReq \<Rightarrow> ('s, unit) go"
  msGetConversation :: "string \<Rightarrow> string \<Rightarrow> ('s, Conversation) go"
  msGetConversations :: "string \<Rightarrow> string list \<Rightarrow> ('s, Conversation list) go"
  msGetConversationsByConversationID :: "string list \<Rightarrow> ('s, Conversation list) go"
  msGetConversationIDs :: "string \<Rightarrow> ('s, string list) go"

section \<open>Checks (utils.go, verify.go)\<close>

definition isMessageHasReadEnabled :: "msg_config \<Rightarrow> MsgData \<Rightarrow> bool" where
  "isMessageHasReadEnabled cfg msgData =
     (if ContentType msgData = HasReadReceipt \<and> SessionType msgData = SingleChatType
      then SingleMessageHasReadReceiptEnable cfg
      else if ContentType msgData = HasReadReceipt \<and> SessionType msgData = SuperGroupChatType
      then GroupMessageHasReadReceiptEnable cfg
      else True)"

definition MessageHasReadEnabled :: "msg_config \<Rightarrow> MsgData \<Rightarrow> go_error + MsgData" where
  "MessageHasReadEnabled cfg msgData =
     (if ContentType msgData = HasReadReceipt \<and> SessionType msgData = SingleChatType
      then (if \<not> SingleMessageHasReadReceiptEnable cfg then Inl (codeError_Wrap ErrMessageHasReadDisable []) else Inr msgData)
      else if ContentType msgData = HasReadReceipt \<and> SessionType msgData = SuperGroupChatType
      then (if \<not> GroupMessageHasReadReceiptEnable cfg then Inl (codeError_Wrap ErrMessageHasReadDisable []) else Inr msgData)
      else Inr msgData)"

definition IsNotFound :: "go_error \<Rightarrow> bool" where
  "IsNotFound err \<longleftrightarrow> Unwrap err = RedisNil \<or> Unwrap err = MongoNoDocuments"

definition messageVerification :: "'s msg_server \<Rightarrow> int \<Rightarrow> MsgData \<Rightarrow> ('s, unit) go" where
  "messageVerification M now d =
     (let J = db_json (msDB M); auth = fst (VerifyRights J (Ex d)) in
      if fst (VerifySendStatus J (Ex d)) = 3 then failG (codeError_Wrap ErrNetwork [])
      else if SessionType d = SingleChatType then
        (if IsContain (SendID d) (cfgManager (msAuth M)) then retG ()
         else if ContentType d \<le> NotificationEnd \<and> ContentType d \<ge> NotificationBegin then retG ()
         else if MsgFrom d = SysMsgType then retG ()
         else if auth = 0 then
           bindG (msIsBlocked M (SendID d) (RecvID d)) (\<lambda>black.
             if black then failG (codeError_Wrap ErrBlockedByPeer [])
             else if FriendVerify (msConfig M) then
               bindG (msIsFriend M (SendID d) (RecvID d)) (\<lambda>friend.
                 if \<not> friend then failG (codeError_Wrap ErrNotPeersFriend []) else retG ())
             else retG ())
         else retG ())
      else if SessionType d = SuperGroupChatType then
        bindG (msGetGroupInfoCache M (GroupID d)) (\<lambda>groupInfo.
          if giStatus groupInfo = GroupStatusDismissed \<and> ContentType d \<noteq> GroupDismissedNotification
          then failG (codeError_Wrap ErrDismissedAlready [])
          else if giGroupType groupInfo = SuperGroup then retG ()
          else if IsContain (SendID d) (cfgManager (msAuth M)) then retG ()
          else if ContentType d \<le> NotificationEnd \<and> ContentType d \<ge> NotificationBegin then retG ()
          else bindG (attemptG (msGetGroupMemberCache M (GroupID d) (SendID d))) (\<lambda>r. case r of
              Inl err \<Rightarrow> if err = ErrRecordNotFound
                         then failG (Wrap1m ErrNotInGroupYet (cbErrorText (msCallback M) err)) else failG err
            | Inr m \<Rightarrow>
                if gmRoleLevel m = GroupOwner \<or> gmRoleLevel m = GroupAdmin then retG ()
                else if auth > 0 then retG ()
                else if gmMuteEndTime m \<ge> now then failG (codeError_Wrap ErrMutedInGroup [])
                else if giStatus groupInfo = GroupStatusMuted then failG (codeError_Wrap ErrMutedGroup [])
                else if gmRoleLevel m = GroupOrdinaryUsers \<and> MsgFrom d = UserMsgType then
                  bindG (Check (db_rdb (msDB M)) (msLive M) (SendID d)) (\<lambda>(result, err).
                    if result = False
                    then (case err of None \<Rightarrow> panicG ''nil pointer dereference''
                          | Some e \<Rightarrow> failG (GetSendMsgLimitErr (cbErrorText (msCallback M) e)))
                    else retG ())
                else retG ()))
      else retG ())"

text \<open>The options that a content type forces; \<open>SetSwitchFromOptions\<close> on a nil map has no effect.\<close>

definition content_switches :: "int \<Rightarrow> (string \<times> bool) list" where
  "content_switches contentType =
     (if contentType \<in> {Text, Picture, Voice, Video, File, AtText, Merger, Card, Location, Custom, Quote}
      then [(IsConversationUpdate, True), (IsUnreadCount, True), (IsSenderSync, True)]
      else if contentType = Revoke then [(IsUnreadCount, False), (IsOfflinePush, False)]
      else if contentType = HasReadReceipt
      then [(IsConversationUpdate, False), (IsSenderConversationUpdate, False), (IsUnreadCount, False), (IsOfflinePush, False)]
      else if contentType = Typing
      then [(IsHistory, False), (IsPersistent, False), (IsSenderSync, False), (IsConversationUpdate, False),
            (IsSenderConversationUpdate, False), (IsUnreadCount, False), (IsOfflinePush, False)]
      else [])"

definition encapsulateMsgData :: "'s msg_server \<Rightarrow> int \<Rightarrow> MsgData \<Rightarrow> ('s, MsgData) go" where
  "encapsulateMsgData M now msg =
     bindG (msNewMsgID M (SendID msg)) (\<lambda>serverMsgID.
       retG (msg\<lparr> ServerMsgID := serverMsgID,
                  SendTime := (if SendTime msg = 0 then now else SendTime msg),
                  Options := fold (\<lambda>(k, v) o'. SetSwitchFromOptions o' k v) (content_switches (ContentType msg)) (Options msg) \<rparr>))"

text \<open>The message is updated in place; the flag says whether it is to be sent.\<close>

definition no_push :: "MsgData \<Rightarrow> MsgData" where
  "no_push msg = msg\<lparr> Options := SetSwitchFromOptions (case Options msg of None \<Rightarrow> Some Map.empty | Some o' \<Rightarrow> Some o')
                        IsOfflinePush False \<rparr>"

definition modifyMessageByUserMessageReceiveOpt ::
  "'s msg_server \<Rightarrow> string \<Rightarrow> string \<Rightarrow> MsgData \<Rightarrow> ('s, bool \<times> MsgData) go" where
  "modifyMessageByUserMessageReceiveOpt M userID conversationID msg =
     bindG (msGetUserGlobalMsgRecvOpt M userID) (\<lambda>opt.
       if opt = NotReceiveMessage then retG (False, msg)
       else if opt = ReceiveNotNotifyMessage then retG (True, no_push msg)
       else bindG (attemptG (msGetSingleConversationRecvMsgOpt M userID conversationID)) (\<lambda>r. case r of
           Inl err \<Rightarrow> if codeError_Is Relation_init (CodeError 1004 ''RecordNotFoundError'' []) (Some err) None
                      then retG (True, msg) else failG err
         | Inr singleOpt \<Rightarrow>
             if singleOpt = ReceiveMessage then retG (True, msg)
             else if singleOpt = NotReceiveMessage
             then (if IsContainInt (ContentType msg) [HasReadReceipt] then retG (True, msg) else retG (False, msg))
             else if singleOpt = ReceiveNotNotifyMessage then retG (True, no_push msg)
             else retG (True, msg)))"

section \<open>Sending (send.go)\<close>

record SendMsgResp =
  rsServerMsgID :: string
  rsClientMsgID :: string
  rsSendTime :: int

definition resp_of :: "MsgData \<Rightarrow> SendMsgResp" where
  "resp_of msg = \<lparr> rsServerMsgID = ServerMsgID msg, rsClientMsgID = ClientMsgID msg, rsSendTime = SendTime msg \<rparr>"

definition setConversationAtInfo :: "'s msg_server \<Rightarrow> MsgData \<Rightarrow> ('s, unit) go" where
  "setConversationAtInfo M msg =
     (let conversation = empty_conversation_req\<lparr> crConversationID := GetConversationIDByMsg msg, crConversationType := SessionType msg,
            crGroupID := GroupID msg \<rparr>;
          tagAll = IsContain AtAllString (AtUserIDList msg)
      in if tagAll then
           bindG (attemptG (msGetGroupMemberIDs M (GroupID msg))) (\<lambda>r. case r of
               Inl err \<Rightarrow> retG ()
             | Inr memberUserIDList \<Rightarrow>
                 let atUserID = DifferenceString [AtAllString] (AtUserIDList msg) in
                 bindG (if length atUserID = 0 then retG memberUserIDList
                        else bindG (ignoreG (msSetConversations M atUserID (conversation\<lparr> crGroupAtType := Some AtAllAtMe \<rparr>))) (\<lambda>_.
                             retG (DifferenceString atUserID memberUserIDList))) (\<lambda>ids.
                 ignoreG (msSetConversations M ids (conversation\<lparr> crGroupAtType := Some AtAll \<rparr>))))
         else ignoreG (msSetConversations M (AtUserIDList msg) (conversation\<lparr> crGroupAtType := Some AtMe \<rparr>)))"

text \<open>\<open>setConversationAtInfo\<close> is a goroutine: it is run to its end where it is started.\<close>

definition sendMsgSuperGroupChat :: "'s msg_server \<Rightarrow> int \<Rightarrow> rpc_ctx \<Rightarrow> MsgData \<Rightarrow> ('s, SendMsgResp) go" where
  "sendMsgSuperGroupChat M now ctx msg0 =
     bindG (messageVerification M now msg0) (\<lambda>_.
     bindG (callbackBeforeSendGroupMsg (msCallback M) (ctxOperationID ctx) msg0) (\<lambda>_.
     bindG (callbackMsgModify (msCallback M) (ctxOperationID ctx) msg0) (\<lambda>msg.
     bindG (msToMQ M (GenConversationUniqueKeyForGroup (GroupID msg)) msg) (\<lambda>_.
     bindG (if ContentType msg = AtText then setConversationAtInfo M msg else retG ()) (\<lambda>_.
     bindG (ignoreG (callbackAfterSendGroupMsg (msCallback M) (ctxOperationID ctx) msg)) (\<lambda>_.
       retG (resp_of msg)))))))"

definition sendMsgNotification :: "'s msg_server \<Rightarrow> MsgData \<Rightarrow> ('s, SendMsgResp) go" where
  "sendMsgNotification M msg =
     bindG (msToMQ M (GenConversationUniqueKeyForSingle (SendID msg) (RecvID msg)) msg) (\<lambda>_. retG (resp_of msg))"

definition sendMsgSingleChat :: "'s msg_server \<Rightarrow> int \<Rightarrow> rpc_ctx \<Rightarrow> MsgData \<Rightarrow> ('s, SendMsgResp option) go" where
  "sendMsgSingleChat M now ctx msg0 =
     bindG (messageVerification M now msg0) (\<lambda>_.
     bindG (if \<not> IsNotificationByMsg msg0
            then modifyMessageByUserMessageReceiveOpt M (RecvID msg0) (GenConversationIDForSingle (SendID msg0) (RecvID msg0)) msg0
            else retG (True, msg0)) (\<lambda>(isSend, msg1).
       if \<not> isSend then retG None
       else
         bindG (callbackBeforeSendSingleMsg (msCallback M) (ctxOperationID ctx) msg1) (\<lambda>_.
         bindG (callbackMsgModify (msCallback M) (ctxOperationID ctx) msg1) (\<lambda>msg.
         bindG (msToMQ M (GenConversationUniqueKeyForSingle (SendID msg) (RecvID msg)) msg) (\<lambda>_.
         bindG (ignoreG (callbackAfterSendSingleMsg (msCallback M) (ctxOperationID ctx) msg)) (\<lambda>_.
           retG (Some (resp_of msg))))))))"

text \<open>
  \<open>strings.TrimSpace\<close> leaves nothing exactly when every rune is a space of \<open>unicode.IsSpace\<close>:
  the ASCII spaces, U+0085, U+00A0 and the space separators, here in their UTF-8 encoding.
\<close>

fun blank_bytes :: "nat list \<Rightarrow> bool" where
  "blank_bytes [] = True"
| "blank_bytes (a # bs) =
     (if a \<in> {9, 10, 11, 12, 13, 32} then blank_bytes bs
      else case bs of
        b # cs \<Rightarrow>
          if a = 0xC2 \<and> b \<in> {0x85, 0xA0} then blank_bytes cs
          else (case cs of
            c # ds \<Rightarrow>
              if (a = 0xE1 \<and> b = 0x9A \<and> c = 0x80)
                \<or> (a = 0xE2 \<and> b = 0x80 \<and> (0x80 \<le> c \<and> c \<le> 0x8A \<or> c \<in> {0xA8, 0xA9, 0xAF}))
                \<or> (a = 0xE2 \<and> b = 0x81 \<and> c = 0x9F) \<or> (a = 0xE3 \<and> b = 0x80 \<and> c = 0x80)
              then blank_bytes ds else False
          | [] \<Rightarrow> False)
      | [] \<Rightarrow> False)"

definition blank :: "string \<Rightarrow> bool" where
  "blank s = blank_bytes (map of_char s)"

definition empty_content_text :: string where
  "empty_content_text =
     [CHR 0xE8, CHR 0xAF, CHR 0xB7, CHR 0xE8, CHR 0xBE, CHR 0x93, CHR 0xE5, CHR 0x85, CHR 0xA5,
     CHR 0xE5, CHR 0x8F, CHR 0x91, CHR 0xE9, CHR 0x80, CHR 0x81, CHR 0xE5, CHR 0x86, CHR 0x85,
     CHR 0xE5, CHR 0xAE, CHR 0xB9]"

text \<open>
  The word filter on a text message of an ordinary user.  \<open>msContentText\<close> reads the text out of the
  content and \<open>msTextContent\<close> writes a content with a new text.
\<close>

definition filter_words :: "'s msg_server \<Rightarrow> int \<Rightarrow> MsgData \<Rightarrow> ('s, MsgData) go" where
  "filter_words M now d =
     (let R = db_rdb (msDB M); L = msLive M; content = msContentText M (ContentType d) (Content d) in
      bindG (GetSensitiveConfig R L) (\<lambda>cfg.
        let flag = StringToInt cfg in
        if content = [] then retG d
        else
          bindG (sensitive_Filter R L content) (\<lambda>(sentence, keywords, found).
            if \<not> found then retG d
            else
              bindG (PushToHitMQ L \<lparr> hmFrom = SendID d,
                       hmType = (if SessionType d = 3 then 1 else 0),
                       hmTarget = (if SessionType d = 3 then GroupID d else RecvID d),
                       hmContent = content, hmDT = now div 1000, hmIP = Ip d, hmExtra = msWordsJson M keywords \<rparr>) (\<lambda>_.
                if flag = 1 \<or> flag = 2
                then failG (Wrap1m ErrMsgSensitiveWordFailed ''Cause by sensitive word.'')
                else if flag = 3 then
                  (case OfflinePush d of
                     None \<Rightarrow> panicG ''nil pointer dereference''
                   | Some p \<Rightarrow> retG (d\<lparr> Content := msTextContent M (ContentType d) sentence,
                                        OfflinePush := Some (p\<lparr> Desc := sentence \<rparr>) \<rparr>))
                else retG d))))"

definition SendMsg :: "'s msg_server \<Rightarrow> int \<Rightarrow> rpc_ctx \<Rightarrow> MsgData option \<Rightarrow> ('s, SendMsgResp option) go" where
  "SendMsg M now ctx msgData =
     (case msgData of
        None \<Rightarrow> failG (Wrap1m ErrArgs ''msgData is nil'')
      | Some d \<Rightarrow>
          if \<not> isMessageHasReadEnabled (msConfig M) d then failG (codeError_Wrap ErrMessageHasReadDisable [])
          else if blank (Content d) then failG (Wrap1m ErrArgs empty_content_text)
          else
            bindG (if fst (VerifyRights (db_json (msDB M)) (Ex d)) = 0 \<and> \<not> IsAppManagerUid (msAuth M) (ctxOpUserID ctx)
                      \<and> ContentType d \<in> {101, 106, 114}
                   then filter_words M now d else retG d) (\<lambda>d1.
            bindG (encapsulateMsgData M now d1) (\<lambda>d2.
              if SessionType d2 = SingleChatType then sendMsgSingleChat M now ctx d2
              else if SessionType d2 = NotificationChatType then bindG (sendMsgNotification M d2) (\<lambda>r. retG (Some r))
              else if SessionType d2 = SuperGroupChatType then bindG (sendMsgSuperGroupChat M now ctx d2) (\<lambda>r. retG (Some r))
              else failG (Wrap1m ErrArgs ''unknown sessionType''))))"

end
