(* ===== verification/Notification.thy ===== *)
theory Notification
  imports MsgServer
begin

text \<open>
  Notifications: the sender of \<open>pkg/rpcclient/msg.go\<close>, which turns a notification into a message
  and hands it to \<open>SendMsg\<close>.  The configuration of a notification is looked up by the name of its
  field (\<open>cfg\<close>); its content, the JSON text of the tips, is an argument.
\<close>

record NotificationConf =
  ncIsSendMsg :: bool
  ncReliabilityLevel :: int
  ncUnreadCount :: bool
  ncOfflinePush :: bool

definition zero_conf :: NotificationConf where
  "zero_conf = \<lparr> ncIsSendMsg = False, ncReliabilityLevel = 0, ncUnreadCount = False, ncOfflinePush = False \<rparr>"

definition reliable :: "bool \<Rightarrow> NotificationConf" where
  "reliable b = zero_conf\<lparr> ncIsSendMsg := b, ncReliabilityLevel := ReliableNotificationNoMsg \<rparr>"

definition newContentTypeConf :: "(string \<Rightarrow> NotificationConf) \<Rightarrow> int \<rightharpoonup> NotificationConf" where
  "newContentTypeConf cfg = map_of
     [(GroupCreatedNotification, cfg ''GroupCreated''),
      (GroupInfoSetNotification, cfg ''GroupInfoSet''),
      (JoinGroupApplicationNotification, cfg ''JoinGroupApplication''),
      (MemberQuitNotification, cfg ''MemberQuit''),
      (GroupApplicationAcceptedNotification, cfg ''GroupApplicationAccepted''),
      (GroupApplicationRejectedNotification, cfg ''GroupApplicationRejected''),
      (GroupOwnerTransferredNotification, cfg ''GroupOwnerTransferred''),
      (MemberKickedNotification, cfg ''MemberKicked''),
      (MemberInvitedNotification, cfg ''MemberInvited''),
      (MemberEnterNotification, cfg ''MemberEnter''),
      (GroupDismissedNotification, cfg ''GroupDismissed''),
      (GroupMutedNotification, cfg ''GroupMuted''),
      (GroupCancelMutedNotification, cfg ''GroupCancelMuted''),
      (GroupMemberMutedNotification, cfg ''GroupMemberMuted''),
      (GroupMemberCancelMutedNotification, cfg ''GroupMemberCancelMuted''),
      (GroupMemberInfoSetNotification, cfg ''GroupMemberInfoSet''),
      (GroupMemberSetToAdminNotification, cfg ''GroupMemberSetToAdmin''),
      (GroupMemberSetToOrdinaryUserNotification, cfg ''GroupMemberSetToOrdinary''),
      (GroupInfoSetAnnouncementNotification, cfg ''GroupInfoSetAnnouncement''),
      (GroupInfoSetNameNotification, cfg ''GroupInfoSetName''),
      (GroupInfoSetFaceURLNotification, reliable True),
      (UserInfoUpdatedNotification, cfg ''UserInfoUpdated''),
      (UserStatusChangeNotification, cfg ''UserStatusChanged''),
      (FriendApplicationNotification, cfg ''FriendApplicationAdded''),
      (FriendApplicationApprovedNotification, cfg ''FriendApplicationApproved''),
      (FriendApplicationRejectedNotification, cfg ''FriendApplicationRejected''),
      (FriendAddedNotification, cfg ''FriendAdded''),
      (FriendDeletedNotification, cfg ''FriendDeleted''),
      (FriendRemarkSetNotification, cfg ''FriendRemarkSet''),
      (BlackAddedNotification, cfg ''BlackAdded''),
      (BlackDeletedNotification, cfg ''BlackDeleted''),
      (FriendInfoUpdatedNotification, cfg ''FriendInfoUpdated''),
      (FriendsInfoUpdateNotification, cfg ''FriendInfoUpdated''),
      (ConversationChangeNotification, cfg ''ConversationChanged''),
      (ConversationUnreadNotification, cfg ''ConversationChanged''),
      (ConversationPrivateChatNotification, cfg ''ConversationSetPrivate''),
      (MsgRevokeNotification, reliable False),
      (HasReadReceipt, reliable False),
      (DeleteMsgsNotification, reliable False)]"

definition newSessionTypeConf :: "int \<rightharpoonup> int" where
  "newSessionTypeConf = map_of
     [(GroupCreatedNotification, SuperGroupChatType),
      (GroupInfoSetNotification, SuperGroupChatType),
      (JoinGroupApplicationNotification, SingleChatType),
      (MemberQuitNotification, SuperGroupChatType),
      (GroupApplicationAcceptedNotification, SingleChatType),
      (GroupApplicationRejectedNotification, SingleChatType),
      (GroupOwnerTransferredNotification, SuperGroupChatType),
      (MemberKickedNotification, SuperGroupChatType),
      (MemberInvitedNotification, SuperGroupChatType),
      (MemberEnterNotification, SuperGroupChatType),
      (GroupDismissedNotification, SuperGroupChatType),
      (GroupMutedNotification, SuperGroupChatType),
      (GroupCancelMutedNotification, SuperGroupChatType),
      (GroupMemberMutedNotification, SuperGroupChatType),
      (GroupMemberCancelMutedNotification, SuperGroupChatType),
      (GroupMemberInfoSetNotification, SuperGroupChatType),
      (GroupMemberSetToAdminNotification, SuperGroupChatType),
      (GroupMemberSetToOrdinaryUserNotification, SuperGroupChatType),
      (GroupInfoSetAnnouncementNotification, SuperGroupChatType),
      (GroupInfoSetNameNotification, SuperGroupChatType),
      (GroupInfoSetFaceURLNotification, SuperGroupChatType),
      (UserInfoUpdatedNotification, SingleChatType),
      (UserStatusChangeNotification, SingleChatType),
      (FriendApplicationNotification, SingleChatType),
      (FriendApplicationApprovedNotification, SingleChatType),
      (FriendApplicationRejectedNotification, SingleChatType),
      (FriendAddedNotification, SingleChatType),
      (FriendDeletedNotification, SingleChatType),
      (FriendRemarkSetNotification, SingleChatType),
      (BlackAddedNotification, SingleChatType),
      (BlackDeletedNotification, SingleChatType),
      (FriendInfoUpdatedNotification, SingleChatType),
      (FriendsInfoUpdateNotification, SingleChatType),
      (ConversationChangeNotification, SingleChatType),
      (ConversationUnreadNotification, SingleChatType),
      (ConversationPrivateChatNotification, SingleChatType),
      (DeleteMsgsNotification, SingleChatType)]"

definition GetOptionsByNotification :: "NotificationConf \<Rightarrow> options outcome" where
  "GetOptionsByNotification cfg =
     (case NewOptions [] of
        Ok o0 \<Rightarrow>
          WithOptions o0 ((if ncUnreadCount cfg then [WithUnreadCount True] else [])
            @ (if ncOfflinePush cfg then [WithOfflinePush True] else [])
            @ (if ncReliabilityLevel cfg = ReliableNotificationNoMsg then [WithHistory True, WithPersistent] else [])
            @ [WithSendMsg (ncIsSendMsg cfg)])
      | r \<Rightarrow> r)"

definition SetOptionsByContentType :: "options \<Rightarrow> int \<Rightarrow> options outcome" where
  "SetOptionsByContentType o' contentType =
     (if contentType = UserStatusChangeNotification then map_put o' IsSenderSync False else Ok o')"

record 's notification_sender =
  nsConf :: "string \<Rightarrow> NotificationConf"
  nsSendMsg :: "rpc_ctx \<Rightarrow> MsgData \<Rightarrow> ('s, unit) go"
  nsGetUserInfo :: "(string \<Rightarrow> ('s, UserInfo) go) option"
  nsClientMsgID :: "string \<Rightarrow> ('s, string) go"

definition options_conf :: "(string \<Rightarrow> NotificationConf) \<Rightarrow> string \<Rightarrow> string \<Rightarrow> int \<Rightarrow> NotificationConf" where
  "options_conf cfg sendID recvID contentType =
     (let c = (case newContentTypeConf cfg contentType of None \<Rightarrow> zero_conf | Some c \<Rightarrow> c) in
      if sendID = recvID \<and> contentType = HasReadReceipt then c\<lparr> ncReliabilityLevel := UnreliableNotification \<rparr> else c)"

definition NotificationWithSessionType ::
  "'s notification_sender \<Rightarrow> int \<Rightarrow> rpc_ctx \<Rightarrow> string \<Rightarrow> string \<Rightarrow> int \<Rightarrow> int \<Rightarrow> go_error + string \<Rightarrow> bool \<Rightarrow> ('s, unit) go" where
  "NotificationWithSessionType N now ctx sendID recvID contentType sessionType content' withUserName =
     (case content' of
        Inl err \<Rightarrow> failG err
      | Inr content \<Rightarrow>
          bindG (case nsGetUserInfo N of
                   Some getUserInfo \<Rightarrow>
                     if withUserName then
                       bindG (attemptG (getUserInfo sendID)) (\<lambda>r. case r of
                           Inl err \<Rightarrow> retG ([], []) | Inr u \<Rightarrow> retG (uNickname u, uFaceURL u))
                     else retG ([], [])
                 | None \<Rightarrow> retG ([], [])) (\<lambda>(nickname, faceURL).
          bindG (nsClientMsgID N sendID) (\<lambda>clientMsgID.
          bindG (liftG (case GetOptionsByNotification (options_conf (nsConf N) sendID recvID contentType) of
                     Ok o' \<Rightarrow> SetOptionsByContentType o' contentType
                   | r \<Rightarrow> r)) (\<lambda>options.
            nsSendMsg N ctx (empty_msg\<lparr> SenderNickname := nickname, SenderFaceURL := faceURL,
              SendID := sendID, RecvID := recvID, Content := content, MsgFrom := SysMsgType,
              ContentType := contentType, SessionType := sessionType,
              GroupID := (if sessionType = SuperGroupChatType then recvID else []),
              CreateTime := now, ClientMsgID := clientMsgID, Options := options,
              OfflinePush := Some \<lparr> Title = [], Desc = [], PushEx = [], IOSPushSound = [], IOSBadgeCount = False,
                SignalInfo = [] \<rparr> \<rparr>)))))"

definition Notification ::
  "'s notification_sender \<Rightarrow> int \<Rightarrow> rpc_ctx \<Rightarrow> string \<Rightarrow> string \<Rightarrow> int \<Rightarrow> go_error + string \<Rightarrow> bool \<Rightarrow> ('s, unit) go" where
  "Notification N now ctx sendID recvID contentType content withUserName =
     NotificationWithSessionType N now ctx sendID recvID contentType
       (case newSessionTypeConf contentType of None \<Rightarrow> 0 | Some t \<Rightarrow> t) content withUserName"

end
