(* ===== verification/MsgServerOps.thy ===== *)
theory MsgServerOps
  imports Notification
begin

text \<open>
  The other operations of the message service: sequence numbers (\<open>seq.go\<close>), read marks
  (\<open>as\_read.go\<close>), deletion (\<open>delete.go\<close>), revocation (\<open>revoke.go\<close>), pulling
  (\<open>sync\_msg.go\<close>) and the send status (\<open>msg\_status.go\<close>) of \<open>internal/rpc/msg\<close>.
\<close>

datatype msg_tips =
    MarkAsReadTips string string "int list" int
  | DeleteMsgsTips string string "int list"
  | ClearConversationTips string "string list"
  | RevokeMsgTips string string int int int string bool

record 's msg_service =
  svServer :: "'s msg_server"
  svNotificationConf :: "string \<Rightarrow> NotificationConf"
  svTipsJson :: "msg_tips \<Rightarrow> go_error + string"
  svClientMsgID :: "string \<Rightarrow> ('s, string) go"

abbreviation (input) svDB :: "'s msg_service \<Rightarrow> 's msg_db" where "svDB V \<equiv> msDB (svServer V)"
abbreviation (input) svRdb :: "'s msg_service \<Rightarrow> 's redis_api" where "svRdb V \<equiv> db_rdb (msDB (svServer V))"

text \<open>\<open>Start\<close> builds the sender on the server's own \<open>SendMsg\<close>, without a user client.\<close>

definition notificationSender :: "'s msg_service \<Rightarrow> int \<Rightarrow> 's notification_sender" where
  "notificationSender V now = \<lparr> nsConf = svNotificationConf V,
     nsSendMsg = (\<lambda>ctx msg. bindG (SendMsg (svServer V) now ctx (Some msg)) (\<lambda>_. retG ())),
     nsGetUserInfo = None, nsClientMsgID = svClientMsgID V \<rparr>"

definition notify :: "'s msg_service \<Rightarrow> int \<Rightarrow> rpc_ctx \<Rightarrow> string \<Rightarrow> string \<Rightarrow> int \<Rightarrow> int \<Rightarrow> msg_tips \<Rightarrow> ('s, unit) go" where
  "notify V now ctx sendID recvID contentType sessionType tips =
     NotificationWithSessionType (notificationSender V now) now ctx sendID recvID contentType sessionType
       (svTipsJson V tips) False"

definition conversationAndGetRecvID :: "Conversation \<Rightarrow> string \<Rightarrow> string" where
  "conversationAndGetRecvID conversation userID =
     (if cConversationType conversation = SingleChatType \<or> cConversationType conversation = NotificationChatType
      then (if userID = cOwnerUserID conversation then cUserID conversation else cOwnerUserID conversation)
      else if cConversationType conversation = SuperGroupChatType then cGroupID conversation
      else [])"

section \<open>Sequence numbers and send status (seq.go, msg\_status.go)\<close>

definition msgServer_GetConversationMaxSeq :: "'s msg_service \<Rightarrow> string \<Rightarrow> ('s, int) go" where
  "msgServer_GetConversationMaxSeq V conversationID = GetMaxSeq (svRdb V) conversationID"

definition msgServer_GetMaxSeqs :: "'s msg_service \<Rightarrow> string list \<Rightarrow> ('s, string \<rightharpoonup> int) go" where
  "msgServer_GetMaxSeqs V conversationIDs = GetMaxSeqs (svRdb V) conversationIDs"

definition msgServer_GetMinSeqs :: "'s msg_service \<Rightarrow> string list \<Rightarrow> ('s, string \<rightharpoonup> int) go" where
  "msgServer_GetMinSeqs V conversationIDs = GetMinSeqs (svRdb V) conversationIDs"

definition msgServer_GetHasReadSeqs :: "'s msg_service \<Rightarrow> string \<Rightarrow> string list \<Rightarrow> ('s, string \<rightharpoonup> int) go" where
  "msgServer_GetHasReadSeqs V userID conversationIDs = GetHasReadSeqs (svRdb V) userID conversationIDs"

definition msgServer_SetSendMsgStatus :: "'s msg_service \<Rightarrow> rpc_ctx \<Rightarrow> int \<Rightarrow> ('s, unit) go" where
  "msgServer_SetSendMsgStatus V ctx status = SetSendMsgStatus (svRdb V) (ctxOperationID ctx) status"

definition msgServer_GetSendMsgStatus :: "'s msg_service \<Rightarrow> rpc_ctx \<Rightarrow> ('s, int) go" where
  "msgServer_GetSendMsgStatus V ctx =
     bindG (attemptG (GetSendMsgStatus (svRdb V) (ctxOperationID ctx))) (\<lambda>r. case r of
         Inl err \<Rightarrow> if IsNotFound err then retG MsgStatusNotExist else failG err
       | Inr status \<Rightarrow> retG status)"

section \<open>Read marks (as\_read.go)\<close>

definition sendMarkAsReadNotification ::
  "'s msg_service \<Rightarrow> int \<Rightarrow> rpc_ctx \<Rightarrow> string \<Rightarrow> int \<Rightarrow> string \<Rightarrow> string \<Rightarrow> int list \<Rightarrow> int \<Rightarrow> ('s, unit) go" where
  "sendMarkAsReadNotification V now ctx conversationID sessionType sendID recvID seqs hasReadSeq =
     ignoreG (notify V now ctx sendID recvID HasReadReceipt sessionType
       (MarkAsReadTips sendID conversationID seqs hasReadSeq))"

definition max_seq_entry ::
  "(string \<rightharpoonup> int) \<Rightarrow> (string \<rightharpoonup> int) \<Rightarrow> (string \<rightharpoonup> int) \<Rightarrow> string \<rightharpoonup> int \<times> int" where
  "max_seq_entry hasReadSeqs conversationMaxSeqMap maxSeqs = (\<lambda>id.
     map_option (\<lambda>maxSeq. ((case hasReadSeqs id of None \<Rightarrow> 0 | Some q \<Rightarrow> q),
                           (case conversationMaxSeqMap id of None \<Rightarrow> maxSeq | Some v \<Rightarrow> v))) (maxSeqs id))"

definition GetConversationsHasReadAndMaxSeq ::
  "'s msg_service \<Rightarrow> string \<Rightarrow> string list \<Rightarrow> int \<Rightarrow> int \<Rightarrow> ('s, string \<rightharpoonup> int \<times> int) go" where
  "GetConversationsHasReadAndMaxSeq V userID reqIDs pageNumber showNumber =
     bindG (if length reqIDs = 0
            then bindG (msGetConversationIDs (svServer V) userID) (\<lambda>ids. liftG (Paginate ids pageNumber showNumber))
            else retG reqIDs) (\<lambda>conversationIDs.
     bindG (GetHasReadSeqs (svRdb V) userID conversationIDs) (\<lambda>hasReadSeqs.
     bindG (msGetConversations (svServer V) userID conversationIDs) (\<lambda>conversations.
     bindG (GetMaxSeqs (svRdb V) conversationIDs) (\<lambda>maxSeqs.
       let conversationMaxSeqMap = fold (\<lambda>c m. if cMaxSeq c \<noteq> 0 then m(cConversationID c \<mapsto> cMaxSeq c) else m)
                                     conversations Map.empty
       in retG (max_seq_entry hasReadSeqs conversationMaxSeqMap maxSeqs)))))"

definition SetConversationHasReadSeq ::
  "'s msg_service \<Rightarrow> int \<Rightarrow> rpc_ctx \<Rightarrow> string \<Rightarrow> string \<Rightarrow> int \<Rightarrow> ('s, unit) go" where
  "SetConversationHasReadSeq V now ctx conversationID userID hasReadSeq =
     bindG (GetMaxSeq (svRdb V) conversationID) (\<lambda>maxSeq.
       if hasReadSeq > maxSeq then failG (Wrap1m ErrArgs ''hasReadSeq must not be bigger than maxSeq'')
       else
         bindG (SetHasReadSeq (svRdb V) userID conversationID hasReadSeq) (\<lambda>_.
         sendMarkAsReadNotification V now ctx conversationID SingleChatType userID userID [] hasReadSeq))"

definition MarkMsgsAsRead ::
  "'s msg_service \<Rightarrow> int \<Rightarrow> rpc_ctx \<Rightarrow> string \<Rightarrow> string \<Rightarrow> int list \<Rightarrow> ('s, unit) go" where
  "MarkMsgsAsRead V now ctx conversationID userID seqs =
     (if length seqs < 1 then failG (Wrap1m ErrArgs ''seqs must not be empty'')
      else
        bindG (GetMaxSeq (svRdb V) conversationID) (\<lambda>maxSeq.
          let hasReadSeq = last seqs in
          if hasReadSeq > maxSeq then failG (Wrap1m ErrArgs ''hasReadSeq must not be bigger than maxSeq'')
          else
            bindG (msGetConversation (svServer V) userID conversationID) (\<lambda>conversation.
            bindG (MarkSingleChatMsgsAsRead (svDB V) userID conversationID seqs) (\<lambda>_.
            bindG (or_zero (GetHasReadSeq (svRdb V) userID conversationID)) (\<lambda>currentHasReadSeq.
            bindG (if hasReadSeq > currentHasReadSeq
                   then SetHasReadSeq (svRdb V) userID conversationID hasReadSeq else retG ()) (\<lambda>_.
            bindG (CallbackSingleMsgRead (msCallback (svServer V)) userID conversationID
                     (cConversationType conversation) seqs) (\<lambda>_.
            sendMarkAsReadNotification V now ctx conversationID (cConversationType conversation) userID
              (conversationAndGetRecvID conversation userID) seqs hasReadSeq)))))))"

text \<open>
  The numbers from the old mark to the new one, then the requested ones that are not among them.
  The counter of the loop does not wrap around below the largest \<open>int64\<close>.
\<close>

definition read_seqs :: "int \<Rightarrow> int \<Rightarrow> int list \<Rightarrow> int list" where
  "read_seqs hasReadSeq newSeq reqSeqs =
     fold (\<lambda>val seqs. if val \<notin> set seqs then seqs @ [val] else seqs) reqSeqs [add64 hasReadSeq 1..newSeq]"

definition MarkConversationAsRead ::
  "'s msg_service \<Rightarrow> int \<Rightarrow> rpc_ctx \<Rightarrow> string \<Rightarrow> string \<Rightarrow> int \<Rightarrow> int list \<Rightarrow> ('s, unit) go" where
  "MarkConversationAsRead V now ctx conversationID userID reqHasReadSeq reqSeqs =
     bindG (msGetConversation (svServer V) userID conversationID) (\<lambda>conversation.
     bindG (or_zero (GetHasReadSeq (svRdb V) userID conversationID)) (\<lambda>hasReadSeq0.
       let raise_mark = (if reqHasReadSeq > hasReadSeq0
              then bindG (SetHasReadSeq (svRdb V) userID conversationID reqHasReadSeq) (\<lambda>_. retG reqHasReadSeq)
              else retG hasReadSeq0)
       in
       bindG (if cConversationType conversation = SingleChatType then
                let seqs = read_seqs hasReadSeq0 reqHasReadSeq reqSeqs in
                bindG (if length seqs > 0 then MarkSingleChatMsgsAsRead (svDB V) userID conversationID seqs else retG ()) (\<lambda>_.
                bindG raise_mark (\<lambda>hasReadSeq.
                sendMarkAsReadNotification V now ctx conversationID (cConversationType conversation) userID
                  (conversationAndGetRecvID conversation userID) seqs hasReadSeq))
              else if cConversationType conversation = SuperGroupChatType
                    \<or> cConversationType conversation = NotificationChatType then
                bindG raise_mark (\<lambda>hasReadSeq.
                sendMarkAsReadNotification V now ctx conversationID SingleChatType userID userID [] hasReadSeq)
              else retG ()) (\<lambda>_.
       CallbackGroupMsgRead (msCallback (svServer V)) (cOwnerUserID conversation) userID reqHasReadSeq
         (cConversationType conversation))))"

text \<open>One request of \<open>ReadSeqs\<close>: userID, conversationID and seq.  The result of the call is nil.\<close>

definition ReadSeqs_one :: "'s msg_service \<Rightarrow> int \<Rightarrow> rpc_ctx \<Rightarrow> string \<times> string \<times> int \<Rightarrow> ('s, unit) go" where
  "ReadSeqs_one V now ctx r = (case r of (userID, conversationID, msgSeq) \<Rightarrow>
     bindG (or_zero (GetHasReadSeq (svRdb V) userID conversationID)) (\<lambda>hasReadSeq0.
     bindG (if msgSeq > hasReadSeq0
            then bindG (SetHasReadSeq (svRdb V) userID conversationID msgSeq) (\<lambda>_. retG msgSeq)
            else retG hasReadSeq0) (\<lambda>hasReadSeq.
     sendMarkAsReadNotification V now ctx conversationID SingleChatType userID userID [msgSeq] hasReadSeq)))"

definition ReadSeqs :: "'s msg_service \<Rightarrow> int \<Rightarrow> rpc_ctx \<Rightarrow> (string \<times> string \<times> int) list \<Rightarrow> ('s, unit) go" where
  "ReadSeqs V now ctx reqs = forG reqs (\<lambda>r. ignoreG (ReadSeqs_one V now ctx r))"

section \<open>Deletion (delete.go)\<close>

definition checked :: "go_error option \<Rightarrow> ('s, unit) go" where
  "checked e = (case e of None \<Rightarrow> retG () | Some err \<Rightarrow> failG err)"

definition getMinSeqs :: "(string \<rightharpoonup> int) \<Rightarrow> (string \<rightharpoonup> int)" where
  "getMinSeqs maxSeqs = (\<lambda>k. map_option (\<lambda>v. add64 v 1) (maxSeqs k))"

text \<open>\<open>DeleteSyncOpt\<close>: nil, or the two flags.\<close>

definition validateDeleteSyncOpt :: "(bool \<times> bool) option \<Rightarrow> bool \<times> bool" where
  "validateDeleteSyncOpt opt = (case opt of None \<Rightarrow> (False, False) | Some o' \<Rightarrow> o')"

definition clearConversation ::
  "'s msg_service \<Rightarrow> int \<Rightarrow> rpc_ctx \<Rightarrow> string list \<Rightarrow> string \<Rightarrow> (bool \<times> bool) option \<Rightarrow> ('s, unit) go" where
  "clearConversation V now ctx conversationIDs userID deleteSyncOpt =
     bindG (msGetConversationsByConversationID (svServer V) conversationIDs) (\<lambda>existConversations.
       let existConversationIDs = map cConversationID existConversations;
           (isSyncSelf, isSyncOther) = validateDeleteSyncOpt deleteSyncOpt in
       bindG (GetMaxSeqs (svRdb V) existConversationIDs) (\<lambda>maxSeqs.
       bindG (if \<not> isSyncOther then
                bindG (SetUserConversationsMinSeqs (svRdb V) (db_ord (svDB V)) userID (getMinSeqs maxSeqs)) (\<lambda>_.
                if isSyncSelf
                then ignoreG (notify V now ctx userID userID ClearConversationNotification SingleChatType
                       (ClearConversationTips userID existConversationIDs))
                else retG ())
              else
                bindG (SetMinSeqs (svRdb V) (db_ord (svDB V)) (getMinSeqs maxSeqs)) (\<lambda>_.
                forG existConversations (\<lambda>c. ignoreG (notify V now ctx userID (conversationAndGetRecvID c userID)
                  ClearConversationNotification (cConversationType c) (ClearConversationTips userID [cConversationID c]))))) (\<lambda>_.
       UserSetHasReadSeqs (svRdb V) (db_ord (svDB V)) userID maxSeqs)))"

definition ClearConversationsMsg ::
  "'s msg_service \<Rightarrow> int \<Rightarrow> rpc_ctx \<Rightarrow> string list \<Rightarrow> string \<Rightarrow> (bool \<times> bool) option \<Rightarrow> ('s, unit) go" where
  "ClearConversationsMsg V now ctx conversationIDs userID opt =
     bindG (checked (CheckAccessV3 (msAuth (svServer V)) (ctxOpUserID ctx) userID)) (\<lambda>_.
     clearConversation V now ctx conversationIDs userID opt)"

definition UserClearAllMsg :: "'s msg_service \<Rightarrow> int \<Rightarrow> rpc_ctx \<Rightarrow> string \<Rightarrow> (bool \<times> bool) option \<Rightarrow> ('s, unit) go" where
  "UserClearAllMsg V now ctx userID opt =
     bindG (checked (CheckAccessV3 (msAuth (svServer V)) (ctxOpUserID ctx) userID)) (\<lambda>_.
     bindG (msGetConversationIDs (svServer V) userID) (\<lambda>conversationIDs.
     clearConversation V now ctx conversationIDs userID opt))"

definition DeleteMsgs ::
  "'s msg_service \<Rightarrow> int \<Rightarrow> rpc_ctx \<Rightarrow> string \<Rightarrow> string \<Rightarrow> int list \<Rightarrow> (bool \<times> bool) option \<Rightarrow> ('s, unit) go" where
  "DeleteMsgs V now ctx userID conversationID seqs opt =
     bindG (checked (CheckAccessV3 (msAuth (svServer V)) (ctxOpUserID ctx) userID)) (\<lambda>_.
       let (isSyncSelf, isSyncOther) = validateDeleteSyncOpt opt; tips = DeleteMsgsTips userID conversationID seqs in
       if isSyncOther then
         bindG (DeleteMsgsPhysicalBySeqs (svDB V) conversationID seqs) (\<lambda>_.
         bindG (msGetConversationsByConversationID (svServer V) [conversationID]) (\<lambda>conversations.
           case conversations of
             [] \<Rightarrow> panicG ''index out of range''
           | c # cs \<Rightarrow> ignoreG (notify V now ctx userID (conversationAndGetRecvID c userID) DeleteMsgsNotification
                         (cConversationType c) tips)))
       else
         bindG (DeleteUserMsgsBySeqs (svDB V) userID conversationID seqs) (\<lambda>_.
           if isSyncSelf then ignoreG (notify V now ctx userID userID DeleteMsgsNotification SingleChatType tips)
           else retG ()))"

definition DeleteMsgPhysicalBySeq :: "'s msg_service \<Rightarrow> string \<Rightarrow> int list \<Rightarrow> ('s, unit) go" where
  "DeleteMsgPhysicalBySeq V conversationID seqs = DeleteMsgsPhysicalBySeqs (svDB V) conversationID seqs"

definition DeleteMsgPhysical ::
  "'s msg_service \<Rightarrow> nat \<Rightarrow> int \<Rightarrow> rpc_ctx \<Rightarrow> int \<Rightarrow> string list \<Rightarrow> ('s, unit) go" where
  "DeleteMsgPhysical V fuel now ctx timestamp conversationIDs =
     bindG (checked (CheckAdmin (msAuth (svServer V)) (ctxOpUserID ctx))) (\<lambda>_.
       let remainTime = sub64 (now div 1000) timestamp in
       forG conversationIDs (\<lambda>c. ignoreG (DeleteConversationMsgsAndSetMinSeq (svDB V) fuel now c remainTime)))"

section \<open>Revocation (revoke.go)\<close>

definition empty_member :: GroupMemberFullInfo where
  "empty_member = \<lparr> gmGroupID = [], gmUserID = [], gmRoleLevel = 0, gmJoinTime = 0, gmNickname = [], gmFaceURL = [],
     gmAppMangerLevel = 0, gmJoinSource = 0, gmOperatorUserID = [], gmEx = [], gmMuteEndTime = 0,
     gmInviterUserID = [], gmRemark = [] \<rparr>"

definition no_permission :: go_error where
  "no_permission = Wrap1m ErrNoPermission ''no permission''"

text \<open>
  The role under which an ordinary user revokes a group message: the owner revokes any message, an
  administrator those of ordinary members, everybody else only their own.  A missing entry of the
  map is a nil member.
\<close>

definition group_revoke_role ::
  "(string \<rightharpoonup> GroupMemberFullInfo) \<Rightarrow> string \<Rightarrow> string \<Rightarrow> int \<Rightarrow> ('s, int) go" where
  "group_revoke_role members userID sendID role =
     bindG (if userID \<noteq> sendID then
              (case members userID of
                 None \<Rightarrow> panicG ''nil pointer dereference''
               | Some m \<Rightarrow>
                   if gmRoleLevel m = GroupOwner then retG ()
                   else if gmRoleLevel m = GroupAdmin then
                     (case members sendID of
                        None \<Rightarrow> panicG ''nil pointer dereference''
                      | Some t \<Rightarrow> if gmRoleLevel t \<noteq> GroupOrdinaryUsers then failG no_permission else retG ())
                   else failG no_permission)
            else retG ()) (\<lambda>_.
     retG (case members userID of Some m \<Rightarrow> gmRoleLevel m | None \<Rightarrow> role))"

definition revoke_role ::
  "'s msg_service \<Rightarrow> rpc_ctx \<Rightarrow> string \<Rightarrow> string \<Rightarrow> UserInfo \<Rightarrow> MsgData \<Rightarrow> ('s, int) go" where
  "revoke_role V ctx userID ex user m0 =
     (let J = db_json (svDB V); adminAuth = IsAppManagerUid (msAuth (svServer V)) (ctxOpUserID ctx);
          userAuth = fst (VerifyRights J ex); msgUserAuth = fst (VerifyRights J (Ex m0)) in
      if msgUserAuth = 3 \<and> userID \<noteq> SendID m0 \<and> \<not> adminAuth then failG no_permission
      else
        let role = (if userAuth = 3 then AppAdmin else 0) in
        if role = 0 \<and> \<not> adminAuth then
          (if SessionType m0 = SingleChatType then
             bindG (checked (CheckAccessV3 (msAuth (svServer V)) (ctxOpUserID ctx) (SendID m0))) (\<lambda>_.
             retG (uAppMangerLevel user))
           else if SessionType m0 = SuperGroupChatType then
             bindG (msGetGroupMemberInfoMap (svServer V) (GroupID m0) (Distinct [userID, SendID m0])) (\<lambda>members.
             group_revoke_role members userID (SendID m0) role)
           else failG (Wrap1m ErrInternalServer ''msg sessionType not supported''))
        else retG role)"

text \<open>The part of \<open>RevokeMsg\<close> after the message was found.\<close>

definition revoke_found ::
  "'s msg_service \<Rightarrow> nat \<Rightarrow> int \<Rightarrow> rpc_ctx \<Rightarrow> string \<Rightarrow> string \<Rightarrow> int \<Rightarrow> string \<Rightarrow> UserInfo \<Rightarrow> MsgData \<Rightarrow> ('s, unit) go" where
  "revoke_found V fuel now ctx userID conversationID seq ex user m0 =
     (let A = msAuth (svServer V); adminAuth = IsAppManagerUid A (ctxOpUserID ctx) in
      if ContentType m0 = MsgRevokeNotification then failG (Wrap1m ErrMsgAlreadyRevoke ''msg already revoke'')
      else if SessionType m0 = SingleChatType \<and> \<not> adminAuth then failG no_permission
      else
        bindG (revoke_role V ctx userID ex user m0) (\<lambda>role.
          if (role = GroupOrdinaryUsers \<or> role = IMOrdinaryUser) \<and> \<not> adminAuth then failG no_permission
          else
            bindG (RevokeMsg (db_doc (svDB V)) fuel conversationID seq
                     \<lparr> RevRole = role, RevUserID = userID, RevNickname = uNickname user, RevTime = now \<rparr>) (\<lambda>_.
            bindG (ignoreG (msRevokeMsgToEsMQ (svServer V) (ServerMsgID m0 @ itoa seq))) (\<lambda>_.
            bindG (notify V now ctx userID
                     (if SessionType m0 = SuperGroupChatType then GroupID m0 else RecvID m0)
                     MsgRevokeNotification (SessionType m0)
                     (RevokeMsgTips (ctxOpUserID ctx) (ClientMsgID m0) now seq (SessionType m0) conversationID
                        (ctxOpUserID ctx \<in> set (cfgManager A)))) (\<lambda>_.
            CallbackAfterRevokeMsg (msCallback (svServer V)) conversationID seq userID)))))"

definition msgServer_RevokeMsg ::
  "'s msg_service \<Rightarrow> nat \<Rightarrow> int \<Rightarrow> rpc_ctx \<Rightarrow> string \<Rightarrow> string \<Rightarrow> int \<Rightarrow> string \<Rightarrow> ('s, unit) go" where
  "msgServer_RevokeMsg V fuel now ctx userID conversationID seq ex =
     (if userID = [] then failG (Wrap1m ErrArgs ''user_id is empty'')
      else if conversationID = [] then failG (Wrap1m ErrArgs ''conversation_id is empty'')
      else if seq < 0 then failG (Wrap1m ErrArgs ''seq is invalid'')
      else
        bindG (checked (CheckAccessV3 (msAuth (svServer V)) (ctxOpUserID ctx) userID)) (\<lambda>_.
        bindG (msGetUserInfo (svServer V) userID) (\<lambda>user.
        bindG (GetMsgBySeqs (svDB V) userID conversationID [seq] user
                 (Some empty_member)) (\<lambda>(_, _, msgs).
          case msgs of
            Some m0 # _ \<Rightarrow> revoke_found V fuel now ctx userID conversationID seq ex user m0
          | _ \<Rightarrow> failG (Wrap1m ErrRecordNotFound ''msg not found'')))))"

section \<open>Pulling (sync\_msg.go)\<close>

record SeqRange =
  srConversationID :: string
  srBegin :: int
  srEnd :: int
  srNum :: int

record PullMsgs =
  pmMsgs :: "MsgData option list"
  pmIsEnd :: bool

definition member_cache :: "'s msg_service \<Rightarrow> string \<Rightarrow> Conversation \<Rightarrow> ('s, GroupMemberFullInfo) go" where
  "member_cache V userID conversation =
     (if cConversationType conversation = SuperGroupChatType then
        bindG (attemptG (msTakeGroupMember (svServer V) (cGroupID conversation) userID)) (\<lambda>r.
          case r of Inl err \<Rightarrow> retG empty_member | Inr m \<Rightarrow> retG m)
      else retG empty_member)"

text \<open>\<open>order\<close> 0 is ascending, 1 is descending.\<close>

definition is_end :: "int \<Rightarrow> SeqRange \<Rightarrow> int \<Rightarrow> int \<Rightarrow> bool" where
  "is_end order seq minSeq maxSeq =
     (if order = 0 then maxSeq \<le> srEnd seq else if order = 1 then srBegin seq \<le> minSeq else False)"

definition pull_messages ::
  "'s msg_service \<Rightarrow> string \<Rightarrow> int \<Rightarrow> UserInfo \<Rightarrow> (string, string) gomap \<Rightarrow> SeqRange \<Rightarrow> ('s, PullMsgs option) go" where
  "pull_messages V userID order userInfo friendsRemark seq =
     bindG (attemptG (msGetConversation (svServer V) userID (srConversationID seq))) (\<lambda>r. case r of
         Inl err \<Rightarrow> retG None
       | Inr conversation \<Rightarrow>
           bindG (member_cache V userID conversation) (\<lambda>groupMemberCache.
           bindG (attemptG (GetMsgBySeqsRange (svDB V) userInfo (srConversationID seq) (srBegin seq) (srEnd seq) (srNum seq)
                    conversation (Some groupMemberCache) friendsRemark)) (\<lambda>r2. case r2 of
               Inl err \<Rightarrow> retG None
             | Inr (minSeq, maxSeq, msgs) \<Rightarrow>
                 retG (if length msgs = 0 then None
                       else Some \<lparr> pmMsgs = msgs, pmIsEnd = is_end order seq minSeq maxSeq \<rparr>))))"

text \<open>The chat a notification conversation belongs to, guessed from the number of its parts.\<close>

definition chat_of_notification :: "string \<Rightarrow> string" where
  "chat_of_notification conversationID =
     (let conversationArr = split_on CHR ''_'' conversationID;
          replace = (\<lambda>p. if prefix ''n_'' conversationID then p @ drop 2 conversationID else conversationID)
      in if length conversationArr = 2 then replace ''sg_''
         else if length conversationArr = 3 then replace ''si_''
         else conversationID)"

definition pull_notifications ::
  "'s msg_service \<Rightarrow> string \<Rightarrow> int \<Rightarrow> UserInfo \<Rightarrow> SeqRange \<Rightarrow> ('s, PullMsgs option) go" where
  "pull_notifications V userID order userInfo seq =
     bindG (attemptG (msGetConversation (svServer V) userID (chat_of_notification (srConversationID seq)))) (\<lambda>r. case r of
         Inl err \<Rightarrow> panicG ''nil pointer dereference''
       | Inr conversation \<Rightarrow>
           bindG (member_cache V userID conversation) (\<lambda>groupMemberCache.
           bindG (attemptG (GetMsgBySeqs (svDB V) userID (srConversationID seq) [srBegin seq..srEnd seq] userInfo
                    (Some groupMemberCache))) (\<lambda>r2. case r2 of
               Inl err \<Rightarrow> retG None
             | Inr (minSeq, maxSeq, msgs) \<Rightarrow>
                 retG (if length msgs = 0 then None
                       else Some \<lparr> pmMsgs = msgs, pmIsEnd = is_end order seq minSeq maxSeq \<rparr>))))"

definition zero_user :: "string \<Rightarrow> UserInfo" where
  "zero_user u = \<lparr> uUserID = u, uNickname = [], uFaceURL = [], uEx = [], uCreateTime = 0, uAppMangerLevel = 0,
     uGlobalRecvMsgOpt = 0 \<rparr>"

definition PullMessageBySeqs ::
  "'s msg_service \<Rightarrow> string \<Rightarrow> SeqRange list \<Rightarrow> int \<Rightarrow> ('s, (string \<rightharpoonup> PullMsgs) \<times> (string \<rightharpoonup> PullMsgs)) go" where
  "PullMessageBySeqs V userID seqRanges order =
     bindG (attemptG (msGetUserInfo (svServer V) userID)) (\<lambda>r.
       let userInfo = (case r of Inl err \<Rightarrow> zero_user userID | Inr u \<Rightarrow> u) in
       bindG (if uUserID userInfo \<noteq> [] \<and> \<not> CheckUserIDIsAdmin (msAuth (svServer V)) (uUserID userInfo)
              then bindG (attemptG (msGetFriendsRemark (svServer V) (uUserID userInfo))) (\<lambda>r2. case r2 of
                       Inl err \<Rightarrow> panicG ''nil pointer dereference''
                     | Inr m \<Rightarrow> retG (Some m))
              else retG (Some Map.empty)) (\<lambda>friendsRemark.
       foldG (\<lambda>seq (msgs, notifications).
           if \<not> IsNotification (srConversationID seq)
           then bindG (pull_messages V userID order userInfo friendsRemark seq) (\<lambda>p. retG (case p of
                    None \<Rightarrow> (msgs, notifications)
                  | Some v \<Rightarrow> (msgs(srConversationID seq \<mapsto> v), notifications)))
           else bindG (pull_notifications V userID order userInfo seq) (\<lambda>p. retG (case p of
                    None \<Rightarrow> (msgs, notifications)
                  | Some v \<Rightarrow> (msgs, notifications(srConversationID seq \<mapsto> v)))))
         seqRanges (Map.empty, Map.empty)))"

definition msgServer_GetMaxSeq :: "'s msg_service \<Rightarrow> rpc_ctx \<Rightarrow> string \<Rightarrow> ('s, string \<rightharpoonup> int) go" where
  "msgServer_GetMaxSeq V ctx userID =
     bindG (checked (CheckAccessV3 (msAuth (svServer V)) (ctxOpUserID ctx) userID)) (\<lambda>_.
     bindG (msGetConversationIDs (svServer V) userID) (\<lambda>conversationIDs.
     GetMaxSeqs (svRdb V) (conversationIDs @ map GetNotificationConversationIDByConversationID conversationIDs
       @ [GetSelfNotificationConversationID userID])))"

definition GetServerTime :: "int \<Rightarrow> int" where
  "GetServerTime now = now"

end
