(* ===== verification/MsgServerDemo.thy ===== *)
theory MsgServerDemo
  imports MsgServerOps MsgDatabaseFacts
begin

text \<open>
  Small instances of the services for the examples: a Redis, a document store and a message server
  that answer every call at once, on an arbitrary state.
\<close>

definition steady_redis :: "string \<Rightarrow> 's redis_api" where
  "steady_redis v = \<lparr> rdGet = (\<lambda>k. retG v), rdSet = (\<lambda>k v t. retG ()), rdDel = (\<lambda>k. retG ()),
     rdKeys = (\<lambda>p. retG []), rdExpire = (\<lambda>k t. retG True), rdIncr = (\<lambda>k. retG 1), rdExists = (\<lambda>k. retG 0),
     rdSetNX = (\<lambda>k v t. retG True), rdSAdd = (\<lambda>k v. retG ()), rdSRem = (\<lambda>k v. retG ()), rdSMembers = (\<lambda>k. retG []),
     rdHSet = (\<lambda>k m. retG ()), rdHGet = (\<lambda>k f. retG v), rdHGetAll = (\<lambda>k. retG Map.empty), rdHDel = (\<lambda>k fs. retG ()),
     rdPipeGet = (\<lambda>ks. retG (map (\<lambda>_. Inr v) ks, None)), rdPipeSet = (\<lambda>kvs. retG (map (\<lambda>_. Inr ()) kvs, None)),
     rdPipeDel = (\<lambda>ks. retG (map (\<lambda>_. Inr ()) ks, None)) \<rparr>"

definition steady_docs :: "'s msgdoc_api" where
  "steady_docs = \<lparr> mdUpdateMsg = (\<lambda>d i k f. retG 1), mdPushUnique = (\<lambda>d i k us. retG ()), mdCreate = (\<lambda>doc. retG ()),
     mdDeleteDocs = (\<lambda>ds. retG ()), mdDeleteMsgsInOneDocByIndex = (\<lambda>d is. retG ()),
     mdMarkSingleChatMsgsAsRead = (\<lambda>u d is. retG ()), mdGetMsgBySeqIndexIn1Doc = (\<lambda>u d qs. retG []),
     mdGetMsgDocModelByIndex = (\<lambda>c i dir. failG (Plain ''no more'')), mdGetNewestMsg = (\<lambda>c. failG MongoNoDocuments),
     mdGetOldestMsg = (\<lambda>c. failG MongoNoDocuments) \<rparr>"

definition group_msg :: MsgData where
  "group_msg = empty_msg\<lparr> SendID := ''v'', GroupID := ''g'', SessionType := SuperGroupChatType,
     ContentType := Text, Content := ''hello'' \<rparr>"

definition steady_db :: "'s msg_db" where
  "steady_db = \<lparr> db_doc = steady_docs, db_rdb = steady_redis (itoa 1),
     db_pb = \<lparr> pbMarshal = (\<lambda>m. Inr ''msg''), pbUnmarshal = (\<lambda>t. Inr group_msg), jsonpbUnmarshal = (\<lambda>t. Inr group_msg) \<rparr>,
     db_cfg = \<lparr> EnablePipeline = True, MsgCacheTimeout = 86400 \<rparr>, db_json = demo_json, db_ord = sorted_list_of_set \<rparr>"

definition steady_live :: "'s live_api" where
  "steady_live = \<lparr> lvTTL = (\<lambda>k. retG 0), lvPersist = (\<lambda>k. retG ()), lvLPush = (\<lambda>k v. retG ()),
     lvBrushConfig = (\<lambda>t. Inl (Plain ''none'')), lvTriggerJson = (\<lambda>t. []), lvHitJson = (\<lambda>t. []), lvSensitiveConfig = (\<lambda>t. []),
     lvSensitiveWords = (\<lambda>t. Inr []), lvTrieFilter = (\<lambda>ws t. (t, [], False)), lvNowText = [] \<rparr>"

definition no_callbacks :: "'s callback_api" where
  "no_callbacks = (let off = \<lparr> cbcEnable = False, cbcFailedContinue = None \<rparr> in
     \<lparr> cbPost = (\<lambda>c b. retG []), cbDecode = (\<lambda>t. Inl (Plain ''none'')), cbDecodeModify = (\<lambda>t. Inl (Plain ''none'')),
       cbErrorText = (\<lambda>e. []), cbTipsDetail = (\<lambda>t. []),
       cbConfig = \<lparr> cfBeforeSendSingle = off, cfAfterSendSingle = off, cfBeforeSendGroup = off, cfAfterSendGroup = off,
         cfMsgModify = off, cfGroupMsgRead = off, cfSingleMsgRead = off, cfAfterRevoke = off \<rparr> \<rparr>)"

definition demo_group :: GroupInfo where
  "demo_group = \<lparr> giGroupID = ''g'', giGroupName = [], giNotification = [], giIntroduction = [], giFaceURL = [],
     giOwnerUserID = ''o'', giCreateTime = 0, giMemberCount = 2, giEx = [], giStatus = 0, giCreatorUserID = ''o'',
     giGroupType = SuperGroup, giNeedVerification = 0, giLookMemberInfo = 0, giApplyMemberFriend = 0,
     giNotificationUpdateTime = 0, giNotificationUserID = [], giJoinTime = 0 \<rparr>"

definition demo_conversation :: Conversation where
  "demo_conversation = \<lparr> cOwnerUserID = ''u'', cConversationID = ''sg_g'', cRecvMsgOpt = 0,
     cConversationType = SuperGroupChatType, cUserID = [], cGroupID = ''g'', cIsPinned = False, cAttachedInfo = [],
     cIsPrivateChat = False, cGroupAtType = 0, cEx = [], cBurnDuration = 0, cMinSeq = 0, cMaxSeq = 0,
     cMsgDestructTime = 0, cLatestMsgDestructTime = 0, cIsMsgDestruct = False \<rparr>"

text \<open>A server over the database \<open>D\<close> with the producer \<open>mq\<close>; every user owns the group \<open>g\<close>.\<close>

definition plain_server :: "'s msg_db \<Rightarrow> (string \<Rightarrow> MsgData \<Rightarrow> ('s, unit) go) \<Rightarrow> 's msg_server" where
  "plain_server D mq = \<lparr> msDB = D, msLive = steady_live, msCallback = no_callbacks,
     msAuth = \<lparr> cfgSecret = [], cfgExpire = 90, cfgManager = [], cfgIMAdmin = [] \<rparr>,
     msConfig = \<lparr> SingleMessageHasReadReceiptEnable = True, GroupMessageHasReadReceiptEnable = True, FriendVerify = False \<rparr>,
     msToMQ = mq, msRevokeMsgToEsMQ = (\<lambda>i. retG ()), msNewMsgID = (\<lambda>u. retG ''id''),
     msContentText = (\<lambda>t c. c), msTextContent = (\<lambda>t c. c), msWordsJson = (\<lambda>ws. []),
     msIsBlocked = (\<lambda>u v. retG False), msIsFriend = (\<lambda>u v. retG True), msGetFriendsRemark = (\<lambda>u. retG Map.empty),
     msGetUserGlobalMsgRecvOpt = (\<lambda>u. retG 0), msGetUserInfo = (\<lambda>u. retG (demo_user u)),
     msGetGroupInfoCache = (\<lambda>g. retG demo_group),
     msGetGroupMemberCache = (\<lambda>g u. retG (empty_member\<lparr> gmUserID := u, gmRoleLevel := GroupOwner \<rparr>)),
     msTakeGroupMember = (\<lambda>g u. retG (empty_member\<lparr> gmUserID := u, gmRoleLevel := GroupOwner \<rparr>)),
     msGetGroupMemberIDs = (\<lambda>g. retG []),
     msGetGroupMemberInfoMap = (\<lambda>g us. retG (\<lambda>u. Some (empty_member\<lparr> gmUserID := u, gmRoleLevel := GroupOwner \<rparr>))),
     msGetSingleConversationRecvMsgOpt = (\<lambda>u c. retG 0), msSetConversations = (\<lambda>us c. retG ()),
     msGetConversation = (\<lambda>u c. retG demo_conversation), msGetConversations = (\<lambda>u cs. retG []),
     msGetConversationsByConversationID = (\<lambda>cs. retG [demo_conversation]), msGetConversationIDs = (\<lambda>u. retG []) \<rparr>"

definition plain_service :: "'s msg_server \<Rightarrow> 's msg_service" where
  "plain_service M = \<lparr> svServer = M, svNotificationConf = (\<lambda>n. zero_conf), svTipsJson = (\<lambda>t. Inr ''tips''),
     svClientMsgID = (\<lambda>u. retG ''client'') \<rparr>"

definition demo_ctx :: rpc_ctx where
  "demo_ctx = \<lparr> ctxOpUserID = ''u'', ctxOperationID = ''op'' \<rparr>"

lemmas demo_server_defs = plain_service_def plain_server_def steady_db_def steady_docs_def steady_live_def
  steady_redis_def no_callbacks_def demo_group_def demo_ctx_def

lemma plain_simps [simp]:
  "svServer (plain_service M) = M" "msDB (plain_server D mq) = D" "msCallback (plain_server D mq) = no_callbacks"
  "cfgManager (msAuth (plain_server D mq)) = []" "cfgIMAdmin (msAuth (plain_server D mq)) = []"
  "msGetUserInfo (plain_server D mq) u = retG (demo_user u)" "msRevokeMsgToEsMQ (plain_server D mq) i = retG ()"
  "msGetGroupMemberInfoMap (plain_server D mq) g us
     = retG (\<lambda>u. Some (empty_member\<lparr> gmUserID := u, gmRoleLevel := GroupOwner \<rparr>))"
  "ctxOpUserID demo_ctx = ''u''"
  by (simp_all add: plain_service_def plain_server_def demo_ctx_def)

lemma wrapG_ret [simp]: "wrapG m (retG x) = retG x"
  by (simp add: wrapG_def retG_def)

lemma ignoreG_retG [simp]: "ignoreG (retG x) = retG ()"
  by (simp add: ignoreG_def)

lemma liftG_Ok [simp]: "liftG (Ok x) = retG x"
  by (simp add: liftG_def retG_def)

lemma steady_redis_int: "rdGetInt64 (steady_redis (itoa 1)) k = retG 1"
  by (rule ext) (simp add: rdGetInt64_def steady_redis_def int64_def)

lemma steady_db_simps [simp]:
  "db_rdb steady_db = steady_redis (itoa 1)" "db_doc steady_db = steady_docs" "db_json steady_db = demo_json"
  "EnablePipeline (db_cfg steady_db)" "pbUnmarshal (db_pb steady_db) t = Inr group_msg"
  "rdPipeGet (steady_redis v) ks = retG (map (\<lambda>_. Inr v) ks, None)"
  "mdUpdateMsg steady_docs d i k f = retG 1"
  by (simp_all add: steady_db_def steady_redis_def steady_docs_def)

lemma not_blank: "\<not> blank ''hello''" "\<not> blank ''tips''"
  by code_simp+

lemma demo_rights: "fst (VerifyRights demo_json ex) = 0" "fst (VerifySendStatus demo_json ex) = 0"
  by (simp_all add: VerifyRights_def VerifySendStatus_def demo_json_def)

text \<open>The server sends a group message without a refusal.\<close>

lemma plain_SendMsg_group:
  assumes "SessionType d = SuperGroupChatType" "\<not> blank (Content d)" "ContentType d \<notin> {101, 106, 114, HasReadReceipt}"
    "db_json D = demo_json"
  shows "\<exists>m. SendMsg (plain_server D mq) now ctx (Some d) =
    bindG (mq (GenConversationUniqueKeyForGroup (GroupID d)) m) (\<lambda>_. retG (Some (resp_of m)))"
  using assms
  by (auto simp: SendMsg_def isMessageHasReadEnabled_def encapsulateMsgData_def plain_server_def
      sendMsgSuperGroupChat_def messageVerification_def demo_rights demo_group_def callbackBeforeSendGroupMsg_def
      callbackMsgModify_def callbackAfterSendGroupMsg_def no_callbacks_def Let_def bindG_assoc)

end
