(* ===== verification/MsgServerFacts.thy ===== *)
theory MsgServerFacts
  imports MsgServerDemo
begin

text \<open>
  What the message service promises: a message reaches the queue only once and only after it was
  verified, clearing a conversation hides its messages, and who may revoke a group message.
\<close>

section \<open>The queue behind the service\<close>

text \<open>\<open>q\<close> is the content of the queue.  Only the producer writes to it, at most the message it is given.\<close>

definition queue_only :: "'s msg_server \<Rightarrow> ('s \<Rightarrow> (string \<times> MsgData) list) \<Rightarrow> bool" where
  "queue_only M q \<longleftrightarrow>
     (\<forall>k msg s r s'. msToMQ M k msg s = (r, s') \<longrightarrow> q s' = q s @ [(k, msg)] \<or> q s' = q s)
   \<and> (\<forall>k. silent q (rdGet (db_rdb (msDB M)) k)) \<and> (\<forall>k v t. silent q (rdSet (db_rdb (msDB M)) k v t))
   \<and> (\<forall>k. silent q (rdDel (db_rdb (msDB M)) k)) \<and> (\<forall>k. silent q (rdIncr (db_rdb (msDB M)) k))
   \<and> (\<forall>k t. silent q (rdExpire (db_rdb (msDB M)) k t)) \<and> (\<forall>k. silent q (lvTTL (msLive M) k))
   \<and> (\<forall>k. silent q (lvPersist (msLive M) k)) \<and> (\<forall>k v. silent q (lvLPush (msLive M) k v))
   \<and> (\<forall>c b. silent q (cbPost (msCallback M) c b)) \<and> (\<forall>u. silent q (msNewMsgID M u))
   \<and> (\<forall>a b. silent q (msIsBlocked M a b)) \<and> (\<forall>a b. silent q (msIsFriend M a b))
   \<and> (\<forall>u. silent q (msGetUserGlobalMsgRecvOpt M u)) \<and> (\<forall>g. silent q (msGetGroupInfoCache M g))
   \<and> (\<forall>g u. silent q (msGetGroupMemberCache M g u)) \<and> (\<forall>g. silent q (msGetGroupMemberIDs M g))
   \<and> (\<forall>u c. silent q (msGetSingleConversationRecvMsgOpt M u c)) \<and> (\<forall>us c. silent q (msSetConversations M us c))"

lemma queue_onlyD [quiet]:
  assumes "queue_only M q"
  shows "silent q (rdGet (db_rdb (msDB M)) k)" "silent q (rdSet (db_rdb (msDB M)) k v t)"
    "silent q (rdDel (db_rdb (msDB M)) k)" "silent q (rdIncr (db_rdb (msDB M)) k)"
    "silent q (rdExpire (db_rdb (msDB M)) k t)" "silent q (lvTTL (msLive M) k)"
    "silent q (lvPersist (msLive M) k)" "silent q (lvLPush (msLive M) k v)"
    "silent q (cbPost (msCallback M) c b)" "silent q (msNewMsgID M u)"
    "silent q (msIsBlocked M u u')" "silent q (msIsFriend M u u')"
    "silent q (msGetUserGlobalMsgRecvOpt M u)" "silent q (msGetGroupInfoCache M g)"
    "silent q (msGetGroupMemberCache M g u)" "silent q (msGetGroupMemberIDs M g)"
    "silent q (msGetSingleConversationRecvMsgOpt M u d)" "silent q (msSetConversations M us cr)"
  using assms by (simp_all add: queue_only_def)

lemma silent_val [quiet]: "silent q m \<Longrightarrow> silent q (valG z m)"
  unfolding valG_def by (intro quiet)

lemma silent_live [quiet]:
  assumes "queue_only M q"
  shows "silent q (Check (db_rdb (msDB M)) (msLive M) u)"
    "silent q (sensitive_Filter (db_rdb (msDB M)) (msLive M) w)"
    "silent q (GetSensitiveConfig (db_rdb (msDB M)) (msLive M))" "silent q (PushToHitMQ (msLive M) h)"
  unfolding Check_def block_user_def sensitive_Filter_def GetSensitiveWord_def GetSensitiveConfig_def PushToHitMQ_def Let_def
  by (intro quiet assms)+

lemma silent_callbacks [quiet]:
  assumes "queue_only M q"
  shows "silent q (callbackBeforeSendSingleMsg (msCallback M) op d)" "silent q (callbackAfterSendSingleMsg (msCallback M) op d)"
    "silent q (callbackBeforeSendGroupMsg (msCallback M) op d)" "silent q (callbackAfterSendGroupMsg (msCallback M) op d)"
    "silent q (callbackMsgModify (msCallback M) op d)"
  unfolding callbackBeforeSendSingleMsg_def callbackAfterSendSingleMsg_def callbackBeforeSendGroupMsg_def
    callbackAfterSendGroupMsg_def callbackMsgModify_def post_common_def CallBackPostReturn_def callBackPostReturn_def Let_def
  by (intro quiet assms)+

lemma silent_checks [quiet]:
  assumes "queue_only M q"
  shows "silent q (messageVerification M now d)" "silent q (encapsulateMsgData M now d)"
    "silent q (modifyMessageByUserMessageReceiveOpt M u c d)" "silent q (filter_words M now d)"
    "silent q (setConversationAtInfo M d)"
  unfolding messageVerification_def encapsulateMsgData_def modifyMessageByUserMessageReceiveOpt_def filter_words_def
    setConversationAtInfo_def Let_def
  by (intro quiet assms)+

section \<open>What reaches the queue\<close>









text \<open>
  The parts of one call: what it does before the message is verified, and what it does between the
  verification and the queue, with the message it then sends.
\<close>

definition prepared :: "'s msg_server \<Rightarrow> int \<Rightarrow> rpc_ctx \<Rightarrow> MsgData \<Rightarrow> ('s, MsgData) go" where
  "prepared M now ctx d =
     bindG (if fst (VerifyRights (db_json (msDB M)) (Ex d)) = 0 \<and> \<not> IsAppManagerUid (msAuth M) (ctxOpUserID ctx)
               \<and> ContentType d \<in> {101, 106, 114}
            then filter_words M now d else retG d) (encapsulateMsgData M now)"

definition group_ready :: "'s msg_server \<Rightarrow> int \<Rightarrow> rpc_ctx \<Rightarrow> MsgData \<Rightarrow> ('s, MsgData) go" where
  "group_ready M now ctx d =
     bindG (messageVerification M now d) (\<lambda>_.
     bindG (callbackBeforeSendGroupMsg (msCallback M) (ctxOperationID ctx) d) (\<lambda>_.
     callbackMsgModify (msCallback M) (ctxOperationID ctx) d))"

definition single_ready :: "'s msg_server \<Rightarrow> int \<Rightarrow> rpc_ctx \<Rightarrow> MsgData \<Rightarrow> ('s, MsgData option) go" where
  "single_ready M now ctx d =
     bindG (messageVerification M now d) (\<lambda>_.
     bindG (if \<not> IsNotificationByMsg d
            then modifyMessageByUserMessageReceiveOpt M (RecvID d) (GenConversationIDForSingle (SendID d) (RecvID d)) d
            else retG (True, d)) (\<lambda>(isSend, d1).
       if \<not> isSend then retG None
       else bindG (callbackBeforeSendSingleMsg (msCallback M) (ctxOperationID ctx) d1) (\<lambda>_.
            bindG (callbackMsgModify (msCallback M) (ctxOperationID ctx) d1) (\<lambda>m. retG (Some m)))))"

lemma silent_parts [quiet]:
  assumes "queue_only M q"
  shows "silent q (prepared M now ctx d)" "silent q (group_ready M now ctx d)" "silent q (single_ready M now ctx d)"
  unfolding prepared_def group_ready_def single_ready_def by (intro quiet assms)+





lemma bindG_if: "bindG (if b then m else m') k = (if b then bindG m k else bindG m' k)"
  by simp






section \<open>Clearing a conversation\<close>

lemma getConversationUserMinSeqKey_inj: "inj (\<lambda>c. getConversationUserMinSeqKey c u)"
  by (simp add: inj_def getConversationUserMinSeqKey_def)

lemma finite_getMinSeqs: "finite (dom m) \<Longrightarrow> finite (dom (getMinSeqs m))"
  by (simp add: getMinSeqs_def dom_def)

lemma clearConversation_view:
  assumes laws: "redis_laws (svRdb V) view" and ord: "iter_order (db_ord (svDB V))"
    and conv: "msGetConversationsByConversationID (svServer V) ids s = (Ok convs, s1)" "view s1 = view s"
    and c: "c \<in> set (map cConversationID convs)"
    and n: "view s (getMaxSeqKey c) = Some (itoa n)" "n \<noteq> 0" "int64 n" "int64 (n + 1)"
    and run: "clearConversation V now ctx ids userID None s = (Ok (), s')"
  shows "view s' (getConversationUserMinSeqKey c userID) = Some (itoa (n + 1))
    \<and> view s' (getHasReadSeqKey c userID) = Some (itoa n) \<and> view s' (getMaxSeqKey c) = Some (itoa n)"
proof -
  let ?ids = "map cConversationID convs"
  from run conv obtain m s2 s3 where
    rd: "GetMaxSeqs (svRdb V) ?ids s1 = (Ok m, s2)" and
    w1: "SetUserConversationsMinSeqs (svRdb V) (db_ord (svDB V)) userID (getMinSeqs m) s2 = (Ok (), s3)" and
    w2: "UserSetHasReadSeqs (svRdb V) (db_ord (svDB V)) userID m s3 = (Ok (), s')"
    by (auto simp: clearConversation_def validateDeleteSyncOpt_def bindG_Ok_iff Let_def retG_def)
  note r = getSeqs_spec [OF laws rd [unfolded GetMaxSeqs_def]]
  then have m: "m c = Some n" using c n conv(2) by simp
  have fin: "finite (dom m)" using r by (auto simp: dom_def intro: finite_subset [of _ "set ?ids"])
  note k1 = setSeqs_spec [OF laws getConversationUserMinSeqKey_inj ord finite_getMinSeqs [OF fin]
      w1 [unfolded SetUserConversationsMinSeqs_def]]
  note k2 = setSeqs_spec [OF laws getHasReadSeqKey_inj(1) ord fin w2 [unfolded UserSetHasReadSeqs_def]]
  have min: "getMinSeqs m c = Some (n + 1)" using m n(4) by (simp add: getMinSeqs_def add64_def)
  have out: "getConversationUserMinSeqKey c userID \<notin> range (\<lambda>c. getHasReadSeqKey c userID)"
    "getMaxSeqKey c \<notin> range (\<lambda>c. getHasReadSeqKey c userID)"
    "getMaxSeqKey c \<notin> range (\<lambda>c. getConversationUserMinSeqKey c userID)"
    using key_families_disjoint by (auto simp: image_iff) metis+
  show ?thesis using k1 k2 m min out r conv(2) n by (auto split: option.splits)
qed

lemma GetMsgBySeqsRange_low:
  assumes laws: "redis_laws (db_rdb db) view" and low: "e < user_min_seq (view s) c (uUserID user)"
    and rd: "GetMsgBySeqsRange db user c b e num k g rem s = (Ok (mn, mx, msgs), t)"
  shows "msgs = []"
proof -
  from rd obtain u t1 where u: "or_zero (GetConversationUserMinSeq (db_rdb db) c (uUserID user)) s = (Ok u, t1)"
    and k1: "bindG (or_zero (GetMinSeq (db_rdb db) c)) (\<lambda>l. if (if u > l then u else l) > e then retG (0, 0, [])
       else failG ErrArgs) t1 = (Ok (mn, mx, msgs), t) \<or> \<not> e < u"
    unfolding GetMsgBySeqsRange_def Let_def
    by (elim bindG_OkE) (auto simp: bindG_Ok_iff split: if_splits)
  from or_zero_reads(3) [OF laws u] low have "e < u" by simp
  with k1 show ?thesis by (auto simp: bindG_Ok_iff retG_def failG_def split: if_splits)
qed

text \<open>
  C15. Clearing hides what is there: after \<open>clearConversation\<close> for one user alone has succeeded,
  every conversation that the conversation service knows and that has messages, the newest with
  number \<open>n\<close>, has \<open>n + 1\<close> as the user's lower bound and \<open>n\<close> as its read mark, its own newest
  number is unchanged, and any later read of a range that ends at \<open>n\<close> or below gives that user
  no message.
\<close>

theorem clear_hides_messages:
  assumes laws: "redis_laws (svRdb V) view" and ord: "iter_order (db_ord (svDB V))"
    and conv: "msGetConversationsByConversationID (svServer V) ids s = (Ok convs, s1)" "view s1 = view s"
    and c: "c \<in> set (map cConversationID convs)"
    and n: "view s (getMaxSeqKey c) = Some (itoa n)" "n \<noteq> 0" "int64 n" "int64 (n + 1)"
    and run: "clearConversation V now ctx ids userID None s = (Ok (), s')"
  shows "user_min_seq (view s') c userID = n + 1 \<and> max_seq (view s') c = Some n
    \<and> seq_of (view s' (getHasReadSeqKey c userID)) = Some n
    \<and> (\<forall>user b e num k g rem mn mx msgs t. uUserID user = userID \<longrightarrow> e \<le> n \<longrightarrow>
         GetMsgBySeqsRange (svDB V) user c b e num k g rem s' = (Ok (mn, mx, msgs), t) \<longrightarrow> msgs = [])"
proof -
  note v = clearConversation_view [OF assms]
  then have um: "user_min_seq (view s') c userID = n + 1"
    using n by (simp add: user_min_seq_def seq_base_def)
  have "msgs = []" if "uUserID user = userID" "e \<le> n"
    and rd: "GetMsgBySeqsRange (svDB V) user c b e num k g rem s' = (Ok (mn, mx, msgs), t)"
    for user b e num k g rem mn mx msgs t
    using GetMsgBySeqsRange_low [OF laws _ rd] um that(1,2) by simp
  with um v n show ?thesis by (auto simp: max_seq_def)
qed

lemma demo_GetMaxSeqs:
  "\<exists>m. GetMaxSeqs mem_redis_api cs s = (Ok m, s)"
  using mem_redis_getSeqs [of cs getMaxSeqKey Map.empty s] by (auto simp: GetMaxSeqs_def getSeqs_def)

lemma mem_redis_sets: "\<exists>s'. forG ks (\<lambda>k. wrapG [] (rdSet mem_redis_api (key k) (f k) 0)) s = (Ok (), s')"
  by (induction ks arbitrary: s) (auto simp: mem_redis_set wrapG_def bindG_def retG_def)

lemma mem_redis_setSeqs: "\<exists>s'. setSeqs mem_redis_api ord m key s = (Ok (), s')"
  unfolding setSeqs_def by (rule mem_redis_sets)

theorem clear_hides_messages_witness:
  "\<exists>V s s' :: mem_redis. clearConversation V 5 demo_ctx [''sg_g''] ''u'' None s = (Ok (), s')
    \<and> user_min_seq (strings s') ''sg_g'' ''u'' = 8"
proof -
  let ?V = "plain_service (plain_server (demo_db []) (\<lambda>k m. retG ()))"
  let ?s = "mem_redis_empty\<lparr> strings := Map.empty(getMaxSeqKey ''sg_g'' \<mapsto> itoa 7) \<rparr>"
  obtain m where m: "GetMaxSeqs mem_redis_api [''sg_g''] ?s = (Ok m, ?s)" using demo_GetMaxSeqs by blast
  obtain s1 where s1: "setSeqs mem_redis_api sorted_list_of_set (getMinSeqs m)
      (\<lambda>c. getConversationUserMinSeqKey c ''u'') ?s = (Ok (), s1)" using mem_redis_setSeqs by blast
  obtain s2 where s2: "setSeqs mem_redis_api sorted_list_of_set m (\<lambda>c. getHasReadSeqKey c ''u'') s1 = (Ok (), s2)"
    using mem_redis_setSeqs by blast
  have run: "clearConversation ?V 5 demo_ctx [''sg_g''] ''u'' None ?s = (Ok (), s2)"
    using m s1 s2
    by (simp add: clearConversation_def validateDeleteSyncOpt_def plain_service_def plain_server_def demo_conversation_def
        SetUserConversationsMinSeqs_def UserSetHasReadSeqs_def go_simps)
  have "user_min_seq (strings s2) ''sg_g'' ''u'' = 7 + 1"
    by (rule clear_hides_messages [OF _ _ _ _ _ _ _ _ _ run, of strings "[demo_conversation]" ?s, THEN conjunct1])
      (simp_all add: plain_service_def plain_server_def mem_redis_laws iter_order_sorted retG_def demo_conversation_def int64_def)
  with run show ?thesis by auto
qed

section \<open>Who may revoke a group message\<close>

lemma group_revoke_role_Ok:
  assumes "group_revoke_role members u v role s = (Ok r, s')"
  shows "(u = v \<or> (\<exists>m. members u = Some m \<and> (gmRoleLevel m = GroupOwner
      \<or> gmRoleLevel m = GroupAdmin \<and> (\<exists>t. members v = Some t \<and> gmRoleLevel t = GroupOrdinaryUsers))))
    \<and> r = (case members u of Some m \<Rightarrow> gmRoleLevel m | None \<Rightarrow> role) \<and> s' = s"
  using assms
  by (cases "members u"; cases "members v")
    (auto simp: group_revoke_role_def bindG_Ok_iff go_simps split: if_splits)

lemma checked_Ok [simp]: "checked e s = (Ok u, s') \<longleftrightarrow> e = None \<and> s' = s"
  by (auto simp: checked_def retG_def failG_def split: option.splits)

text \<open>
  C14. Who may revoke a message of a group: when a revocation by somebody who is not an application
  manager and claims no high rights succeeds, the operator acts for itself, and the reads of this very call,
  one after the other from its first state, found: the user, the message, not yet revoked and of a super
  group, and the members of its group, where the user is more than an ordinary member and is the sender,
  or the owner, or an administrator while the sender is an ordinary member.  What the call then wrote is
  the revocation of that message by this user with the role found.
\<close>

theorem revoke_group_rights:
  assumes run: "msgServer_RevokeMsg V fuel now ctx userID cid seq ex s = (Ok (), s')"
    and no_admin: "\<not> IsAppManagerUid (msAuth (svServer V)) (ctxOpUserID ctx)"
    and no_rights: "fst (VerifyRights (db_json (svDB V)) ex) \<noteq> 3"
  shows "\<exists>user s1 mn mx m0 rest s2 members m s3 s4. CheckAccessV3 (msAuth (svServer V)) (ctxOpUserID ctx) userID = None
    \<and> msGetUserInfo (svServer V) userID s = (Ok user, s1)
    \<and> GetMsgBySeqs (svDB V) userID cid [seq] user (Some empty_member) s1 = (Ok (mn, mx, Some m0 # rest), s2)
    \<and> ContentType m0 \<noteq> MsgRevokeNotification \<and> SessionType m0 = SuperGroupChatType
    \<and> msGetGroupMemberInfoMap (svServer V) (GroupID m0) (Distinct [userID, SendID m0]) s2 = (Ok members, s3)
    \<and> members userID = Some m \<and> gmRoleLevel m \<noteq> GroupOrdinaryUsers
    \<and> (userID = SendID m0 \<or> gmRoleLevel m = GroupOwner
       \<or> gmRoleLevel m = GroupAdmin \<and> (\<exists>t. members (SendID m0) = Some t \<and> gmRoleLevel t = GroupOrdinaryUsers))
    \<and> RevokeMsg (db_doc (svDB V)) fuel cid seq
        \<lparr> RevRole = gmRoleLevel m, RevUserID = userID, RevNickname = uNickname user, RevTime = now \<rparr> s3 = (Ok (), s4)"
proof -
  from run obtain user s1 mn mx msgs s2 where
    access: "CheckAccessV3 (msAuth (svServer V)) (ctxOpUserID ctx) userID = None" and
    user: "msGetUserInfo (svServer V) userID s = (Ok user, s1)" and
    msgs: "GetMsgBySeqs (svDB V) userID cid [seq] user (Some empty_member) s1 = (Ok (mn, mx, msgs), s2)" and
    found0: "(case msgs of Some m0 # _ \<Rightarrow> revoke_found V fuel now ctx userID cid seq ex user m0
       | _ \<Rightarrow> failG (Wrap1m ErrRecordNotFound ''msg not found'')) s2 = (Ok (), s')"
    unfolding msgServer_RevokeMsg_def
    by (auto simp: bindG_Ok_iff failG_run split: if_splits)
  from found0 obtain m0 rest where m0: "msgs = Some m0 # rest"
    and found: "revoke_found V fuel now ctx userID cid seq ex user m0 s2 = (Ok (), s')"
    by (auto simp: failG_def split: list.splits option.splits)
  note get = msgs [unfolded m0]
  from found no_admin obtain role s3 s4 where
    ct: "ContentType m0 \<noteq> MsgRevokeNotification" "SessionType m0 \<noteq> SingleChatType" and
    role: "revoke_role V ctx userID ex user m0 s2 = (Ok role, s3)" "role \<noteq> GroupOrdinaryUsers" "role \<noteq> IMOrdinaryUser" and
    wr: "RevokeMsg (db_doc (svDB V)) fuel cid seq
        \<lparr> RevRole = role, RevUserID = userID, RevNickname = uNickname user, RevTime = now \<rparr> s3 = (Ok (), s4)"
    unfolding revoke_found_def Let_def
    by (auto simp: bindG_Ok_iff [of "revoke_role V ctx userID ex user m0"] bindG_Ok_iff [of "RevokeMsg _ _ _ _ _"]
        failG_def split: if_splits)
  from role(1) no_admin no_rights ct(2) obtain members s5 where
    st: "SessionType m0 = SuperGroupChatType" and
    mem: "msGetGroupMemberInfoMap (svServer V) (GroupID m0) (Distinct [userID, SendID m0]) s2 = (Ok members, s5)" and
    grr: "group_revoke_role members userID (SendID m0) 0 s5 = (Ok role, s3)"
    by (auto simp: revoke_role_def Let_def bindG_Ok_iff failG_def split: if_splits)
  note G = group_revoke_role_Ok [OF grr]
  from G role(2,3) obtain m where m: "members userID = Some m" "gmRoleLevel m = role" by (auto split: option.splits)
  with G have rights: "userID = SendID m0 \<or> gmRoleLevel m = GroupOwner
      \<or> gmRoleLevel m = GroupAdmin \<and> (\<exists>t. members (SendID m0) = Some t \<and> gmRoleLevel t = GroupOrdinaryUsers)"
    by auto
  show ?thesis
    using access user get ct(1) st mem m(1) role(2) rights wr G
    unfolding m(2) [symmetric] by blast
qed

lemma plain_GetMsgBySeqs:
  "GetMsgBySeqs steady_db u c [1] user g = retG (1, 1, [Some group_msg])"
  by (simp add: GetMsgBySeqs_def or_zero_def GetConversationUserMinSeq_def GetMinSeq_def GetMaxSeq_def getSeq_def
      steady_redis_int GetMessagesBySeq_def PipeGetMessagesBySeq_def group_msg_def empty_msg_def)

theorem revoke_group_rights_witness:
  "\<exists>V. msgServer_RevokeMsg V 2 5 demo_ctx ''u'' ''sg_g'' 1 [] () = (Ok (), ())
    \<and> (\<exists>(m0 :: MsgData) members m s2 s3. msGetGroupMemberInfoMap (svServer V) (GroupID m0) (Distinct [''u'', SendID m0]) s2 = (Ok members, s3)
         \<and> members ''u'' = Some m \<and> gmRoleLevel m \<noteq> GroupOrdinaryUsers)"
proof -
  let ?mq = "(\<lambda>k m. retG ()) :: string \<Rightarrow> MsgData \<Rightarrow> (unit, unit) go"
  let ?V = "plain_service (plain_server steady_db ?mq)"
  have revoke: "RevokeMsg (steady_docs :: unit msgdoc_api) 2 c 1 r = retG ()" for c r
    by (simp add: RevokeMsg_def BatchInsertBlock_def numeral_2_eq_2
        updateMsgModel_def Let_def)
  have options: "\<exists>o'. GetOptionsByNotification (options_conf (\<lambda>n. zero_conf) ''u'' ''g'' MsgRevokeNotification) = Ok o'"
    by (simp add: options_conf_def newContentTypeConf_def GetOptionsByNotification_def NewOptions_def NewOptions_base_def WithOptions_def
       reliable_def zero_conf_def with_opt_defs map_put_def)
  have notify: "notify ?V 5 demo_ctx ''u'' ''g'' MsgRevokeNotification SuperGroupChatType tips = retG ()" for tips
  proof -
    obtain o' where o': "GetOptionsByNotification (options_conf (\<lambda>n. zero_conf) ''u'' ''g'' MsgRevokeNotification) = Ok o'"
      using options by blast
    let ?d = "empty_msg\<lparr> SenderNickname := [], SenderFaceURL := [], SendID := ''u'', RecvID := ''g'', Content := ''tips'',
      MsgFrom := SysMsgType, ContentType := MsgRevokeNotification, SessionType := SuperGroupChatType, GroupID := ''g'',
      CreateTime := 5, ClientMsgID := ''client'', Options := o', OfflinePush := Some \<lparr> Title = [], Desc = [], PushEx = [],
      IOSPushSound = [], IOSBadgeCount = False, SignalInfo = [] \<rparr> \<rparr>"
    obtain m where "SendMsg (plain_server steady_db ?mq) 5 demo_ctx (Some ?d) = retG (Some (resp_of m))"
      using plain_SendMsg_group [of ?d steady_db ?mq 5 demo_ctx] by (auto simp: not_blank)
    then show ?thesis using o'
      by (simp add: notify_def NotificationWithSessionType_def notificationSender_def plain_service_def SetOptionsByContentType_def)
  qed
  have "msgServer_RevokeMsg ?V 2 5 demo_ctx ''u'' ''sg_g'' 1 [] = retG ()"
    using notify revoke
    by (simp add: msgServer_RevokeMsg_def revoke_found_def revoke_role_def group_revoke_role_def
       plain_GetMsgBySeqs demo_rights IsAppManagerUid_def CheckAccessV3_def checked_def group_msg_def empty_msg_def Let_def
       CallbackAfterRevokeMsg_def no_callbacks_def)
  then have run: "msgServer_RevokeMsg ?V 2 5 demo_ctx ''u'' ''sg_g'' 1 [] () = (Ok (), ())" by (simp add: retG_def)
  have "\<not> IsAppManagerUid (msAuth (svServer ?V)) (ctxOpUserID demo_ctx)"
    "fst (VerifyRights (db_json (svDB ?V)) []) \<noteq> 3" by (simp_all add: IsAppManagerUid_def demo_rights)
  from revoke_group_rights [OF run this] obtain m0 :: MsgData and s2 members m s3 where
    g: "msGetGroupMemberInfoMap (svServer ?V) (GroupID m0) (Distinct [''u'', SendID m0]) s2 = (Ok members, s3)"
      "members ''u'' = Some m" "gmRoleLevel m \<noteq> GroupOrdinaryUsers" by (elim exE conjE) (rule that)
  have "\<exists>(m0 :: MsgData) members m s2 s3. msGetGroupMemberInfoMap (svServer ?V) (GroupID m0) (Distinct [''u'', SendID m0]) s2 = (Ok members, s3)
         \<and> members ''u'' = Some m \<and> gmRoleLevel m \<noteq> GroupOrdinaryUsers"
    by (rule exI [of _ m0], rule exI [of _ members], rule exI [of _ m], rule exI [of _ s2], rule exI [of _ s3]) (use g in simp)
  with run show ?thesis by blast
qed

end
