(* ===== verification/MongoUtil.thy ===== *)
theory MongoUtil
  imports GoMonad SliceUtils
begin

text \<open>
  Access to MongoDB: \<open>pkg/tools/mgoutil/mongo.go\<close>, \<open>pkg/tools/tx/mongo.go\<close>.

  The driver is not part of the repository.  A collection is the record \<open>mongo_coll\<close> of the
  driver's calls; it works on a store that holds the documents of the collection, in natural order,
  next to a state of the driver of any type.  A filter is a predicate on documents and an update a
  function on them; the \<open>mgo\<close> files of the repository build them.  \<open>coll_laws C key\<close> is what
  MongoDB documents of a collection with a unique index on \<open>key\<close>.

  A service keeps several collections in its state; \<open>zoomG\<close> runs an operation on one part of it.
\<close>

section \<open>Working on a part of the state\<close>

definition zoomG :: "('s \<Rightarrow> 't) \<Rightarrow> ('t \<Rightarrow> 's \<Rightarrow> 's) \<Rightarrow> ('t, 'a) go \<Rightarrow> ('s, 'a) go" where
  "zoomG get put m = (\<lambda>s. let (r, t) = m (get s) in (r, put t s))"

lemma zoomG_run: "m (get s) = (r, t) \<Longrightarrow> zoomG get put m s = (r, put t s)"
  by (simp add: zoomG_def)

lemma zoomG_iff: "zoomG get put m s = (r, s') \<longleftrightarrow> (\<exists>t. m (get s) = (r, t) \<and> s' = put t s)"
  by (auto simp: zoomG_def split: prod.splits)

section \<open>The driver\<close>

type_synonym ('d, 'w) mstore = "'d list \<times> 'w"

text \<open>\<open>foLimit\<close> 0 is no limit, as for the driver; \<open>foSort\<close> is the order of a sort document.\<close>

record 'd find_options =
  foSkip :: int
  foLimit :: int
  foSort :: "('d \<Rightarrow> 'd \<Rightarrow> bool) option"

record ('d, 'w) mongo_coll =
  mcInsertMany :: "'d list \<Rightarrow> (('d, 'w) mstore, unit) go"
  mcUpdateOne :: "('d \<Rightarrow> bool) \<Rightarrow> ('d \<Rightarrow> 'd) \<Rightarrow> (('d, 'w) mstore, int) go"
  mcUpdateMany :: "('d \<Rightarrow> bool) \<Rightarrow> ('d \<Rightarrow> 'd) \<Rightarrow> (('d, 'w) mstore, int) go"
  mcFind :: "('d \<Rightarrow> bool) \<Rightarrow> 'd find_options option \<Rightarrow> (('d, 'w) mstore, 'd list) go"
  mcFindOne :: "('d \<Rightarrow> bool) \<Rightarrow> (('d, 'w) mstore, 'd) go"
  mcCountDocuments :: "('d \<Rightarrow> bool) \<Rightarrow> int option \<Rightarrow> (('d, 'w) mstore, int) go"
  mcDeleteOne :: "('d \<Rightarrow> bool) \<Rightarrow> (('d, 'w) mstore, unit) go"
  mcDeleteMany :: "('d \<Rightarrow> bool) \<Rightarrow> (('d, 'w) mstore, unit) go"
  mcGroup :: "('d \<Rightarrow> bool) \<Rightarrow> ('d \<Rightarrow> string) \<Rightarrow> (('d, 'w) mstore, (string \<times> int) list) go"

section \<open>mgoutil\<close>

definition mgo_InsertMany :: "('d, 'w) mongo_coll \<Rightarrow> 'd list \<Rightarrow> (('d, 'w) mstore, unit) go" where
  "mgo_InsertMany C val = wrapG [] (mcInsertMany C val)"

definition mgo_UpdateOne :: "('d, 'w) mongo_coll \<Rightarrow> ('d \<Rightarrow> bool) \<Rightarrow> ('d \<Rightarrow> 'd) \<Rightarrow> bool \<Rightarrow> (('d, 'w) mstore, unit) go" where
  "mgo_UpdateOne C filt update notMatchedErr =
     bindG (wrapG [] (mcUpdateOne C filt update)) (\<lambda>matched.
       if notMatchedErr \<and> matched = 0 then failG (Wrapped [] MongoNoDocuments) else retG ())"

definition mgo_UpdateMany :: "('d, 'w) mongo_coll \<Rightarrow> ('d \<Rightarrow> bool) \<Rightarrow> ('d \<Rightarrow> 'd) \<Rightarrow> (('d, 'w) mstore, int) go" where
  "mgo_UpdateMany C filt update = wrapG [] (mcUpdateMany C filt update)"

definition mgo_Find :: "('d, 'w) mongo_coll \<Rightarrow> ('d \<Rightarrow> bool) \<Rightarrow> 'd find_options option \<Rightarrow> (('d, 'w) mstore, 'd list) go" where
  "mgo_Find C filt opt = wrapG [] (mcFind C filt opt)"

text \<open>
  Documents read into the elements of a slice of a basic type must have one field: when the projection
  leaves \<open>\_id\<close> in, they have two.  \<open>FindOne\<close> has no such case and cannot read a document into an integer.
\<close>

definition decodes_field :: "bool \<Rightarrow> ('d \<Rightarrow> 'v) \<Rightarrow> 'd list \<Rightarrow> ('s, 'v list) go" where
  "decodes_field keeps_id field ds =
     (if keeps_id \<and> length ds > 0 then failG (Wrap1m ErrInternalServer ''mongo find result len(m) != 1'') else retG (map field ds))"

definition decode_int :: "'d \<Rightarrow> ('s, int) go" where
  "decode_int d = failG (Wrapped [] (Plain ''cannot decode document into an integer type''))"

definition mgo_Find_field :: "('d, 'w) mongo_coll \<Rightarrow> ('d \<Rightarrow> bool) \<Rightarrow> ('d \<Rightarrow> 'v) \<Rightarrow> (('d, 'w) mstore, 'v list) go" where
  "mgo_Find_field C filt field = bindG (mgo_Find C filt None) (decodes_field False field)"

definition mgo_FindOne :: "('d, 'w) mongo_coll \<Rightarrow> ('d \<Rightarrow> bool) \<Rightarrow> (('d, 'w) mstore, 'd) go" where
  "mgo_FindOne C filt = wrapG [] (mcFindOne C filt)"

definition mgo_Count :: "('d, 'w) mongo_coll \<Rightarrow> ('d \<Rightarrow> bool) \<Rightarrow> (('d, 'w) mstore, int) go" where
  "mgo_Count C filt = mcCountDocuments C filt None"

definition mgo_Exist :: "('d, 'w) mongo_coll \<Rightarrow> ('d \<Rightarrow> bool) \<Rightarrow> (('d, 'w) mstore, bool) go" where
  "mgo_Exist C filt = bindG (mcCountDocuments C filt (Some 1)) (\<lambda>count. retG (count > 0))"

text \<open>A pagination is the page number and the page size, both \<open>int32\<close>; a nil one reads as two zeros.\<close>

type_synonym pagination = "int \<times> int"

definition page_skip :: "pagination \<Rightarrow> int" where
  "page_skip p = mul64 (wrap32 (fst p - 1)) (snd p)"

definition mgo_FindPage_by ::
  "('d, 'w) mongo_coll \<Rightarrow> ('d \<Rightarrow> 'd \<Rightarrow> bool) option \<Rightarrow> ('d \<Rightarrow> bool) \<Rightarrow> pagination \<Rightarrow> (('d, 'w) mstore, int \<times> 'd list) go" where
  "mgo_FindPage_by C order filt p =
     bindG (mgo_Count C filt) (\<lambda>count.
       if count = 0 then retG (count, [])
       else if page_skip p < 0 \<or> page_skip p \<ge> count \<or> snd p \<le> 0 then retG (count, [])
       else bindG (mgo_Find C filt (Some \<lparr> foSkip = page_skip p, foLimit = snd p, foSort = order \<rparr>)) (\<lambda>res. retG (count, res)))"

definition mgo_FindPage ::
  "('d, 'w) mongo_coll \<Rightarrow> ('d \<Rightarrow> bool) \<Rightarrow> pagination \<Rightarrow> (('d, 'w) mstore, int \<times> 'd list) go" where
  "mgo_FindPage C filt p = mgo_FindPage_by C None filt p"

definition mgo_FindPageOnly ::
  "('d, 'w) mongo_coll \<Rightarrow> ('d \<Rightarrow> bool) \<Rightarrow> pagination \<Rightarrow> (('d, 'w) mstore, 'd list) go" where
  "mgo_FindPageOnly C filt p =
     (if page_skip p < 0 \<or> snd p \<le> 0 then retG []
      else mgo_Find C filt (Some \<lparr> foSkip = page_skip p, foLimit = snd p, foSort = None \<rparr>))"

definition mgo_DeleteOne :: "('d, 'w) mongo_coll \<Rightarrow> ('d \<Rightarrow> bool) \<Rightarrow> (('d, 'w) mstore, unit) go" where
  "mgo_DeleteOne C filt = wrapG [] (mcDeleteOne C filt)"

definition mgo_DeleteMany :: "('d, 'w) mongo_coll \<Rightarrow> ('d \<Rightarrow> bool) \<Rightarrow> (('d, 'w) mstore, unit) go" where
  "mgo_DeleteMany C filt = wrapG [] (mcDeleteMany C filt)"

text \<open>
  \<open>Aggregate\<close> is called with pipelines that match, group by one key and count, whose answer is the keys
  with their counts; \<open>mcGroup\<close> is such a pipeline.
\<close>

definition mgo_Aggregate :: "('d, 'w) mongo_coll \<Rightarrow> ('d \<Rightarrow> bool) \<Rightarrow> ('d \<Rightarrow> string) \<Rightarrow> (('d, 'w) mstore, (string \<times> int) list) go" where
  "mgo_Aggregate C filt key = mcGroup C filt key"

text \<open>\<open>relation.IsNotFound\<close>.\<close>

definition relation_IsNotFound :: "go_error \<Rightarrow> bool" where
  "relation_IsNotFound err \<longleftrightarrow> Unwrap err = MongoNoDocuments"

section \<open>Transactions (tx/mongo.go)\<close>

text \<open>
  Whether the server supports transactions is found out at the first use; without them the function
  runs as it is.  \<open>txWith\<close> is \<open>sess.WithTransaction\<close>.
\<close>

record 's tx_api =
  txInit :: "('s, bool) go"
  txWith :: "('s, unit) go \<Rightarrow> ('s, unit) go"

definition Mongo_Transaction :: "'s tx_api \<Rightarrow> ('s, unit) go \<Rightarrow> ('s, unit) go" where
  "Mongo_Transaction T fn = bindG (txInit T) (\<lambda>allowTx. if \<not> allowTx then fn else txWith T fn)"

section \<open>What MongoDB promises\<close>

text \<open>
  Inserts are ordered: a failed \<open>InsertMany\<close> may have stored a prefix.  A document is changed by one
  update at most once, and the unique index never holds two documents with one key.
\<close>

definition unique_keys :: "('d \<Rightarrow> 'k) \<Rightarrow> 'd list \<Rightarrow> bool" where
  "unique_keys key ds \<longleftrightarrow> distinct (map key ds)"

fun update_first :: "('d \<Rightarrow> bool) \<Rightarrow> ('d \<Rightarrow> 'd) \<Rightarrow> 'd list \<Rightarrow> 'd list" where
  "update_first P f [] = []"
| "update_first P f (d # ds) = (if P d then f d # ds else d # update_first P f ds)"

fun remove_first :: "('d \<Rightarrow> bool) \<Rightarrow> 'd list \<Rightarrow> 'd list" where
  "remove_first P [] = []"
| "remove_first P (d # ds) = (if P d then ds else d # remove_first P ds)"

definition update_all :: "('d \<Rightarrow> bool) \<Rightarrow> ('d \<Rightarrow> 'd) \<Rightarrow> 'd list \<Rightarrow> 'd list" where
  "update_all P f ds = map (\<lambda>d. if P d then f d else d) ds"

definition page_of :: "'d find_options option \<Rightarrow> 'd list \<Rightarrow> 'd list" where
  "page_of opt ds = (case opt of None \<Rightarrow> ds
     | Some o' \<Rightarrow>
         (let sorted = (case foSort o' of None \<Rightarrow> ds | Some le \<Rightarrow> sort_stable le ds);
              rest = drop (nat (foSkip o')) sorted
          in if foLimit o' = 0 then rest else take (nat (foLimit o')) rest))"

definition coll_laws :: "('d, 'w) mongo_coll \<Rightarrow> ('d \<Rightarrow> 'k) \<Rightarrow> bool" where
  "coll_laws C key \<longleftrightarrow>
     (\<forall>new ds w r ds' w'. mcInsertMany C new (ds, w) = (r, ds', w') \<longrightarrow>
        (r = Ok () \<and> ds' = ds @ new \<and> unique_keys key ds'
         \<or> (\<exists>e n. r = Err e \<and> ds' = ds @ take n new \<and> (unique_keys key ds \<longrightarrow> unique_keys key ds'))))
   \<and> (\<forall>P f ds w r ds' w'. mcUpdateOne C P f (ds, w) = (r, ds', w') \<longrightarrow>
        (r = Ok (if list_ex P ds then 1 else 0) \<and> ds' = update_first P f ds \<or> (\<exists>e. r = Err e \<and> ds' = ds)))
   \<and> (\<forall>P f ds w r ds' w'. mcUpdateMany C P f (ds, w) = (r, ds', w') \<longrightarrow>
        (r = Ok (int (length (filter P ds))) \<and> ds' = update_all P f ds \<or> (\<exists>e. r = Err e \<and> ds' = ds)))
   \<and> (\<forall>P opt ds w r ds' w'. mcFind C P opt (ds, w) = (r, ds', w') \<longrightarrow>
        ds' = ds \<and> (r = Ok (page_of opt (filter P ds)) \<or> (\<exists>e. r = Err e)))
   \<and> (\<forall>P ds w r ds' w'. mcFindOne C P (ds, w) = (r, ds', w') \<longrightarrow>
        ds' = ds \<and> ((\<exists>d. find P ds = Some d \<and> r = Ok d) \<or> find P ds = None \<and> r = Err MongoNoDocuments
                    \<or> (\<exists>e. r = Err e \<and> Unwrap e \<noteq> MongoNoDocuments)))
   \<and> (\<forall>P l ds w r ds' w'. mcCountDocuments C P l (ds, w) = (r, ds', w') \<longrightarrow>
        ds' = ds \<and> (r = Ok (case l of None \<Rightarrow> int (length (filter P ds)) | Some k \<Rightarrow> min k (int (length (filter P ds))))
                    \<or> (\<exists>e. r = Err e)))
   \<and> (\<forall>P ds w r ds' w'. mcDeleteOne C P (ds, w) = (r, ds', w') \<longrightarrow>
        (r = Ok () \<and> ds' = remove_first P ds \<or> (\<exists>e. r = Err e \<and> ds' = ds)))
   \<and> (\<forall>P ds w r ds' w'. mcDeleteMany C P (ds, w) = (r, ds', w') \<longrightarrow>
        (r = Ok () \<and> ds' = filter (\<lambda>d. \<not> P d) ds \<or> (\<exists>e. r = Err e \<and> ds' = ds)))
   \<and> (\<forall>P g ds w r ds' w'. mcGroup C P g (ds, w) = (r, ds', w') \<longrightarrow>
        ds' = ds \<and> ((\<exists>ks. r = Ok (map (\<lambda>k. (k, int (length (filter (\<lambda>d. P d \<and> g d = k) ds)))) ks)
                           \<and> distinct ks \<and> set ks = g ` set (filter P ds)) \<or> (\<exists>e. r = Err e)))"

end
