(* ===== verification/MetaCache.thy ===== *)
theory MetaCache
  imports GoMonad SliceUtils
begin

text \<open>
  The cache in front of the database: \<open>pkg/common/db/cache/meta\_cache.go\<close>.

  The library rockscache is not part of the repository.  Its \<open>Fetch2\<close> looks a key up, and when
  there is nothing (or only a value marked as deleted) it calls the given function and stores the
  result; here these are the two calls \<open>rcGet\<close> and \<open>rcPut\<close> around the function.  \<open>rc_laws\<close> is
  what it documents.
\<close>

type_synonym 'w cstore = "(string \<rightharpoonup> string) \<times> 'w"

record 's rc_api =
  rcGet :: "string \<Rightarrow> ('s, string option) go"
  rcPut :: "string \<Rightarrow> string \<Rightarrow> int \<Rightarrow> ('s, unit) go"
  rcTagAsDeleted :: "string \<Rightarrow> ('s, unit) go"

text \<open>How a value is written into the cache.\<close>

type_synonym 't codec = "('t \<Rightarrow> go_error + string) \<times> (string \<Rightarrow> go_error + 't)"

definition getCache :: "'s rc_api \<Rightarrow> 't codec \<Rightarrow> string \<Rightarrow> int \<Rightarrow> ('s, 't) go \<Rightarrow> ('s, 't) go" where
  "getCache R cod key expire fn =
     bindG (rcGet R key) (\<lambda>v. case v of
         None \<Rightarrow> bindG fn (\<lambda>t. case fst cod t of
             Inl err \<Rightarrow> failG (Wrapped [] err)
           | Inr bs \<Rightarrow> bindG (rcPut R key bs expire) (\<lambda>_. retG t))
       | Some v \<Rightarrow>
           if v = [] then failG (Wrap1m ErrRecordNotFound ''cache is not found'')
           else (case snd cod v of Inl err \<Rightarrow> failG (Wrapped [] err) | Inr t \<Rightarrow> retG t))"

abbreviation maxRetryTimes :: nat where "maxRetryTimes \<equiv> 5"

text \<open>Up to \<open>n\<close> attempts; after the last one the failure is only logged.\<close>

fun delete_retry :: "'s rc_api \<Rightarrow> nat \<Rightarrow> string \<Rightarrow> ('s, unit) go" where
  "delete_retry R 0 key = retG ()"
| "delete_retry R (Suc n) key = bindG (attemptG (rcTagAsDeleted R key)) (\<lambda>r. case r of
       Inl err \<Rightarrow> delete_retry R n key
     | Inr _ \<Rightarrow> retG ())"

definition ExecDel :: "'s rc_api \<Rightarrow> string list \<Rightarrow> ('s, unit) go" where
  "ExecDel R keys = forG keys (delete_retry R maxRetryTimes)"

text \<open>
  \<open>specialerror.ErrCode\<close> with the two replacements registered at start-up (\<open>mongo.ErrNoDocuments\<close> and
  \<open>redis.Nil\<close>), and the test for a record that does not exist.
\<close>

definition ErrCode :: "go_error \<Rightarrow> go_error option" where
  "ErrCode err = (case code_error_of err of Some c \<Rightarrow> Some err
     | None \<Rightarrow> if err = MongoNoDocuments \<or> err = RedisNil then Some ErrRecordNotFound else None)"

definition err_not_found :: "go_error \<Rightarrow> bool" where
  "err_not_found err = codeError_Is Relation_init (CodeError 1004 ''RecordNotFoundError'' []) (ErrCode (Unwrap err)) None"

text \<open>\<open>batchGetCache2\<close>: keys without a record are left out.\<close>

fun batchGetCache2 :: "'s rc_api \<Rightarrow> 't codec \<Rightarrow> int \<Rightarrow> ('k \<Rightarrow> string) \<Rightarrow> ('k \<Rightarrow> ('s, 't) go) \<Rightarrow> 'k list
   \<Rightarrow> ('s, 't list) go" where
  "batchGetCache2 R cod expire keyFn fns [] = retG []"
| "batchGetCache2 R cod expire keyFn fns (key # keys) =
     bindG (attemptG (getCache R cod (keyFn key) expire (fns key))) (\<lambda>r. case r of
         Inl err \<Rightarrow> if err_not_found err then batchGetCache2 R cod expire keyFn fns keys else failG err
       | Inr val \<Rightarrow> bindG (batchGetCache2 R cod expire keyFn fns keys) (\<lambda>res. retG (val # res)))"

text \<open>\<open>batchGetCacheWaitGroup\<close> drops every key that fails; the order of the result is not fixed.\<close>

fun batchGetCacheWaitGroup :: "'s rc_api \<Rightarrow> 't codec \<Rightarrow> int \<Rightarrow> ('k \<Rightarrow> string) \<Rightarrow> ('k \<Rightarrow> ('s, 't) go) \<Rightarrow> 'k list
   \<Rightarrow> ('s, 't list) go" where
  "batchGetCacheWaitGroup R cod expire keyFn fns [] = retG []"
| "batchGetCacheWaitGroup R cod expire keyFn fns (key # keys) =
     bindG (attemptG (getCache R cod (keyFn key) expire (fns key))) (\<lambda>r. case r of
         Inl err \<Rightarrow> batchGetCacheWaitGroup R cod expire keyFn fns keys
       | Inr val \<Rightarrow> bindG (batchGetCacheWaitGroup R cod expire keyFn fns keys) (\<lambda>res. retG (val # res)))"

section \<open>What rockscache promises\<close>

text \<open>
  The laws speak of the keys between two calls of the program: an entry does not expire between them.  An
  expiry would remove an entry, as a deletion does; the invariants over the cache speak of the entries that
  are there and are kept by such a removal.
\<close>

definition rc_laws :: "'w cstore rc_api \<Rightarrow> bool" where
  "rc_laws R \<longleftrightarrow>
     (\<forall>k m w r m' w'. rcGet R k (m, w) = (r, m', w') \<longrightarrow> m' = m \<and> (r = Ok (m k) \<or> (\<exists>e. r = Err e)))
   \<and> (\<forall>k v t m w r m' w'. rcPut R k v t (m, w) = (r, m', w') \<longrightarrow>
        r = Ok () \<and> m' = m(k \<mapsto> v) \<or> (\<exists>e. r = Err e) \<and> (m' = m \<or> m' = m(k \<mapsto> v)))
   \<and> (\<forall>k m w r m' w'. rcTagAsDeleted R k (m, w) = (r, m', w') \<longrightarrow>
        r = Ok () \<and> m' = m(k := None) \<or> (\<exists>e. r = Err e) \<and> m' = m)"

text \<open>A cache whose deletions never fail.\<close>

definition rc_reliable :: "'w cstore rc_api \<Rightarrow> bool" where
  "rc_reliable R \<longleftrightarrow> (\<forall>k s. \<exists>s'. rcTagAsDeleted R k s = (Ok (), s'))"

end
