(* ===== verification/FriendDB.thy ===== *)
theory FriendDB
  imports MongoUtil MetaCache Constants
begin

text \<open>
  Friends, friend requests and blacklists: the collections
  (\<open>pkg/common/db/mgo/friend.go\<close>, \<open>friend\_request.go\<close>, \<open>black.go\<close>), their caches
  (\<open>pkg/common/db/cache/friend.go\<close>, \<open>black.go\<close>) and the controllers
  (\<open>pkg/common/db/controller/friend.go\<close>, \<open>black.go\<close>).

  A time is a number of milliseconds since 1970; \<open>zero_time\<close> is Go's zero \<open>time.Time\<close>.
\<close>

section \<open>Documents\<close>

abbreviation (input) zero_time :: int where "zero_time \<equiv> - 62135596800000"

record FriendModel =
  fmOwnerUserID :: string
  fmFriendUserID :: string
  fmRemark :: string
  fmCreateTime :: int
  fmAddSource :: int
  fmOperatorUserID :: string
  fmEx :: string
  fmIsPinned :: bool

record FriendRequestModel =
  frFromUserID :: string
  frToUserID :: string
  frHandleResult :: int
  frReqMsg :: string
  frCreateTime :: int
  frHandlerUserID :: string
  frHandleMsg :: string
  frHandleTime :: int
  frEx :: string

record BlackModel =
  bmOwnerUserID :: string
  bmBlockUserID :: string
  bmCreateTime :: int
  bmAddSource :: int
  bmOperatorUserID :: string
  bmEx :: string

text \<open>The fields that \<open>UpdateFriends\<close> may set; an absent one is not in the update.\<close>

record friend_update =
  upIsPinned :: "bool option"
  upRemark :: "string option"
  upEx :: "string option"

definition apply_update :: "friend_update \<Rightarrow> FriendModel \<Rightarrow> FriendModel" where
  "apply_update u f = f\<lparr>
     fmRemark := (case upRemark u of None \<Rightarrow> fmRemark f | Some v \<Rightarrow> v),
     fmEx := (case upEx u of None \<Rightarrow> fmEx f | Some v \<Rightarrow> v),
     fmIsPinned := (case upIsPinned u of None \<Rightarrow> fmIsPinned f | Some v \<Rightarrow> v) \<rparr>"

definition no_update :: "friend_update \<Rightarrow> bool" where
  "no_update u \<longleftrightarrow> upIsPinned u = None \<and> upRemark u = None \<and> upEx u = None"

section \<open>Collections (mgo)\<close>

type_synonym ('w, 'a) friend_op = "((FriendModel, 'w) mstore, 'a) go"
type_synonym ('w, 'a) request_op = "((FriendRequestModel, 'w) mstore, 'a) go"
type_synonym ('w, 'a) black_op = "((BlackModel, 'w) mstore, 'a) go"
type_synonym 'w friend_coll = "(FriendModel, 'w) mongo_coll"
type_synonym 'w request_coll = "(FriendRequestModel, 'w) mongo_coll"
type_synonym 'w black_coll = "(BlackModel, 'w) mongo_coll"

definition friend_is :: "string \<Rightarrow> string \<Rightarrow> FriendModel \<Rightarrow> bool" where
  "friend_is owner friend f \<longleftrightarrow> fmOwnerUserID f = owner \<and> fmFriendUserID f = friend"

definition FriendMgo_Create :: "'w friend_coll \<Rightarrow> FriendModel list \<Rightarrow> ('w, unit) friend_op" where
  "FriendMgo_Create C friends = mgo_InsertMany C friends"

text \<open>The filter may match several friends, but one document is deleted.\<close>

definition FriendMgo_Delete :: "'w friend_coll \<Rightarrow> string \<Rightarrow> string list \<Rightarrow> ('w, unit) friend_op" where
  "FriendMgo_Delete C ownerUserID friendUserIDs =
     mgo_DeleteOne C (\<lambda>f. fmOwnerUserID f = ownerUserID \<and> fmFriendUserID f \<in> set friendUserIDs)"

definition FriendMgo_UpdateRemark :: "'w friend_coll \<Rightarrow> string \<Rightarrow> string \<Rightarrow> string \<Rightarrow> ('w, unit) friend_op" where
  "FriendMgo_UpdateRemark C ownerUserID friendUserID remark =
     mgo_UpdateOne C (friend_is ownerUserID friendUserID) (\<lambda>f. f\<lparr> fmRemark := remark \<rparr>) True"

definition FriendMgo_Take :: "'w friend_coll \<Rightarrow> string \<Rightarrow> string \<Rightarrow> ('w, FriendModel) friend_op" where
  "FriendMgo_Take C ownerUserID friendUserID = mgo_FindOne C (friend_is ownerUserID friendUserID)"

definition FriendMgo_FindUserState :: "'w friend_coll \<Rightarrow> string \<Rightarrow> string \<Rightarrow> ('w, FriendModel list) friend_op" where
  "FriendMgo_FindUserState C userID1 userID2 =
     mgo_Find C (\<lambda>f. friend_is userID1 userID2 f \<or> friend_is userID2 userID1 f) None"

definition FriendMgo_FindFriends :: "'w friend_coll \<Rightarrow> string \<Rightarrow> string list \<Rightarrow> ('w, FriendModel list) friend_op" where
  "FriendMgo_FindFriends C ownerUserID friendUserIDs =
     mgo_Find C (\<lambda>f. fmOwnerUserID f = ownerUserID \<and> fmFriendUserID f \<in> set friendUserIDs) None"

definition FriendMgo_FindReversalFriends :: "'w friend_coll \<Rightarrow> string \<Rightarrow> string list \<Rightarrow> ('w, FriendModel list) friend_op" where
  "FriendMgo_FindReversalFriends C friendUserID ownerUserIDs =
     mgo_Find C (\<lambda>f. fmOwnerUserID f \<in> set ownerUserIDs \<and> fmFriendUserID f = friendUserID) None"

definition FriendMgo_FindOwnerFriends :: "'w friend_coll \<Rightarrow> string \<Rightarrow> pagination \<Rightarrow> ('w, int \<times> FriendModel list) friend_op" where
  "FriendMgo_FindOwnerFriends C ownerUserID p = mgo_FindPage C (\<lambda>f. fmOwnerUserID f = ownerUserID) p"

definition FriendMgo_FindInWhoseFriends :: "'w friend_coll \<Rightarrow> string \<Rightarrow> pagination \<Rightarrow> ('w, int \<times> FriendModel list) friend_op" where
  "FriendMgo_FindInWhoseFriends C friendUserID p = mgo_FindPage C (\<lambda>f. fmFriendUserID f = friendUserID) p"

definition FriendMgo_FindFriendUserIDs :: "'w friend_coll \<Rightarrow> string \<Rightarrow> ('w, string list) friend_op" where
  "FriendMgo_FindFriendUserIDs C ownerUserID = mgo_Find_field C (\<lambda>f. fmOwnerUserID f = ownerUserID) fmFriendUserID"

definition FriendMgo_UpdateFriends :: "'w friend_coll \<Rightarrow> string \<Rightarrow> string list \<Rightarrow> friend_update \<Rightarrow> ('w, unit) friend_op" where
  "FriendMgo_UpdateFriends C ownerUserID friendUserIDs val =
     (if length friendUserIDs = 0 then retG ()
      else bindG (mgo_UpdateMany C (\<lambda>f. fmOwnerUserID f = ownerUserID \<and> fmFriendUserID f \<in> set friendUserIDs)
                    (apply_update val)) (\<lambda>_. retG ()))"

definition FriendMgo_FindFriendsRemark :: "'w friend_coll \<Rightarrow> string \<Rightarrow> ('w, FriendModel list) friend_op" where
  "FriendMgo_FindFriendsRemark C ownerUserID = mgo_Find C (\<lambda>f. fmOwnerUserID f = ownerUserID \<and> fmRemark f \<noteq> []) None"

definition request_is :: "string \<Rightarrow> string \<Rightarrow> FriendRequestModel \<Rightarrow> bool" where
  "request_is fromUserID toUserID r \<longleftrightarrow> frFromUserID r = fromUserID \<and> frToUserID r = toUserID"

definition FriendRequestMgo_FindToUserID ::
  "'w request_coll \<Rightarrow> string \<Rightarrow> pagination \<Rightarrow> ('w, int \<times> FriendRequestModel list) request_op" where
  "FriendRequestMgo_FindToUserID C toUserID p = mgo_FindPage C (\<lambda>r. frToUserID r = toUserID) p"

definition FriendRequestMgo_FindFromUserID ::
  "'w request_coll \<Rightarrow> string \<Rightarrow> pagination \<Rightarrow> ('w, int \<times> FriendRequestModel list) request_op" where
  "FriendRequestMgo_FindFromUserID C fromUserID p = mgo_FindPage C (\<lambda>r. frFromUserID r = fromUserID) p"

definition FriendRequestMgo_FindBothFriendRequests ::
  "'w request_coll \<Rightarrow> string \<Rightarrow> string \<Rightarrow> ('w, FriendRequestModel list) request_op" where
  "FriendRequestMgo_FindBothFriendRequests C fromUserID toUserID =
     mgo_Find C (\<lambda>r. request_is fromUserID toUserID r \<or> request_is toUserID fromUserID r) None"

definition FriendRequestMgo_Create :: "'w request_coll \<Rightarrow> FriendRequestModel list \<Rightarrow> ('w, unit) request_op" where
  "FriendRequestMgo_Create C rs = mgo_InsertMany C rs"

definition FriendRequestMgo_Delete :: "'w request_coll \<Rightarrow> string \<Rightarrow> string \<Rightarrow> ('w, unit) request_op" where
  "FriendRequestMgo_Delete C fromUserID toUserID = mgo_DeleteOne C (request_is fromUserID toUserID)"

definition FriendRequestMgo_UpdateByMap ::
  "'w request_coll \<Rightarrow> string \<Rightarrow> string \<Rightarrow> (FriendRequestModel \<Rightarrow> FriendRequestModel) \<Rightarrow> ('w, unit) request_op" where
  "FriendRequestMgo_UpdateByMap C fromUserID toUserID args = mgo_UpdateOne C (request_is fromUserID toUserID) args True"

text \<open>Only the fields that are not zero are written.\<close>

definition request_updater :: "FriendRequestModel \<Rightarrow> FriendRequestModel \<Rightarrow> FriendRequestModel" where
  "request_updater u r = r\<lparr>
     frHandleResult := (if frHandleResult u \<noteq> 0 then frHandleResult u else frHandleResult r),
     frReqMsg := (if frReqMsg u \<noteq> [] then frReqMsg u else frReqMsg r),
     frHandlerUserID := (if frHandlerUserID u \<noteq> [] then frHandlerUserID u else frHandlerUserID r),
     frHandleMsg := (if frHandleMsg u \<noteq> [] then frHandleMsg u else frHandleMsg r),
     frHandleTime := (if frHandleTime u \<noteq> zero_time then frHandleTime u else frHandleTime r),
     frEx := (if frEx u \<noteq> [] then frEx u else frEx r) \<rparr>"

definition FriendRequestMgo_Update :: "'w request_coll \<Rightarrow> FriendRequestModel \<Rightarrow> ('w, unit) request_op" where
  "FriendRequestMgo_Update C u =
     (if frHandleResult u = 0 \<and> frReqMsg u = [] \<and> frHandlerUserID u = [] \<and> frHandleMsg u = []
         \<and> frHandleTime u = zero_time \<and> frEx u = [] then retG ()
      else mgo_UpdateOne C (request_is (frFromUserID u) (frToUserID u)) (request_updater u) True)"

definition FriendRequestMgo_Find :: "'w request_coll \<Rightarrow> string \<Rightarrow> string \<Rightarrow> ('w, FriendRequestModel) request_op" where
  "FriendRequestMgo_Find C fromUserID toUserID = mgo_FindOne C (request_is fromUserID toUserID)"

definition FriendRequestMgo_Take :: "'w request_coll \<Rightarrow> string \<Rightarrow> string \<Rightarrow> ('w, FriendRequestModel) request_op" where
  "FriendRequestMgo_Take C fromUserID toUserID = FriendRequestMgo_Find C fromUserID toUserID"

definition blackFilter :: "string \<Rightarrow> string \<Rightarrow> BlackModel \<Rightarrow> bool" where
  "blackFilter ownerUserID blockUserID b \<longleftrightarrow> bmOwnerUserID b = ownerUserID \<and> bmBlockUserID b = blockUserID"

definition blacksFilter :: "BlackModel list \<Rightarrow> BlackModel \<Rightarrow> bool" where
  "blacksFilter blacks b \<longleftrightarrow> list_ex (\<lambda>x. blackFilter (bmOwnerUserID x) (bmBlockUserID x) b) blacks"

definition BlackMgo_Create :: "'w black_coll \<Rightarrow> BlackModel list \<Rightarrow> ('w, unit) black_op" where
  "BlackMgo_Create C blacks = mgo_InsertMany C blacks"

definition BlackMgo_Delete :: "'w black_coll \<Rightarrow> BlackModel list \<Rightarrow> ('w, unit) black_op" where
  "BlackMgo_Delete C blacks = (if length blacks = 0 then retG () else mgo_DeleteMany C (blacksFilter blacks))"

definition BlackMgo_Take :: "'w black_coll \<Rightarrow> string \<Rightarrow> string \<Rightarrow> ('w, BlackModel) black_op" where
  "BlackMgo_Take C ownerUserID blockUserID = mgo_FindOne C (blackFilter ownerUserID blockUserID)"

definition BlackMgo_FindOwnerBlacks :: "'w black_coll \<Rightarrow> string \<Rightarrow> pagination \<Rightarrow> ('w, int \<times> BlackModel list) black_op" where
  "BlackMgo_FindOwnerBlacks C ownerUserID p = mgo_FindPage C (\<lambda>b. bmOwnerUserID b = ownerUserID) p"

definition BlackMgo_FindOwnerBlackInfos :: "'w black_coll \<Rightarrow> string \<Rightarrow> string list \<Rightarrow> ('w, BlackModel list) black_op" where
  "BlackMgo_FindOwnerBlackInfos C ownerUserID userIDs =
     (if length userIDs = 0 then mgo_Find C (\<lambda>b. bmOwnerUserID b = ownerUserID) None
      else mgo_Find C (\<lambda>b. bmOwnerUserID b = ownerUserID \<and> bmBlockUserID b \<in> set userIDs) None)"

definition BlackMgo_FindBlackUserIDs :: "'w black_coll \<Rightarrow> string \<Rightarrow> ('w, string list) black_op" where
  "BlackMgo_FindBlackUserIDs C ownerUserID = mgo_Find_field C (\<lambda>b. bmOwnerUserID b = ownerUserID) bmBlockUserID"

section \<open>The state and the services behind the controllers\<close>

record 'w friend_state =
  fsFriends :: "(FriendModel, 'w) mstore"
  fsRequests :: "(FriendRequestModel, 'w) mstore"
  fsBlacks :: "(BlackModel, 'w) mstore"
  fsCache :: "'w cstore"
  fsWorld :: 'w

type_synonym ('w, 'a) fgo = "('w friend_state, 'a) go"

record 'w friend_db =
  fdFriend :: "'w friend_coll"
  fdRequest :: "'w request_coll"
  fdBlack :: "'w black_coll"
  fdRc :: "'w cstore rc_api"
  fdTx :: "'w friend_state tx_api"
  fdIDsJson :: "string list codec"

definition onFriends :: "('w, 'a) friend_op \<Rightarrow> ('w, 'a) fgo" where
  "onFriends m = zoomG fsFriends (\<lambda>t s. s\<lparr> fsFriends := t \<rparr>) m"

definition onRequests :: "('w, 'a) request_op \<Rightarrow> ('w, 'a) fgo" where
  "onRequests m = zoomG fsRequests (\<lambda>t s. s\<lparr> fsRequests := t \<rparr>) m"

definition onBlacks :: "('w, 'a) black_op \<Rightarrow> ('w, 'a) fgo" where
  "onBlacks m = zoomG fsBlacks (\<lambda>t s. s\<lparr> fsBlacks := t \<rparr>) m"

definition onCache :: "('w cstore, 'a) go \<Rightarrow> ('w, 'a) fgo" where
  "onCache m = zoomG fsCache (\<lambda>t s. s\<lparr> fsCache := t \<rparr>) m"

definition onWorld :: "('w, 'a) go \<Rightarrow> ('w, 'a) fgo" where
  "onWorld m = zoomG fsWorld (\<lambda>t s. s\<lparr> fsWorld := t \<rparr>) m"

definition cacheOf :: "'w friend_db \<Rightarrow> 'w friend_state rc_api" where
  "cacheOf D = \<lparr> rcGet = (\<lambda>k. onCache (rcGet (fdRc D) k)), rcPut = (\<lambda>k v t. onCache (rcPut (fdRc D) k v t)),
     rcTagAsDeleted = (\<lambda>k. onCache (rcTagAsDeleted (fdRc D) k)) \<rparr>"

section \<open>Caches\<close>

definition getFriendIDsKey :: "string \<Rightarrow> string" where
  "getFriendIDsKey ownerUserID = ''FRIEND_IDS:'' @ ownerUserID"

definition getTwoWayFriendsIDsKey :: "string \<Rightarrow> string" where
  "getTwoWayFriendsIDsKey ownerUserID = ''COMMON_FRIENDS_IDS:'' @ ownerUserID"

definition getFriendKey :: "string \<Rightarrow> string \<Rightarrow> string" where
  "getFriendKey ownerUserID friendUserID = ''FRIEND_INFO:'' @ ownerUserID @ ''-'' @ friendUserID"

definition getBlackIDsKey :: "string \<Rightarrow> string" where
  "getBlackIDsKey ownerUserID = ''BLACK_IDS:'' @ ownerUserID"

abbreviation (input) friendExpireTime :: int where "friendExpireTime \<equiv> 43200"

definition FriendCacheRedis_GetFriendIDs :: "'w friend_db \<Rightarrow> string \<Rightarrow> ('w, string list) fgo" where
  "FriendCacheRedis_GetFriendIDs D ownerUserID =
     getCache (cacheOf D) (fdIDsJson D) (getFriendIDsKey ownerUserID) friendExpireTime
       (onFriends (FriendMgo_FindFriendUserIDs (fdFriend D) ownerUserID))"

definition FriendCacheRedis_DelFriendIDs :: "string list \<Rightarrow> string list" where
  "FriendCacheRedis_DelFriendIDs ownerUserIDs = map getFriendIDsKey ownerUserIDs"

definition FriendCacheRedis_DelFriend :: "string \<Rightarrow> string \<Rightarrow> string list" where
  "FriendCacheRedis_DelFriend ownerUserID friendUserID = [getFriendKey ownerUserID friendUserID]"

definition FriendCacheRedis_DelFriends :: "string \<Rightarrow> string list \<Rightarrow> string list" where
  "FriendCacheRedis_DelFriends ownerUserID friendUserIDs = map (getFriendKey ownerUserID) friendUserIDs"

text \<open>The loop appends the owner for every friend that has the owner as a friend.\<close>

definition FriendCacheRedis_GetTwoWayFriendIDs :: "'w friend_db \<Rightarrow> string \<Rightarrow> ('w, string list) fgo" where
  "FriendCacheRedis_GetTwoWayFriendIDs D ownerUserID =
     bindG (FriendCacheRedis_GetFriendIDs D ownerUserID) (\<lambda>friendIDs.
       foldG (\<lambda>friendID acc. bindG (FriendCacheRedis_GetFriendIDs D friendID) (\<lambda>friendFriendID.
         retG (if IsContain ownerUserID friendFriendID then acc @ [ownerUserID] else acc))) friendIDs [])"

definition BlackCacheRedis_GetBlackIDs :: "'w friend_db \<Rightarrow> string \<Rightarrow> ('w, string list) fgo" where
  "BlackCacheRedis_GetBlackIDs D userID =
     getCache (cacheOf D) (fdIDsJson D) (getBlackIDsKey userID) friendExpireTime
       (onBlacks (BlackMgo_FindBlackUserIDs (fdBlack D) userID))"

definition BlackCacheRedis_DelBlackIDs :: "string \<Rightarrow> string list" where
  "BlackCacheRedis_DelBlackIDs userID = [getBlackIDsKey userID]"

definition execDel :: "'w friend_db \<Rightarrow> string list \<Rightarrow> ('w, unit) fgo" where
  "execDel D keys = ExecDel (cacheOf D) keys"

section \<open>Controller of friends\<close>

definition friendDatabase_CheckIn :: "'w friend_db \<Rightarrow> string \<Rightarrow> string \<Rightarrow> ('w, bool \<times> bool) fgo" where
  "friendDatabase_CheckIn D userID1 userID2 =
     bindG (FriendCacheRedis_GetFriendIDs D userID1) (\<lambda>userID1FriendIDs.
     bindG (FriendCacheRedis_GetFriendIDs D userID2) (\<lambda>userID2FriendIDs.
       retG (IsContain userID2 userID1FriendIDs, IsContain userID1 userID2FriendIDs)))"

definition new_request :: "int \<Rightarrow> string \<Rightarrow> string \<Rightarrow> string \<Rightarrow> string \<Rightarrow> FriendRequestModel" where
  "new_request now fromUserID toUserID reqMsg ex = \<lparr> frFromUserID = fromUserID, frToUserID = toUserID, frHandleResult = 0,
     frReqMsg = reqMsg, frCreateTime = now, frHandlerUserID = [], frHandleMsg = [], frHandleTime = 0, frEx = ex \<rparr>"

definition AddFriendRequest :: "'w friend_db \<Rightarrow> int \<Rightarrow> string \<Rightarrow> string \<Rightarrow> string \<Rightarrow> string \<Rightarrow> ('w, unit) fgo" where
  "AddFriendRequest D now fromUserID toUserID reqMsg ex = Mongo_Transaction (fdTx D)
     (bindG (attemptG (onRequests (FriendRequestMgo_Take (fdRequest D) fromUserID toUserID))) (\<lambda>r. case r of
         Inr _ \<Rightarrow> onRequests (FriendRequestMgo_UpdateByMap (fdRequest D) fromUserID toUserID
           (\<lambda>d. d\<lparr> frHandleResult := 0, frHandleMsg := [], frReqMsg := reqMsg, frEx := ex, frCreateTime := now \<rparr>))
       | Inl err \<Rightarrow>
           if relation_IsNotFound err
           then onRequests (FriendRequestMgo_Create (fdRequest D) [new_request now fromUserID toUserID reqMsg ex])
           else failG err))"

definition new_friend :: "string \<Rightarrow> string \<Rightarrow> int \<Rightarrow> string \<Rightarrow> FriendModel" where
  "new_friend owner friend addSource op = \<lparr> fmOwnerUserID = owner, fmFriendUserID = friend, fmRemark = [],
     fmCreateTime = zero_time, fmAddSource = addSource, fmOperatorUserID = op, fmEx = [], fmIsPinned = False \<rparr>"

text \<open>The friends found are inserted again together with the new ones; \<open>opUserID\<close> is the operation's id.\<close>

definition BecomeFriends_tx :: "'w friend_db \<Rightarrow> string \<Rightarrow> string \<Rightarrow> string list \<Rightarrow> int \<Rightarrow> ('w, unit) fgo" where
  "BecomeFriends_tx D operationID ownerUserID friendUserIDs addSource =
     (bindG (onFriends (FriendMgo_FindFriends (fdFriend D) ownerUserID friendUserIDs)) (\<lambda>fs1.
        let fs11 = DistinctAny (fs1 @ map (\<lambda>v. new_friend ownerUserID v addSource operationID) friendUserIDs) fmFriendUserID in
      bindG (onFriends (FriendMgo_Create (fdFriend D) fs11)) (\<lambda>_.
      bindG (onFriends (FriendMgo_FindReversalFriends (fdFriend D) ownerUserID friendUserIDs)) (\<lambda>fs2.
        let fs22 = DistinctAny (fs2 @ map (\<lambda>v. new_friend v ownerUserID addSource operationID) friendUserIDs) fmOwnerUserID in
      bindG (onFriends (FriendMgo_Create (fdFriend D) fs22)) (\<lambda>_.
        execDel D (FriendCacheRedis_DelFriendIDs (friendUserIDs @ [ownerUserID])))))))"

definition BecomeFriends :: "'w friend_db \<Rightarrow> string \<Rightarrow> string \<Rightarrow> string list \<Rightarrow> int \<Rightarrow> ('w, unit) fgo" where
  "BecomeFriends D operationID ownerUserID friendUserIDs addSource =
     Mongo_Transaction (fdTx D) (BecomeFriends_tx D operationID ownerUserID friendUserIDs addSource)"

definition request_processed :: go_error where
  "request_processed = Wrap1m ErrArgs ''the friend request has been processed''"

definition RefuseFriendRequest :: "'w friend_db \<Rightarrow> int \<Rightarrow> FriendRequestModel \<Rightarrow> ('w, unit) fgo" where
  "RefuseFriendRequest D now friendRequest =
     bindG (onRequests (FriendRequestMgo_Take (fdRequest D) (frFromUserID friendRequest) (frToUserID friendRequest))) (\<lambda>fr.
       if frHandleResult fr \<noteq> 0 then failG request_processed
       else onRequests (FriendRequestMgo_Update (fdRequest D)
              (friendRequest\<lparr> frHandleResult := FriendResponseRefuse, frHandleTime := now \<rparr>)))"

definition agree_handled :: "string \<Rightarrow> int \<Rightarrow> FriendRequestModel \<Rightarrow> FriendRequestModel" where
  "agree_handled opUserID now r = r\<lparr> frHandlerUserID := opUserID, frHandleResult := FriendResponseAgree, frHandleTime := now \<rparr>"

definition agree_adds :: "string \<Rightarrow> string \<Rightarrow> FriendModel list \<Rightarrow> FriendModel list" where
  "agree_adds fromUserID toUserID exists' =
     (let existsMap = SliceSet (Slice exists' (\<lambda>friend. (fmOwnerUserID friend, fmFriendUserID friend))) in
      (if existsMap (toUserID, fromUserID) = None then [new_friend toUserID fromUserID BecomeFriendByApply fromUserID] else [])
      @ (if existsMap (fromUserID, toUserID) = None then [new_friend fromUserID toUserID BecomeFriendByApply fromUserID] else []))"

definition AgreeFriendRequest_tx :: "'w friend_db \<Rightarrow> int \<Rightarrow> string \<Rightarrow> FriendRequestModel \<Rightarrow> ('w, unit) fgo" where
  "AgreeFriendRequest_tx D now opUserID friendRequest =
     (let fromID = frFromUserID friendRequest; toID = frToUserID friendRequest in
      bindG (onRequests (FriendRequestMgo_Take (fdRequest D) fromID toID)) (\<lambda>fr.
        if frHandleResult fr \<noteq> 0 then failG request_processed
        else
          bindG (onRequests (FriendRequestMgo_Update (fdRequest D) (agree_handled opUserID now friendRequest))) (\<lambda>_.
          bindG (attemptG (onRequests (FriendRequestMgo_Take (fdRequest D) toID fromID))) (\<lambda>r2.
          bindG (case r2 of
                   Inr fr2 \<Rightarrow> if frHandleResult fr2 = FriendResponseNotHandle
                               then onRequests (FriendRequestMgo_Update (fdRequest D) (agree_handled opUserID now fr2))
                               else retG ()
                 | Inl err \<Rightarrow> if \<not> relation_IsNotFound err then failG err else retG ()) (\<lambda>_.
          bindG (onFriends (FriendMgo_FindUserState (fdFriend D) fromID toID)) (\<lambda>exists'.
            let adds = agree_adds fromID toID exists' in
          bindG (if length adds > 0 then onFriends (FriendMgo_Create (fdFriend D) adds) else retG ()) (\<lambda>_.
            execDel D (FriendCacheRedis_DelFriendIDs [toID, fromID]))))))))"

definition AgreeFriendRequest :: "'w friend_db \<Rightarrow> int \<Rightarrow> string \<Rightarrow> FriendRequestModel \<Rightarrow> ('w, unit) fgo" where
  "AgreeFriendRequest D now opUserID friendRequest =
     Mongo_Transaction (fdTx D) (AgreeFriendRequest_tx D now opUserID friendRequest)"

definition friendDatabase_Delete :: "'w friend_db \<Rightarrow> string \<Rightarrow> string list \<Rightarrow> ('w, unit) fgo" where
  "friendDatabase_Delete D ownerUserID friendUserIDs =
     bindG (onFriends (FriendMgo_Delete (fdFriend D) ownerUserID friendUserIDs)) (\<lambda>_.
     execDel D (FriendCacheRedis_DelFriendIDs (friendUserIDs @ [ownerUserID])))"

definition friendDatabase_UpdateRemark :: "'w friend_db \<Rightarrow> string \<Rightarrow> string \<Rightarrow> string \<Rightarrow> ('w, unit) fgo" where
  "friendDatabase_UpdateRemark D ownerUserID friendUserID remark =
     bindG (onFriends (FriendMgo_UpdateRemark (fdFriend D) ownerUserID friendUserID remark)) (\<lambda>_.
     execDel D (FriendCacheRedis_DelFriend ownerUserID friendUserID))"

definition PageOwnerFriends :: "'w friend_db \<Rightarrow> string \<Rightarrow> pagination \<Rightarrow> ('w, int \<times> FriendModel list) fgo" where
  "PageOwnerFriends D ownerUserID p = onFriends (FriendMgo_FindOwnerFriends (fdFriend D) ownerUserID p)"

definition PageInWhoseFriends :: "'w friend_db \<Rightarrow> string \<Rightarrow> pagination \<Rightarrow> ('w, int \<times> FriendModel list) fgo" where
  "PageInWhoseFriends D friendUserID p = onFriends (FriendMgo_FindInWhoseFriends (fdFriend D) friendUserID p)"

definition PageFriendRequestFromMe :: "'w friend_db \<Rightarrow> string \<Rightarrow> pagination \<Rightarrow> ('w, int \<times> FriendRequestModel list) fgo" where
  "PageFriendRequestFromMe D userID p = onRequests (FriendRequestMgo_FindFromUserID (fdRequest D) userID p)"

definition PageFriendRequestToMe :: "'w friend_db \<Rightarrow> string \<Rightarrow> pagination \<Rightarrow> ('w, int \<times> FriendRequestModel list) fgo" where
  "PageFriendRequestToMe D userID p = onRequests (FriendRequestMgo_FindToUserID (fdRequest D) userID p)"

text \<open>The friends that were found are returned next to the error.\<close>

definition FindFriendsWithError :: "'w friend_db \<Rightarrow> string \<Rightarrow> string list \<Rightarrow> ('w, FriendModel list \<times> go_error option) fgo" where
  "FindFriendsWithError D ownerUserID friendUserIDs =
     bindG (attemptG (onFriends (FriendMgo_FindFriends (fdFriend D) ownerUserID friendUserIDs))) (\<lambda>r. case r of
         Inl err \<Rightarrow> retG ([], Some err)
       | Inr friends \<Rightarrow> retG (friends, if length friends \<noteq> length friendUserIDs
                                     then Some (codeError_Wrap ErrRecordNotFound []) else None))"

definition friendDatabase_FindFriends :: "'w friend_db \<Rightarrow> string \<Rightarrow> string list \<Rightarrow> ('w, FriendModel list) fgo" where
  "friendDatabase_FindFriends D ownerUserID friendUserIDs = onFriends (FriendMgo_FindFriends (fdFriend D) ownerUserID friendUserIDs)"

definition FindFriendUserIDs :: "'w friend_db \<Rightarrow> string \<Rightarrow> ('w, string list) fgo" where
  "FindFriendUserIDs D ownerUserID = FriendCacheRedis_GetFriendIDs D ownerUserID"

definition friendDatabase_FindBothFriendRequests ::
  "'w friend_db \<Rightarrow> string \<Rightarrow> string \<Rightarrow> ('w, FriendRequestModel list) fgo" where
  "friendDatabase_FindBothFriendRequests D fromUserID toUserID =
     onRequests (FriendRequestMgo_FindBothFriendRequests (fdRequest D) fromUserID toUserID)"

definition friendDatabase_UpdateFriends :: "'w friend_db \<Rightarrow> string \<Rightarrow> string list \<Rightarrow> friend_update \<Rightarrow> ('w, unit) fgo" where
  "friendDatabase_UpdateFriends D ownerUserID friendUserIDs val =
     (if no_update val then retG ()
      else bindG (onFriends (FriendMgo_UpdateFriends (fdFriend D) ownerUserID friendUserIDs val)) (\<lambda>_.
           execDel D (FriendCacheRedis_DelFriends ownerUserID friendUserIDs)))"

definition FindFriendsRemark :: "'w friend_db \<Rightarrow> string \<Rightarrow> ('w, string \<rightharpoonup> string) fgo" where
  "FindFriendsRemark D ownerUserID =
     bindG (onFriends (FriendMgo_FindFriendsRemark (fdFriend D) ownerUserID)) (\<lambda>friendsRemark.
       retG (fold (\<lambda>f m. m(fmFriendUserID f \<mapsto> fmRemark f)) friendsRemark Map.empty))"

section \<open>Controller of blacklists\<close>

definition deleteBlackIDsCache :: "'w friend_db \<Rightarrow> BlackModel list \<Rightarrow> ('w, unit) fgo" where
  "deleteBlackIDsCache D blacks = execDel D (concat (map (\<lambda>b. BlackCacheRedis_DelBlackIDs (bmOwnerUserID b)) blacks))"

definition blackDatabase_Create :: "'w friend_db \<Rightarrow> BlackModel list \<Rightarrow> ('w, unit) fgo" where
  "blackDatabase_Create D blacks = bindG (onBlacks (BlackMgo_Create (fdBlack D) blacks)) (\<lambda>_. deleteBlackIDsCache D blacks)"

definition blackDatabase_Delete :: "'w friend_db \<Rightarrow> BlackModel list \<Rightarrow> ('w, unit) fgo" where
  "blackDatabase_Delete D blacks = bindG (onBlacks (BlackMgo_Delete (fdBlack D) blacks)) (\<lambda>_. deleteBlackIDsCache D blacks)"

definition blackDatabase_FindOwnerBlacks :: "'w friend_db \<Rightarrow> string \<Rightarrow> pagination \<Rightarrow> ('w, int \<times> BlackModel list) fgo" where
  "blackDatabase_FindOwnerBlacks D ownerUserID p = onBlacks (BlackMgo_FindOwnerBlacks (fdBlack D) ownerUserID p)"

definition blackDatabase_CheckIn :: "'w friend_db \<Rightarrow> string \<Rightarrow> string \<Rightarrow> ('w, bool \<times> bool) fgo" where
  "blackDatabase_CheckIn D userID1 userID2 =
     bindG (BlackCacheRedis_GetBlackIDs D userID1) (\<lambda>userID1BlackIDs.
     bindG (BlackCacheRedis_GetBlackIDs D userID2) (\<lambda>userID2BlackIDs.
       retG (IsContain userID2 userID1BlackIDs, IsContain userID1 userID2BlackIDs)))"

definition FindBlackIDs :: "'w friend_db \<Rightarrow> string \<Rightarrow> ('w, string list) fgo" where
  "FindBlackIDs D ownerUserID = BlackCacheRedis_GetBlackIDs D ownerUserID"

definition FindBlackInfos :: "'w friend_db \<Rightarrow> string \<Rightarrow> string list \<Rightarrow> ('w, BlackModel list) fgo" where
  "FindBlackInfos D ownerUserID userIDs = onBlacks (BlackMgo_FindOwnerBlackInfos (fdBlack D) ownerUserID userIDs)"

end
