(* ===== verification/UserClient.thy ===== *)
theory UserClient
  imports GoMonad SliceUtils Entities Auth Notification
begin

text \<open>
  The client of the user service, \<open>pkg/rpcclient/user.go\<close>.  The generated gRPC stub is the record
  \<open>user_stub\<close>; \<open>usOrd\<close> is the order in which \<open>Single\<close> walks over its map.
\<close>

record PublicUserInfo =
  puUserID :: string
  puNickname :: string
  puFaceURL :: string
  puEx :: string

record 's user_stub =
  usGetDesignateUsers :: "string list \<Rightarrow> ('s, UserInfo list) go"
  usGetDesignateUsersWaitGroup :: "string list \<Rightarrow> ('s, UserInfo list) go"
  usGetGlobalRecvMessageOpt :: "string \<Rightarrow> ('s, int) go"
  usOrd :: "string set \<Rightarrow> string list"
  usAuth :: auth_config

definition checked_users :: "'s user_stub \<Rightarrow> string list \<Rightarrow> ('s, UserInfo list) go \<Rightarrow> ('s, UserInfo list) go" where
  "checked_users U userIDs call =
     (if length userIDs = 0 then retG []
      else bindG call (\<lambda>users.
        let ids = Single (usOrd U) userIDs (Slice users uUserID) in
        if length ids > 0 then failG (codeError_Wrap ErrUserIDNotFound [join_str '','' ids]) else retG users))"

definition GetUsersInfo :: "'s user_stub \<Rightarrow> string list \<Rightarrow> ('s, UserInfo list) go" where
  "GetUsersInfo U userIDs = checked_users U userIDs (usGetDesignateUsers U userIDs)"

definition GetUsersInfoWaitGroup :: "'s user_stub \<Rightarrow> string list \<Rightarrow> ('s, UserInfo list) go" where
  "GetUsersInfoWaitGroup U userIDs = checked_users U userIDs (usGetDesignateUsersWaitGroup U userIDs)"

text \<open>\<open>users[0]\<close> panics when the list is empty.\<close>

definition first_of :: "'a list \<Rightarrow> ('s, 'a) go" where
  "first_of xs = (case xs of [] \<Rightarrow> panicG ''index out of range'' | x # _ \<Rightarrow> retG x)"

definition GetUserInfo :: "'s user_stub \<Rightarrow> string \<Rightarrow> ('s, UserInfo) go" where
  "GetUserInfo U userID = bindG (GetUsersInfo U [userID]) first_of"

definition GetUsersInfoMap :: "'s user_stub \<Rightarrow> string list \<Rightarrow> ('s, string \<rightharpoonup> UserInfo) go" where
  "GetUsersInfoMap U userIDs = bindG (GetUsersInfo U userIDs) (\<lambda>users. retG (SliceToMap users uUserID))"

definition public_info :: "UserInfo \<Rightarrow> PublicUserInfo" where
  "public_info u = \<lparr> puUserID = uUserID u, puNickname = uNickname u, puFaceURL = uFaceURL u, puEx = uEx u \<rparr>"

definition GetPublicUserInfos :: "'s user_stub \<Rightarrow> string list \<Rightarrow> ('s, PublicUserInfo list) go" where
  "GetPublicUserInfos U userIDs = bindG (GetUsersInfo U userIDs) (\<lambda>users. retG (Slice users public_info))"

definition GetPublicUserInfo :: "'s user_stub \<Rightarrow> string \<Rightarrow> ('s, PublicUserInfo) go" where
  "GetPublicUserInfo U userID = bindG (GetPublicUserInfos U [userID]) first_of"

definition GetPublicUserInfoMap :: "'s user_stub \<Rightarrow> string list \<Rightarrow> ('s, string \<rightharpoonup> PublicUserInfo) go" where
  "GetPublicUserInfoMap U userIDs = bindG (GetPublicUserInfos U userIDs) (\<lambda>users. retG (SliceToMap users puUserID))"

definition GetUserGlobalMsgRecvOpt :: "'s user_stub \<Rightarrow> string \<Rightarrow> ('s, int) go" where
  "GetUserGlobalMsgRecvOpt U userID = usGetGlobalRecvMessageOpt U userID"

definition errG :: "go_error option \<Rightarrow> ('s, unit) go" where
  "errG e = (case e of None \<Rightarrow> retG () | Some err \<Rightarrow> failG err)"

lemma errG_Ok [simp]: "errG e s = (Ok u, s') \<longleftrightarrow> e = None \<and> s' = s"
  by (auto simp: errG_def retG_def failG_def split: option.splits)

lemma silent_errG [quiet]: "silent q (errG e)"
  unfolding errG_def by (intro quiet)

definition Access :: "'s user_stub \<Rightarrow> rpc_ctx \<Rightarrow> string \<Rightarrow> ('s, unit) go" where
  "Access U ctx ownerUserID =
     bindG (GetUserInfo U ownerUserID) (\<lambda>_. errG (CheckAccessV3 (usAuth U) (ctxOpUserID ctx) ownerUserID))"

end
