(* ===== verification/FriendServer.thy ===== *)
theory FriendServer
  imports FriendDB UserClient Notification
begin

text \<open>
  The friend service, \<open>internal/rpc/friend\<close>, with its webhooks (\<open>callback.go\<close>), its notifications
  (\<open>pkg/rpcclient/notification/friend.go\<close>) and the conversions of \<open>pkg/common/convert\<close>.
\<close>

section \<open>Wire types\<close>

record FriendInfo =
  fiOwnerUserID :: string
  fiRemark :: string
  fiCreateTime :: int
  fiFriendUser :: "UserInfo option"
  fiAddSource :: int
  fiOperatorUserID :: string
  fiEx :: string
  fiIsPinned :: bool

record BlackInfo =
  biOwnerUserID :: string
  biCreateTime :: int
  biBlackUserInfo :: "PublicUserInfo option"
  biAddSource :: int
  biOperatorUserID :: string
  biEx :: string

record FriendRequest =
  rqFromUserID :: string
  rqFromNickname :: string
  rqFromFaceURL :: string
  rqToUserID :: string
  rqToNickname :: string
  rqToFaceURL :: string
  rqHandleResult :: int
  rqReqMsg :: string
  rqCreateTime :: int
  rqHandlerUserID :: string
  rqHandleMsg :: string
  rqHandleTime :: int
  rqEx :: string

datatype friend_tips =
    FriendApplicationTips string string
  | FriendApplicationApprovedTips string string string
  | FriendDeletedTips string string
  | FriendInfoChangedTips string string
  | FriendsInfoUpdateTips string "string list"
  | BlackAddedTips string string
  | BlackDeletedTips string string
  | FriendUserInfoUpdatedTips string

datatype friend_callback =
    CbBeforeAddFriend string string string string
  | CbAfterAddFriend string string string
  | CbBeforeSetFriendRemark string string string
  | CbAfterSetFriendRemark string string string
  | CbBeforeAddBlack string string
  | CbBeforeAddFriendAgree string string string int
  | CbAfterDeleteFriend string string
  | CbBeforeImportFriends string "string list"
  | CbAfterImportFriends string "string list"
  | CbAfterRemoveBlack string string

fun friend_command :: "friend_callback \<Rightarrow> string" where
  "friend_command (CbBeforeAddFriend f t m x) = ''callbackBeforeAddFriendCommand''"
| "friend_command (CbAfterAddFriend f t m) = ''callbackAfterAddFriendCommand''"
| "friend_command (CbBeforeSetFriendRemark u f r) = ''callbackBeforeSetFriendRemark''"
| "friend_command (CbAfterSetFriendRemark u f r) = ''callbackAfterSetFriendRemark''"
| "friend_command (CbBeforeAddBlack u b) = ''callbackBeforeAddBlackCommand''"
| "friend_command (CbBeforeAddFriendAgree f t m r) = ''callbackBeforeAddFriendAgreeCommand''"
| "friend_command (CbAfterDeleteFriend u f) = ''callbackAfterDeleteFriendCommand''"
| "friend_command (CbBeforeImportFriends u fs) = ''callbackBeforeImportFriendsCommand''"
| "friend_command (CbAfterImportFriends u fs) = ''callbackAfterImportFriendsCommand''"
| "friend_command (CbAfterRemoveBlack u b) = ''callbackAfterRemoveBlackCommand''"

record friend_cb_config =
  fcBeforeAddFriend :: CallBackConfig
  fcAfterAddFriend :: CallBackConfig
  fcBeforeSetFriendRemark :: CallBackConfig
  fcAfterSetFriendRemark :: CallBackConfig
  fcBeforeAddBlack :: CallBackConfig
  fcBeforeAddFriendAgree :: CallBackConfig
  fcAfterDeleteFriend :: CallBackConfig
  fcBeforeImportFriends :: CallBackConfig
  fcAfterImportFriends :: CallBackConfig
  fcAfterRemoveBlack :: CallBackConfig

record 'w friend_server =
  svFriendDB :: "'w friend_db"
  svUser :: "'w user_stub"
  svSender :: "'w notification_sender"
  svFriendTips :: "friend_tips \<Rightarrow> go_error + string"
  svPost :: "string \<Rightarrow> friend_callback \<Rightarrow> ('w, string) go"
  svDecode :: "string \<Rightarrow> go_error + CommonCallbackResp"
  svDecodeRemark :: "string \<Rightarrow> go_error + (CommonCallbackResp \<times> string)"
  svDecodeIDs :: "string \<Rightarrow> go_error + (CommonCallbackResp \<times> string list)"
  svErrorText :: "go_error \<Rightarrow> string"
  svCbConfig :: friend_cb_config
  svToLower :: "string \<Rightarrow> string"
  svAuthCfg :: auth_config

section \<open>Webhooks (callback.go)\<close>

definition friend_post ::
  "'w friend_server \<Rightarrow> (string \<Rightarrow> go_error + 'r) \<Rightarrow> ('r \<Rightarrow> CommonCallbackResp) \<Rightarrow> friend_callback \<Rightarrow> CallBackConfig
   \<Rightarrow> ('w, 'r option) fgo" where
  "friend_post S decode common req cfg =
     onWorld (callBackPostReturn (svErrorText S) (svPost S (friend_command req) req) decode common cfg)"

definition friend_callback_simple :: "'w friend_server \<Rightarrow> CallBackConfig \<Rightarrow> CallBackConfig \<Rightarrow> friend_callback \<Rightarrow> ('w, unit) fgo" where
  "friend_callback_simple S enabled cfg req =
     (if \<not> cbcEnable enabled then retG ()
      else bindG (friend_post S (svDecode S) (\<lambda>c. c) req cfg) (\<lambda>_. retG ()))"

definition CallbackBeforeAddFriend :: "'w friend_server \<Rightarrow> string \<Rightarrow> string \<Rightarrow> string \<Rightarrow> string \<Rightarrow> ('w, unit) fgo" where
  "CallbackBeforeAddFriend S f t m ex = friend_callback_simple S (fcBeforeAddFriend (svCbConfig S))
     (fcBeforeAddFriend (svCbConfig S)) (CbBeforeAddFriend f t m ex)"

text \<open>The answer always replaces the remark, also by an empty one.\<close>

definition CallbackBeforeSetFriendRemark :: "'w friend_server \<Rightarrow> string \<Rightarrow> string \<Rightarrow> string \<Rightarrow> ('w, string) fgo" where
  "CallbackBeforeSetFriendRemark S owner friend remark =
     (if \<not> cbcEnable (fcBeforeSetFriendRemark (svCbConfig S)) then retG remark
      else bindG (friend_post S (svDecodeRemark S) fst (CbBeforeSetFriendRemark owner friend remark)
                    (fcBeforeAddFriend (svCbConfig S)))
             (\<lambda>r. retG (case r of None \<Rightarrow> [] | Some resp \<Rightarrow> snd resp)))"

definition CallbackAfterSetFriendRemark :: "'w friend_server \<Rightarrow> string \<Rightarrow> string \<Rightarrow> string \<Rightarrow> ('w, unit) fgo" where
  "CallbackAfterSetFriendRemark S owner friend remark = friend_callback_simple S (fcAfterSetFriendRemark (svCbConfig S))
     (fcBeforeAddFriend (svCbConfig S)) (CbAfterSetFriendRemark owner friend remark)"

definition CallbackBeforeAddBlack :: "'w friend_server \<Rightarrow> string \<Rightarrow> string \<Rightarrow> ('w, unit) fgo" where
  "CallbackBeforeAddBlack S owner black = friend_callback_simple S (fcBeforeAddBlack (svCbConfig S))
     (fcBeforeAddBlack (svCbConfig S)) (CbBeforeAddBlack owner black)"

definition CallbackAfterAddFriend :: "'w friend_server \<Rightarrow> string \<Rightarrow> string \<Rightarrow> string \<Rightarrow> ('w, unit) fgo" where
  "CallbackAfterAddFriend S f t m = friend_callback_simple S (fcAfterAddFriend (svCbConfig S))
     (fcAfterAddFriend (svCbConfig S)) (CbAfterAddFriend f t m)"

definition CallbackBeforeAddFriendAgree :: "'w friend_server \<Rightarrow> string \<Rightarrow> string \<Rightarrow> string \<Rightarrow> int \<Rightarrow> ('w, unit) fgo" where
  "CallbackBeforeAddFriendAgree S f t m res = friend_callback_simple S (fcBeforeAddFriendAgree (svCbConfig S))
     (fcBeforeAddFriendAgree (svCbConfig S)) (CbBeforeAddFriendAgree f t m res)"

definition CallbackAfterDeleteFriend :: "'w friend_server \<Rightarrow> string \<Rightarrow> string \<Rightarrow> ('w, unit) fgo" where
  "CallbackAfterDeleteFriend S owner friend = friend_callback_simple S (fcAfterDeleteFriend (svCbConfig S))
     (fcAfterDeleteFriend (svCbConfig S)) (CbAfterDeleteFriend owner friend)"

definition CallbackBeforeImportFriends :: "'w friend_server \<Rightarrow> string \<Rightarrow> string list \<Rightarrow> ('w, string list) fgo" where
  "CallbackBeforeImportFriends S owner friends =
     (if \<not> cbcEnable (fcBeforeImportFriends (svCbConfig S)) then retG friends
      else bindG (friend_post S (svDecodeIDs S) fst (CbBeforeImportFriends owner friends)
                    (fcBeforeImportFriends (svCbConfig S)))
             (\<lambda>r. retG (case r of None \<Rightarrow> friends
                         | Some resp \<Rightarrow> if length (snd resp) \<noteq> 0 then snd resp else friends)))"

definition CallbackAfterImportFriends :: "'w friend_server \<Rightarrow> string \<Rightarrow> string list \<Rightarrow> ('w, unit) fgo" where
  "CallbackAfterImportFriends S owner friends = friend_callback_simple S (fcAfterImportFriends (svCbConfig S))
     (fcAfterImportFriends (svCbConfig S)) (CbAfterImportFriends owner friends)"

definition CallbackAfterRemoveBlack :: "'w friend_server \<Rightarrow> string \<Rightarrow> string \<Rightarrow> ('w, unit) fgo" where
  "CallbackAfterRemoveBlack S owner black = friend_callback_simple S (fcAfterRemoveBlack (svCbConfig S))
     (fcAfterRemoveBlack (svCbConfig S)) (CbAfterRemoveBlack owner black)"

section \<open>Notifications (notification/friend.go)\<close>

definition friend_notify ::
  "'w friend_server \<Rightarrow> int \<Rightarrow> rpc_ctx \<Rightarrow> string \<Rightarrow> string \<Rightarrow> int \<Rightarrow> friend_tips \<Rightarrow> ('w, unit) fgo" where
  "friend_notify S now ctx sendID recvID contentType tips =
     onWorld (Notification (svSender S) now ctx sendID recvID contentType (svFriendTips S tips) False)"

definition UserInfoUpdatedNotification_friend :: "'w friend_server \<Rightarrow> int \<Rightarrow> rpc_ctx \<Rightarrow> string \<Rightarrow> ('w, unit) fgo" where
  "UserInfoUpdatedNotification_friend S now ctx changedUserID =
     friend_notify S now ctx (ctxOpUserID ctx) changedUserID UserInfoUpdatedNotification (FriendUserInfoUpdatedTips changedUserID)"

definition FriendApplicationAddNotification :: "'w friend_server \<Rightarrow> int \<Rightarrow> rpc_ctx \<Rightarrow> string \<Rightarrow> string \<Rightarrow> ('w, unit) fgo" where
  "FriendApplicationAddNotification S now ctx f t =
     friend_notify S now ctx f t FriendApplicationNotification (FriendApplicationTips f t)"

definition FriendApplicationAgreedNotification ::
  "'w friend_server \<Rightarrow> int \<Rightarrow> rpc_ctx \<Rightarrow> string \<Rightarrow> string \<Rightarrow> string \<Rightarrow> ('w, unit) fgo" where
  "FriendApplicationAgreedNotification S now ctx f t m =
     friend_notify S now ctx t f FriendApplicationApprovedNotification (FriendApplicationApprovedTips f t m)"

definition FriendApplicationRefusedNotification ::
  "'w friend_server \<Rightarrow> int \<Rightarrow> rpc_ctx \<Rightarrow> string \<Rightarrow> string \<Rightarrow> string \<Rightarrow> ('w, unit) fgo" where
  "FriendApplicationRefusedNotification S now ctx f t m =
     friend_notify S now ctx t f FriendApplicationRejectedNotification (FriendApplicationApprovedTips f t m)"

definition FriendDeletedNotification_send :: "'w friend_server \<Rightarrow> int \<Rightarrow> rpc_ctx \<Rightarrow> string \<Rightarrow> string \<Rightarrow> ('w, unit) fgo" where
  "FriendDeletedNotification_send S now ctx owner friend =
     friend_notify S now ctx owner friend FriendDeletedNotification (FriendDeletedTips owner friend)"

definition FriendRemarkSetNotification_send :: "'w friend_server \<Rightarrow> int \<Rightarrow> rpc_ctx \<Rightarrow> string \<Rightarrow> string \<Rightarrow> ('w, unit) fgo" where
  "FriendRemarkSetNotification_send S now ctx f t =
     friend_notify S now ctx f t FriendRemarkSetNotification (FriendInfoChangedTips f t)"

definition FriendsInfoUpdateNotification_send :: "'w friend_server \<Rightarrow> int \<Rightarrow> rpc_ctx \<Rightarrow> string \<Rightarrow> string list \<Rightarrow> ('w, unit) fgo" where
  "FriendsInfoUpdateNotification_send S now ctx toUserID friendIDs =
     friend_notify S now ctx toUserID toUserID FriendsInfoUpdateNotification (FriendsInfoUpdateTips toUserID friendIDs)"

definition BlackAddedNotification_send :: "'w friend_server \<Rightarrow> int \<Rightarrow> rpc_ctx \<Rightarrow> string \<Rightarrow> string \<Rightarrow> ('w, unit) fgo" where
  "BlackAddedNotification_send S now ctx owner black =
     friend_notify S now ctx owner black BlackAddedNotification (BlackAddedTips owner black)"

definition BlackDeletedNotification_send :: "'w friend_server \<Rightarrow> int \<Rightarrow> rpc_ctx \<Rightarrow> string \<Rightarrow> string \<Rightarrow> ('w, unit) fgo" where
  "BlackDeletedNotification_send S now ctx owner black =
     ignoreG (friend_notify S now ctx owner black BlackDeletedNotification (BlackDeletedTips owner black))"

definition FriendInfoUpdatedNotification_send :: "'w friend_server \<Rightarrow> int \<Rightarrow> rpc_ctx \<Rightarrow> string \<Rightarrow> string \<Rightarrow> ('w, unit) fgo" where
  "FriendInfoUpdatedNotification_send S now ctx changedUserID needNotifiedUserID =
     ignoreG (friend_notify S now ctx (ctxOpUserID ctx) needNotifiedUserID FriendInfoUpdatedNotification
       (FriendUserInfoUpdatedTips changedUserID))"

section \<open>Conversions\<close>

definition friend_user :: "UserInfo \<Rightarrow> UserInfo" where
  "friend_user u = \<lparr> uUserID = uUserID u, uNickname = uNickname u, uFaceURL = uFaceURL u, uEx = uEx u, uCreateTime = 0,
     uAppMangerLevel = 0, uGlobalRecvMsgOpt = 0 \<rparr>"

definition friend_pb :: "FriendModel \<Rightarrow> int \<Rightarrow> UserInfo option \<Rightarrow> FriendInfo" where
  "friend_pb f time user = \<lparr> fiOwnerUserID = fmOwnerUserID f, fiRemark = fmRemark f, fiCreateTime = time, fiFriendUser = user,
     fiAddSource = fmAddSource f, fiOperatorUserID = fmOperatorUserID f, fiEx = fmEx f, fiIsPinned = fmIsPinned f \<rparr>"

definition FriendsDB2Pb ::
  "FriendModel list \<Rightarrow> (string list \<Rightarrow> ('s, string \<rightharpoonup> UserInfo) go) \<Rightarrow> ('s, FriendInfo list) go" where
  "FriendsDB2Pb friendsDB getUsers =
     (if length friendsDB = 0 then retG []
      else bindG (getUsers (map fmFriendUserID friendsDB)) (\<lambda>users.
        mapG (\<lambda>f. bindG (nil_deref (users (fmFriendUserID f))) (\<lambda>u.
          retG (friend_pb f (fmCreateTime f div 1000) (Some (friend_user u))))) friendsDB))"

definition FriendRequestDB2Pb ::
  "(string set \<Rightarrow> string list) \<Rightarrow> FriendRequestModel list \<Rightarrow> (string list \<Rightarrow> ('s, string \<rightharpoonup> UserInfo) go)
   \<Rightarrow> ('s, FriendRequest list) go" where
  "FriendRequestDB2Pb ord rs getUsers =
     (if length rs = 0 then retG []
      else bindG (getUsers (ord (set (map frToUserID rs) \<union> set (map frFromUserID rs)))) (\<lambda>users.
        mapG (\<lambda>r. bindG (nil_deref (users (frFromUserID r))) (\<lambda>fromUser. bindG (nil_deref (users (frToUserID r))) (\<lambda>toUser.
          retG \<lparr> rqFromUserID = frFromUserID r, rqFromNickname = uNickname fromUser, rqFromFaceURL = uFaceURL fromUser,
            rqToUserID = frToUserID r, rqToNickname = uNickname toUser, rqToFaceURL = uFaceURL toUser,
            rqHandleResult = frHandleResult r, rqReqMsg = frReqMsg r, rqCreateTime = frCreateTime r,
            rqHandlerUserID = frHandlerUserID r, rqHandleMsg = frHandleMsg r, rqHandleTime = frHandleTime r, rqEx = frEx r \<rparr>))) rs))"

definition BlackDB2Pb ::
  "BlackModel list \<Rightarrow> (string list \<Rightarrow> ('s, string \<rightharpoonup> UserInfo) go) \<Rightarrow> ('s, BlackInfo list) go" where
  "BlackDB2Pb blackDBs f =
     (if length blackDBs = 0 then retG []
      else bindG (f (map bmBlockUserID blackDBs)) (\<lambda>userInfos.
        mapG (\<lambda>b. bindG (nil_deref (userInfos (bmBlockUserID b))) (\<lambda>u.
          retG \<lparr> biOwnerUserID = bmOwnerUserID b, biCreateTime = bmCreateTime b div 1000, biBlackUserInfo = Some (public_info u),
            biAddSource = bmAddSource b, biOperatorUserID = bmOperatorUserID b, biEx = bmEx b \<rparr>)) blackDBs))"

section \<open>Operations (friend.go)\<close>

definition usersMap :: "'w friend_server \<Rightarrow> string list \<Rightarrow> ('w, string \<rightharpoonup> UserInfo) fgo" where
  "usersMap S ids = onWorld (GetUsersInfoMap (svUser S) ids)"

definition access :: "'w friend_server \<Rightarrow> rpc_ctx \<Rightarrow> string \<Rightarrow> ('w, unit) fgo" where
  "access S ctx userID = onWorld (Access (svUser S) ctx userID)"

definition checkAccess :: "'w friend_server \<Rightarrow> rpc_ctx \<Rightarrow> string \<Rightarrow> ('w, unit) fgo" where
  "checkAccess S ctx userID = errG (CheckAccessV3 (svAuthCfg S) (ctxOpUserID ctx) userID)"

definition friends_or_fail :: "'w friend_server \<Rightarrow> string \<Rightarrow> string list \<Rightarrow> ('w, FriendModel list) fgo" where
  "friends_or_fail S owner ids = bindG (FindFriendsWithError (svFriendDB S) owner ids) (\<lambda>(friends, err).
     case err of None \<Rightarrow> retG friends | Some e \<Rightarrow> failG e)"

definition GetFriendsInfo :: "'w friend_server \<Rightarrow> string \<Rightarrow> string list \<Rightarrow> ('w, (UserInfo \<times> FriendInfo option) list) fgo" where
  "GetFriendsInfo S owner userIDList =
     (if length userIDList = 0 then failG (Wrap1m ErrArgs ''userIDList is empty'')
      else if Duplicate userIDList then failG (Wrap1m ErrArgs ''userIDList repeated'')
      else
        bindG (usersMap S userIDList) (\<lambda>userMap.
        bindG (attemptG (friendDatabase_FindFriends (svFriendDB S) owner userIDList)) (\<lambda>r.
          let friendMap = SliceToMap (case r of Inl err \<Rightarrow> [] | Inr friends \<Rightarrow> friends) fmFriendUserID in
          retG (concat (map (\<lambda>userID. case userMap userID of None \<Rightarrow> []
            | Some user \<Rightarrow> [(user, map_option (\<lambda>f. friend_pb f (fmCreateTime f) None) (friendMap userID))]) userIDList)))))"

text \<open>
  \<open>err != errs.ErrCallbackContinue\<close> compares with the package variable; an error of the webhook is
  made for the call.
\<close>

definition continue_on :: "go_error \<Rightarrow> ('s, unit) go \<Rightarrow> ('s, unit) go" where
  "continue_on e m = bindG (attemptG m) (\<lambda>r. case r of Inl err \<Rightarrow> if err \<noteq> e then failG err else retG () | Inr _ \<Rightarrow> retG ())"

definition ApplyToAddFriend ::
  "'w friend_server \<Rightarrow> int \<Rightarrow> rpc_ctx \<Rightarrow> string \<Rightarrow> string \<Rightarrow> string \<Rightarrow> string \<Rightarrow> ('w, unit) fgo" where
  "ApplyToAddFriend S now ctx fromUserID toUserID reqMsg ex =
     bindG (checkAccess S ctx fromUserID) (\<lambda>_.
       if toUserID = fromUserID then failG (codeError_Wrap ErrCanNotAddYourself [])
       else
         bindG (continue_on ErrCallbackContinue (CallbackBeforeAddFriend S fromUserID toUserID reqMsg ex)) (\<lambda>_.
         bindG (usersMap S [toUserID, fromUserID]) (\<lambda>_.
         bindG (friendDatabase_CheckIn (svFriendDB S) fromUserID toUserID) (\<lambda>(in1, in2).
           if in1 \<and> in2 then failG (codeError_Wrap ErrRelationshipAlready [])
           else
             bindG (AddFriendRequest (svFriendDB S) now fromUserID toUserID reqMsg ex) (\<lambda>_.
             bindG (ignoreG (FriendApplicationAddNotification S now ctx fromUserID toUserID)) (\<lambda>_.
             continue_on ErrCallbackContinue (CallbackAfterAddFriend S fromUserID toUserID reqMsg)))))))"

definition ImportFriends :: "'w friend_server \<Rightarrow> int \<Rightarrow> rpc_ctx \<Rightarrow> string \<Rightarrow> string list \<Rightarrow> ('w, unit) fgo" where
  "ImportFriends S now ctx owner friendUserIDs0 =
     bindG (errG (CheckAdmin (svAuthCfg S) (ctxOpUserID ctx))) (\<lambda>_.
     bindG (onWorld (GetUsersInfo (svUser S) (owner # friendUserIDs0))) (\<lambda>_.
       if Contain owner friendUserIDs0 then failG (codeError_Wrap ErrCanNotAddYourself [])
       else if Duplicate friendUserIDs0 then failG (Wrap1m ErrArgs ''friend userID repeated'')
       else
         bindG (CallbackBeforeImportFriends S owner friendUserIDs0) (\<lambda>friendUserIDs.
         bindG (BecomeFriends (svFriendDB S) (ctxOperationID ctx) owner friendUserIDs BecomeFriendByImport) (\<lambda>_.
         bindG (forG friendUserIDs (\<lambda>userID. ignoreG (FriendApplicationAgreedNotification S now ctx owner userID []))) (\<lambda>_.
         CallbackAfterImportFriends S owner friendUserIDs)))))"

definition RespondFriendApply ::
  "'w friend_server \<Rightarrow> int \<Rightarrow> rpc_ctx \<Rightarrow> string \<Rightarrow> string \<Rightarrow> int \<Rightarrow> string \<Rightarrow> ('w, unit) fgo" where
  "RespondFriendApply S now ctx fromUserID toUserID handleResult handleMsg =
     bindG (checkAccess S ctx toUserID) (\<lambda>_.
       let friendRequest = \<lparr> frFromUserID = fromUserID, frToUserID = toUserID, frHandleResult = handleResult, frReqMsg = [],
             frCreateTime = zero_time, frHandlerUserID = [], frHandleMsg = handleMsg, frHandleTime = zero_time, frEx = [] \<rparr> in
       if handleResult = FriendResponseAgree then
         bindG (continue_on ErrCallbackContinue (CallbackBeforeAddFriendAgree S fromUserID toUserID handleMsg handleResult)) (\<lambda>_.
         bindG (AgreeFriendRequest (svFriendDB S) now (ctxOpUserID ctx) friendRequest) (\<lambda>_.
         ignoreG (FriendApplicationAgreedNotification S now ctx fromUserID toUserID handleMsg)))
       else if handleResult = FriendResponseRefuse then
         bindG (RefuseFriendRequest (svFriendDB S) now friendRequest) (\<lambda>_.
         ignoreG (FriendApplicationRefusedNotification S now ctx fromUserID toUserID handleMsg))
       else failG (Wrap1m ErrArgs ''req.HandleResult != -1/1''))"

definition DeleteFriend :: "'w friend_server \<Rightarrow> int \<Rightarrow> rpc_ctx \<Rightarrow> string \<Rightarrow> string \<Rightarrow> ('w, unit) fgo" where
  "DeleteFriend S now ctx owner friend =
     bindG (access S ctx owner) (\<lambda>_.
     bindG (friends_or_fail S owner [friend]) (\<lambda>_.
     bindG (friendDatabase_Delete (svFriendDB S) owner [friend]) (\<lambda>_.
     bindG (ignoreG (FriendDeletedNotification_send S now ctx owner friend)) (\<lambda>_.
     CallbackAfterDeleteFriend S owner friend))))"

definition SetFriendRemark :: "'w friend_server \<Rightarrow> int \<Rightarrow> rpc_ctx \<Rightarrow> string \<Rightarrow> string \<Rightarrow> string \<Rightarrow> ('w, unit) fgo" where
  "SetFriendRemark S now ctx owner friend remark0 =
     bindG (attemptG (CallbackBeforeSetFriendRemark S owner friend remark0)) (\<lambda>r.
     bindG (case r of Inr remark \<Rightarrow> retG remark
              | Inl err \<Rightarrow> if err \<noteq> ErrCallbackContinue then failG err else retG remark0) (\<lambda>remark.
     bindG (access S ctx owner) (\<lambda>_.
     bindG (friends_or_fail S owner [friend]) (\<lambda>_.
     bindG (friendDatabase_UpdateRemark (svFriendDB S) owner friend remark) (\<lambda>_.
     bindG (continue_on ErrCallbackContinue (CallbackAfterSetFriendRemark S owner friend remark)) (\<lambda>_.
     ignoreG (FriendRemarkSetNotification_send S now ctx owner friend)))))))"

definition GetDesignatedFriends :: "'w friend_server \<Rightarrow> string \<Rightarrow> string list \<Rightarrow> ('w, FriendInfo list) fgo" where
  "GetDesignatedFriends S owner friendUserIDs =
     (if Duplicate friendUserIDs then failG (Wrap1m ErrArgs ''friend userID repeated'')
      else bindG (friends_or_fail S owner friendUserIDs) (\<lambda>friends. FriendsDB2Pb friends (usersMap S)))"

definition GetDesignatedFriendsApply :: "'w friend_server \<Rightarrow> string \<Rightarrow> string \<Rightarrow> ('w, FriendRequest list) fgo" where
  "GetDesignatedFriendsApply S fromUserID toUserID =
     bindG (friendDatabase_FindBothFriendRequests (svFriendDB S) fromUserID toUserID) (\<lambda>rs.
     FriendRequestDB2Pb (usOrd (svUser S)) rs (usersMap S))"

definition GetPaginationFriendsApplyTo ::
  "'w friend_server \<Rightarrow> rpc_ctx \<Rightarrow> string \<Rightarrow> pagination \<Rightarrow> ('w, int \<times> FriendRequest list) fgo" where
  "GetPaginationFriendsApplyTo S ctx userID p =
     bindG (access S ctx userID) (\<lambda>_.
     bindG (PageFriendRequestToMe (svFriendDB S) userID p) (\<lambda>(total, rs).
     bindG (FriendRequestDB2Pb (usOrd (svUser S)) rs (usersMap S)) (\<lambda>pb. retG (wrap32 total, pb))))"

definition GetPaginationFriendsApplyFrom ::
  "'w friend_server \<Rightarrow> rpc_ctx \<Rightarrow> string \<Rightarrow> pagination \<Rightarrow> ('w, int \<times> FriendRequest list) fgo" where
  "GetPaginationFriendsApplyFrom S ctx userID p =
     bindG (access S ctx userID) (\<lambda>_.
     bindG (PageFriendRequestFromMe (svFriendDB S) userID p) (\<lambda>(total, rs).
     bindG (FriendRequestDB2Pb (usOrd (svUser S)) rs (usersMap S)) (\<lambda>pb. retG (wrap32 total, pb))))"

definition IsFriend :: "'w friend_server \<Rightarrow> string \<Rightarrow> string \<Rightarrow> ('w, bool \<times> bool) fgo" where
  "IsFriend S userID1 userID2 = friendDatabase_CheckIn (svFriendDB S) userID1 userID2"

definition page_of_friends :: "'w friend_server \<Rightarrow> string \<Rightarrow> pagination \<Rightarrow> ('w, int \<times> FriendInfo list) fgo" where
  "page_of_friends S userID p =
     bindG (PageOwnerFriends (svFriendDB S) userID p) (\<lambda>(total, friends).
     bindG (FriendsDB2Pb friends (usersMap S)) (\<lambda>pb. retG (wrap32 total, pb)))"

definition GetPaginationFriends :: "'w friend_server \<Rightarrow> rpc_ctx \<Rightarrow> string \<Rightarrow> pagination \<Rightarrow> ('w, int \<times> FriendInfo list) fgo" where
  "GetPaginationFriends S ctx userID p = bindG (access S ctx userID) (\<lambda>_. page_of_friends S userID p)"

text \<open>\<open>strings.Contains\<close>, and the order of the search result: by creation time, then by user.\<close>

definition user_leq :: "UserInfo \<Rightarrow> UserInfo \<Rightarrow> bool" where
  "user_leq a b = (if uCreateTime a \<noteq> uCreateTime b then uCreateTime a < uCreateTime b else str_leq (uUserID a) (uUserID b))"

definition keyword_match :: "(string \<Rightarrow> string) \<Rightarrow> string \<Rightarrow> (string \<rightharpoonup> string) \<Rightarrow> UserInfo \<Rightarrow> bool" where
  "keyword_match lower keyword remarks u \<longleftrightarrow>
     uUserID u = keyword \<or> str_contains (lower (uNickname u)) (lower keyword)
     \<or> (case remarks (uUserID u) of None \<Rightarrow> False | Some r \<Rightarrow> str_contains (lower r) (lower keyword))"

definition GetFriendPageList ::
  "'w friend_server \<Rightarrow> rpc_ctx \<Rightarrow> string \<Rightarrow> string \<Rightarrow> pagination \<Rightarrow> ('w, int \<times> FriendInfo list) fgo" where
  "GetFriendPageList S ctx userID keyword p =
     bindG (access S ctx userID) (\<lambda>_.
       if keyword = [] then page_of_friends S userID p
       else
         bindG (FindFriendUserIDs (svFriendDB S) userID) (\<lambda>friendIDs.
         bindG (onWorld (GetUsersInfoWaitGroup (svUser S) friendIDs)) (\<lambda>friendsInfo.
         bindG (attemptG (FindFriendsRemark (svFriendDB S) userID)) (\<lambda>r.
           let remarks = (case r of Inl err \<Rightarrow> Map.empty | Inr m \<Rightarrow> m);
               found = sort_stable user_leq (filter (keyword_match (svToLower S) keyword remarks) friendsInfo) in
         bindG (liftG (Paginate found (fst p) (snd p))) (\<lambda>friendMembers.
         bindG (FindFriendsWithError (svFriendDB S) userID (Slice friendMembers uUserID)) (\<lambda>(friends, err).
           retG (wrap32 (int (length found)),
             concat (map (\<lambda>f. case find (\<lambda>u. uUserID u = fmFriendUserID f) friendMembers of None \<Rightarrow> []
               | Some u \<Rightarrow> [friend_pb f (fmCreateTime f div 1000) (Some (friend_user u))]) friends))))))))"

definition GetFriendIDs :: "'w friend_server \<Rightarrow> rpc_ctx \<Rightarrow> string \<Rightarrow> ('w, string list) fgo" where
  "GetFriendIDs S ctx userID = bindG (access S ctx userID) (\<lambda>_. FindFriendUserIDs (svFriendDB S) userID)"

definition GetSpecifiedFriendsInfo ::
  "'w friend_server \<Rightarrow> string \<Rightarrow> string list \<Rightarrow> ('w, (UserInfo \<times> FriendInfo option \<times> BlackInfo option) list) fgo" where
  "GetSpecifiedFriendsInfo S owner userIDList =
     (if length userIDList = 0 then failG (Wrap1m ErrArgs ''userIDList is empty'')
      else if Duplicate userIDList then failG (Wrap1m ErrArgs ''userIDList repeated'')
      else
        bindG (usersMap S userIDList) (\<lambda>userMap.
        bindG (friends_or_fail S owner userIDList) (\<lambda>friends.
        bindG (FindBlackInfos (svFriendDB S) owner userIDList) (\<lambda>blacks.
          let friendMap = SliceToMap friends fmFriendUserID; blackMap = SliceToMap blacks bmBlockUserID in
          retG (concat (map (\<lambda>userID. case userMap userID of None \<Rightarrow> []
            | Some user \<Rightarrow> [(user, map_option (\<lambda>f. friend_pb f (fmCreateTime f) None) (friendMap userID),
                map_option (\<lambda>b. \<lparr> biOwnerUserID = bmOwnerUserID b, biCreateTime = bmCreateTime b, biBlackUserInfo = None,
                  biAddSource = bmAddSource b, biOperatorUserID = bmOperatorUserID b, biEx = bmEx b \<rparr>) (blackMap userID))]) userIDList))))))"

definition UpdateFriends ::
  "'w friend_server \<Rightarrow> int \<Rightarrow> rpc_ctx \<Rightarrow> string \<Rightarrow> string list \<Rightarrow> friend_update \<Rightarrow> ('w, unit) fgo" where
  "UpdateFriends S now ctx owner friendUserIDs val =
     (if length friendUserIDs = 0 then failG (Wrap1m ErrArgs ''friendIDList is empty'')
      else if Duplicate friendUserIDs then failG (Wrap1m ErrArgs ''friendIDList repeated'')
      else
        bindG (friends_or_fail S owner friendUserIDs) (\<lambda>_.
        bindG (friendDatabase_UpdateFriends (svFriendDB S) owner friendUserIDs val) (\<lambda>_.
        wrapG ''FriendsInfoUpdateNotification Error'' (FriendsInfoUpdateNotification_send S now ctx owner friendUserIDs))))"

definition GetFriendsRemark :: "'w friend_server \<Rightarrow> string \<Rightarrow> ('w, string \<rightharpoonup> string) fgo" where
  "GetFriendsRemark S owner = FindFriendsRemark (svFriendDB S) owner"

section \<open>Blacklists (black.go)\<close>

definition GetPaginationBlacks :: "'w friend_server \<Rightarrow> rpc_ctx \<Rightarrow> string \<Rightarrow> pagination \<Rightarrow> ('w, int \<times> BlackInfo list) fgo" where
  "GetPaginationBlacks S ctx userID p =
     bindG (access S ctx userID) (\<lambda>_.
     bindG (blackDatabase_FindOwnerBlacks (svFriendDB S) userID p) (\<lambda>(total, blacks).
     bindG (BlackDB2Pb blacks (usersMap S)) (\<lambda>pb. retG (wrap32 total, pb))))"

definition IsBlack :: "'w friend_server \<Rightarrow> string \<Rightarrow> string \<Rightarrow> ('w, bool \<times> bool) fgo" where
  "IsBlack S userID1 userID2 = blackDatabase_CheckIn (svFriendDB S) userID1 userID2"

definition RemoveBlack :: "'w friend_server \<Rightarrow> int \<Rightarrow> rpc_ctx \<Rightarrow> string \<Rightarrow> string \<Rightarrow> ('w, unit) fgo" where
  "RemoveBlack S now ctx owner black =
     bindG (access S ctx owner) (\<lambda>_.
     bindG (blackDatabase_Delete (svFriendDB S) [\<lparr> bmOwnerUserID = owner, bmBlockUserID = black, bmCreateTime = zero_time,
              bmAddSource = 0, bmOperatorUserID = [], bmEx = [] \<rparr>]) (\<lambda>_.
     BlackDeletedNotification_send S now ctx owner black))"

definition AddBlack :: "'w friend_server \<Rightarrow> int \<Rightarrow> rpc_ctx \<Rightarrow> string \<Rightarrow> string \<Rightarrow> string \<Rightarrow> ('w, unit) fgo" where
  "AddBlack S now ctx owner black ex =
     bindG (checkAccess S ctx owner) (\<lambda>_.
     bindG (onWorld (GetUsersInfo (svUser S) [owner, black])) (\<lambda>_.
     bindG (blackDatabase_Create (svFriendDB S) [\<lparr> bmOwnerUserID = owner, bmBlockUserID = black, bmCreateTime = now,
              bmAddSource = 0, bmOperatorUserID = ctxOpUserID ctx, bmEx = ex \<rparr>]) (\<lambda>_.
     ignoreG (BlackAddedNotification_send S now ctx owner black))))"

end
