(* ===== verification/MongoFacts.thy ===== *)
theory MongoFacts
  imports MongoUtil
begin

text \<open>
  What the calls of \<open>mgoutil\<close> do to the documents of a collection that keeps \<open>coll_laws\<close>, what a
  transaction does to the state of a service, and a collection in memory that keeps the laws.
\<close>

section \<open>Operations on a part of the state\<close>

lemma preserves_zoom:
  assumes "preserves P m" "\<And>t s. get (put t s) = t"
  shows "preserves (\<lambda>s. P (get s)) (zoomG get put m)"
  using assms by (intro preservesI) (auto simp: zoomG_iff dest: preservesD)

lemma preserves_zoom_const:
  assumes "\<And>t s. P (put t s) = P s"
  shows "preserves P (zoomG get put m)"
  using assms by (intro preservesI) (auto simp: zoomG_iff)

lemma silent_zoom:
  assumes "silent q m" "\<And>t s. get (put t s) = t"
  shows "silent (\<lambda>s. q (get s)) (zoomG get put m)"
  using assms by (intro silentI) (auto simp: zoomG_iff dest: silentD)

lemma silent_zoom_other:
  assumes "\<And>t s. q (put t s) = q s"
  shows "silent q (zoomG get put m)"
  using assms by (intro silentI) (auto simp: zoomG_iff)

lemma silent_fstD: "silent fst m \<Longrightarrow> m s = (r, a, b) \<Longrightarrow> a = fst s"
  using silentD [of fst m s r "(a, b)"] by simp

section \<open>The checks before an operation writes\<close>

text \<open>
  \<open>upto q v P I m\<close>: from a state with \<open>I\<close> the computation ends without success and with the part \<open>q\<close> of
  the state at \<open>v\<close>, or it has got as far as \<open>P\<close>.
\<close>

definition upto :: "('s \<Rightarrow> 'q) \<Rightarrow> 'q \<Rightarrow> ('a outcome \<Rightarrow> 's \<Rightarrow> bool) \<Rightarrow> ('s \<Rightarrow> bool) \<Rightarrow> ('s, 'a) go \<Rightarrow> bool" where
  "upto q v P I m \<longleftrightarrow> (\<forall>s r s'. I s \<longrightarrow> m s = (r, s') \<longrightarrow> q s' = v \<and> (\<forall>x. r \<noteq> Ok x) \<or> P r s')"

lemma uptoI: "(\<And>s r s'. I s \<Longrightarrow> m s = (r, s') \<Longrightarrow> q s' = v \<and> (\<forall>x. r \<noteq> Ok x) \<or> P r s') \<Longrightarrow> upto q v P I m"
  by (simp add: upto_def)

lemma uptoD: "upto q v P I m \<Longrightarrow> I s \<Longrightarrow> m s = (r, s') \<Longrightarrow> q s' = v \<and> (\<forall>x. r \<noteq> Ok x) \<or> P r s'"
  by (simp add: upto_def)

lemma upto_fail: "(\<And>s. I s \<Longrightarrow> q s = v) \<Longrightarrow> upto q v P I (failG e)"
  by (auto intro!: uptoI simp: failG_def)

lemma upto_bind:
  assumes "\<And>s r s'. I s \<Longrightarrow> m s = (r, s') \<Longrightarrow> q s' = v \<and> (\<forall>a. r = Ok a \<longrightarrow> J a s')" "\<And>a. upto q v P (J a) (k a)"
  shows "upto q v P I (bindG m k)"
proof (rule uptoI)
  fix s r s' assume I: "I s" and run: "bindG m k s = (r, s')"
  obtain r1 s1 where m: "m s = (r1, s1)" by (cases "m s")
  from assms(1) [OF I m] run m show "q s' = v \<and> (\<forall>x. r \<noteq> Ok x) \<or> P r s'"
    by (cases r1) (auto simp: bindG_def dest: uptoD [OF assms(2)])
qed

lemma upto_silent:
  "silent q m \<Longrightarrow> (\<And>a. upto q v P (\<lambda>t. q t = v) (k a)) \<Longrightarrow> upto q v P (\<lambda>t. q t = v) (bindG m k)"
  by (rule upto_bind [where J = "\<lambda>_ t. q t = v"]) (auto dest: silentD)

lemma upto_pure: "(A \<Longrightarrow> upto q v P I m) \<Longrightarrow> upto q v P (\<lambda>t. I t \<and> A) m"
  by (rule uptoI) (blast dest: uptoD)

lemma upto_if: "(b \<Longrightarrow> upto q v P I m) \<Longrightarrow> (\<not> b \<Longrightarrow> upto q v P I n) \<Longrightarrow> upto q v P I (if b then m else n)"
  by simp

lemma upto_option:
  "(z = None \<Longrightarrow> upto q v P I m) \<Longrightarrow> (\<And>y. z = Some y \<Longrightarrow> upto q v P I (f y)) \<Longrightarrow>
   upto q v P I (case z of None \<Rightarrow> m | Some y \<Rightarrow> f y)"
  by (cases z) auto

section \<open>Documents\<close>

lemma update_first_id: "\<not> list_ex P ds \<Longrightarrow> update_first P f ds = ds"
  by (induction ds) auto

lemma set_update_first: "set (update_first P f ds) \<subseteq> set ds \<union> f ` {d \<in> set ds. P d}"
  by (induction ds) auto

lemma map_update_first: "(\<And>d. P d \<Longrightarrow> g (f d) = g d) \<Longrightarrow> map g (update_first P f ds) = map g ds"
  by (induction ds) auto

lemma filter_update_first:
  "(\<And>d. P d \<Longrightarrow> \<not> Q d \<and> \<not> Q (f d)) \<Longrightarrow> filter Q (update_first P f ds) = filter Q ds"
  by (induction ds) auto

lemma update_first_hit: "find P ds = Some d \<Longrightarrow> f d \<in> set (update_first P f ds)"
  by (induction ds) (auto split: if_splits)

lemma update_first_keeps: "d \<in> set ds \<Longrightarrow> \<not> P d \<Longrightarrow> d \<in> set (update_first P f ds)"
  by (induction ds) auto

lemma set_remove_first: "set (remove_first P ds) \<subseteq> set ds"
  by (induction ds) auto

lemma filter_remove_first: "(\<And>d. P d \<Longrightarrow> \<not> Q d) \<Longrightarrow> filter Q (remove_first P ds) = filter Q ds"
  by (induction ds) auto

lemma distinct_remove_first: "distinct (map g ds) \<Longrightarrow> distinct (map g (remove_first P ds))"
  by (induction ds) (use set_remove_first in \<open>fastforce\<close>)+

lemma remove_first_unique:
  "distinct (map g ds) \<Longrightarrow> (\<And>d. P d \<longleftrightarrow> g d = k) \<Longrightarrow> d \<in> set (remove_first P ds) \<Longrightarrow> \<not> P d"
  by (induction ds) (auto split: if_splits, metis imageI)

lemma map_update_all: "(\<And>d. P d \<Longrightarrow> g (f d) = g d) \<Longrightarrow> map g (update_all P f ds) = map g ds"
  by (simp add: update_all_def)

lemma filter_update_all:
  "(\<And>d. P d \<Longrightarrow> \<not> Q d \<and> \<not> Q (f d)) \<Longrightarrow> filter Q (update_all P f ds) = filter Q ds"
  by (induction ds) (auto simp: update_all_def)

lemma map_update_eq: "map g ds' = map g ds \<Longrightarrow> unique_keys g ds' = unique_keys g ds"
  by (simp add: unique_keys_def)

lemma unique_keys_filter: "unique_keys key ds \<Longrightarrow> unique_keys key (filter P ds)"
  by (simp add: unique_keys_def distinct_map_filter)

section \<open>The calls of the driver\<close>

lemma Insert_driver:
  assumes "coll_laws C key" "mcInsertMany C new s = (r, t)"
  shows "r = Ok () \<and> fst t = fst s @ new \<and> unique_keys key (fst t)
     \<or> (\<exists>e n. r = Err e \<and> fst t = fst s @ take n new \<and> (unique_keys key (fst s) \<longrightarrow> unique_keys key (fst t)))"
  using conjunct1 [OF assms(1) [unfolded coll_laws_def]] assms(2) by (metis prod.collapse)

lemma UpdateOne_driver:
  assumes "coll_laws C key" "mcUpdateOne C P f s = (r, t)"
  shows "r = Ok (if list_ex P (fst s) then 1 else 0) \<and> fst t = update_first P f (fst s) \<or> (\<exists>e. r = Err e \<and> fst t = fst s)"
  using conjunct1 [OF conjunct2 [OF assms(1) [unfolded coll_laws_def]]]
    assms(2) by (metis prod.collapse)

lemma UpdateMany_driver:
  assumes "coll_laws C key" "mcUpdateMany C P f s = (r, t)"
  shows "r = Ok (int (length (filter P (fst s)))) \<and> fst t = update_all P f (fst s) \<or> (\<exists>e. r = Err e \<and> fst t = fst s)"
  using conjunct1 [OF conjunct2 [OF conjunct2 [OF assms(1) [unfolded coll_laws_def]]]]
    assms(2) by (metis prod.collapse)

lemma Find_driver:
  assumes "coll_laws C key" "mcFind C P opt s = (r, t)"
  shows "fst t = fst s \<and> (r = Ok (page_of opt (filter P (fst s))) \<or> (\<exists>e. r = Err e))"
  using conjunct1 [OF conjunct2 [OF conjunct2 [OF conjunct2 [OF assms(1) [unfolded coll_laws_def]]]]]
    assms(2) by (metis prod.collapse)

lemma FindOne_driver:
  assumes "coll_laws C key" "mcFindOne C P s = (r, t)"
  shows "fst t = fst s \<and> ((\<exists>d. find P (fst s) = Some d \<and> r = Ok d) \<or> find P (fst s) = None \<and> r = Err MongoNoDocuments
           \<or> (\<exists>e. r = Err e \<and> Unwrap e \<noteq> MongoNoDocuments))"
  using conjunct1 [OF conjunct2 [OF conjunct2 [OF conjunct2 [OF conjunct2 [OF assms(1) [unfolded coll_laws_def]]]]]]
    assms(2) by (metis prod.collapse)

lemma Count_driver:
  assumes "coll_laws C key" "mcCountDocuments C P l s = (r, t)"
  shows "fst t = fst s \<and> (r = Ok (case l of None \<Rightarrow> int (length (filter P (fst s))) | Some k \<Rightarrow> min k (int (length (filter P (fst s)))))
           \<or> (\<exists>e. r = Err e))"
  using conjunct1 [OF conjunct2 [OF conjunct2 [OF conjunct2 [OF conjunct2 [OF conjunct2 [OF assms(1) [unfolded coll_laws_def]]]]]]]
    assms(2) by (metis prod.collapse)

lemma DeleteOne_driver:
  assumes "coll_laws C key" "mcDeleteOne C P s = (r, t)"
  shows "r = Ok () \<and> fst t = remove_first P (fst s) \<or> (\<exists>e. r = Err e \<and> fst t = fst s)"
  using conjunct1 [OF conjunct2 [OF conjunct2 [OF conjunct2 [OF conjunct2 [OF conjunct2 [OF conjunct2 [OF assms(1) [unfolded coll_laws_def]]]]]]]]
    assms(2) by (metis prod.collapse)

lemma Group_driver:
  assumes "coll_laws C key" "mcGroup C P g s = (r, t)"
  shows "fst t = fst s \<and> ((\<exists>ks. r = Ok (map (\<lambda>k. (k, int (length (filter (\<lambda>d. P d \<and> g d = k) (fst s))))) ks)
           \<and> distinct ks \<and> set ks = g ` set (filter P (fst s))) \<or> (\<exists>e. r = Err e))"
  using conjunct2 [OF conjunct2 [OF conjunct2 [OF conjunct2 [OF conjunct2 [OF conjunct2 [OF conjunct2 [OF conjunct2 [OF
    assms(1) [unfolded coll_laws_def]]]]]]]], rule_format, of P g "fst s" "snd s" r "fst t" "snd t"] assms(2) by simp

lemma silent_Group [quiet]: "coll_laws C key \<Longrightarrow> silent fst (mgo_Aggregate C P g)"
  unfolding mgo_Aggregate_def by (rule silentI) (auto dest: Group_driver)

lemma DeleteMany_driver:
  assumes "coll_laws C key" "mcDeleteMany C P s = (r, t)"
  shows "r = Ok () \<and> fst t = filter (\<lambda>d. \<not> P d) (fst s) \<or> (\<exists>e. r = Err e \<and> fst t = fst s)"
  using conjunct1 [OF conjunct2 [OF conjunct2 [OF conjunct2 [OF conjunct2 [OF conjunct2 [OF conjunct2 [OF conjunct2 [OF assms(1) [unfolded coll_laws_def]]]]]]]]]
    assms(2) by (metis prod.collapse)

section \<open>The calls of mgoutil\<close>

lemma InsertMany_Ok:
  "coll_laws C key \<Longrightarrow> mgo_InsertMany C new s = (Ok u, t) \<Longrightarrow> fst t = fst s @ new \<and> unique_keys key (fst t)"
  by (auto simp: mgo_InsertMany_def dest: Insert_driver)

lemma InsertMany_any:
  assumes L: "coll_laws C key" and run: "mgo_InsertMany C new s = (r, t)"
  shows "\<exists>n. fst t = fst s @ take n new \<and> (unique_keys key (fst s) \<longrightarrow> unique_keys key (fst t))"
proof -
  obtain r1 t1 where d: "mcInsertMany C new s = (r1, t1)" by (cases "mcInsertMany C new s")
  with run have "t = t1" by (auto simp: mgo_InsertMany_def wrapG_def split: outcome.splits)
  then show ?thesis using Insert_driver [OF L d] by (elim disjE) (auto intro: exI [of _ "length new"])
qed

lemma UpdateOne_any:
  assumes L: "coll_laws C key" and run: "mgo_UpdateOne C P f b s = (r, t)"
  shows "fst t = fst s \<or> r = Ok () \<and> fst t = update_first P f (fst s)"
proof -
  obtain r1 t1 where d: "mcUpdateOne C P f s = (r1, t1)" by (cases "mcUpdateOne C P f s")
  from UpdateOne_driver [OF L d] run d show ?thesis
    by (auto simp: mgo_UpdateOne_def bindG_def wrapG_def retG_def failG_def update_first_id split: outcome.splits if_splits)
qed

lemma UpdateOne_Ok:
  assumes L: "coll_laws C key" and run: "mgo_UpdateOne C P f b s = (Ok u, t)"
  shows "fst t = update_first P f (fst s) \<and> (b \<longrightarrow> list_ex P (fst s))"
proof -
  obtain r1 t1 where d: "mcUpdateOne C P f s = (r1, t1)" by (cases "mcUpdateOne C P f s")
  from UpdateOne_driver [OF L d] run d show ?thesis
    by (auto simp: mgo_UpdateOne_def bindG_def wrapG_def retG_def failG_def split: outcome.splits if_splits)
qed

lemma UpdateMany_any:
  assumes L: "coll_laws C key" and run: "mgo_UpdateMany C P f s = (r, t)"
  shows "fst t = fst s \<and> (\<exists>e. r = Err e) \<or> r = Ok (int (length (filter P (fst s)))) \<and> fst t = update_all P f (fst s)"
proof -
  obtain r1 t1 where d: "mcUpdateMany C P f s = (r1, t1)" by (cases "mcUpdateMany C P f s")
  from UpdateMany_driver [OF L d] run d show ?thesis
    by (auto simp: mgo_UpdateMany_def wrapG_def split: outcome.splits)
qed

lemma Find_Ok: "coll_laws C key \<Longrightarrow> mgo_Find C P opt s = (Ok ds, t) \<Longrightarrow> ds = page_of opt (filter P (fst s)) \<and> fst t = fst s"
  by (auto simp: mgo_Find_def dest: Find_driver)

lemma silent_Find [quiet]: "coll_laws C key \<Longrightarrow> silent fst (mgo_Find C P opt)"
  unfolding mgo_Find_def by (intro quiet silentI) (auto dest: Find_driver)

lemma decodes_field_run [simp]: "decodes_field False g = (\<lambda>ds. retG (map g ds))"
  by (rule ext) (simp add: decodes_field_def)

lemma Find_field_Ok:
  "coll_laws C key \<Longrightarrow> mgo_Find_field C P g s = (Ok vs, t) \<Longrightarrow> vs = map g (filter P (fst s)) \<and> fst t = fst s"
  by (auto simp: mgo_Find_field_def bindG_Ok_iff retG_def page_of_def dest: Find_Ok)

lemma silent_Find_field [quiet]: "coll_laws C key \<Longrightarrow> silent fst (mgo_Find_field C P g)"
  unfolding mgo_Find_field_def decodes_field_run by (intro quiet silent_Find)

lemma FindOne_Ok: "coll_laws C key \<Longrightarrow> mgo_FindOne C P s = (Ok d, t) \<Longrightarrow> find P (fst s) = Some d \<and> fst t = fst s"
  by (auto simp: mgo_FindOne_def dest: FindOne_driver)

lemma FindOne_not_found:
  "coll_laws C key \<Longrightarrow> mgo_FindOne C P s = (Err e, t) \<Longrightarrow> relation_IsNotFound e \<Longrightarrow> find P (fst s) = None"
  by (auto simp: mgo_FindOne_def wrapG_Err_iff relation_IsNotFound_def dest: FindOne_driver)

lemma silent_FindOne [quiet]: "coll_laws C key \<Longrightarrow> silent fst (mgo_FindOne C P)"
  unfolding mgo_FindOne_def by (intro quiet silentI) (auto dest: FindOne_driver)

lemma silent_Count [quiet]: "coll_laws C key \<Longrightarrow> silent fst (mgo_Count C P)"
  unfolding mgo_Count_def by (rule silentI) (auto dest: Count_driver)

lemma silent_Exist [quiet]: "coll_laws C key \<Longrightarrow> silent fst (mgo_Exist C P)"
  unfolding mgo_Exist_def by (intro quiet silentI) (auto dest: Count_driver)

lemma Exist_Ok: "coll_laws C key \<Longrightarrow> mgo_Exist C P s = (Ok b, t) \<Longrightarrow> b = list_ex P (fst s) \<and> fst t = fst s"
  by (auto simp: mgo_Exist_def bindG_Ok_iff retG_def list_ex_iff filter_empty_conv dest!: Count_driver split: if_splits)

lemma silent_FindPage [quiet]: "coll_laws C key \<Longrightarrow> silent fst (mgo_FindPage C P p)"
  unfolding mgo_FindPage_def mgo_FindPage_by_def by (intro quiet silent_Count silent_Find)

lemma silent_FindPageOnly [quiet]: "coll_laws C key \<Longrightarrow> silent fst (mgo_FindPageOnly C P p)"
  unfolding mgo_FindPageOnly_def by (intro quiet silent_Find)

lemma DeleteOne_any:
  assumes L: "coll_laws C key" and run: "mgo_DeleteOne C P s = (r, t)"
  shows "r = Ok () \<and> fst t = remove_first P (fst s) \<or> (\<exists>e. r = Err e \<and> fst t = fst s)"
proof -
  obtain r1 t1 where d: "mcDeleteOne C P s = (r1, t1)" by (cases "mcDeleteOne C P s")
  from DeleteOne_driver [OF L d] run d show ?thesis by (auto simp: mgo_DeleteOne_def wrapG_def)
qed

lemma DeleteMany_any:
  assumes L: "coll_laws C key" and run: "mgo_DeleteMany C P s = (r, t)"
  shows "r = Ok () \<and> fst t = filter (\<lambda>d. \<not> P d) (fst s) \<or> (\<exists>e. r = Err e \<and> fst t = fst s)"
proof -
  obtain r1 t1 where d: "mcDeleteMany C P s = (r1, t1)" by (cases "mcDeleteMany C P s")
  from DeleteMany_driver [OF L d] run d show ?thesis by (auto simp: mgo_DeleteMany_def wrapG_def)
qed

section \<open>Transactions\<close>

text \<open>
  A transaction runs its function, possibly several times: an attempt that is given up takes back
  its writes to the documents \<open>q\<close>, but not what it did to the rest \<open>c\<close> of the state (the cache).
  It ends with the writes of the last attempt, or with an error and the documents it began with.
  \<open>tx_on\<close>: the server supports transactions.
\<close>

inductive tx_start :: "('s \<Rightarrow> 'q) \<Rightarrow> ('s \<Rightarrow> 'c) \<Rightarrow> ('s, unit) go \<Rightarrow> 's \<Rightarrow> 's \<Rightarrow> bool" for q c fn s where
  tx_first: "q s1 = q s \<Longrightarrow> c s1 = c s \<Longrightarrow> tx_start q c fn s s1"
| tx_again: "tx_start q c fn s s1 \<Longrightarrow> fn s1 = (r, s2) \<Longrightarrow> q s3 = q s \<Longrightarrow> c s3 = c s2 \<Longrightarrow> tx_start q c fn s s3"

definition tx_laws :: "('s \<Rightarrow> 'q) \<Rightarrow> ('s \<Rightarrow> 'c) \<Rightarrow> 's tx_api \<Rightarrow> bool" where
  "tx_laws q c T \<longleftrightarrow>
     silent q (txInit T) \<and> silent c (txInit T)
   \<and> (\<forall>fn s r s'. txWith T fn s = (r, s') \<longrightarrow>
        (\<exists>s1 s2. tx_start q c fn s s1 \<and> c s' = c s2 \<and>
           (r = Ok () \<and> fn s1 = (Ok (), s2) \<and> q s' = q s2
            \<or> r \<noteq> Ok () \<and> (s2 = s1 \<or> (\<exists>r2. fn s1 = (r2, s2))) \<and> q s' = q s)))"

definition tx_on :: "'s tx_api \<Rightarrow> bool" where
  "tx_on T \<longleftrightarrow> (\<forall>s s'. txInit T s \<noteq> (Ok False, s'))"

lemma tx_lawsD:
  assumes "tx_laws q c T" "txWith T fn s = (r, s')"
  shows "\<exists>s1 s2. tx_start q c fn s s1 \<and> c s' = c s2 \<and>
           (r = Ok () \<and> fn s1 = (Ok (), s2) \<and> q s' = q s2
            \<or> r \<noteq> Ok () \<and> (s2 = s1 \<or> (\<exists>r2. fn s1 = (r2, s2))) \<and> q s' = q s)"
  using assms(1) [unfolded tx_laws_def] assms(2) by simp

lemma tx_start_docs: "tx_start q c fn s s1 \<Longrightarrow> q s1 = q s"
  by (induction rule: tx_start.induct) auto

lemma tx_start_inv:
  assumes "tx_start q c fn s s1" "I (c s)"
    and "\<And>s1 r s2. q s1 = q s \<Longrightarrow> I (c s1) \<Longrightarrow> fn s1 = (r, s2) \<Longrightarrow> I (c s2)"
  shows "I (c s1)"
  using assms(1) by (induction rule: tx_start.induct) (use assms tx_start_docs in metis)+

text \<open>
  A transaction that succeeds is a run of its function on the documents at the beginning; the rest of
  the state fulfils what the function keeps.
\<close>

lemma Transaction_Ok:
  assumes T: "tx_laws q c T" and run: "Mongo_Transaction T fn s = (Ok (), s')" and I: "I (c s)"
    and keep: "\<And>s1 r s2. q s1 = q s \<Longrightarrow> I (c s1) \<Longrightarrow> fn s1 = (r, s2) \<Longrightarrow> I (c s2)"
  obtains s1 s2 where "q s1 = q s" "I (c s1)" "fn s1 = (Ok (), s2)" "q s' = q s2" "c s' = c s2"
proof -
  obtain b s0 where i: "txInit T s = (Ok b, s0)" and r: "(if \<not> b then fn else txWith T fn) s0 = (Ok (), s')"
    using run by (auto simp: Mongo_Transaction_def bindG_Ok_iff)
  from T i have qc: "q s0 = q s" "c s0 = c s" by (auto simp: tx_laws_def dest: silentD)
  from I qc have I0: "I (c s0)" by simp
  show thesis
  proof (cases b)
    case True
    with r have w: "txWith T fn s0 = (Ok (), s')" by simp
    from tx_lawsD [OF T w] obtain s1 s2 where st: "tx_start q c fn s0 s1"
      and f: "fn s1 = (Ok (), s2)" "q s' = q s2" "c s' = c s2" by blast
    have "I (c s1)" by (rule tx_start_inv [where I = I, OF st I0]) (erule (2) keep [OF trans [OF _ qc(1)]])
    with that f qc tx_start_docs [OF st] show thesis by simp
  qed (use that [of s0 s'] r qc I in simp)
qed

lemma Transaction_any:
  assumes T: "tx_laws q c T" and on: "tx_on T" and run: "Mongo_Transaction T fn s = (r, s')" and I: "I (c s)"
    and keep: "\<And>s1 r s2. q s1 = q s \<Longrightarrow> I (c s1) \<Longrightarrow> fn s1 = (r, s2) \<Longrightarrow> I (c s2)"
  shows "q s' = q s \<and> I (c s') \<or> (\<exists>s1 s2. q s1 = q s \<and> I (c s1) \<and> fn s1 = (Ok (), s2) \<and> q s' = q s2 \<and> c s' = c s2)"
proof -
  obtain r0 s0 where i: "txInit T s = (r0, s0)" by (cases "txInit T s")
  from T i have qc: "q s0 = q s" "c s0 = c s" by (auto simp: tx_laws_def dest: silentD)
  from I qc have I0: "I (c s0)" by simp
  show ?thesis
  proof (cases r0)
    case (Ok b)
    with on i have b: b by (cases b) (auto simp: tx_on_def)
    with run i Ok have w: "txWith T fn s0 = (r, s')" by (simp add: Mongo_Transaction_def bindG_run_Ok)
    from tx_lawsD [OF T w] obtain s1 s2 where st: "tx_start q c fn s0 s1" and c: "c s' = c s2"
      and alt: "r = Ok () \<and> fn s1 = (Ok (), s2) \<and> q s' = q s2
            \<or> r \<noteq> Ok () \<and> (s2 = s1 \<or> (\<exists>r2. fn s1 = (r2, s2))) \<and> q s' = q s0" by (elim exE conjE)
    have I1: "I (c s1)" by (rule tx_start_inv [where I = I, OF st I0]) (erule (2) keep [OF trans [OF _ qc(1)]])
    note q1 = tx_start_docs [OF st]
    from alt show ?thesis
    proof (elim disjE conjE)
      assume "fn s1 = (Ok (), s2)" "q s' = q s2"
      then show ?thesis using q1 qc I1 c by auto
    next
      assume "s2 = s1" "q s' = q s0" then show ?thesis using qc I1 c by simp
    next
      assume "\<exists>r2. fn s1 = (r2, s2)" "q s' = q s0"
      then show ?thesis using keep [of s1] q1 qc I1 c by auto
    qed
  qed (use i run qc I in \<open>auto simp: Mongo_Transaction_def bindG_def\<close>)
qed

section \<open>In memory\<close>

definition mem_coll :: "('d \<Rightarrow> 'k) \<Rightarrow> ('d, 'w) mongo_coll" where
  "mem_coll key = \<lparr>
     mcInsertMany = (\<lambda>new (ds, w). if unique_keys key (ds @ new) then (Ok (), ds @ new, w) else (Err MongoDuplicateKey, ds, w)),
     mcUpdateOne = (\<lambda>P f (ds, w). (Ok (if list_ex P ds then 1 else 0), update_first P f ds, w)),
     mcUpdateMany = (\<lambda>P f (ds, w). (Ok (int (length (filter P ds))), update_all P f ds, w)),
     mcFind = (\<lambda>P opt (ds, w). (Ok (page_of opt (filter P ds)), ds, w)),
     mcFindOne = (\<lambda>P (ds, w). (case find P ds of None \<Rightarrow> Err MongoNoDocuments | Some d \<Rightarrow> Ok d, ds, w)),
     mcCountDocuments = (\<lambda>P l (ds, w). (Ok (case l of None \<Rightarrow> int (length (filter P ds)) | Some k \<Rightarrow> min k (int (length (filter P ds)))), ds, w)),
     mcDeleteOne = (\<lambda>P (ds, w). (Ok (), remove_first P ds, w)),
     mcDeleteMany = (\<lambda>P (ds, w). (Ok (), filter (\<lambda>d. \<not> P d) ds, w)),
     mcGroup = (\<lambda>P g (ds, w). (Ok (map (\<lambda>k. (k, int (length (filter (\<lambda>d. P d \<and> g d = k) ds)))) (remdups (map g (filter P ds)))), ds, w)) \<rparr>"

lemma mem_coll_laws: "coll_laws (mem_coll key) key"
  unfolding coll_laws_def mem_coll_def
  by (auto split: if_splits option.splits intro: exI [of _ 0])

definition mem_tx :: "('s \<Rightarrow> 's \<Rightarrow> 's) \<Rightarrow> 's tx_api" where
  "mem_tx restore = \<lparr> txInit = retG True,
     txWith = (\<lambda>fn s. case fn s of (Ok u, s') \<Rightarrow> (Ok u, s') | (r, s') \<Rightarrow> (r, restore s s')) \<rparr>"

lemma mem_tx_laws:
  assumes "\<And>s s'. q (restore s s') = q s" "\<And>s s'. c (restore s s') = c s'"
  shows "tx_laws q c (mem_tx restore)" "tx_on (mem_tx restore)"
proof -
  show "tx_on (mem_tx restore)" by (simp add: tx_on_def mem_tx_def retG_def)
  show "tx_laws q c (mem_tx restore)"
    unfolding tx_laws_def mem_tx_def using assms
    by (auto intro!: silent_rules split: prod.splits outcome.splits intro: tx_first)
qed

end
