(* ===== verification/CacheFacts.thy ===== *)
theory CacheFacts
  imports MetaCache MongoFacts
begin

text \<open>
  Coherence of the cache with the database.  \<open>coherent\<close> says that every cached value is the one the
  database gives for its key, except for the keys in \<open>U\<close>.  The locale \<open>cached_lookup\<close> is the
  contract of a lookup through the cache; the services interpret it for each of their caches.
\<close>

section \<open>rockscache on the state of a service\<close>

definition rc_view :: "('s \<Rightarrow> string \<rightharpoonup> string) \<Rightarrow> 's rc_api \<Rightarrow> bool" where
  "rc_view c R \<longleftrightarrow>
     (\<forall>k s r s'. rcGet R k s = (r, s') \<longrightarrow> c s' = c s \<and> (r = Ok (c s k) \<or> (\<exists>e. r = Err e)))
   \<and> (\<forall>k v t s r s'. rcPut R k v t s = (r, s') \<longrightarrow>
        r = Ok () \<and> c s' = (c s)(k \<mapsto> v) \<or> (\<exists>e. r = Err e) \<and> (c s' = c s \<or> c s' = (c s)(k \<mapsto> v)))
   \<and> (\<forall>k s r s'. rcTagAsDeleted R k s = (r, s') \<longrightarrow>
        r = Ok () \<and> c s' = (c s)(k := None) \<or> (\<exists>e. r = Err e) \<and> c s' = c s)"

definition rc_silent :: "('s \<Rightarrow> 'q) \<Rightarrow> 's rc_api \<Rightarrow> bool" where
  "rc_silent q R \<longleftrightarrow> (\<forall>k. silent q (rcGet R k)) \<and> (\<forall>k v t. silent q (rcPut R k v t)) \<and> (\<forall>k. silent q (rcTagAsDeleted R k))"

definition rc_steady :: "'s rc_api \<Rightarrow> bool" where
  "rc_steady R \<longleftrightarrow> (\<forall>k s. \<exists>s'. rcTagAsDeleted R k s = (Ok (), s'))"

definition zoom_rc :: "('s \<Rightarrow> 't) \<Rightarrow> ('t \<Rightarrow> 's \<Rightarrow> 's) \<Rightarrow> 't rc_api \<Rightarrow> 's rc_api" where
  "zoom_rc get put R = \<lparr> rcGet = (\<lambda>k. zoomG get put (rcGet R k)), rcPut = (\<lambda>k v t. zoomG get put (rcPut R k v t)),
     rcTagAsDeleted = (\<lambda>k. zoomG get put (rcTagAsDeleted R k)) \<rparr>"

lemma rc_viewD:
  assumes "rc_view c R"
  shows "rcGet R k s = (r1, s') \<Longrightarrow> c s' = c s \<and> (r1 = Ok (c s k) \<or> (\<exists>e. r1 = Err e))"
    and "rcPut R k v t s = (r2, s') \<Longrightarrow>
       r2 = Ok () \<and> c s' = (c s)(k \<mapsto> v) \<or> (\<exists>e. r2 = Err e) \<and> (c s' = c s \<or> c s' = (c s)(k \<mapsto> v))"
    and "rcTagAsDeleted R k s = (r3, s') \<Longrightarrow>
       r3 = Ok () \<and> c s' = (c s)(k := None) \<or> (\<exists>e. r3 = Err e) \<and> c s' = c s"
  using assms unfolding rc_view_def by blast+

lemma rc_laws_view: "rc_laws R \<Longrightarrow> rc_view fst R"
  unfolding rc_laws_def rc_view_def by (simp add: split_paired_all)

lemma rc_view_zoom:
  assumes "rc_view c R" "\<And>t s. get (put t s) = t"
  shows "rc_view (\<lambda>s. c (get s)) (zoom_rc get put R)"
  unfolding rc_view_def
  by (intro conjI allI impI)
    (auto simp: zoom_rc_def zoomG_iff assms(2) simp del: fun_upd_apply dest!: rc_viewD [OF assms(1)])

lemma rc_silent_zoom: "(\<And>t s. q (put t s) = q s) \<Longrightarrow> rc_silent q (zoom_rc get put R)"
  by (simp add: rc_silent_def zoom_rc_def silent_zoom_other)

lemma rc_steady_zoom: "rc_reliable R \<Longrightarrow> rc_steady (zoom_rc get put R)"
  unfolding rc_reliable_def rc_steady_def by (auto simp: zoom_rc_def zoomG_iff) (metis prod.collapse)

section \<open>Deleting\<close>

lemma silent_delete_retry: "rc_silent q R \<Longrightarrow> silent q (delete_retry R n k)"
  by (induction n) (auto intro!: silent_rules silent_cases simp: rc_silent_def)

lemma silent_ExecDel [quiet]: "rc_silent q R \<Longrightarrow> silent q (ExecDel R ks)"
  unfolding ExecDel_def by (intro silent_loops silent_delete_retry)

lemma delete_retry_run:
  assumes "rc_view c R" "delete_retry R n k s = (r, s')"
  shows "r = Ok () \<and> (c s' = c s \<or> c s' = (c s)(k := None))"
  using assms(2)
proof (induction n arbitrary: s)
  case (Suc n)
  obtain r1 s1 where t: "rcTagAsDeleted R k s = (r1, s1)" by (cases "rcTagAsDeleted R k s")
  with assms(1) have "r1 = Ok () \<and> c s1 = (c s)(k := None) \<or> (\<exists>e. r1 = Err e) \<and> c s1 = c s"
    unfolding rc_view_def by blast
  then show ?case
  proof (elim disjE conjE exE)
    fix e assume e: "r1 = Err e" and c1: "c s1 = c s"
    from e Suc.prems t have "delete_retry R n k s1 = (r, s')" by (simp add: bindG_def attemptG_def)
    from Suc.IH [OF this] c1 show ?thesis by simp
  next
    assume o1: "r1 = Ok ()" and c1: "c s1 = (c s)(k := None)"
    from o1 Suc.prems t have "r = Ok ()" "s' = s1" by (simp_all add: bindG_def attemptG_def retG_def)
    with c1 show ?thesis by simp
  qed
qed (simp add: retG_def)

lemma delete_retry_steady:
  assumes "rc_view c R" "rc_steady R" "delete_retry R (Suc n) k s = (r, s')"
  shows "c s' = (c s)(k := None)"
proof -
  from assms(2) obtain s1 where t: "rcTagAsDeleted R k s = (Ok (), s1)" unfolding rc_steady_def by blast
  with rc_viewD(3) [OF assms(1) t] have "c s1 = (c s)(k := None)" by simp
  with t assms(3) show ?thesis by (simp add: bindG_def attemptG_def retG_def)
qed

lemma ExecDel_run:
  assumes "rc_view c R" "ExecDel R ks s = (r, s')"
  shows "r = Ok ()" "c s' \<subseteq>\<^sub>m c s"
proof -
  have "r = Ok () \<and> c s' \<subseteq>\<^sub>m c s"
    using assms(2) unfolding ExecDel_def
  proof (induction ks arbitrary: s)
    case (Cons k ks)
    obtain r1 s1 where d: "delete_retry R maxRetryTimes k s = (r1, s1)" by (cases "delete_retry R maxRetryTimes k s")
    note d1 = delete_retry_run [OF assms(1) d]
    from Cons.prems d d1 have "forG ks (delete_retry R maxRetryTimes) s1 = (r, s')" by (simp add: bindG_run_Ok)
    from Cons.IH [OF this] have "r = Ok ()" "c s' \<subseteq>\<^sub>m c s1" by simp_all
    moreover from d1 have "c s1 \<subseteq>\<^sub>m c s" by (auto simp: map_le_def split: if_splits)
    ultimately show ?case by (blast intro: map_le_trans)
  qed (simp add: retG_def)
  then show "r = Ok ()" "c s' \<subseteq>\<^sub>m c s" by auto
qed

lemma ExecDel_steady:
  assumes V: "rc_view c R" and S: "rc_steady R" and run: "ExecDel R ks s = (r, s')" and k: "k \<in> set ks"
  shows "c s' k = None"
  using run k unfolding ExecDel_def
proof (induction ks arbitrary: s)
  case (Cons a ks)
  obtain r1 s1 where d: "delete_retry R maxRetryTimes a s = (r1, s1)" by (cases "delete_retry R maxRetryTimes a s")
  have "c s1 = (c s)(a := None)" using delete_retry_steady [OF V S, of 4 a s] d by simp
  moreover from Cons.prems d delete_retry_run [OF V d] have r: "forG ks (delete_retry R maxRetryTimes) s1 = (r, s')"
    by (simp add: bindG_run_Ok)
  moreover have "c s' \<subseteq>\<^sub>m c s1" using ExecDel_run(2) [OF V, of ks s1] r by (simp add: ExecDel_def)
  ultimately show ?case
  proof (cases "a = k")
    case True
    with \<open>c s1 = (c s)(a := None)\<close> have "c s1 k = None" by simp
    with \<open>c s' \<subseteq>\<^sub>m c s1\<close> show ?thesis by (cases "c s' k") (auto simp: map_le_def dom_def)
  next
    case False
    with Cons.prems(2) have "k \<in> set ks" by simp
    from Cons.IH [OF r this] show ?thesis .
  qed
qed simp

section \<open>Looking up\<close>

lemma silent_getCache [quiet]:
  "rc_silent q R \<Longrightarrow> silent q fn \<Longrightarrow> silent q (getCache R cod k ex fn)"
  unfolding getCache_def rc_silent_def by (intro quiet) auto

lemma getCache_run:
  assumes V: "rc_view c R" and C: "silent c fn" and Q: "rc_silent q R" and run: "getCache R cod k ex fn s = (r, s')"
  shows "c s' = c s \<and> (\<forall>t. r \<noteq> Ok t)
     \<or> (\<exists>v t. c s k = Some v \<and> c s' = c s \<and> v \<noteq> [] \<and> snd cod v = Inr t \<and> r = Ok t)
     \<or> c s k = None \<and> (\<exists>s1 s2 t v. fn s1 = (Ok t, s2) \<and> q s1 = q s \<and> fst cod t = Inr v
         \<and> (c s' = c s \<and> (\<forall>t. r \<noteq> Ok t) \<or> c s' = (c s)(k \<mapsto> v) \<and> (\<forall>t'. r = Ok t' \<longrightarrow> t' = t)))"
proof -
  obtain r1 s1 where g: "rcGet R k s = (r1, s1)" by (cases "rcGet R k s")
  from V g have g1: "c s1 = c s" "r1 = Ok (c s k) \<or> (\<exists>e. r1 = Err e)" unfolding rc_view_def by blast+
  from Q g have q1: "q s1 = q s" by (auto simp: rc_silent_def dest: silentD)
  show ?thesis
  proof (cases r1)
    case Ok1: (Ok z)
    show ?thesis
    proof (cases "c s k")
      case (Some v)
      with g g1 Ok1 run show ?thesis
        by (auto simp: getCache_def bindG_run_Ok retG_run failG_run split: if_splits sum.splits)
    next
      case None
      obtain r2 s2 where f: "fn s1 = (r2, s2)" by (cases "fn s1")
      with C have c2: "c s2 = c s" using g1 by (auto dest: silentD)
      show ?thesis
      proof (cases r2)
        case Ok2: (Ok t)
        show ?thesis
        proof (cases "fst cod t")
          case (Inr v)
          obtain r3 s3 where p: "rcPut R k v ex s2 = (r3, s3)" by (cases "rcPut R k v ex s2")
          with V have "r3 = Ok () \<and> c s3 = (c s2)(k \<mapsto> v) \<or> (\<exists>e. r3 = Err e) \<and> (c s3 = c s2 \<or> c s3 = (c s2)(k \<mapsto> v))"
            unfolding rc_view_def by blast
          moreover have "(r, s') = (case r3 of Ok u \<Rightarrow> (Ok t, s3) | Err e \<Rightarrow> (Err e, s3) | Panic m \<Rightarrow> (Panic m, s3))"
            using run g g1 Ok1 None f Ok2 Inr p
            by (auto simp: getCache_def bindG_run_Ok bindG_def retG_def split: outcome.splits)
          ultimately have "c s' = c s \<and> (\<forall>t. r \<noteq> Ok t) \<or> c s' = (c s)(k \<mapsto> v) \<and> (\<forall>t'. r = Ok t' \<longrightarrow> t' = t)"
            using c2 by (elim disjE conjE exE) auto
          moreover from f Ok2 have "fn s1 = (Ok t, s2)" by simp
          ultimately show ?thesis using None Inr q1 by blast
        qed (use run g g1 Ok1 None f Ok2 c2 in \<open>auto simp: getCache_def bindG_run_Ok failG_run\<close>)
      qed (use run g g1 Ok1 None f c2 in \<open>auto simp: getCache_def bindG_def\<close>)
    qed
  qed (use run g g1 in \<open>auto simp: getCache_def bindG_def\<close>)
qed

section \<open>Coherence\<close>

definition coherent ::
  "('s \<Rightarrow> string \<rightharpoonup> string) \<Rightarrow> ('k \<Rightarrow> string) \<Rightarrow> (string \<Rightarrow> go_error + 't) \<Rightarrow> ('s \<Rightarrow> 'k \<Rightarrow> 't) \<Rightarrow> 'k set \<Rightarrow> 's \<Rightarrow> bool" where
  "coherent c key dec truth U s \<longleftrightarrow> (\<forall>k v. k \<notin> U \<longrightarrow> c s (key k) = Some v \<longrightarrow> dec v = Inr (truth s k))"

definition codec_laws :: "'t codec \<Rightarrow> bool" where
  "codec_laws cod \<longleftrightarrow> (\<forall>t v. fst cod t = Inr v \<longrightarrow> v \<noteq> [] \<and> snd cod v = Inr t)"

lemma coherent_deleted:
  assumes "coherent c key dec truth U s" "c s' \<subseteq>\<^sub>m c s" "\<And>k. k \<notin> V \<Longrightarrow> truth s' k = truth s k"
    and "\<And>k. k \<in> U \<union> V \<Longrightarrow> c s' (key k) = None"
  shows "coherent c key dec truth {} s'"
  unfolding coherent_def
proof (intro allI impI)
  fix k v assume v: "c s' (key k) = Some v"
  with assms(4) [of k] have k: "k \<notin> U" "k \<notin> V" by auto
  from v assms(2) have "c s (key k) = Some v" by (auto simp: map_le_def dom_def)
  with k assms(1) show "dec v = Inr (truth s' k)" by (simp add: coherent_def assms(3))
qed

lemma coherent_weaken: "coherent c key dec truth {} s \<Longrightarrow> coherent c key dec truth U s"
  by (simp add: coherent_def)

lemma coherent_same: "coherent c key dec truth U s \<Longrightarrow> c s' \<subseteq>\<^sub>m c s \<Longrightarrow> truth s' = truth s \<Longrightarrow> coherent c key dec truth U s'"
  unfolding coherent_def map_le_def dom_def by force

text \<open>
  The contract of a lookup: the documents stay, at most the looked up key is written, with the value
  of the database, and a returned value is the cached one or that of the database.
\<close>

locale cached_lookup =
  fixes laws :: bool and c :: "'s \<Rightarrow> string \<rightharpoonup> string" and key :: "'k \<Rightarrow> string" and dec :: "string \<Rightarrow> go_error + 't"
    and truth :: "'s \<Rightarrow> 'k \<Rightarrow> 't" and look :: "'k \<Rightarrow> ('s, 't) go"
  assumes key_inj: "key k = key k' \<longleftrightarrow> k = k'"
    and look_truth: "laws \<Longrightarrow> look k s = (r, s') \<Longrightarrow> truth s' = truth s"
    and look_cache: "laws \<Longrightarrow> look k s = (r, s') \<Longrightarrow>
       c s' = c s \<or> c s (key k) = None \<and> (\<exists>v. c s' = (c s)(key k \<mapsto> v) \<and> dec v = Inr (truth s k))"
    and look_value: "laws \<Longrightarrow> look k s = (Ok t, s') \<Longrightarrow> (\<exists>v. c s (key k) = Some v \<and> dec v = Inr t) \<or> t = truth s k"
begin

lemma look_keeps:
  assumes "laws" "coherent c key dec truth U s" "look k s = (r, s')"
  shows "coherent c key dec truth U s'"
  unfolding coherent_def
proof (intro allI impI)
  fix k' v assume k': "k' \<notin> U" and v: "c s' (key k') = Some v"
  from look_cache [OF assms(1,3)] show "dec v = Inr (truth s' k')"
    using assms(2) k' v look_truth [OF assms(1,3)]
    by (cases "k' = k") (auto simp: coherent_def key_inj)
qed

lemma look_answers:
  assumes "laws" "coherent c key dec truth U s" "k \<notin> U" "look k s = (Ok t, s')"
  shows "t = truth s k"
  using look_value [OF assms(1,4)] assms(2,3) by (auto simp: coherent_def)

lemma preserves_look: "laws \<Longrightarrow> preserves (coherent c key dec truth U) (look k)"
  by (rule preservesI) (rule look_keeps)

end

text \<open>A lookup by \<open>getCache\<close> keeps the contract when the function it calls reads the database.\<close>

lemma getCache_contract:
  assumes V: "rc_view c R" and Q: "rc_silent q R" and C: "codec_laws cod" and S: "silent c fn"
    and F: "\<And>s1 t s2. fn s1 = (Ok t, s2) \<Longrightarrow> q s1 = q s \<Longrightarrow> t = tr"
    and run: "getCache R cod k ex fn s = (r, s')"
  shows "c s' = c s \<or> c s k = None \<and> (\<exists>v. c s' = (c s)(k \<mapsto> v) \<and> snd cod v = Inr tr)"
    and "r = Ok t \<Longrightarrow> (\<exists>v. c s k = Some v \<and> snd cod v = Inr t) \<or> t = tr"
  using getCache_run [OF V S Q run] C F unfolding codec_laws_def
  by (fastforce simp del: fun_upd_apply)+

section \<open>Reads that may find nothing\<close>

text \<open>
  A lookup whose record may be missing: when the cached value, if there is one, is a good record, and
  the database gives a good record or an error, then the lookup gives a good record or an error, and
  what it writes is one.
\<close>

lemma cached_read:
  assumes V: "rc_view c R" and C: "silent c fn" and Q: "rc_silent q R" "silent q fn" and cod: "codec_laws cod"
    and F: "\<forall>s1 t s2. fn s1 = (Ok t, s2) \<and> q s1 = q s \<longrightarrow> good t"
    and cached: "\<forall>v. c s k = Some v \<longrightarrow> (\<exists>t. snd cod v = Inr t \<and> good t)"
    and run: "getCache R cod k ex fn s = (r, s')"
  shows "q s' = q s" "r = Ok t \<Longrightarrow> good t"
    "c s' = c s \<or> (\<exists>v t. c s' = (c s)(k \<mapsto> v) \<and> snd cod v = Inr t \<and> good t)"
proof -
  show "q s' = q s" by (rule silentD [OF silent_getCache [OF Q] run])
  note g = getCache_run [OF V C Q(1) run]
  show "r = Ok t \<Longrightarrow> good t"
    using g F cached by (elim disjE conjE exE) (auto simp del: fun_upd_apply)
  show "c s' = c s \<or> (\<exists>v t. c s' = (c s)(k \<mapsto> v) \<and> snd cod v = Inr t \<and> good t)"
    using g
  proof (elim disjE conjE exE)
    fix s1 s2 t v assume "fn s1 = (Ok t, s2)" "q s1 = q s" "fst cod t = Inr v" "c s' = (c s)(k \<mapsto> v)"
    with F cod show ?thesis unfolding codec_laws_def by blast
  qed auto
qed

text \<open>Every record of a batch is the result of a lookup of one of its keys.\<close>

lemma batch_read:
  assumes look: "\<forall>s k r s'. I s \<and> getCache R cod (key k) ex (fns k) s = (r, s') \<longrightarrow> I s' \<and> (\<forall>t. r = Ok t \<longrightarrow> good k t)"
    and I: "I s" and run: "batchGetCache2 R cod ex key fns ks s = (r, s')"
  shows "I s'" "r = Ok ts \<Longrightarrow> \<forall>t \<in> set ts. \<exists>k \<in> set ks. good k t"
proof -
  have "I s' \<and> (\<forall>ts. r = Ok ts \<longrightarrow> (\<forall>t \<in> set ts. \<exists>k \<in> set ks. good k t))"
    using I run
  proof (induction ks arbitrary: s r s')
    case (Cons k ks)
    obtain r1 s1 where g: "getCache R cod (key k) ex (fns k) s = (r1, s1)" by (cases "getCache R cod (key k) ex (fns k) s")
    from look Cons.prems(1) g have l: "I s1 \<and> (\<forall>t. r1 = Ok t \<longrightarrow> good k t)" by blast
    then have I1: "I s1" by simp
    show ?case
    proof (cases r1)
      case (Ok t)
      obtain r2 s2 where b: "batchGetCache2 R cod ex key fns ks s1 = (r2, s2)" by (cases "batchGetCache2 R cod ex key fns ks s1")
      from Cons.prems(2) g Ok b have e: "s' = s2" "\<And>ts. r = Ok ts \<Longrightarrow> \<exists>rest. r2 = Ok rest \<and> ts = t # rest"
        by (auto simp: attemptG_def bindG_def retG_def split: outcome.splits)
      from Cons.IH [OF I1 b] l e Ok show ?thesis by force
    next
      case (Err e)
      obtain r2 s2 where b: "batchGetCache2 R cod ex key fns ks s1 = (r2, s2)" by (cases "batchGetCache2 R cod ex key fns ks s1")
      from Cons.prems(2) g Err b have "(r, s') = (if err_not_found e then (r2, s2) else (Err e, s1))"
        by (auto simp: attemptG_def bindG_def failG_def)
      with Cons.IH [OF I1 b] I1 show ?thesis by (auto split: if_splits)
    next
      case (Panic p)
      with Cons.prems(2) g I1 show ?thesis by (auto simp: attemptG_def bindG_def)
    qed
  qed (auto simp: retG_def)
  then show "I s'" "r = Ok ts \<Longrightarrow> \<forall>t \<in> set ts. \<exists>k \<in> set ks. good k t" by auto
qed

lemma silent_batches [quiet]:
  "rc_silent q R \<Longrightarrow> (\<And>k. silent q (fns k)) \<Longrightarrow> silent q (batchGetCache2 R cod ex key fns ks)"
  "rc_silent q R \<Longrightarrow> (\<And>k. silent q (fns k)) \<Longrightarrow> silent q (batchGetCacheWaitGroup R cod ex key fns ks)"
  by (induction ks) (auto intro!: quiet)

section \<open>In memory\<close>

definition mem_rc :: "'w cstore rc_api" where
  "mem_rc = \<lparr> rcGet = (\<lambda>k (m, w). (Ok (m k), m, w)), rcPut = (\<lambda>k v t (m, w). (Ok (), m(k \<mapsto> v), w)),
     rcTagAsDeleted = (\<lambda>k (m, w). (Ok (), m(k := None), w)) \<rparr>"

lemma mem_rc_laws: "rc_laws mem_rc" "rc_reliable mem_rc"
  by (auto simp: rc_laws_def rc_reliable_def mem_rc_def)

text \<open>A way to write lists of strings.\<close>

definition enc_str :: "string \<Rightarrow> string" where
  "enc_str s = concat (map (\<lambda>c. [CHR ''c'', c]) s) @ ''s''"

definition enc_strs :: "string list \<Rightarrow> string" where
  "enc_strs xs = concat (map enc_str xs) @ ''.''"

fun dec_strs :: "string \<Rightarrow> string \<Rightarrow> string list" where
  "dec_strs cur [] = []"
| "dec_strs cur [t] = []"
| "dec_strs cur (t # c # r) = (if t = CHR ''c'' then dec_strs (cur @ [c]) r else cur # dec_strs [] (c # r))"

definition strs_codec :: "string list codec" where
  "strs_codec = (\<lambda>xs. Inr (enc_strs xs), \<lambda>v. Inr (dec_strs [] v))"

lemma dec_enc_str: "r \<noteq> [] \<Longrightarrow> dec_strs cur (enc_str s @ r) = (cur @ s) # dec_strs [] r"
  by (induction s arbitrary: cur) (auto simp: enc_str_def neq_Nil_conv)

lemma dec_enc_strs: "dec_strs [] (enc_strs xs) = xs"
proof (induction xs)
  case (Cons x xs)
  have "enc_strs (x # xs) = enc_str x @ enc_strs xs" by (simp add: enc_strs_def)
  moreover have "enc_strs xs \<noteq> []" by (simp add: enc_strs_def)
  ultimately show ?case using Cons by (simp add: dec_enc_str)
qed (simp add: enc_strs_def)

lemma strs_codec_laws: "codec_laws strs_codec"
  by (auto simp: codec_laws_def strs_codec_def dec_enc_strs) (simp add: enc_strs_def)

end
