(* ===== verification/FriendFacts.thy ===== *)
theory FriendFacts
  imports FriendServer CacheFacts
begin

text \<open>
  Facts of the friend service: the relation of friends never holds a user with itself or a pair
  twice, the cached friend lists are those of the database, an agreed request makes both
  friends.  The invariant is proved operation by operation (\<open>preserves\<close>) and for every reachable
  state by rule induction over \<open>friend_step\<close>.
\<close>

section \<open>State and assumptions\<close>

definition friend_pair :: "FriendModel \<Rightarrow> string \<times> string" where
  "friend_pair f = (fmOwnerUserID f, fmFriendUserID f)"

definition request_pair :: "FriendRequestModel \<Rightarrow> string \<times> string" where
  "request_pair r = (frFromUserID r, frToUserID r)"

definition black_pair :: "BlackModel \<Rightarrow> string \<times> string" where
  "black_pair b = (bmOwnerUserID b, bmBlockUserID b)"

definition fdocs :: "'w friend_state \<Rightarrow> FriendModel list \<times> FriendRequestModel list \<times> BlackModel list" where
  "fdocs s = (fst (fsFriends s), fst (fsRequests s), fst (fsBlacks s))"

definition fcache :: "'w friend_state \<Rightarrow> string \<rightharpoonup> string" where
  "fcache s = fst (fsCache s)"

text \<open>The collections have their unique indexes, transactions are supported, the cache deletes.\<close>

definition friend_env :: "'w friend_db \<Rightarrow> bool" where
  "friend_env D \<longleftrightarrow> coll_laws (fdFriend D) friend_pair \<and> coll_laws (fdRequest D) request_pair \<and> coll_laws (fdBlack D) black_pair
     \<and> rc_laws (fdRc D) \<and> rc_reliable (fdRc D) \<and> codec_laws (fdIDsJson D) \<and> tx_laws fdocs fcache (fdTx D) \<and> tx_on (fdTx D)"

definition friend_ids :: "'w friend_state \<Rightarrow> string \<Rightarrow> string list" where
  "friend_ids s u = map fmFriendUserID (filter (\<lambda>f. fmOwnerUserID f = u) (fst (fsFriends s)))"

definition black_ids :: "'w friend_state \<Rightarrow> string \<Rightarrow> string list" where
  "black_ids s u = map bmBlockUserID (filter (\<lambda>b. bmOwnerUserID b = u) (fst (fsBlacks s)))"

definition are_friends :: "'w friend_state \<Rightarrow> string \<Rightarrow> string \<Rightarrow> bool" where
  "are_friends s u v \<longleftrightarrow> (u, v) \<in> friend_pair ` set (fst (fsFriends s))"

definition no_self :: "('d \<Rightarrow> 'k \<times> 'k) \<Rightarrow> 'd list \<Rightarrow> bool" where
  "no_self key ds \<longleftrightarrow> (\<forall>d \<in> set ds. fst (key d) \<noteq> snd (key d))"

definition docs_wf :: "FriendModel list \<times> FriendRequestModel list \<times> BlackModel list \<Rightarrow> bool" where
  "docs_wf q \<longleftrightarrow> (case q of (fs, rs, bs) \<Rightarrow> unique_keys friend_pair fs \<and> no_self friend_pair fs
     \<and> unique_keys request_pair rs \<and> no_self request_pair rs \<and> unique_keys black_pair bs)"

abbreviation friends_coherent :: "'w friend_db \<Rightarrow> 'w friend_state \<Rightarrow> bool" where
  "friends_coherent D \<equiv> coherent fcache getFriendIDsKey (snd (fdIDsJson D)) friend_ids {}"

definition friend_inv :: "'w friend_db \<Rightarrow> 'w friend_state \<Rightarrow> bool" where
  "friend_inv D s \<longleftrightarrow> docs_wf (fdocs s) \<and> friends_coherent D s"

lemma are_friends_ids: "are_friends s u v \<longleftrightarrow> v \<in> set (friend_ids s u)"
  by (force simp: are_friends_def friend_ids_def friend_pair_def)

lemma fdocs_eqD:
  assumes "fdocs s' = fdocs s"
  shows "fst (fsFriends s') = fst (fsFriends s)" "fst (fsRequests s') = fst (fsRequests s)" "fst (fsBlacks s') = fst (fsBlacks s)"
    "friend_ids s' = friend_ids s" "are_friends s' = are_friends s" "black_ids s' = black_ids s"
  using assms by (auto simp: fdocs_def friend_ids_def black_ids_def are_friends_def fun_eq_iff)

section \<open>The parts of the state\<close>

lemmas part_defs = onFriends_def onRequests_def onBlacks_def onCache_def onWorld_def

lemma silent_world [quiet]: "silent fdocs (onWorld m)" "silent fcache (onWorld m)"
  unfolding part_defs by (auto intro!: silent_zoom_other simp: fdocs_def fcache_def)

lemma silent_cache_part [quiet]: "silent fcache (onFriends m1)" "silent fcache (onRequests m2)" "silent fcache (onBlacks m3)"
  "silent fdocs (onCache m4)"
  unfolding part_defs by (auto intro!: silent_zoom_other simp: fdocs_def fcache_def)

lemma silent_read [quiet]:
  "silent fst m1 \<Longrightarrow> silent fdocs (onFriends m1)" "silent fst m2 \<Longrightarrow> silent fdocs (onRequests m2)"
  "silent fst m3 \<Longrightarrow> silent fdocs (onBlacks m3)"
  unfolding part_defs by (rule silentI; clarsimp simp: zoomG_iff fdocs_def; drule (1) silent_fstD; simp)+

lemma cacheOf_zoom: "cacheOf D = zoom_rc fsCache (\<lambda>t s. s\<lparr> fsCache := t \<rparr>) (fdRc D)"
  by (simp add: cacheOf_def zoom_rc_def onCache_def)

lemma cacheOf_view: "rc_laws (fdRc D) \<Longrightarrow> rc_view fcache (cacheOf D)"
proof -
  assume "rc_laws (fdRc D)"
  from rc_view_zoom [OF rc_laws_view [OF this], of fsCache "\<lambda>t s. s\<lparr> fsCache := t \<rparr>"]
  have "rc_view (\<lambda>s. fst (fsCache s)) (cacheOf D)" by (simp add: cacheOf_zoom)
  then show ?thesis by (simp add: fcache_def [abs_def])
qed

lemma cacheOf_silent: "rc_silent fdocs (cacheOf D)" "rc_silent friend_ids (cacheOf D)" "rc_silent black_ids (cacheOf D)"
  unfolding cacheOf_zoom
  by (auto intro!: rc_silent_zoom simp: fdocs_def friend_ids_def black_ids_def fun_eq_iff)

lemma cacheOf_steady: "rc_reliable (fdRc D) \<Longrightarrow> rc_steady (cacheOf D)"
  by (simp add: cacheOf_zoom rc_steady_zoom)

lemma silent_execDel [quiet]: "silent fdocs (execDel D ks)"
  by (simp add: execDel_def silent_ExecDel cacheOf_silent)

section \<open>Cached lookups\<close>

lemma friend_ids_docs: "silent fst m \<Longrightarrow> silent friend_ids (onFriends m)" "silent fst m2 \<Longrightarrow> silent black_ids (onBlacks m2)"
  unfolding part_defs
  by (rule silentI; clarsimp simp: zoomG_iff friend_ids_def black_ids_def fun_eq_iff; drule (1) silent_fstD; simp)+

interpretation FriendIDs: cached_lookup "friend_env D" fcache getFriendIDsKey "snd (fdIDsJson D)" friend_ids
  "FriendCacheRedis_GetFriendIDs D" for D :: "'w friend_db"
proof
  show "(getFriendIDsKey k = getFriendIDsKey k') = (k = k')" for k k' by (simp add: getFriendIDsKey_def)
  fix k s r s' and t :: "string list" assume E: "friend_env D"
  let ?fn = "onFriends (FriendMgo_FindFriendUserIDs (fdFriend D) k)"
  from E have L: "coll_laws (fdFriend D) friend_pair" and C: "codec_laws (fdIDsJson D)" and V: "rc_view fcache (cacheOf D)"
    by (simp_all add: friend_env_def cacheOf_view)
  have S: "silent friend_ids ?fn" "silent fcache ?fn"
    by (auto intro!: friend_ids_docs silent_Find_field silent_cache_part L simp: FriendMgo_FindFriendUserIDs_def)
  have F: "t = friend_ids s k" if "?fn s1 = (Ok t, s2)" "friend_ids s1 = friend_ids s" for s s1 t s2
    using that by (auto simp: onFriends_def zoomG_iff FriendMgo_FindFriendUserIDs_def friend_ids_def fun_eq_iff
      dest!: Find_field_Ok [OF L])
  show "FriendCacheRedis_GetFriendIDs D k s = (r, s') \<Longrightarrow> friend_ids s' = friend_ids s"
    unfolding FriendCacheRedis_GetFriendIDs_def by (rule silentD [OF silent_getCache [OF cacheOf_silent(2) S(1)]])
  show "FriendCacheRedis_GetFriendIDs D k s = (r, s') \<Longrightarrow> fcache s' = fcache s \<or> fcache s (getFriendIDsKey k) = None \<and>
      (\<exists>v. fcache s' = (fcache s)(getFriendIDsKey k \<mapsto> v) \<and> snd (fdIDsJson D) v = Inr (friend_ids s k))"
    unfolding FriendCacheRedis_GetFriendIDs_def by (rule getCache_contract(1) [OF V cacheOf_silent(2) C S(2) F])
  show "FriendCacheRedis_GetFriendIDs D k s = (Ok t, s') \<Longrightarrow>
      (\<exists>v. fcache s (getFriendIDsKey k) = Some v \<and> snd (fdIDsJson D) v = Inr t) \<or> t = friend_ids s k"
    unfolding FriendCacheRedis_GetFriendIDs_def by (rule getCache_contract(2) [OF V cacheOf_silent(2) C S(2) F _ refl])
qed

lemma silent_GetFriendIDs [quiet]: "friend_env D \<Longrightarrow> silent fdocs (FriendCacheRedis_GetFriendIDs D u)"
  unfolding FriendCacheRedis_GetFriendIDs_def FriendMgo_FindFriendUserIDs_def friend_env_def
  by (intro silent_getCache cacheOf_silent silent_read silent_Find_field) auto

text \<open>Lookups of blacklists leave the friend lists in the cache alone.\<close>

interpretation BlackIDs: cached_lookup "friend_env D" fcache getBlackIDsKey "snd (fdIDsJson D)" black_ids
  "BlackCacheRedis_GetBlackIDs D" for D :: "'w friend_db"
proof
  show "(getBlackIDsKey k = getBlackIDsKey k') = (k = k')" for k k' by (simp add: getBlackIDsKey_def)
  fix k s r s' and t :: "string list" assume E: "friend_env D"
  let ?fn = "onBlacks (BlackMgo_FindBlackUserIDs (fdBlack D) k)"
  from E have L: "coll_laws (fdBlack D) black_pair" and C: "codec_laws (fdIDsJson D)" and V: "rc_view fcache (cacheOf D)"
    by (simp_all add: friend_env_def cacheOf_view)
  have S: "silent black_ids ?fn" "silent fcache ?fn"
    by (auto intro!: friend_ids_docs silent_Find_field silent_cache_part L simp: BlackMgo_FindBlackUserIDs_def)
  have F: "t = black_ids s k" if "?fn s1 = (Ok t, s2)" "black_ids s1 = black_ids s" for s s1 t s2
    using that by (auto simp: onBlacks_def zoomG_iff BlackMgo_FindBlackUserIDs_def black_ids_def fun_eq_iff
      dest!: Find_field_Ok [OF L])
  show "BlackCacheRedis_GetBlackIDs D k s = (r, s') \<Longrightarrow> black_ids s' = black_ids s"
    unfolding BlackCacheRedis_GetBlackIDs_def by (rule silentD [OF silent_getCache [OF cacheOf_silent(3) S(1)]])
  show "BlackCacheRedis_GetBlackIDs D k s = (r, s') \<Longrightarrow> fcache s' = fcache s \<or> fcache s (getBlackIDsKey k) = None \<and>
      (\<exists>v. fcache s' = (fcache s)(getBlackIDsKey k \<mapsto> v) \<and> snd (fdIDsJson D) v = Inr (black_ids s k))"
    unfolding BlackCacheRedis_GetBlackIDs_def by (rule getCache_contract(1) [OF V cacheOf_silent(3) C S(2) F])
  show "BlackCacheRedis_GetBlackIDs D k s = (Ok t, s') \<Longrightarrow>
      (\<exists>v. fcache s (getBlackIDsKey k) = Some v \<and> snd (fdIDsJson D) v = Inr t) \<or> t = black_ids s k"
    unfolding BlackCacheRedis_GetBlackIDs_def by (rule getCache_contract(2) [OF V cacheOf_silent(3) C S(2) F _ refl])
qed

lemma silent_GetBlackIDs [quiet]: "friend_env D \<Longrightarrow> silent fdocs (BlackCacheRedis_GetBlackIDs D u)"
  unfolding BlackCacheRedis_GetBlackIDs_def BlackMgo_FindBlackUserIDs_def friend_env_def
  by (intro silent_getCache cacheOf_silent silent_read silent_Find_field) auto

section \<open>The invariant, operation by operation\<close>

definition ids_of :: "FriendModel list \<Rightarrow> string \<Rightarrow> string list" where
  "ids_of fs u = map fmFriendUserID (filter (\<lambda>f. fmOwnerUserID f = u) fs)"

definition friends_wf :: "FriendModel list \<Rightarrow> bool" where
  "friends_wf fs \<longleftrightarrow> unique_keys friend_pair fs \<and> no_self friend_pair fs"

definition requests_wf :: "FriendRequestModel list \<Rightarrow> bool" where
  "requests_wf rs \<longleftrightarrow> unique_keys request_pair rs \<and> no_self request_pair rs"

lemma friend_ids_of: "friend_ids s = ids_of (fst (fsFriends s))"
  by (simp add: friend_ids_def ids_of_def fun_eq_iff)

lemma friend_inv_iff:
  "friend_inv D s \<longleftrightarrow> friends_wf (fst (fsFriends s)) \<and> requests_wf (fst (fsRequests s)) \<and> unique_keys black_pair (fst (fsBlacks s))
     \<and> friends_coherent D s"
  by (auto simp: friend_inv_def docs_wf_def fdocs_def friends_wf_def requests_wf_def)

lemma coherent_cong: "fcache s' = fcache s \<Longrightarrow> friend_ids s' = friend_ids s \<Longrightarrow> friends_coherent D s' = friends_coherent D s"
  by (simp add: coherent_def)

lemma quiet_inv: "silent fdocs m \<Longrightarrow> silent fcache m \<Longrightarrow> preserves (friend_inv D) m"
  by (rule preservesI) (auto simp: friend_inv_def coherent_def dest!: silentD dest: fdocs_eqD(4))

lemma cache_inv:
  assumes "silent fdocs m" "\<And>s r s'. friends_coherent D s \<Longrightarrow> m s = (r, s') \<Longrightarrow> friends_coherent D s'"
  shows "preserves (friend_inv D) m"
  using assms by (intro preservesI) (auto simp: friend_inv_def dest: silentD)

lemma world_inv [pres]: "preserves (friend_inv D) (onWorld m)"
  by (rule quiet_inv) (rule silent_world)+

lemma lookup_inv [pres]:
  assumes E: "friend_env D"
  shows "preserves (friend_inv D) (FriendCacheRedis_GetFriendIDs D u)"
    and "preserves (friend_inv D) (BlackCacheRedis_GetBlackIDs D u)"
proof -
  show "preserves (friend_inv D) (FriendCacheRedis_GetFriendIDs D u)"
    by (rule cache_inv [OF silent_GetFriendIDs [OF E]]) (rule FriendIDs.look_keeps [OF E])
  show "preserves (friend_inv D) (BlackCacheRedis_GetBlackIDs D u)"
  proof (rule cache_inv [OF silent_GetBlackIDs [OF E]])
    fix s r s' assume C: "friends_coherent D s" and run: "BlackCacheRedis_GetBlackIDs D u s = (r, s')"
    have "friend_ids s' = friend_ids s"
      using silentD [OF silent_GetBlackIDs [OF E] run] by (rule fdocs_eqD(4))
    moreover have "fcache s' (getFriendIDsKey k) = fcache s (getFriendIDsKey k)" for k
      using BlackIDs.look_cache [OF E run] by (auto simp: getFriendIDsKey_def getBlackIDsKey_def)
    ultimately show "friends_coherent D s'" using C by (simp add: coherent_def)
  qed
qed

lemma execDel_inv [pres]:
  assumes E: "friend_env D"
  shows "preserves (friend_inv D) (execDel D ks)"
proof (rule cache_inv [OF silent_execDel])
  fix s r s' assume C: "friends_coherent D s" and run: "execDel D ks s = (r, s')"
  have V: "rc_view fcache (cacheOf D)" using E by (simp add: friend_env_def cacheOf_view)
  show "friends_coherent D s'"
    by (rule coherent_same [OF C]) (use run ExecDel_run(2) [OF V] silentD [OF silent_execDel run] in \<open>auto simp: execDel_def dest: fdocs_eqD(4)\<close>)
qed

lemma requests_inv [pres]:
  assumes "preserves (\<lambda>s. requests_wf (fst s)) m"
  shows "preserves (friend_inv D) (onRequests m)"
proof (rule preservesI)
  fix s r s' assume I: "friend_inv D s" and run: "onRequests m s = (r, s')"
  then obtain t where m: "m (fsRequests s) = (r, t)" and s': "s' = s\<lparr> fsRequests := t \<rparr>" by (auto simp: onRequests_def zoomG_iff)
  from preservesD [OF assms _ m] I s' show "friend_inv D s'"
    by (simp add: friend_inv_iff coherent_def fcache_def friend_ids_def)
qed

lemma blacks_inv [pres]:
  assumes "preserves (\<lambda>s. unique_keys black_pair (fst s)) m"
  shows "preserves (friend_inv D) (onBlacks m)"
proof (rule preservesI)
  fix s r s' assume I: "friend_inv D s" and run: "onBlacks m s = (r, s')"
  then obtain t where m: "m (fsBlacks s) = (r, t)" and s': "s' = s\<lparr> fsBlacks := t \<rparr>" by (auto simp: onBlacks_def zoomG_iff)
  from preservesD [OF assms _ m] I s' show "friend_inv D s'"
    by (simp add: friend_inv_iff coherent_def fcache_def friend_ids_def)
qed

text \<open>A write to the friends, followed by the deletion of the lists it may have changed.\<close>

lemma del_inv:
  assumes E: "friend_env D" and C: "friends_coherent D s" and s1: "fcache s1 = fcache s" "docs_wf (fdocs s1)"
    and ids: "\<And>k. k \<notin> V \<Longrightarrow> friend_ids s1 k = friend_ids s k" and K: "getFriendIDsKey ` V \<subseteq> set ks"
    and d: "execDel D ks s1 = (r, s')"
  shows "friend_inv D s'"
proof -
  have V: "rc_view fcache (cacheOf D)" and R: "rc_steady (cacheOf D)"
    using E by (simp_all add: friend_env_def cacheOf_view cacheOf_steady)
  have q: "fdocs s' = fdocs s1" using silentD [OF silent_execDel d] .
  have "friends_coherent D s'"
  proof (rule coherent_deleted [where s = s and U = "{}" and V = V])
    show "fcache s' \<subseteq>\<^sub>m fcache s" using ExecDel_run(2) [OF V d [unfolded execDel_def]] s1 by simp
    show "friend_ids s' k = friend_ids s k" if "k \<notin> V" for k
      using fdocs_eqD(4) [OF q] ids [OF that] by simp
    show "fcache s' (getFriendIDsKey k) = None" if "k \<in> {} \<union> V" for k
      by (rule ExecDel_steady [OF V R d [unfolded execDel_def]]) (use that K in auto)
  qed (rule C)
  with q s1 show ?thesis by (simp add: friend_inv_def)
qed

definition friend_write :: "string set \<Rightarrow> ('w, 'a) friend_op \<Rightarrow> bool" where
  "friend_write V m \<longleftrightarrow> (\<forall>s r t. m s = (r, t) \<longrightarrow> friends_wf (fst s) \<longrightarrow>
     friends_wf (fst t) \<and> (\<forall>k. k \<notin> V \<longrightarrow> ids_of (fst t) k = ids_of (fst s) k) \<and> ((\<forall>a. r \<noteq> Ok a) \<longrightarrow> fst t = fst s))"

lemma friend_write_inv:
  assumes E: "friend_env D" and W: "friend_write V m" and K: "getFriendIDsKey ` V \<subseteq> set ks"
  shows "preserves (friend_inv D) (bindG (onFriends m) (\<lambda>_. execDel D ks))"
proof (rule preservesI)
  fix s r s' assume I: "friend_inv D s" and run: "bindG (onFriends m) (\<lambda>_. execDel D ks) s = (r, s')"
  obtain r1 t where m: "m (fsFriends s) = (r1, t)" by (cases "m (fsFriends s)")
  let ?s1 = "s\<lparr> fsFriends := t \<rparr>"
  from m have o1: "onFriends m s = (r1, ?s1)" by (simp add: onFriends_def zoomG_run)
  from W m I have w: "friends_wf (fst t)" "\<And>k. k \<notin> V \<Longrightarrow> ids_of (fst t) k = ids_of (fst (fsFriends s)) k"
    "(\<forall>a. r1 \<noteq> Ok a) \<longrightarrow> fst t = fst (fsFriends s)"
    unfolding friend_write_def friend_inv_iff by blast+
  show "friend_inv D s'"
  proof (cases "\<exists>a. r1 = Ok a")
    case True
    with run o1 have d: "execDel D ks ?s1 = (r, s')" by (auto simp: bindG_run_Ok)
    show ?thesis
      by (rule del_inv [OF E _ _ _ _ K d, where s = s])
        (use I w in \<open>auto simp: friend_inv_iff docs_wf_def fdocs_def fcache_def friend_ids_of friends_wf_def requests_wf_def\<close>)
  next
    case False
    with w(3) have "fst t = fst (fsFriends s)" by blast
    moreover from False run o1 have "s' = ?s1" by (cases r1) (auto simp: bindG_def)
    ultimately show ?thesis using I by (simp add: friend_inv_iff coherent_def fcache_def friend_ids_def)
  qed
qed

lemma friend_inv_cong: "fdocs s' = fdocs s \<Longrightarrow> fcache s' \<subseteq>\<^sub>m fcache s \<Longrightarrow> friend_inv D s \<Longrightarrow> friend_inv D s'"
  by (auto simp: friend_inv_def dest: fdocs_eqD(4) intro: coherent_same)

lemma deletes_quiet: "silent fcache m \<Longrightarrow> preserves (\<lambda>s. fcache s \<subseteq>\<^sub>m c0) m"
  by (rule silent_pres [where P = "\<lambda>c. c \<subseteq>\<^sub>m c0"])

lemma deletes_execDel: "friend_env D \<Longrightarrow> preserves (\<lambda>s. fcache s \<subseteq>\<^sub>m c0) (execDel D ks)"
  unfolding execDel_def
  by (rule preservesI) (auto simp: friend_env_def dest: cacheOf_view ExecDel_run(2) intro: map_le_trans)

text \<open>A transaction keeps the invariant when its function, once it succeeds, does and only deletes from the cache.\<close>

lemma tx_inv:
  assumes E: "friend_env D" and keep: "\<And>c0. preserves (\<lambda>s. fcache s \<subseteq>\<^sub>m c0) fn"
    and ok: "\<And>s s'. friend_inv D s \<Longrightarrow> fn s = (Ok (), s') \<Longrightarrow> friend_inv D s'"
  shows "preserves (friend_inv D) (Mongo_Transaction (fdTx D) fn)"
proof (rule preservesI)
  fix s r s' assume I: "friend_inv D s" and run: "Mongo_Transaction (fdTx D) fn s = (r, s')"
  from E have T: "tx_laws fdocs fcache (fdTx D)" "tx_on (fdTx D)" by (simp_all add: friend_env_def)
  have "fdocs s' = fdocs s \<and> fcache s' \<subseteq>\<^sub>m fcache s \<or>
    (\<exists>s1 s2. fdocs s1 = fdocs s \<and> fcache s1 \<subseteq>\<^sub>m fcache s \<and> fn s1 = (Ok (), s2) \<and> fdocs s' = fdocs s2 \<and> fcache s' = fcache s2)"
    by (rule Transaction_any [OF T run, where I = "\<lambda>cm. cm \<subseteq>\<^sub>m fcache s"]) (auto dest: preservesD [OF keep])
  then show "friend_inv D s'"
  proof (elim disjE exE conjE)
    fix s1 s2 assume "fdocs s1 = fdocs s" "fcache s1 \<subseteq>\<^sub>m fcache s" and f: "fn s1 = (Ok (), s2)"
      and s': "fdocs s' = fdocs s2" "fcache s' = fcache s2"
    from friend_inv_cong [OF this(1,2) I] have "friend_inv D s2" by (rule ok [OF _ f])
    with s' show ?thesis by (auto intro: friend_inv_cong)
  qed (rule friend_inv_cong [OF _ _ I])
qed

section \<open>The documents under the operations\<close>

lemma ids_of_pairs: "ids_of fs u = map snd (filter (\<lambda>p. fst p = u) (map friend_pair fs))"
  by (induction fs) (auto simp: ids_of_def friend_pair_def)

lemma no_self_map: "no_self key ds \<longleftrightarrow> (\<forall>p \<in> set (map key ds). fst p \<noteq> snd p)"
  by (simp add: no_self_def)

lemma no_self_append: "no_self key (ds @ es) \<longleftrightarrow> no_self key ds \<and> no_self key es"
  by (auto simp: no_self_def)

lemma no_self_take: "no_self key ds \<Longrightarrow> no_self key (take n ds)"
  by (auto simp: no_self_def dest: in_set_takeD)

lemma same_pairs:
  "map friend_pair fs' = map friend_pair fs \<Longrightarrow> friends_wf fs' = friends_wf fs \<and> ids_of fs' = ids_of fs"
  by (simp only: friends_wf_def unique_keys_def no_self_map ids_of_pairs fun_eq_iff) simp

lemma request_same_pairs:
  "map request_pair rs' = map request_pair rs \<Longrightarrow> requests_wf rs' = requests_wf rs"
  by (simp only: requests_wf_def unique_keys_def no_self_map)

lemma write_remark:
  assumes L: "coll_laws C friend_pair"
  shows "friend_write V (FriendMgo_UpdateRemark C u v remark)"
  unfolding friend_write_def FriendMgo_UpdateRemark_def
proof (intro allI impI)
  fix s r t assume run: "mgo_UpdateOne C (friend_is u v) (\<lambda>f. f\<lparr> fmRemark := remark \<rparr>) True s = (r, t)" and w: "friends_wf (fst s)"
  have "map friend_pair (update_first (friend_is u v) (\<lambda>f. f\<lparr> fmRemark := remark \<rparr>) fs) = map friend_pair fs" for fs
    by (rule map_update_first) (simp add: friend_pair_def)
  with UpdateOne_any [OF L run] w
  show "friends_wf (fst t) \<and> (\<forall>k. k \<notin> V \<longrightarrow> ids_of (fst t) k = ids_of (fst s) k) \<and> ((\<forall>a. r \<noteq> Ok a) \<longrightarrow> fst t = fst s)"
    using same_pairs [of "fst t" "fst s"] by auto
qed

lemma write_update:
  assumes L: "coll_laws C friend_pair"
  shows "friend_write V (FriendMgo_UpdateFriends C u vs val)"
  unfolding friend_write_def FriendMgo_UpdateFriends_def
proof (intro allI impI)
  let ?P = "\<lambda>f. fmOwnerUserID f = u \<and> fmFriendUserID f \<in> set vs"
  fix s r t assume run: "(if length vs = 0 then retG () else bindG (mgo_UpdateMany C ?P (apply_update val)) (\<lambda>_. retG ())) s = (r, t)"
    and w: "friends_wf (fst s)"
  have p: "map friend_pair (update_all ?P (apply_update val) fs) = map friend_pair fs" for fs
    by (rule map_update_all) (simp add: friend_pair_def apply_update_def)
  have "fst t = fst s \<or> (\<exists>a. r = Ok a) \<and> fst t = update_all ?P (apply_update val) (fst s)"
  proof (cases "vs = []")
    case False
    obtain r1 t1 where m: "mgo_UpdateMany C ?P (apply_update val) s = (r1, t1)" by (cases "mgo_UpdateMany C ?P (apply_update val) s")
    from UpdateMany_any [OF L m] False run m show ?thesis by (auto simp: bindG_def retG_def)
  qed (use run in \<open>auto simp: retG_def\<close>)
  with p w show "friends_wf (fst t) \<and> (\<forall>k. k \<notin> V \<longrightarrow> ids_of (fst t) k = ids_of (fst s) k) \<and> ((\<forall>a. r \<noteq> Ok a) \<longrightarrow> fst t = fst s)"
    using same_pairs [of "fst t" "fst s"] by auto
qed

lemma write_delete:
  assumes L: "coll_laws C friend_pair"
  shows "friend_write {u} (FriendMgo_Delete C u vs)"
  unfolding friend_write_def FriendMgo_Delete_def
proof (intro allI impI)
  let ?P = "\<lambda>f. fmOwnerUserID f = u \<and> fmFriendUserID f \<in> set vs"
  fix s r t assume run: "mgo_DeleteOne C ?P s = (r, t)" and w: "friends_wf (fst s)"
  have "friends_wf (remove_first ?P (fst s))"
    using w distinct_remove_first [of friend_pair "fst s" ?P] set_remove_first [of ?P "fst s"]
    by (auto simp: friends_wf_def unique_keys_def no_self_def)
  moreover have "ids_of (remove_first ?P (fst s)) k = ids_of (fst s) k" if "k \<noteq> u" for k
    unfolding ids_of_def by (subst filter_remove_first) (use that in auto)
  ultimately show "friends_wf (fst t) \<and> (\<forall>k. k \<notin> {u} \<longrightarrow> ids_of (fst t) k = ids_of (fst s) k) \<and> ((\<forall>a. r \<noteq> Ok a) \<longrightarrow> fst t = fst s)"
    using DeleteOne_any [OF L run] w by auto
qed

lemma request_update_keeps:
  assumes L: "coll_laws C request_pair" and f: "\<And>r. request_pair (f r) = request_pair r"
  shows "preserves (\<lambda>s. requests_wf (fst s)) (mgo_UpdateOne C P f b)"
proof (rule preservesI)
  fix s r t assume w: "requests_wf (fst s)" and run: "mgo_UpdateOne C P f b s = (r, t)"
  have "map request_pair (update_first P f (fst s)) = map request_pair (fst s)" by (rule map_update_first) (simp add: f)
  with UpdateOne_any [OF L run] have "map request_pair (fst t) = map request_pair (fst s)" by metis
  with w show "requests_wf (fst t)" by (simp add: request_same_pairs [of "fst t" "fst s"])
qed

lemma request_Update_keeps [pres]:
  assumes L: "coll_laws C request_pair"
  shows "preserves (\<lambda>s. requests_wf (fst s)) (FriendRequestMgo_Update C u)"
  unfolding FriendRequestMgo_Update_def
  by (intro preserves_if preserves_ret request_update_keeps [OF L]) (simp add: request_pair_def request_updater_def)

lemma request_Create_keeps:
  assumes L: "coll_laws C request_pair" and n: "no_self request_pair rs"
  shows "preserves (\<lambda>s. requests_wf (fst s)) (FriendRequestMgo_Create C rs)"
proof (rule preservesI)
  fix s r t assume w: "requests_wf (fst s)" and run: "FriendRequestMgo_Create C rs s = (r, t)"
  from InsertMany_any [OF L run [unfolded FriendRequestMgo_Create_def]] w n
  show "requests_wf (fst t)" by (auto simp: requests_wf_def no_self_append no_self_take)
qed

lemma blacks_keep [pres]:
  assumes L: "coll_laws C black_pair"
  shows "preserves (\<lambda>s. unique_keys black_pair (fst s)) (BlackMgo_Create C bs)"
    and "preserves (\<lambda>s. unique_keys black_pair (fst s)) (BlackMgo_Delete C bs)"
proof -
  show "preserves (\<lambda>s. unique_keys black_pair (fst s)) (BlackMgo_Create C bs)"
    unfolding BlackMgo_Create_def by (rule preservesI) (auto dest: InsertMany_any [OF L])
  show "preserves (\<lambda>s. unique_keys black_pair (fst s)) (BlackMgo_Delete C bs)"
    unfolding BlackMgo_Delete_def
    by (intro preserves_if preserves_ret preservesI) (auto dest!: DeleteMany_any [OF L] simp: unique_keys_filter)
qed

end
