(* ===== verification/FriendInv.thy ===== *)
theory FriendInv
  imports FriendFacts
begin

text \<open>
  The invariant of the friend service over all its operations, and what the operations achieve.
\<close>

section \<open>The controller keeps the invariant\<close>

lemma envD:
  assumes "friend_env D"
  shows "coll_laws (fdFriend D) friend_pair" "coll_laws (fdRequest D) request_pair" "coll_laws (fdBlack D) black_pair"
  using assms by (simp_all add: friend_env_def)

lemma request_read [quiet]:
  assumes "friend_env D"
  shows "silent fst (FriendRequestMgo_Take (fdRequest D) a b)" "silent fst (FriendRequestMgo_FindToUserID (fdRequest D) a p)"
    "silent fst (FriendRequestMgo_FindFromUserID (fdRequest D) a p)"
    "silent fst (FriendRequestMgo_FindBothFriendRequests (fdRequest D) a b)"
  unfolding FriendRequestMgo_Take_def FriendRequestMgo_Find_def FriendRequestMgo_FindToUserID_def
    FriendRequestMgo_FindFromUserID_def FriendRequestMgo_FindBothFriendRequests_def
  using envD [OF assms] by (auto intro: quiet)

lemma friend_read [quiet]:
  assumes "friend_env D"
  shows "silent fst (FriendMgo_FindUserState (fdFriend D) a b)" "silent fst (FriendMgo_FindFriends (fdFriend D) a bs)"
    "silent fst (FriendMgo_FindReversalFriends (fdFriend D) a bs)" "silent fst (FriendMgo_FindOwnerFriends (fdFriend D) a p)"
    "silent fst (FriendMgo_FindInWhoseFriends (fdFriend D) a p)" "silent fst (FriendMgo_FindFriendsRemark (fdFriend D) a)"
  unfolding FriendMgo_FindUserState_def FriendMgo_FindFriends_def FriendMgo_FindReversalFriends_def
    FriendMgo_FindOwnerFriends_def FriendMgo_FindInWhoseFriends_def FriendMgo_FindFriendsRemark_def
  using envD [OF assms] by (auto intro: quiet)

lemma black_read [quiet]:
  assumes "friend_env D"
  shows "silent fst (BlackMgo_FindOwnerBlacks (fdBlack D) a p)" "silent fst (BlackMgo_FindOwnerBlackInfos (fdBlack D) a bs)"
  unfolding BlackMgo_FindOwnerBlacks_def BlackMgo_FindOwnerBlackInfos_def
  using envD [OF assms] by (auto intro: quiet)

lemma AddFriendRequest_inv [pres]:
  assumes E: "friend_env D" and ne: "u \<noteq> v"
  shows "preserves (friend_inv D) (AddFriendRequest D now u v m ex)"
  unfolding AddFriendRequest_def
proof (rule tx_inv [OF E], goal_cases)
  case 1 show ?case by (intro deletes_quiet quiet)
next
  case (2 s s')
  let ?upd = "\<lambda>d. d\<lparr> frHandleResult := 0, frHandleMsg := [], frReqMsg := m, frEx := ex, frCreateTime := now \<rparr>"
  have upd: "preserves (friend_inv D) (onRequests (FriendRequestMgo_UpdateByMap (fdRequest D) u v ?upd))"
    unfolding FriendRequestMgo_UpdateByMap_def
    by (intro requests_inv request_update_keeps envD [OF E]) (simp add: request_pair_def)
  have new: "preserves (friend_inv D) (onRequests (FriendRequestMgo_Create (fdRequest D) [new_request now u v m ex]))"
    by (intro requests_inv request_Create_keeps envD [OF E]) (simp add: no_self_def request_pair_def new_request_def ne)
  have "preserves (friend_inv D) (bindG (attemptG (onRequests (FriendRequestMgo_Take (fdRequest D) u v))) (\<lambda>r. case r of
         Inr _ \<Rightarrow> onRequests (FriendRequestMgo_UpdateByMap (fdRequest D) u v ?upd)
       | Inl err \<Rightarrow> if relation_IsNotFound err
           then onRequests (FriendRequestMgo_Create (fdRequest D) [new_request now u v m ex]) else failG err))"
    by (intro preserves_bind) (auto split: sum.splits intro!: preserves_attempt preserves_if preserves_fail upd new
        quiet_inv silent_read silent_cache_part request_read E)
  from preservesD [OF this 2] show ?case .
qed

lemma RefuseFriendRequest_inv [pres]:
  assumes E: "friend_env D"
  shows "preserves (friend_inv D) (RefuseFriendRequest D now u)"
  unfolding RefuseFriendRequest_def
  by (intro pres quiet_inv quiet E envD)

lemma friendDatabase_Delete_inv [pres]:
  assumes E: "friend_env D"
  shows "preserves (friend_inv D) (friendDatabase_Delete D u vs)"
  unfolding friendDatabase_Delete_def
  by (rule friend_write_inv [OF E write_delete [OF envD(1) [OF E]]]) (simp add: FriendCacheRedis_DelFriendIDs_def)

lemma friendDatabase_UpdateRemark_inv [pres]:
  assumes E: "friend_env D"
  shows "preserves (friend_inv D) (friendDatabase_UpdateRemark D u v m)"
  unfolding friendDatabase_UpdateRemark_def
  by (rule friend_write_inv [OF E write_remark [OF envD(1) [OF E], where V = "{}"]]) simp

lemma friendDatabase_UpdateFriends_inv [pres]:
  assumes E: "friend_env D"
  shows "preserves (friend_inv D) (friendDatabase_UpdateFriends D u vs val)"
  unfolding friendDatabase_UpdateFriends_def
  by (intro preserves_if preserves_ret friend_write_inv [OF E write_update [OF envD(1) [OF E], where V = "{}"]]) simp

lemma blackDatabase_inv [pres]:
  assumes E: "friend_env D"
  shows "preserves (friend_inv D) (blackDatabase_Create D bs)" "preserves (friend_inv D) (blackDatabase_Delete D bs)"
  unfolding blackDatabase_Create_def blackDatabase_Delete_def deleteBlackIDsCache_def
  by (intro pres E envD)+

section \<open>Agreeing to a request\<close>

lemma onFriends_Ok: "onFriends m s = (Ok a, s') \<longleftrightarrow> (\<exists>t. m (fsFriends s) = (Ok a, t) \<and> s' = s\<lparr> fsFriends := t \<rparr>)"
  by (auto simp: onFriends_def zoomG_iff)

lemma onRequests_Ok: "onRequests m s = (Ok a, s') \<longleftrightarrow> (\<exists>t. m (fsRequests s) = (Ok a, t) \<and> s' = s\<lparr> fsRequests := t \<rparr>)"
  by (auto simp: onRequests_def zoomG_iff)

definition friend_pairs :: "'w friend_state \<Rightarrow> (string \<times> string) set" where
  "friend_pairs s = friend_pair ` set (fst (fsFriends s))"

definition request_in :: "string \<Rightarrow> string \<Rightarrow> int \<Rightarrow> FriendRequestModel list \<Rightarrow> bool" where
  "request_in u v res rs \<longleftrightarrow> (\<exists>r \<in> set rs. request_pair r = (u, v) \<and> frHandleResult r = res)"

lemma request_is_pair: "request_is u v r \<longleftrightarrow> request_pair r = (u, v)"
  by (simp add: request_is_def request_pair_def)

lemma Take_Ok:
  assumes E: "friend_env D" and run: "onRequests (FriendRequestMgo_Take (fdRequest D) u v) s = (Ok r, s')"
  shows "find (request_is u v) (fst (fsRequests s)) = Some r" "fdocs s' = fdocs s" "fcache s' = fcache s"
proof -
  from run obtain t where t: "FriendRequestMgo_Take (fdRequest D) u v (fsRequests s) = (Ok r, t)" "s' = s\<lparr> fsRequests := t \<rparr>"
    by (auto simp: onRequests_Ok)
  with FindOne_Ok [OF envD(2) [OF E]] have "find (request_is u v) (fst (fsRequests s)) = Some r \<and> fst t = fst (fsRequests s)"
    by (auto simp: FriendRequestMgo_Take_def FriendRequestMgo_Find_def)
  with t show "find (request_is u v) (fst (fsRequests s)) = Some r" "fdocs s' = fdocs s" "fcache s' = fcache s"
    by (auto simp: fdocs_def fcache_def)
qed

lemma handled_Update_Ok:
  assumes E: "friend_env D" and run: "onRequests (FriendRequestMgo_Update (fdRequest D) u) s = (Ok x, s')" and u: "frHandleResult u \<noteq> 0"
  shows "fst (fsRequests s') = update_first (request_is (frFromUserID u) (frToUserID u)) (request_updater u) (fst (fsRequests s))"
    "fst (fsFriends s') = fst (fsFriends s)" "fcache s' = fcache s"
proof -
  from run u obtain t where t: "mgo_UpdateOne (fdRequest D) (request_is (frFromUserID u) (frToUserID u)) (request_updater u) True (fsRequests s) = (Ok x, t)"
    "s' = s\<lparr> fsRequests := t \<rparr>"
    by (auto simp: onRequests_Ok FriendRequestMgo_Update_def)
  from UpdateOne_Ok [OF envD(2) [OF E] t(1)] t(2)
  show "fst (fsRequests s') = update_first (request_is (frFromUserID u) (frToUserID u)) (request_updater u) (fst (fsRequests s))"
    "fst (fsFriends s') = fst (fsFriends s)" "fcache s' = fcache s"
    by (simp_all add: fcache_def)
qed

lemma SliceSet_in: "SliceSet xs x = None \<longleftrightarrow> x \<notin> set xs"
proof -
  have "fold (\<lambda>t kv. kv(t \<mapsto> ())) xs m x = None \<longleftrightarrow> x \<notin> set xs \<and> m x = None" for m :: "'a \<rightharpoonup> unit"
    by (induction xs arbitrary: m) auto
  then show ?thesis by (simp add: SliceSet_def SliceSetAny_def SliceToMapAny_def SliceToMapOkAny_def)
qed

lemma agree_adds_pairs:
  "agree_adds u v (filter (\<lambda>f. friend_is u v f \<or> friend_is v u f) fs) =
     (if (v, u) \<in> friend_pair ` set fs then [] else [new_friend v u BecomeFriendByApply u])
     @ (if (u, v) \<in> friend_pair ` set fs then [] else [new_friend u v BecomeFriendByApply u])"
proof -
  have "p \<in> friend_pair ` set (filter (\<lambda>f. friend_is u v f \<or> friend_is v u f) fs) \<longleftrightarrow> p \<in> friend_pair ` set fs"
    if "p = (u, v) \<or> p = (v, u)" for p
    using that by (auto simp: friend_pair_def friend_is_def)
  then show ?thesis
    unfolding agree_adds_def Let_def SliceSet_in Slice_def
    by (simp add: friend_pair_def [abs_def, symmetric] del: filter.simps set_filter)
qed

text \<open>The second request of the pair, in the other direction, is handled too when it is open.\<close>

lemma agree_other:
  assumes E: "friend_env D" and ne: "u \<noteq> v" and I: "friend_inv D s" and q: "request_in u v 1 (fst (fsRequests s))"
    and run: "bindG (attemptG (onRequests (FriendRequestMgo_Take (fdRequest D) v u))) (\<lambda>r2. bindG (case r2 of
                   Inr fr2 \<Rightarrow> if frHandleResult fr2 = FriendResponseNotHandle
                               then onRequests (FriendRequestMgo_Update (fdRequest D) (agree_handled op now fr2)) else retG ()
                 | Inl err \<Rightarrow> if \<not> relation_IsNotFound err then failG err else retG ()) k) s = (Ok x, s')"
  obtains s1 where "k () s1 = (Ok x, s')" "friend_inv D s1" "request_in u v 1 (fst (fsRequests s1))"
    "fst (fsFriends s1) = fst (fsFriends s)" "fcache s1 = fcache s"
proof -
  from run obtain r2 s0 where a: "attemptG (onRequests (FriendRequestMgo_Take (fdRequest D) v u)) s = (Ok r2, s0)"
    and r: "bindG (case r2 of
                   Inr fr2 \<Rightarrow> if frHandleResult fr2 = FriendResponseNotHandle
                               then onRequests (FriendRequestMgo_Update (fdRequest D) (agree_handled op now fr2)) else retG ()
                 | Inl err \<Rightarrow> if \<not> relation_IsNotFound err then failG err else retG ()) k s0 = (Ok x, s')"
    by (auto simp: bindG_Ok_iff)
  have "silent fdocs (attemptG (onRequests (FriendRequestMgo_Take (fdRequest D) v u)))"
    "silent fcache (attemptG (onRequests (FriendRequestMgo_Take (fdRequest D) v u)))"
    by (intro quiet request_read E)+
  note q0 = silentD [OF this(1) a] silentD [OF this(2) a]
  note I0 = friend_inv_cong [OF q0(1) _ I, unfolded q0(2), OF map_le_refl]
  show thesis
  proof (cases "\<exists>fr2. r2 = Inr fr2 \<and> frHandleResult fr2 = FriendResponseNotHandle")
    case False
    with r have "k () s0 = (Ok x, s')" by (cases r2) (auto simp: bindG_fail failG_run split: if_splits)
    with that [of s0] I0 q q0 fdocs_eqD [OF q0(1)] show thesis by simp
  next
    case True
    then obtain fr2 where fr2: "r2 = Inr fr2" "frHandleResult fr2 = FriendResponseNotHandle" by blast
    let ?u = "agree_handled op now fr2"
    from r fr2 obtain s1 where up: "onRequests (FriendRequestMgo_Update (fdRequest D) ?u) s0 = (Ok (), s1)" and k: "k () s1 = (Ok x, s')"
      by (auto simp: bindG_Ok_iff)
    from a fr2 have "onRequests (FriendRequestMgo_Take (fdRequest D) v u) s = (Ok fr2, s0)" by (simp add: attemptG_Ok_iff)
    from Take_Ok(1) [OF E this] have p2: "request_pair fr2 = (v, u)" by (auto simp: find_Some_iff request_is_pair)
    note U = handled_Update_Ok [OF E up]
    have pu: "frFromUserID ?u = v" "frToUserID ?u = u" "frHandleResult ?u \<noteq> 0"
      using p2 by (auto simp: agree_handled_def request_pair_def)
    have "request_in u v 1 (fst (fsRequests s1))"
      using q ne unfolding request_in_def U(1) [OF pu(3)] fdocs_eqD(2) [OF q0(1)] pu
      by (metis Pair_inject request_is_pair update_first_keeps)
    moreover have "friend_inv D s1"
      using requests_inv [OF request_Update_keeps [OF envD(2) [OF E]]] I0 up by (rule preservesD)
    ultimately show thesis using that [OF k] U(2,3) [OF pu(3)] q0 fdocs_eqD [OF q0(1)] by simp
  qed
qed

lemma Create_Ok:
  assumes E: "friend_env D" and run: "onFriends (FriendMgo_Create (fdFriend D) fs) s = (Ok x, s')"
  shows "fst (fsFriends s') = fst (fsFriends s) @ fs" "unique_keys friend_pair (fst (fsFriends s'))"
    "fst (fsRequests s') = fst (fsRequests s)" "fst (fsBlacks s') = fst (fsBlacks s)" "fcache s' = fcache s"
  using run by (auto simp: onFriends_Ok FriendMgo_Create_def fcache_def dest!: InsertMany_Ok [OF envD(1) [OF E]])

lemma ids_of_append: "ids_of (fs @ gs) k = ids_of fs k @ ids_of gs k"
  by (simp add: ids_of_def)

lemma agree_tx:
  assumes E: "friend_env D" and I: "friend_inv D s" and run: "AgreeFriendRequest_tx D now op fr s = (Ok (), s')"
  defines "u \<equiv> frFromUserID fr" and "v \<equiv> frToUserID fr"
  shows "friend_inv D s'" "u \<noteq> v" "request_in u v 0 (fst (fsRequests s))" "request_in u v 1 (fst (fsRequests s'))"
    "friend_pairs s' = friend_pairs s \<union> {(u, v), (v, u)}"
proof -
  from run obtain fr1 s1 s2 where t1: "onRequests (FriendRequestMgo_Take (fdRequest D) u v) s = (Ok fr1, s1)"
    and z: "frHandleResult fr1 = 0"
    and up: "onRequests (FriendRequestMgo_Update (fdRequest D) (agree_handled op now fr)) s1 = (Ok (), s2)"
    and rest: "bindG (attemptG (onRequests (FriendRequestMgo_Take (fdRequest D) v u))) (\<lambda>r2. bindG (case r2 of
                   Inr fr2 \<Rightarrow> if frHandleResult fr2 = FriendResponseNotHandle
                               then onRequests (FriendRequestMgo_Update (fdRequest D) (agree_handled op now fr2)) else retG ()
                 | Inl err \<Rightarrow> if \<not> relation_IsNotFound err then failG err else retG ()) (\<lambda>_.
          bindG (onFriends (FriendMgo_FindUserState (fdFriend D) u v)) (\<lambda>exists'.
          bindG (if length (agree_adds u v exists') > 0 then onFriends (FriendMgo_Create (fdFriend D) (agree_adds u v exists')) else retG ())
            (\<lambda>_. execDel D (FriendCacheRedis_DelFriendIDs [v, u]))))) s2 = (Ok (), s')"
    unfolding AgreeFriendRequest_tx_def Let_def u_def v_def by (auto simp: bindG_Ok_iff failG_run split: if_splits)
  note T = Take_Ok [OF E t1]
  from T(1) have fr1: "fr1 \<in> set (fst (fsRequests s))" "request_pair fr1 = (u, v)" by (auto simp: find_Some_iff request_is_pair)
  with I show ne: "u \<noteq> v" by (auto simp: friend_inv_iff requests_wf_def no_self_def)
  from fr1 z show "request_in u v 0 (fst (fsRequests s))" by (auto simp: request_in_def)
  have I1: "friend_inv D s1" using friend_inv_cong [OF T(2) _ I] T(3) by simp
  have I2: "friend_inv D s2"
    using requests_inv [OF request_Update_keeps [OF envD(2) [OF E]]] I1 up by (rule preservesD)
  have pu: "frFromUserID (agree_handled op now fr) = u" "frToUserID (agree_handled op now fr) = v" "frHandleResult (agree_handled op now fr) = 1"
    by (simp_all add: agree_handled_def u_def v_def)
  then have nz: "frHandleResult (agree_handled op now fr) \<noteq> 0" by simp
  note U = handled_Update_Ok [OF E up nz]
  have q1: "fst (fsRequests s1) = fst (fsRequests s)" using T(2) by (rule fdocs_eqD)
  have "request_updater (agree_handled op now fr) fr1 \<in> set (fst (fsRequests s2))"
    unfolding U(1) pu q1 by (rule update_first_hit [OF T(1)])
  moreover have "request_pair (request_updater (agree_handled op now fr) fr1) = (u, v)"
    "frHandleResult (request_updater (agree_handled op now fr) fr1) = 1"
    using fr1(2) pu(3) by (simp_all add: request_updater_def request_pair_def)
  ultimately have "request_in u v 1 (fst (fsRequests s2))" unfolding request_in_def by blast
  from agree_other [OF E ne I2 this rest] obtain s3
    where k: "bindG (onFriends (FriendMgo_FindUserState (fdFriend D) u v)) (\<lambda>exists'.
          bindG (if length (agree_adds u v exists') > 0 then onFriends (FriendMgo_Create (fdFriend D) (agree_adds u v exists')) else retG ())
            (\<lambda>_. execDel D (FriendCacheRedis_DelFriendIDs [v, u]))) s3 = (Ok (), s')"
      and I3: "friend_inv D s3" and h3: "request_in u v 1 (fst (fsRequests s3))"
      and f3: "fst (fsFriends s3) = fst (fsFriends s2)" "fcache s3 = fcache s2" .
  from k obtain ex s4 s5 where fi: "onFriends (FriendMgo_FindUserState (fdFriend D) u v) s3 = (Ok ex, s4)"
    and cr: "(if length (agree_adds u v ex) > 0 then onFriends (FriendMgo_Create (fdFriend D) (agree_adds u v ex)) else retG ()) s4 = (Ok (), s5)"
    and d: "execDel D (FriendCacheRedis_DelFriendIDs [v, u]) s5 = (Ok (), s')"
    by (auto simp: bindG_Ok_iff)
  let ?fs = "fst (fsFriends s)" and ?new = "agree_adds u v ex"
  have fs: "fst (fsFriends s3) = ?fs" using f3 U(2) fdocs_eqD(1) [OF T(2)] by simp
  from fi obtain t where t: "mgo_Find (fdFriend D) (\<lambda>f. friend_is u v f \<or> friend_is v u f) None (fsFriends s3) = (Ok ex, t)"
    "s4 = s3\<lparr> fsFriends := t \<rparr>" by (auto simp: onFriends_Ok FriendMgo_FindUserState_def)
  from Find_Ok [OF envD(1) [OF E] t(1)] t(2) fs have ex: "ex = filter (\<lambda>f. friend_is u v f \<or> friend_is v u f) ?fs"
    and s4: "fdocs s4 = fdocs s3" "fcache s4 = fcache s3" by (auto simp: page_of_def fdocs_def fcache_def)
  have I4: "friend_inv D s4" using friend_inv_cong [OF s4(1) _ I3] s4(2) by simp
  have fs4: "fst (fsFriends s4) = ?fs" using fdocs_eqD(1) [OF s4(1)] fs by simp
  have s5: "fst (fsFriends s5) = ?fs @ ?new" "unique_keys friend_pair (fst (fsFriends s5))" "fst (fsRequests s5) = fst (fsRequests s4)"
    "fst (fsBlacks s5) = fst (fsBlacks s4)" "fcache s5 = fcache s4"
    using cr Create_Ok [OF E, of ?new s4 "()" s5] fs4 I4 by (auto simp: retG_run friend_inv_iff friends_wf_def split: if_splits)
  have new: "no_self friend_pair ?new" "\<And>k. k \<notin> {u, v} \<Longrightarrow> ids_of ?new k = []"
    using ne unfolding ex agree_adds_pairs by (auto simp: no_self_def friend_pair_def new_friend_def ids_of_def)
  show "friend_inv D s'"
  proof (rule del_inv [OF E _ s5(5) _ _ _ d, where V = "{u, v}"])
    show "friends_coherent D s4" using I4 by (simp add: friend_inv_iff)
    show "docs_wf (fdocs s5)" using s5 new(1) fs4 I4
      by (auto simp: docs_wf_def fdocs_def friend_inv_iff friends_wf_def requests_wf_def no_self_append)
    show "friend_ids s5 k = friend_ids s4 k" if "k \<notin> {u, v}" for k
      using new(2) [OF that] by (simp add: friend_ids_of s5(1) fs4 ids_of_append)
  qed (auto simp: FriendCacheRedis_DelFriendIDs_def)
  note q' = fdocs_eqD [OF silentD [OF silent_execDel d]]
  show "request_in u v 1 (fst (fsRequests s'))" using h3 fdocs_eqD(2) [OF s4(1)] s5(3) q'(2) by simp
  have "friend_pair ` set (?fs @ ?new) = friend_pair ` set ?fs \<union> {(u, v), (v, u)}"
    unfolding ex agree_adds_pairs by (auto simp: friend_pair_def new_friend_def)
  then show "friend_pairs s' = friend_pairs s \<union> {(u, v), (v, u)}"
    unfolding friend_pairs_def q'(1) s5(1) .
qed

section \<open>Importing friends\<close>

lemma DistinctAny_loop_subset: "set (DistinctAny_loop tmp fn es) \<subseteq> set es"
  by (induction es arbitrary: tmp) auto

lemma Distinct_keeps_prefix:
  assumes "unique_keys fn xs"
  shows "\<exists>zs. DistinctAny (xs @ ys) fn = xs @ zs \<and> fn ` set zs = fn ` set ys - fn ` set xs \<and> set zs \<subseteq> set ys \<and> distinct (map fn zs)"
proof -
  have "\<exists>zs. DistinctAny_loop tmp fn (xs @ ys) = xs @ zs \<and> zs = DistinctAny_loop (tmp \<union> fn ` set xs) fn ys"
    if "distinct (map fn xs)" "tmp \<inter> fn ` set xs = {}" for tmp
    using that
  proof (induction xs arbitrary: tmp)
    case (Cons x xs)
    from Cons.prems have "fn x \<notin> tmp" "insert (fn x) tmp \<inter> fn ` set xs = {}" by auto
    with Cons.IH [of "insert (fn x) tmp"] Cons.prems(1) show ?case by simp
  qed simp
  from this [of "{}"] assms have "DistinctAny (xs @ ys) fn = xs @ DistinctAny_loop (fn ` set xs) fn ys"
    by (simp add: DistinctAny_def unique_keys_def)
  then show ?thesis
    using DistinctAny_loop_keys [of fn "fn ` set xs" ys] DistinctAny_loop_distinct [of fn "fn ` set xs" ys]
      DistinctAny_loop_subset [of "fn ` set xs" fn ys] by auto
qed

text \<open>
  A batch that begins with documents which are in the collection already is refused by the unique
  index, so the insert succeeds only when there are none.
\<close>

lemma insert_again:
  assumes "unique_keys key (ds @ filter P ds @ zs)"
  shows "filter P ds = []"
proof (rule ccontr)
  assume "filter P ds \<noteq> []"
  then obtain d where "d \<in> set (filter P ds)" by (cases "filter P ds") auto
  moreover from this have "d \<in> set ds" by simp
  ultimately show False using assms by (auto simp: unique_keys_def)
qed

lemma become_half:
  assumes E: "friend_env D" and w: "unique_keys key (filter P (fst (fsFriends s)))"
    and key: "\<And>v. key (g v) = v"
    and run: "bindG (onFriends (mgo_Find (fdFriend D) P None)) (\<lambda>fs.
        bindG (onFriends (FriendMgo_Create (fdFriend D) (DistinctAny (fs @ map g vs) key))) k) s = (Ok x, s')"
  obtains s1 zs where "k () s1 = (Ok x, s')" "filter P (fst (fsFriends s)) = []" "fst (fsFriends s1) = fst (fsFriends s) @ zs"
    "set zs = g ` set vs" "unique_keys friend_pair (fst (fsFriends s1))" "fst (fsRequests s1) = fst (fsRequests s)"
    "fst (fsBlacks s1) = fst (fsBlacks s)" "fcache s1 = fcache s"
proof -
  from run obtain fs s0 s1 where f: "onFriends (mgo_Find (fdFriend D) P None) s = (Ok fs, s0)"
    and c: "onFriends (FriendMgo_Create (fdFriend D) (DistinctAny (fs @ map g vs) key)) s0 = (Ok (), s1)"
    and k: "k () s1 = (Ok x, s')" by (auto simp: bindG_Ok_iff)
  from f obtain t where "mgo_Find (fdFriend D) P None (fsFriends s) = (Ok fs, t)" "s0 = s\<lparr> fsFriends := t \<rparr>"
    by (auto simp: onFriends_Ok)
  with Find_Ok [OF envD(1) [OF E] this(1)] have fs: "fs = filter P (fst (fsFriends s))" and s0: "fst (fsFriends s0) = fst (fsFriends s)"
    "fst (fsRequests s0) = fst (fsRequests s)" "fst (fsBlacks s0) = fst (fsBlacks s)" "fcache s0 = fcache s"
    by (auto simp: page_of_def fcache_def)
  from Distinct_keeps_prefix [OF w, of "map g vs"] fs obtain zs where zs: "DistinctAny (fs @ map g vs) key = fs @ zs"
    "key ` set zs = key ` set (map g vs) - key ` set fs" "set zs \<subseteq> set (map g vs)" by blast
  note C = Create_Ok [OF E c]
  from C(2) have nil: "filter P (fst (fsFriends s)) = []"
    unfolding C(1) zs(1) s0(1) unfolding fs by (rule insert_again)
  have "g v \<in> set zs" if "v \<in> set vs" for v
  proof -
    have "v \<in> key ` set zs" using that by (simp add: zs(2) fs nil image_image key)
    then obtain z where "z \<in> set zs" "key z = v" by auto
    with zs(3) key show ?thesis by auto
  qed
  with zs(3) have "set zs = g ` set vs" by auto
  with k nil C zs(1) fs s0 show thesis by (intro that [of s1 zs]) simp_all
qed

lemma become_tx:
  assumes E: "friend_env D" and I: "friend_inv D s" and o: "u \<notin> set vs"
    and run: "BecomeFriends_tx D op u vs src s = (Ok (), s')"
  shows "friend_inv D s'" "friend_pairs s \<inter> ({u} \<times> set vs \<union> set vs \<times> {u}) = {}"
    "friend_pairs s' = friend_pairs s \<union> ({u} \<times> set vs \<union> set vs \<times> {u})"
proof -
  let ?fs = "fst (fsFriends s)"
  let ?P1 = "\<lambda>f. fmOwnerUserID f = u \<and> fmFriendUserID f \<in> set vs" and ?P2 = "\<lambda>f. fmOwnerUserID f \<in> set vs \<and> fmFriendUserID f = u"
  let ?g1 = "\<lambda>v. new_friend u v src op" and ?g2 = "\<lambda>v. new_friend v u src op"
  have U: "unique_keys friend_pair ?fs" using I by (simp add: friend_inv_iff friends_wf_def)
  have w1: "unique_keys fmFriendUserID (filter ?P1 fs)" if "unique_keys friend_pair fs" for fs
    using that unfolding unique_keys_def distinct_map by (auto simp: inj_on_def friend_pair_def)
  have w2: "unique_keys fmOwnerUserID (filter ?P2 fs)" if "unique_keys friend_pair fs" for fs
    using that unfolding unique_keys_def distinct_map by (auto simp: inj_on_def friend_pair_def)
  have g1: "fmFriendUserID (?g1 v) = v" and g2: "fmOwnerUserID (?g2 v) = v" for v by (simp_all add: new_friend_def)
  obtain s1 zs1 where r1: "bindG (onFriends (mgo_Find (fdFriend D) ?P2 None)) (\<lambda>fs2.
      bindG (onFriends (FriendMgo_Create (fdFriend D) (DistinctAny (fs2 @ map ?g2 vs) fmOwnerUserID)))
      (\<lambda>_. execDel D (FriendCacheRedis_DelFriendIDs (vs @ [u])))) s1 = (Ok (), s')" and n1: "filter ?P1 ?fs = []"
    and a1: "fst (fsFriends s1) = ?fs @ zs1" "set zs1 = ?g1 ` set vs" "unique_keys friend_pair (fst (fsFriends s1))"
      "fst (fsRequests s1) = fst (fsRequests s)" "fst (fsBlacks s1) = fst (fsBlacks s)" "fcache s1 = fcache s"
    by (rule become_half [OF E w1 [OF U] g1 run [unfolded BecomeFriends_tx_def Let_def FriendMgo_FindFriends_def
          FriendMgo_FindReversalFriends_def]])
  obtain s2 zs2 where d: "execDel D (FriendCacheRedis_DelFriendIDs (vs @ [u])) s2 = (Ok (), s')" and n2: "filter ?P2 (fst (fsFriends s1)) = []"
    and a2: "fst (fsFriends s2) = fst (fsFriends s1) @ zs2" "set zs2 = ?g2 ` set vs" "unique_keys friend_pair (fst (fsFriends s2))"
      "fst (fsRequests s2) = fst (fsRequests s1)" "fst (fsBlacks s2) = fst (fsBlacks s1)" "fcache s2 = fcache s1"
    by (rule become_half [OF E w2 [OF a1(3)] g2 r1])
  have owner: "fst (friend_pair f) \<in> insert u (set vs) \<and> fst (friend_pair f) \<noteq> snd (friend_pair f)" if "f \<in> set (zs1 @ zs2)" for f
    using that o unfolding set_append a1(2) a2(2) by (auto simp: friend_pair_def new_friend_def)
  have zs: "no_self friend_pair (zs1 @ zs2)" using owner by (simp add: no_self_def)
  have ids: "ids_of (zs1 @ zs2) k = []" if "k \<notin> insert u (set vs)" for k
    using owner that by (fastforce simp: ids_of_def filter_empty_conv friend_pair_def)
  show "friend_inv D s'"
  proof (rule del_inv [OF E _ _ _ _ _ d, where s = s and V = "insert u (set vs)"])
    show "docs_wf (fdocs s2)" using a1 a2 zs I
      by (auto simp: docs_wf_def fdocs_def friend_inv_iff friends_wf_def requests_wf_def no_self_append)
    show "friend_ids s2 k = friend_ids s k" if "k \<notin> insert u (set vs)" for k
      using ids [OF that] by (simp add: friend_ids_of a1(1) a2(1) ids_of_append)
  qed (use I a1(6) a2(6) in \<open>auto simp: friend_inv_iff FriendCacheRedis_DelFriendIDs_def\<close>)
  show "friend_pairs s \<inter> ({u} \<times> set vs \<union> set vs \<times> {u}) = {}"
    using n1 n2 a1(1) by (auto simp: friend_pairs_def friend_pair_def filter_empty_conv)
  show "friend_pairs s' = friend_pairs s \<union> ({u} \<times> set vs \<union> set vs \<times> {u})"
    unfolding friend_pairs_def fdocs_eqD(1) [OF silentD [OF silent_execDel d]] a2(1) a1(1)
    by (auto simp: a1(2) a2(2) friend_pair_def new_friend_def image_Un image_image)
qed

lemma BecomeFriends_inv:
  assumes E: "friend_env D" and o: "u \<notin> set vs"
  shows "preserves (friend_inv D) (BecomeFriends D op u vs src)"
  unfolding BecomeFriends_def
proof (rule tx_inv [OF E], goal_cases)
  case 1 show ?case unfolding BecomeFriends_tx_def Let_def
    by (intro preserves_bind deletes_quiet deletes_execDel quiet E)
qed (rule become_tx(1) [OF E _ o])

lemma AgreeFriendRequest_inv [pres]:
  assumes E: "friend_env D"
  shows "preserves (friend_inv D) (AgreeFriendRequest D now op fr)"
  unfolding AgreeFriendRequest_def
proof (rule tx_inv [OF E], goal_cases)
  case 1 show ?case unfolding AgreeFriendRequest_tx_def Let_def
    by (intro preserves_bind preserves_if preserves_fail deletes_execDel E) (auto intro!: deletes_quiet quiet split: sum.splits)
qed (rule agree_tx(1) [OF E])

section \<open>The service keeps the invariant\<close>

lemma pres_cases [pres]:
  "(\<And>e. preserves P (f e)) \<Longrightarrow> (\<And>y. preserves P (g y)) \<Longrightarrow> preserves P (case r of Inl e \<Rightarrow> f e | Inr y \<Rightarrow> g y)"
  "preserves P n \<Longrightarrow> (\<And>y. preserves P (g y)) \<Longrightarrow> preserves P (case z of None \<Rightarrow> n | Some y \<Rightarrow> g y)"
  "(\<And>a b. preserves P (h a b)) \<Longrightarrow> preserves P (case p of (a, b) \<Rightarrow> h a b)"
  by (auto split: sum.splits option.splits prod.splits)

lemma pres_errG [pres]: "preserves P (errG e)"
  unfolding errG_def by (intro pres)

lemma pres_continue [pres]: "preserves P m \<Longrightarrow> preserves P (continue_on e m)"
  unfolding continue_on_def by (intro pres)

lemma read_inv [pres]:
  "silent fst m1 \<Longrightarrow> preserves (friend_inv D) (onFriends m1)" "silent fst m2 \<Longrightarrow> preserves (friend_inv D) (onRequests m2)"
  "silent fst m3 \<Longrightarrow> preserves (friend_inv D) (onBlacks m3)"
  by (auto intro: quiet_inv silent_read silent_cache_part)

lemma world_parts [pres]:
  "preserves (friend_inv D) (usersMap S ids)" "preserves (friend_inv D) (access S ctx u)" "preserves (friend_inv D) (checkAccess S ctx u)"
  "preserves (friend_inv D) (friend_notify S now ctx u v ty tips)" "preserves (friend_inv D) (friend_post S dec com req cfg)"
  unfolding usersMap_def access_def checkAccess_def friend_notify_def friend_post_def by (intro pres)+

lemmas friend_callbacks = CallbackBeforeAddFriend_def CallbackBeforeSetFriendRemark_def CallbackAfterSetFriendRemark_def
  CallbackBeforeAddBlack_def CallbackAfterAddFriend_def CallbackBeforeAddFriendAgree_def CallbackAfterDeleteFriend_def
  CallbackBeforeImportFriends_def CallbackAfterImportFriends_def CallbackAfterRemoveBlack_def friend_callback_simple_def

lemmas friend_notices = UserInfoUpdatedNotification_friend_def FriendApplicationAddNotification_def
  FriendApplicationAgreedNotification_def FriendApplicationRefusedNotification_def FriendDeletedNotification_send_def
  FriendRemarkSetNotification_send_def FriendsInfoUpdateNotification_send_def BlackAddedNotification_send_def
  BlackDeletedNotification_send_def FriendInfoUpdatedNotification_send_def

lemma CheckIn_inv [pres]:
  assumes "friend_env D"
  shows "preserves (friend_inv D) (friendDatabase_CheckIn D u v)" "preserves (friend_inv D) (blackDatabase_CheckIn D u v)"
  unfolding friendDatabase_CheckIn_def blackDatabase_CheckIn_def by (intro pres assms)+

lemma finds_inv [pres]:
  assumes "friend_env D"
  shows "preserves (friend_inv D) (FindFriendsWithError D u vs)" "preserves (friend_inv D) (friendDatabase_FindFriends D u vs)"
    "preserves (friend_inv D) (PageOwnerFriends D u p)" "preserves (friend_inv D) (PageInWhoseFriends D u p)"
    "preserves (friend_inv D) (PageFriendRequestFromMe D u p)" "preserves (friend_inv D) (PageFriendRequestToMe D u p)"
    "preserves (friend_inv D) (friendDatabase_FindBothFriendRequests D u v)" "preserves (friend_inv D) (FindFriendsRemark D u)"
    "preserves (friend_inv D) (blackDatabase_FindOwnerBlacks D u p)" "preserves (friend_inv D) (FindBlackInfos D u vs)"
    "preserves (friend_inv D) (FindFriendUserIDs D u)"
  unfolding FindFriendsWithError_def friendDatabase_FindFriends_def PageOwnerFriends_def PageInWhoseFriends_def PageFriendRequestFromMe_def
    PageFriendRequestToMe_def friendDatabase_FindBothFriendRequests_def FindFriendsRemark_def blackDatabase_FindOwnerBlacks_def
    FindBlackInfos_def FindFriendUserIDs_def
  by (intro pres friend_read request_read black_read assms)+

lemma friends_or_fail_inv [pres]: "friend_env (svFriendDB S) \<Longrightarrow> preserves (friend_inv (svFriendDB S)) (friends_or_fail S u vs)"
  unfolding friends_or_fail_def by (intro pres)

lemma conversions_inv [pres]:
  assumes "\<And>ids. preserves P (f ids)"
  shows "preserves P (FriendsDB2Pb fs f)" "preserves P (FriendRequestDB2Pb ord rs f)" "preserves P (BlackDB2Pb bs f)"
  unfolding FriendsDB2Pb_def FriendRequestDB2Pb_def BlackDB2Pb_def nil_deref_def by (intro pres assms)+

text \<open>A configuration in which the import webhook may not put other users into the list.\<close>

definition import_plain :: "'w friend_server \<Rightarrow> bool" where
  "import_plain S \<longleftrightarrow> \<not> cbcEnable (fcBeforeImportFriends (svCbConfig S))"

lemma import_plain_cb: "import_plain S \<Longrightarrow> CallbackBeforeImportFriends S u vs = retG vs"
  by (simp add: import_plain_def CallbackBeforeImportFriends_def)

lemma ops_inv:
  assumes E: "friend_env (svFriendDB S)" and W: "import_plain S"
  shows "preserves (friend_inv (svFriendDB S)) (ApplyToAddFriend S now ctx u v m ex)"
    and "preserves (friend_inv (svFriendDB S)) (ImportFriends S now ctx u vs)"
    and "preserves (friend_inv (svFriendDB S)) (RespondFriendApply S now ctx u v res m)"
    and "preserves (friend_inv (svFriendDB S)) (DeleteFriend S now ctx u v)"
    and "preserves (friend_inv (svFriendDB S)) (SetFriendRemark S now ctx u v m)"
    and "preserves (friend_inv (svFriendDB S)) (UpdateFriends S now ctx u vs val)"
    and "preserves (friend_inv (svFriendDB S)) (RemoveBlack S now ctx u v)"
    and "preserves (friend_inv (svFriendDB S)) (AddBlack S now ctx u v ex)"
proof -
  show "preserves (friend_inv (svFriendDB S)) (ApplyToAddFriend S now ctx u v m ex)"
    unfolding ApplyToAddFriend_def friend_callbacks friend_notices by (intro pres E) simp
  show "preserves (friend_inv (svFriendDB S)) (ImportFriends S now ctx u vs)"
    unfolding ImportFriends_def import_plain_cb [OF W] bindG_ret friend_notices CallbackAfterImportFriends_def friend_callback_simple_def
    by (intro pres BecomeFriends_inv E) simp
  show "preserves (friend_inv (svFriendDB S)) (RespondFriendApply S now ctx u v res m)"
    unfolding RespondFriendApply_def Let_def friend_callbacks friend_notices by (intro pres E)
  show "preserves (friend_inv (svFriendDB S)) (DeleteFriend S now ctx u v)"
    unfolding DeleteFriend_def friend_callbacks friend_notices by (intro pres E)
  show "preserves (friend_inv (svFriendDB S)) (SetFriendRemark S now ctx u v m)"
    unfolding SetFriendRemark_def friend_callbacks friend_notices by (intro pres E)
  show "preserves (friend_inv (svFriendDB S)) (UpdateFriends S now ctx u vs val)"
    unfolding UpdateFriends_def friend_notices by (intro pres E)
  show "preserves (friend_inv (svFriendDB S)) (RemoveBlack S now ctx u v)"
    unfolding RemoveBlack_def friend_notices by (intro pres E)
  show "preserves (friend_inv (svFriendDB S)) (AddBlack S now ctx u v ex)"
    unfolding AddBlack_def friend_notices by (intro pres E)
qed

lemma queries_inv:
  assumes E: "friend_env (svFriendDB S)"
  shows "preserves (friend_inv (svFriendDB S)) (IsFriend S u v)"
    and "preserves (friend_inv (svFriendDB S)) (GetFriendIDs S ctx u)"
    and "preserves (friend_inv (svFriendDB S)) (GetPaginationFriends S ctx u p)"
    and "preserves (friend_inv (svFriendDB S)) (GetFriendPageList S ctx u kw p)"
    and "preserves (friend_inv (svFriendDB S)) (GetDesignatedFriends S u vs)"
    and "preserves (friend_inv (svFriendDB S)) (GetFriendsInfo S u vs)"
    and "preserves (friend_inv (svFriendDB S)) (GetSpecifiedFriendsInfo S u vs)"
    and "preserves (friend_inv (svFriendDB S)) (GetDesignatedFriendsApply S u v)"
    and "preserves (friend_inv (svFriendDB S)) (GetPaginationFriendsApplyTo S ctx u p)"
    and "preserves (friend_inv (svFriendDB S)) (GetPaginationFriendsApplyFrom S ctx u p)"
    and "preserves (friend_inv (svFriendDB S)) (GetFriendsRemark S u)"
    and "preserves (friend_inv (svFriendDB S)) (IsBlack S u v)"
    and "preserves (friend_inv (svFriendDB S)) (GetPaginationBlacks S ctx u p)"
  unfolding IsFriend_def GetFriendIDs_def GetPaginationFriends_def GetFriendPageList_def page_of_friends_def GetDesignatedFriends_def
    GetFriendsInfo_def GetSpecifiedFriendsInfo_def GetDesignatedFriendsApply_def GetPaginationFriendsApplyTo_def
    GetPaginationFriendsApplyFrom_def GetFriendsRemark_def IsBlack_def GetPaginationBlacks_def Let_def
  by (intro pres E)+

end
