(* ===== verification/FriendProps.thy ===== *)
theory FriendProps
  imports FriendInv
begin

text \<open>
  The friend service as a state machine: \<open>friend_step\<close> is one whole request, whatever its outcome, so
  the reachable states are those of a service that answers one request after another.  Requests that
  overlap are no steps of it; what goes wrong when a read falls between the deletion of the cached
  lists and the commit of a transaction is \<open>agree_overlapped\<close>.
\<close>

section \<open>Requests as steps\<close>

inductive friend_step :: "'w friend_server \<Rightarrow> 'w friend_state \<Rightarrow> 'w friend_state \<Rightarrow> bool" for S where
  fs_apply: "ApplyToAddFriend S now ctx u v m ex s = (r, s') \<Longrightarrow> friend_step S s s'"
| fs_import: "ImportFriends S now ctx u vs s = (r, s') \<Longrightarrow> friend_step S s s'"
| fs_respond: "RespondFriendApply S now ctx u v res m s = (r, s') \<Longrightarrow> friend_step S s s'"
| fs_delete: "DeleteFriend S now ctx u v s = (r, s') \<Longrightarrow> friend_step S s s'"
| fs_remark: "SetFriendRemark S now ctx u v m s = (r, s') \<Longrightarrow> friend_step S s s'"
| fs_update: "UpdateFriends S now ctx u vs val s = (r, s') \<Longrightarrow> friend_step S s s'"
| fs_add_black: "AddBlack S now ctx u v ex s = (r, s') \<Longrightarrow> friend_step S s s'"
| fs_remove_black: "RemoveBlack S now ctx u v s = (r, s') \<Longrightarrow> friend_step S s s'"
| fs_is_friend: "IsFriend S u v s = (rb, s') \<Longrightarrow> friend_step S s s'"
| fs_is_black: "IsBlack S u v s = (rb, s') \<Longrightarrow> friend_step S s s'"
| fs_ids: "GetFriendIDs S ctx u s = (rl, s') \<Longrightarrow> friend_step S s s'"
| fs_page: "GetPaginationFriends S ctx u p s = (rp, s') \<Longrightarrow> friend_step S s s'"
| fs_search: "GetFriendPageList S ctx u kw p s = (rp, s') \<Longrightarrow> friend_step S s s'"
| fs_designated: "GetDesignatedFriends S u vs s = (rd, s') \<Longrightarrow> friend_step S s s'"
| fs_infos: "GetFriendsInfo S u vs s = (ri, s') \<Longrightarrow> friend_step S s s'"
| fs_specified: "GetSpecifiedFriendsInfo S u vs s = (rs, s') \<Longrightarrow> friend_step S s s'"
| fs_requests: "GetDesignatedFriendsApply S u v s = (rq, s') \<Longrightarrow> friend_step S s s'"
| fs_to: "GetPaginationFriendsApplyTo S ctx u p s = (rt, s') \<Longrightarrow> friend_step S s s'"
| fs_from: "GetPaginationFriendsApplyFrom S ctx u p s = (rt, s') \<Longrightarrow> friend_step S s s'"
| fs_remarks: "GetFriendsRemark S u s = (rm, s') \<Longrightarrow> friend_step S s s'"
| fs_blacks: "GetPaginationBlacks S ctx u p s = (rk, s') \<Longrightarrow> friend_step S s s'"

definition friend_start :: "'w friend_state \<Rightarrow> bool" where
  "friend_start s \<longleftrightarrow> fdocs s = ([], [], []) \<and> fcache s = Map.empty"

definition friend_reachable :: "'w friend_server \<Rightarrow> 'w friend_state \<Rightarrow> bool" where
  "friend_reachable S s \<longleftrightarrow> (\<exists>s0. friend_start s0 \<and> (friend_step S)\<^sup>*\<^sup>* s0 s)"

lemma step_preserves: "m s = (r, s') \<Longrightarrow> preserves P m \<Longrightarrow> P s \<Longrightarrow> P s'"
  by (rule preservesD)

lemma step_inv:
  assumes "friend_step S s s'" and E: "friend_env (svFriendDB S)" and W: "import_plain S" and I: "friend_inv (svFriendDB S) s"
  shows "friend_inv (svFriendDB S) s'"
  using assms(1)
  by (cases rule: friend_step.cases)
    (erule step_preserves [where P = "friend_inv (svFriendDB S)", OF _ _ I], rule ops_inv [OF E W] queries_inv [OF E])+

lemma start_inv: "friend_start s \<Longrightarrow> friend_inv D s"
  by (simp add: friend_start_def friend_inv_def docs_wf_def unique_keys_def no_self_def coherent_def)

lemma reachable_inv:
  assumes E: "friend_env (svFriendDB S)" and W: "import_plain S" and R: "friend_reachable S s"
  shows "friend_inv (svFriendDB S) s"
proof -
  from R obtain s0 where s0: "friend_start s0" and steps: "(friend_step S)\<^sup>*\<^sup>* s0 s" by (auto simp: friend_reachable_def)
  from steps show ?thesis by (induction rule: rtranclp_induct) (auto intro: start_inv s0 step_inv E W)
qed


lemma IsFriend_inv_answers:
  assumes E: "friend_env (svFriendDB S)" and I: "friend_inv (svFriendDB S) s" and run: "IsFriend S u v s = (Ok b, s')"
  shows "b = (are_friends s u v, are_friends s v u)"
proof -
  from run obtain l1 s1 l2 where g1: "FriendCacheRedis_GetFriendIDs (svFriendDB S) u s = (Ok l1, s1)"
    and g2: "FriendCacheRedis_GetFriendIDs (svFriendDB S) v s1 = (Ok l2, s')" and b: "b = (IsContain v l1, IsContain u l2)"
    by (auto simp: IsFriend_def friendDatabase_CheckIn_def bindG_Ok_iff retG_run)
  have C: "friends_coherent (svFriendDB S) s" using I by (simp add: friend_inv_def)
  have "l1 = friend_ids s u" using FriendIDs.look_answers [OF E C _ g1] by simp
  moreover have "l2 = friend_ids s1 v"
    using FriendIDs.look_answers [OF E FriendIDs.look_keeps [OF E C g1] _ g2] by simp
  ultimately show ?thesis using FriendIDs.look_truth [OF E g1] b by (simp add: are_friends_ids)
qed

lemma tx_from:
  assumes E: "friend_env D" and I: "friend_inv D s" and run: "Mongo_Transaction (fdTx D) fn s = (Ok (), s')"
    and keep: "\<And>c0. preserves (\<lambda>s. fcache s \<subseteq>\<^sub>m c0) fn"
  obtains s1 s2 where "fdocs s1 = fdocs s" "friend_inv D s1" "fn s1 = (Ok (), s2)" "fdocs s' = fdocs s2"
proof -
  from E have T: "tx_laws fdocs fcache (fdTx D)" by (simp add: friend_env_def)
  obtain s1 s2 where "fdocs s1 = fdocs s" "fcache s1 \<subseteq>\<^sub>m fcache s" "fn s1 = (Ok (), s2)" "fdocs s' = fdocs s2"
    by (rule Transaction_Ok [OF T run, where I = "\<lambda>cm. cm \<subseteq>\<^sub>m fcache s"]) (auto dest: preservesD [OF keep])
  with friend_inv_cong [OF this(1,2) I] that show thesis by blast
qed

lemma agree_deletes: "friend_env D \<Longrightarrow> preserves (\<lambda>s. fcache s \<subseteq>\<^sub>m c0) (AgreeFriendRequest_tx D now op fr)"
  unfolding AgreeFriendRequest_tx_def Let_def
  by (intro preserves_bind preserves_if preserves_fail deletes_execDel) (auto intro!: deletes_quiet quiet split: sum.splits)

lemma become_deletes: "friend_env D \<Longrightarrow> preserves (\<lambda>s. fcache s \<subseteq>\<^sub>m c0) (BecomeFriends_tx D op u vs src)"
  unfolding BecomeFriends_tx_def Let_def by (intro preserves_bind deletes_quiet deletes_execDel quiet)

lemma quiet_notices [quiet]:
  "silent fdocs (ignoreG (friend_notify S now ctx u v ty tips))" "silent fdocs (friend_post S dec com req cfg)"
  unfolding friend_notify_def friend_post_def by (intro quiet)+

lemma continue_quiet [quiet]: "silent q m \<Longrightarrow> silent q (continue_on e m)"
  unfolding continue_on_def by (intro quiet)

section \<open>A server in memory\<close>

definition restore_docs :: "'w friend_state \<Rightarrow> 'w friend_state \<Rightarrow> 'w friend_state" where
  "restore_docs s s' = s'\<lparr> fsFriends := fsFriends s, fsRequests := fsRequests s, fsBlacks := fsBlacks s \<rparr>"

definition mem_friend_db :: "unit friend_db" where
  "mem_friend_db = \<lparr> fdFriend = mem_coll friend_pair, fdRequest = mem_coll request_pair, fdBlack = mem_coll black_pair,
     fdRc = mem_rc, fdTx = mem_tx restore_docs, fdIDsJson = strs_codec \<rparr>"

lemma mem_friend_env: "friend_env mem_friend_db"
  unfolding friend_env_def mem_friend_db_def friend_db.simps
  by (intro conjI mem_coll_laws mem_rc_laws strs_codec_laws mem_tx_laws) (simp_all add: restore_docs_def fdocs_def fcache_def)

definition no_callback :: CallBackConfig where
  "no_callback = \<lparr> cbcEnable = False, cbcFailedContinue = None \<rparr>"

definition demo_auth_config :: auth_config where
  "demo_auth_config = \<lparr> cfgSecret = [], cfgExpire = 90, cfgManager = [''admin''], cfgIMAdmin = [] \<rparr>"

definition demo_users :: "'w user_stub" where
  "demo_users = \<lparr> usGetDesignateUsers = (\<lambda>ids. retG (map demo_user ids)), usGetDesignateUsersWaitGroup = (\<lambda>ids. retG (map demo_user ids)),
     usGetGlobalRecvMessageOpt = (\<lambda>u. retG 0), usOrd = (\<lambda>A. []), usAuth = demo_auth_config \<rparr>"

definition demo_sender :: "'w notification_sender" where
  "demo_sender = \<lparr> nsConf = (\<lambda>n. zero_conf), nsSendMsg = (\<lambda>c d. retG ()), nsGetUserInfo = None, nsClientMsgID = (\<lambda>u. retG ''id'') \<rparr>"

definition mem_friend_server :: "unit friend_server" where
  "mem_friend_server = \<lparr> svFriendDB = mem_friend_db, svUser = demo_users, svSender = demo_sender,
     svFriendTips = (\<lambda>t. Inl (Plain ''no tips'')), svPost = (\<lambda>c r. retG []), svDecode = (\<lambda>b. Inl (Plain ''no answer'')),
     svDecodeRemark = (\<lambda>b. Inl (Plain ''no answer'')), svDecodeIDs = (\<lambda>b. Inl (Plain ''no answer'')), svErrorText = (\<lambda>e. []),
     svCbConfig = \<lparr> fcBeforeAddFriend = no_callback, fcAfterAddFriend = no_callback, fcBeforeSetFriendRemark = no_callback,
       fcAfterSetFriendRemark = no_callback, fcBeforeAddBlack = no_callback, fcBeforeAddFriendAgree = no_callback,
       fcAfterDeleteFriend = no_callback, fcBeforeImportFriends = no_callback, fcAfterImportFriends = no_callback,
       fcAfterRemoveBlack = no_callback \<rparr>,
     svToLower = (\<lambda>s. s), svAuthCfg = demo_auth_config \<rparr>"

definition empty_friend_state :: "unit friend_state" where
  "empty_friend_state = \<lparr> fsFriends = ([], ()), fsRequests = ([], ()), fsBlacks = ([], ()), fsCache = (Map.empty, ()), fsWorld = () \<rparr>"

definition as_user :: "string \<Rightarrow> rpc_ctx" where
  "as_user u = \<lparr> ctxOpUserID = u, ctxOperationID = ''op'' \<rparr>"

definition after_apply :: "unit friend_state" where
  "after_apply = snd (ApplyToAddFriend mem_friend_server 1 (as_user ''u'') ''u'' ''v'' [] [] empty_friend_state)"

definition after_agree :: "unit friend_state" where
  "after_agree = snd (RespondFriendApply mem_friend_server 2 (as_user ''v'') ''u'' ''v'' 1 [] after_apply)"

lemma mem_server_ok: "friend_env (svFriendDB mem_friend_server)" "import_plain mem_friend_server"
  by (simp_all add: mem_friend_server_def mem_friend_env import_plain_def no_callback_def)

lemma empty_reachable: "friend_reachable mem_friend_server empty_friend_state"
  unfolding friend_reachable_def
  by (intro exI [of _ empty_friend_state]) (simp add: friend_start_def empty_friend_state_def fdocs_def fcache_def)

lemma reachable_step: "friend_reachable S s \<Longrightarrow> friend_step S s s' \<Longrightarrow> friend_reachable S s'"
  unfolding friend_reachable_def by (blast intro: rtranclp.rtrancl_into_rtrancl)

lemma demo_reachable: "friend_reachable mem_friend_server after_apply" "friend_reachable mem_friend_server after_agree"
proof -
  show R: "friend_reachable mem_friend_server after_apply"
    unfolding after_apply_def by (rule reachable_step [OF empty_reachable fs_apply [OF surjective_pairing]])
  show "friend_reachable mem_friend_server after_agree" unfolding after_agree_def
    by (rule reachable_step [OF R fs_respond [OF surjective_pairing]])
qed

lemma demo_runs:
  "fst (RespondFriendApply mem_friend_server 2 (as_user ''v'') ''u'' ''v'' 1 [] after_apply) = Ok ()"
  "fst (IsFriend mem_friend_server ''u'' ''v'' after_agree) = Ok (True, True)"
  "fst (ImportFriends mem_friend_server 3 (as_user ''admin'') ''u'' [''w''] after_agree) = Ok ()"
  by code_simp+

section \<open>Properties\<close>

text \<open>
  C3.  In every state the friend service reaches from an empty database when it serves one request after
  another, whatever the requests were and however they ended: no user is a friend of itself or has a
  request to itself, no friend relation, request or blacklist entry is stored twice, and \<open>IsFriend\<close>,
  which answers from the Redis lists, says in both directions exactly what the MongoDB relation says.
  Requests that overlap are excluded: with them the part on \<open>IsFriend\<close> is false, as \<open>agree_overlapped\<close>
  shows.  Assumed besides: unique indexes, transactions, a cache that deletes (MongoDB and rockscache as
  documented), no import webhook.
\<close>

theorem friends_stay_consistent:
  assumes "friend_env (svFriendDB S)" "import_plain S" "friend_reachable S s"
  shows "docs_wf (fdocs s) \<and> (\<forall>u v b s'. IsFriend S u v s = (Ok b, s') \<longrightarrow> b = (are_friends s u v, are_friends s v u))"
  using reachable_inv [OF assms] IsFriend_inv_answers [OF assms(1) reachable_inv [OF assms]]
  by (auto simp: friend_inv_def)

lemma friends_stay_consistent_witness:
  "docs_wf (fdocs after_agree) \<and> are_friends after_agree ''u'' ''v'' \<and> are_friends after_agree ''v'' ''u''"
proof -
  have "IsFriend mem_friend_server ''u'' ''v'' after_agree = (Ok (True, True), snd (IsFriend mem_friend_server ''u'' ''v'' after_agree))"
    using demo_runs(2) by (simp add: prod_eq_iff)
  with friends_stay_consistent [OF mem_server_ok demo_reachable(2)]
  have "docs_wf (fdocs after_agree) \<and> (True, True) = (are_friends after_agree ''u'' ''v'', are_friends after_agree ''v'' ''u'')"
    by blast
  then show ?thesis by simp
qed







text \<open>
  C8.  A successful \<open>RespondFriendApply\<close> that agrees was made by the receiver of the request or an
  administrator, found the request open, leaves it handled, and adds exactly the two directions of
  the friendship to the relation: one that existed is kept, nobody else's changes.  Assumed: the state is reached by whole
  requests, unique indexes, transactions, a cache that deletes, no import webhook.
\<close>

theorem agree_makes_friends:
  assumes E: "friend_env (svFriendDB S)" and W: "import_plain S" and R: "friend_reachable S s"
    and run: "RespondFriendApply S now ctx u v 1 m s = (Ok (), s')"
  shows "(ctxOpUserID ctx = v \<or> IsAppManagerUid (svAuthCfg S) (ctxOpUserID ctx)) \<and> u \<noteq> v
    \<and> request_in u v 0 (fst (fsRequests s)) \<and> request_in u v 1 (fst (fsRequests s'))
    \<and> friend_pairs s' = friend_pairs s \<union> {(u, v), (v, u)}"
proof -
  let ?D = "svFriendDB S"
  let ?fr = "\<lparr> frFromUserID = u, frToUserID = v, frHandleResult = 1, frReqMsg = [], frCreateTime = zero_time,
     frHandlerUserID = [], frHandleMsg = m, frHandleTime = zero_time, frEx = [] \<rparr>"
  from run obtain s1 s2 where acc: "CheckAccessV3 (svAuthCfg S) (ctxOpUserID ctx) v = None"
    and cb: "continue_on ErrCallbackContinue (CallbackBeforeAddFriendAgree S u v m 1) s = (Ok (), s1)"
    and ag: "AgreeFriendRequest ?D now (ctxOpUserID ctx) ?fr s1 = (Ok (), s2)"
    and no: "ignoreG (FriendApplicationAgreedNotification S now ctx u v m) s2 = (Ok (), s')"
    by (auto simp: RespondFriendApply_def Let_def checkAccess_def bindG_Ok_iff)
  have "silent fdocs (continue_on ErrCallbackContinue (CallbackBeforeAddFriendAgree S u v m 1))"
    unfolding friend_callbacks by (intro quiet)
  from silentD [OF this cb] have q1: "fdocs s1 = fdocs s" .
  have "preserves (friend_inv ?D) (continue_on ErrCallbackContinue (CallbackBeforeAddFriendAgree S u v m 1))"
    unfolding friend_callbacks by (intro pres)
  from preservesD [OF this reachable_inv [OF E W R] cb] have I1: "friend_inv ?D s1" .
  obtain s3 s4 where q3: "fdocs s3 = fdocs s1" and I3: "friend_inv ?D s3"
    and tx: "AgreeFriendRequest_tx ?D now (ctxOpUserID ctx) ?fr s3 = (Ok (), s4)" and q2: "fdocs s2 = fdocs s4"
    by (rule tx_from [OF E I1 ag [unfolded AgreeFriendRequest_def] agree_deletes [OF E]])
  have "silent fdocs (ignoreG (FriendApplicationAgreedNotification S now ctx u v m))"
    unfolding friend_notices by (intro quiet)
  from silentD [OF this no] q2 have q': "fdocs s' = fdocs s4" by simp
  note A = agree_tx [OF E I3 tx, simplified]
  note d0 = fdocs_eqD [OF trans [OF q3 q1]] and d1 = fdocs_eqD [OF q']
  show ?thesis
    using A(2-5) acc unfolding friend_pairs_def d0 d1
    by (auto simp: CheckAccessV3_def IsAppManagerUid_def split: if_splits)
qed

lemma agree_makes_friends_witness:
  "friend_pairs after_agree = friend_pairs after_apply \<union> {(''u'', ''v''), (''v'', ''u'')}"
proof -
  have "RespondFriendApply mem_friend_server 2 (as_user ''v'') ''u'' ''v'' 1 [] after_apply = (Ok (), after_agree)"
    using demo_runs(1) by (simp add: prod_eq_iff after_agree_def)
  from agree_makes_friends [OF mem_server_ok demo_reachable(1) this] show ?thesis by simp
qed

text \<open>
  C17.  Without an import webhook, \<open>ImportFriends\<close> succeeds only for an administrator, and only when none
  of the imported users is a friend of the owner in either direction; then it adds exactly both directions
  for every one of them.  One that is a friend already makes the whole import fail, although the comments
  of \<open>BecomeFriends\<close> say that such users are skipped and the others inserted.  (With the webhook
  on, the list it answers is inserted unchecked, and the claim is not made.)  Assumed: the state is reached
  by whole requests, unique indexes, transactions and a cache that deletes.
\<close>

theorem import_all_or_none:
  assumes E: "friend_env (svFriendDB S)" and W: "import_plain S" and R: "friend_reachable S s"
    and run: "ImportFriends S now ctx u vs s = (Ok (), s')"
  shows "IsAppManagerUid (svAuthCfg S) (ctxOpUserID ctx) \<and> u \<notin> set vs
    \<and> friend_pairs s \<inter> ({u} \<times> set vs \<union> set vs \<times> {u}) = {}
    \<and> friend_pairs s' = friend_pairs s \<union> ({u} \<times> set vs \<union> set vs \<times> {u})"
proof -
  let ?D = "svFriendDB S"
  let ?note = "\<lambda>userID. ignoreG (FriendApplicationAgreedNotification S now ctx u userID [])"
  from run import_plain_cb [OF W] obtain us s1 s2 s3 where adm: "CheckAdmin (svAuthCfg S) (ctxOpUserID ctx) = None" and o: "u \<notin> set vs"
    and usr: "onWorld (GetUsersInfo (svUser S) (u # vs)) s = (Ok us, s1)"
    and be: "BecomeFriends ?D (ctxOperationID ctx) u vs BecomeFriendByImport s1 = (Ok (), s2)"
    and fin: "bindG (forG vs ?note) (\<lambda>_. CallbackAfterImportFriends S u vs) s2 = (Ok (), s')"
    by (auto simp: ImportFriends_def bindG_Ok_iff retG_run failG_run split: if_splits)
  from silentD [OF silent_world(1) usr] have q1: "fdocs s1 = fdocs s" .
  from preservesD [OF world_inv reachable_inv [OF E W R] usr] have I1: "friend_inv ?D s1" .
  obtain s4 s5 where q4: "fdocs s4 = fdocs s1" and I4: "friend_inv ?D s4"
    and tx: "BecomeFriends_tx ?D (ctxOperationID ctx) u vs BecomeFriendByImport s4 = (Ok (), s5)" and q2: "fdocs s2 = fdocs s5"
    by (rule tx_from [OF E I1 be [unfolded BecomeFriends_def] become_deletes [OF E]])
  have "silent fdocs (bindG (forG vs ?note) (\<lambda>_. CallbackAfterImportFriends S u vs))"
    unfolding friend_notices friend_callbacks by (intro quiet)
  from silentD [OF this fin] q2 have q': "fdocs s' = fdocs s5" by simp
  note d0 = fdocs_eqD [OF trans [OF q4 q1]] and d1 = fdocs_eqD [OF q']
  show ?thesis
    using become_tx [OF E I4 o tx] o adm unfolding friend_pairs_def d0 d1
    by (auto simp: CheckAdmin_def IsAppManagerUid_def split: if_splits)
qed

lemma import_all_or_none_witness:
  "\<exists>s' :: unit friend_state. friend_pairs s' = friend_pairs after_agree \<union> {(''u'', ''w''), (''w'', ''u'')} \<and> (''w'', ''u'') \<notin> friend_pairs after_agree"
proof -
  let ?s = "snd (ImportFriends mem_friend_server 3 (as_user ''admin'') ''u'' [''w''] after_agree)"
  have "ImportFriends mem_friend_server 3 (as_user ''admin'') ''u'' [''w''] after_agree = (Ok (), ?s)"
    using demo_runs(3) by (simp add: prod_eq_iff)
  from import_all_or_none [OF mem_server_ok demo_reachable(2) this] show ?thesis by (intro exI [of _ ?s]) auto
qed

end
