(* ===== verification/ConversationDB.thy ===== *)
theory ConversationDB
  imports MongoUtil MetaCache Constants ConversationID Entities
begin

text \<open>
  Conversations: the collection (\<open>pkg/common/db/mgo/conversation.go\<close>), its caches
  (\<open>pkg/common/db/cache/conversation.go\<close>) and the controller
  (\<open>pkg/common/db/controller/conversation.go\<close>).

  The cache builder of the code is the list of the keys it will delete.  The map of fields of an
  update is a list of \<open>conv_field\<close>.
\<close>

section \<open>Documents\<close>

record ConversationModel =
  cmOwnerUserID :: string
  cmConversationID :: string
  cmConversationType :: int
  cmUserID :: string
  cmGroupID :: string
  cmRecvMsgOpt :: int
  cmIsPinned :: bool
  cmIsPrivateChat :: bool
  cmBurnDuration :: int
  cmGroupAtType :: int
  cmAttachedInfo :: string
  cmEx :: string
  cmMaxSeq :: int
  cmMinSeq :: int
  cmCreateTime :: int
  cmIsMsgDestruct :: bool
  cmMsgDestructTime :: int
  cmLatestMsgDestructTime :: int
  cmLatestMsgSendTime :: int

definition zero_conversation :: ConversationModel where
  "zero_conversation = \<lparr> cmOwnerUserID = [], cmConversationID = [], cmConversationType = 0, cmUserID = [], cmGroupID = [],
     cmRecvMsgOpt = 0, cmIsPinned = False, cmIsPrivateChat = False, cmBurnDuration = 0, cmGroupAtType = 0, cmAttachedInfo = [],
     cmEx = [], cmMaxSeq = 0, cmMinSeq = 0, cmCreateTime = - 62135596800000, cmIsMsgDestruct = False, cmMsgDestructTime = 0,
     cmLatestMsgDestructTime = - 62135596800000, cmLatestMsgSendTime = 0 \<rparr>"

datatype conv_field =
    FRecvMsgOpt int
  | FAttachedInfo string
  | FEx string
  | FIsPinned bool
  | FGroupAtType int
  | FMsgDestructTime int
  | FIsMsgDestruct bool
  | FIsPrivateChat bool
  | FBurnDuration int
  | FLatestMsgSendTime int
  | FMaxSeq int
  | FHasReadSeq int

text \<open>There is no field for the read mark in the document.\<close>

fun set_conv_field :: "conv_field \<Rightarrow> ConversationModel \<Rightarrow> ConversationModel" where
  "set_conv_field (FRecvMsgOpt v) c = c\<lparr> cmRecvMsgOpt := v \<rparr>"
| "set_conv_field (FAttachedInfo v) c = c\<lparr> cmAttachedInfo := v \<rparr>"
| "set_conv_field (FEx v) c = c\<lparr> cmEx := v \<rparr>"
| "set_conv_field (FIsPinned v) c = c\<lparr> cmIsPinned := v \<rparr>"
| "set_conv_field (FGroupAtType v) c = c\<lparr> cmGroupAtType := v \<rparr>"
| "set_conv_field (FMsgDestructTime v) c = c\<lparr> cmMsgDestructTime := v \<rparr>"
| "set_conv_field (FIsMsgDestruct v) c = c\<lparr> cmIsMsgDestruct := v \<rparr>"
| "set_conv_field (FIsPrivateChat v) c = c\<lparr> cmIsPrivateChat := v \<rparr>"
| "set_conv_field (FBurnDuration v) c = c\<lparr> cmBurnDuration := v \<rparr>"
| "set_conv_field (FLatestMsgSendTime v) c = c\<lparr> cmLatestMsgSendTime := v \<rparr>"
| "set_conv_field (FMaxSeq v) c = c\<lparr> cmMaxSeq := v \<rparr>"
| "set_conv_field (FHasReadSeq v) c = c"

definition set_conv_fields :: "conv_field list \<Rightarrow> ConversationModel \<Rightarrow> ConversationModel" where
  "set_conv_fields fs c = fold set_conv_field fs c"

definition sets_recv_opt :: "conv_field list \<Rightarrow> bool" where
  "sets_recv_opt fs \<longleftrightarrow> list_ex (\<lambda>f. case f of FRecvMsgOpt v \<Rightarrow> True | _ \<Rightarrow> False) fs"

definition sets_has_read :: "conv_field list \<Rightarrow> bool" where
  "sets_has_read fs \<longleftrightarrow> list_ex (\<lambda>f. case f of FHasReadSeq v \<Rightarrow> True | _ \<Rightarrow> False) fs"

section \<open>Collection (mgo)\<close>

type_synonym ('w, 'a) conv_op = "((ConversationModel, 'w) mstore, 'a) go"
type_synonym 'w conv_coll = "(ConversationModel, 'w) mongo_coll"

definition conv_is :: "string \<Rightarrow> string \<Rightarrow> ConversationModel \<Rightarrow> bool" where
  "conv_is userID conversationID c \<longleftrightarrow> cmOwnerUserID c = userID \<and> cmConversationID c = conversationID"

definition ConversationMgo_Create :: "'w conv_coll \<Rightarrow> ConversationModel list \<Rightarrow> ('w, unit) conv_op" where
  "ConversationMgo_Create C conversations = mgo_InsertMany C conversations"

definition ConversationMgo_Delete :: "'w conv_coll \<Rightarrow> string list \<Rightarrow> ('w, unit) conv_op" where
  "ConversationMgo_Delete C groupIDs = mgo_DeleteMany C (\<lambda>c. cmGroupID c \<in> set groupIDs)"

text \<open>The number of modified documents is not used by any caller.\<close>

definition ConversationMgo_UpdateByMap :: "'w conv_coll \<Rightarrow> string list \<Rightarrow> string \<Rightarrow> conv_field list \<Rightarrow> ('w, int) conv_op" where
  "ConversationMgo_UpdateByMap C userIDs conversationID args =
     mgo_UpdateMany C (\<lambda>c. cmOwnerUserID c \<in> set userIDs \<and> cmConversationID c = conversationID) (set_conv_fields args)"

text \<open>Every field is written.\<close>

definition ConversationMgo_Update :: "'w conv_coll \<Rightarrow> ConversationModel \<Rightarrow> ('w, unit) conv_op" where
  "ConversationMgo_Update C conversation =
     mgo_UpdateOne C (conv_is (cmOwnerUserID conversation) (cmConversationID conversation)) (\<lambda>c. conversation) True"

definition ConversationMgo_Find :: "'w conv_coll \<Rightarrow> string \<Rightarrow> string list \<Rightarrow> ('w, ConversationModel list) conv_op" where
  "ConversationMgo_Find C ownerUserID conversationIDs =
     mgo_Find C (\<lambda>c. cmOwnerUserID c = ownerUserID \<and> cmConversationID c \<in> set conversationIDs) None"

definition ConversationMgo_FindUserID :: "'w conv_coll \<Rightarrow> string list \<Rightarrow> string list \<Rightarrow> ('w, string list) conv_op" where
  "ConversationMgo_FindUserID C userIDs conversationIDs =
     mgo_Find_field C (\<lambda>c. cmOwnerUserID c \<in> set userIDs \<and> cmConversationID c \<in> set conversationIDs) cmOwnerUserID"

definition pinned_first :: "ConversationModel \<Rightarrow> ConversationModel \<Rightarrow> bool" where
  "pinned_first a b \<longleftrightarrow> (if cmIsPinned a \<noteq> cmIsPinned b then cmIsPinned a else cmLatestMsgSendTime a \<ge> cmLatestMsgSendTime b)"

definition ConversationMgo_FindUserIDAllConversationID :: "'w conv_coll \<Rightarrow> string \<Rightarrow> ('w, string list) conv_op" where
  "ConversationMgo_FindUserIDAllConversationID C userID =
     bindG (mgo_Find C (\<lambda>c. cmOwnerUserID c = userID) (Some \<lparr> foSkip = 0, foLimit = 0, foSort = Some pinned_first \<rparr>))
       (\<lambda>cs. retG (map cmConversationID cs))"

definition ConversationMgo_Take :: "'w conv_coll \<Rightarrow> string \<Rightarrow> string \<Rightarrow> ('w, ConversationModel) conv_op" where
  "ConversationMgo_Take C userID conversationID = mgo_FindOne C (conv_is userID conversationID)"

definition ConversationMgo_FindConversationID :: "'w conv_coll \<Rightarrow> string \<Rightarrow> string list \<Rightarrow> ('w, string list) conv_op" where
  "ConversationMgo_FindConversationID C userID conversationIDs =
     mgo_Find_field C (\<lambda>c. cmOwnerUserID c = userID \<and> cmConversationID c \<in> set conversationIDs) cmConversationID"

definition ConversationMgo_FindUserIDAllConversations :: "'w conv_coll \<Rightarrow> string \<Rightarrow> ('w, ConversationModel list) conv_op" where
  "ConversationMgo_FindUserIDAllConversations C userID = mgo_Find C (\<lambda>c. cmOwnerUserID c = userID) None"

definition ConversationMgo_FindRecvMsgNotNotifyUserIDs :: "'w conv_coll \<Rightarrow> string \<Rightarrow> ('w, string list) conv_op" where
  "ConversationMgo_FindRecvMsgNotNotifyUserIDs C groupID =
     mgo_Find_field C (\<lambda>c. cmGroupID c = groupID \<and> cmRecvMsgOpt c = ReceiveNotNotifyMessage) cmOwnerUserID"

definition ConversationMgo_GetUserRecvMsgOpt :: "'w conv_coll \<Rightarrow> string \<Rightarrow> string \<Rightarrow> ('w, int) conv_op" where
  "ConversationMgo_GetUserRecvMsgOpt C ownerUserID conversationID =
     bindG (mgo_FindOne C (conv_is ownerUserID conversationID)) decode_int"

definition ConversationMgo_GetAllConversationIDs :: "'w conv_coll \<Rightarrow> ('w, string list) conv_op" where
  "ConversationMgo_GetAllConversationIDs C =
     bindG (mgo_Aggregate C (\<lambda>c. True) cmConversationID) (\<lambda>gs. retG (map fst gs))"

definition ConversationMgo_GetAllConversationIDsNumber :: "'w conv_coll \<Rightarrow> ('w, int) conv_op" where
  "ConversationMgo_GetAllConversationIDsNumber C =
     bindG (mgo_Aggregate C (\<lambda>c. True) cmConversationID) (\<lambda>gs. retG (int (length gs)))"

definition ConversationMgo_PageConversationIDs :: "'w conv_coll \<Rightarrow> pagination \<Rightarrow> ('w, string list) conv_op" where
  "ConversationMgo_PageConversationIDs C p = bindG (mgo_FindPageOnly C (\<lambda>c. True) p) (decodes_field True cmConversationID)"

definition ConversationMgo_GetConversationsByConversationID ::
  "'w conv_coll \<Rightarrow> string list \<Rightarrow> ('w, ConversationModel list) conv_op" where
  "ConversationMgo_GetConversationsByConversationID C conversationIDs =
     mgo_Find C (\<lambda>c. cmConversationID c \<in> set conversationIDs) None"

text \<open>
  MongoDB compares values of different types as unequal: a boolean is never equal to the number 1, so
  the first condition of the filter holds of no document.
\<close>

definition bool_equals_number :: "bool \<Rightarrow> int \<Rightarrow> bool" where
  "bool_equals_number b n \<longleftrightarrow> False"

definition ConversationMgo_GetConversationIDsNeedDestruct :: "'w conv_coll \<Rightarrow> int \<Rightarrow> ('w, ConversationModel list) conv_op" where
  "ConversationMgo_GetConversationIDsNeedDestruct C now =
     mgo_Find C (\<lambda>c. bool_equals_number (cmIsMsgDestruct c) 1 \<and> cmMsgDestructTime c \<noteq> 0
       \<and> now > cmMsgDestructTime c + cmLatestMsgDestructTime c) None"

definition ConversationMgo_GetConversationNotReceiveMessageUserIDs :: "'w conv_coll \<Rightarrow> string \<Rightarrow> ('w, string list) conv_op" where
  "ConversationMgo_GetConversationNotReceiveMessageUserIDs C conversationID =
     mgo_Find_field C (\<lambda>c. cmConversationID c = conversationID \<and> cmRecvMsgOpt c \<noteq> ReceiveMessage) cmOwnerUserID"

section \<open>The state and the services behind the controller\<close>

record 'w conv_state =
  csConvs :: "(ConversationModel, 'w) mstore"
  csCache :: "'w cstore"
  csWorld :: 'w

type_synonym ('w, 'a) cgo = "('w conv_state, 'a) go"

text \<open>\<open>cdMd5\<close> is the digest in hexadecimal digits.\<close>

record 'w conv_db =
  cdColl :: "'w conv_coll"
  cdRc :: "'w cstore rc_api"
  cdTx :: "'w conv_state tx_api"
  cdIDsJson :: "string list codec"
  cdConvJson :: "ConversationModel codec"
  cdIntJson :: "int codec"
  cdMd5 :: "string \<Rightarrow> string"

definition onConvs :: "('w, 'a) conv_op \<Rightarrow> ('w, 'a) cgo" where
  "onConvs m = zoomG csConvs (\<lambda>t s. s\<lparr> csConvs := t \<rparr>) m"

definition onConvCache :: "('w cstore, 'a) go \<Rightarrow> ('w, 'a) cgo" where
  "onConvCache m = zoomG csCache (\<lambda>t s. s\<lparr> csCache := t \<rparr>) m"

definition onConvWorld :: "('w, 'a) go \<Rightarrow> ('w, 'a) cgo" where
  "onConvWorld m = zoomG csWorld (\<lambda>t s. s\<lparr> csWorld := t \<rparr>) m"

definition convCache :: "'w conv_db \<Rightarrow> 'w conv_state rc_api" where
  "convCache D = \<lparr> rcGet = (\<lambda>k. onConvCache (rcGet (cdRc D) k)), rcPut = (\<lambda>k v t. onConvCache (rcPut (cdRc D) k v t)),
     rcTagAsDeleted = (\<lambda>k. onConvCache (rcTagAsDeleted (cdRc D) k)) \<rparr>"

section \<open>Caches\<close>

definition getConversationKey :: "string \<Rightarrow> string \<Rightarrow> string" where
  "getConversationKey ownerUserID conversationID = ''CONVERSATION:'' @ ownerUserID @ '':'' @ conversationID"

definition getConversationIDsKey :: "string \<Rightarrow> string" where
  "getConversationIDsKey ownerUserID = ''CONVERSATION_IDS:'' @ ownerUserID"

definition getSuperGroupRecvNotNotifyUserIDsKey :: "string \<Rightarrow> string" where
  "getSuperGroupRecvNotNotifyUserIDsKey groupID = ''SUPER_GROUP_RECV_MSG_NOT_NOTIFY_USER_IDS:'' @ groupID"

definition getRecvMsgOptKey :: "string \<Rightarrow> string \<Rightarrow> string" where
  "getRecvMsgOptKey ownerUserID conversationID = ''RECV_MSG_OPT:'' @ ownerUserID @ '':'' @ conversationID"

definition getSuperGroupRecvNotNotifyUserIDsHashKey :: "string \<Rightarrow> string" where
  "getSuperGroupRecvNotNotifyUserIDsHashKey groupID = ''SUPER_GROUP_RECV_MSG_NOT_NOTIFY_USER_IDS_HASH:'' @ groupID"

definition getConversationHasReadSeqKey :: "string \<Rightarrow> string \<Rightarrow> string" where
  "getConversationHasReadSeqKey ownerUserID conversationID = ''CONVERSATION_HAS_READ_SEQ:'' @ ownerUserID @ '':'' @ conversationID"

definition getConversationNotReceiveMessageUserIDsKey :: "string \<Rightarrow> string" where
  "getConversationNotReceiveMessageUserIDsKey conversationID = ''CONVERSATION_NOT_RECEIVE_MESSAGE_USER_IDS:'' @ conversationID"

definition getUserConversationIDsHashKey :: "string \<Rightarrow> string" where
  "getUserConversationIDsHashKey ownerUserID = ''CONVERSATION_IDS_HASH:'' @ ownerUserID"

abbreviation (input) conversationExpireTime :: int where "conversationExpireTime \<equiv> 43200"

definition GetUserConversationIDs :: "'w conv_db \<Rightarrow> string \<Rightarrow> ('w, string list) cgo" where
  "GetUserConversationIDs D ownerUserID =
     getCache (convCache D) (cdIDsJson D) (getConversationIDsKey ownerUserID) conversationExpireTime
       (onConvs (ConversationMgo_FindUserIDAllConversationID (cdColl D) ownerUserID))"

definition ids_hash :: "(string \<Rightarrow> string) \<Rightarrow> string list \<Rightarrow> int" where
  "ids_hash md5 ids = hex_value (take 8 (md5 (join_str '';'' (sort_stable str_leq ids))))"

definition cache_GetUserConversationIDsHash :: "'w conv_db \<Rightarrow> string \<Rightarrow> ('w, int) cgo" where
  "cache_GetUserConversationIDsHash D ownerUserID =
     getCache (convCache D) (cdIntJson D) (getUserConversationIDsHashKey ownerUserID) conversationExpireTime
       (bindG (GetUserConversationIDs D ownerUserID) (\<lambda>conversationIDs. retG (ids_hash (cdMd5 D) conversationIDs)))"

definition cache_GetConversation :: "'w conv_db \<Rightarrow> string \<Rightarrow> string \<Rightarrow> ('w, ConversationModel) cgo" where
  "cache_GetConversation D ownerUserID conversationID =
     getCache (convCache D) (cdConvJson D) (getConversationKey ownerUserID conversationID) conversationExpireTime
       (onConvs (ConversationMgo_Take (cdColl D) ownerUserID conversationID))"

definition cache_GetConversations :: "'w conv_db \<Rightarrow> string \<Rightarrow> string list \<Rightarrow> ('w, ConversationModel list) cgo" where
  "cache_GetConversations D ownerUserID conversationIDs =
     batchGetCache2 (convCache D) (cdConvJson D) conversationExpireTime (getConversationKey ownerUserID)
       (\<lambda>conversationID. onConvs (ConversationMgo_Take (cdColl D) ownerUserID conversationID)) conversationIDs"

definition GetUserAllConversations :: "'w conv_db \<Rightarrow> string \<Rightarrow> ('w, ConversationModel list) cgo" where
  "GetUserAllConversations D ownerUserID =
     bindG (GetUserConversationIDs D ownerUserID) (cache_GetConversations D ownerUserID)"

definition GetUserRecvMsgOpt :: "'w conv_db \<Rightarrow> string \<Rightarrow> string \<Rightarrow> ('w, int) cgo" where
  "GetUserRecvMsgOpt D ownerUserID conversationID =
     getCache (convCache D) (cdIntJson D) (getRecvMsgOptKey ownerUserID conversationID) conversationExpireTime
       (onConvs (ConversationMgo_GetUserRecvMsgOpt (cdColl D) ownerUserID conversationID))"

definition cache_GetConversationNotReceiveMessageUserIDs :: "'w conv_db \<Rightarrow> string \<Rightarrow> ('w, string list) cgo" where
  "cache_GetConversationNotReceiveMessageUserIDs D conversationID =
     getCache (convCache D) (cdIDsJson D) (getConversationNotReceiveMessageUserIDsKey conversationID) conversationExpireTime
       (onConvs (ConversationMgo_GetConversationNotReceiveMessageUserIDs (cdColl D) conversationID))"

definition DelConversationIDs :: "string list \<Rightarrow> string list" where
  "DelConversationIDs userIDs = map getConversationIDsKey userIDs"

definition DelUserConversationIDsHash :: "string list \<Rightarrow> string list" where
  "DelUserConversationIDsHash ownerUserIDs = map getUserConversationIDsHashKey ownerUserIDs"

definition DelConversations :: "string \<Rightarrow> string list \<Rightarrow> string list" where
  "DelConversations ownerUserID conversationIDs = map (getConversationKey ownerUserID) conversationIDs"

definition DelUsersConversation :: "string \<Rightarrow> string list \<Rightarrow> string list" where
  "DelUsersConversation conversationID ownerUserIDs = map (\<lambda>u. getConversationKey u conversationID) ownerUserIDs"

definition DelUserRecvMsgOpt :: "string \<Rightarrow> string \<Rightarrow> string list" where
  "DelUserRecvMsgOpt ownerUserID conversationID = [getRecvMsgOptKey ownerUserID conversationID]"

definition DelSuperGroupRecvMsgNotNotifyUserIDs :: "string \<Rightarrow> string list" where
  "DelSuperGroupRecvMsgNotNotifyUserIDs groupID = [getSuperGroupRecvNotNotifyUserIDsKey groupID]"

definition DelSuperGroupRecvMsgNotNotifyUserIDsHash :: "string \<Rightarrow> string list" where
  "DelSuperGroupRecvMsgNotNotifyUserIDsHash groupID = [getSuperGroupRecvNotNotifyUserIDsHashKey groupID]"

definition DelUserAllHasReadSeqs :: "string \<Rightarrow> string list \<Rightarrow> string list" where
  "DelUserAllHasReadSeqs ownerUserID conversationIDs = map (getConversationHasReadSeqKey ownerUserID) conversationIDs"

definition DelConversationNotReceiveMessageUserIDs :: "string list \<Rightarrow> string list" where
  "DelConversationNotReceiveMessageUserIDs conversationIDs = map getConversationNotReceiveMessageUserIDsKey conversationIDs"

definition convExecDel :: "'w conv_db \<Rightarrow> string list \<Rightarrow> ('w, unit) cgo" where
  "convExecDel D keys = ExecDel (convCache D) keys"

section \<open>Controller\<close>

text \<open>The keys of \<open>DelConversations\<close> in the last branch have the two identifiers the wrong way round.\<close>

definition SetUsersConversationFiledTx_tx ::
  "'w conv_db \<Rightarrow> int \<Rightarrow> string list \<Rightarrow> ConversationModel \<Rightarrow> conv_field list \<Rightarrow> ('w, unit) cgo" where
  "SetUsersConversationFiledTx_tx D now userIDs conversation filedMap =
     (let cid = cmConversationID conversation;
          keys0 = (if cmGroupID conversation \<noteq> []
                   then DelSuperGroupRecvMsgNotNotifyUserIDs (cmGroupID conversation)
                     @ DelSuperGroupRecvMsgNotNotifyUserIDsHash (cmGroupID conversation)
                   else []) in
      bindG (onConvs (ConversationMgo_FindUserID (cdColl D) userIDs [cid])) (\<lambda>haveUserIDs.
      bindG (if length haveUserIDs > 0
             then bindG (onConvs (ConversationMgo_UpdateByMap (cdColl D) haveUserIDs cid filedMap)) (\<lambda>_.
               retG (keys0 @ DelUsersConversation cid haveUserIDs
                 @ (if sets_has_read filedMap then concat (map (\<lambda>u. DelUserAllHasReadSeqs u [cid]) haveUserIDs) else [])
                 @ (if sets_recv_opt filedMap then DelConversationNotReceiveMessageUserIDs [cid] else [])))
             else retG keys0) (\<lambda>keys1.
        let notUserIDs = DifferenceString haveUserIDs userIDs;
            conversations = map (\<lambda>v. conversation\<lparr> cmOwnerUserID := v, cmCreateTime := now \<rparr>) notUserIDs in
      bindG (if length conversations > 0
             then bindG (onConvs (ConversationMgo_Create (cdColl D) conversations)) (\<lambda>_.
               retG (keys1 @ DelConversationIDs notUserIDs @ DelUserConversationIDsHash notUserIDs @ DelConversations cid notUserIDs))
             else retG keys1) (\<lambda>keys2.
        convExecDel D keys2))))"

definition SetUsersConversationFiledTx ::
  "'w conv_db \<Rightarrow> int \<Rightarrow> string list \<Rightarrow> ConversationModel \<Rightarrow> conv_field list \<Rightarrow> ('w, unit) cgo" where
  "SetUsersConversationFiledTx D now userIDs conversation filedMap =
     Mongo_Transaction (cdTx D) (SetUsersConversationFiledTx_tx D now userIDs conversation filedMap)"

definition UpdateUsersConversationFiled :: "'w conv_db \<Rightarrow> string list \<Rightarrow> string \<Rightarrow> conv_field list \<Rightarrow> ('w, unit) cgo" where
  "UpdateUsersConversationFiled D userIDs conversationID args =
     bindG (onConvs (ConversationMgo_UpdateByMap (cdColl D) userIDs conversationID args)) (\<lambda>_.
     convExecDel D (DelUsersConversation conversationID userIDs
       @ (if sets_recv_opt args then DelConversationNotReceiveMessageUserIDs [conversationID] else [])))"

definition CreateConversation :: "'w conv_db \<Rightarrow> ConversationModel list \<Rightarrow> ('w, unit) cgo" where
  "CreateConversation D conversations =
     bindG (onConvs (ConversationMgo_Create (cdColl D) conversations)) (\<lambda>_.
       let userIDs = map cmOwnerUserID conversations in
       convExecDel D (concat (map (\<lambda>c. DelConversations (cmOwnerUserID c) [cmConversationID c]
           @ DelConversationNotReceiveMessageUserIDs [cmConversationID c]) conversations)
         @ DelConversationIDs userIDs @ DelUserConversationIDsHash userIDs))"

text \<open>One direction of a private chat; the value is the keys to delete.\<close>

definition sync_direction :: "'w conv_db \<Rightarrow> ConversationModel \<Rightarrow> string \<Rightarrow> string \<Rightarrow> string list \<Rightarrow> ('w, string list) cgo" where
  "sync_direction D conversation ownerUserID userID keys =
     bindG (onConvs (ConversationMgo_FindUserID (cdColl D) [ownerUserID] [cmConversationID conversation])) (\<lambda>haveUserIDs.
       if length haveUserIDs > 0
       then bindG (onConvs (ConversationMgo_UpdateByMap (cdColl D) [ownerUserID] (cmConversationID conversation)
                    [FIsPrivateChat (cmIsPrivateChat conversation)])) (\<lambda>_.
              retG (keys @ DelUsersConversation (cmConversationID conversation) [ownerUserID]))
       else bindG (onConvs (ConversationMgo_Create (cdColl D)
                    [conversation\<lparr> cmOwnerUserID := ownerUserID, cmUserID := userID \<rparr>])) (\<lambda>_.
              retG (keys @ DelConversationIDs [ownerUserID] @ DelUserConversationIDsHash [ownerUserID])))"

definition SyncPeerUserPrivateConversationTx_tx :: "'w conv_db \<Rightarrow> ConversationModel list \<Rightarrow> ('w, unit) cgo" where
  "SyncPeerUserPrivateConversationTx_tx D conversations =
     bindG (foldG (\<lambda>c keys. bindG (sync_direction D c (cmOwnerUserID c) (cmUserID c) keys)
                              (sync_direction D c (cmUserID c) (cmOwnerUserID c))) conversations [])
       (convExecDel D)"

definition SyncPeerUserPrivateConversationTx :: "'w conv_db \<Rightarrow> ConversationModel list \<Rightarrow> ('w, unit) cgo" where
  "SyncPeerUserPrivateConversationTx D conversations =
     Mongo_Transaction (cdTx D) (SyncPeerUserPrivateConversationTx_tx D conversations)"

definition FindConversations :: "'w conv_db \<Rightarrow> string \<Rightarrow> string list \<Rightarrow> ('w, ConversationModel list) cgo" where
  "FindConversations D ownerUserID conversationIDs = cache_GetConversations D ownerUserID conversationIDs"

definition conversationDatabase_GetConversation :: "'w conv_db \<Rightarrow> string \<Rightarrow> string \<Rightarrow> ('w, ConversationModel) cgo" where
  "conversationDatabase_GetConversation D ownerUserID conversationID = cache_GetConversation D ownerUserID conversationID"

definition GetUserAllConversation :: "'w conv_db \<Rightarrow> string \<Rightarrow> ('w, ConversationModel list) cgo" where
  "GetUserAllConversation D ownerUserID = GetUserAllConversations D ownerUserID"

text \<open>When one of the conversations exists, all of them are updated, also those that do not exist.\<close>

definition SetUserConversations_tx :: "'w conv_db \<Rightarrow> string \<Rightarrow> ConversationModel list \<Rightarrow> ('w, unit) cgo" where
  "SetUserConversations_tx D ownerUserID conversations =
     (let groupIDs = Distinct (Filter_slice conversations (\<lambda>e. (cmGroupID e, cmGroupID e \<noteq> [])));
          keys0 = concat (map (\<lambda>g. DelSuperGroupRecvMsgNotNotifyUserIDs g @ DelSuperGroupRecvMsgNotNotifyUserIDsHash g) groupIDs)
                  @ concat (map (\<lambda>c. DelConversations (cmOwnerUserID c) [cmConversationID c]) conversations) in
      bindG (onConvs (ConversationMgo_Find (cdColl D) ownerUserID (map cmConversationID conversations))) (\<lambda>existConversations.
      bindG (if length existConversations > 0
             then forG conversations (\<lambda>c. onConvs (ConversationMgo_Update (cdColl D) c)) else retG ()) (\<lambda>_.
        let existConversationIDs = map cmConversationID existConversations;
            notExist = filter (\<lambda>c. \<not> IsContain (cmConversationID c) existConversationIDs) conversations in
      bindG (if length notExist > 0
             then bindG (onConvs (ConversationMgo_Create (cdColl D) notExist)) (\<lambda>_.
               retG (keys0 @ DelConversationIDs [ownerUserID] @ DelUserConversationIDsHash [ownerUserID]
                 @ DelConversationNotReceiveMessageUserIDs (Slice notExist cmConversationID)))
             else retG keys0) (\<lambda>keys1.
        convExecDel D keys1))))"

definition SetUserConversations :: "'w conv_db \<Rightarrow> string \<Rightarrow> ConversationModel list \<Rightarrow> ('w, unit) cgo" where
  "SetUserConversations D ownerUserID conversations =
     Mongo_Transaction (cdTx D) (SetUserConversations_tx D ownerUserID conversations)"

definition CreateGroupChatConversation_tx :: "'w conv_db \<Rightarrow> string \<Rightarrow> string list \<Rightarrow> ('w, unit) cgo" where
  "CreateGroupChatConversation_tx D groupID userIDs =
     (let conversationID = GetConversationIDBySessionType SuperGroupChatType [groupID] in
      bindG (onConvs (ConversationMgo_FindUserID (cdColl D) userIDs [conversationID])) (\<lambda>existUserIDs.
        let notExistUserIDs = DifferenceString userIDs existUserIDs;
            conversations = map (\<lambda>v. zero_conversation\<lparr> cmConversationType := SuperGroupChatType, cmGroupID := groupID,
              cmOwnerUserID := v, cmConversationID := conversationID \<rparr>) notExistUserIDs;
            keys0 = concat (map (\<lambda>v. DelConversations v [conversationID] @ DelConversationNotReceiveMessageUserIDs [conversationID]) notExistUserIDs)
              @ DelConversationIDs notExistUserIDs @ DelUserConversationIDsHash notExistUserIDs in
      bindG (if length conversations > 0 then onConvs (ConversationMgo_Create (cdColl D) conversations) else retG ()) (\<lambda>_.
      bindG (onConvs (ConversationMgo_UpdateByMap (cdColl D) existUserIDs conversationID [FMaxSeq 0])) (\<lambda>_.
        convExecDel D (keys0 @ concat (map (\<lambda>v. DelConversations v [conversationID]) existUserIDs))))))"

definition CreateGroupChatConversation :: "'w conv_db \<Rightarrow> string \<Rightarrow> string list \<Rightarrow> ('w, unit) cgo" where
  "CreateGroupChatConversation D groupID userIDs = Mongo_Transaction (cdTx D) (CreateGroupChatConversation_tx D groupID userIDs)"

definition conversationDatabase_GetConversationIDs :: "'w conv_db \<Rightarrow> string \<Rightarrow> ('w, string list) cgo" where
  "conversationDatabase_GetConversationIDs D userID = GetUserConversationIDs D userID"

definition conversationDatabase_GetUserConversationIDsHash :: "'w conv_db \<Rightarrow> string \<Rightarrow> ('w, int) cgo" where
  "conversationDatabase_GetUserConversationIDsHash D ownerUserID = cache_GetUserConversationIDsHash D ownerUserID"

definition conversationDatabase_GetAllConversationIDs :: "'w conv_db \<Rightarrow> ('w, string list) cgo" where
  "conversationDatabase_GetAllConversationIDs D = onConvs (ConversationMgo_GetAllConversationIDs (cdColl D))"

definition conversationDatabase_GetAllConversationIDsNumber :: "'w conv_db \<Rightarrow> ('w, int) cgo" where
  "conversationDatabase_GetAllConversationIDsNumber D = onConvs (ConversationMgo_GetAllConversationIDsNumber (cdColl D))"

definition conversationDatabase_PageConversationIDs :: "'w conv_db \<Rightarrow> pagination \<Rightarrow> ('w, string list) cgo" where
  "conversationDatabase_PageConversationIDs D p = onConvs (ConversationMgo_PageConversationIDs (cdColl D) p)"

definition conversationDatabase_GetConversationsByConversationID ::
  "'w conv_db \<Rightarrow> string list \<Rightarrow> ('w, ConversationModel list) cgo" where
  "conversationDatabase_GetConversationsByConversationID D ids =
     onConvs (ConversationMgo_GetConversationsByConversationID (cdColl D) ids)"

definition conversationDatabase_GetConversationIDsNeedDestruct :: "'w conv_db \<Rightarrow> int \<Rightarrow> ('w, ConversationModel list) cgo" where
  "conversationDatabase_GetConversationIDsNeedDestruct D now =
     onConvs (ConversationMgo_GetConversationIDsNeedDestruct (cdColl D) now)"

definition conversationDatabase_GetConversationNotReceiveMessageUserIDs :: "'w conv_db \<Rightarrow> string \<Rightarrow> ('w, string list) cgo" where
  "conversationDatabase_GetConversationNotReceiveMessageUserIDs D cid = cache_GetConversationNotReceiveMessageUserIDs D cid"

end
