(* ===== verification/RpcClients.thy ===== *)
theory RpcClients
  imports UserClient
begin

text \<open>
  The clients of the group, message and conversation services: \<open>pkg/rpcclient/group.go\<close>,
  \<open>msg.go\<close>, \<open>conversation.go\<close>.  The generated gRPC stubs are records; a stub that fails returns
  no answer, so code that reads the answer before it looks at the error panics.
\<close>

definition read_before_check :: "('s, 'a) go \<Rightarrow> ('s, 'a) go" where
  "read_before_check call = bindG (attemptG call) (\<lambda>r. case r of
       Inl err \<Rightarrow> panicG ''nil pointer dereference'' | Inr a \<Rightarrow> retG a)"

section \<open>Group client (group.go)\<close>

record 's group_stub =
  gcGetGroupsInfo :: "string list \<Rightarrow> ('s, GroupInfo list) go"
  gcGetGroupMembersInfo :: "string \<Rightarrow> string list \<Rightarrow> ('s, GroupMemberFullInfo list) go"
  gcGetGroupMemberRoleLevel :: "string \<Rightarrow> int list \<Rightarrow> ('s, GroupMemberFullInfo list) go"
  gcGetGroupMemberUserIDs :: "string \<Rightarrow> ('s, string list) go"
  gcGetGroupInfoCache :: "string \<Rightarrow> ('s, GroupInfo) go"
  gcGetGroupMemberCache :: "string \<Rightarrow> string \<Rightarrow> ('s, GroupMemberFullInfo) go"
  gcDismissGroup :: "string \<Rightarrow> bool \<Rightarrow> ('s, unit) go"
  gcNotificationUserInfoUpdate :: "string \<Rightarrow> ('s, unit) go"
  gcOrd :: "string set \<Rightarrow> string list"

definition GroupRpcClient_GetGroupInfos :: "'s group_stub \<Rightarrow> string list \<Rightarrow> bool \<Rightarrow> ('s, GroupInfo list) go" where
  "GroupRpcClient_GetGroupInfos G groupIDs complete =
     bindG (gcGetGroupsInfo G groupIDs) (\<lambda>infos.
       let ids = Single (gcOrd G) groupIDs (Slice infos giGroupID) in
       if complete \<and> length ids > 0 then failG (codeError_Wrap ErrGroupIDNotFound [join_str '','' ids]) else retG infos)"

definition GroupRpcClient_GetGroupInfo :: "'s group_stub \<Rightarrow> string \<Rightarrow> ('s, GroupInfo) go" where
  "GroupRpcClient_GetGroupInfo G groupID = bindG (GroupRpcClient_GetGroupInfos G [groupID] True) first_of"

definition GroupRpcClient_GetGroupInfoMap :: "'s group_stub \<Rightarrow> string list \<Rightarrow> bool \<Rightarrow> ('s, string \<rightharpoonup> GroupInfo) go" where
  "GroupRpcClient_GetGroupInfoMap G groupIDs complete =
     bindG (GroupRpcClient_GetGroupInfos G groupIDs complete) (\<lambda>groups. retG (SliceToMap groups giGroupID))"

definition GroupRpcClient_GetGroupMemberInfos ::
  "'s group_stub \<Rightarrow> string \<Rightarrow> string list \<Rightarrow> bool \<Rightarrow> ('s, GroupMemberFullInfo list) go" where
  "GroupRpcClient_GetGroupMemberInfos G groupID userIDs complete =
     bindG (gcGetGroupMembersInfo G groupID userIDs) (\<lambda>members.
       let ids = Single (gcOrd G) userIDs (Slice members gmUserID) in
       if complete \<and> length ids > 0 then failG (codeError_Wrap ErrNotInGroupYet [join_str '','' ids]) else retG members)"

definition GroupRpcClient_GetGroupMemberInfo :: "'s group_stub \<Rightarrow> string \<Rightarrow> string \<Rightarrow> ('s, GroupMemberFullInfo) go" where
  "GroupRpcClient_GetGroupMemberInfo G groupID userID =
     bindG (GroupRpcClient_GetGroupMemberInfos G groupID [userID] True) first_of"

definition GroupRpcClient_GetGroupMemberInfoMap ::
  "'s group_stub \<Rightarrow> string \<Rightarrow> string list \<Rightarrow> bool \<Rightarrow> ('s, string \<rightharpoonup> GroupMemberFullInfo) go" where
  "GroupRpcClient_GetGroupMemberInfoMap G groupID userIDs complete =
     bindG (GroupRpcClient_GetGroupMemberInfos G groupID userIDs complete) (\<lambda>members. retG (SliceToMap members gmUserID))"

definition GroupRpcClient_GetOwnerAndAdminInfos :: "'s group_stub \<Rightarrow> string \<Rightarrow> ('s, GroupMemberFullInfo list) go" where
  "GroupRpcClient_GetOwnerAndAdminInfos G groupID = gcGetGroupMemberRoleLevel G groupID [GroupOwner, GroupAdmin]"

text \<open>The first member is read before the error is looked at.\<close>

definition GroupRpcClient_GetOwnerInfo :: "'s group_stub \<Rightarrow> string \<Rightarrow> ('s, GroupMemberFullInfo) go" where
  "GroupRpcClient_GetOwnerInfo G groupID =
     bindG (read_before_check (gcGetGroupMemberRoleLevel G groupID [GroupOwner])) first_of"

definition GroupRpcClient_GetGroupMemberIDs :: "'s group_stub \<Rightarrow> string \<Rightarrow> ('s, string list) go" where
  "GroupRpcClient_GetGroupMemberIDs G groupID = gcGetGroupMemberUserIDs G groupID"

definition GroupRpcClient_GetGroupInfoCache :: "'s group_stub \<Rightarrow> string \<Rightarrow> ('s, GroupInfo) go" where
  "GroupRpcClient_GetGroupInfoCache G groupID = gcGetGroupInfoCache G groupID"

definition GroupRpcClient_GetGroupMemberCache :: "'s group_stub \<Rightarrow> string \<Rightarrow> string \<Rightarrow> ('s, GroupMemberFullInfo) go" where
  "GroupRpcClient_GetGroupMemberCache G groupID groupMemberID = gcGetGroupMemberCache G groupID groupMemberID"

definition GroupRpcClient_DismissGroup :: "'s group_stub \<Rightarrow> string \<Rightarrow> ('s, unit) go" where
  "GroupRpcClient_DismissGroup G groupID = gcDismissGroup G groupID True"

definition GroupRpcClient_NotificationUserInfoUpdate :: "'s group_stub \<Rightarrow> string \<Rightarrow> ('s, unit) go" where
  "GroupRpcClient_NotificationUserInfoUpdate G userID = gcNotificationUserInfoUpdate G userID"

section \<open>Message client (msg.go)\<close>

record 's msg_stub =
  mstSendMsg :: "rpc_ctx \<Rightarrow> MsgData \<Rightarrow> ('s, unit) go"
  mstGetMaxSeqs :: "string list \<Rightarrow> ('s, string \<rightharpoonup> int) go"
  mstGetMinSeqs :: "string list \<Rightarrow> ('s, string \<rightharpoonup> int) go"
  mstGetHasReadSeqs :: "string \<Rightarrow> string list \<Rightarrow> ('s, string \<rightharpoonup> int) go"
  mstGetMsgByConversationIDs :: "string list \<Rightarrow> (string \<rightharpoonup> int) \<Rightarrow> ('s, string \<rightharpoonup> MsgData) go"
  mstReadSeqs :: "(int \<times> string \<times> string) list \<Rightarrow> ('s, unit) go"
  mstGetConversationMaxSeq :: "string \<Rightarrow> ('s, int) go"

definition MessageRpcClient_SendMsg :: "'s msg_stub \<Rightarrow> rpc_ctx \<Rightarrow> MsgData \<Rightarrow> ('s, unit) go" where
  "MessageRpcClient_SendMsg M ctx msg = mstSendMsg M ctx msg"

definition MessageRpcClient_GetMaxSeqs :: "'s msg_stub \<Rightarrow> string list \<Rightarrow> ('s, string \<rightharpoonup> int) go" where
  "MessageRpcClient_GetMaxSeqs M conversationIDs = read_before_check (mstGetMaxSeqs M conversationIDs)"

definition MessageRpcClient_GetMinSeqs :: "'s msg_stub \<Rightarrow> string list \<Rightarrow> ('s, string \<rightharpoonup> int) go" where
  "MessageRpcClient_GetMinSeqs M conversationIDs = read_before_check (mstGetMinSeqs M conversationIDs)"

definition MessageRpcClient_GetHasReadSeqs :: "'s msg_stub \<Rightarrow> string \<Rightarrow> string list \<Rightarrow> ('s, string \<rightharpoonup> int) go" where
  "MessageRpcClient_GetHasReadSeqs M userID conversationIDs = read_before_check (mstGetHasReadSeqs M userID conversationIDs)"

definition MessageRpcClient_GetMsgByConversationIDs ::
  "'s msg_stub \<Rightarrow> string list \<Rightarrow> (string \<rightharpoonup> int) \<Rightarrow> ('s, string \<rightharpoonup> MsgData) go" where
  "MessageRpcClient_GetMsgByConversationIDs M docIDs seqs = read_before_check (mstGetMsgByConversationIDs M docIDs seqs)"

definition MessageRpcClient_GetConversationMaxSeq :: "'s msg_stub \<Rightarrow> string \<Rightarrow> ('s, int) go" where
  "MessageRpcClient_GetConversationMaxSeq M conversationID = mstGetConversationMaxSeq M conversationID"

text \<open>A request to read is the number, the conversation and the user.\<close>

definition MessageRpcClient_ReadSeqs :: "'s msg_stub \<Rightarrow> (int \<times> string \<times> string) list \<Rightarrow> ('s, unit) go" where
  "MessageRpcClient_ReadSeqs M reqs = mstReadSeqs M reqs"

section \<open>Conversation client (conversation.go)\<close>

record 's conversation_stub =
  cstGetConversation :: "string \<Rightarrow> string \<Rightarrow> ('s, Conversation option) go"
  cstCreateSingleChatConversations :: "string \<Rightarrow> string \<Rightarrow> string \<Rightarrow> int \<Rightarrow> ('s, unit) go"
  cstCreateGroupChatConversations :: "string \<Rightarrow> string list \<Rightarrow> ('s, unit) go"
  cstSetConversationMaxSeq :: "string list \<Rightarrow> string \<Rightarrow> int \<Rightarrow> ('s, unit) go"
  cstSetConversations :: "string list \<Rightarrow> ConversationReq \<Rightarrow> ('s, unit) go"
  cstGetConversationIDs :: "string \<Rightarrow> ('s, string list) go"
  cstGetConversationsByConversationID :: "string list \<Rightarrow> ('s, Conversation list) go"
  cstGetConversations :: "string \<Rightarrow> string list \<Rightarrow> ('s, Conversation list) go"
  cstGetConversationOfflinePushUserIDs :: "string \<Rightarrow> string list \<Rightarrow> ('s, string list) go"

definition ConversationRpcClient_GetSingleConversationRecvMsgOpt :: "'s conversation_stub \<Rightarrow> string \<Rightarrow> string \<Rightarrow> ('s, int) go" where
  "ConversationRpcClient_GetSingleConversationRecvMsgOpt C userID conversationID =
     bindG (cstGetConversation C userID conversationID) (\<lambda>c. bindG (nil_deref c) (\<lambda>v. retG (cRecvMsgOpt v)))"

definition ConversationRpcClient_SingleChatFirstCreateConversation ::
  "'s conversation_stub \<Rightarrow> string \<Rightarrow> string \<Rightarrow> string \<Rightarrow> int \<Rightarrow> ('s, unit) go" where
  "ConversationRpcClient_SingleChatFirstCreateConversation C recvID sendID conversationID conversationType =
     cstCreateSingleChatConversations C recvID sendID conversationID conversationType"

definition ConversationRpcClient_GroupChatFirstCreateConversation :: "'s conversation_stub \<Rightarrow> string \<Rightarrow> string list \<Rightarrow> ('s, unit) go" where
  "ConversationRpcClient_GroupChatFirstCreateConversation C groupID userIDs = cstCreateGroupChatConversations C groupID userIDs"

definition ConversationRpcClient_SetConversationMaxSeq :: "'s conversation_stub \<Rightarrow> string list \<Rightarrow> string \<Rightarrow> int \<Rightarrow> ('s, unit) go" where
  "ConversationRpcClient_SetConversationMaxSeq C ownerUserIDs conversationID maxSeq =
     cstSetConversationMaxSeq C ownerUserIDs conversationID maxSeq"

definition ConversationRpcClient_SetConversations :: "'s conversation_stub \<Rightarrow> string list \<Rightarrow> ConversationReq \<Rightarrow> ('s, unit) go" where
  "ConversationRpcClient_SetConversations C userIDs conversation = cstSetConversations C userIDs conversation"

definition ConversationRpcClient_GetConversationIDs :: "'s conversation_stub \<Rightarrow> string \<Rightarrow> ('s, string list) go" where
  "ConversationRpcClient_GetConversationIDs C ownerUserID = cstGetConversationIDs C ownerUserID"

definition ConversationRpcClient_GetConversation :: "'s conversation_stub \<Rightarrow> string \<Rightarrow> string \<Rightarrow> ('s, Conversation option) go" where
  "ConversationRpcClient_GetConversation C ownerUserID conversationID = cstGetConversation C ownerUserID conversationID"

definition ConversationRpcClient_GetConversationsByConversationID ::
  "'s conversation_stub \<Rightarrow> (string list \<Rightarrow> string) \<Rightarrow> string list \<Rightarrow> ('s, Conversation list) go" where
  "ConversationRpcClient_GetConversationsByConversationID C show conversationIDs =
     (if length conversationIDs = 0 then retG []
      else bindG (cstGetConversationsByConversationID C conversationIDs) (\<lambda>cs.
        if length cs = 0
        then failG (Wrap1m ErrRecordNotFound (''conversationIDs: '' @ show conversationIDs @ '' not found''))
        else retG cs))"

definition ConversationRpcClient_GetConversations :: "'s conversation_stub \<Rightarrow> string \<Rightarrow> string list \<Rightarrow> ('s, Conversation list) go" where
  "ConversationRpcClient_GetConversations C ownerUserID conversationIDs =
     (if length conversationIDs = 0 then retG [] else cstGetConversations C ownerUserID conversationIDs)"

end
