(* ===== verification/ConversationServer.thy ===== *)
theory ConversationServer
  imports ConversationDB RpcClients
begin

text \<open>
  The conversation service, \<open>internal/rpc/conversation/conversaion.go\<close>, with its notifications
  (\<open>pkg/rpcclient/notification/conversation.go\<close>) and conversions (\<open>pkg/common/convert/conversation.go\<close>).

  \<open>copier.Copy\<close> copies the fields that both structs have under one name with convertible types; the
  time of the last destruction is a \<open>time.Time\<close> on one side and an integer on the other and stays out.
\<close>

section \<open>Wire types\<close>

record MsgInfo =
  miServerMsgID :: string
  miClientMsgID :: string
  miSessionType :: int
  miSendID :: string
  miRecvID :: string
  miSenderName :: string
  miFaceURL :: string
  miGroupID :: string
  miGroupName :: string
  miGroupFaceURL :: string
  miGroupType :: int
  miGroupMemberCount :: int
  miLatestMsgRecvTime :: int
  miMsgFrom :: int
  miContentType :: int
  miContent :: string

text \<open>The fields of an element that the service fills; the others stay zero.\<close>

record ConversationElem =
  ceConversationID :: string
  ceRecvMsgOpt :: int
  ceUnreadCount :: int
  ceIsPinned :: bool
  ceMsgInfo :: MsgInfo

record SortedConversationList =
  slConversationTotal :: int
  slUnreadTotal :: int
  slConversationElems :: "ConversationElem list"

datatype conv_tips =
    ConversationSetPrivateTips string string bool string
  | ConversationUpdateTips string "string list"
  | ConversationHasReadTips string string int int

record 'w conv_server =
  vDB :: "'w conv_db"
  vGroup :: "'w group_stub"
  vUser :: "'w user_stub"
  vMsg :: "'w msg_stub"
  vSender :: "'w notification_sender"
  vTips :: "conv_tips \<Rightarrow> go_error + string"
  vOrd :: "string set \<Rightarrow> string list"
  vOrdTime :: "int set \<Rightarrow> int list"

section \<open>Conversions\<close>

definition ConversationDB2Pb :: "ConversationModel \<Rightarrow> Conversation" where
  "ConversationDB2Pb c = \<lparr> cOwnerUserID = cmOwnerUserID c, cConversationID = cmConversationID c, cRecvMsgOpt = cmRecvMsgOpt c,
     cConversationType = cmConversationType c, cUserID = cmUserID c, cGroupID = cmGroupID c, cIsPinned = cmIsPinned c,
     cAttachedInfo = cmAttachedInfo c, cIsPrivateChat = cmIsPrivateChat c, cGroupAtType = cmGroupAtType c, cEx = cmEx c,
     cBurnDuration = cmBurnDuration c, cMinSeq = cmMinSeq c, cMaxSeq = cmMaxSeq c, cMsgDestructTime = cmMsgDestructTime c,
     cLatestMsgDestructTime = cmLatestMsgDestructTime c div 1000, cIsMsgDestruct = cmIsMsgDestruct c \<rparr>"

definition ConversationsDB2Pb :: "ConversationModel list \<Rightarrow> Conversation list" where
  "ConversationsDB2Pb cs = map ConversationDB2Pb cs"

definition ConversationPb2DB :: "Conversation \<Rightarrow> ConversationModel" where
  "ConversationPb2DB c = zero_conversation\<lparr> cmOwnerUserID := cOwnerUserID c, cmConversationID := cConversationID c,
     cmConversationType := cConversationType c, cmUserID := cUserID c, cmGroupID := cGroupID c, cmRecvMsgOpt := cRecvMsgOpt c,
     cmIsPinned := cIsPinned c, cmIsPrivateChat := cIsPrivateChat c, cmBurnDuration := cBurnDuration c,
     cmGroupAtType := cGroupAtType c, cmAttachedInfo := cAttachedInfo c, cmEx := cEx c, cmMaxSeq := cMaxSeq c,
     cmMinSeq := cMinSeq c, cmIsMsgDestruct := cIsMsgDestruct c, cmMsgDestructTime := cMsgDestructTime c \<rparr>"

definition ConversationsPb2DB :: "Conversation list \<Rightarrow> ConversationModel list" where
  "ConversationsPb2DB cs = map ConversationPb2DB cs"

section \<open>Notifications\<close>

definition conv_notify :: "'w conv_server \<Rightarrow> int \<Rightarrow> rpc_ctx \<Rightarrow> string \<Rightarrow> string \<Rightarrow> int \<Rightarrow> conv_tips \<Rightarrow> ('w, unit) cgo" where
  "conv_notify V now ctx sendID recvID contentType tips =
     onConvWorld (Notification (vSender V) now ctx sendID recvID contentType (vTips V tips) False)"

definition ConversationSetPrivateNotification_send ::
  "'w conv_server \<Rightarrow> int \<Rightarrow> rpc_ctx \<Rightarrow> string \<Rightarrow> string \<Rightarrow> bool \<Rightarrow> string \<Rightarrow> ('w, unit) cgo" where
  "ConversationSetPrivateNotification_send V now ctx sendID recvID isPrivateChat conversationID =
     conv_notify V now ctx sendID recvID ConversationPrivateChatNotification
       (ConversationSetPrivateTips recvID sendID isPrivateChat conversationID)"

definition ConversationChangeNotification_send :: "'w conv_server \<Rightarrow> int \<Rightarrow> rpc_ctx \<Rightarrow> string \<Rightarrow> string list \<Rightarrow> ('w, unit) cgo" where
  "ConversationChangeNotification_send V now ctx userID conversationIDs =
     conv_notify V now ctx userID userID ConversationChangeNotification (ConversationUpdateTips userID conversationIDs)"

definition ConversationUnreadChangeNotification_send ::
  "'w conv_server \<Rightarrow> int \<Rightarrow> rpc_ctx \<Rightarrow> string \<Rightarrow> string \<Rightarrow> int \<Rightarrow> int \<Rightarrow> ('w, unit) cgo" where
  "ConversationUnreadChangeNotification_send V now ctx userID conversationID unreadCountTime hasReadSeq =
     conv_notify V now ctx userID userID ConversationUnreadNotification
       (ConversationHasReadTips userID conversationID hasReadSeq unreadCountTime)"

section \<open>Reading\<close>

definition conversationServer_GetConversation :: "'w conv_server \<Rightarrow> string \<Rightarrow> string \<Rightarrow> ('w, Conversation) cgo" where
  "conversationServer_GetConversation V ownerUserID conversationID =
     bindG (FindConversations (vDB V) ownerUserID [conversationID]) (\<lambda>cs. case cs of
         [] \<Rightarrow> failG (Wrap1m ErrRecordNotFound ''conversation not found'')
       | c # _ \<Rightarrow> retG (ConversationDB2Pb c))"

definition conversationServer_GetAllConversations :: "'w conv_server \<Rightarrow> string \<Rightarrow> ('w, Conversation list) cgo" where
  "conversationServer_GetAllConversations V ownerUserID =
     bindG (GetUserAllConversation (vDB V) ownerUserID) (\<lambda>cs. retG (ConversationsDB2Pb cs))"

definition conversationServer_GetConversations :: "'w conv_server \<Rightarrow> string \<Rightarrow> string list \<Rightarrow> ('w, Conversation list) cgo" where
  "conversationServer_GetConversations V ownerUserID conversationIDs =
     bindG (FindConversations (vDB V) ownerUserID conversationIDs) (\<lambda>cs. retG (ConversationsDB2Pb cs))"

definition conversationServer_GetRecvMsgNotNotifyUserIDs :: "'w conv_server \<Rightarrow> string \<Rightarrow> ('w, string list) cgo" where
  "conversationServer_GetRecvMsgNotNotifyUserIDs V groupID = failG (Plain ''deprecated'')"

definition conversationServer_GetConversationIDs :: "'w conv_server \<Rightarrow> string \<Rightarrow> ('w, string list) cgo" where
  "conversationServer_GetConversationIDs V userID = conversationDatabase_GetConversationIDs (vDB V) userID"

definition conversationServer_GetUserConversationIDsHash :: "'w conv_server \<Rightarrow> string \<Rightarrow> ('w, int) cgo" where
  "conversationServer_GetUserConversationIDsHash V ownerUserID = conversationDatabase_GetUserConversationIDsHash (vDB V) ownerUserID"

definition conversationServer_GetConversationsByConversationID ::
  "'w conv_server \<Rightarrow> string list \<Rightarrow> ('w, Conversation list) cgo" where
  "conversationServer_GetConversationsByConversationID V conversationIDs =
     bindG (conversationDatabase_GetConversationsByConversationID (vDB V) conversationIDs) (\<lambda>cs. retG (ConversationsDB2Pb cs))"

definition conversationServer_GetConversationOfflinePushUserIDs ::
  "'w conv_server \<Rightarrow> string \<Rightarrow> string list \<Rightarrow> ('w, string list) cgo" where
  "conversationServer_GetConversationOfflinePushUserIDs V conversationID reqUserIDs =
     (if conversationID = [] then failG (Wrap1m ErrArgs ''conversationID is empty'')
      else if length reqUserIDs = 0 then retG []
      else bindG (conversationDatabase_GetConversationNotReceiveMessageUserIDs (vDB V) conversationID) (\<lambda>userIDs.
        if length userIDs = 0 then retG reqUserIDs
        else
          let userIDSet0 = fold (\<lambda>u m. m(u \<mapsto> ())) reqUserIDs Map.empty;
              userIDSet = fold (\<lambda>u m. m(u := None)) userIDs userIDSet0
          in retG (Keys (vOrd V) userIDSet)))"

section \<open>The sorted list\<close>

text \<open>The users and groups of the last messages, in the order in which the map is walked.\<close>

definition info_send_ids :: "string \<Rightarrow> MsgData \<Rightarrow> string list" where
  "info_send_ids userID chatLog =
     (if SessionType chatLog = SingleChatType
      then (if SendID chatLog = userID then [RecvID chatLog] else []) @ [SendID chatLog]
      else if SessionType chatLog = GroupChatType \<or> SessionType chatLog = SuperGroupChatType then [SendID chatLog]
      else [])"

definition info_group_ids :: "MsgData \<Rightarrow> string list" where
  "info_group_ids chatLog =
     (if SessionType chatLog = GroupChatType \<or> SessionType chatLog = SuperGroupChatType then [GroupID chatLog] else [])"

definition copied_info :: "MsgData \<Rightarrow> MsgInfo" where
  "copied_info m = \<lparr> miServerMsgID = ServerMsgID m, miClientMsgID = ClientMsgID m, miSessionType = SessionType m,
     miSendID = SendID m, miRecvID = RecvID m, miSenderName = [], miFaceURL = [], miGroupID = GroupID m, miGroupName = [],
     miGroupFaceURL = [], miGroupType = 0, miGroupMemberCount = 0, miLatestMsgRecvTime = 0, miMsgFrom = MsgFrom m,
     miContentType = ContentType m, miContent = Content m \<rparr>"

definition msg_info ::
  "(string \<rightharpoonup> UserInfo) \<Rightarrow> (string \<rightharpoonup> GroupInfo) \<Rightarrow> string \<Rightarrow> MsgData \<Rightarrow> ('s, MsgInfo) go" where
  "msg_info sendMap groupMap userID m =
     (if SessionType m = SingleChatType then
        bindG (nil_deref (sendMap (if SendID m = userID then RecvID m else SendID m))) (\<lambda>u.
          retG ((copied_info m)\<lparr> miFaceURL := uFaceURL u, miSenderName := uNickname u, miLatestMsgRecvTime := SendTime m \<rparr>))
      else if SessionType m = GroupChatType \<or> SessionType m = SuperGroupChatType then
        bindG (nil_deref (groupMap (GroupID m))) (\<lambda>g. bindG (nil_deref (sendMap (SendID m))) (\<lambda>u.
          retG ((copied_info m)\<lparr> miGroupName := giGroupName g, miGroupFaceURL := giFaceURL g, miGroupMemberCount := giMemberCount g,
            miGroupID := GroupID m, miGroupType := giGroupType g, miSenderName := uNickname u,
            miLatestMsgRecvTime := SendTime m \<rparr>)))
      else retG ((copied_info m)\<lparr> miLatestMsgRecvTime := SendTime m \<rparr>))"

definition getConversationInfo ::
  "'w conv_server \<Rightarrow> (string \<rightharpoonup> MsgData) \<Rightarrow> string \<Rightarrow> ('w, string \<rightharpoonup> ConversationElem) cgo" where
  "getConversationInfo V chatLogs userID =
     (let ids = vOrd V (dom chatLogs);
          logs = map (\<lambda>id. the (chatLogs id)) ids;
          sendIDs = concat (map (info_send_ids userID) logs);
          groupIDs = concat (map info_group_ids logs) in
      bindG (if length sendIDs \<noteq> 0
             then bindG (onConvWorld (GetUsersInfo (vUser V) sendIDs)) (\<lambda>us. retG (SliceToMap us uUserID))
             else retG Map.empty) (\<lambda>sendMap.
      bindG (if length groupIDs \<noteq> 0
             then bindG (onConvWorld (GroupRpcClient_GetGroupInfos (vGroup V) groupIDs False)) (\<lambda>gs. retG (SliceToMap gs giGroupID))
             else retG Map.empty) (\<lambda>groupMap.
        foldG (\<lambda>id elems. bindG (msg_info sendMap groupMap userID (the (chatLogs id))) (\<lambda>info.
            retG (elems(id \<mapsto> \<lparr> ceConversationID = id, ceRecvMsgOpt = 0, ceUnreadCount = 0, ceIsPinned = False, ceMsgInfo = info \<rparr>))))
          ids Map.empty)))"

text \<open>The newest first.\<close>

definition conversationSort ::
  "'w conv_server \<Rightarrow> (int \<rightharpoonup> string) \<Rightarrow> (string \<rightharpoonup> int) \<Rightarrow> (string \<rightharpoonup> ConversationElem) \<Rightarrow> ('w, ConversationElem list) cgo" where
  "conversationSort V conversations unreadCount conversationMsg =
     mapG (\<lambda>v. let conversationID = the (conversations v) in
         bindG (nil_deref (conversationMsg conversationID)) (\<lambda>e.
           retG (e\<lparr> ceUnreadCount := (case unreadCount conversationID of None \<Rightarrow> 0 | Some n \<Rightarrow> n) \<rparr>)))
       (sort_stable (\<lambda>a b. a \<ge> b) (vOrdTime V (dom conversations)))"

text \<open>
  One conversation: its settings go into the element, and it is filed under the time of its last
  message; another one with the same time is overwritten.
\<close>

type_synonym filed = "(string \<rightharpoonup> ConversationElem) \<times> (int \<rightharpoonup> string) \<times> (int \<rightharpoonup> string)"

definition file_conversation :: "ConversationModel \<Rightarrow> filed \<Rightarrow> ('w, filed) cgo" where
  "file_conversation v = (\<lambda>(elems, pinned, unpinned).
     bindG (nil_deref (elems (cmConversationID v))) (\<lambda>e.
       let t = miLatestMsgRecvTime (ceMsgInfo e); e1 = e\<lparr> ceRecvMsgOpt := cmRecvMsgOpt v \<rparr> in
       if cmIsPinned v
       then retG (elems(cmConversationID v \<mapsto> e1\<lparr> ceIsPinned := True \<rparr>), pinned(t \<mapsto> cmConversationID v), unpinned)
       else retG (elems(cmConversationID v \<mapsto> e1), pinned, unpinned(t \<mapsto> cmConversationID v))))"

definition unread_counts :: "(string set \<Rightarrow> string list) \<Rightarrow> (string \<rightharpoonup> int) \<Rightarrow> (string \<rightharpoonup> int) \<Rightarrow> (string \<rightharpoonup> int) \<times> int" where
  "unread_counts ord maxSeqs hasReadSeqs =
     fold (\<lambda>id (m, unread). let n = sub64 (the (maxSeqs id)) (case hasReadSeqs id of None \<Rightarrow> 0 | Some q \<Rightarrow> q) in
         (m(id \<mapsto> n), add64 unread n)) (ord (dom maxSeqs)) (Map.empty, 0)"

definition GetSortedConversationList ::
  "'w conv_server \<Rightarrow> string \<Rightarrow> string list \<Rightarrow> pagination \<Rightarrow> ('w, SortedConversationList) cgo" where
  "GetSortedConversationList V userID reqIDs pagination =
     bindG (if length reqIDs = 0 then conversationDatabase_GetConversationIDs (vDB V) userID else retG reqIDs) (\<lambda>conversationIDs.
     bindG (FindConversations (vDB V) userID conversationIDs) (\<lambda>conversations.
       if length conversations = 0 then failG (codeError_Wrap ErrRecordNotFound [])
       else
         bindG (onConvWorld (MessageRpcClient_GetMaxSeqs (vMsg V) conversationIDs)) (\<lambda>maxSeqs.
         bindG (onConvWorld (MessageRpcClient_GetMsgByConversationIDs (vMsg V) conversationIDs maxSeqs)) (\<lambda>chatLogs.
         bindG (getConversationInfo V chatLogs userID) (\<lambda>conversationMsg.
         bindG (onConvWorld (MessageRpcClient_GetHasReadSeqs (vMsg V) userID conversationIDs)) (\<lambda>hasReadSeqs.
           let (unread, unreadTotal) = unread_counts (vOrd V) maxSeqs hasReadSeqs in
         bindG (foldG file_conversation conversations (conversationMsg, Map.empty, Map.empty)) (\<lambda>(elems, pinned, unpinned).
         bindG (conversationSort V pinned unread elems) (\<lambda>first.
         bindG (conversationSort V unpinned unread elems) (\<lambda>rest.
         bindG (liftG (Paginate (first @ rest) (fst pagination) (snd pagination))) (\<lambda>page.
           retG \<lparr> slConversationTotal = int (card (dom chatLogs)), slUnreadTotal = unreadTotal, slConversationElems = page \<rparr>))))))))))"

section \<open>Writing\<close>

definition conversationServer_SetConversation ::
  "'w conv_server \<Rightarrow> int \<Rightarrow> rpc_ctx \<Rightarrow> Conversation option \<Rightarrow> ('w, unit) cgo" where
  "conversationServer_SetConversation V now ctx req = (case req of
       None \<Rightarrow> failG (Plain ''copy from is invalid'')
     | Some c \<Rightarrow>
         bindG (SetUserConversations (vDB V) (cOwnerUserID c) [ConversationPb2DB c]) (\<lambda>_.
         ignoreG (ConversationChangeNotification_send V now ctx (cOwnerUserID c) [cConversationID c])))"

text \<open>The fields of the update, in two groups: those read before and after the private flag is handled.\<close>

definition wrapped_field :: "('a \<Rightarrow> conv_field) \<Rightarrow> 'a option \<Rightarrow> conv_field list" where
  "wrapped_field mk v = (case v of None \<Rightarrow> [] | Some x \<Rightarrow> [mk x])"

definition request_fields :: "ConversationReq \<Rightarrow> conv_field list" where
  "request_fields c = wrapped_field FRecvMsgOpt (crRecvMsgOpt c) @ wrapped_field FAttachedInfo (crAttachedInfo c)
     @ wrapped_field FEx (crEx c) @ wrapped_field FIsPinned (crIsPinned c) @ wrapped_field FGroupAtType (crGroupAtType c)
     @ wrapped_field FMsgDestructTime (crMsgDestructTime c) @ wrapped_field FIsMsgDestruct (crIsMsgDestruct c)
     @ wrapped_field FBurnDuration (crBurnDuration c) @ wrapped_field FLatestMsgSendTime (crLatestMsgSendTime c)"

definition differs :: "'a \<Rightarrow> 'a option \<Rightarrow> nat" where
  "differs old v = (case v of None \<Rightarrow> 0 | Some x \<Rightarrow> if x \<noteq> old then 1 else 0)"

definition unequal_count :: "ConversationReq \<Rightarrow> ConversationModel \<Rightarrow> nat" where
  "unequal_count c conv = differs (cmRecvMsgOpt conv) (crRecvMsgOpt c) + differs (cmAttachedInfo conv) (crAttachedInfo c)
     + differs (cmEx conv) (crEx c) + differs (cmIsPinned conv) (crIsPinned c) + differs (cmGroupAtType conv) (crGroupAtType c)
     + differs (cmMsgDestructTime conv) (crMsgDestructTime c) + differs (cmIsMsgDestruct conv) (crIsMsgDestruct c)
     + differs (cmBurnDuration conv) (crBurnDuration c) + differs (cmLatestMsgSendTime conv) (crLatestMsgSendTime c)"

definition conversationServer_SetConversations ::
  "'w conv_server \<Rightarrow> int \<Rightarrow> rpc_ctx \<Rightarrow> string list \<Rightarrow> ConversationReq option \<Rightarrow> ('w, unit) cgo" where
  "conversationServer_SetConversations V now ctx userIDs req = (case req of
       None \<Rightarrow> failG (Wrap1m ErrArgs ''conversation must not be nil'')
     | Some c \<Rightarrow>
         bindG (if crConversationType c = GroupChatType
                then bindG (onConvWorld (GroupRpcClient_GetGroupInfo (vGroup V) (crGroupID c))) (\<lambda>groupInfo.
                       if giStatus groupInfo = GroupStatusDismissed then failG (Wrap1m ErrDismissedAlready ''group dismissed'')
                       else retG ())
                else retG ()) (\<lambda>_.
         bindG (if length userIDs = 1
                then bindG (FindConversations (vDB V) (userIDs ! 0) [crConversationID c]) (\<lambda>cs.
                       if length cs = 0 then failG (Wrap1m ErrRecordNotFound ''conversation not found'') else retG (cs ! 0))
                else retG zero_conversation) (\<lambda>conv.
           let conversation = zero_conversation\<lparr> cmConversationID := crConversationID c, cmConversationType := crConversationType c,
                 cmUserID := crUserID c, cmGroupID := crGroupID c \<rparr> in
         bindG (case crIsPrivateChat c of
                  Some private \<Rightarrow>
                    if crConversationType c \<noteq> SuperGroupChatType
                    then bindG (SyncPeerUserPrivateConversationTx (vDB V)
                             (map (\<lambda>owner. conversation\<lparr> cmOwnerUserID := owner, cmIsPrivateChat := private \<rparr>) userIDs)) (\<lambda>_.
                           forG userIDs (\<lambda>userID. ignoreG
                             (ConversationSetPrivateNotification_send V now ctx userID (crUserID c) private (crConversationID c))))
                    else retG ()
                | None \<Rightarrow> retG ()) (\<lambda>_.
         bindG (SetUsersConversationFiledTx (vDB V) now userIDs conversation (request_fields c)) (\<lambda>_.
           if unequal_count c conv > 0
           then forG userIDs (\<lambda>v. ignoreG (ConversationChangeNotification_send V now ctx v [crConversationID c]))
           else retG ())))))"

definition single_conversation :: "string \<Rightarrow> int \<Rightarrow> string \<Rightarrow> string \<Rightarrow> ConversationModel" where
  "single_conversation conversationID conversationType owner peer = zero_conversation\<lparr> cmConversationID := conversationID,
     cmConversationType := conversationType, cmOwnerUserID := owner, cmUserID := peer \<rparr>"

definition conversationServer_CreateSingleChatConversations ::
  "'w conv_server \<Rightarrow> string \<Rightarrow> string \<Rightarrow> string \<Rightarrow> int \<Rightarrow> ('w, unit) cgo" where
  "conversationServer_CreateSingleChatConversations V recvID sendID conversationID conversationType =
     (if conversationType = SingleChatType then
        bindG (ignoreG (CreateConversation (vDB V) [single_conversation conversationID conversationType sendID recvID])) (\<lambda>_.
          ignoreG (CreateConversation (vDB V) [single_conversation conversationID conversationType recvID sendID]))
      else if conversationType = NotificationChatType then
        ignoreG (CreateConversation (vDB V) [single_conversation conversationID conversationType recvID sendID])
      else retG ())"

definition conversationServer_CreateGroupChatConversations :: "'w conv_server \<Rightarrow> string \<Rightarrow> string list \<Rightarrow> ('w, unit) cgo" where
  "conversationServer_CreateGroupChatConversations V groupID userIDs = CreateGroupChatConversation (vDB V) groupID userIDs"

definition conversationServer_SetConversationMaxSeq :: "'w conv_server \<Rightarrow> string list \<Rightarrow> string \<Rightarrow> int \<Rightarrow> ('w, unit) cgo" where
  "conversationServer_SetConversationMaxSeq V ownerUserIDs conversationID maxSeq =
     UpdateUsersConversationFiled (vDB V) ownerUserIDs conversationID [FMaxSeq maxSeq]"

end
