(* ===== verification/GroupDB.thy ===== *)
theory GroupDB
  imports MongoUtil MetaCache Constants Entities
begin

text \<open>
  Groups, their members and the requests to join: the collections (\<open>pkg/common/db/mgo/group.go\<close>,
  \<open>group\_member.go\<close>, \<open>group\_request.go\<close>), the caches (\<open>pkg/common/db/cache/group.go\<close>) and the
  controller (\<open>pkg/common/db/controller/group.go\<close>).

  Times are milliseconds since 1970.  The cache builder of the code is the list of the keys it will
  delete, and the map of fields of an update a list of \<open>group_field\<close> or \<open>member_field\<close>.
\<close>

section \<open>Documents\<close>

record GroupModel =
  gmdGroupID :: string
  gmdGroupName :: string
  gmdNotification :: string
  gmdIntroduction :: string
  gmdFaceURL :: string
  gmdCreateTime :: int
  gmdEx :: string
  gmdStatus :: int
  gmdCreatorUserID :: string
  gmdGroupType :: int
  gmdNeedVerification :: int
  gmdLookMemberInfo :: int
  gmdApplyMemberFriend :: int
  gmdNotificationUpdateTime :: int
  gmdNotificationUserID :: string
  gmdJoinTime :: int

record GroupMemberModel =
  mbGroupID :: string
  mbUserID :: string
  mbNickname :: string
  mbFaceURL :: string
  mbRoleLevel :: int
  mbJoinTime :: int
  mbJoinSource :: int
  mbInviterUserID :: string
  mbOperatorUserID :: string
  mbMuteEndTime :: int
  mbEx :: string

record GroupRequestModel =
  grUserID :: string
  grGroupID :: string
  grHandleResult :: int
  grReqMsg :: string
  grHandledMsg :: string
  grReqTime :: int
  grHandleUserID :: string
  grHandledTime :: int
  grJoinSource :: int
  grInviterUserID :: string
  grEx :: string

record SearchGroupMemberModel =
  sgGroupID :: string
  sgGroupName :: string
  sgFaceURL :: string
  sgNickname :: string
  sgRemark :: string
  sgJoinTime :: int
  sgStatus :: int

record GroupSimpleUserID =
  suHash :: int
  suMemberNum :: int

datatype group_field =
    GfGroupName string
  | GfNotification string
  | GfNotificationUpdateTime int
  | GfNotificationUserID string
  | GfIntroduction string
  | GfFaceURL string
  | GfNeedVerification int
  | GfLookMemberInfo int
  | GfApplyMemberFriend int
  | GfEx string
  | GfStatus int

fun set_group_field :: "group_field \<Rightarrow> GroupModel \<Rightarrow> GroupModel" where
  "set_group_field (GfGroupName v) g = g\<lparr> gmdGroupName := v \<rparr>"
| "set_group_field (GfNotification v) g = g\<lparr> gmdNotification := v \<rparr>"
| "set_group_field (GfNotificationUpdateTime v) g = g\<lparr> gmdNotificationUpdateTime := v \<rparr>"
| "set_group_field (GfNotificationUserID v) g = g\<lparr> gmdNotificationUserID := v \<rparr>"
| "set_group_field (GfIntroduction v) g = g\<lparr> gmdIntroduction := v \<rparr>"
| "set_group_field (GfFaceURL v) g = g\<lparr> gmdFaceURL := v \<rparr>"
| "set_group_field (GfNeedVerification v) g = g\<lparr> gmdNeedVerification := v \<rparr>"
| "set_group_field (GfLookMemberInfo v) g = g\<lparr> gmdLookMemberInfo := v \<rparr>"
| "set_group_field (GfApplyMemberFriend v) g = g\<lparr> gmdApplyMemberFriend := v \<rparr>"
| "set_group_field (GfEx v) g = g\<lparr> gmdEx := v \<rparr>"
| "set_group_field (GfStatus v) g = g\<lparr> gmdStatus := v \<rparr>"

text \<open>\<open>user\_group\_face\_url\<close> is not a field of the document.\<close>

datatype member_field =
    MfNickname string
  | MfUserGroupFaceURL string
  | MfRoleLevel int
  | MfEx string
  | MfMuteEndTime int

fun set_member_field :: "member_field \<Rightarrow> GroupMemberModel \<Rightarrow> GroupMemberModel" where
  "set_member_field (MfNickname v) m = m\<lparr> mbNickname := v \<rparr>"
| "set_member_field (MfUserGroupFaceURL v) m = m"
| "set_member_field (MfRoleLevel v) m = m\<lparr> mbRoleLevel := v \<rparr>"
| "set_member_field (MfEx v) m = m\<lparr> mbEx := v \<rparr>"
| "set_member_field (MfMuteEndTime v) m = m\<lparr> mbMuteEndTime := v \<rparr>"

record BatchUpdateGroupMember =
  buGroupID :: string
  buUserID :: string
  buMap :: "member_field list"

section \<open>Collections (mgo)\<close>

type_synonym ('w, 'a) group_op = "((GroupModel, 'w) mstore, 'a) go"
type_synonym ('w, 'a) member_op = "((GroupMemberModel, 'w) mstore, 'a) go"
type_synonym ('w, 'a) grequest_op = "((GroupRequestModel, 'w) mstore, 'a) go"
type_synonym 'w group_coll = "(GroupModel, 'w) mongo_coll"
type_synonym 'w member_coll = "(GroupMemberModel, 'w) mongo_coll"
type_synonym 'w grequest_coll = "(GroupRequestModel, 'w) mongo_coll"

text \<open>\<open>like keyword text\<close> is the case-insensitive regular expression of a quoted keyword.\<close>

definition GroupMgo_Create :: "'w group_coll \<Rightarrow> GroupModel list \<Rightarrow> ('w, unit) group_op" where
  "GroupMgo_Create C groups = mgo_InsertMany C groups"

definition GroupMgo_UpdateMap :: "'w group_coll \<Rightarrow> string \<Rightarrow> group_field list \<Rightarrow> ('w, unit) group_op" where
  "GroupMgo_UpdateMap C groupID args =
     (if length args = 0 then retG ()
      else mgo_UpdateOne C (\<lambda>g. gmdGroupID g = groupID) (fold set_group_field args) True)"

definition GroupMgo_UpdateStatus :: "'w group_coll \<Rightarrow> string \<Rightarrow> int \<Rightarrow> ('w, unit) group_op" where
  "GroupMgo_UpdateStatus C groupID status = GroupMgo_UpdateMap C groupID [GfStatus status]"

definition GroupMgo_Find :: "'w group_coll \<Rightarrow> string list \<Rightarrow> ('w, GroupModel list) group_op" where
  "GroupMgo_Find C groupIDs = mgo_Find C (\<lambda>g. gmdGroupID g \<in> set groupIDs) None"

definition GroupMgo_Take :: "'w group_coll \<Rightarrow> string \<Rightarrow> ('w, GroupModel) group_op" where
  "GroupMgo_Take C groupID = mgo_FindOne C (\<lambda>g. gmdGroupID g = groupID)"

definition GroupMgo_Search ::
  "'w group_coll \<Rightarrow> (string \<Rightarrow> string \<Rightarrow> bool) \<Rightarrow> string \<Rightarrow> pagination \<Rightarrow> int \<Rightarrow> string list \<Rightarrow> ('w, int \<times> GroupModel list) group_op" where
  "GroupMgo_Search C like keyword p searchType groupIDs =
     (if searchType = 1 then mgo_FindPage C (\<lambda>g. gmdNeedVerification g = 2 \<and> gmdGroupID g \<notin> set groupIDs) p
      else mgo_FindPage C (\<lambda>g. like keyword (gmdGroupName g)) p)"

definition GroupMgo_CountTotal :: "'w group_coll \<Rightarrow> int option \<Rightarrow> ('w, int) group_op" where
  "GroupMgo_CountTotal C before' = (case before' of
       None \<Rightarrow> mgo_Count C (\<lambda>g. True)
     | Some t \<Rightarrow> mgo_Count C (\<lambda>g. gmdCreateTime g < t))"

text \<open>\<open>dayOf\<close> is the server's \<open>dateToString\<close>.\<close>

definition GroupMgo_CountRangeEverydayTotal ::
  "'w group_coll \<Rightarrow> (int \<Rightarrow> string) \<Rightarrow> int \<Rightarrow> int \<Rightarrow> ('w, string \<rightharpoonup> int) group_op" where
  "GroupMgo_CountRangeEverydayTotal C dayOf start end' =
     bindG (mgo_Aggregate C (\<lambda>g. gmdCreateTime g \<ge> start \<and> gmdCreateTime g < end') (\<lambda>g. dayOf (gmdCreateTime g))) (\<lambda>items.
       retG (fold (\<lambda>(date, count) res. res(date \<mapsto> count)) items Map.empty))"

definition member_is :: "string \<Rightarrow> string \<Rightarrow> GroupMemberModel \<Rightarrow> bool" where
  "member_is groupID userID m \<longleftrightarrow> mbGroupID m = groupID \<and> mbUserID m = userID"

definition GroupMemberMgo_Create :: "'w member_coll \<Rightarrow> GroupMemberModel list \<Rightarrow> ('w, unit) member_op" where
  "GroupMemberMgo_Create C groupMembers = mgo_InsertMany C groupMembers"

text \<open>Without users, all the members of the group.\<close>

definition GroupMemberMgo_Delete :: "'w member_coll \<Rightarrow> string \<Rightarrow> string list \<Rightarrow> ('w, unit) member_op" where
  "GroupMemberMgo_Delete C groupID userIDs =
     mgo_DeleteMany C (\<lambda>m. mbGroupID m = groupID \<and> (length userIDs > 0 \<longrightarrow> mbUserID m \<in> set userIDs))"

definition GroupMemberMgo_Update :: "'w member_coll \<Rightarrow> string \<Rightarrow> string \<Rightarrow> member_field list \<Rightarrow> ('w, unit) member_op" where
  "GroupMemberMgo_Update C groupID userID data = mgo_UpdateOne C (member_is groupID userID) (fold set_member_field data) True"

definition GroupMemberMgo_UpdateRoleLevel :: "'w member_coll \<Rightarrow> string \<Rightarrow> string \<Rightarrow> int \<Rightarrow> ('w, unit) member_op" where
  "GroupMemberMgo_UpdateRoleLevel C groupID userID roleLevel = GroupMemberMgo_Update C groupID userID [MfRoleLevel roleLevel]"

definition GroupMemberMgo_Find ::
  "'w member_coll \<Rightarrow> string list \<Rightarrow> string list \<Rightarrow> int list \<Rightarrow> ('w, GroupMemberModel list) member_op" where
  "GroupMemberMgo_Find C groupIDs userIDs roleLevels = panicG ''implement me''"

definition GroupMemberMgo_FindMemberUserID :: "'w member_coll \<Rightarrow> string \<Rightarrow> ('w, string list) member_op" where
  "GroupMemberMgo_FindMemberUserID C groupID = mgo_Find_field C (\<lambda>m. mbGroupID m = groupID) mbUserID"

definition GroupMemberMgo_Take :: "'w member_coll \<Rightarrow> string \<Rightarrow> string \<Rightarrow> ('w, GroupMemberModel) member_op" where
  "GroupMemberMgo_Take C groupID userID = mgo_FindOne C (member_is groupID userID)"

definition role_order :: "GroupMemberModel \<Rightarrow> GroupMemberModel \<Rightarrow> bool" where
  "role_order a b \<longleftrightarrow> (if mbRoleLevel a \<noteq> mbRoleLevel b then mbRoleLevel a > mbRoleLevel b else mbJoinTime a \<le> mbJoinTime b)"

definition GroupMemberMgo_TakeAll :: "'w member_coll \<Rightarrow> string \<Rightarrow> ('w, GroupMemberModel list) member_op" where
  "GroupMemberMgo_TakeAll C groupID =
     mgo_Find C (\<lambda>m. mbGroupID m = groupID) (Some \<lparr> foSkip = 0, foLimit = 0, foSort = Some role_order \<rparr>)"

definition GroupMemberMgo_TakeOwner :: "'w member_coll \<Rightarrow> string \<Rightarrow> ('w, GroupMemberModel) member_op" where
  "GroupMemberMgo_TakeOwner C groupID = mgo_FindOne C (\<lambda>m. mbGroupID m = groupID \<and> mbRoleLevel m = GroupOwner)"

definition GroupMemberMgo_FindRoleLevelUserIDs :: "'w member_coll \<Rightarrow> string \<Rightarrow> int \<Rightarrow> ('w, string list) member_op" where
  "GroupMemberMgo_FindRoleLevelUserIDs C groupID roleLevel =
     mgo_Find_field C (\<lambda>m. mbGroupID m = groupID \<and> mbRoleLevel m = roleLevel) mbUserID"

definition GroupMemberMgo_SearchMember ::
  "'w member_coll \<Rightarrow> (string \<Rightarrow> string \<Rightarrow> bool) \<Rightarrow> string \<Rightarrow> string \<Rightarrow> pagination \<Rightarrow> ('w, int \<times> GroupMemberModel list) member_op" where
  "GroupMemberMgo_SearchMember C like keyword groupID p =
     mgo_FindPage C (\<lambda>m. mbGroupID m = groupID \<and> like keyword (mbNickname m)) p"

definition GroupMemberMgo_SearchMemberSorted ::
  "'w member_coll \<Rightarrow> (string \<Rightarrow> string \<Rightarrow> bool) \<Rightarrow> string \<Rightarrow> string \<Rightarrow> pagination \<Rightarrow> ('w, int \<times> GroupMemberModel list) member_op" where
  "GroupMemberMgo_SearchMemberSorted C like keyword groupID p =
     mgo_FindPage_by C (Some role_order)
       (\<lambda>m. mbGroupID m = groupID \<and> (keyword \<noteq> [] \<longrightarrow> like keyword (mbNickname m))) p"

definition GroupMemberMgo_FindUserJoinedGroupID :: "'w member_coll \<Rightarrow> string \<Rightarrow> ('w, string list) member_op" where
  "GroupMemberMgo_FindUserJoinedGroupID C userID = mgo_Find_field C (\<lambda>m. mbUserID m = userID) mbGroupID"

definition GroupMemberMgo_TakeGroupMemberNum :: "'w member_coll \<Rightarrow> string \<Rightarrow> ('w, int) member_op" where
  "GroupMemberMgo_TakeGroupMemberNum C groupID = mgo_Count C (\<lambda>m. mbGroupID m = groupID)"

definition GroupMemberMgo_FindUserManagedGroupID :: "'w member_coll \<Rightarrow> string \<Rightarrow> ('w, string list) member_op" where
  "GroupMemberMgo_FindUserManagedGroupID C userID =
     mgo_Find_field C (\<lambda>m. mbUserID m = userID \<and> mbRoleLevel m \<in> {GroupOwner, GroupAdmin}) mbGroupID"

text \<open>
  The pipeline joins the members with their groups, users and the friends of the caller; \<open>pipeline\<close> is
  the list of its answers, which the code asks for twice, for their number and for one page of them.
\<close>

definition GroupMemberMgo_SearchGroupMembers ::
  "(string \<Rightarrow> string \<Rightarrow> string list \<Rightarrow> ('s, SearchGroupMemberModel list) go) \<Rightarrow> string \<Rightarrow> string \<Rightarrow> string list \<Rightarrow> pagination
   \<Rightarrow> ('s, int \<times> SearchGroupMemberModel list) go" where
  "GroupMemberMgo_SearchGroupMembers pipeline keyword userID groupIDs p =
     bindG (pipeline keyword userID groupIDs) (\<lambda>all.
       if length all = 0 then retG (0, [])
       else
         let page = (if fst p < 1 then 1 else fst p);
             pageSize = (if snd p = 0 then 50 else snd p);
             offset = wrap32 ((page - 1) * pageSize) in
         if offset < 0 \<or> pageSize < 0 then failG (Plain ''the limit must be positive'')
         else bindG (pipeline keyword userID groupIDs) (\<lambda>items.
           retG (int (length all), take (nat pageSize) (drop (nat offset) items))))"

definition GroupMemberMgo_IsUpdateRoleLevel :: "member_field list \<Rightarrow> bool" where
  "GroupMemberMgo_IsUpdateRoleLevel data \<longleftrightarrow> list_ex (\<lambda>f. case f of MfRoleLevel v \<Rightarrow> True | _ \<Rightarrow> False) data"

definition grequest_is :: "string \<Rightarrow> string \<Rightarrow> GroupRequestModel \<Rightarrow> bool" where
  "grequest_is groupID userID r \<longleftrightarrow> grGroupID r = groupID \<and> grUserID r = userID"

definition GroupRequestMgo_Create :: "'w grequest_coll \<Rightarrow> GroupRequestModel list \<Rightarrow> ('w, unit) grequest_op" where
  "GroupRequestMgo_Create C groupRequests = mgo_InsertMany C groupRequests"

definition GroupRequestMgo_Delete :: "'w grequest_coll \<Rightarrow> string \<Rightarrow> string \<Rightarrow> ('w, unit) grequest_op" where
  "GroupRequestMgo_Delete C groupID userID = mgo_DeleteOne C (grequest_is groupID userID)"

text \<open>The message goes into \<open>handle\_msg\<close>; the document reads \<open>handled\_msg\<close>, so it stays as it was.\<close>

definition GroupRequestMgo_UpdateHandler ::
  "'w grequest_coll \<Rightarrow> string \<Rightarrow> string \<Rightarrow> string \<Rightarrow> int \<Rightarrow> ('w, unit) grequest_op" where
  "GroupRequestMgo_UpdateHandler C groupID userID handledMsg handleResult =
     mgo_UpdateOne C (grequest_is groupID userID) (\<lambda>r. r\<lparr> grHandleResult := handleResult \<rparr>) True"

definition GroupRequestMgo_Take :: "'w grequest_coll \<Rightarrow> string \<Rightarrow> string \<Rightarrow> ('w, GroupRequestModel) grequest_op" where
  "GroupRequestMgo_Take C groupID userID = mgo_FindOne C (grequest_is groupID userID)"

definition GroupRequestMgo_FindGroupRequests ::
  "'w grequest_coll \<Rightarrow> string \<Rightarrow> string list \<Rightarrow> ('w, GroupRequestModel list) grequest_op" where
  "GroupRequestMgo_FindGroupRequests C groupID userIDs =
     mgo_Find C (\<lambda>r. grGroupID r = groupID \<and> grUserID r \<in> set userIDs) None"

definition GroupRequestMgo_Page :: "'w grequest_coll \<Rightarrow> string \<Rightarrow> pagination \<Rightarrow> ('w, int \<times> GroupRequestModel list) grequest_op" where
  "GroupRequestMgo_Page C userID p = mgo_FindPage C (\<lambda>r. grUserID r = userID) p"

definition GroupRequestMgo_PageGroup ::
  "'w grequest_coll \<Rightarrow> string list \<Rightarrow> pagination \<Rightarrow> ('w, int \<times> GroupRequestModel list) grequest_op" where
  "GroupRequestMgo_PageGroup C groupIDs p = mgo_FindPage C (\<lambda>r. grGroupID r \<in> set groupIDs) p"

section \<open>The state and the services behind the controller\<close>

record 'w group_state =
  gsGroups :: "(GroupModel, 'w) mstore"
  gsMembers :: "(GroupMemberModel, 'w) mstore"
  gsRequests :: "(GroupRequestModel, 'w) mstore"
  gsCache :: "'w cstore"
  gsWorld :: 'w

type_synonym ('w, 'a) ggo = "('w group_state, 'a) go"

text \<open>
  \<open>gdHash\<close> is the hash of the members of a group, which the group service itself computes;
  \<open>gdSearchPipeline\<close> is the aggregation over several collections.
\<close>

record 'w group_db =
  gdGroup :: "'w group_coll"
  gdMember :: "'w member_coll"
  gdRequest :: "'w grequest_coll"
  gdRc :: "'w cstore rc_api"
  gdTx :: "'w group_state tx_api"
  gdGroupJson :: "GroupModel codec"
  gdMemberJson :: "GroupMemberModel codec"
  gdStringsJson :: "string list codec"
  gdIntJson :: "int codec"
  gdLike :: "string \<Rightarrow> string \<Rightarrow> bool"
  gdDayOf :: "int \<Rightarrow> string"
  gdHash :: "string \<Rightarrow> ('w, int) ggo"
  gdSearchPipeline :: "string \<Rightarrow> string \<Rightarrow> string list \<Rightarrow> ('w, SearchGroupMemberModel list) ggo"

definition onGroupDocs :: "('w, 'a) group_op \<Rightarrow> ('w, 'a) ggo" where
  "onGroupDocs m = zoomG gsGroups (\<lambda>t s. s\<lparr> gsGroups := t \<rparr>) m"

definition onMemberDocs :: "('w, 'a) member_op \<Rightarrow> ('w, 'a) ggo" where
  "onMemberDocs m = zoomG gsMembers (\<lambda>t s. s\<lparr> gsMembers := t \<rparr>) m"

definition onGroupRequests :: "('w, 'a) grequest_op \<Rightarrow> ('w, 'a) ggo" where
  "onGroupRequests m = zoomG gsRequests (\<lambda>t s. s\<lparr> gsRequests := t \<rparr>) m"

definition onGroupCache :: "('w cstore, 'a) go \<Rightarrow> ('w, 'a) ggo" where
  "onGroupCache m = zoomG gsCache (\<lambda>t s. s\<lparr> gsCache := t \<rparr>) m"

definition onGroupWorld :: "('w, 'a) go \<Rightarrow> ('w, 'a) ggo" where
  "onGroupWorld m = zoomG gsWorld (\<lambda>t s. s\<lparr> gsWorld := t \<rparr>) m"

definition groupCache :: "'w group_db \<Rightarrow> 'w group_state rc_api" where
  "groupCache D = \<lparr> rcGet = (\<lambda>k. onGroupCache (rcGet (gdRc D) k)), rcPut = (\<lambda>k v t. onGroupCache (rcPut (gdRc D) k v t)),
     rcTagAsDeleted = (\<lambda>k. onGroupCache (rcTagAsDeleted (gdRc D) k)) \<rparr>"

section \<open>Caches\<close>

definition getGroupInfoKey :: "string \<Rightarrow> string" where
  "getGroupInfoKey groupID = ''GROUP_INFO:'' @ groupID"

definition getJoinedGroupsKey :: "string \<Rightarrow> string" where
  "getJoinedGroupsKey userID = ''JOIN_GROUPS_KEY:'' @ userID"

definition getGroupMembersHashKey :: "string \<Rightarrow> string" where
  "getGroupMembersHashKey groupID = ''GROUP_MEMBERS_HASH2:'' @ groupID"

definition getGroupMemberIDsKey :: "string \<Rightarrow> string" where
  "getGroupMemberIDsKey groupID = ''GROUP_MEMBER_IDS:'' @ groupID"

definition getGroupMemberInfoKey :: "string \<Rightarrow> string \<Rightarrow> string" where
  "getGroupMemberInfoKey groupID userID = ''GROUP_MEMBER_INFO:'' @ groupID @ ''-'' @ userID"

definition getGroupMemberNumKey :: "string \<Rightarrow> string" where
  "getGroupMemberNumKey groupID = ''GROUP_MEMBER_NUM_CACHE:'' @ groupID"

definition getGroupRoleLevelMemberIDsKey :: "string \<Rightarrow> int \<Rightarrow> string" where
  "getGroupRoleLevelMemberIDsKey groupID roleLevel = ''GROUP_ROLE_LEVEL_MEMBER_IDS:'' @ groupID @ ''-'' @ itoa roleLevel"

abbreviation (input) groupExpireTime :: int where "groupExpireTime \<equiv> 43200"

definition GroupCacheRedis_GetGroupsInfo :: "'w group_db \<Rightarrow> string list \<Rightarrow> ('w, GroupModel list) ggo" where
  "GroupCacheRedis_GetGroupsInfo D groupIDs =
     batchGetCache2 (groupCache D) (gdGroupJson D) groupExpireTime getGroupInfoKey
       (\<lambda>groupID. onGroupDocs (GroupMgo_Take (gdGroup D) groupID)) groupIDs"

definition GroupCacheRedis_GetGroupInfo :: "'w group_db \<Rightarrow> string \<Rightarrow> ('w, GroupModel) ggo" where
  "GroupCacheRedis_GetGroupInfo D groupID =
     getCache (groupCache D) (gdGroupJson D) (getGroupInfoKey groupID) groupExpireTime
       (onGroupDocs (GroupMgo_Take (gdGroup D) groupID))"

definition DelGroupsInfo :: "string list \<Rightarrow> string list" where
  "DelGroupsInfo groupIDs = map getGroupInfoKey groupIDs"

definition DelGroupsOwner :: "string list \<Rightarrow> string list" where
  "DelGroupsOwner groupIDs = map (\<lambda>g. getGroupRoleLevelMemberIDsKey g GroupOwner) groupIDs"

definition DelGroupRoleLevel :: "string \<Rightarrow> int list \<Rightarrow> string list" where
  "DelGroupRoleLevel groupID roleLevels = map (getGroupRoleLevelMemberIDsKey groupID) roleLevels"

definition DelGroupAllRoleLevel :: "string \<Rightarrow> string list" where
  "DelGroupAllRoleLevel groupID = DelGroupRoleLevel groupID [GroupOwner, GroupAdmin, GroupOrdinaryUsers]"

definition DelGroupMembersHash :: "string \<Rightarrow> string list" where
  "DelGroupMembersHash groupID = [getGroupMembersHashKey groupID]"

definition DelGroupMemberIDs :: "string \<Rightarrow> string list" where
  "DelGroupMemberIDs groupID = [getGroupMemberIDsKey groupID]"

definition DelJoinedGroupID :: "string list \<Rightarrow> string list" where
  "DelJoinedGroupID userIDs = map getJoinedGroupsKey userIDs"

definition DelGroupMembersInfo :: "string \<Rightarrow> string list \<Rightarrow> string list" where
  "DelGroupMembersInfo groupID userIDs = map (getGroupMemberInfoKey groupID) userIDs"

definition DelGroupsMemberNum :: "string list \<Rightarrow> string list" where
  "DelGroupsMemberNum groupIDs = map getGroupMemberNumKey groupIDs"

definition GroupCacheRedis_GetGroupMembersHash :: "'w group_db \<Rightarrow> string \<Rightarrow> ('w, int) ggo" where
  "GroupCacheRedis_GetGroupMembersHash D groupID =
     getCache (groupCache D) (gdIntJson D) (getGroupMembersHashKey groupID) groupExpireTime (gdHash D groupID)"

definition GroupCacheRedis_GetGroupMemberIDs :: "'w group_db \<Rightarrow> string \<Rightarrow> ('w, string list) ggo" where
  "GroupCacheRedis_GetGroupMemberIDs D groupID =
     getCache (groupCache D) (gdStringsJson D) (getGroupMemberIDsKey groupID) groupExpireTime
       (onMemberDocs (GroupMemberMgo_FindMemberUserID (gdMember D) groupID))"

definition GroupCacheRedis_GetGroupsMemberIDs :: "'w group_db \<Rightarrow> string list \<Rightarrow> ('w, string \<rightharpoonup> string list) ggo" where
  "GroupCacheRedis_GetGroupsMemberIDs D groupIDs =
     foldG (\<lambda>groupID m. bindG (GroupCacheRedis_GetGroupMemberIDs D groupID) (\<lambda>userIDs. retG (m(groupID \<mapsto> userIDs))))
       groupIDs Map.empty"

definition GroupCacheRedis_GetJoinedGroupIDs :: "'w group_db \<Rightarrow> string \<Rightarrow> ('w, string list) ggo" where
  "GroupCacheRedis_GetJoinedGroupIDs D userID =
     getCache (groupCache D) (gdStringsJson D) (getJoinedGroupsKey userID) groupExpireTime
       (onMemberDocs (GroupMemberMgo_FindUserJoinedGroupID (gdMember D) userID))"

definition GroupCacheRedis_GetGroupMemberInfo :: "'w group_db \<Rightarrow> string \<Rightarrow> string \<Rightarrow> ('w, GroupMemberModel) ggo" where
  "GroupCacheRedis_GetGroupMemberInfo D groupID userID =
     getCache (groupCache D) (gdMemberJson D) (getGroupMemberInfoKey groupID userID) groupExpireTime
       (onMemberDocs (GroupMemberMgo_Take (gdMember D) groupID userID))"

definition GroupCacheRedis_GetGroupMembersInfo :: "'w group_db \<Rightarrow> string \<Rightarrow> string list \<Rightarrow> ('w, GroupMemberModel list) ggo" where
  "GroupCacheRedis_GetGroupMembersInfo D groupID userIDs =
     batchGetCache2 (groupCache D) (gdMemberJson D) groupExpireTime (getGroupMemberInfoKey groupID)
       (\<lambda>userID. onMemberDocs (GroupMemberMgo_Take (gdMember D) groupID userID)) userIDs"

definition GroupCacheRedis_GetGroupMembersInfoWaitGroup ::
  "'w group_db \<Rightarrow> string \<Rightarrow> string list \<Rightarrow> ('w, GroupMemberModel list) ggo" where
  "GroupCacheRedis_GetGroupMembersInfoWaitGroup D groupID userIDs =
     batchGetCacheWaitGroup (groupCache D) (gdMemberJson D) groupExpireTime (getGroupMemberInfoKey groupID)
       (\<lambda>userID. onMemberDocs (GroupMemberMgo_Take (gdMember D) groupID userID)) userIDs"

text \<open>\<open>showNumber\<close> is also passed as the page number; a nil list of users stands for all the members.\<close>

definition GroupCacheRedis_GetGroupMembersPage ::
  "'w group_db \<Rightarrow> (string set \<Rightarrow> string list) \<Rightarrow> string \<Rightarrow> string list option \<Rightarrow> int \<Rightarrow> int \<Rightarrow> ('w, int \<times> GroupMemberModel list) ggo" where
  "GroupCacheRedis_GetGroupMembersPage D ord groupID userIDs showNumber pageNumber =
     bindG (GroupCacheRedis_GetGroupMemberIDs D groupID) (\<lambda>groupMemberIDs.
       let ids = (case userIDs of None \<Rightarrow> groupMemberIDs | Some us \<Rightarrow> BothExistAny ord [us, groupMemberIDs] (\<lambda>u. u)) in
     bindG (liftG (Paginate ids showNumber showNumber)) (\<lambda>page.
     bindG (GroupCacheRedis_GetGroupMembersInfo D groupID page) (\<lambda>members. retG (uint32 (int (length ids)), members))))"

definition GroupCacheRedis_GetAllGroupMembersInfo :: "'w group_db \<Rightarrow> string \<Rightarrow> ('w, GroupMemberModel list) ggo" where
  "GroupCacheRedis_GetAllGroupMembersInfo D groupID =
     bindG (GroupCacheRedis_GetGroupMemberIDs D groupID) (GroupCacheRedis_GetGroupMembersInfo D groupID)"

definition GroupCacheRedis_GetAllGroupMembersInfoWaitGroup :: "'w group_db \<Rightarrow> string \<Rightarrow> ('w, GroupMemberModel list) ggo" where
  "GroupCacheRedis_GetAllGroupMembersInfoWaitGroup D groupID =
     bindG (GroupCacheRedis_GetGroupMemberIDs D groupID) (GroupCacheRedis_GetGroupMembersInfoWaitGroup D groupID)"

definition GroupCacheRedis_GetAllGroupMemberInfo :: "'w group_db \<Rightarrow> string \<Rightarrow> ('w, GroupMemberModel list) ggo" where
  "GroupCacheRedis_GetAllGroupMemberInfo D groupID =
     bindG (GroupCacheRedis_GetGroupMemberIDs D groupID) (GroupCacheRedis_GetGroupMembersInfo D groupID)"

definition GroupCacheRedis_GetGroupMemberNum :: "'w group_db \<Rightarrow> string \<Rightarrow> ('w, int) ggo" where
  "GroupCacheRedis_GetGroupMemberNum D groupID =
     getCache (groupCache D) (gdIntJson D) (getGroupMemberNumKey groupID) groupExpireTime
       (onMemberDocs (GroupMemberMgo_TakeGroupMemberNum (gdMember D) groupID))"

definition GroupCacheRedis_GetGroupMemberHashMap :: "'w group_db \<Rightarrow> string list \<Rightarrow> ('w, string \<rightharpoonup> GroupSimpleUserID) ggo" where
  "GroupCacheRedis_GetGroupMemberHashMap D groupIDs =
     foldG (\<lambda>groupID res. bindG (GroupCacheRedis_GetGroupMembersHash D groupID) (\<lambda>hash.
         bindG (GroupCacheRedis_GetGroupMemberNum D groupID) (\<lambda>num.
           retG (res(groupID \<mapsto> \<lparr> suHash = hash, suMemberNum = uint32 num \<rparr>))))) groupIDs Map.empty"

definition GroupCacheRedis_GetGroupRoleLevelMemberIDs :: "'w group_db \<Rightarrow> string \<Rightarrow> int \<Rightarrow> ('w, string list) ggo" where
  "GroupCacheRedis_GetGroupRoleLevelMemberIDs D groupID roleLevel =
     getCache (groupCache D) (gdStringsJson D) (getGroupRoleLevelMemberIDsKey groupID roleLevel) groupExpireTime
       (onMemberDocs (GroupMemberMgo_FindRoleLevelUserIDs (gdMember D) groupID roleLevel))"

definition GroupCacheRedis_GetGroupRoleLevelMemberInfo :: "'w group_db \<Rightarrow> string \<Rightarrow> int \<Rightarrow> ('w, GroupMemberModel list) ggo" where
  "GroupCacheRedis_GetGroupRoleLevelMemberInfo D groupID roleLevel =
     bindG (GroupCacheRedis_GetGroupRoleLevelMemberIDs D groupID roleLevel) (GroupCacheRedis_GetGroupMembersInfo D groupID)"

definition GroupCacheRedis_GetGroupRolesLevelMemberInfo ::
  "'w group_db \<Rightarrow> string \<Rightarrow> int list \<Rightarrow> ('w, GroupMemberModel list) ggo" where
  "GroupCacheRedis_GetGroupRolesLevelMemberInfo D groupID roleLevels =
     bindG (mapG (GroupCacheRedis_GetGroupRoleLevelMemberIDs D groupID) roleLevels) (\<lambda>ids.
       GroupCacheRedis_GetGroupMembersInfo D groupID (concat ids))"

definition GroupCacheRedis_GetGroupOwner :: "'w group_db \<Rightarrow> string \<Rightarrow> ('w, GroupMemberModel) ggo" where
  "GroupCacheRedis_GetGroupOwner D groupID =
     bindG (GroupCacheRedis_GetGroupRoleLevelMemberInfo D groupID GroupOwner) (\<lambda>members. case members of
         [] \<Rightarrow> failG (Wrap1m ErrRecordNotFound (''group '' @ groupID @ '' owner not found''))
       | m # _ \<Rightarrow> retG m)"

definition GroupCacheRedis_GetGroupsOwner :: "'w group_db \<Rightarrow> string list \<Rightarrow> ('w, GroupMemberModel list) ggo" where
  "GroupCacheRedis_GetGroupsOwner D groupIDs =
     foldG (\<lambda>groupID members. bindG (GroupCacheRedis_GetGroupRoleLevelMemberInfo D groupID GroupOwner) (\<lambda>items.
         retG (case items of [] \<Rightarrow> members | m # _ \<Rightarrow> members @ [m]))) groupIDs []"

definition GroupCacheRedis_FindGroupMemberUser :: "'w group_db \<Rightarrow> string list \<Rightarrow> string \<Rightarrow> ('w, GroupMemberModel list) ggo" where
  "GroupCacheRedis_FindGroupMemberUser D groupIDs userID =
     bindG (if length groupIDs = 0 then GroupCacheRedis_GetJoinedGroupIDs D userID else retG groupIDs) (\<lambda>ids.
       batchGetCache2 (groupCache D) (gdMemberJson D) groupExpireTime (\<lambda>g. getGroupMemberInfoKey g userID)
         (\<lambda>g. onMemberDocs (GroupMemberMgo_Take (gdMember D) g userID)) ids)"

section \<open>Controller\<close>

definition groupExecDel :: "'w group_db \<Rightarrow> string list \<Rightarrow> ('w, unit) ggo" where
  "groupExecDel D keys = ExecDel (groupCache D) keys"

definition groupDatabase_FindGroupMembers :: "'w group_db \<Rightarrow> string \<Rightarrow> string list \<Rightarrow> ('w, GroupMemberModel list) ggo" where
  "groupDatabase_FindGroupMembers D groupID userIDs = GroupCacheRedis_GetGroupMembersInfo D groupID userIDs"

definition groupDatabase_FindGroupMemberUser :: "'w group_db \<Rightarrow> string list \<Rightarrow> string \<Rightarrow> ('w, GroupMemberModel list) ggo" where
  "groupDatabase_FindGroupMemberUser D groupIDs userID = GroupCacheRedis_FindGroupMemberUser D groupIDs userID"

definition groupDatabase_FindGroupMemberRoleLevels :: "'w group_db \<Rightarrow> string \<Rightarrow> int list \<Rightarrow> ('w, GroupMemberModel list) ggo" where
  "groupDatabase_FindGroupMemberRoleLevels D groupID roleLevels = GroupCacheRedis_GetGroupRolesLevelMemberInfo D groupID roleLevels"

definition groupDatabase_FindGroupMemberAll :: "'w group_db \<Rightarrow> string \<Rightarrow> ('w, GroupMemberModel list) ggo" where
  "groupDatabase_FindGroupMemberAll D groupID = GroupCacheRedis_GetAllGroupMembersInfo D groupID"

definition groupDatabase_FindGroupMemberWaitGroup :: "'w group_db \<Rightarrow> string \<Rightarrow> ('w, GroupMemberModel list) ggo" where
  "groupDatabase_FindGroupMemberWaitGroup D groupID = GroupCacheRedis_GetAllGroupMembersInfoWaitGroup D groupID"

definition groupDatabase_FindGroupsOwner :: "'w group_db \<Rightarrow> string list \<Rightarrow> ('w, GroupMemberModel list) ggo" where
  "groupDatabase_FindGroupsOwner D groupIDs = GroupCacheRedis_GetGroupsOwner D groupIDs"

definition groupDatabase_GetGroupRoleLevelMemberIDs :: "'w group_db \<Rightarrow> string \<Rightarrow> int \<Rightarrow> ('w, string list) ggo" where
  "groupDatabase_GetGroupRoleLevelMemberIDs D groupID roleLevel = GroupCacheRedis_GetGroupRoleLevelMemberIDs D groupID roleLevel"

definition created_group_keys :: "string \<Rightarrow> string list" where
  "created_group_keys groupID = DelGroupsInfo [groupID] @ DelGroupMembersHash groupID @ DelGroupMembersHash groupID
     @ DelGroupsMemberNum [groupID] @ DelGroupMemberIDs groupID @ DelGroupAllRoleLevel groupID"

definition created_member_keys :: "GroupMemberModel \<Rightarrow> string list" where
  "created_member_keys m = DelGroupMembersHash (mbGroupID m) @ DelGroupsMemberNum [mbGroupID m] @ DelGroupMemberIDs (mbGroupID m)
     @ DelJoinedGroupID [mbUserID m] @ DelGroupMembersInfo (mbGroupID m) [mbUserID m] @ DelGroupAllRoleLevel (mbGroupID m)"

definition groupDatabase_CreateGroup_tx :: "'w group_db \<Rightarrow> GroupModel list \<Rightarrow> GroupMemberModel list \<Rightarrow> ('w, unit) ggo" where
  "groupDatabase_CreateGroup_tx D groups groupMembers =
     bindG (if length groups > 0
            then bindG (onGroupDocs (GroupMgo_Create (gdGroup D) groups)) (\<lambda>_.
                   retG (concat (map (\<lambda>g. created_group_keys (gmdGroupID g)) groups)))
            else retG []) (\<lambda>keys1.
     bindG (if length groupMembers > 0
            then bindG (onMemberDocs (GroupMemberMgo_Create (gdMember D) groupMembers)) (\<lambda>_.
                   retG (keys1 @ concat (map created_member_keys groupMembers)))
            else retG keys1) (\<lambda>keys2.
       groupExecDel D (Distinct keys2)))"

definition groupDatabase_CreateGroup :: "'w group_db \<Rightarrow> GroupModel list \<Rightarrow> GroupMemberModel list \<Rightarrow> ('w, unit) ggo" where
  "groupDatabase_CreateGroup D groups groupMembers =
     (if length groups + length groupMembers = 0 then retG ()
      else Mongo_Transaction (gdTx D) (groupDatabase_CreateGroup_tx D groups groupMembers))"

definition groupDatabase_FindGroupMemberUserID :: "'w group_db \<Rightarrow> string \<Rightarrow> ('w, string list) ggo" where
  "groupDatabase_FindGroupMemberUserID D groupID = GroupCacheRedis_GetGroupMemberIDs D groupID"

definition groupDatabase_FindGroupMemberNum :: "'w group_db \<Rightarrow> string \<Rightarrow> ('w, int) ggo" where
  "groupDatabase_FindGroupMemberNum D groupID =
     bindG (GroupCacheRedis_GetGroupMemberNum D groupID) (\<lambda>num. retG (uint32 num))"

definition groupDatabase_TakeGroup :: "'w group_db \<Rightarrow> string \<Rightarrow> ('w, GroupModel) ggo" where
  "groupDatabase_TakeGroup D groupID = GroupCacheRedis_GetGroupInfo D groupID"

definition groupDatabase_FindGroup :: "'w group_db \<Rightarrow> string list \<Rightarrow> ('w, GroupModel list) ggo" where
  "groupDatabase_FindGroup D groupIDs = GroupCacheRedis_GetGroupsInfo D groupIDs"

definition groupDatabase_SearchGroup ::
  "'w group_db \<Rightarrow> int \<Rightarrow> string \<Rightarrow> string \<Rightarrow> pagination \<Rightarrow> ('w, int \<times> GroupModel list) ggo" where
  "groupDatabase_SearchGroup D searchType userID keyword p =
     (if searchType = 1
      then bindG (GroupCacheRedis_GetJoinedGroupIDs D userID) (\<lambda>groupIDs.
             onGroupDocs (GroupMgo_Search (gdGroup D) (gdLike D) keyword p searchType groupIDs))
      else onGroupDocs (GroupMgo_Search (gdGroup D) (gdLike D) keyword p 0 []))"

definition groupDatabase_UpdateGroup :: "'w group_db \<Rightarrow> string \<Rightarrow> group_field list \<Rightarrow> ('w, unit) ggo" where
  "groupDatabase_UpdateGroup D groupID data =
     bindG (onGroupDocs (GroupMgo_UpdateMap (gdGroup D) groupID data)) (\<lambda>_. groupExecDel D (DelGroupsInfo [groupID]))"

definition groupDatabase_DismissGroup_tx :: "'w group_db \<Rightarrow> string \<Rightarrow> bool \<Rightarrow> ('w, unit) ggo" where
  "groupDatabase_DismissGroup_tx D groupID deleteMember =
     bindG (onGroupDocs (GroupMgo_UpdateStatus (gdGroup D) groupID GroupStatusDismissed)) (\<lambda>_.
     bindG (if deleteMember
            then bindG (GroupCacheRedis_GetGroupMemberIDs D groupID) (\<lambda>userIDs.
                 bindG (onMemberDocs (GroupMemberMgo_Delete (gdMember D) groupID [])) (\<lambda>_.
                   retG (DelJoinedGroupID userIDs @ DelGroupMemberIDs groupID @ DelGroupsMemberNum [groupID]
                     @ DelGroupMembersHash groupID @ DelGroupAllRoleLevel groupID @ DelGroupMembersInfo groupID userIDs)))
            else retG []) (\<lambda>keys.
       groupExecDel D (keys @ DelGroupsInfo [groupID])))"

definition groupDatabase_DismissGroup :: "'w group_db \<Rightarrow> string \<Rightarrow> bool \<Rightarrow> ('w, unit) ggo" where
  "groupDatabase_DismissGroup D groupID deleteMember =
     Mongo_Transaction (gdTx D) (groupDatabase_DismissGroup_tx D groupID deleteMember)"

definition groupDatabase_TakeGroupMember :: "'w group_db \<Rightarrow> string \<Rightarrow> string \<Rightarrow> ('w, GroupMemberModel) ggo" where
  "groupDatabase_TakeGroupMember D groupID userID = GroupCacheRedis_GetGroupMemberInfo D groupID userID"

definition groupDatabase_TakeGroupOwner :: "'w group_db \<Rightarrow> string \<Rightarrow> ('w, GroupMemberModel) ggo" where
  "groupDatabase_TakeGroupOwner D groupID = GroupCacheRedis_GetGroupOwner D groupID"

definition groupDatabase_FindUserManagedGroupID :: "'w group_db \<Rightarrow> string \<Rightarrow> ('w, string list) ggo" where
  "groupDatabase_FindUserManagedGroupID D userID = onMemberDocs (GroupMemberMgo_FindUserManagedGroupID (gdMember D) userID)"

definition groupDatabase_PageGroupRequest ::
  "'w group_db \<Rightarrow> string list \<Rightarrow> pagination \<Rightarrow> ('w, int \<times> GroupRequestModel list) ggo" where
  "groupDatabase_PageGroupRequest D groupIDs p = onGroupRequests (GroupRequestMgo_PageGroup (gdRequest D) groupIDs p)"

text \<open>A nil list of groups to search in (\<open>None\<close>) stands for all of them.\<close>

definition groupDatabase_PageGetJoinGroup ::
  "'w group_db \<Rightarrow> string \<Rightarrow> string list option \<Rightarrow> pagination \<Rightarrow> ('w, int \<times> string list) ggo" where
  "groupDatabase_PageGetJoinGroup D userID searchGroupIDs p =
     bindG (GroupCacheRedis_GetJoinedGroupIDs D userID) (\<lambda>groupIDs0.
       let groupIDs = (case searchGroupIDs of None \<Rightarrow> groupIDs0 | Some gs \<Rightarrow> filter (\<lambda>g. InArray g groupIDs0) gs) in
     bindG (liftG (Paginate groupIDs (fst p) (snd p))) (\<lambda>page. retG (int (length groupIDs), page)))"

definition groupDatabase_PageGetGroupMember ::
  "'w group_db \<Rightarrow> string \<Rightarrow> pagination \<Rightarrow> ('w, int \<times> GroupMemberModel list) ggo" where
  "groupDatabase_PageGetGroupMember D groupID p =
     bindG (GroupCacheRedis_GetGroupMemberIDs D groupID) (\<lambda>groupMemberIDs.
     bindG (liftG (Paginate groupMemberIDs (fst p) (snd p))) (\<lambda>pageIDs.
       if length pageIDs = 0 then retG (int (length groupMemberIDs), [])
       else bindG (GroupCacheRedis_GetGroupMembersInfo D groupID pageIDs) (\<lambda>members.
         retG (int (length groupMemberIDs), members))))"

definition groupDatabase_SearchGroupMemberSorted ::
  "'w group_db \<Rightarrow> string \<Rightarrow> string \<Rightarrow> pagination \<Rightarrow> ('w, int \<times> GroupMemberModel list) ggo" where
  "groupDatabase_SearchGroupMemberSorted D keyword groupID p =
     onMemberDocs (GroupMemberMgo_SearchMemberSorted (gdMember D) (gdLike D) keyword groupID p)"

definition groupDatabase_SearchGroupMember ::
  "'w group_db \<Rightarrow> string \<Rightarrow> string \<Rightarrow> pagination \<Rightarrow> ('w, int \<times> GroupMemberModel list) ggo" where
  "groupDatabase_SearchGroupMember D keyword groupID p =
     onMemberDocs (GroupMemberMgo_SearchMember (gdMember D) (gdLike D) keyword groupID p)"

definition groupDatabase_HandlerGroupRequest_tx ::
  "'w group_db \<Rightarrow> string \<Rightarrow> string \<Rightarrow> string \<Rightarrow> int \<Rightarrow> GroupMemberModel option \<Rightarrow> ('w, unit) ggo" where
  "groupDatabase_HandlerGroupRequest_tx D groupID userID handledMsg handleResult member =
     bindG (onGroupRequests (GroupRequestMgo_UpdateHandler (gdRequest D) groupID userID handledMsg handleResult)) (\<lambda>_.
       case member of
         None \<Rightarrow> retG ()
       | Some m \<Rightarrow>
           bindG (onMemberDocs (GroupMemberMgo_Create (gdMember D) [m])) (\<lambda>_.
             groupExecDel D (DelGroupMembersHash groupID @ DelGroupMembersInfo groupID [mbUserID m] @ DelGroupMemberIDs groupID
               @ DelGroupsMemberNum [groupID] @ DelJoinedGroupID [mbUserID m] @ DelGroupRoleLevel groupID [mbRoleLevel m])))"

definition groupDatabase_HandlerGroupRequest ::
  "'w group_db \<Rightarrow> string \<Rightarrow> string \<Rightarrow> string \<Rightarrow> int \<Rightarrow> GroupMemberModel option \<Rightarrow> ('w, unit) ggo" where
  "groupDatabase_HandlerGroupRequest D groupID userID handledMsg handleResult member =
     Mongo_Transaction (gdTx D) (groupDatabase_HandlerGroupRequest_tx D groupID userID handledMsg handleResult member)"

definition groupDatabase_DeleteGroupMember :: "'w group_db \<Rightarrow> string \<Rightarrow> string list \<Rightarrow> ('w, unit) ggo" where
  "groupDatabase_DeleteGroupMember D groupID userIDs =
     bindG (onMemberDocs (GroupMemberMgo_Delete (gdMember D) groupID userIDs)) (\<lambda>_.
       groupExecDel D (DelGroupMembersHash groupID @ DelGroupMemberIDs groupID @ DelGroupsMemberNum [groupID]
         @ DelJoinedGroupID userIDs @ DelGroupMembersInfo groupID userIDs @ DelGroupAllRoleLevel groupID))"

definition groupDatabase_MapGroupMemberUserID :: "'w group_db \<Rightarrow> string list \<Rightarrow> ('w, string \<rightharpoonup> GroupSimpleUserID) ggo" where
  "groupDatabase_MapGroupMemberUserID D groupIDs = GroupCacheRedis_GetGroupMemberHashMap D groupIDs"

definition groupDatabase_MapGroupMemberNum :: "'w group_db \<Rightarrow> string list \<Rightarrow> ('w, string \<rightharpoonup> int) ggo" where
  "groupDatabase_MapGroupMemberNum D groupIDs =
     foldG (\<lambda>groupID m. bindG (GroupCacheRedis_GetGroupMemberNum D groupID) (\<lambda>num. retG (m(groupID \<mapsto> uint32 num))))
       groupIDs Map.empty"

definition groupDatabase_TransferGroupOwner_tx ::
  "'w group_db \<Rightarrow> string \<Rightarrow> string \<Rightarrow> string \<Rightarrow> int \<Rightarrow> ('w, unit) ggo" where
  "groupDatabase_TransferGroupOwner_tx D groupID oldOwnerUserID newOwnerUserID roleLevel =
     bindG (onMemberDocs (GroupMemberMgo_UpdateRoleLevel (gdMember D) groupID oldOwnerUserID roleLevel)) (\<lambda>_.
     bindG (onMemberDocs (GroupMemberMgo_UpdateRoleLevel (gdMember D) groupID newOwnerUserID GroupOwner)) (\<lambda>_.
       groupExecDel D (DelGroupMembersInfo groupID [oldOwnerUserID, newOwnerUserID] @ DelGroupAllRoleLevel groupID
         @ DelGroupMembersHash groupID)))"

definition groupDatabase_TransferGroupOwner :: "'w group_db \<Rightarrow> string \<Rightarrow> string \<Rightarrow> string \<Rightarrow> int \<Rightarrow> ('w, unit) ggo" where
  "groupDatabase_TransferGroupOwner D groupID oldOwnerUserID newOwnerUserID roleLevel =
     Mongo_Transaction (gdTx D) (groupDatabase_TransferGroupOwner_tx D groupID oldOwnerUserID newOwnerUserID roleLevel)"

definition groupDatabase_UpdateGroupMember :: "'w group_db \<Rightarrow> string \<Rightarrow> string \<Rightarrow> member_field list \<Rightarrow> ('w, unit) ggo" where
  "groupDatabase_UpdateGroupMember D groupID userID data =
     bindG (onMemberDocs (GroupMemberMgo_Update (gdMember D) groupID userID data)) (\<lambda>_.
       groupExecDel D (DelGroupMembersInfo groupID [userID]
         @ (if GroupMemberMgo_IsUpdateRoleLevel data then DelGroupAllRoleLevel groupID else [])))"

definition groupDatabase_UpdateGroupMembers_tx :: "'w group_db \<Rightarrow> BatchUpdateGroupMember list \<Rightarrow> ('w, unit) ggo" where
  "groupDatabase_UpdateGroupMembers_tx D data =
     bindG (foldG (\<lambda>item keys.
         bindG (onMemberDocs (GroupMemberMgo_Update (gdMember D) (buGroupID item) (buUserID item) (buMap item))) (\<lambda>_.
           retG (keys @ (if GroupMemberMgo_IsUpdateRoleLevel (buMap item) then DelGroupAllRoleLevel (buGroupID item) else [])
             @ DelGroupMembersInfo (buGroupID item) [buUserID item] @ DelGroupMembersHash (buGroupID item)))) data [])
       (\<lambda>keys. groupExecDel D (Distinct keys))"

definition groupDatabase_UpdateGroupMembers :: "'w group_db \<Rightarrow> BatchUpdateGroupMember list \<Rightarrow> ('w, unit) ggo" where
  "groupDatabase_UpdateGroupMembers D data = Mongo_Transaction (gdTx D) (groupDatabase_UpdateGroupMembers_tx D data)"

definition groupDatabase_CreateGroupRequest_tx :: "'w group_db \<Rightarrow> GroupRequestModel list \<Rightarrow> ('w, unit) ggo" where
  "groupDatabase_CreateGroupRequest_tx D requests =
     bindG (forG requests (\<lambda>r. onGroupRequests (GroupRequestMgo_Delete (gdRequest D) (grGroupID r) (grUserID r)))) (\<lambda>_.
       onGroupRequests (GroupRequestMgo_Create (gdRequest D) requests))"

definition groupDatabase_CreateGroupRequest :: "'w group_db \<Rightarrow> GroupRequestModel list \<Rightarrow> ('w, unit) ggo" where
  "groupDatabase_CreateGroupRequest D requests = Mongo_Transaction (gdTx D) (groupDatabase_CreateGroupRequest_tx D requests)"

definition groupDatabase_TakeGroupRequest :: "'w group_db \<Rightarrow> string \<Rightarrow> string \<Rightarrow> ('w, GroupRequestModel) ggo" where
  "groupDatabase_TakeGroupRequest D groupID userID = onGroupRequests (GroupRequestMgo_Take (gdRequest D) groupID userID)"

definition groupDatabase_PageGroupRequestUser ::
  "'w group_db \<Rightarrow> string \<Rightarrow> pagination \<Rightarrow> ('w, int \<times> GroupRequestModel list) ggo" where
  "groupDatabase_PageGroupRequestUser D userID p = onGroupRequests (GroupRequestMgo_Page (gdRequest D) userID p)"

definition groupDatabase_CountTotal :: "'w group_db \<Rightarrow> int option \<Rightarrow> ('w, int) ggo" where
  "groupDatabase_CountTotal D before' = onGroupDocs (GroupMgo_CountTotal (gdGroup D) before')"

definition groupDatabase_CountRangeEverydayTotal :: "'w group_db \<Rightarrow> int \<Rightarrow> int \<Rightarrow> ('w, string \<rightharpoonup> int) ggo" where
  "groupDatabase_CountRangeEverydayTotal D start end' =
     onGroupDocs (GroupMgo_CountRangeEverydayTotal (gdGroup D) (gdDayOf D) start end')"

definition groupDatabase_FindGroupRequests :: "'w group_db \<Rightarrow> string \<Rightarrow> string list \<Rightarrow> ('w, GroupRequestModel list) ggo" where
  "groupDatabase_FindGroupRequests D groupID userIDs =
     onGroupRequests (GroupRequestMgo_FindGroupRequests (gdRequest D) groupID userIDs)"

definition groupDatabase_DeleteGroupMemberHash :: "'w group_db \<Rightarrow> string list \<Rightarrow> ('w, unit) ggo" where
  "groupDatabase_DeleteGroupMemberHash D groupIDs =
     (if length groupIDs = 0 then retG () else groupExecDel D (concat (map DelGroupMembersHash groupIDs)))"

definition groupDatabase_SearchGroupMembers ::
  "'w group_db \<Rightarrow> string \<Rightarrow> string \<Rightarrow> pagination \<Rightarrow> ('w, int \<times> SearchGroupMemberModel list) ggo" where
  "groupDatabase_SearchGroupMembers D keyword userID p =
     bindG (GroupCacheRedis_GetJoinedGroupIDs D userID) (\<lambda>groupIDs.
       GroupMemberMgo_SearchGroupMembers (gdSearchPipeline D) keyword userID groupIDs p)"

end
