(* ===== verification/GroupNotify.thy ===== *)
theory GroupNotify
  imports GroupDB RpcClients
begin

text \<open>
  The group service, first part: its state and collaborators, the conversions
  (\<open>pkg/common/convert/group.go\<close>, \<open>internal/rpc/group/convert.go\<close>) and the notifications
  (\<open>pkg/rpcclient/notification/group.go\<close>).

  Members are objects that the code fills in place; a function that does so returns the filled ones.
\<close>

section \<open>Wire types\<close>

record GroupRequest =
  gqUserInfo :: "PublicUserInfo option"
  gqGroupInfo :: GroupInfo
  gqHandleResult :: int
  gqReqMsg :: string
  gqHandleMsg :: string
  gqReqTime :: int
  gqHandleUserID :: string
  gqHandleTime :: int
  gqEx :: string
  gqJoinSource :: int
  gqInviterUserID :: string

record CMSGroup =
  cgGroupInfo :: GroupInfo
  cgGroupOwnerUserID :: string
  cgGroupOwnerUserName :: string

record GroupAbstractInfo =
  gaGroupID :: string
  gaGroupMemberNumber :: int
  gaGroupMemberListHash :: int

record SearchGroupMemberInfo =
  siGroupID :: string
  siGroupName :: string
  siFaceURL :: string
  siMemberCount :: int
  siStatus :: int
  siNickname :: string
  siRemark :: string
  siJoinTime :: int

record JoinGroupReq =
  jrGroupID :: string
  jrReqMessage :: string
  jrJoinSource :: int
  jrInviterUserID :: string
  jrEx :: string

record GroupApplicationResponseReq =
  arGroupID :: string
  arFromUserID :: string
  arHandledMsg :: string
  arHandleResult :: int

type_synonym member_opt = "GroupMemberFullInfo option"

datatype group_tips =
    GroupCreatedTips GroupInfo int GroupMemberFullInfo "GroupMemberFullInfo list" member_opt
  | GroupInfoSetTips GroupInfo member_opt
  | GroupInfoSetNameTips GroupInfo member_opt
  | GroupInfoSetFaceURLTips GroupInfo member_opt
  | GroupInfoSetAnnouncementTips GroupInfo member_opt
  | JoinGroupApplicationTips GroupInfo PublicUserInfo string
  | MemberQuitTips GroupInfo GroupMemberFullInfo
  | GroupApplicationAcceptedTips GroupInfo string member_opt int
  | GroupApplicationRejectedTips GroupInfo string member_opt int
  | GroupOwnerTransferredTips GroupInfo member_opt member_opt
  | MemberKickedTips GroupInfo member_opt "GroupMemberFullInfo list"
  | MemberInvitedTips GroupInfo member_opt "GroupMemberFullInfo list"
  | MemberEnterTips GroupInfo GroupMemberFullInfo
  | GroupDismissedTips GroupInfo member_opt
  | GroupMemberMutedTips GroupInfo int member_opt member_opt
  | GroupMemberCancelMutedTips GroupInfo member_opt member_opt
  | GroupMutedTips GroupInfo member_opt
  | GroupCancelMutedTips GroupInfo member_opt
  | GroupMemberInfoSetTips GroupInfo member_opt member_opt
  | NoGroupTips

section \<open>Conversions\<close>

definition Db2PbGroupInfo :: "GroupModel \<Rightarrow> string \<Rightarrow> int \<Rightarrow> GroupInfo" where
  "Db2PbGroupInfo m ownerUserID memberCount = \<lparr> giGroupID = gmdGroupID m, giGroupName = gmdGroupName m,
     giNotification = gmdNotification m, giIntroduction = gmdIntroduction m, giFaceURL = gmdFaceURL m,
     giOwnerUserID = ownerUserID, giCreateTime = gmdCreateTime m, giMemberCount = memberCount, giEx = gmdEx m,
     giStatus = gmdStatus m, giCreatorUserID = gmdCreatorUserID m, giGroupType = gmdGroupType m,
     giNeedVerification = gmdNeedVerification m, giLookMemberInfo = gmdLookMemberInfo m,
     giApplyMemberFriend = gmdApplyMemberFriend m, giNotificationUpdateTime = gmdNotificationUpdateTime m,
     giNotificationUserID = gmdNotificationUserID m, giJoinTime = gmdJoinTime m \<rparr>"

text \<open>The same without the time of joining.\<close>

definition groupServer_groupDB2PB :: "GroupModel \<Rightarrow> string \<Rightarrow> int \<Rightarrow> GroupInfo" where
  "groupServer_groupDB2PB gi ownerUserID memberCount = (Db2PbGroupInfo gi ownerUserID memberCount)\<lparr> giJoinTime := 0 \<rparr>"

definition GroupNotificationSender_groupDB2PB :: "GroupModel \<Rightarrow> string \<Rightarrow> int \<Rightarrow> GroupInfo" where
  "GroupNotificationSender_groupDB2PB gi ownerUserID memberCount = groupServer_groupDB2PB gi ownerUserID memberCount"

definition groupServer_groupMemberDB2PB :: "GroupMemberModel \<Rightarrow> int \<Rightarrow> GroupMemberFullInfo" where
  "groupServer_groupMemberDB2PB m appMangerLevel = \<lparr> gmGroupID = mbGroupID m, gmUserID = mbUserID m, gmRoleLevel = mbRoleLevel m,
     gmJoinTime = mbJoinTime m, gmNickname = mbNickname m, gmFaceURL = mbFaceURL m, gmAppMangerLevel = appMangerLevel,
     gmJoinSource = mbJoinSource m, gmOperatorUserID = mbOperatorUserID m, gmEx = mbEx m, gmMuteEndTime = mbMuteEndTime m,
     gmInviterUserID = mbInviterUserID m, gmRemark = [] \<rparr>"

definition GroupNotificationSender_groupMemberDB2PB :: "GroupMemberModel \<Rightarrow> int \<Rightarrow> GroupMemberFullInfo" where
  "GroupNotificationSender_groupMemberDB2PB m appMangerLevel = groupServer_groupMemberDB2PB m appMangerLevel"

definition Db2PbGroupMember :: "GroupMemberModel \<Rightarrow> GroupMemberFullInfo" where
  "Db2PbGroupMember m = groupServer_groupMemberDB2PB m 0"

definition Pb2DbGroupRequest :: "int \<Rightarrow> GroupApplicationResponseReq \<Rightarrow> string \<Rightarrow> GroupRequestModel" where
  "Pb2DbGroupRequest now req handleUserID = \<lparr> grUserID = arFromUserID req, grGroupID = arGroupID req,
     grHandleResult = arHandleResult req, grReqMsg = [], grHandledMsg = arHandledMsg req, grReqTime = - 62135596800000,
     grHandleUserID = handleUserID, grHandledTime = now, grJoinSource = 0, grInviterUserID = [], grEx = [] \<rparr>"

definition Db2PbCMSGroup :: "GroupModel \<Rightarrow> string \<Rightarrow> string \<Rightarrow> int \<Rightarrow> CMSGroup" where
  "Db2PbCMSGroup m ownerUserID ownerUserName memberCount = \<lparr> cgGroupInfo = Db2PbGroupInfo m ownerUserID memberCount,
     cgGroupOwnerUserID = ownerUserID, cgGroupOwnerUserName = ownerUserName \<rparr>"

definition Db2PbGroupRequest :: "GroupRequestModel \<Rightarrow> PublicUserInfo option \<Rightarrow> GroupInfo \<Rightarrow> GroupRequest" where
  "Db2PbGroupRequest m user gi = \<lparr> gqUserInfo = user, gqGroupInfo = gi, gqHandleResult = grHandleResult m,
     gqReqMsg = grReqMsg m, gqHandleMsg = grHandledMsg m, gqReqTime = grReqTime m, gqHandleUserID = grHandleUserID m,
     gqHandleTime = grHandledTime m, gqEx = grEx m, gqJoinSource = grJoinSource m, gqInviterUserID = grInviterUserID m \<rparr>"

definition Db2PbGroupAbstractInfo :: "string \<Rightarrow> int \<Rightarrow> int \<Rightarrow> GroupAbstractInfo" where
  "Db2PbGroupAbstractInfo groupID memberNumber listHash =
     \<lparr> gaGroupID = groupID, gaGroupMemberNumber = memberNumber, gaGroupMemberListHash = listHash \<rparr>"

definition Pb2DBGroupInfo :: "int \<Rightarrow> GroupInfo \<Rightarrow> GroupModel" where
  "Pb2DBGroupInfo now m = \<lparr> gmdGroupID = giGroupID m, gmdGroupName = giGroupName m, gmdNotification = giNotification m,
     gmdIntroduction = giIntroduction m, gmdFaceURL = giFaceURL m, gmdCreateTime = now, gmdEx = giEx m, gmdStatus = giStatus m,
     gmdCreatorUserID = giCreatorUserID m, gmdGroupType = giGroupType m, gmdNeedVerification = giNeedVerification m,
     gmdLookMemberInfo = giLookMemberInfo m, gmdApplyMemberFriend = giApplyMemberFriend m,
     gmdNotificationUpdateTime = giNotificationUpdateTime m, gmdNotificationUserID = giNotificationUserID m,
     gmdJoinTime = - 62135596800000 \<rparr>"

definition Db2PbCMSSearchGroupMember :: "SearchGroupMemberModel \<Rightarrow> int \<Rightarrow> SearchGroupMemberInfo" where
  "Db2PbCMSSearchGroupMember m memberCount = \<lparr> siGroupID = sgGroupID m, siGroupName = sgGroupName m, siFaceURL = sgFaceURL m,
     siMemberCount = memberCount, siStatus = sgStatus m, siNickname = sgNickname m, siRemark = sgRemark m,
     siJoinTime = sgJoinTime m \<rparr>"

section \<open>The server\<close>

record group_cb_config =
  gkBeforeCreateGroup :: CallBackConfig
  gkAfterCreateGroup :: CallBackConfig
  gkBeforeMemberJoinGroup :: CallBackConfig
  gkBeforeSetGroupMemberInfo :: CallBackConfig
  gkAfterSetGroupMemberInfo :: CallBackConfig
  gkQuitGroup :: CallBackConfig
  gkKillGroupMember :: CallBackConfig
  gkDismissGroup :: CallBackConfig
  gkBeforeJoinGroup :: CallBackConfig
  gkTransferGroupOwnerAfter :: CallBackConfig
  gkBeforeInviteUserToGroup :: CallBackConfig
  gkAfterJoinGroup :: CallBackConfig
  gkBeforeSetGroupInfo :: CallBackConfig
  gkAfterSetGroupInfo :: CallBackConfig

record GroupInfoForSet =
  fsGroupID :: string
  fsGroupName :: string
  fsNotification :: string
  fsIntroduction :: string
  fsFaceURL :: string
  fsEx :: "string option"
  fsNeedVerification :: "int option"
  fsLookMemberInfo :: "int option"
  fsApplyMemberFriend :: "int option"

record SetGroupMemberInfo =
  smGroupID :: string
  smUserID :: string
  smNickname :: "string option"
  smFaceURL :: "string option"
  smRoleLevel :: "int option"
  smEx :: "string option"

datatype group_callback =
    CbBeforeCreateGroup string GroupInfo "(string \<times> int) list"
  | CbAfterCreateGroup GroupInfo "(string \<times> int) list"
  | CbBeforeMemberJoinGroup string string string string
  | CbBeforeSetGroupMemberInfo SetGroupMemberInfo
  | CbAfterSetGroupMemberInfo SetGroupMemberInfo
  | CbQuitGroup string string
  | CbKillGroupMember string "string list"
  | CbDismissGroup string string string "string list"
  | CbBeforeJoinGroup string string string string string
  | CbTransferGroupOwnerAfter string string string
  | CbBeforeInviteUserToGroup string string string "string list"
  | CbAfterJoinGroup string JoinGroupReq
  | CbBeforeSetGroupInfo GroupInfoForSet
  | CbAfterSetGroupInfo GroupInfoForSet

record CallbackBeforeCreateGroupResp =
  bgCommon :: CommonCallbackResp
  bgGroupID :: "string option"
  bgGroupName :: "string option"
  bgNotification :: "string option"
  bgIntroduction :: "string option"
  bgFaceURL :: "string option"
  bgOwnerUserID :: "string option"
  bgEx :: "string option"
  bgStatus :: "int option"
  bgCreatorUserID :: "string option"
  bgGroupType :: "int option"
  bgNeedVerification :: "int option"
  bgLookMemberInfo :: "int option"
  bgApplyMemberFriend :: "int option"

record CallbackBeforeMemberJoinGroupResp =
  bjCommon :: CommonCallbackResp
  bjNickname :: "string option"
  bjFaceURL :: "string option"
  bjRoleLevel :: "int option"
  bjMuteEndTime :: "int option"
  bjEx :: "string option"

record CallbackBeforeSetGroupMemberInfoResp =
  bsCommon :: CommonCallbackResp
  bsEx :: "string option"
  bsNickname :: "string option"
  bsFaceURL :: "string option"
  bsRoleLevel :: "int option"

record CallbackBeforeSetGroupInfoResp =
  biCommon :: CommonCallbackResp
  biGroupID :: string
  biGroupName :: string
  biNotification :: string
  biIntroduction :: string
  biFaceURL :: string
  biREx :: "string option"
  biNeedVerification :: "int option"
  biLookMemberInfo :: "int option"
  biApplyMemberFriend :: "int option"

text \<open>
  \<open>gvSeed\<close> is the time and the random number of a new group identifier.
\<close>

record 'w group_server =
  gvDB :: "'w group_db"
  gvUser :: "'w user_stub"
  gvConv :: "'w conversation_stub"
  gvMsg :: "'w msg_stub"
  gvFriendsRemark :: "string \<Rightarrow> ('w, string \<rightharpoonup> string) go"
  gvRdb :: "'w redis_api"
  gvSender :: "'w notification_sender"
  gvTips :: "group_tips \<Rightarrow> go_error + string"
  gvPost :: "group_callback \<Rightarrow> ('w, string) go"
  gvDecode :: "string \<Rightarrow> go_error + CommonCallbackResp"
  gvDecodeCreate :: "string \<Rightarrow> go_error + CallbackBeforeCreateGroupResp"
  gvDecodeJoin :: "string \<Rightarrow> go_error + CallbackBeforeMemberJoinGroupResp"
  gvDecodeMember :: "string \<Rightarrow> go_error + CallbackBeforeSetGroupMemberInfoResp"
  gvDecodeGroup :: "string \<Rightarrow> go_error + CallbackBeforeSetGroupInfoResp"
  gvErrorText :: "go_error \<Rightarrow> string"
  gvCbConfig :: group_cb_config
  gvAuthCfg :: auth_config
  gvJson :: json_codec
  gvToLower :: "string \<Rightarrow> string"
  gvMd5 :: "string \<Rightarrow> string"
  gvSeed :: "('w, string \<times> string) go"
  gvOrd :: "string set \<Rightarrow> string list"

section \<open>Members with names and pictures\<close>

definition empty_ids :: "GroupMemberModel list \<Rightarrow> string set" where
  "empty_ids members = mbUserID ` set (filter (\<lambda>m. mbNickname m = [] \<or> mbFaceURL m = []) members)"

definition fill_member :: "(string \<rightharpoonup> UserInfo) \<Rightarrow> GroupMemberModel \<Rightarrow> GroupMemberModel" where
  "fill_member userMap m = (case userMap (mbUserID m) of None \<Rightarrow> m
     | Some u \<Rightarrow> m\<lparr> mbNickname := (if mbNickname m = [] then uNickname u else mbNickname m),
                     mbFaceURL := (if mbFaceURL m = [] then uFaceURL u else mbFaceURL m) \<rparr>)"

definition populate_with ::
  "'w group_server \<Rightarrow> (string list \<Rightarrow> ('w, UserInfo list) go) \<Rightarrow> GroupMemberModel list \<Rightarrow> ('w, GroupMemberModel list) ggo" where
  "populate_with S getUsersInfo members =
     (if length members = 0 then retG members
      else if empty_ids members \<noteq> {}
      then bindG (onGroupWorld (getUsersInfo (gvOrd S (empty_ids members)))) (\<lambda>users.
             retG (map (fill_member (SliceToMap users uUserID)) members))
      else retG members)"

definition GroupNotificationSender_PopulateGroupMember ::
  "'w group_server \<Rightarrow> GroupMemberModel list \<Rightarrow> ('w, GroupMemberModel list) ggo" where
  "GroupNotificationSender_PopulateGroupMember S members = populate_with S (GetUsersInfo (gvUser S)) members"

definition GroupNotificationSender_PopulateGroupMemberWaitGroup ::
  "'w group_server \<Rightarrow> GroupMemberModel list \<Rightarrow> ('w, GroupMemberModel list) ggo" where
  "GroupNotificationSender_PopulateGroupMemberWaitGroup S members = populate_with S (GetUsersInfoWaitGroup (gvUser S)) members"

definition getUser :: "'w group_server \<Rightarrow> string \<Rightarrow> ('w, PublicUserInfo) ggo" where
  "getUser S userID = bindG (onGroupWorld (GetUsersInfo (gvUser S) [userID])) (\<lambda>users. case users of
       [] \<Rightarrow> failG (Wrap1m ErrUserIDNotFound (''user '' @ userID @ '' not found''))
     | u # _ \<Rightarrow> retG (public_info u))"

definition getGroupInfo :: "'w group_server \<Rightarrow> string \<Rightarrow> ('w, GroupInfo) ggo" where
  "getGroupInfo S groupID =
     bindG (groupDatabase_TakeGroup (gvDB S) groupID) (\<lambda>gm.
     bindG (groupDatabase_FindGroupMemberNum (gvDB S) groupID) (\<lambda>num.
     bindG (groupDatabase_GetGroupRoleLevelMemberIDs (gvDB S) groupID GroupOwner) (\<lambda>ownerUserIDs.
       retG (GroupNotificationSender_groupDB2PB gm (case ownerUserIDs of [] \<Rightarrow> [] | u # _ \<Rightarrow> u) num))))"

definition getGroupMembers :: "'w group_server \<Rightarrow> string \<Rightarrow> string list \<Rightarrow> ('w, GroupMemberFullInfo list) ggo" where
  "getGroupMembers S groupID userIDs =
     bindG (groupDatabase_FindGroupMembers (gvDB S) groupID userIDs) (\<lambda>members.
     bindG (GroupNotificationSender_PopulateGroupMember S members) (\<lambda>filled.
       retG (map (\<lambda>m. GroupNotificationSender_groupMemberDB2PB m 0) filled)))"

definition getGroupMemberMap :: "'w group_server \<Rightarrow> string \<Rightarrow> string list \<Rightarrow> ('w, string \<rightharpoonup> GroupMemberFullInfo) ggo" where
  "getGroupMemberMap S groupID userIDs =
     bindG (getGroupMembers S groupID userIDs) (\<lambda>members. retG (SliceToMap members gmUserID))"

definition getGroupMember :: "'w group_server \<Rightarrow> string \<Rightarrow> string \<Rightarrow> ('w, GroupMemberFullInfo) ggo" where
  "getGroupMember S groupID userID = bindG (getGroupMembers S groupID [userID]) (\<lambda>members. case members of
       [] \<Rightarrow> failG (Wrap1m ErrInternalServer (''group '' @ groupID @ '' member '' @ userID @ '' not found''))
     | m # _ \<Rightarrow> retG m)"

definition getGroupOwnerAndAdminUserID :: "'w group_server \<Rightarrow> string \<Rightarrow> ('w, string list) ggo" where
  "getGroupOwnerAndAdminUserID S groupID =
     bindG (groupDatabase_FindGroupMemberRoleLevels (gvDB S) groupID [GroupOwner, GroupAdmin]) (\<lambda>members.
     bindG (GroupNotificationSender_PopulateGroupMember S members) (\<lambda>filled. retG (Slice filled mbUserID)))"

definition getUsersInfoMap :: "'w group_server \<Rightarrow> string list \<Rightarrow> ('w, string \<rightharpoonup> UserInfo) ggo" where
  "getUsersInfoMap S userIDs = bindG (onGroupWorld (GetUsersInfo (gvUser S) userIDs)) (\<lambda>users. retG (SliceToMap users uUserID))"

definition empty_member :: GroupMemberFullInfo where
  "empty_member = \<lparr> gmGroupID = [], gmUserID = [], gmRoleLevel = 0, gmJoinTime = 0, gmNickname = [], gmFaceURL = [],
     gmAppMangerLevel = 0, gmJoinSource = 0, gmOperatorUserID = [], gmEx = [], gmMuteEndTime = 0, gmInviterUserID = [],
     gmRemark = [] \<rparr>"

text \<open>\<open>errs.ErrRecordNotFound.Is(err)\<close>, without looking at the driver's own errors.\<close>

definition is_record_not_found :: "go_error \<Rightarrow> bool" where
  "is_record_not_found err = codeError_Is Relation_init (CodeError 1004 ''RecordNotFoundError'' []) (Some err) None"

definition fillOpUser :: "'w group_server \<Rightarrow> rpc_ctx \<Rightarrow> member_opt \<Rightarrow> string \<Rightarrow> ('w, member_opt) ggo" where
  "fillOpUser S ctx opUser groupID =
     (if opUser \<noteq> None then retG opUser
      else
        let userID = ctxOpUserID ctx in
        bindG (if groupID \<noteq> [] then
                 (if IsManagerUserID (gvAuthCfg S) userID
                  then retG (Some (empty_member\<lparr> gmGroupID := groupID, gmUserID := userID, gmRoleLevel := GroupAdmin,
                              gmAppMangerLevel := AppAdmin \<rparr>))
                  else bindG (attemptG (groupDatabase_TakeGroupMember (gvDB S) groupID userID)) (\<lambda>r. case r of
                         Inr member \<Rightarrow> retG (Some (GroupNotificationSender_groupMemberDB2PB member 0))
                       | Inl err \<Rightarrow> if \<not> is_record_not_found err then failG err else retG None))
               else retG None) (\<lambda>found.
        bindG (getUser S userID) (\<lambda>user.
          retG (Some (case found of
              None \<Rightarrow> empty_member\<lparr> gmGroupID := groupID, gmUserID := userID, gmNickname := puNickname user,
                        gmFaceURL := puFaceURL user, gmOperatorUserID := userID \<rparr>
            | Some m \<Rightarrow> m\<lparr> gmNickname := (if gmNickname m = [] then puNickname user else gmNickname m),
                            gmFaceURL := (if gmFaceURL m = [] then puFaceURL user else gmFaceURL m) \<rparr>)))))"

section \<open>Notifications\<close>

definition group_notify ::
  "'w group_server \<Rightarrow> int \<Rightarrow> rpc_ctx \<Rightarrow> string \<Rightarrow> string \<Rightarrow> int \<Rightarrow> group_tips \<Rightarrow> bool \<Rightarrow> ('w, unit) ggo" where
  "group_notify S now ctx sendID recvID contentType tips withName =
     onGroupWorld (Notification (gvSender S) now ctx sendID recvID contentType (gvTips S tips) withName)"

text \<open>The notifications that fill in the operator and then go to the group.\<close>

definition notify_group ::
  "'w group_server \<Rightarrow> int \<Rightarrow> rpc_ctx \<Rightarrow> GroupInfo \<Rightarrow> member_opt \<Rightarrow> int \<Rightarrow> (member_opt \<Rightarrow> group_tips) \<Rightarrow> bool \<Rightarrow> ('w, unit) ggo" where
  "notify_group S now ctx gi opUser contentType tips withName =
     bindG (fillOpUser S ctx opUser (giGroupID gi)) (\<lambda>op.
       group_notify S now ctx (ctxOpUserID ctx) (giGroupID gi) contentType (tips op) withName)"

definition GroupCreatedNotification_send ::
  "'w group_server \<Rightarrow> int \<Rightarrow> rpc_ctx \<Rightarrow> GroupInfo \<Rightarrow> int \<Rightarrow> GroupMemberFullInfo \<Rightarrow> GroupMemberFullInfo list \<Rightarrow> member_opt \<Rightarrow> ('w, unit) ggo" where
  "GroupCreatedNotification_send S now ctx gi opTime owner members opUser =
     notify_group S now ctx gi opUser GroupCreatedNotification (GroupCreatedTips gi opTime owner members) False"

definition GroupInfoSetNotification_send :: "'w group_server \<Rightarrow> int \<Rightarrow> rpc_ctx \<Rightarrow> GroupInfo \<Rightarrow> member_opt \<Rightarrow> ('w, unit) ggo" where
  "GroupInfoSetNotification_send S now ctx gi opUser =
     notify_group S now ctx gi opUser GroupInfoSetNotification (GroupInfoSetTips gi) True"

definition GroupInfoSetNameNotification_send :: "'w group_server \<Rightarrow> int \<Rightarrow> rpc_ctx \<Rightarrow> GroupInfo \<Rightarrow> member_opt \<Rightarrow> ('w, unit) ggo" where
  "GroupInfoSetNameNotification_send S now ctx gi opUser =
     notify_group S now ctx gi opUser GroupInfoSetNameNotification (GroupInfoSetNameTips gi) False"

definition GroupInfoSetFaceURLNotification_send :: "'w group_server \<Rightarrow> int \<Rightarrow> rpc_ctx \<Rightarrow> GroupInfo \<Rightarrow> member_opt \<Rightarrow> ('w, unit) ggo" where
  "GroupInfoSetFaceURLNotification_send S now ctx gi opUser =
     notify_group S now ctx gi opUser GroupInfoSetFaceURLNotification (GroupInfoSetFaceURLTips gi) False"

definition GroupInfoSetAnnouncementNotification_send ::
  "'w group_server \<Rightarrow> int \<Rightarrow> rpc_ctx \<Rightarrow> GroupInfo \<Rightarrow> member_opt \<Rightarrow> ('w, unit) ggo" where
  "GroupInfoSetAnnouncementNotification_send S now ctx gi opUser =
     notify_group S now ctx gi opUser GroupInfoSetAnnouncementNotification (GroupInfoSetAnnouncementTips gi) True"

definition JoinGroupApplicationNotification_send :: "'w group_server \<Rightarrow> int \<Rightarrow> rpc_ctx \<Rightarrow> JoinGroupReq \<Rightarrow> ('w, unit) ggo" where
  "JoinGroupApplicationNotification_send S now ctx req =
     bindG (getGroupInfo S (jrGroupID req)) (\<lambda>gi.
     bindG (getUser S (jrInviterUserID req)) (\<lambda>user.
     bindG (getGroupOwnerAndAdminUserID S (jrGroupID req)) (\<lambda>userIDs.
       forG (Distinct (userIDs @ [jrInviterUserID req, ctxOpUserID ctx])) (\<lambda>userID.
         ignoreG (group_notify S now ctx (ctxOpUserID ctx) userID JoinGroupApplicationNotification
           (JoinGroupApplicationTips gi user (jrReqMessage req)) False)))))"

definition MemberQuitNotification_send :: "'w group_server \<Rightarrow> int \<Rightarrow> rpc_ctx \<Rightarrow> GroupMemberFullInfo \<Rightarrow> ('w, unit) ggo" where
  "MemberQuitNotification_send S now ctx member =
     bindG (getGroupInfo S (gmGroupID member)) (\<lambda>gi.
       group_notify S now ctx (ctxOpUserID ctx) (gmGroupID member) MemberQuitNotification (MemberQuitTips gi member) False)"

definition application_answered ::
  "'w group_server \<Rightarrow> int \<Rightarrow> rpc_ctx \<Rightarrow> GroupApplicationResponseReq \<Rightarrow> int
   \<Rightarrow> (GroupInfo \<Rightarrow> string \<Rightarrow> member_opt \<Rightarrow> int \<Rightarrow> group_tips) \<Rightarrow> ('w, unit) ggo" where
  "application_answered S now ctx req contentType tips =
     bindG (getGroupInfo S (arGroupID req)) (\<lambda>gi.
     bindG (getGroupOwnerAndAdminUserID S (arGroupID req)) (\<lambda>userIDs.
     bindG (fillOpUser S ctx None (giGroupID gi)) (\<lambda>op.
       forG (userIDs @ [arFromUserID req]) (\<lambda>userID.
         ignoreG (group_notify S now ctx (ctxOpUserID ctx) userID contentType
           (tips gi (arHandledMsg req) op (if userID = arFromUserID req then 0 else 1)) False)))))"

definition GroupApplicationAcceptedNotification_send ::
  "'w group_server \<Rightarrow> int \<Rightarrow> rpc_ctx \<Rightarrow> GroupApplicationResponseReq \<Rightarrow> ('w, unit) ggo" where
  "GroupApplicationAcceptedNotification_send S now ctx req =
     application_answered S now ctx req GroupApplicationAcceptedNotification GroupApplicationAcceptedTips"

definition GroupApplicationRejectedNotification_send ::
  "'w group_server \<Rightarrow> int \<Rightarrow> rpc_ctx \<Rightarrow> GroupApplicationResponseReq \<Rightarrow> ('w, unit) ggo" where
  "GroupApplicationRejectedNotification_send S now ctx req =
     application_answered S now ctx req GroupApplicationRejectedNotification GroupApplicationRejectedTips"

definition GroupOwnerTransferredNotification_send ::
  "'w group_server \<Rightarrow> int \<Rightarrow> rpc_ctx \<Rightarrow> string \<Rightarrow> string \<Rightarrow> ('w, unit) ggo" where
  "GroupOwnerTransferredNotification_send S now ctx groupID newOwnerUserID =
     bindG (getGroupInfo S groupID) (\<lambda>gi.
     bindG (getGroupMemberMap S groupID [ctxOpUserID ctx, newOwnerUserID]) (\<lambda>member.
       notify_group S now ctx gi (member (ctxOpUserID ctx)) GroupOwnerTransferredNotification
         (\<lambda>op. GroupOwnerTransferredTips gi op (member newOwnerUserID)) False))"

definition MemberKickedNotification_send ::
  "'w group_server \<Rightarrow> int \<Rightarrow> rpc_ctx \<Rightarrow> GroupInfo \<Rightarrow> member_opt \<Rightarrow> GroupMemberFullInfo list \<Rightarrow> ('w, unit) ggo" where
  "MemberKickedNotification_send S now ctx gi opUser kicked =
     notify_group S now ctx gi opUser MemberKickedNotification (\<lambda>op. MemberKickedTips gi op kicked) False"

definition MemberInvitedNotification_send ::
  "'w group_server \<Rightarrow> int \<Rightarrow> rpc_ctx \<Rightarrow> string \<Rightarrow> string \<Rightarrow> string list \<Rightarrow> ('w, unit) ggo" where
  "MemberInvitedNotification_send S now ctx groupID reason invitedUserIDList =
     bindG (getGroupInfo S groupID) (\<lambda>gi.
     bindG (getGroupMembers S groupID invitedUserIDList) (\<lambda>users.
       notify_group S now ctx gi None MemberInvitedNotification (\<lambda>op. MemberInvitedTips gi op users) False))"

definition MemberEnterNotification_send :: "'w group_server \<Rightarrow> int \<Rightarrow> rpc_ctx \<Rightarrow> string \<Rightarrow> string \<Rightarrow> ('w, unit) ggo" where
  "MemberEnterNotification_send S now ctx groupID entrantUserID =
     bindG (getGroupInfo S groupID) (\<lambda>gi.
     bindG (getGroupMember S groupID entrantUserID) (\<lambda>user.
       group_notify S now ctx (ctxOpUserID ctx) (giGroupID gi) MemberEnterNotification (MemberEnterTips gi user) False))"

definition GroupDismissedNotification_send :: "'w group_server \<Rightarrow> int \<Rightarrow> rpc_ctx \<Rightarrow> GroupInfo \<Rightarrow> member_opt \<Rightarrow> ('w, unit) ggo" where
  "GroupDismissedNotification_send S now ctx gi opUser =
     notify_group S now ctx gi opUser GroupDismissedNotification (GroupDismissedTips gi) False"

text \<open>The notifications about one member, with the operator if it is a member.\<close>

definition notify_member ::
  "'w group_server \<Rightarrow> int \<Rightarrow> rpc_ctx \<Rightarrow> string \<Rightarrow> string list \<Rightarrow> string \<Rightarrow> int
   \<Rightarrow> (GroupInfo \<Rightarrow> member_opt \<Rightarrow> member_opt \<Rightarrow> group_tips) \<Rightarrow> ('w, unit) ggo" where
  "notify_member S now ctx groupID userIDs memberID contentType tips =
     bindG (getGroupInfo S groupID) (\<lambda>gi.
     bindG (getGroupMemberMap S groupID userIDs) (\<lambda>user.
       notify_group S now ctx gi (user (ctxOpUserID ctx)) contentType (\<lambda>op. tips gi op (user memberID)) False))"

definition GroupMemberMutedNotification_send ::
  "'w group_server \<Rightarrow> int \<Rightarrow> rpc_ctx \<Rightarrow> string \<Rightarrow> string \<Rightarrow> int \<Rightarrow> ('w, unit) ggo" where
  "GroupMemberMutedNotification_send S now ctx groupID memberID mutedSeconds =
     notify_member S now ctx groupID [ctxOpUserID ctx, memberID] memberID GroupMemberMutedNotification
       (\<lambda>gi op m. GroupMemberMutedTips gi mutedSeconds op m)"

definition GroupMemberCancelMutedNotification_send :: "'w group_server \<Rightarrow> int \<Rightarrow> rpc_ctx \<Rightarrow> string \<Rightarrow> string \<Rightarrow> ('w, unit) ggo" where
  "GroupMemberCancelMutedNotification_send S now ctx groupID memberID =
     notify_member S now ctx groupID [ctxOpUserID ctx, memberID] memberID GroupMemberCancelMutedNotification
       GroupMemberCancelMutedTips"

definition notify_muted :: "'w group_server \<Rightarrow> int \<Rightarrow> rpc_ctx \<Rightarrow> string \<Rightarrow> int \<Rightarrow> (GroupInfo \<Rightarrow> member_opt \<Rightarrow> group_tips) \<Rightarrow> ('w, unit) ggo" where
  "notify_muted S now ctx groupID contentType tips =
     bindG (getGroupInfo S groupID) (\<lambda>gi.
     bindG (getGroupMembers S groupID [ctxOpUserID ctx]) (\<lambda>users.
       notify_group S now ctx gi (case users of [] \<Rightarrow> None | u # _ \<Rightarrow> Some u) contentType (tips gi) False))"

definition GroupMutedNotification_send :: "'w group_server \<Rightarrow> int \<Rightarrow> rpc_ctx \<Rightarrow> string \<Rightarrow> ('w, unit) ggo" where
  "GroupMutedNotification_send S now ctx groupID = notify_muted S now ctx groupID GroupMutedNotification GroupMutedTips"

definition GroupCancelMutedNotification_send :: "'w group_server \<Rightarrow> int \<Rightarrow> rpc_ctx \<Rightarrow> string \<Rightarrow> ('w, unit) ggo" where
  "GroupCancelMutedNotification_send S now ctx groupID =
     notify_muted S now ctx groupID GroupCancelMutedNotification GroupCancelMutedTips"

definition GroupMemberInfoSetNotification_send :: "'w group_server \<Rightarrow> int \<Rightarrow> rpc_ctx \<Rightarrow> string \<Rightarrow> string \<Rightarrow> ('w, unit) ggo" where
  "GroupMemberInfoSetNotification_send S now ctx groupID memberID =
     notify_member S now ctx groupID [memberID] memberID GroupMemberInfoSetNotification GroupMemberInfoSetTips"

definition GroupMemberSetToAdminNotification_send :: "'w group_server \<Rightarrow> int \<Rightarrow> rpc_ctx \<Rightarrow> string \<Rightarrow> string \<Rightarrow> ('w, unit) ggo" where
  "GroupMemberSetToAdminNotification_send S now ctx groupID memberID =
     notify_member S now ctx groupID [ctxOpUserID ctx, memberID] memberID GroupMemberSetToAdminNotification GroupMemberInfoSetTips"

definition GroupMemberSetToOrdinaryUserNotification_send ::
  "'w group_server \<Rightarrow> int \<Rightarrow> rpc_ctx \<Rightarrow> string \<Rightarrow> string \<Rightarrow> ('w, unit) ggo" where
  "GroupMemberSetToOrdinaryUserNotification_send S now ctx groupID memberID =
     notify_member S now ctx groupID [ctxOpUserID ctx, memberID] memberID GroupMemberSetToOrdinaryUserNotification
       GroupMemberInfoSetTips"

definition SuperGroupNotification_send :: "'w group_server \<Rightarrow> int \<Rightarrow> rpc_ctx \<Rightarrow> string \<Rightarrow> string \<Rightarrow> ('w, unit) ggo" where
  "SuperGroupNotification_send S now ctx sendID recvID =
     group_notify S now ctx sendID recvID SuperGroupUpdateNotification NoGroupTips False"

end
