(* ===== verification/GroupServer.thy ===== *)
theory GroupServer
  imports GroupNotify
begin

text \<open>
  The group service, second part: its webhooks (\<open>callback.go\<close>), the update documents
  (\<open>db\_map.go\<close>) and the operations that create a group, change its members or change the
  group (\<open>group.go\<close>).  \<open>now\<close> is the clock of the request.
\<close>

section \<open>Webhooks (callback.go)\<close>

definition group_post ::
  "'w group_server \<Rightarrow> (string \<Rightarrow> go_error + 'r) \<Rightarrow> ('r \<Rightarrow> CommonCallbackResp) \<Rightarrow> group_callback \<Rightarrow> CallBackConfig
   \<Rightarrow> ('w, 'r option) ggo" where
  "group_post S decode common req cfg =
     onGroupWorld (callBackPostReturn (gvErrorText S) (gvPost S req) decode common cfg)"

definition group_callback_simple :: "'w group_server \<Rightarrow> CallBackConfig \<Rightarrow> CallBackConfig \<Rightarrow> group_callback \<Rightarrow> ('w, unit) ggo" where
  "group_callback_simple S enabled cfg req =
     (if \<not> cbcEnable enabled then retG ()
      else bindG (group_post S (gvDecode S) (\<lambda>c. c) req cfg) (\<lambda>_. retG ()))"

definition init_member_list :: "string \<Rightarrow> string list \<Rightarrow> string list \<Rightarrow> (string \<times> int) list" where
  "init_member_list owner admins members =
     (owner, GroupOwner) # map (\<lambda>u. (u, GroupAdmin)) admins @ map (\<lambda>u. (u, GroupOrdinaryUsers)) members"

definition CallbackBeforeCreateGroup ::
  "'w group_server \<Rightarrow> rpc_ctx \<Rightarrow> GroupInfo \<Rightarrow> string \<Rightarrow> string list \<Rightarrow> string list \<Rightarrow> ('w, GroupInfo) ggo" where
  "CallbackBeforeCreateGroup S ctx gi owner admins members =
     (if \<not> cbcEnable (gkBeforeCreateGroup (gvCbConfig S)) then retG gi
      else bindG (group_post S (gvDecodeCreate S) bgCommon
                    (CbBeforeCreateGroup (ctxOperationID ctx) gi (init_member_list owner admins members))
                    (gkBeforeCreateGroup (gvCbConfig S))) (\<lambda>r. case r of
          None \<Rightarrow> retG gi
        | Some resp \<Rightarrow> retG (gi\<lparr> giGroupID := NotNilReplace (giGroupID gi) (bgGroupID resp),
            giGroupName := NotNilReplace (giGroupName gi) (bgGroupName resp),
            giNotification := NotNilReplace (giNotification gi) (bgNotification resp),
            giIntroduction := NotNilReplace (giIntroduction gi) (bgIntroduction resp),
            giFaceURL := NotNilReplace (giFaceURL gi) (bgFaceURL resp),
            giOwnerUserID := NotNilReplace (giOwnerUserID gi) (bgOwnerUserID resp),
            giEx := NotNilReplace (giEx gi) (bgEx resp),
            giStatus := NotNilReplace (giStatus gi) (bgStatus resp),
            giCreatorUserID := NotNilReplace (giCreatorUserID gi) (bgCreatorUserID resp),
            giGroupType := NotNilReplace (giGroupType gi) (bgGroupType resp),
            giNeedVerification := NotNilReplace (giNeedVerification gi) (bgNeedVerification resp),
            giLookMemberInfo := NotNilReplace (giLookMemberInfo gi) (bgLookMemberInfo resp) \<rparr>)))"

definition CallbackAfterCreateGroup ::
  "'w group_server \<Rightarrow> GroupInfo \<Rightarrow> string \<Rightarrow> string list \<Rightarrow> string list \<Rightarrow> ('w, unit) ggo" where
  "CallbackAfterCreateGroup S gi owner admins members = group_callback_simple S (gkAfterCreateGroup (gvCbConfig S))
     (gkAfterCreateGroup (gvCbConfig S)) (CbAfterCreateGroup gi (init_member_list owner admins members))"

definition CallbackBeforeMemberJoinGroup :: "'w group_server \<Rightarrow> string \<Rightarrow> GroupMemberModel \<Rightarrow> ('w, GroupMemberModel) ggo" where
  "CallbackBeforeMemberJoinGroup S groupEx m =
     (if \<not> cbcEnable (gkBeforeMemberJoinGroup (gvCbConfig S)) then retG m
      else bindG (group_post S (gvDecodeJoin S) bjCommon
                    (CbBeforeMemberJoinGroup (mbGroupID m) (mbUserID m) (mbEx m) groupEx)
                    (gkBeforeMemberJoinGroup (gvCbConfig S))) (\<lambda>r. case r of
          None \<Rightarrow> retG m
        | Some resp \<Rightarrow> retG (m\<lparr> mbMuteEndTime := NotNilReplace (mbMuteEndTime m) (bjMuteEndTime resp),
            mbFaceURL := NotNilReplace (mbFaceURL m) (bjFaceURL resp),
            mbEx := NotNilReplace (mbEx m) (bjEx resp),
            mbNickname := NotNilReplace (mbNickname m) (bjNickname resp),
            mbRoleLevel := NotNilReplace (mbRoleLevel m) (bjRoleLevel resp) \<rparr>)))"

definition or_else :: "'a option \<Rightarrow> 'a option \<Rightarrow> 'a option" where
  "or_else old v = (case v of None \<Rightarrow> old | Some x \<Rightarrow> Some x)"

definition CallbackBeforeSetGroupMemberInfo :: "'w group_server \<Rightarrow> SetGroupMemberInfo \<Rightarrow> ('w, SetGroupMemberInfo) ggo" where
  "CallbackBeforeSetGroupMemberInfo S req =
     (if \<not> cbcEnable (gkBeforeSetGroupMemberInfo (gvCbConfig S)) then retG req
      else bindG (group_post S (gvDecodeMember S) bsCommon (CbBeforeSetGroupMemberInfo req)
                    (gkBeforeSetGroupMemberInfo (gvCbConfig S))) (\<lambda>r. case r of
          None \<Rightarrow> retG req
        | Some resp \<Rightarrow> retG (req\<lparr> smFaceURL := or_else (smFaceURL req) (bsFaceURL resp),
            smNickname := or_else (smNickname req) (bsNickname resp),
            smRoleLevel := or_else (smRoleLevel req) (bsRoleLevel resp),
            smEx := or_else (smEx req) (bsEx resp) \<rparr>)))"

text \<open>The switch of the webhook before decides.\<close>

definition CallbackAfterSetGroupMemberInfo :: "'w group_server \<Rightarrow> SetGroupMemberInfo \<Rightarrow> ('w, unit) ggo" where
  "CallbackAfterSetGroupMemberInfo S req = group_callback_simple S (gkBeforeSetGroupMemberInfo (gvCbConfig S))
     (gkAfterSetGroupMemberInfo (gvCbConfig S)) (CbAfterSetGroupMemberInfo req)"

definition CallbackQuitGroup :: "'w group_server \<Rightarrow> string \<Rightarrow> string \<Rightarrow> ('w, unit) ggo" where
  "CallbackQuitGroup S groupID userID = group_callback_simple S (gkQuitGroup (gvCbConfig S))
     (gkQuitGroup (gvCbConfig S)) (CbQuitGroup groupID userID)"

definition CallbackKillGroupMember :: "'w group_server \<Rightarrow> string \<Rightarrow> string list \<Rightarrow> ('w, unit) ggo" where
  "CallbackKillGroupMember S groupID kickedUserIDs = group_callback_simple S (gkKillGroupMember (gvCbConfig S))
     (gkQuitGroup (gvCbConfig S)) (CbKillGroupMember groupID kickedUserIDs)"

definition CallbackDismissGroup :: "'w group_server \<Rightarrow> string \<Rightarrow> string \<Rightarrow> string \<Rightarrow> string list \<Rightarrow> ('w, unit) ggo" where
  "CallbackDismissGroup S groupID ownerID groupType membersID = group_callback_simple S (gkDismissGroup (gvCbConfig S))
     (gkQuitGroup (gvCbConfig S)) (CbDismissGroup groupID ownerID groupType membersID)"

definition CallbackApplyJoinGroupBefore ::
  "'w group_server \<Rightarrow> string \<Rightarrow> string \<Rightarrow> string \<Rightarrow> string \<Rightarrow> string \<Rightarrow> ('w, unit) ggo" where
  "CallbackApplyJoinGroupBefore S groupID groupType applyID reqMessage ex =
     group_callback_simple S (gkBeforeJoinGroup (gvCbConfig S)) (gkBeforeJoinGroup (gvCbConfig S))
       (CbBeforeJoinGroup groupID groupType applyID reqMessage ex)"

definition CallbackTransferGroupOwnerAfter :: "'w group_server \<Rightarrow> string \<Rightarrow> string \<Rightarrow> string \<Rightarrow> ('w, unit) ggo" where
  "CallbackTransferGroupOwnerAfter S groupID oldOwner newOwner =
     group_callback_simple S (gkTransferGroupOwnerAfter (gvCbConfig S)) (gkBeforeJoinGroup (gvCbConfig S))
       (CbTransferGroupOwnerAfter groupID oldOwner newOwner)"

definition CallbackBeforeInviteUserToGroup :: "'w group_server \<Rightarrow> rpc_ctx \<Rightarrow> string \<Rightarrow> string \<Rightarrow> string list \<Rightarrow> ('w, unit) ggo" where
  "CallbackBeforeInviteUserToGroup S ctx groupID reason invited =
     group_callback_simple S (gkBeforeInviteUserToGroup (gvCbConfig S)) (gkBeforeInviteUserToGroup (gvCbConfig S))
       (CbBeforeInviteUserToGroup (ctxOperationID ctx) groupID reason invited)"

definition CallbackAfterJoinGroup :: "'w group_server \<Rightarrow> rpc_ctx \<Rightarrow> JoinGroupReq \<Rightarrow> ('w, unit) ggo" where
  "CallbackAfterJoinGroup S ctx req = group_callback_simple S (gkAfterJoinGroup (gvCbConfig S))
     (gkAfterJoinGroup (gvCbConfig S)) (CbAfterJoinGroup (ctxOperationID ctx) req)"

text \<open>An unset value is sent as the zero of its type.\<close>

definition zero_unset :: "GroupInfoForSet \<Rightarrow> GroupInfoForSet" where
  "zero_unset f = f\<lparr> fsEx := Some (NotNilReplace [] (fsEx f)), fsNeedVerification := Some (NotNilReplace 0 (fsNeedVerification f)),
     fsLookMemberInfo := Some (NotNilReplace 0 (fsLookMemberInfo f)),
     fsApplyMemberFriend := Some (NotNilReplace 0 (fsApplyMemberFriend f)) \<rparr>"

text \<open>The answer always replaces the identifier, the name, the picture and the introduction.\<close>

definition CallbackBeforeSetGroupInfo :: "'w group_server \<Rightarrow> GroupInfoForSet \<Rightarrow> ('w, GroupInfoForSet) ggo" where
  "CallbackBeforeSetGroupInfo S req =
     (if \<not> cbcEnable (gkBeforeSetGroupInfo (gvCbConfig S)) then retG req
      else bindG (group_post S (gvDecodeGroup S) biCommon (CbBeforeSetGroupInfo (zero_unset req))
                    (gkBeforeSetGroupInfo (gvCbConfig S))) (\<lambda>r. case r of
          None \<Rightarrow> retG (req\<lparr> fsGroupID := [], fsGroupName := [], fsFaceURL := [], fsIntroduction := [] \<rparr>)
        | Some resp \<Rightarrow> retG (req\<lparr> fsEx := or_else (fsEx req) (biREx resp),
            fsNeedVerification := or_else (fsNeedVerification req) (biNeedVerification resp),
            fsLookMemberInfo := or_else (fsLookMemberInfo req) (biLookMemberInfo resp),
            fsApplyMemberFriend := or_else (fsApplyMemberFriend req) (biApplyMemberFriend resp),
            fsGroupID := biGroupID resp, fsGroupName := biGroupName resp, fsFaceURL := biFaceURL resp,
            fsIntroduction := biIntroduction resp \<rparr>)))"

definition CallbackAfterSetGroupInfo :: "'w group_server \<Rightarrow> GroupInfoForSet \<Rightarrow> ('w, unit) ggo" where
  "CallbackAfterSetGroupInfo S req = group_callback_simple S (gkAfterSetGroupInfo (gvCbConfig S))
     (gkAfterSetGroupInfo (gvCbConfig S)) (CbAfterSetGroupInfo req)"

section \<open>Update documents (db\_map.go)\<close>

definition UpdateGroupInfoMap :: "int \<Rightarrow> rpc_ctx \<Rightarrow> GroupInfoForSet \<Rightarrow> group_field list" where
  "UpdateGroupInfoMap now ctx g =
     (if fsGroupName g \<noteq> [] then [GfGroupName (fsGroupName g)] else [])
     @ (if fsNotification g \<noteq> []
        then [GfNotification (if fsNotification g = ''notification'' then [] else fsNotification g),
              GfNotificationUpdateTime now, GfNotificationUserID (ctxOpUserID ctx)] else [])
     @ (if fsIntroduction g \<noteq> [] then [GfIntroduction (fsIntroduction g)] else [])
     @ (if fsFaceURL g \<noteq> [] then [GfFaceURL (fsFaceURL g)] else [])
     @ map GfNeedVerification (case fsNeedVerification g of None \<Rightarrow> [] | Some v \<Rightarrow> [v])
     @ map GfLookMemberInfo (case fsLookMemberInfo g of None \<Rightarrow> [] | Some v \<Rightarrow> [v])
     @ map GfApplyMemberFriend (case fsApplyMemberFriend g of None \<Rightarrow> [] | Some v \<Rightarrow> [v])
     @ map GfEx (case fsEx g of None \<Rightarrow> [] | Some v \<Rightarrow> [v])"

definition UpdateGroupStatusMap :: "int \<Rightarrow> group_field list" where
  "UpdateGroupStatusMap status = [GfStatus status]"

definition UpdateGroupMemberMutedTimeMap :: "int \<Rightarrow> member_field list" where
  "UpdateGroupMemberMutedTimeMap t = [MfMuteEndTime t]"

definition UpdateGroupMemberMap :: "SetGroupMemberInfo \<Rightarrow> member_field list" where
  "UpdateGroupMemberMap req =
     map MfNickname (case smNickname req of None \<Rightarrow> [] | Some v \<Rightarrow> [v])
     @ map MfUserGroupFaceURL (case smFaceURL req of None \<Rightarrow> [] | Some v \<Rightarrow> [v])
     @ map MfRoleLevel (case smRoleLevel req of None \<Rightarrow> [] | Some v \<Rightarrow> [v])
     @ map MfEx (case smEx req of None \<Rightarrow> [] | Some v \<Rightarrow> [v])"

section \<open>Helpers\<close>

text \<open>Go's \<open>string(rune)\<close>: the UTF-8 bytes of a code point.\<close>

definition rune_text :: "int \<Rightarrow> string" where
  "rune_text r = map (char_of :: int \<Rightarrow> char)
     (if r < 0 \<or> r > 1114111 \<or> (55296 \<le> r \<and> r \<le> 57343) then [239, 191, 189]
      else if r < 128 then [r]
      else if r < 2048 then [192 + r div 64, 128 + r mod 64]
      else if r < 65536 then [224 + r div 4096, 128 + r div 64 mod 64, 128 + r mod 64]
      else [240 + r div 262144, 128 + r div 4096 mod 64, 128 + r div 64 mod 64, 128 + r mod 64])"

definition is_admin_role :: "int \<Rightarrow> bool" where
  "is_admin_role r = (r = GroupOwner \<or> r = GroupAdmin)"

definition groupServer_PopulateGroupMember :: "'w group_server \<Rightarrow> GroupMemberModel list \<Rightarrow> ('w, GroupMemberModel list) ggo" where
  "groupServer_PopulateGroupMember S members = GroupNotificationSender_PopulateGroupMember S members"

definition groupServer_PopulateGroupMemberWaitGroup ::
  "'w group_server \<Rightarrow> GroupMemberModel list \<Rightarrow> ('w, GroupMemberModel list) ggo" where
  "groupServer_PopulateGroupMemberWaitGroup S members = GroupNotificationSender_PopulateGroupMemberWaitGroup S members"

text \<open>For one member, which the code passes by itself.\<close>

definition populate_one :: "'w group_server \<Rightarrow> GroupMemberModel \<Rightarrow> ('w, GroupMemberModel) ggo" where
  "populate_one S m = bindG (groupServer_PopulateGroupMember S [m]) first_of"

definition app_manager :: "'w group_server \<Rightarrow> rpc_ctx \<Rightarrow> bool" where
  "app_manager S ctx = IsAppManagerUid (gvAuthCfg S) (ctxOpUserID ctx)"

definition group_access :: "'w group_server \<Rightarrow> rpc_ctx \<Rightarrow> string \<Rightarrow> ('w, unit) ggo" where
  "group_access S ctx userID = errG (CheckAccessV3 (gvAuthCfg S) (ctxOpUserID ctx) userID)"

definition groupServer_CheckGroupAdmin :: "'w group_server \<Rightarrow> rpc_ctx \<Rightarrow> string \<Rightarrow> ('w, unit) ggo" where
  "groupServer_CheckGroupAdmin S ctx groupID =
     (if \<not> app_manager S ctx
      then bindG (groupDatabase_TakeGroupMember (gvDB S) groupID (ctxOpUserID ctx)) (\<lambda>m.
             if \<not> is_admin_role (mbRoleLevel m) then failG (Wrap1m ErrNoPermission ''no group owner or admin'') else retG ())
      else retG ())"

definition groupServer_GetPublicUserInfoMap :: "'w group_server \<Rightarrow> string list \<Rightarrow> ('w, string \<rightharpoonup> PublicUserInfo) ggo" where
  "groupServer_GetPublicUserInfoMap S userIDs =
     (if length userIDs = 0 then retG Map.empty
      else bindG (onGroupWorld (GetPublicUserInfos (gvUser S) userIDs)) (\<lambda>users.
             retG (SliceToMapAny users (\<lambda>e. (puUserID e, e)))))"

definition groupServer_IsNotFound :: "go_error \<Rightarrow> bool" where
  "groupServer_IsNotFound err = err_not_found err"

section \<open>Creating a group\<close>

text \<open>The two Chinese messages: please enter the name, the picture of the group.\<close>

definition enter_name_text :: string where
  "enter_name_text =
    [CHR 0xE8, CHR 0xAF, CHR 0xB7, CHR 0xE8, CHR 0xBE, CHR 0x93, CHR 0xE5, CHR 0x85, CHR 0xA5,
     CHR 0xE7, CHR 0xBE, CHR 0xA4, CHR 0xE5, CHR 0x90, CHR 0x8D, CHR 0xE7, CHR 0xA7, CHR 0xB0]"

definition enter_face_text :: string where
  "enter_face_text =
    [CHR 0xE8, CHR 0xAF, CHR 0xB7, CHR 0xE8, CHR 0xBE, CHR 0x93, CHR 0xE5, CHR 0x85, CHR 0xA5,
     CHR 0xE7, CHR 0xBE, CHR 0xA4, CHR 0xE5, CHR 0xA4, CHR 0xB4, CHR 0xE5, CHR 0x83, CHR 0x8F]"

definition new_group_id :: "'w group_server \<Rightarrow> rpc_ctx \<Rightarrow> string \<Rightarrow> string \<Rightarrow> string" where
  "new_group_id S ctx nano rand = itoa (hex_value (take 8 (gvMd5 S (join_str '',;,'' [ctxOperationID ctx, nano, rand]))))"

fun gen_group_id_loop :: "nat \<Rightarrow> 'w group_server \<Rightarrow> rpc_ctx \<Rightarrow> ('w, string) ggo" where
  "gen_group_id_loop 0 S ctx = failG (Wrap1m ErrData ''group id gen error'')"
| "gen_group_id_loop (Suc n) S ctx =
     bindG (onGroupWorld (gvSeed S)) (\<lambda>(nano, rand).
       let id' = new_group_id S ctx nano rand in
     bindG (attemptG (groupDatabase_TakeGroup (gvDB S) id')) (\<lambda>r. case r of
         Inr _ \<Rightarrow> gen_group_id_loop n S ctx
       | Inl err \<Rightarrow> if groupServer_IsNotFound err then retG id' else failG err))"

definition groupServer_GenGroupID :: "'w group_server \<Rightarrow> rpc_ctx \<Rightarrow> string \<Rightarrow> ('w, string) ggo" where
  "groupServer_GenGroupID S ctx groupID =
     (if groupID \<noteq> []
      then bindG (attemptG (groupDatabase_TakeGroup (gvDB S) groupID)) (\<lambda>r. case r of
             Inr _ \<Rightarrow> failG (Wrap1m ErrGroupIDExisted (''group id existed '' @ groupID))
           | Inl err \<Rightarrow> if groupServer_IsNotFound err then retG groupID else failG err)
      else gen_group_id_loop 10 S ctx)"

definition new_member :: "int \<Rightarrow> string \<Rightarrow> string \<Rightarrow> int \<Rightarrow> string \<Rightarrow> string \<Rightarrow> int \<Rightarrow> GroupMemberModel" where
  "new_member now groupID userID roleLevel operator inviter joinSource = \<lparr> mbGroupID = groupID, mbUserID = userID,
     mbNickname = [], mbFaceURL = [], mbRoleLevel = roleLevel, mbJoinTime = now, mbJoinSource = joinSource,
     mbInviterUserID = inviter, mbOperatorUserID = operator, mbMuteEndTime = 0, mbEx = [] \<rparr>"

text \<open>
  The list of the notification, which stops after the member that created the group; the members so
  far get the nickname of their user.
\<close>

fun creation_members ::
  "string \<Rightarrow> (string \<rightharpoonup> UserInfo) \<Rightarrow> GroupMemberModel list
   \<Rightarrow> ('s, GroupMemberModel list \<times> GroupMemberFullInfo list \<times> member_opt) go" where
  "creation_members op userMap [] = retG ([], [], None)"
| "creation_members op userMap (m # ms) =
     bindG (nil_deref (userMap (mbUserID m))) (\<lambda>u.
       let m' = m\<lparr> mbNickname := uNickname u \<rparr>; pb = groupServer_groupMemberDB2PB m' (uAppMangerLevel u) in
       if mbUserID m = op then retG (m' # ms, [pb], Some pb)
       else bindG (creation_members op userMap ms) (\<lambda>(rs, pbs, opUser). retG (m' # rs, pb # pbs, opUser)))"

definition announce_group ::
  "'w group_server \<Rightarrow> int \<Rightarrow> rpc_ctx \<Rightarrow> int \<Rightarrow> string list \<Rightarrow> (string \<rightharpoonup> UserInfo) \<Rightarrow> GroupInfo \<Rightarrow> GroupMemberModel list \<Rightarrow> ('w, unit) ggo" where
  "announce_group S now ctx groupType userIDs userMap info members =
     bindG (creation_members (ctxOpUserID ctx) userMap members) (\<lambda>(ms1, _, _).
       if groupType = SuperGroup
       then forG userIDs (\<lambda>u. ignoreG (SuperGroupNotification_send S now ctx u u))
       else bindG (first_of ms1) (\<lambda>owner.
            bindG (nil_deref (userMap (mbUserID owner))) (\<lambda>ou.
            bindG (creation_members (ctxOpUserID ctx) userMap ms1) (\<lambda>(_, memberList, opUser).
              ignoreG (GroupCreatedNotification_send S now ctx info (giCreateTime info)
                (groupServer_groupMemberDB2PB owner (uAppMangerLevel ou)) memberList opUser)))))"

definition groupServer_CreateGroup ::
  "'w group_server \<Rightarrow> int \<Rightarrow> rpc_ctx \<Rightarrow> GroupInfo \<Rightarrow> string \<Rightarrow> string list \<Rightarrow> string list \<Rightarrow> ('w, GroupInfo) ggo" where
  "groupServer_CreateGroup S now ctx gi0 owner admins members =
     (if giGroupType gi0 \<noteq> WorkingGroup then failG (Wrap1m ErrArgs (''group type only supports '' @ itoa WorkingGroup))
      else if giGroupName gi0 = [] then failG (Plain enter_name_text)
      else if giFaceURL gi0 = [] then failG (Plain enter_face_text)
      else if owner = [] then failG (Wrap1m ErrArgs ''no group owner'')
      else
        bindG (group_access S ctx owner) (\<lambda>_.
          let opUserID = ctxOpUserID ctx;
              invited = (members @ admins) @ [owner];
              userIDs = (if \<not> Contain opUserID invited then invited @ [opUserID] else invited) in
        if Duplicate userIDs then failG (Wrap1m ErrArgs ''group member repeated'')
        else
        bindG (onGroupWorld (GetUsersInfoMap (gvUser S) userIDs)) (\<lambda>userMap.
        if card (dom userMap) \<noteq> length userIDs then failG (Wrap1m ErrUserIDNotFound ''user not found'')
        else
        bindG (CallbackBeforeCreateGroup S ctx gi0 owner admins members) (\<lambda>gi1.
          let gi = gi1\<lparr> giNeedVerification := 2 \<rparr>; g0 = Pb2DBGroupInfo now gi in
        bindG (groupServer_GenGroupID S ctx (gmdGroupID g0)) (\<lambda>groupID.
          let g = g0\<lparr> gmdGroupID := groupID \<rparr> in
        bindG (mapG (\<lambda>(userID, roleLevel). CallbackBeforeMemberJoinGroup S (gmdEx g)
                       (new_member now groupID userID roleLevel opUserID opUserID JoinByInvitation))
                 (init_member_list owner admins members)) (\<lambda>groupMembers.
        bindG (groupDatabase_CreateGroup (gvDB S) [g] groupMembers) (\<lambda>_.
          let info = Db2PbGroupInfo g owner (uint32 (int (length userIDs))) in
        bindG (announce_group S now ctx (giGroupType gi) userIDs userMap info groupMembers) (\<lambda>_.
        bindG (CallbackAfterCreateGroup S info owner admins userIDs) (\<lambda>_. retG info)))))))))"

section \<open>Joining\<close>

definition group_conversation :: "string \<Rightarrow> string" where
  "group_conversation groupID = ''sg_'' @ groupID"

text \<open>An error of the cache counts as no message.\<close>

definition next_seq :: "'w group_server \<Rightarrow> string \<Rightarrow> ('w, int) ggo" where
  "next_seq S conversationId = bindG (attemptG (onGroupWorld (GetMaxSeq (gvRdb S) conversationId))) (\<lambda>r.
       retG (add64 (case r of Inl _ \<Rightarrow> 0 | Inr maxSeq \<Rightarrow> maxSeq) 1))"

definition ask_to_join ::
  "'w group_server \<Rightarrow> int \<Rightarrow> rpc_ctx \<Rightarrow> string \<Rightarrow> string \<Rightarrow> int \<Rightarrow> string list \<Rightarrow> ('w, unit) ggo" where
  "ask_to_join S now ctx groupID opUserID maxSeq invited =
     (let conversationId = group_conversation groupID;
          requests = map (\<lambda>u. \<lparr> grUserID = u, grGroupID = groupID, grHandleResult = 0, grReqMsg = [], grHandledMsg = [],
             grReqTime = now, grHandleUserID = [], grHandledTime = 0, grJoinSource = JoinByInvitation,
             grInviterUserID = opUserID, grEx = [] \<rparr>) invited in
      bindG (groupDatabase_CreateGroupRequest (gvDB S) requests) (\<lambda>_.
      bindG (ignoreG (onGroupWorld (SetConversationUserMinSeqs (gvRdb S) (gvOrd S) conversationId
               (map_of (map (\<lambda>u. (u, maxSeq)) invited))))) (\<lambda>_.
      bindG (ignoreG (onGroupWorld (MessageRpcClient_ReadSeqs (gvMsg S) (map (\<lambda>u. (maxSeq, conversationId, u)) invited)))) (\<lambda>_.
        forG requests (\<lambda>r. ignoreG (JoinGroupApplicationNotification_send S now ctx
          \<lparr> jrGroupID = grGroupID r, jrReqMessage = grReqMsg r, jrJoinSource = grJoinSource r,
            jrInviterUserID = grInviterUserID r, jrEx = [] \<rparr>))))))"

definition add_invited ::
  "'w group_server \<Rightarrow> int \<Rightarrow> rpc_ctx \<Rightarrow> GroupModel \<Rightarrow> string \<Rightarrow> string \<Rightarrow> string \<Rightarrow> int \<Rightarrow> string list \<Rightarrow> ('w, unit) ggo" where
  "add_invited S now ctx g groupID reason opUserID maxSeq invited =
     (let conversationId = group_conversation groupID in
      bindG (mapG (\<lambda>u. CallbackBeforeMemberJoinGroup S (gmdEx g)
                     (new_member now groupID u GroupOrdinaryUsers opUserID opUserID JoinByInvitation)) invited) (\<lambda>groupMembers.
      bindG (groupDatabase_CreateGroup (gvDB S) [] groupMembers) (\<lambda>_.
      bindG (onGroupWorld (ConversationRpcClient_GroupChatFirstCreateConversation (gvConv S) groupID invited)) (\<lambda>_.
      bindG (ignoreG (onGroupWorld (SetConversationUserMinSeqs (gvRdb S) (gvOrd S) conversationId
               (map_of (map (\<lambda>u. (u, maxSeq)) invited))))) (\<lambda>_.
      bindG (ignoreG (onGroupWorld (MessageRpcClient_ReadSeqs (gvMsg S) (map (\<lambda>u. (maxSeq, conversationId, u)) invited)))) (\<lambda>_.
        ignoreG (MemberInvitedNotification_send S now ctx groupID reason invited)))))))"

definition groupServer_InviteUserToGroup ::
  "'w group_server \<Rightarrow> int \<Rightarrow> rpc_ctx \<Rightarrow> string \<Rightarrow> string \<Rightarrow> string list \<Rightarrow> string \<Rightarrow> ('w, unit) ggo" where
  "groupServer_InviteUserToGroup S now ctx groupID reason invited ex =
     (if length invited = 0 then failG (Wrap1m ErrArgs ''user empty'')
      else if Duplicate invited then failG (Wrap1m ErrArgs ''userID duplicate'')
      else
        bindG (groupDatabase_TakeGroup (gvDB S) groupID) (\<lambda>g.
        if gmdStatus g = GroupStatusDismissed then failG (codeError_Wrap ErrDismissedAlready [])
        else
        bindG (onGroupWorld (GetUsersInfoMap (gvUser S) invited)) (\<lambda>userMap.
        if card (dom userMap) \<noteq> length invited then failG (Wrap1m ErrRecordNotFound ''user not found'')
        else
          let adminAuth = app_manager S ctx; userAuth = fst (VerifyRights (gvJson S) ex) in
        bindG (if \<not> adminAuth \<and> userAuth < 0
               then bindG (groupDatabase_TakeGroupMember (gvDB S) groupID (ctxOpUserID ctx)) (\<lambda>m.
                    bindG (populate_one S m) (\<lambda>m'. retG (ctxOpUserID ctx, Some m')))
               else retG ([], None)) (\<lambda>(opUserID, groupMember).
        bindG (CallbackBeforeInviteUserToGroup S ctx groupID reason invited) (\<lambda>_.
        bindG (next_seq S (group_conversation groupID)) (\<lambda>maxSeq.
        bindG (if gmdNeedVerification g = AllNeedVerification \<and> \<not> adminAuth \<and> userAuth < 0
               then bindG (nil_deref groupMember) (\<lambda>m. retG (\<not> is_admin_role (mbRoleLevel m)))
               else retG False) (\<lambda>ask.
        if ask then ask_to_join S now ctx groupID opUserID maxSeq invited
        else add_invited S now ctx g groupID reason opUserID maxSeq invited)))))))"

definition groupServer_JoinGroup :: "'w group_server \<Rightarrow> int \<Rightarrow> rpc_ctx \<Rightarrow> JoinGroupReq \<Rightarrow> ('w, unit) ggo" where
  "groupServer_JoinGroup S now ctx req =
     bindG (onGroupWorld (GetUserInfo (gvUser S) (jrInviterUserID req))) (\<lambda>user.
     bindG (groupDatabase_TakeGroup (gvDB S) (jrGroupID req)) (\<lambda>g.
     if gmdStatus g = GroupStatusDismissed then failG (codeError_Wrap ErrDismissedAlready [])
     else
     bindG (CallbackApplyJoinGroupBefore S (jrGroupID req) (rune_text (gmdGroupType g)) (jrInviterUserID req)
              (jrReqMessage req) (jrEx req)) (\<lambda>_.
     bindG (attemptG (groupDatabase_TakeGroupMember (gvDB S) (jrGroupID req) (jrInviterUserID req))) (\<lambda>r. case r of
         Inr _ \<Rightarrow> failG (Wrap1m ErrArgs ''already in group'')
       | Inl err \<Rightarrow>
           if \<not> groupServer_IsNotFound err \<and> Unwrap err \<noteq> ErrRecordNotFound then failG err
           else
             let auth = fst (VerifyRights (gvJson S) (jrEx req)); conversationId = group_conversation (gmdGroupID g) in
             bindG (next_seq S conversationId) (\<lambda>maxSeq.
               let read = ignoreG (onGroupWorld (MessageRpcClient_ReadSeqs (gvMsg S) [(maxSeq, conversationId, uUserID user)]));
                   setMin = ignoreG (onGroupWorld (SetConversationUserMinSeq (gvRdb S) conversationId (uUserID user) maxSeq)) in
             if gmdNeedVerification g = Directly \<or> auth > 0
             then bindG (CallbackBeforeMemberJoinGroup S (gmdEx g) (new_member now (gmdGroupID g) (uUserID user)
                           GroupOrdinaryUsers (ctxOpUserID ctx) (jrInviterUserID req) (jrJoinSource req))) (\<lambda>m.
                  bindG (groupDatabase_CreateGroup (gvDB S) [] [m]) (\<lambda>_.
                  bindG (onGroupWorld (ConversationRpcClient_GroupChatFirstCreateConversation (gvConv S) (jrGroupID req)
                           [jrInviterUserID req])) (\<lambda>_.
                  bindG read (\<lambda>_.
                  bindG setMin (\<lambda>_.
                  bindG (ignoreG (MemberEnterNotification_send S now ctx (jrGroupID req) (jrInviterUserID req))) (\<lambda>_.
                    CallbackAfterJoinGroup S ctx req))))))
             else bindG (groupDatabase_CreateGroupRequest (gvDB S) [\<lparr> grUserID = jrInviterUserID req,
                           grGroupID = jrGroupID req, grHandleResult = 0, grReqMsg = jrReqMessage req, grHandledMsg = [],
                           grReqTime = now, grHandleUserID = [], grHandledTime = 0, grJoinSource = jrJoinSource req,
                           grInviterUserID = [], grEx = jrEx req \<rparr>]) (\<lambda>_.
                  bindG read (\<lambda>_.
                  bindG setMin (\<lambda>_.
                    ignoreG (JoinGroupApplicationNotification_send S now ctx req)))))))))"

definition groupServer_GroupApplicationResponse ::
  "'w group_server \<Rightarrow> int \<Rightarrow> rpc_ctx \<Rightarrow> GroupApplicationResponseReq \<Rightarrow> ('w, unit) ggo" where
  "groupServer_GroupApplicationResponse S now ctx req =
     (let groupID = arGroupID req; fromUserID = arFromUserID req in
      if \<not> Contain (arHandleResult req) [GroupResponseAgree, GroupResponseRefuse]
      then failG (Wrap1m ErrArgs ''HandleResult unknown'')
      else
        bindG (groupServer_CheckGroupAdmin S ctx groupID) (\<lambda>_.
        bindG (groupDatabase_TakeGroup (gvDB S) groupID) (\<lambda>g.
        bindG (groupDatabase_TakeGroupRequest (gvDB S) groupID fromUserID) (\<lambda>groupRequest.
        if grHandleResult groupRequest \<noteq> 0
        then failG (Wrap1m ErrGroupRequestHandled ''group request already processed'')
        else
        bindG (bindG (attemptG (groupDatabase_TakeGroupMember (gvDB S) groupID fromUserID)) (\<lambda>r. case r of
                   Inr _ \<Rightarrow> retG True
                 | Inl err \<Rightarrow> if \<not> groupServer_IsNotFound err then failG err else retG False)) (\<lambda>inGroup.
        bindG (onGroupWorld (GetPublicUserInfo (gvUser S) fromUserID)) (\<lambda>_.
        bindG (if \<not> inGroup \<and> arHandleResult req = GroupResponseAgree
               then bindG (CallbackBeforeMemberJoinGroup S (gmdEx g)
                             ((new_member now groupID fromUserID GroupOrdinaryUsers (ctxOpUserID ctx)
                                (grInviterUserID groupRequest) (grJoinSource groupRequest))\<lparr> mbEx := grEx groupRequest \<rparr>))
                      (\<lambda>m. retG (Some m))
               else retG None) (\<lambda>member.
        bindG (groupDatabase_HandlerGroupRequest (gvDB S) groupID fromUserID (arHandledMsg req) (arHandleResult req) member) (\<lambda>_.
        if arHandleResult req = GroupResponseAgree
        then bindG (onGroupWorld (ConversationRpcClient_GroupChatFirstCreateConversation (gvConv S) groupID [fromUserID])) (\<lambda>_.
             bindG (ignoreG (GroupApplicationAcceptedNotification_send S now ctx req)) (\<lambda>_.
               case member of None \<Rightarrow> retG ()
               | Some _ \<Rightarrow> ignoreG (MemberEnterNotification_send S now ctx groupID fromUserID)))
        else if arHandleResult req = GroupResponseRefuse
        then ignoreG (GroupApplicationRejectedNotification_send S now ctx req)
        else retG ()))))))))"

section \<open>Leaving\<close>

definition groupServer_deleteMemberAndSetConversationSeq :: "'w group_server \<Rightarrow> string \<Rightarrow> string list \<Rightarrow> ('w, unit) ggo" where
  "groupServer_deleteMemberAndSetConversationSeq S groupID userIDs =
     (let conversationID = GetConversationIDBySessionType SuperGroupChatType [groupID] in
      bindG (onGroupWorld (MessageRpcClient_GetConversationMaxSeq (gvMsg S) conversationID)) (\<lambda>maxSeq.
        onGroupWorld (ConversationRpcClient_SetConversationMaxSeq (gvConv S) userIDs conversationID maxSeq)))"

text \<open>The permission to remove one member; \<open>None\<close> is the permission.\<close>

definition kick_check :: "bool \<Rightarrow> GroupMemberModel option \<Rightarrow> string \<Rightarrow> GroupMemberModel option \<Rightarrow> go_error option" where
  "kick_check isManager opMember userID member = (case member of
       None \<Rightarrow> Some (Wrap1m ErrUserIDNotFound userID)
     | Some m \<Rightarrow>
         if isManager then None
         else case opMember of
             None \<Rightarrow> Some (Wrap1m ErrNoPermission ''opUserID no in group'')
           | Some o' \<Rightarrow>
               if mbRoleLevel o' = GroupOwner then None
               else if mbRoleLevel o' = GroupAdmin
               then if is_admin_role (mbRoleLevel m)
                    then Some (Wrap1m ErrNoPermission ''group admins cannot remove the group owner and other admins'')
                    else None
               else if mbRoleLevel o' = GroupOrdinaryUsers then Some (Wrap1m ErrNoPermission ''opUserID no permission'')
               else Some (Wrap1m ErrNoPermission ''opUserID roleLevel unknown''))"

definition groupServer_KickGroupMember ::
  "'w group_server \<Rightarrow> int \<Rightarrow> rpc_ctx \<Rightarrow> string \<Rightarrow> string list \<Rightarrow> ('w, unit) ggo" where
  "groupServer_KickGroupMember S now ctx groupID kicked =
     bindG (groupDatabase_TakeGroup (gvDB S) groupID) (\<lambda>g.
     if length kicked = 0 then failG (Wrap1m ErrArgs ''KickedUserIDs empty'')
     else if IsDuplicateStringSlice kicked then failG (Wrap1m ErrArgs ''KickedUserIDs duplicate'')
     else if IsContain (ctxOpUserID ctx) kicked then failG (Wrap1m ErrArgs ''opUserID in KickedUserIDs'')
     else
       let opUserID = ctxOpUserID ctx in
     bindG (groupDatabase_FindGroupMembers (gvDB S) groupID (kicked @ [opUserID])) (\<lambda>members0.
     bindG (groupServer_PopulateGroupMember S members0) (\<lambda>members.
       let memberMap = SliceToMap members mbUserID in
     bindG (forG kicked (\<lambda>u. errG (kick_check (app_manager S ctx) (memberMap opUserID) u (memberMap u)))) (\<lambda>_.
     bindG (groupDatabase_FindGroupMemberNum (gvDB S) groupID) (\<lambda>num.
     bindG (groupDatabase_GetGroupRoleLevelMemberIDs (gvDB S) groupID GroupOwner) (\<lambda>ownerUserIDs.
     bindG (groupDatabase_DeleteGroupMember (gvDB S) (gmdGroupID g) kicked) (\<lambda>_.
     bindG (ignoreG (MemberKickedNotification_send S now ctx
              (groupServer_groupDB2PB g (case ownerUserIDs of [] \<Rightarrow> [] | u # _ \<Rightarrow> u) num)
              (map_option Db2PbGroupMember (memberMap opUserID))
              (map (\<lambda>u. Db2PbGroupMember (the (memberMap u))) kicked))) (\<lambda>_.
     bindG (groupServer_deleteMemberAndSetConversationSeq S groupID kicked) (\<lambda>_.
       CallbackKillGroupMember S groupID kicked)))))))))"

definition groupServer_QuitGroup :: "'w group_server \<Rightarrow> int \<Rightarrow> rpc_ctx \<Rightarrow> string \<Rightarrow> string \<Rightarrow> ('w, unit) ggo" where
  "groupServer_QuitGroup S now ctx groupID userID0 =
     bindG (if userID0 = [] then retG (ctxOpUserID ctx)
            else bindG (group_access S ctx userID0) (\<lambda>_. retG userID0)) (\<lambda>userID.
     bindG (groupDatabase_TakeGroupMember (gvDB S) groupID userID) (\<lambda>m0.
     if mbRoleLevel m0 = GroupOwner then failG (Wrap1m ErrNoPermission (''group owner can'' @ CHR 0x27 # ''t quit''))
     else
     bindG (populate_one S m0) (\<lambda>m.
     bindG (groupDatabase_DeleteGroupMember (gvDB S) groupID [userID]) (\<lambda>_.
     bindG (ignoreG (MemberQuitNotification_send S now ctx (groupServer_groupMemberDB2PB m 0))) (\<lambda>_.
     bindG (groupServer_deleteMemberAndSetConversationSeq S groupID [userID]) (\<lambda>_.
       CallbackQuitGroup S groupID userID))))))"

end
