(* ===== verification/GroupOps.thy ===== *)
theory GroupOps
  imports GroupServer
begin

text \<open>
  The group service, third part: the operations that change a group or the state of its members
  (\<open>group.go\<close>), and the queries (\<open>group.go\<close>, \<open>cache.go\<close>, \<open>statistics.go\<close>).
\<close>

section \<open>Changing a group\<close>

definition unless_admin :: "'w group_server \<Rightarrow> rpc_ctx \<Rightarrow> ('w, 'a) ggo \<Rightarrow> ('w, 'a option) ggo" where
  "unless_admin S ctx m = (if \<not> app_manager S ctx then bindG m (\<lambda>x. retG (Some x)) else retG None)"

definition note_announcement :: "'w group_server \<Rightarrow> string \<Rightarrow> ('w, unit) ggo" where
  "note_announcement S groupID =
     bindG (attemptG (groupDatabase_FindGroupMemberUserID (gvDB S) groupID)) (\<lambda>r. case r of
         Inl _ \<Rightarrow> retG ()
       | Inr userIDs \<Rightarrow> ignoreG (onGroupWorld (ConversationRpcClient_SetConversations (gvConv S) userIDs
           (empty_conversation_req\<lparr> crConversationID := GetConversationIDBySessionType SuperGroupChatType [groupID],
              crConversationType := SuperGroupChatType, crGroupID := groupID, crGroupAtType := Some GroupNotification \<rparr>))))"

definition groupServer_SetGroupInfo :: "'w group_server \<Rightarrow> int \<Rightarrow> rpc_ctx \<Rightarrow> GroupInfoForSet \<Rightarrow> ('w, unit) ggo" where
  "groupServer_SetGroupInfo S now ctx req0 =
     bindG (unless_admin S ctx
              (bindG (groupDatabase_TakeGroupMember (gvDB S) (fsGroupID req0) (ctxOpUserID ctx)) (\<lambda>m.
                 if \<not> is_admin_role (mbRoleLevel m) then failG (Wrap1m ErrNoPermission ''no group owner or admin'')
                 else populate_one S m))) (\<lambda>opMember.
     bindG (CallbackBeforeSetGroupInfo S req0) (\<lambda>req.
     bindG (groupDatabase_TakeGroup (gvDB S) (fsGroupID req)) (\<lambda>g.
     if gmdStatus g = GroupStatusDismissed then failG (Wrapped [] ErrDismissedAlready)
     else
     bindG (groupDatabase_FindGroupMemberNum (gvDB S) (gmdGroupID g)) (\<lambda>count.
     bindG (groupDatabase_TakeGroupOwner (gvDB S) (gmdGroupID g)) (\<lambda>owner0.
     bindG (populate_one S owner0) (\<lambda>owner.
       let update = UpdateGroupInfoMap now ctx req in
     if length update = 0 then retG ()
     else
     bindG (groupDatabase_UpdateGroup (gvDB S) (gmdGroupID g) update) (\<lambda>_.
     bindG (groupDatabase_TakeGroup (gvDB S) (fsGroupID req)) (\<lambda>g'.
       let info = groupServer_groupDB2PB g' (mbUserID owner) count;
           opUser = Some (case opMember of None \<Rightarrow> empty_member | Some m \<Rightarrow> groupServer_groupMemberDB2PB m 0);
           rest = int (length update) - (if fsNotification req \<noteq> [] then 1 else 0)
                    - (if fsGroupName req \<noteq> [] then 1 else 0) - (if fsFaceURL req \<noteq> [] then 1 else 0) in
     bindG (whenG (fsNotification req \<noteq> [])
              (bindG (note_announcement S (fsGroupID req)) (\<lambda>_.
                 ignoreG (GroupInfoSetAnnouncementNotification_send S now ctx info opUser)))) (\<lambda>_.
     bindG (whenG (fsGroupName req \<noteq> []) (ignoreG (GroupInfoSetNameNotification_send S now ctx info opUser))) (\<lambda>_.
     bindG (whenG (fsFaceURL req \<noteq> []) (ignoreG (GroupInfoSetFaceURLNotification_send S now ctx info opUser))) (\<lambda>_.
     bindG (whenG (rest > 0) (ignoreG (GroupInfoSetNotification_send S now ctx info opUser))) (\<lambda>_.
       CallbackAfterSetGroupInfo S req))))))))))))"

definition groupServer_TransferGroupOwner :: "'w group_server \<Rightarrow> int \<Rightarrow> rpc_ctx \<Rightarrow> string \<Rightarrow> string \<Rightarrow> string \<Rightarrow> ('w, unit) ggo" where
  "groupServer_TransferGroupOwner S now ctx groupID oldOwnerUserID newOwnerUserID =
     bindG (groupDatabase_TakeGroup (gvDB S) groupID) (\<lambda>g.
     if gmdStatus g = GroupStatusDismissed then failG (Wrap1m ErrDismissedAlready [])
     else if oldOwnerUserID = newOwnerUserID then failG (Wrap1m ErrArgs ''OldOwnerUserID == NewOwnerUserID'')
     else
     bindG (groupDatabase_FindGroupMembers (gvDB S) groupID [oldOwnerUserID, newOwnerUserID]) (\<lambda>members0.
     bindG (groupServer_PopulateGroupMember S members0) (\<lambda>members.
       let memberMap = SliceToMap members mbUserID;
           ids = Single (gvOrd S) [oldOwnerUserID, newOwnerUserID] (Keys (gvOrd S) memberMap) in
     if length ids > 0 then failG (Wrap1m ErrArgs (''user not in group '' @ join_str '','' ids))
     else case memberMap oldOwnerUserID of
         None \<Rightarrow> failG (Wrap1m ErrArgs (''OldOwnerUserID not in group '' @ newOwnerUserID))
       | Some oldOwner \<Rightarrow>
     (case memberMap newOwnerUserID of
         None \<Rightarrow> failG (Wrap1m ErrArgs (''NewOwnerUser not in group '' @ newOwnerUserID))
       | Some newOwner \<Rightarrow>
     if \<not> app_manager S ctx \<and> \<not> (ctxOpUserID ctx = mbUserID oldOwner \<and> mbRoleLevel oldOwner = GroupOwner)
     then failG (Wrap1m ErrNoPermission ''no permission transfer group owner'')
     else
     bindG (groupDatabase_TransferGroupOwner (gvDB S) groupID oldOwnerUserID newOwnerUserID (mbRoleLevel newOwner)) (\<lambda>_.
     bindG (CallbackTransferGroupOwnerAfter S groupID oldOwnerUserID newOwnerUserID) (\<lambda>_.
       ignoreG (GroupOwnerTransferredNotification_send S now ctx groupID newOwnerUserID)))))))"

definition groupServer_DismissGroup :: "'w group_server \<Rightarrow> int \<Rightarrow> rpc_ctx \<Rightarrow> string \<Rightarrow> bool \<Rightarrow> ('w, unit) ggo" where
  "groupServer_DismissGroup S now ctx groupID deleteMember =
     bindG (groupDatabase_TakeGroupOwner (gvDB S) groupID) (\<lambda>owner0.
     if \<not> app_manager S ctx \<and> mbUserID owner0 \<noteq> ctxOpUserID ctx then failG (Wrap1m ErrNoPermission ''not group owner'')
     else
     bindG (populate_one S owner0) (\<lambda>owner.
     bindG (groupDatabase_TakeGroup (gvDB S) groupID) (\<lambda>g.
     if \<not> deleteMember \<and> gmdStatus g = GroupStatusDismissed
     then failG (Wrap1m ErrDismissedAlready ''group status is dismissed'')
     else
     bindG (groupDatabase_DismissGroup (gvDB S) groupID deleteMember) (\<lambda>_.
     bindG (whenG (\<not> deleteMember)
              (bindG (groupDatabase_FindGroupMemberNum (gvDB S) groupID) (\<lambda>num.
                 ignoreG (GroupDismissedNotification_send S now ctx (groupServer_groupDB2PB g (mbUserID owner) num)
                   (Some (if ctxOpUserID ctx = mbUserID owner then groupServer_groupMemberDB2PB owner 0
                          else empty_member)))))) (\<lambda>_.
     bindG (groupDatabase_FindGroupMemberUserID (gvDB S) (gmdGroupID g)) (\<lambda>membersID.
       CallbackDismissGroup S groupID (mbUserID owner) (rune_text (gmdGroupType g)) membersID))))))"

text \<open>Who may mute whom.\<close>

definition mute_check :: "int \<Rightarrow> int \<Rightarrow> go_error option" where
  "mute_check opRole role =
     (if role = GroupOwner then Some (Wrap1m ErrNoPermission ''set group owner mute'')
      else if role = GroupAdmin
      then if opRole \<noteq> GroupOwner then Some (Wrap1m ErrNoPermission ''set group admin mute'') else None
      else if role = GroupOrdinaryUsers
      then if \<not> is_admin_role opRole then Some (Wrap1m ErrNoPermission ''set group ordinary users mute'') else None
      else None)"

definition set_mute_end :: "'w group_server \<Rightarrow> rpc_ctx \<Rightarrow> string \<Rightarrow> string \<Rightarrow> int \<Rightarrow> ('w, unit) ggo" where
  "set_mute_end S ctx groupID userID t =
     bindG (groupDatabase_TakeGroupMember (gvDB S) groupID userID) (\<lambda>m0.
     bindG (populate_one S m0) (\<lambda>m.
     bindG (if \<not> app_manager S ctx
            then bindG (groupDatabase_TakeGroupMember (gvDB S) groupID (ctxOpUserID ctx)) (\<lambda>opMember.
                   errG (mute_check (mbRoleLevel opMember) (mbRoleLevel m)))
            else retG ()) (\<lambda>_.
       groupDatabase_UpdateGroupMember (gvDB S) (mbGroupID m) (mbUserID m) (UpdateGroupMemberMutedTimeMap t))))"

text \<open>The duration \<open>time.Second * n\<close> wraps in 64 bits; the clock counts milliseconds.\<close>

definition groupServer_MuteGroupMember :: "'w group_server \<Rightarrow> int \<Rightarrow> rpc_ctx \<Rightarrow> string \<Rightarrow> string \<Rightarrow> int \<Rightarrow> ('w, unit) ggo" where
  "groupServer_MuteGroupMember S now ctx groupID userID mutedSeconds =
     bindG (set_mute_end S ctx groupID userID (now + mul64 1000000000 mutedSeconds div 1000000)) (\<lambda>_.
       ignoreG (GroupMemberMutedNotification_send S now ctx groupID userID mutedSeconds))"

definition groupServer_CancelMuteGroupMember :: "'w group_server \<Rightarrow> int \<Rightarrow> rpc_ctx \<Rightarrow> string \<Rightarrow> string \<Rightarrow> ('w, unit) ggo" where
  "groupServer_CancelMuteGroupMember S now ctx groupID userID =
     bindG (set_mute_end S ctx groupID userID 0) (\<lambda>_.
       ignoreG (GroupMemberCancelMutedNotification_send S now ctx groupID userID))"

definition groupServer_MuteGroup :: "'w group_server \<Rightarrow> int \<Rightarrow> rpc_ctx \<Rightarrow> string \<Rightarrow> ('w, unit) ggo" where
  "groupServer_MuteGroup S now ctx groupID =
     bindG (groupServer_CheckGroupAdmin S ctx groupID) (\<lambda>_.
     bindG (groupDatabase_UpdateGroup (gvDB S) groupID (UpdateGroupStatusMap GroupStatusMuted)) (\<lambda>_.
       ignoreG (GroupMutedNotification_send S now ctx groupID)))"

definition groupServer_CancelMuteGroup :: "'w group_server \<Rightarrow> int \<Rightarrow> rpc_ctx \<Rightarrow> string \<Rightarrow> ('w, unit) ggo" where
  "groupServer_CancelMuteGroup S now ctx groupID =
     bindG (groupServer_CheckGroupAdmin S ctx groupID) (\<lambda>_.
     bindG (groupDatabase_UpdateGroup (gvDB S) groupID (UpdateGroupStatusMap GroupOk)) (\<lambda>_.
       ignoreG (GroupCancelMutedNotification_send S now ctx groupID)))"

section \<open>Setting member information\<close>

text \<open>The first loop: the role levels asked for.\<close>

definition asked_role_check :: "SetGroupMemberInfo \<Rightarrow> go_error option" where
  "asked_role_check m = (case smRoleLevel m of
       None \<Rightarrow> None
     | Some r \<Rightarrow>
         if r = GroupOwner then Some (Wrap1m ErrNoPermission ''cannot set ungroup owner'')
         else if r = GroupAdmin \<or> r = GroupOrdinaryUsers then None
         else Some (Wrap1m ErrArgs ''invalid role level''))"

fun first_error :: "('a \<Rightarrow> go_error option) \<Rightarrow> 'a list \<Rightarrow> go_error option" where
  "first_error f [] = None"
| "first_error f (x # xs) = (case f x of None \<Rightarrow> first_error f xs | Some e \<Rightarrow> Some e)"

text \<open>What the operator, a member of the group with the level \<open>roleLevel\<close>, may change.\<close>

definition set_member_check :: "string \<Rightarrow> int \<Rightarrow> GroupMemberModel \<Rightarrow> go_error option" where
  "set_member_check opUserID roleLevel m =
     (if roleLevel = GroupOwner then None
      else if roleLevel = GroupAdmin
      then if mbRoleLevel m = GroupOwner then Some (Wrap1m ErrNoPermission ''admin can not change group owner'')
           else if mbRoleLevel m = GroupAdmin \<and> mbUserID m \<noteq> opUserID
           then Some (Wrap1m ErrNoPermission ''admin can not change other group admin'')
           else None
      else if roleLevel = GroupOrdinaryUsers
      then if \<not> (mbRoleLevel m = GroupOrdinaryUsers \<and> mbUserID m = opUserID)
           then Some (Wrap1m ErrNoPermission ''ordinary users can not change other role level'') else None
      else if mbRoleLevel m \<ge> roleLevel then Some (Wrap1m ErrNoPermission ''can not change higher role level'') else None)"

text \<open>\<open>temp\<close> holds the users seen so far.\<close>

fun collect_users :: "string set \<Rightarrow> SetGroupMemberInfo list \<Rightarrow> go_error + string list" where
  "collect_users temp [] = Inr []"
| "collect_users temp (m # ms) =
     (if smUserID m \<in> temp then Inl (Wrap1m ErrArgs (''repeat group '' @ smGroupID m @ '' user '' @ smUserID m))
      else case collect_users (insert (smUserID m) temp) ms of
          Inl e \<Rightarrow> Inl e
        | Inr us \<Rightarrow> Inr (smUserID m # us))"

definition check_group_changes :: "'w group_server \<Rightarrow> rpc_ctx \<Rightarrow> string \<Rightarrow> SetGroupMemberInfo list \<Rightarrow> ('w, unit) ggo" where
  "check_group_changes S ctx groupID members =
     (case collect_users {} members of
        Inl e \<Rightarrow> failG e
      | Inr users \<Rightarrow>
          let opUserID = ctxOpUserID ctx;
              userIDs = (if opUserID \<notin> set users then users @ [opUserID] else users) in
          bindG (groupDatabase_FindGroupMembers (gvDB S) groupID userIDs) (\<lambda>dbMembers.
            let opMember = find (\<lambda>m. mbUserID m = opUserID) dbMembers;
                missing = int (length userIDs) - int (length dbMembers) in
            if missing = 0
            then if app_manager S ctx then retG ()
                 else case opMember of
                     None \<Rightarrow> panicG ''index out of range''
                   | Some o' \<Rightarrow> errG (first_error (set_member_check opUserID (mbRoleLevel o')) dbMembers)
            else if missing = 1
            then if opMember \<noteq> None then failG (Wrap1m ErrArgs ''user not in group'')
                 else if \<not> app_manager S ctx then failG (Wrap1m ErrNoPermission ''user not in group'')
                 else retG ()
            else failG (Wrap1m ErrArgs ''user not in group'')))"

definition notify_member_set :: "'w group_server \<Rightarrow> int \<Rightarrow> rpc_ctx \<Rightarrow> SetGroupMemberInfo \<Rightarrow> ('w, unit) ggo" where
  "notify_member_set S now ctx m =
     bindG (case smRoleLevel m of
              None \<Rightarrow> retG ()
            | Some r \<Rightarrow>
                if r = GroupAdmin then ignoreG (GroupMemberSetToAdminNotification_send S now ctx (smGroupID m) (smUserID m))
                else if r = GroupOrdinaryUsers
                then ignoreG (GroupMemberSetToOrdinaryUserNotification_send S now ctx (smGroupID m) (smUserID m))
                else retG ()) (\<lambda>_.
     whenG (smNickname m \<noteq> None \<or> smFaceURL m \<noteq> None \<or> smEx m \<noteq> None)
       (ignoreG (GroupMemberInfoSetNotification_send S now ctx (smGroupID m) (smUserID m))))"

definition groupServer_SetGroupMemberInfo :: "'w group_server \<Rightarrow> int \<Rightarrow> rpc_ctx \<Rightarrow> SetGroupMemberInfo list \<Rightarrow> ('w, unit) ggo" where
  "groupServer_SetGroupMemberInfo S now ctx members0 =
     (if length members0 = 0 then failG (Wrap1m ErrArgs ''members empty'')
      else if ctxOpUserID ctx = [] then failG (Wrap1m ErrNoPermission ''no op user id'')
      else
        let members1 = map (\<lambda>m. m\<lparr> smFaceURL := None \<rparr>) members0 in
        bindG (errG (first_error asked_role_check members1)) (\<lambda>_.
        bindG (forG (gvOrd S (smGroupID ` set members1)) (\<lambda>groupID.
                 check_group_changes S ctx groupID (filter (\<lambda>m. smGroupID m = groupID) members1))) (\<lambda>_.
        bindG (mapG (CallbackBeforeSetGroupMemberInfo S) members1) (\<lambda>members.
        bindG (groupDatabase_UpdateGroupMembers (gvDB S) (Slice members (\<lambda>e.
                 \<lparr> buGroupID = smGroupID e, buUserID = smUserID e, buMap = UpdateGroupMemberMap e \<rparr>))) (\<lambda>_.
        bindG (forG members (notify_member_set S now ctx)) (\<lambda>_.
          forG members (CallbackAfterSetGroupMemberInfo S)))))))"

definition groupServer_NotificationUserInfoUpdate :: "'w group_server \<Rightarrow> int \<Rightarrow> rpc_ctx \<Rightarrow> string \<Rightarrow> ('w, unit) ggo" where
  "groupServer_NotificationUserInfoUpdate S now ctx userID =
     bindG (groupDatabase_FindGroupMemberUser (gvDB S) [] userID) (\<lambda>members.
       let groupIDs = map mbGroupID (filter (\<lambda>m. \<not> (mbNickname m \<noteq> [] \<and> mbFaceURL m \<noteq> [])) members) in
     bindG (forG groupIDs (\<lambda>g. ignoreG (GroupMemberInfoSetNotification_send S now ctx g userID))) (\<lambda>_.
       ignoreG (groupDatabase_DeleteGroupMemberHash (gvDB S) groupIDs)))"

end
