(* ===== verification/GroupQueries.thy ===== *)
theory GroupQueries
  imports GroupOps
begin

text \<open>
  The group service, fourth part: the queries of \<open>group.go\<close>, \<open>cache.go\<close>,
  \<open>statistics.go\<close> and the retired ones of \<open>super\_group.go\<close>.
\<close>

section \<open>Groups with their owners and sizes\<close>

text \<open>The owner of each group, by group.\<close>

definition owner_map :: "GroupMemberModel list \<Rightarrow> (string \<rightharpoonup> GroupMemberModel)" where
  "owner_map owners = SliceToMap owners mbGroupID"

definition owner_id :: "(string \<rightharpoonup> GroupMemberModel) \<Rightarrow> string \<Rightarrow> string" where
  "owner_id owners groupID = (case owners groupID of None \<Rightarrow> [] | Some o' \<Rightarrow> mbUserID o')"

definition owner_nickname :: "(string \<rightharpoonup> GroupMemberModel) \<Rightarrow> string \<Rightarrow> string" where
  "owner_nickname owners groupID = (case owners groupID of None \<Rightarrow> [] | Some o' \<Rightarrow> mbNickname o')"

text \<open>A missing count reads as zero.\<close>

definition count_of :: "(string \<rightharpoonup> int) \<Rightarrow> string \<Rightarrow> int" where
  "count_of nums groupID = (case nums groupID of None \<Rightarrow> 0 | Some n \<Rightarrow> n)"

definition populated_owners :: "'w group_server \<Rightarrow> string list \<Rightarrow> ('w, string \<rightharpoonup> GroupMemberModel) ggo" where
  "populated_owners S groupIDs =
     bindG (groupDatabase_FindGroupsOwner (gvDB S) groupIDs) (\<lambda>owners0.
     bindG (groupServer_PopulateGroupMember S owners0) (\<lambda>owners. retG (owner_map owners)))"

definition member_infos :: "'w group_server \<Rightarrow> ('w, GroupMemberModel list) ggo \<Rightarrow> ('w, GroupMemberFullInfo list) ggo" where
  "member_infos S find' =
     bindG find' (\<lambda>members0.
     bindG (groupServer_PopulateGroupMember S members0) (\<lambda>members. retG (Slice members Db2PbGroupMember)))"

definition groupServer_GetJoinedGroupList ::
  "'w group_server \<Rightarrow> rpc_ctx \<Rightarrow> string \<Rightarrow> string list option \<Rightarrow> string \<Rightarrow> pagination \<Rightarrow> ('w, int \<times> GroupInfo list) ggo" where
  "groupServer_GetJoinedGroupList S ctx fromUserID searchIDs groupName p =
     bindG (group_access S ctx fromUserID) (\<lambda>_.
     bindG (groupDatabase_PageGetJoinGroup (gvDB S) fromUserID searchIDs p) (\<lambda>(total', groupIDs).
     if length groupIDs = 0 then retG (uint32 total', [])
     else
     bindG (groupDatabase_FindGroup (gvDB S) groupIDs) (\<lambda>groups0.
       let groups = (if groupName \<noteq> []
             then filter (\<lambda>g. str_contains (gvToLower S (gmdGroupName g)) (gvToLower S groupName)) groups0 else groups0);
           n = (if groupName \<noteq> [] then uint32 (int (length groups)) else uint32 total') in
     bindG (groupDatabase_MapGroupMemberNum (gvDB S) groupIDs) (\<lambda>groupMemberNum.
     bindG (groupDatabase_FindGroupsOwner (gvDB S) groupIDs) (\<lambda>owners.
       retG (n, Slice (Order (gvOrd S) groupIDs groups gmdGroupID)
         (\<lambda>g. Db2PbGroupInfo g (owner_id (owner_map owners) (gmdGroupID g)) (count_of groupMemberNum (gmdGroupID g)))))))))"

definition groupServer_GetGroupsInfo :: "'w group_server \<Rightarrow> string list \<Rightarrow> ('w, GroupInfo list) ggo" where
  "groupServer_GetGroupsInfo S groupIDs =
     (if length groupIDs = 0 then failG (Wrap1m ErrArgs ''groupID is empty'')
      else
        bindG (groupDatabase_FindGroup (gvDB S) groupIDs) (\<lambda>groups.
        bindG (groupDatabase_MapGroupMemberNum (gvDB S) groupIDs) (\<lambda>nums.
        bindG (populated_owners S groupIDs) (\<lambda>owners.
          retG (Slice groups (\<lambda>e. Db2PbGroupInfo e (owner_id owners (gmdGroupID e)) (count_of nums (gmdGroupID e))))))))"

text \<open>The groups of a page that are not dismissed, and the total less the dismissed ones of the page.\<close>

definition live_groups :: "int \<Rightarrow> GroupModel list \<Rightarrow> int \<times> GroupModel list" where
  "live_groups n gs = (uint32 (n - int (length (filter (\<lambda>v. gmdStatus v = GroupStatusDismissed) gs))),
     filter (\<lambda>v. gmdStatus v \<noteq> GroupStatusDismissed) gs)"

definition cms_groups :: "'w group_server \<Rightarrow> GroupModel list \<Rightarrow> ('w, CMSGroup list) ggo" where
  "cms_groups S groups =
     (let groupIDs = Slice groups gmdGroupID in
      bindG (groupDatabase_FindGroupsOwner (gvDB S) groupIDs) (\<lambda>owners.
      bindG (groupDatabase_MapGroupMemberNum (gvDB S) groupIDs) (\<lambda>nums.
        let om = owner_map owners in
        retG (Slice groups (\<lambda>g. Db2PbCMSGroup g (owner_id om (gmdGroupID g)) (owner_nickname om (gmdGroupID g))
          (count_of nums (gmdGroupID g)))))))"

definition groupServer_GetGroups :: "'w group_server \<Rightarrow> string \<Rightarrow> string \<Rightarrow> pagination \<Rightarrow> ('w, int \<times> CMSGroup list) ggo" where
  "groupServer_GetGroups S groupID groupName p =
     bindG (if groupID \<noteq> []
            then bindG (groupDatabase_FindGroup (gvDB S) [groupID]) (\<lambda>gs. retG (int (length gs), gs))
            else groupDatabase_SearchGroup (gvDB S) 0 [] groupName p) (\<lambda>(n, gs).
       let (total', groups) = live_groups (uint32 n) gs in
     bindG (cms_groups S groups) (\<lambda>r. retG (total', r)))"

definition groupServer_GetFindGroups ::
  "'w group_server \<Rightarrow> rpc_ctx \<Rightarrow> string \<Rightarrow> int \<Rightarrow> pagination \<Rightarrow> ('w, int \<times> CMSGroup list) ggo" where
  "groupServer_GetFindGroups S ctx fromUserID searchType p =
     bindG (group_access S ctx fromUserID) (\<lambda>_.
     if searchType = 1
     then bindG (groupDatabase_SearchGroup (gvDB S) searchType fromUserID [] p) (\<lambda>(n, gs).
            let (total', groups) = live_groups (uint32 n) gs in
          bindG (cms_groups S groups) (\<lambda>r. retG (total', r)))
     else retG (0, []))"

definition groupServer_SearchGroupMembers ::
  "'w group_server \<Rightarrow> rpc_ctx \<Rightarrow> string \<Rightarrow> string \<Rightarrow> pagination \<Rightarrow> ('w, int \<times> SearchGroupMemberInfo list) ggo" where
  "groupServer_SearchGroupMembers S ctx fromUserID groupName p =
     bindG (group_access S ctx fromUserID) (\<lambda>_.
     bindG (groupDatabase_SearchGroupMembers (gvDB S) groupName fromUserID p) (\<lambda>(n, gs).
       let total' = uint32 (n - int (length (filter (\<lambda>v. sgStatus v = GroupStatusDismissed) gs)));
           groups = filter (\<lambda>v. sgStatus v \<noteq> GroupStatusDismissed) gs;
           groupIDs = Slice groups sgGroupID in
     bindG (groupDatabase_MapGroupMemberNum (gvDB S) groupIDs) (\<lambda>nums.
       retG (total', Slice (Order (gvOrd S) groupIDs groups sgGroupID)
         (\<lambda>g. Db2PbCMSSearchGroupMember g (count_of nums (sgGroupID g)))))))"

definition groupServer_GetGroupAbstractInfo :: "'w group_server \<Rightarrow> string list \<Rightarrow> ('w, GroupAbstractInfo list) ggo" where
  "groupServer_GetGroupAbstractInfo S groupIDs =
     (if length groupIDs = 0 then failG (Wrap1m ErrArgs ''groupIDs empty'')
      else if Duplicate groupIDs then failG (Wrap1m ErrArgs ''groupIDs duplicate'')
      else
        bindG (groupDatabase_FindGroup (gvDB S) groupIDs) (\<lambda>groups.
          let ids = Single (gvOrd S) groupIDs (Slice groups gmdGroupID) in
        if length ids > 0 then failG (Wrap1m ErrGroupIDNotFound (''not found group '' @ join_str '','' ids))
        else
        bindG (groupDatabase_MapGroupMemberUserID (gvDB S) groupIDs) (\<lambda>groupUserMap.
          let ids' = Single (gvOrd S) groupIDs (Keys (gvOrd S) groupUserMap) in
        if length ids' > 0
        then failG (Wrap1m ErrGroupIDNotFound (''group '' @ join_str '','' ids' @ '' not found member''))
        else mapG (\<lambda>g. bindG (nil_deref (groupUserMap (gmdGroupID g))) (\<lambda>users.
               retG (Db2PbGroupAbstractInfo (gmdGroupID g) (suMemberNum users) (suHash users)))) groups)))"

section \<open>Requests to join\<close>

definition request_infos ::
  "(string \<Rightarrow> PublicUserInfo option) \<Rightarrow> (string \<rightharpoonup> GroupModel) \<Rightarrow> (string \<rightharpoonup> GroupMemberModel) \<Rightarrow> (string \<rightharpoonup> int)
   \<Rightarrow> GroupRequestModel list \<Rightarrow> ('w, GroupRequest list) ggo" where
  "request_infos user groupMap owners nums requests =
     mapG (\<lambda>e. bindG (nil_deref (groupMap (grGroupID e))) (\<lambda>g.
       retG (Db2PbGroupRequest e (user (grUserID e))
         (Db2PbGroupInfo g (owner_id owners (grGroupID e)) (count_of nums (grGroupID e)))))) requests"

definition groupServer_GetGroupApplicationList ::
  "'w group_server \<Rightarrow> string \<Rightarrow> pagination \<Rightarrow> ('w, int \<times> GroupRequest list) ggo" where
  "groupServer_GetGroupApplicationList S fromUserID p =
     bindG (groupDatabase_FindUserManagedGroupID (gvDB S) fromUserID) (\<lambda>groupIDs.
     if length groupIDs = 0 then retG (0, [])
     else
     bindG (groupDatabase_PageGroupRequest (gvDB S) groupIDs p) (\<lambda>(total', groupRequests).
     if length groupRequests = 0 then retG (uint32 total', [])
     else
     bindG (onGroupWorld (GetPublicUserInfoMap (gvUser S) (Distinct (map grUserID groupRequests)))) (\<lambda>userMap.
     bindG (groupDatabase_FindGroup (gvDB S) (Distinct groupIDs)) (\<lambda>groups.
       let groupMap = SliceToMap groups gmdGroupID; ids = Single (gvOrd S) (Keys (gvOrd S) groupMap) groupIDs in
     if length ids > 0 then failG (Wrap1m ErrGroupIDNotFound (join_str '','' ids))
     else
     bindG (groupDatabase_MapGroupMemberNum (gvDB S) groupIDs) (\<lambda>nums.
     bindG (populated_owners S groupIDs) (\<lambda>owners.
     bindG (request_infos userMap groupMap owners nums groupRequests) (\<lambda>rs. retG (uint32 total', rs))))))))"

definition groupServer_GetUserReqApplicationList ::
  "'w group_server \<Rightarrow> string \<Rightarrow> pagination \<Rightarrow> ('w, int \<times> GroupRequest list) ggo" where
  "groupServer_GetUserReqApplicationList S userID p =
     bindG (onGroupWorld (GetPublicUserInfo (gvUser S) userID)) (\<lambda>user.
     bindG (groupDatabase_PageGroupRequestUser (gvDB S) userID p) (\<lambda>(total', requests).
     if length requests = 0 then retG (uint32 total', [])
     else
       let groupIDs = Distinct (Slice requests grGroupID) in
     bindG (groupDatabase_FindGroup (gvDB S) groupIDs) (\<lambda>groups.
     bindG (populated_owners S groupIDs) (\<lambda>owners.
     bindG (groupDatabase_MapGroupMemberNum (gvDB S) groupIDs) (\<lambda>nums.
     bindG (request_infos (\<lambda>_. Some user) (SliceToMap groups gmdGroupID) owners nums requests) (\<lambda>rs.
       retG (uint32 total', rs)))))))"

definition groupServer_GetGroupUsersReqApplicationList ::
  "'w group_server \<Rightarrow> string \<Rightarrow> string list \<Rightarrow> ('w, int \<times> GroupRequest list) ggo" where
  "groupServer_GetGroupUsersReqApplicationList S groupID userIDs =
     bindG (groupDatabase_FindGroupRequests (gvDB S) groupID userIDs) (\<lambda>requests.
     if length requests = 0 then retG (0, [])
     else
       let groupIDs = Distinct (Slice requests grGroupID) in
     bindG (groupDatabase_FindGroup (gvDB S) groupIDs) (\<lambda>groups.
       let groupMap = SliceToMap groups gmdGroupID; ids = Single (gvOrd S) groupIDs (Keys (gvOrd S) groupMap) in
     if length ids > 0 then failG (Wrap1m ErrGroupIDNotFound (join_str '','' ids))
     else
     bindG (populated_owners S groupIDs) (\<lambda>owners.
     bindG (groupDatabase_MapGroupMemberNum (gvDB S) groupIDs) (\<lambda>nums.
     bindG (request_infos (\<lambda>_. None) groupMap owners nums requests) (\<lambda>rs. retG (int (length rs), rs))))))"

section \<open>Members\<close>

definition groupServer_GetGroupAllMember :: "'w group_server \<Rightarrow> string \<Rightarrow> ('w, GroupMemberFullInfo list) ggo" where
  "groupServer_GetGroupAllMember S groupID = member_infos S (groupDatabase_FindGroupMemberAll (gvDB S) groupID)"

text \<open>
  Without a keyword and straight from the database, an error of the search itself is the error of the
  operation, while the number of members is asked for and, when that fails, replaces the total by 0.
\<close>

definition groupServer_GetGroupMemberList ::
  "'w group_server \<Rightarrow> string \<Rightarrow> string \<Rightarrow> int \<Rightarrow> pagination \<Rightarrow> ('w, int \<times> GroupMemberFullInfo list) ggo" where
  "groupServer_GetGroupMemberList S groupID keyword fromMongo p =
     bindG (if keyword = []
            then if fromMongo = 1
                 then bindG (attemptG (groupDatabase_SearchGroupMemberSorted (gvDB S) [] groupID p)) (\<lambda>r.
                      bindG (attemptG (groupDatabase_FindGroupMemberNum (gvDB S) groupID)) (\<lambda>num. case r of
                          Inl err \<Rightarrow> failG err
                        | Inr (total', members) \<Rightarrow> retG ((case num of Inl _ \<Rightarrow> 0 | Inr _ \<Rightarrow> total'), members)))
                 else groupDatabase_PageGetGroupMember (gvDB S) groupID p
            else bindG (groupDatabase_FindGroupMemberAll (gvDB S) groupID) (\<lambda>ms. retG (0, ms))) (\<lambda>(total', members0).
     bindG (groupServer_PopulateGroupMember S members0) (\<lambda>members.
     if keyword \<noteq> []
     then let found = filter (\<lambda>m. mbUserID m = keyword \<or> mbNickname m = keyword) members in
          bindG (liftG (Paginate found (fst p) (snd p))) (\<lambda>page.
            retG (uint32 (int (length found)), Batch Db2PbGroupMember page))
     else retG (uint32 total', Batch Db2PbGroupMember members)))"

text \<open>By role, the highest first, then by the time of joining, then by identifier (as Go orders strings).\<close>

definition page_order :: "GroupMemberModel \<Rightarrow> GroupMemberModel \<Rightarrow> bool" where
  "page_order a b =
     (if mbRoleLevel a \<noteq> mbRoleLevel b then mbRoleLevel b \<le> mbRoleLevel a
      else if mbJoinTime a \<noteq> mbJoinTime b then mbJoinTime a \<le> mbJoinTime b
      else str_leq (mbUserID a) (mbUserID b))"

definition member_matches :: "(string \<Rightarrow> string) \<Rightarrow> string \<Rightarrow> (string \<rightharpoonup> string) \<Rightarrow> GroupMemberModel \<Rightarrow> bool" where
  "member_matches lower keyword remarks m =
     (mbUserID m = keyword \<or> str_contains (lower (mbNickname m)) (lower keyword)
      \<or> (case remarks (mbUserID m) of None \<Rightarrow> False | Some r \<Rightarrow> str_contains (lower r) (lower keyword)))"

text \<open>
  When the friend service does not answer, its remarks are read through a nil pointer: with a keyword
  by the first member that neither the identifier nor the nickname matches, and by the first member of
  the page in any case.
\<close>

definition remarks_read ::
  "(string \<Rightarrow> string) \<Rightarrow> string \<Rightarrow> GroupMemberModel list \<Rightarrow> bool" where
  "remarks_read lower keyword members =
     (keyword \<noteq> [] \<and> (\<exists>m \<in> set members. \<not> member_matches lower keyword Map.empty m))"

definition groupServer_GetGroupMemberPageList ::
  "'w group_server \<Rightarrow> rpc_ctx \<Rightarrow> string \<Rightarrow> string \<Rightarrow> string \<Rightarrow> pagination \<Rightarrow> ('w, int \<times> GroupMemberFullInfo list) ggo" where
  "groupServer_GetGroupMemberPageList S ctx groupID userID keyword p =
     (let loginUserId = (if userID \<noteq> [] then userID else ctxOpUserID ctx);
          remarked = (loginUserId \<noteq> [] \<and> \<not> CheckUserIDIsAdmin (gvAuthCfg S) loginUserId) in
      bindG (groupDatabase_FindGroupMemberWaitGroup (gvDB S) groupID) (\<lambda>members0.
      bindG (groupServer_PopulateGroupMemberWaitGroup S members0) (\<lambda>members1.
        let members = sort_stable page_order members1 in
      bindG (if remarked
             then bindG (attemptG (onGroupWorld (gvFriendsRemark S loginUserId))) (\<lambda>r. case r of
                 Inl _ \<Rightarrow> retG None | Inr m \<Rightarrow> retG (Some m))
             else retG (Some Map.empty)) (\<lambda>friendsRemark.
      bindG (if friendsRemark = None \<and> remarks_read (gvToLower S) keyword members
             then panicG ''nil pointer dereference'' else retG ()) (\<lambda>_.
        let remarks = (case friendsRemark of None \<Rightarrow> Map.empty | Some m \<Rightarrow> m);
            found = (if keyword \<noteq> [] then filter (member_matches (gvToLower S) keyword remarks) members else members) in
      bindG (liftG (Paginate found (fst p) (snd p))) (\<lambda>page.
      bindG (if friendsRemark = None \<and> page \<noteq> [] then panicG ''nil pointer dereference'' else retG ()) (\<lambda>_.
        retG (uint32 (int (length found)), map (\<lambda>m. let pb = Db2PbGroupMember m in
          (if remarked then (case remarks (gmUserID pb) of None \<Rightarrow> pb | Some r \<Rightarrow> pb\<lparr> gmRemark := r \<rparr>) else pb)) page))))))))"

definition groupServer_GetGroupMembersInfo :: "'w group_server \<Rightarrow> string \<Rightarrow> string list \<Rightarrow> ('w, GroupMemberFullInfo list) ggo" where
  "groupServer_GetGroupMembersInfo S groupID userIDs =
     (if length userIDs = 0 then failG (Wrap1m ErrArgs ''userIDs empty'')
      else if groupID = [] then failG (Wrap1m ErrArgs ''groupID empty'')
      else member_infos S (groupDatabase_FindGroupMembers (gvDB S) groupID userIDs))"

definition groupServer_GetGroupMembersCMS ::
  "'w group_server \<Rightarrow> string \<Rightarrow> string \<Rightarrow> pagination \<Rightarrow> ('w, int \<times> GroupMemberFullInfo list) ggo" where
  "groupServer_GetGroupMembersCMS S userName groupID p =
     bindG (groupDatabase_SearchGroupMember (gvDB S) userName groupID p) (\<lambda>(total', members0).
     bindG (member_infos S (retG members0)) (\<lambda>infos. retG (uint32 total', infos)))"

definition groupServer_GetUserInGroupMembers :: "'w group_server \<Rightarrow> string list \<Rightarrow> string \<Rightarrow> ('w, GroupMemberFullInfo list) ggo" where
  "groupServer_GetUserInGroupMembers S groupIDs userID =
     (if length groupIDs = 0 then failG (Wrap1m ErrArgs ''groupIDs empty'')
      else member_infos S (groupDatabase_FindGroupMemberUser (gvDB S) groupIDs userID))"

definition groupServer_GetGroupMemberUserIDs :: "'w group_server \<Rightarrow> string \<Rightarrow> ('w, string list) ggo" where
  "groupServer_GetGroupMemberUserIDs S groupID = groupDatabase_FindGroupMemberUserID (gvDB S) groupID"

definition groupServer_GetGroupMemberRoleLevel ::
  "'w group_server \<Rightarrow> string \<Rightarrow> int list \<Rightarrow> ('w, GroupMemberFullInfo list) ggo" where
  "groupServer_GetGroupMemberRoleLevel S groupID roleLevels =
     (if length roleLevels = 0 then failG (Wrap1m ErrArgs ''RoleLevels empty'')
      else member_infos S (groupDatabase_FindGroupMemberRoleLevels (gvDB S) groupID roleLevels))"

definition groupServer_GetGroupInfoCache :: "'w group_server \<Rightarrow> string \<Rightarrow> ('w, GroupInfo) ggo" where
  "groupServer_GetGroupInfoCache S groupID =
     bindG (groupDatabase_TakeGroup (gvDB S) groupID) (\<lambda>g. retG (Db2PbGroupInfo g [] 0))"

definition groupServer_GetGroupMemberCache :: "'w group_server \<Rightarrow> string \<Rightarrow> string \<Rightarrow> ('w, GroupMemberFullInfo) ggo" where
  "groupServer_GetGroupMemberCache S groupID memberID =
     bindG (groupDatabase_TakeGroupMember (gvDB S) groupID memberID) (\<lambda>m. retG (Db2PbGroupMember m))"

definition groupServer_GroupCreateCount :: "'w group_server \<Rightarrow> int \<Rightarrow> int \<Rightarrow> ('w, int \<times> int \<times> (string \<rightharpoonup> int)) ggo" where
  "groupServer_GroupCreateCount S start end' =
     (if start > end' then failG (Wrap1m ErrArgs ''start > end'')
      else
        bindG (groupDatabase_CountTotal (gvDB S) None) (\<lambda>n.
        bindG (groupDatabase_CountTotal (gvDB S) (Some start)) (\<lambda>before'.
        bindG (groupDatabase_CountRangeEverydayTotal (gvDB S) start end') (\<lambda>count. retG (n, before', count)))))"

definition groupServer_GetJoinedSuperGroupList :: "('w, 'a) ggo" where
  "groupServer_GetJoinedSuperGroupList = failG (Plain ''deprecated'')"

definition groupServer_GetSuperGroupsInfo :: "('w, 'a) ggo" where
  "groupServer_GetSuperGroupsInfo = failG (Plain ''deprecated'')"

section \<open>The hash of a group (grouphash.go)\<close>

text \<open>
  \<open>gdHash\<close> of the database layer is this function over the service itself.  The members are listed in
  the order of their identifiers; \<open>marshal\<close> is the JSON of the list, \<open>md5\<close> the digest in hexadecimal
  digits, of which the first 8 bytes count.
\<close>

record 's group_hash =
  ghGetGroupAllUserIDs :: "string \<Rightarrow> ('s, string list) go"
  ghGetGroupMemberInfo :: "string \<Rightarrow> string list \<Rightarrow> ('s, GroupMemberFullInfo list) go"

definition NewGroupHashFromGroupServer :: "'w group_server \<Rightarrow> 'w group_state group_hash" where
  "NewGroupHashFromGroupServer S = \<lparr> ghGetGroupAllUserIDs = groupServer_GetGroupMemberUserIDs S,
     ghGetGroupMemberInfo = groupServer_GetGroupMembersInfo S \<rparr>"

definition NewGroupHashFromGroupClient :: "'s group_stub \<Rightarrow> 's group_hash" where
  "NewGroupHashFromGroupClient G = \<lparr> ghGetGroupAllUserIDs = gcGetGroupMemberUserIDs G,
     ghGetGroupMemberInfo = gcGetGroupMembersInfo G \<rparr>"

definition GroupHash_GetGroupHash ::
  "'s group_hash \<Rightarrow> (GroupMemberFullInfo list \<Rightarrow> go_error + string) \<Rightarrow> (string \<Rightarrow> string) \<Rightarrow> string \<Rightarrow> ('s, int) go" where
  "GroupHash_GetGroupHash gh marshal md5 groupID =
     bindG (ghGetGroupAllUserIDs gh groupID) (\<lambda>userIDs0.
     bindG (if length userIDs0 > 0 then ghGetGroupMemberInfo gh groupID userIDs0 else retG []) (\<lambda>members.
       let userIDs = sort_stable str_leq userIDs0;
           memberMap = SliceToMap members gmUserID;
           res = map (\<lambda>m. m\<lparr> gmAppMangerLevel := 0 \<rparr>) (List.map_filter memberMap userIDs) in
     case marshal res of Inl err \<Rightarrow> failG err
     | Inr data \<Rightarrow> retG (hex_value (take 16 (md5 data)))))"

end
