(* ===== verification/GroupFacts.thy ===== *)
theory GroupFacts
  imports GroupQueries CacheFacts
begin

text \<open>
  Facts of the group service: what its cached reads return, which operations leave the documents
  alone, and the role changes of the collection of members.
\<close>

section \<open>State and assumptions\<close>

definition member_pair :: "GroupMemberModel \<Rightarrow> string \<times> string" where
  "member_pair m = (mbGroupID m, mbUserID m)"

definition grequest_pair :: "GroupRequestModel \<Rightarrow> string \<times> string" where
  "grequest_pair r = (grGroupID r, grUserID r)"

definition gdocs :: "'w group_state \<Rightarrow> GroupModel list \<times> GroupMemberModel list \<times> GroupRequestModel list" where
  "gdocs s = (fst (gsGroups s), fst (gsMembers s), fst (gsRequests s))"

definition gcache :: "'w group_state \<Rightarrow> string \<rightharpoonup> string" where
  "gcache s = fst (gsCache s)"

text \<open>The collections have their unique indexes, transactions are supported, cached values can be read back.\<close>

definition group_env :: "'w group_db \<Rightarrow> bool" where
  "group_env D \<longleftrightarrow> coll_laws (gdGroup D) gmdGroupID \<and> coll_laws (gdMember D) member_pair \<and> coll_laws (gdRequest D) grequest_pair
     \<and> rc_laws (gdRc D) \<and> codec_laws (gdGroupJson D) \<and> codec_laws (gdMemberJson D) \<and> tx_laws gdocs gcache (gdTx D) \<and> tx_on (gdTx D)"

definition groups_of :: "'w group_state \<Rightarrow> GroupModel list" where
  "groups_of s = fst (gsGroups s)"

definition members_of :: "'w group_state \<Rightarrow> GroupMemberModel list" where
  "members_of s = fst (gsMembers s)"

text \<open>What the cache holds about the group and its members is what the database holds.\<close>

definition fresh_group :: "'w group_db \<Rightarrow> string \<Rightarrow> 'w group_state \<Rightarrow> bool" where
  "fresh_group D g s \<longleftrightarrow> (\<forall>v. gcache s (getGroupInfoKey g) = Some v \<longrightarrow>
     (\<exists>t. snd (gdGroupJson D) v = Inr t \<and> t \<in> set (groups_of s) \<and> gmdGroupID t = g))"

definition fresh_members :: "'w group_db \<Rightarrow> string \<Rightarrow> 'w group_state \<Rightarrow> bool" where
  "fresh_members D g s \<longleftrightarrow> (\<forall>u v. gcache s (getGroupMemberInfoKey g u) = Some v \<longrightarrow>
     (\<exists>m. snd (gdMemberJson D) v = Inr m \<and> m \<in> set (members_of s) \<and> member_is g u m))"

lemma gdocs_eqD: "gdocs s' = gdocs s \<Longrightarrow> groups_of s' = groups_of s \<and> members_of s' = members_of s"
  by (simp add: gdocs_def groups_of_def members_of_def)

section \<open>The parts of the state\<close>

lemmas group_part_defs = onGroupDocs_def onMemberDocs_def onGroupRequests_def onGroupCache_def onGroupWorld_def

lemma silent_group_world [quiet]: "silent gdocs (onGroupWorld m)" "silent gcache (onGroupWorld m)"
  unfolding group_part_defs by (auto intro!: silent_zoom_other simp: gdocs_def gcache_def)

lemma silent_group_cache_part [quiet]:
  "silent gcache (onGroupDocs m1)" "silent gcache (onMemberDocs m2)" "silent gcache (onGroupRequests m3)"
  "silent gdocs (onGroupCache m4)"
  unfolding group_part_defs by (auto intro!: silent_zoom_other simp: gdocs_def gcache_def)

lemma silent_group_read [quiet]:
  "silent fst m1 \<Longrightarrow> silent gdocs (onGroupDocs m1)" "silent fst m2 \<Longrightarrow> silent gdocs (onMemberDocs m2)"
  "silent fst m3 \<Longrightarrow> silent gdocs (onGroupRequests m3)"
  unfolding group_part_defs by (rule silentI; clarsimp simp: zoomG_iff gdocs_def; drule (1) silent_fstD; simp)+

lemma groupCache_zoom: "groupCache D = zoom_rc gsCache (\<lambda>t s. s\<lparr> gsCache := t \<rparr>) (gdRc D)"
  by (simp add: groupCache_def zoom_rc_def onGroupCache_def)

lemma groupCache_view: "rc_laws (gdRc D) \<Longrightarrow> rc_view gcache (groupCache D)"
proof -
  assume "rc_laws (gdRc D)"
  from rc_view_zoom [OF rc_laws_view [OF this], of gsCache "\<lambda>t s. s\<lparr> gsCache := t \<rparr>"]
  have "rc_view (\<lambda>s. fst (gsCache s)) (groupCache D)" by (simp add: groupCache_zoom)
  then show ?thesis by (simp add: gcache_def [abs_def])
qed

lemma groupCache_silent [quiet]: "rc_silent gdocs (groupCache D)"
  unfolding groupCache_zoom by (auto intro!: rc_silent_zoom simp: gdocs_def)

lemma silent_groupExecDel [quiet]: "silent gdocs (groupExecDel D ks)"
  by (simp add: groupExecDel_def silent_ExecDel groupCache_silent)

lemma envG:
  assumes "group_env D"
  shows "coll_laws (gdGroup D) gmdGroupID" "coll_laws (gdMember D) member_pair" "coll_laws (gdRequest D) grequest_pair"
    "rc_view gcache (groupCache D)" "codec_laws (gdGroupJson D)" "codec_laws (gdMemberJson D)"
    "tx_laws gdocs gcache (gdTx D)" "tx_on (gdTx D)"
  using assms by (auto simp: group_env_def groupCache_view)

section \<open>Reads\<close>

lemma find_SomeD: "find P xs = Some x \<Longrightarrow> x \<in> set xs \<and> P x"
  by (induction xs) (auto split: if_splits)

lemma silent_takes [quiet]:
  assumes "group_env D"
  shows "silent gdocs (onGroupDocs (GroupMgo_Take (gdGroup D) g))"
    "silent gdocs (onMemberDocs (GroupMemberMgo_Take (gdMember D) g u))"
  unfolding GroupMgo_Take_def GroupMemberMgo_Take_def using envG [OF assms] by (auto intro: quiet)

lemma TakeGroup_run:
  assumes E: "group_env D" and fresh: "fresh_group D g s" and run: "groupDatabase_TakeGroup D g s = (r, s')"
  shows "gdocs s' = gdocs s" "r = Ok t \<Longrightarrow> t \<in> set (groups_of s) \<and> gmdGroupID t = g"
    "fresh_members D g s \<Longrightarrow> fresh_members D g s'" "fresh_group D h s \<Longrightarrow> fresh_group D h s'"
proof -
  note e = envG [OF E]
  let ?fn = "onGroupDocs (GroupMgo_Take (gdGroup D) g)"
  have F: "\<forall>s1 t s2. ?fn s1 = (Ok t, s2) \<and> gdocs s1 = gdocs s \<longrightarrow> t \<in> set (groups_of s) \<and> gmdGroupID t = g"
    by (auto simp: onGroupDocs_def zoomG_iff GroupMgo_Take_def groups_of_def gdocs_def
      dest!: FindOne_Ok [OF e(1)] dest: find_SomeD)
  note c = cached_read [OF e(4) silent_group_cache_part(1) groupCache_silent silent_takes(1) [OF E] e(5) F fresh [unfolded fresh_group_def]
    run [unfolded groupDatabase_TakeGroup_def GroupCacheRedis_GetGroupInfo_def]]
  show q: "gdocs s' = gdocs s" by (rule c(1))
  show "r = Ok t \<Longrightarrow> t \<in> set (groups_of s) \<and> gmdGroupID t = g" by (rule c(2))
  have "gcache s' (getGroupMemberInfoKey g u) = gcache s (getGroupMemberInfoKey g u)" for u
    using c(3) by (auto simp: getGroupMemberInfoKey_def getGroupInfoKey_def)
  then show "fresh_members D g s \<Longrightarrow> fresh_members D g s'" using gdocs_eqD [OF q] by (simp add: fresh_members_def)
  assume f: "fresh_group D h s"
  from c(3) show "fresh_group D h s'"
  proof (elim disjE exE conjE)
    assume "gcache s' = gcache s" then show ?thesis using f gdocs_eqD [OF q] by (simp add: fresh_group_def)
  next
    fix v t assume w: "gcache s' = (gcache s)(getGroupInfoKey g \<mapsto> v)" "snd (gdGroupJson D) v = Inr t"
      "t \<in> set (groups_of s)" "gmdGroupID t = g"
    then show ?thesis using f gdocs_eqD [OF q] by (cases "h = g") (auto simp: fresh_group_def getGroupInfoKey_def)
  qed
qed

lemma MemberInfo_run:
  assumes E: "group_env D" and fresh: "fresh_members D g s"
    and run: "getCache (groupCache D) (gdMemberJson D) (getGroupMemberInfoKey g u) ex
      (onMemberDocs (GroupMemberMgo_Take (gdMember D) g u)) s = (r, s')"
  shows "gdocs s' = gdocs s \<and> fresh_members D g s' \<and> (\<forall>t. r = Ok t \<longrightarrow> t \<in> set (members_of s) \<and> member_is g u t)"
proof -
  note e = envG [OF E]
  let ?fn = "onMemberDocs (GroupMemberMgo_Take (gdMember D) g u)"
  have F: "\<forall>s1 t s2. ?fn s1 = (Ok t, s2) \<and> gdocs s1 = gdocs s \<longrightarrow> t \<in> set (members_of s) \<and> member_is g u t"
    by (auto simp: onMemberDocs_def zoomG_iff GroupMemberMgo_Take_def members_of_def gdocs_def
      dest!: FindOne_Ok [OF e(2)] dest: find_SomeD)
  have cached: "\<forall>v. gcache s (getGroupMemberInfoKey g u) = Some v \<longrightarrow>
      (\<exists>m. snd (gdMemberJson D) v = Inr m \<and> m \<in> set (members_of s) \<and> member_is g u m)"
    using fresh by (simp add: fresh_members_def)
  note c = cached_read [OF e(4) silent_group_cache_part(2) groupCache_silent silent_takes(2) [OF E] e(6) F cached run]
  from c(3) have "fresh_members D g s'"
  proof (elim disjE exE conjE)
    assume "gcache s' = gcache s" then show ?thesis using fresh gdocs_eqD [OF c(1)] by (simp add: fresh_members_def)
  next
    fix v t assume w: "gcache s' = (gcache s)(getGroupMemberInfoKey g u \<mapsto> v)" "snd (gdMemberJson D) v = Inr t"
      "t \<in> set (members_of s)" "member_is g u t"
    then show ?thesis using fresh gdocs_eqD [OF c(1)]
      by (auto simp: fresh_members_def getGroupMemberInfoKey_def)
  qed
  with c(1,2) show ?thesis by blast
qed

lemma FindGroupMembers_run:
  assumes E: "group_env D" and fresh: "fresh_members D g s" and run: "groupDatabase_FindGroupMembers D g us s = (r, s')"
  shows "gdocs s' = gdocs s" "r = Ok ms \<Longrightarrow> \<forall>m \<in> set ms. m \<in> set (members_of s) \<and> (\<exists>u \<in> set us. member_is g u m)"
proof -
  let ?I = "\<lambda>s1. gdocs s1 = gdocs s \<and> fresh_members D g s1"
  have look: "\<forall>s1 u r1 s2. ?I s1 \<and> getCache (groupCache D) (gdMemberJson D) (getGroupMemberInfoKey g u) 43200
      (onMemberDocs (GroupMemberMgo_Take (gdMember D) g u)) s1 = (r1, s2)
      \<longrightarrow> ?I s2 \<and> (\<forall>t. r1 = Ok t \<longrightarrow> t \<in> set (members_of s) \<and> member_is g u t)"
  proof (intro allI impI, elim conjE)
    fix s1 u r1 s2 assume s1: "gdocs s1 = gdocs s" "fresh_members D g s1"
      and g: "getCache (groupCache D) (gdMemberJson D) (getGroupMemberInfoKey g u) 43200
        (onMemberDocs (GroupMemberMgo_Take (gdMember D) g u)) s1 = (r1, s2)"
    from MemberInfo_run [OF E s1(2) g] s1(1) gdocs_eqD [OF s1(1)]
    show "?I s2 \<and> (\<forall>t. r1 = Ok t \<longrightarrow> t \<in> set (members_of s) \<and> member_is g u t)" by simp
  qed
  have I: "?I s" using fresh by simp
  note b = batch_read [where I = ?I, OF look I run [unfolded groupDatabase_FindGroupMembers_def GroupCacheRedis_GetGroupMembersInfo_def]]
  show "gdocs s' = gdocs s" using b(1) by simp
  show "r = Ok ms \<Longrightarrow> \<forall>m \<in> set ms. m \<in> set (members_of s) \<and> (\<exists>u \<in> set us. member_is g u m)"
    using b(2) by blast
qed

section \<open>Filling in names\<close>

lemma fill_member_keeps [simp]:
  "mbUserID (fill_member M m) = mbUserID m" "mbGroupID (fill_member M m) = mbGroupID m"
  "mbRoleLevel (fill_member M m) = mbRoleLevel m"
  by (simp_all add: fill_member_def split: option.splits)

lemma silent_populate [quiet]: "silent gdocs (groupServer_PopulateGroupMember S ms)"
  unfolding groupServer_PopulateGroupMember_def GroupNotificationSender_PopulateGroupMember_def populate_with_def
  by (intro quiet)

lemma Populate_Ok:
  assumes "groupServer_PopulateGroupMember S ms s = (Ok ms', s')"
  shows "\<exists>f. ms' = map f ms \<and> (\<forall>m. mbUserID (f m) = mbUserID m \<and> mbGroupID (f m) = mbGroupID m \<and> mbRoleLevel (f m) = mbRoleLevel m)"
  using assms unfolding groupServer_PopulateGroupMember_def GroupNotificationSender_PopulateGroupMember_def populate_with_def
  by (auto simp: retG_def bindG_Ok_iff split: if_splits intro: exI [of _ "\<lambda>m. m"] exI [of _ "fill_member _"])

lemma SliceToMap_SomeD: "SliceToMap es fn k = Some e \<Longrightarrow> e \<in> set es \<and> fn e = k"
proof -
  have "fold (\<lambda>t kv. case (fn t, t, True) of (k, v, ok) \<Rightarrow> if ok then kv(k \<mapsto> v) else kv) es m k = Some e \<Longrightarrow>
      m k = Some e \<or> e \<in> set es \<and> fn e = k" for m
    by (induction es arbitrary: m) (fastforce split: if_splits)+
  then show "SliceToMap es fn k = Some e \<Longrightarrow> e \<in> set es \<and> fn e = k"
    by (fastforce simp: SliceToMap_def SliceToMapOkAny_def)
qed

text \<open>The map of the members that an operation works with, against the database.\<close>

definition map_true :: "string \<Rightarrow> 'w group_state \<Rightarrow> GroupMemberModel list \<Rightarrow> bool" where
  "map_true g s ms \<longleftrightarrow> (\<forall>u m. SliceToMap ms mbUserID u = Some m \<longrightarrow>
     (\<exists>d \<in> set (members_of s). member_is g u d \<and> mbRoleLevel d = mbRoleLevel m \<and> mbUserID m = u))"

lemma map_trueD:
  "map_true g s ms \<Longrightarrow> SliceToMap ms mbUserID u = Some m \<Longrightarrow>
   \<exists>d \<in> set (members_of s). member_is g u d \<and> mbRoleLevel d = mbRoleLevel m \<and> mbUserID m = u"
  by (simp add: map_true_def)

lemma upto_members:
  assumes E: "group_env (gvDB S)" and k: "\<And>ms. map_true g s ms \<Longrightarrow> upto gdocs (gdocs s) P (\<lambda>t. gdocs t = gdocs s) (k ms)"
  shows "upto gdocs (gdocs s) P (\<lambda>t. gdocs t = gdocs s \<and> fresh_members (gvDB S) g t)
    (bindG (groupDatabase_FindGroupMembers (gvDB S) g us) (\<lambda>ms0. bindG (groupServer_PopulateGroupMember S ms0) k))"
proof (rule upto_bind [where J = "\<lambda>ms0 t. gdocs t = gdocs s \<and> (\<forall>m \<in> set ms0. m \<in> set (members_of s) \<and> (\<exists>u. member_is g u m))"])
  fix t r t' assume t: "gdocs t = gdocs s \<and> fresh_members (gvDB S) g t" and f: "groupDatabase_FindGroupMembers (gvDB S) g us t = (r, t')"
  from FindGroupMembers_run [OF E conjunct2 [OF t] f] t gdocs_eqD [of t s]
  show "gdocs t' = gdocs s \<and> (\<forall>ms0. r = Ok ms0 \<longrightarrow> gdocs t' = gdocs s \<and> (\<forall>m \<in> set ms0. m \<in> set (members_of s) \<and> (\<exists>u. member_is g u m)))"
    by fastforce
next
  fix ms0
  show "upto gdocs (gdocs s) P (\<lambda>t. gdocs t = gdocs s \<and> (\<forall>m \<in> set ms0. m \<in> set (members_of s) \<and> (\<exists>u. member_is g u m)))
    (bindG (groupServer_PopulateGroupMember S ms0) k)"
  proof (rule upto_bind [where J = "\<lambda>ms t. gdocs t = gdocs s \<and> map_true g s ms"])
    fix t r t' assume t: "gdocs t = gdocs s \<and> (\<forall>m \<in> set ms0. m \<in> set (members_of s) \<and> (\<exists>u. member_is g u m))"
      and f: "groupServer_PopulateGroupMember S ms0 t = (r, t')"
    have "map_true g s ms" if "r = Ok ms" for ms
      unfolding map_true_def
    proof (intro allI impI)
      fix u m assume m: "SliceToMap ms mbUserID u = Some m"
      note m1 = SliceToMap_SomeD [OF m]
      with Populate_Ok [OF f [unfolded that]] obtain d where d: "d \<in> set ms0" "mbUserID d = u" "mbRoleLevel d = mbRoleLevel m" by auto
      with t obtain v where "d \<in> set (members_of s)" "member_is g v d" by blast
      with d m1 show "\<exists>d \<in> set (members_of s). member_is g u d \<and> mbRoleLevel d = mbRoleLevel m \<and> mbUserID m = u"
        by (auto simp: member_is_def)
    qed
    with t silentD [OF silent_populate f]
    show "gdocs t' = gdocs s \<and> (\<forall>ms. r = Ok ms \<longrightarrow> gdocs t' = gdocs s \<and> map_true g s ms)" by simp
  next
    fix ms show "upto gdocs (gdocs s) P (\<lambda>t. gdocs t = gdocs s \<and> map_true g s ms) (k ms)"
      using k [of ms] by (auto simp: upto_def)
  qed
qed

end
