(* ===== verification/GroupDemo.thy ===== *)
theory GroupDemo
  imports GroupFacts FriendProps MsgServerDemo
begin

text \<open>
  A group service in memory for the examples: collections as lists, a cache as a map, documents
  written as lists of texts; the other services answer every call at once.
\<close>

section \<open>Documents as texts\<close>

definition int_text :: "int \<Rightarrow> string" where
  "int_text n = (if n < 0 then CHR ''m'' # replicate (nat (- n)) CHR ''i'' else replicate (nat n) CHR ''i'')"

definition text_int :: "string \<Rightarrow> int" where
  "text_int t = (case t of [] \<Rightarrow> 0 | c # r \<Rightarrow> if c = CHR ''m'' then - int (length r) else int (length t))"

lemma text_int_text [simp]: "text_int (int_text n) = n"
proof (cases "n \<le> 0")
  case False
  then obtain k where "nat n = Suc k" by (cases "nat n") auto
  with False show ?thesis by (simp add: text_int_def int_text_def)
qed (auto simp: text_int_def int_text_def)

definition group_codec :: "GroupModel codec" where
  "group_codec = (\<lambda>g. Inr (enc_strs [gmdGroupID g, gmdGroupName g, gmdNotification g, gmdIntroduction g, gmdFaceURL g,
       int_text (gmdCreateTime g), gmdEx g, int_text (gmdStatus g), gmdCreatorUserID g, int_text (gmdGroupType g),
       int_text (gmdNeedVerification g), int_text (gmdLookMemberInfo g), int_text (gmdApplyMemberFriend g),
       int_text (gmdNotificationUpdateTime g), gmdNotificationUserID g, int_text (gmdJoinTime g)]),
     \<lambda>v. case dec_strs [] v of [a, b, c, d, e, f, g, h, i, j, k, l, m, n, p, q] \<Rightarrow>
         Inr \<lparr> gmdGroupID = a, gmdGroupName = b, gmdNotification = c, gmdIntroduction = d, gmdFaceURL = e,
           gmdCreateTime = text_int f, gmdEx = g, gmdStatus = text_int h, gmdCreatorUserID = i, gmdGroupType = text_int j,
           gmdNeedVerification = text_int k, gmdLookMemberInfo = text_int l, gmdApplyMemberFriend = text_int m,
           gmdNotificationUpdateTime = text_int n, gmdNotificationUserID = p, gmdJoinTime = text_int q \<rparr>
       | _ \<Rightarrow> Inl (Plain ''no group''))"

definition member_codec :: "GroupMemberModel codec" where
  "member_codec = (\<lambda>m. Inr (enc_strs [mbGroupID m, mbUserID m, mbNickname m, mbFaceURL m, int_text (mbRoleLevel m),
       int_text (mbJoinTime m), int_text (mbJoinSource m), mbInviterUserID m, mbOperatorUserID m, int_text (mbMuteEndTime m), mbEx m]),
     \<lambda>v. case dec_strs [] v of [a, b, c, d, e, f, g, h, i, j, k] \<Rightarrow>
         Inr \<lparr> mbGroupID = a, mbUserID = b, mbNickname = c, mbFaceURL = d, mbRoleLevel = text_int e, mbJoinTime = text_int f,
           mbJoinSource = text_int g, mbInviterUserID = h, mbOperatorUserID = i, mbMuteEndTime = text_int j, mbEx = k \<rparr>
       | _ \<Rightarrow> Inl (Plain ''no member''))"

definition int_codec :: "int codec" where
  "int_codec = (\<lambda>n. Inr (enc_strs [int_text n]), \<lambda>v. case dec_strs [] v of [a] \<Rightarrow> Inr (text_int a) | _ \<Rightarrow> Inl (Plain ''no number''))"

lemma enc_strs_nonempty: "enc_strs xs \<noteq> []"
  by (simp add: enc_strs_def)

lemma group_codecs_laws: "codec_laws group_codec" "codec_laws member_codec"
  by (simp_all add: codec_laws_def group_codec_def member_codec_def dec_enc_strs enc_strs_nonempty)

section \<open>The service\<close>

definition restore_groups :: "'w group_state \<Rightarrow> 'w group_state \<Rightarrow> 'w group_state" where
  "restore_groups s s' = s'\<lparr> gsGroups := gsGroups s, gsMembers := gsMembers s, gsRequests := gsRequests s \<rparr>"

definition mem_group_db :: "'w group_db" where
  "mem_group_db = \<lparr> gdGroup = mem_coll gmdGroupID, gdMember = mem_coll member_pair, gdRequest = mem_coll grequest_pair,
     gdRc = mem_rc, gdTx = mem_tx restore_groups, gdGroupJson = group_codec, gdMemberJson = member_codec,
     gdStringsJson = strs_codec, gdIntJson = int_codec, gdLike = (\<lambda>p t. p = t), gdDayOf = (\<lambda>t. []),
     gdHash = (\<lambda>g. retG 0), gdSearchPipeline = (\<lambda>a b c. retG []) \<rparr>"

lemma mem_group_env: "group_env mem_group_db"
  unfolding group_env_def mem_group_db_def group_db.simps
  by (intro conjI mem_coll_laws mem_rc_laws group_codecs_laws mem_tx_laws) (simp_all add: restore_groups_def gdocs_def gcache_def)

definition quiet_conversations :: "'s conversation_stub" where
  "quiet_conversations = \<lparr> cstGetConversation = (\<lambda>u c. retG None), cstCreateSingleChatConversations = (\<lambda>r s c t. retG ()),
     cstCreateGroupChatConversations = (\<lambda>g us. retG ()), cstSetConversationMaxSeq = (\<lambda>us c n. retG ()),
     cstSetConversations = (\<lambda>us c. retG ()), cstGetConversationIDs = (\<lambda>u. retG []),
     cstGetConversationsByConversationID = (\<lambda>cs. retG []), cstGetConversations = (\<lambda>u cs. retG []),
     cstGetConversationOfflinePushUserIDs = (\<lambda>c us. retG []) \<rparr>"

definition quiet_messages :: "'s msg_stub" where
  "quiet_messages = \<lparr> mstSendMsg = (\<lambda>c m. retG ()), mstGetMaxSeqs = (\<lambda>cs. retG Map.empty), mstGetMinSeqs = (\<lambda>cs. retG Map.empty),
     mstGetHasReadSeqs = (\<lambda>u cs. retG Map.empty), mstGetMsgByConversationIDs = (\<lambda>cs m. retG Map.empty),
     mstReadSeqs = (\<lambda>qs. retG ()), mstGetConversationMaxSeq = (\<lambda>c. retG 5) \<rparr>"

text \<open>The hash is the text itself and the seeds count up, so that the identifiers are easy to compute.\<close>

definition digits :: "nat \<Rightarrow> string" where
  "digits n = replicate (8 - n) CHR ''0'' @ replicate n CHR ''1''"

definition mem_group_server :: "nat group_server" where
  "mem_group_server = \<lparr> gvDB = mem_group_db, gvUser = demo_users, gvConv = quiet_conversations, gvMsg = quiet_messages,
     gvFriendsRemark = (\<lambda>u. retG Map.empty), gvRdb = steady_redis [], gvSender = demo_sender,
     gvTips = (\<lambda>t. Inl (Plain ''no tips'')), gvPost = (\<lambda>c. retG []), gvDecode = (\<lambda>b. Inl (Plain ''no answer'')),
     gvDecodeCreate = (\<lambda>b. Inl (Plain ''no answer'')), gvDecodeJoin = (\<lambda>b. Inl (Plain ''no answer'')),
     gvDecodeMember = (\<lambda>b. Inl (Plain ''no answer'')), gvDecodeGroup = (\<lambda>b. Inl (Plain ''no answer'')), gvErrorText = (\<lambda>e. []),
     gvCbConfig = \<lparr> gkBeforeCreateGroup = no_callback, gkAfterCreateGroup = no_callback, gkBeforeMemberJoinGroup = no_callback,
       gkBeforeSetGroupMemberInfo = no_callback, gkAfterSetGroupMemberInfo = no_callback, gkQuitGroup = no_callback,
       gkKillGroupMember = no_callback, gkDismissGroup = no_callback, gkBeforeJoinGroup = no_callback,
       gkTransferGroupOwnerAfter = no_callback, gkBeforeInviteUserToGroup = no_callback, gkAfterJoinGroup = no_callback,
       gkBeforeSetGroupInfo = no_callback, gkAfterSetGroupInfo = no_callback \<rparr>,
     gvAuthCfg = demo_auth_config, gvJson = demo_json, gvToLower = (\<lambda>t. t), gvMd5 = (\<lambda>t. drop 5 t),
     gvSeed = (\<lambda>n. (Ok (digits n, ''0''), Suc n)), gvOrd = sorted_list_of_set \<rparr>"

definition demo_group_doc :: "string \<Rightarrow> GroupModel" where
  "demo_group_doc g = \<lparr> gmdGroupID = g, gmdGroupName = ''name'', gmdNotification = [], gmdIntroduction = [], gmdFaceURL = [],
     gmdCreateTime = 1, gmdEx = [], gmdStatus = 0, gmdCreatorUserID = ''o'', gmdGroupType = 2, gmdNeedVerification = 0,
     gmdLookMemberInfo = 0, gmdApplyMemberFriend = 0, gmdNotificationUpdateTime = 1, gmdNotificationUserID = [], gmdJoinTime = 0 \<rparr>"

definition demo_member_doc :: "string \<Rightarrow> string \<Rightarrow> int \<Rightarrow> GroupMemberModel" where
  "demo_member_doc g u l = \<lparr> mbGroupID = g, mbUserID = u, mbNickname = u, mbFaceURL = u, mbRoleLevel = l, mbJoinTime = 1,
     mbJoinSource = 0, mbInviterUserID = [], mbOperatorUserID = [], mbMuteEndTime = 0, mbEx = [] \<rparr>"

text \<open>A group with an owner \<open>o\<close>, an admin \<open>a\<close> and two ordinary members; nothing is cached.\<close>

definition demo_group_state :: "nat group_state" where
  "demo_group_state = \<lparr> gsGroups = ([demo_group_doc ''g''], 0),
     gsMembers = ([demo_member_doc ''g'' ''o'' 100, demo_member_doc ''g'' ''a'' 60, demo_member_doc ''g'' ''u'' 20,
       demo_member_doc ''g'' ''v'' 20], 0),
     gsRequests = ([], 0), gsCache = (Map.empty, 0), gsWorld = 0 \<rparr>"

lemma demo_group_state_ok:
  "group_env (gvDB mem_group_server)" "unique_keys member_pair (members_of demo_group_state)"
  "fresh_group (gvDB mem_group_server) h demo_group_state" "fresh_members (gvDB mem_group_server) h demo_group_state"
  by (simp_all add: mem_group_server_def mem_group_env unique_keys_def member_pair_def members_of_def demo_group_state_def
      demo_member_doc_def fresh_group_def fresh_members_def gcache_def)

lemma demo_kick:
  "fst (groupServer_KickGroupMember mem_group_server 1 (as_user ''a'') ''g'' [''u'', ''v''] demo_group_state) = Ok ()"
  by code_simp

end
