(* ===== verification/GroupProps.thy ===== *)
theory GroupProps
  imports GroupDemo
begin

text \<open>
  Properties of the group service: a transfer keeps the owner unique, who may remove members, and
  that the generation of group identifiers finds a free one.
\<close>

section \<open>Operations that leave the documents alone\<close>

lemma silent_group_reads [quiet]:
  assumes "group_env D"
  shows "silent gdocs (groupDatabase_TakeGroup D g)" "silent gdocs (groupDatabase_FindGroupMembers D g us)"
    "silent gdocs (groupDatabase_TakeGroupMember D g u)" "silent gdocs (groupDatabase_FindGroupMemberNum D g)"
    "silent gdocs (groupDatabase_GetGroupRoleLevelMemberIDs D g l)"
proof -
  note E = assms and e = envG [OF assms]
  show "silent gdocs (groupDatabase_TakeGroup D g)" "silent gdocs (groupDatabase_FindGroupMembers D g us)"
    "silent gdocs (groupDatabase_TakeGroupMember D g u)"
    unfolding groupDatabase_TakeGroup_def GroupCacheRedis_GetGroupInfo_def groupDatabase_FindGroupMembers_def
      GroupCacheRedis_GetGroupMembersInfo_def groupDatabase_TakeGroupMember_def GroupCacheRedis_GetGroupMemberInfo_def
    by (intro quiet E)+
  show "silent gdocs (groupDatabase_FindGroupMemberNum D g)"
    unfolding groupDatabase_FindGroupMemberNum_def GroupCacheRedis_GetGroupMemberNum_def GroupMemberMgo_TakeGroupMemberNum_def
    by (intro silent_rules(6) silent_getCache groupCache_silent silent_group_read(2) silent_Count [OF e(2)] quiet)
  show "silent gdocs (groupDatabase_GetGroupRoleLevelMemberIDs D g l)"
    unfolding groupDatabase_GetGroupRoleLevelMemberIDs_def GroupCacheRedis_GetGroupRoleLevelMemberIDs_def
      GroupMemberMgo_FindRoleLevelUserIDs_def
    by (intro silent_getCache groupCache_silent silent_group_read(2) silent_Find_field [OF e(2)])
qed

lemma silent_group_post [quiet]: "silent gdocs (group_post S dec com req cfg)" "silent gdocs (group_callback_simple S a b req)"
  unfolding group_callback_simple_def group_post_def by (intro quiet)+

lemma silent_group_notices [quiet]:
  assumes "group_env (gvDB S)"
  shows "silent gdocs (GroupOwnerTransferredNotification_send S now ctx g u)"
    "silent gdocs (MemberKickedNotification_send S now ctx gi op ms)"
proof -
  have P: "silent gdocs (GroupNotificationSender_PopulateGroupMember S ms)" for ms
    using silent_populate [of S ms] by (simp add: groupServer_PopulateGroupMember_def)
  have G: "silent gdocs (getUser S u)" for u
    unfolding getUser_def by (intro silent_rules(6) quiet) (auto intro: quiet split: list.split)
  have N: "silent gdocs (notify_group S now ctx gi op ty tips b)" for gi op ty tips b
    unfolding notify_group_def fillOpUser_def group_notify_def Let_def
    by (intro quiet G assms)
  show "silent gdocs (MemberKickedNotification_send S now ctx gi op ms)"
    unfolding MemberKickedNotification_send_def by (rule N)
  show "silent gdocs (GroupOwnerTransferredNotification_send S now ctx g u)"
    unfolding GroupOwnerTransferredNotification_send_def getGroupInfo_def getGroupMemberMap_def getGroupMembers_def
    by (intro quiet N P assms)
qed

section \<open>The owner of a group\<close>

definition owners :: "string \<Rightarrow> GroupMemberModel list \<Rightarrow> string set" where
  "owners g ms = mbUserID ` {m \<in> set ms. mbGroupID m = g \<and> mbRoleLevel m = GroupOwner}"

lemma owners_Cons:
  "owners g [] = {}"
  "owners g (m # ms) = (if mbGroupID m = g \<and> mbRoleLevel m = GroupOwner then {mbUserID m} else {}) \<union> owners g ms"
  by (auto simp: owners_def)

definition set_role :: "string \<Rightarrow> string \<Rightarrow> int \<Rightarrow> GroupMemberModel list \<Rightarrow> GroupMemberModel list" where
  "set_role g u l ms = update_first (member_is g u) (\<lambda>m. m\<lparr> mbRoleLevel := l \<rparr>) ms"

lemma set_role_pairs: "map member_pair (set_role g u l ms) = map member_pair ms"
  unfolding set_role_def by (rule map_update_first) (simp add: member_pair_def)

lemma set_role_map:
  "unique_keys member_pair ms \<Longrightarrow> set_role g u l ms = map (\<lambda>m. if member_is g u m then m\<lparr> mbRoleLevel := l \<rparr> else m) ms"
proof (induction ms)
  case (Cons m ms)
  then have IH: "set_role g u l ms = map (\<lambda>m. if member_is g u m then m\<lparr> mbRoleLevel := l \<rparr> else m) ms"
    and new: "member_pair m \<notin> member_pair ` set ms" by (auto simp: unique_keys_def)
  have "map (\<lambda>m. if member_is g u m then m\<lparr> mbRoleLevel := l \<rparr> else m) ms = ms" if "member_is g u m"
    using new that by (intro map_idI) (force simp: member_is_def member_pair_def image_iff)
  with IH show ?case by (simp add: set_role_def)
qed (simp add: set_role_def)

lemma owners_set_role:
  assumes "unique_keys member_pair ms" "list_ex (member_is g u) ms"
  shows "owners g (set_role g u l ms) = owners g ms - {u} \<union> (if l = GroupOwner then {u} else {})"
proof (rule set_eqI)
  let ?f = "\<lambda>m. if member_is g u m then m\<lparr> mbRoleLevel := l \<rparr> else m"
  from assms(2) obtain d where d: "d \<in> set ms" "member_is g u d" by (auto simp: list_ex_iff)
  fix v
  have o: "v \<in> owners g xs \<longleftrightarrow> (\<exists>m \<in> set xs. member_is g v m \<and> mbRoleLevel m = GroupOwner)" for xs
    by (auto simp: owners_def member_is_def)
  have f: "member_is g v (?f m) \<longleftrightarrow> member_is g v m" for m by (simp add: member_is_def)
  have "v \<in> owners g (set_role g u l ms) \<longleftrightarrow> (\<exists>m \<in> set ms. member_is g v m \<and> mbRoleLevel (?f m) = GroupOwner)"
    unfolding set_role_map [OF assms(1)] o by (simp only: list.set_map bex_simps(7) f)
  also have "\<dots> \<longleftrightarrow> v \<in> owners g ms - {u} \<union> (if l = GroupOwner then {u} else {})"
  proof (cases "v = u")
    case True
    then have "(\<exists>m \<in> set ms. member_is g v m \<and> mbRoleLevel (?f m) = GroupOwner) \<longleftrightarrow> (\<exists>m \<in> set ms. member_is g u m \<and> l = GroupOwner)"
      by (intro bex_cong conj_cong refl) simp_all
    with True d show ?thesis by auto
  next
    case False
    then have "\<not> member_is g u m" if "member_is g v m" for m using that by (simp add: member_is_def)
    then have "(\<exists>m \<in> set ms. member_is g v m \<and> mbRoleLevel (?f m) = GroupOwner) \<longleftrightarrow> v \<in> owners g ms"
      unfolding o by (intro bex_cong conj_cong refl) simp_all
    with False show ?thesis by simp
  qed
  finally show "v \<in> owners g (set_role g u l ms) \<longleftrightarrow> v \<in> owners g ms - {u} \<union> (if l = GroupOwner then {u} else {})" .
qed

lemma role_at_most_one:
  "unique_keys member_pair ms \<Longrightarrow> m \<in> set ms \<Longrightarrow> n \<in> set ms \<Longrightarrow> member_is g u m \<Longrightarrow> member_is g u n \<Longrightarrow> m = n"
  unfolding unique_keys_def distinct_map by (rule inj_onD [of member_pair "set ms"]) (auto simp: member_is_def member_pair_def)

lemma set_role_field: "set_member_field (MfRoleLevel l) = (\<lambda>m. m\<lparr> mbRoleLevel := l \<rparr>)"
  by (rule ext) simp

lemma UpdateRole_Ok:
  assumes E: "group_env D" and run: "onMemberDocs (GroupMemberMgo_UpdateRoleLevel (gdMember D) g u l) s = (Ok x, s')"
  shows "gdocs s' = (groups_of s, set_role g u l (members_of s), snd (snd (gdocs s)))" "list_ex (member_is g u) (members_of s)"
  using run unfolding GroupMemberMgo_UpdateRoleLevel_def GroupMemberMgo_Update_def onMemberDocs_def zoomG_iff
  by (auto simp: gdocs_def groups_of_def members_of_def set_role_def set_role_field dest!: UpdateOne_Ok [OF envG(2) [OF E]])

text \<open>What a transfer that was committed has done to the documents.\<close>

lemma transfer_docs:
  assumes E: "group_env D" and run: "groupDatabase_TransferGroupOwner D g old new l s = (r, s')"
  shows "gdocs s' = gdocs s \<and> r \<noteq> Ok ()
     \<or> members_of s' = set_role g new GroupOwner (set_role g old l (members_of s)) \<and> groups_of s' = groups_of s
       \<and> list_ex (member_is g old) (members_of s) \<and> list_ex (member_is g new) (set_role g old l (members_of s))"
proof -
  let ?fn = "groupDatabase_TransferGroupOwner_tx D g old new l" and ?T = "gdTx D"
  note e = envG [OF E]
  have eff: "members_of t' = set_role g new GroupOwner (set_role g old l (members_of s)) \<and> groups_of t' = groups_of s
       \<and> list_ex (member_is g old) (members_of s) \<and> list_ex (member_is g new) (set_role g old l (members_of s))"
    if t: "gdocs t = gdocs s" "?fn t = (Ok (), t2)" "gdocs t' = gdocs t2" for t t2 t'
  proof -
    from t(2) obtain x1 a x2 b x3 where r1: "onMemberDocs (GroupMemberMgo_UpdateRoleLevel (gdMember D) g old l) t = (Ok x1, a)"
      and r2: "onMemberDocs (GroupMemberMgo_UpdateRoleLevel (gdMember D) g new GroupOwner) a = (Ok x2, b)"
      and r3: "groupExecDel D (DelGroupMembersInfo g [old, new] @ DelGroupAllRoleLevel g @ DelGroupMembersHash g) b = (Ok x3, t2)"
      unfolding groupDatabase_TransferGroupOwner_tx_def by (auto simp: bindG_Ok_iff)
    from UpdateRole_Ok [OF E r1] UpdateRole_Ok [OF E r2] silentD [OF silent_groupExecDel r3] t(1,3)
    show ?thesis by (auto simp: gdocs_def groups_of_def members_of_def)
  qed
  note any = Transaction_any [where I = "\<lambda>_. True", OF e(7,8) run [unfolded groupDatabase_TransferGroupOwner_def] TrueI TrueI]
  show ?thesis
  proof (cases "r = Ok ()")
    case True
    obtain s1 s2 where "gdocs s1 = gdocs s" "?fn s1 = (Ok (), s2)" "gdocs s' = gdocs s2"
      using Transaction_Ok [where I = "\<lambda>_. True", OF e(7) run [unfolded groupDatabase_TransferGroupOwner_def True]] by blast
    then show ?thesis using eff by blast
  qed (use any eff in blast)
qed

text \<open>A transfer that gets through its checks.\<close>

lemma transfer_run:
  assumes E: "group_env (gvDB S)" and fresh: "fresh_group (gvDB S) g s" "fresh_members (gvDB S) g s"
    and run: "groupServer_TransferGroupOwner S now ctx g old new s = (r, s')"
  shows "gdocs s' = gdocs s \<and> r \<noteq> Ok () \<or> (\<exists>l s1 s2 r2. gdocs s1 = gdocs s \<and> gdocs s' = gdocs s2 \<and> (r = Ok () \<longrightarrow> r2 = Ok ())
     \<and> groupDatabase_TransferGroupOwner (gvDB S) g old new l s1 = (r2, s2) \<and> old \<noteq> new
     \<and> (\<exists>d \<in> set (members_of s). member_is g new d \<and> mbRoleLevel d = l)
     \<and> (app_manager S ctx \<or> (\<exists>d \<in> set (members_of s). member_is g old d \<and> mbRoleLevel d = GroupOwner)))"
    (is "_ \<or> ?P r s'")
proof -
  let ?I0 = "\<lambda>t. gdocs t = gdocs s \<and> fresh_group (gvDB S) g t \<and> fresh_members (gvDB S) g t"
  let ?I1 = "\<lambda>t. gdocs t = gdocs s \<and> fresh_members (gvDB S) g t"
  have last: "upto gdocs (gdocs s) ?P (\<lambda>t. gdocs t = gdocs s)
      (bindG (groupDatabase_TransferGroupOwner (gvDB S) g old new l) (\<lambda>_.
       bindG (CallbackTransferGroupOwnerAfter S g old new) (\<lambda>_. ignoreG (GroupOwnerTransferredNotification_send S now ctx g new))))"
    if who: "app_manager S ctx \<or> (\<exists>d \<in> set (members_of s). member_is g old d \<and> mbRoleLevel d = GroupOwner)"
      and l: "\<exists>d \<in> set (members_of s). member_is g new d \<and> mbRoleLevel d = l" and "old \<noteq> new" for l
  proof (rule uptoI)
    let ?rest = "bindG (CallbackTransferGroupOwnerAfter S g old new) (\<lambda>_. ignoreG (GroupOwnerTransferredNotification_send S now ctx g new))"
    fix t r t' assume t: "gdocs t = gdocs s" and b: "bindG (groupDatabase_TransferGroupOwner (gvDB S) g old new l) (\<lambda>_. ?rest) t = (r, t')"
    obtain r2 s2 where x: "groupDatabase_TransferGroupOwner (gvDB S) g old new l t = (r2, s2)"
      by (cases "groupDatabase_TransferGroupOwner (gvDB S) g old new l t")
    have "silent gdocs ?rest" unfolding CallbackTransferGroupOwnerAfter_def by (intro quiet E)
    with x b have "gdocs t' = gdocs s2 \<and> (r = Ok () \<longrightarrow> r2 = Ok ())" by (cases r2) (auto simp: bindG_def dest: silentD)
    with t x that show "gdocs t' = gdocs s \<and> (\<forall>x. r \<noteq> Ok x) \<or> ?P r t'" by blast
  qed
  have "upto gdocs (gdocs s) ?P ?I0 (groupServer_TransferGroupOwner S now ctx g old new)"
    unfolding groupServer_TransferGroupOwner_def Let_def
  proof (rule upto_bind [where J = "\<lambda>_. ?I1"])
    fix t r t' assume "?I0 t" "groupDatabase_TakeGroup (gvDB S) g t = (r, t')"
    then show "gdocs t' = gdocs s \<and> (\<forall>a. r = Ok a \<longrightarrow> ?I1 t')" using TakeGroup_run(1,3) [OF E] by metis
  qed (intro upto_if upto_fail upto_members upto_option last E; (auto simp: group_env_def)?; use map_trueD in fastforce)
  from uptoD [OF this _ run] fresh show ?thesis by auto
qed

text \<open>
  C5. The owner of a group stays unique, on three conditions: MongoDB has transactions, the cached
  copies of the group and of its members are those of the database, and the group has exactly one
  owner to begin with.  Then whatever a transfer does that is asked for by an ordinary user, or by an app
  manager who names the real owner - it is refused, fails in the middle or succeeds - leaves exactly one
  owner: the old one with the members untouched, or the new one, and success means the new one. No member
  joins or leaves and no other group is touched.  The conditions are needed: with a stale cached member
  (deletions from the cache that fail are only logged) a former owner passes the check, without
  transactions a failure in the middle leaves no owner, and for an app manager the code does not check
  that the old owner is one.
\<close>
theorem transfer_keeps_one_owner:
  assumes E: "group_env (gvDB S)" and U: "unique_keys member_pair (members_of s)"
    and fresh: "fresh_group (gvDB S) g s" "fresh_members (gvDB S) g s"
    and one: "owners g (members_of s) = {o'}" and who: "app_manager S ctx \<longrightarrow> old = o'"
    and run: "groupServer_TransferGroupOwner S now ctx g old new s = (r, s')"
  shows "(members_of s' = members_of s \<and> r \<noteq> Ok () \<or> owners g (members_of s') = {new} \<and> old = o' \<and> new \<noteq> old)
    \<and> map member_pair (members_of s') = map member_pair (members_of s)
    \<and> filter (\<lambda>m. mbGroupID m \<noteq> g) (members_of s') = filter (\<lambda>m. mbGroupID m \<noteq> g) (members_of s)"
  using transfer_run [OF E fresh run]
proof
  assume "gdocs s' = gdocs s \<and> r \<noteq> Ok ()" then show ?thesis using gdocs_eqD [of s' s] by simp
next
  assume "\<exists>l s1 s2 r2. gdocs s1 = gdocs s \<and> gdocs s' = gdocs s2 \<and> (r = Ok () \<longrightarrow> r2 = Ok ())
     \<and> groupDatabase_TransferGroupOwner (gvDB S) g old new l s1 = (r2, s2) \<and> old \<noteq> new
     \<and> (\<exists>d \<in> set (members_of s). member_is g new d \<and> mbRoleLevel d = l)
     \<and> (app_manager S ctx \<or> (\<exists>d \<in> set (members_of s). member_is g old d \<and> mbRoleLevel d = GroupOwner))"
  then obtain l s1 s2 r2
    where q: "gdocs s1 = gdocs s" "gdocs s' = gdocs s2" and ok: "r = Ok () \<longrightarrow> r2 = Ok ()" and ne: "old \<noteq> new"
    and t: "groupDatabase_TransferGroupOwner (gvDB S) g old new l s1 = (r2, s2)"
    and l: "\<exists>d \<in> set (members_of s). member_is g new d \<and> mbRoleLevel d = l"
    and auth: "app_manager S ctx \<or> (\<exists>d \<in> set (members_of s). member_is g old d \<and> mbRoleLevel d = GroupOwner)"
    by (elim exE conjE) (rule that)
  let ?ms = "members_of s" and ?m1 = "set_role g old l (members_of s)"
  have m: "members_of s1 = ?ms" "members_of s' = members_of s2" using gdocs_eqD [OF q(1)] gdocs_eqD [OF q(2)] by simp_all
  have own: "x \<in> owners g ?ms" if "d \<in> set ?ms" "member_is g x d" "mbRoleLevel d = GroupOwner" for d x
    using that by (auto simp: owners_def member_is_def)
  from own auth who one have old: "old = o'" by fastforce
  with own l one ne have l: "l \<noteq> GroupOwner" by fastforce
  show ?thesis
    using transfer_docs [OF E t]
  proof (elim disjE conjE)
    assume "gdocs s2 = gdocs s1" "r2 \<noteq> Ok ()" then show ?thesis using gdocs_eqD [of s2 s1] m ok by auto
  next
    assume d: "members_of s2 = set_role g new GroupOwner (set_role g old l (members_of s1))"
      and ex: "list_ex (member_is g old) (members_of s1)" "list_ex (member_is g new) (set_role g old l (members_of s1))"
    have U1: "unique_keys member_pair ?m1" using U map_update_eq [OF set_role_pairs] by blast
    have "owners g (members_of s') = {new}"
      using owners_set_role [OF U1, of g new GroupOwner] owners_set_role [OF U, of g old l] one old l ex d m by simp
    moreover have "map member_pair (members_of s') = map member_pair ?ms" using d m by (simp add: set_role_pairs)
    moreover have "filter (\<lambda>m. mbGroupID m \<noteq> g) (set_role g u k ms) = filter (\<lambda>m. mbGroupID m \<noteq> g) ms" for u k ms
      unfolding set_role_def by (rule filter_update_first) (simp add: member_is_def)
    ultimately show ?thesis using d m old ne by simp
  qed
qed

lemma demo_transfer:
  "fst (groupServer_TransferGroupOwner mem_group_server 1 (as_user ''o'') ''g'' ''o'' ''u'' demo_group_state) = Ok ()"
proof -
  let ?S = "mem_group_server" and ?ms = "[demo_member_doc ''g'' ''o'' 100, demo_member_doc ''g'' ''u'' 20]"
  define s1 where "s1 = snd (groupDatabase_TakeGroup (gvDB ?S) ''g'' demo_group_state)"
  define s2 where "s2 = snd (groupDatabase_FindGroupMembers (gvDB ?S) ''g'' [''o'', ''u''] s1)"
  define s3 where "s3 = snd (groupServer_PopulateGroupMember ?S ?ms s2)"
  have r1: "fst (groupDatabase_TakeGroup (gvDB ?S) ''g'' demo_group_state) = Ok (demo_group_doc ''g'')" by code_simp
  have r2: "fst (groupDatabase_FindGroupMembers (gvDB ?S) ''g'' [''o'', ''u''] s1) = Ok ?ms" unfolding s1_def by code_simp
  have r3: "fst (groupServer_PopulateGroupMember ?S ?ms s2) = Ok ?ms" unfolding s2_def s1_def by code_simp
  have r4: "fst (bindG (groupDatabase_TransferGroupOwner (gvDB ?S) ''g'' ''o'' ''u'' 20) (\<lambda>_.
     bindG (CallbackTransferGroupOwnerAfter ?S ''g'' ''o'' ''u'') (\<lambda>_.
       ignoreG (GroupOwnerTransferredNotification_send ?S 1 (as_user ''o'') ''g'' ''u''))) s3) = Ok ()"
    unfolding s3_def s2_def s1_def by code_simp
  have m: "SliceToMap ?ms mbUserID = [''o'' \<mapsto> demo_member_doc ''g'' ''o'' 100, ''u'' \<mapsto> demo_member_doc ''g'' ''u'' 20]"
    by (simp add: SliceToMap_def SliceToMapOkAny_def demo_member_doc_def)
  have none: "Single (gvOrd ?S) [''o'', ''u''] (Keys (gvOrd ?S) [''o'' \<mapsto> a, ''u'' \<mapsto> b]) = []" for a b :: GroupMemberModel
    by (simp add: Keys_def) code_simp
  have b: "groupDatabase_TakeGroup (gvDB ?S) ''g'' demo_group_state = (Ok (demo_group_doc ''g''), s1)"
    "groupDatabase_FindGroupMembers (gvDB ?S) ''g'' [''o'', ''u''] s1 = (Ok ?ms, s2)"
    "groupServer_PopulateGroupMember ?S ?ms s2 = (Ok ?ms, s3)"
    using r1 r2 r3 by (simp_all add: prod_eq_iff s1_def s2_def s3_def)
  have d: "gmdStatus (demo_group_doc g) = 0" "mbUserID (demo_member_doc g u l) = u" "mbRoleLevel (demo_member_doc g u l) = l" for g u l
    by (simp_all add: demo_group_doc_def demo_member_doc_def)
  show ?thesis
    unfolding groupServer_TransferGroupOwner_def
    using r4 by (simp add: bindG_run_Ok b Let_def m none d as_user_def)
qed

lemma transfer_keeps_one_owner_witness:
  "owners ''g'' (members_of (snd (groupServer_TransferGroupOwner mem_group_server 1 (as_user ''o'') ''g'' ''o'' ''u'' demo_group_state))) = {''u''}"
proof -
  have one: "owners ''g'' (members_of demo_group_state) = {''o''}"
    by (simp add: owners_Cons members_of_def demo_group_state_def demo_member_doc_def)
  have who: "app_manager mem_group_server (as_user ''o'') \<longrightarrow> ''o'' = ''o''" by simp
  from conjunct1 [OF transfer_keeps_one_owner [where now = 1 and new = "''u''", OF demo_group_state_ok one who surjective_pairing]] demo_transfer
  show ?thesis by argo
qed

section \<open>Removing members\<close>

lemma forG_errG_Ok: "forG xs (\<lambda>x. errG (f x)) s = (Ok u, s') \<longleftrightarrow> s' = s \<and> (\<forall>x \<in> set xs. f x = None)"
  by (induction xs) (auto simp: retG_def bindG_Ok_iff)

lemma forG_errG_state: "forG xs (\<lambda>x. errG (f x)) s = (r, s') \<Longrightarrow> s' = s"
  by (induction xs) (auto simp: errG_def retG_def bindG_def failG_def split: option.splits)

lemma IsDuplicateStringSlice_iff: "IsDuplicateStringSlice xs \<longleftrightarrow> \<not> distinct xs"
proof -
  have "IsDuplicateStringSlice_loop t xs \<longleftrightarrow> \<not> distinct xs \<or> set xs \<inter> t \<noteq> {}" for t
    by (induction xs arbitrary: t) auto
  then show ?thesis by (simp add: IsDuplicateStringSlice_def)
qed

lemma IsContain_iff: "IsContain x xs \<longleftrightarrow> x \<in> set xs"
  by (induction xs) auto

text \<open>The members of a group without some users.\<close>

definition without :: "string \<Rightarrow> string list \<Rightarrow> GroupMemberModel list \<Rightarrow> GroupMemberModel list" where
  "without g us ms = filter (\<lambda>m. \<not> (mbGroupID m = g \<and> mbUserID m \<in> set us)) ms"

lemma DeleteGroupMember_run:
  assumes E: "group_env D" and us: "us \<noteq> []" and run: "groupDatabase_DeleteGroupMember D g us s = (r, s')"
  shows "gdocs s' = gdocs s \<and> (\<forall>x. r \<noteq> Ok x) \<or> members_of s' = without g us (members_of s)"
proof -
  obtain r1 s1 where d: "onMemberDocs (GroupMemberMgo_Delete (gdMember D) g us) s = (r1, s1)"
    by (cases "onMemberDocs (GroupMemberMgo_Delete (gdMember D) g us) s")
  have m: "r1 = Ok () \<and> members_of s1 = without g us (members_of s) \<or> (\<exists>e. r1 = Err e) \<and> gdocs s1 = gdocs s"
    using d us unfolding onMemberDocs_def GroupMemberMgo_Delete_def zoomG_iff
    by (auto simp: members_of_def gdocs_def without_def dest!: DeleteMany_any [OF envG(2) [OF E]])
  then show ?thesis
  proof (elim disjE conjE exE)
    assume r1: "r1 = Ok ()" and m1: "members_of s1 = without g us (members_of s)"
    have "gdocs s' = gdocs s1"
      using run d r1 unfolding groupDatabase_DeleteGroupMember_def by (auto simp: bindG_run_Ok dest: silentD [OF silent_groupExecDel])
    with m1 show ?thesis using gdocs_eqD by metis
  next
    fix e assume "r1 = Err e" "gdocs s1 = gdocs s"
    then show ?thesis using run d unfolding groupDatabase_DeleteGroupMember_def by (auto simp: bindG_run_Err)
  qed
qed

text \<open>Who may remove the users: by the documents of the database.\<close>

definition may_kick :: "bool \<Rightarrow> string \<Rightarrow> string \<Rightarrow> string list \<Rightarrow> GroupMemberModel list \<Rightarrow> bool" where
  "may_kick manager g op kicked ms \<longleftrightarrow> kicked \<noteq> [] \<and> distinct kicked \<and> op \<notin> set kicked
     \<and> (\<forall>u \<in> set kicked. \<exists>d \<in> set ms. member_is g u d
          \<and> (manager \<or> (\<exists>o' \<in> set ms. member_is g op o'
               \<and> (mbRoleLevel o' = GroupOwner \<or> mbRoleLevel o' = GroupAdmin \<and> mbRoleLevel d \<notin> {GroupOwner, GroupAdmin}))))"

lemma kick_check_allows:
  assumes M: "map_true g s ms" and ok: "kick_check b (SliceToMap ms mbUserID op) u (SliceToMap ms mbUserID u) = None"
  shows "\<exists>d \<in> set (members_of s). member_is g u d \<and> (b \<or> (\<exists>o' \<in> set (members_of s). member_is g op o'
               \<and> (mbRoleLevel o' = GroupOwner \<or> mbRoleLevel o' = GroupAdmin \<and> mbRoleLevel d \<notin> {GroupOwner, GroupAdmin})))"
proof -
  from ok obtain m where m: "SliceToMap ms mbUserID u = Some m" by (auto simp: kick_check_def split: option.splits)
  from map_trueD [OF M m] obtain d where d: "d \<in> set (members_of s)" "member_is g u d" "mbRoleLevel d = mbRoleLevel m" by blast
  show ?thesis
  proof (cases b)
    case False
    with ok m obtain o1 where o1: "SliceToMap ms mbUserID op = Some o1"
      and r: "mbRoleLevel o1 = GroupOwner \<or> mbRoleLevel o1 = GroupAdmin \<and> \<not> is_admin_role (mbRoleLevel m)"
      by (auto simp: kick_check_def split: option.splits if_splits)
    from map_trueD [OF M o1] obtain o2 where "o2 \<in> set (members_of s)" "member_is g op o2" "mbRoleLevel o2 = mbRoleLevel o1" by blast
    with d r show ?thesis by (auto simp: is_admin_role_def)
  qed (use d in auto)
qed

text \<open>
  C7. Who may remove members: whatever KickGroupMember answers, either the members are those before
  and the answer is no success, or the request was allowed by the roles in the database and exactly
  the named users are gone. Allowed means: at least one user, none twice, not the operator itself,
  all of them members, and the operator is an app manager, or the owner of the group, or an admin of
  the group that removes only ordinary members. The cache may hold copies of the members, as long as
  they are those of the database.
\<close>
theorem KickGroupMember_rights:
  assumes E: "group_env (gvDB S)" and fresh: "fresh_group (gvDB S) g s" "fresh_members (gvDB S) g s"
    and run: "groupServer_KickGroupMember S now ctx g kicked s = (r, s')"
  shows "members_of s' = members_of s \<and> r \<noteq> Ok ()
     \<or> may_kick (app_manager S ctx) g (ctxOpUserID ctx) kicked (members_of s) \<and> members_of s' = without g kicked (members_of s)"
proof -
  let ?P = "\<lambda>(r :: unit outcome) s'. may_kick (app_manager S ctx) g (ctxOpUserID ctx) kicked (members_of s)
      \<and> members_of s' = without g kicked (members_of s)"
  let ?K = "\<lambda>t. gdocs t = gdocs s \<and> fresh_group (gvDB S) g t \<and> fresh_members (gvDB S) g t"
  let ?I = "\<lambda>t. gdocs t = gdocs s"
  have delete: "upto gdocs (gdocs s) ?P ?I (bindG (groupDatabase_DeleteGroupMember (gvDB S) g kicked) (\<lambda>_. rest))"
    if q: "silent gdocs rest" and may: "may_kick (app_manager S ctx) g (ctxOpUserID ctx) kicked (members_of s)"
    for rest :: "('a, unit) ggo"
  proof (rule uptoI)
    fix t r t' assume t: "?I t" and b: "bindG (groupDatabase_DeleteGroupMember (gvDB S) g kicked) (\<lambda>_. rest) t = (r, t')"
    obtain r1 t1 where d: "groupDatabase_DeleteGroupMember (gvDB S) g kicked t = (r1, t1)"
      by (cases "groupDatabase_DeleteGroupMember (gvDB S) g kicked t")
    from b d q have "gdocs t' = gdocs t1 \<and> ((\<forall>x. r1 \<noteq> Ok x) \<longrightarrow> (\<forall>x. r \<noteq> Ok x))" by (cases r1) (auto simp: bindG_def dest: silentD)
    with DeleteGroupMember_run [OF E _ d] may t gdocs_eqD [of t s] gdocs_eqD [of t' t1]
    show "gdocs t' = gdocs s \<and> (\<forall>x. r \<noteq> Ok x) \<or> ?P r t'" by (auto simp: may_kick_def)
  qed
  have "upto gdocs (gdocs s) ?P ?K (groupServer_KickGroupMember S now ctx g kicked)"
    unfolding groupServer_KickGroupMember_def Let_def
  proof (rule upto_bind [where J = "\<lambda>gm t. gdocs t = gdocs s \<and> fresh_members (gvDB S) g t \<and> gmdGroupID gm = g"], goal_cases)
    case (1 t r t')
    then show "gdocs t' = gdocs s \<and> (\<forall>a. r = Ok a \<longrightarrow> gdocs t' = gdocs s \<and> fresh_members (gvDB S) g t' \<and> gmdGroupID a = g)"
      using TakeGroup_run [OF E] by metis
  next
    case (2 gm)
    let ?rest = "\<lambda>ms num ownerUserIDs. bindG (ignoreG (MemberKickedNotification_send S now ctx
        (groupServer_groupDB2PB gm (case ownerUserIDs of [] \<Rightarrow> [] | u # _ \<Rightarrow> u) num)
        (map_option Db2PbGroupMember (SliceToMap ms mbUserID (ctxOpUserID ctx)))
        (map (\<lambda>u. Db2PbGroupMember (the (SliceToMap ms mbUserID u))) kicked))) (\<lambda>_.
      bindG (groupServer_deleteMemberAndSetConversationSeq S g kicked) (\<lambda>_. CallbackKillGroupMember S g kicked))"
    have q: "silent gdocs (?rest ms num ids)" for ms num ids
      unfolding groupServer_deleteMemberAndSetConversationSeq_def CallbackKillGroupMember_def Let_def by (intro quiet E)
    have checked: "upto gdocs (gdocs s) ?P ?I
        (bindG (forG kicked (\<lambda>u. errG (kick_check (app_manager S ctx) (SliceToMap ms mbUserID (ctxOpUserID ctx)) u (SliceToMap ms mbUserID u)))) (\<lambda>_.
         bindG (groupDatabase_FindGroupMemberNum (gvDB S) g) (\<lambda>num.
         bindG (groupDatabase_GetGroupRoleLevelMemberIDs (gvDB S) g GroupOwner) (\<lambda>ids.
         bindG (groupDatabase_DeleteGroupMember (gvDB S) g kicked) (\<lambda>_. ?rest ms num ids)))))"
      if M: "map_true g s ms" and ask: "kicked \<noteq> []" "distinct kicked" "ctxOpUserID ctx \<notin> set kicked" for ms
    proof (rule upto_bind [where J = "\<lambda>_ t. ?I t \<and> may_kick (app_manager S ctx) g (ctxOpUserID ctx) kicked (members_of s)"])
      fix t r t' assume t: "?I t" and f: "forG kicked (\<lambda>u. errG (kick_check (app_manager S ctx)
          (SliceToMap ms mbUserID (ctxOpUserID ctx)) u (SliceToMap ms mbUserID u))) t = (r, t')"
      have "t' = t" by (rule forG_errG_state [OF f])
      moreover have "may_kick (app_manager S ctx) g (ctxOpUserID ctx) kicked (members_of s)"
        if "\<forall>u \<in> set kicked. kick_check (app_manager S ctx) (SliceToMap ms mbUserID (ctxOpUserID ctx)) u (SliceToMap ms mbUserID u) = None"
        unfolding may_kick_def by (intro conjI ballI ask kick_check_allows [OF M]) (use that in blast)
      ultimately show "?I t' \<and> (\<forall>a. r = Ok a \<longrightarrow> ?I t' \<and> may_kick (app_manager S ctx) g (ctxOpUserID ctx) kicked (members_of s))"
        using t f by (auto simp: forG_errG_Ok)
    next
      show "upto gdocs (gdocs s) ?P (\<lambda>t. ?I t \<and> may_kick (app_manager S ctx) g (ctxOpUserID ctx) kicked (members_of s))
         (bindG (groupDatabase_FindGroupMemberNum (gvDB S) g) (\<lambda>num.
         bindG (groupDatabase_GetGroupRoleLevelMemberIDs (gvDB S) g GroupOwner) (\<lambda>ids.
         bindG (groupDatabase_DeleteGroupMember (gvDB S) g kicked) (\<lambda>_. ?rest ms num ids))))"
        by (intro upto_pure upto_silent silent_group_reads delete q E)
    qed
    show ?case
      unfolding conj_assoc [symmetric]
      by (intro upto_pure upto_if upto_fail, simp_all only:, intro upto_members checked E)
        (simp_all add: IsDuplicateStringSlice_iff IsContain_iff)
  qed
  from uptoD [OF this _ run] fresh show ?thesis using gdocs_eqD [of s' s] by auto
qed

lemma KickGroupMember_rights_witness:
  "map mbUserID (members_of (snd (groupServer_KickGroupMember mem_group_server 1 (as_user ''a'') ''g'' [''u'', ''v''] demo_group_state)))
     = [''o'', ''a'']"
proof -
  from KickGroupMember_rights [OF demo_group_state_ok(1,3,4) surjective_pairing] demo_kick
  have "members_of (snd (groupServer_KickGroupMember mem_group_server 1 (as_user ''a'') ''g'' [''u'', ''v''] demo_group_state))
      = without ''g'' [''u'', ''v''] (members_of demo_group_state)"
    by blast
  moreover have "map mbUserID (without ''g'' [''u'', ''v''] (members_of demo_group_state)) = [''o'', ''a'']"
    by code_simp
  ultimately show ?thesis by simp
qed

section \<open>Generating an identifier\<close>

text \<open>
  A database and a cache that answer: a lookup finds the document or says that there is none, and no
  cached value is the empty string, which the cache takes for a missing record.
\<close>

definition group_answers :: "'w group_db \<Rightarrow> bool" where
  "group_answers D \<longleftrightarrow> (\<forall>P s e s'. mcFindOne (gdGroup D) P s = (Err e, s') \<longrightarrow> e = MongoNoDocuments)
     \<and> (\<forall>k s e s'. rcGet (gdRc D) k s \<noteq> (Err e, s')) \<and> (\<forall>k v t s e s'. rcPut (gdRc D) k v t s \<noteq> (Err e, s'))
     \<and> (\<forall>t. \<exists>v. fst (gdGroupJson D) t = Inr v)"

lemma group_answersD:
  "group_answers D \<Longrightarrow> (rcGet (gdRc D) k c = (Err e, c')) = False"
  "group_answers D \<Longrightarrow> (rcPut (gdRc D) k v t c = (Err e, c')) = False"
  "group_answers D \<Longrightarrow> mcFindOne (gdGroup D) P d = (Err e, d') \<Longrightarrow> e = MongoNoDocuments"
  "group_answers D \<Longrightarrow> \<exists>v. fst (gdGroupJson D) x = Inr v"
  unfolding group_answers_def by blast+

definition no_empty_value :: "'w group_state \<Rightarrow> bool" where
  "no_empty_value s \<longleftrightarrow> (\<forall>k. gcache s k \<noteq> Some [])"

text \<open>The seeds (the time and a random number) come one after the other.\<close>

definition seed_stream :: "'w group_server \<Rightarrow> ('w \<Rightarrow> nat) \<Rightarrow> (nat \<Rightarrow> string \<times> string) \<Rightarrow> bool" where
  "seed_stream S pos seed \<longleftrightarrow> (\<forall>w. \<exists>w'. gvSeed S w = (Ok (seed (pos w)), w') \<and> pos w' = Suc (pos w))"

definition nth_id :: "'w group_server \<Rightarrow> rpc_ctx \<Rightarrow> (nat \<Rightarrow> string \<times> string) \<Rightarrow> nat \<Rightarrow> string" where
  "nth_id S ctx seed n = new_group_id S ctx (fst (seed n)) (snd (seed n))"

definition group_ids :: "'w group_state \<Rightarrow> string set" where
  "group_ids s = gmdGroupID ` set (groups_of s)"

lemma not_found_wrapped: "groupServer_IsNotFound (Wrapped [] MongoNoDocuments)"
  by code_simp

lemma TakeGroup_answers:
  assumes E: "group_env D" and A: "group_answers D" and fresh: "\<forall>h. fresh_group D h s" and ne: "no_empty_value s"
    and run: "groupDatabase_TakeGroup D g s = (r, s')"
  shows "if g \<in> group_ids s then \<exists>t. r = Ok t else \<exists>e. r = Err e \<and> groupServer_IsNotFound e" "no_empty_value s'" "gsWorld s' = gsWorld s"
proof -
  note e = envG [OF E] and run' = run [unfolded groupDatabase_TakeGroup_def GroupCacheRedis_GetGroupInfo_def]
  let ?k = "getGroupInfoKey g" and ?fn = "onGroupDocs (GroupMgo_Take (gdGroup D) g)"
  have W: "rc_silent gsWorld (groupCache D)" unfolding groupCache_zoom by (auto intro!: rc_silent_zoom)
  have "silent gsWorld ?fn" unfolding onGroupDocs_def by (rule silent_zoom_other) simp
  then show "gsWorld s' = gsWorld s" using silentD [OF silent_getCache [OF W] run'] by blast
  obtain r1 s1 where g: "rcGet (groupCache D) ?k s = (r1, s1)" by (cases "rcGet (groupCache D) ?k s")
  then have "\<nexists>e. r1 = Err e" by (auto simp: group_answersD [OF A] groupCache_def onGroupCache_def zoomG_iff)
  with rc_viewD(1) [OF e(4) g] have r1: "r1 = Ok (gcache s ?k)" and c1: "gcache s1 = gcache s" by auto
  have d1: "gdocs s1 = gdocs s" using g groupCache_silent [of D] by (auto simp: rc_silent_def dest: silentD)
  have "(if g \<in> group_ids s then \<exists>t. r = Ok t else \<exists>e. r = Err e \<and> groupServer_IsNotFound e) \<and> no_empty_value s'"
  proof (cases "gcache s ?k")
    case (Some v)
    with fresh obtain t where t: "snd (gdGroupJson D) v = Inr t" "t \<in> set (groups_of s)" "gmdGroupID t = g" by (auto simp: fresh_group_def)
    from Some ne have "v \<noteq> []" by (auto simp: no_empty_value_def)
    with run' g r1 Some t have "r = Ok t" "s' = s1" by (simp_all add: getCache_def bindG_run_Ok retG_run)
    with t c1 ne show ?thesis by (auto simp: group_ids_def no_empty_value_def)
  next
    case None
    obtain r2 s2 where f: "?fn s1 = (r2, s2)" by (cases "?fn s1")
    have c2: "gcache s2 = gcache s1" using f silent_group_cache_part(1) by (metis silentD)
    obtain r3 w where m: "mcFindOne (gdGroup D) (\<lambda>d. gmdGroupID d = g) (gsGroups s1) = (r3, w)"
      by (cases "mcFindOne (gdGroup D) (\<lambda>d. gmdGroupID d = g) (gsGroups s1)")
    from f m have r2: "r2 = (case r3 of Err e \<Rightarrow> Err (Wrapped [] e) | x \<Rightarrow> x)"
      by (auto simp: onGroupDocs_def zoomG_iff GroupMgo_Take_def mgo_FindOne_def wrapG_def split: outcome.splits)
    have docs: "fst (gsGroups s1) = groups_of s" using d1 by (simp add: gdocs_def groups_of_def)
    from FindOne_driver [OF e(1) m] group_answersD(3) [OF A] m have "(\<exists>d. find (\<lambda>d. gmdGroupID d = g) (groups_of s) = Some d \<and> r3 = Ok d)
        \<or> find (\<lambda>d. gmdGroupID d = g) (groups_of s) = None \<and> r3 = Err MongoNoDocuments"
      unfolding docs by fastforce
    then show ?thesis
    proof (elim disjE exE conjE)
      fix d assume d: "find (\<lambda>d. gmdGroupID d = g) (groups_of s) = Some d" "r3 = Ok d"
      from group_answersD(4) [OF A] obtain v where v: "fst (gdGroupJson D) d = Inr v" by blast
      obtain r4 s4 where p: "rcPut (groupCache D) ?k v 43200 s2 = (r4, s4)" by (cases "rcPut (groupCache D) ?k v 43200 s2")
      then have "\<nexists>e. r4 = Err e" by (auto simp: group_answersD [OF A] groupCache_def onGroupCache_def zoomG_iff)
      with rc_viewD(2) [OF e(4) p] have p4: "r4 = Ok ()" "gcache s4 = (gcache s2)(?k \<mapsto> v)" by auto
      from run' g r1 None f r2 d v p p4 have "r = Ok d" "s' = s4" by (simp_all add: getCache_def bindG_run_Ok retG_run)
      moreover from e(5) v have "v \<noteq> []" by (auto simp: codec_laws_def)
      moreover from find_SomeD [OF d(1)] have "g \<in> group_ids s" by (auto simp: group_ids_def)
      ultimately show ?thesis using p4 c1 c2 ne by (auto simp: no_empty_value_def)
    next
      assume d: "find (\<lambda>d. gmdGroupID d = g) (groups_of s) = None" "r3 = Err MongoNoDocuments"
      from run' g r1 None f r2 d have "r = Err (Wrapped [] MongoNoDocuments)" "s' = s2"
        by (simp_all add: getCache_def bindG_run_Ok bindG_run_Err)
      moreover from d have "g \<notin> group_ids s" by (auto simp: group_ids_def find_None_iff)
      ultimately show ?thesis using c1 c2 ne not_found_wrapped by (auto simp: no_empty_value_def)
    qed
  qed
  then show "if g \<in> group_ids s then \<exists>t. r = Ok t else \<exists>e. r = Err e \<and> groupServer_IsNotFound e" "no_empty_value s'" by auto
qed

lemma gen_group_id_finds:
  assumes E: "group_env (gvDB S)" and A: "group_answers (gvDB S)" and stream: "seed_stream S pos seed"
    and "\<forall>h. fresh_group (gvDB S) h s" "no_empty_value s" "i < n" "nth_id S ctx seed (pos (gsWorld s) + i) \<notin> group_ids s"
  shows "\<exists>k s'. k \<le> i \<and> gen_group_id_loop n S ctx s = (Ok (nth_id S ctx seed (pos (gsWorld s) + k)), s') \<and> gdocs s' = gdocs s
     \<and> nth_id S ctx seed (pos (gsWorld s) + k) \<notin> group_ids s"
  using assms(4-)
proof (induction n arbitrary: s i)
  case (Suc n)
  let ?c = "pos (gsWorld s)"
  from stream obtain w where w: "gvSeed S (gsWorld s) = (Ok (seed ?c), w)" "pos w = Suc ?c" by (auto simp: seed_stream_def)
  define s1 where "s1 = s\<lparr> gsWorld := w \<rparr>"
  have seed: "onGroupWorld (gvSeed S) s = (Ok (seed ?c), s1)" using w by (simp add: onGroupWorld_def zoomG_run s1_def)
  have q1: "gdocs s1 = gdocs s" "gcache s1 = gcache s" "group_ids s1 = group_ids s" "groups_of s1 = groups_of s"
    by (simp_all add: s1_def gdocs_def gcache_def group_ids_def groups_of_def)
  with Suc.prems have f1: "\<forall>h. fresh_group (gvDB S) h s1" "no_empty_value s1" by (simp_all add: fresh_group_def no_empty_value_def)
  let ?id = "nth_id S ctx seed ?c"
  obtain r2 s2 where t: "groupDatabase_TakeGroup (gvDB S) ?id s1 = (r2, s2)" by (cases "groupDatabase_TakeGroup (gvDB S) ?id s1")
  note a = TakeGroup_answers [OF E A f1 t] and b = TakeGroup_run [OF E spec [OF f1(1)] t]
  have loop: "gen_group_id_loop (Suc n) S ctx s = (case r2 of Ok _ \<Rightarrow> gen_group_id_loop n S ctx s2
      | Err err \<Rightarrow> ((if groupServer_IsNotFound err then Ok ?id else Err err), s2) | Panic p \<Rightarrow> (Panic p, s2))"
    using seed t by (cases "seed ?c") (auto simp: bindG_run_Ok Let_def nth_id_def attemptG_def bindG_def retG_def failG_def split: outcome.splits)
  show ?case
  proof (cases "?id \<in> group_ids s")
    case True
    with a(1) q1 obtain g where r2: "r2 = Ok g" by auto
    with Suc.prems True obtain j where j: "i = Suc j" by (cases i) auto
    have c2: "pos (gsWorld s2) = Suc ?c" using a(3) w by (simp add: s1_def)
    have g2: "group_ids s2 = group_ids s" "gdocs s2 = gdocs s" using b(1) q1 gdocs_eqD [OF b(1)] by (simp_all add: group_ids_def)
    have "\<exists>k s'. k \<le> j \<and> gen_group_id_loop n S ctx s2 = (Ok (nth_id S ctx seed (pos (gsWorld s2) + k)), s') \<and> gdocs s' = gdocs s2
        \<and> nth_id S ctx seed (pos (gsWorld s2) + k) \<notin> group_ids s2"
      using Suc.prems b(4) f1 j c2 g2 by (intro Suc.IH a(2)) auto
    then obtain k s' where "k \<le> j" "gen_group_id_loop n S ctx s2 = (Ok (nth_id S ctx seed (Suc ?c + k)), s')"
      "gdocs s' = gdocs s" "nth_id S ctx seed (Suc ?c + k) \<notin> group_ids s"
      unfolding c2 g2 by blast
    then show ?thesis using loop r2 j by (intro exI [of _ "Suc k"] exI [of _ s']) simp
  next
    case False
    with a(1) q1 obtain err where "r2 = Err err" "groupServer_IsNotFound err" by auto
    then show ?thesis using loop False b(1) q1 by (intro exI [of _ 0] exI [of _ s2]) simp
  qed
qed simp

text \<open>
  C16. A new group always gets an identifier when one can be had: if one of the identifiers made from
  the next ten seeds is free, then GenGroupID ends with success after at most that many attempts, and
  gives an identifier made from one of these seeds that no group in the database has. It changes no
  document. The database and the cache have to answer, that is, not to fail for other reasons than a
  missing record.  The cached group records are
  assumed to be those of the database, and none is the empty value.
\<close>
theorem GenGroupID_finds_free:
  assumes "group_env (gvDB S)" "group_answers (gvDB S)" "seed_stream S pos seed"
    and "\<forall>h. fresh_group (gvDB S) h s" "no_empty_value s" "i < 10" "nth_id S ctx seed (pos (gsWorld s) + i) \<notin> group_ids s"
  shows "\<exists>k s'. k \<le> i \<and> groupServer_GenGroupID S ctx [] s = (Ok (nth_id S ctx seed (pos (gsWorld s) + k)), s') \<and> gdocs s' = gdocs s
     \<and> nth_id S ctx seed (pos (gsWorld s) + k) \<notin> group_ids s"
  using gen_group_id_finds [OF assms] by (simp add: groupServer_GenGroupID_def)

text \<open>Two identifiers are taken; the third one is given.\<close>

definition demo_taken :: "nat group_state" where
  "demo_taken = demo_group_state\<lparr> gsGroups := ([demo_group_doc ''0'', demo_group_doc ''1''], 0) \<rparr>"

lemma demo_seeds: "seed_stream mem_group_server (\<lambda>w. w) (\<lambda>n. (digits n, ''0''))"
  by (simp add: seed_stream_def mem_group_server_def)

lemma demo_answers: "group_answers (gvDB mem_group_server)"
  by (auto simp: group_answers_def mem_group_server_def mem_group_db_def mem_coll_def mem_rc_def group_codec_def split: option.splits)

lemma GenGroupID_finds_free_witness:
  "fst (groupServer_GenGroupID mem_group_server (as_user ''u'') [] demo_taken) = Ok ''17''"
proof -
  let ?id = "nth_id mem_group_server (as_user ''u'') (\<lambda>n. (digits n, ''0''))"
  have ids: "?id 0 = ''0''" "?id 1 = ''1''" "?id 2 = ''17''" by code_simp+
  have taken: "group_ids demo_taken = {''0'', ''1''}" "gsWorld demo_taken = 0"
    by (simp_all add: group_ids_def groups_of_def demo_taken_def demo_group_state_def demo_group_doc_def)
  have fresh: "\<forall>h. fresh_group (gvDB mem_group_server) h demo_taken" "no_empty_value demo_taken"
    by (simp_all add: fresh_group_def no_empty_value_def gcache_def demo_taken_def demo_group_state_def)
  have free: "?id (gsWorld demo_taken + 2) \<notin> group_ids demo_taken" unfolding taken add_0 ids(3) by simp
  have "(2::nat) < 10" by simp
  from GenGroupID_finds_free [OF demo_group_state_ok(1) demo_answers demo_seeds fresh this free]
  obtain k s' where "k \<le> 2" "groupServer_GenGroupID mem_group_server (as_user ''u'') [] demo_taken = (Ok (?id (gsWorld demo_taken + k)), s')"
    "?id (gsWorld demo_taken + k) \<notin> group_ids demo_taken"
    by (elim exE conjE) (rule that)
  then have k: "k \<le> 2" "?id k \<notin> {''0'', ''1''}" "fst (groupServer_GenGroupID mem_group_server (as_user ''u'') [] demo_taken) = Ok (?id k)"
    by (simp_all add: taken)
  then have "k \<noteq> 0" "k \<noteq> 1" using ids(1,2) by (metis insertI1 insertI2)+
  with k(1) have "k = 2" by linarith
  with k(3) ids(3) show ?thesis by simp
qed

end
