(* ===== verification/UserDB.thy ===== *)
theory UserDB
  imports MongoUtil MetaCache RedisCache Constants Entities
begin

text \<open>
  The data of the user service: the collection of users and their commands (\<open>mgo/user.go\<close>), the
  subscriptions (\<open>unrelation/user.go\<close>), the cache with the online status (\<open>cache/user.go\<close>) and the
  controller (\<open>controller/user.go\<close>).  Times are milliseconds.
\<close>

section \<open>Documents\<close>

record UserModel =
  umUserID :: string
  umNickname :: string
  umFaceURL :: string
  umEx :: string
  umAppMangerLevel :: int
  umGlobalRecvMsgOpt :: int
  umCreateTime :: int

text \<open>\<open>app\_manager\_level\<close> is not a field of the document, which is \<open>app\_manger\_level\<close>.\<close>

datatype user_field =
    UfNickname string
  | UfFaceURL string
  | UfEx string
  | UfAppManagerLevel int
  | UfGlobalRecvMsgOpt int

fun set_user_field :: "user_field \<Rightarrow> UserModel \<Rightarrow> UserModel" where
  "set_user_field (UfNickname v) u = u\<lparr> umNickname := v \<rparr>"
| "set_user_field (UfFaceURL v) u = u\<lparr> umFaceURL := v \<rparr>"
| "set_user_field (UfEx v) u = u\<lparr> umEx := v \<rparr>"
| "set_user_field (UfAppManagerLevel v) u = u"
| "set_user_field (UfGlobalRecvMsgOpt v) u = u\<lparr> umGlobalRecvMsgOpt := v \<rparr>"

record UserCommand =
  ucUserID :: string
  ucType :: int
  ucUuid :: string
  ucCreateTime :: int
  ucValue :: string

record CommandInfoResp =
  ciUuid :: string
  ciValue :: string
  ciCreateTime :: int

record SubscribeUser =
  sbUserID :: string
  sbUserIDList :: "string list"

record OnlineStatus =
  osUserID :: string
  osStatus :: int
  osPlatformIDs :: "int list"

section \<open>Collections (mgo)\<close>

type_synonym ('w, 'a) user_op = "((UserModel, 'w) mstore, 'a) go"
type_synonym 'w user_coll = "(UserModel, 'w) mongo_coll"

definition UserMgo_Create :: "'w user_coll \<Rightarrow> UserModel list \<Rightarrow> ('w, unit) user_op" where
  "UserMgo_Create C users = mgo_InsertMany C users"

definition UserMgo_UpdateByMap :: "'w user_coll \<Rightarrow> string \<Rightarrow> user_field list \<Rightarrow> ('w, unit) user_op" where
  "UserMgo_UpdateByMap C userID args =
     (if length args = 0 then retG ()
      else mgo_UpdateOne C (\<lambda>u. umUserID u = userID) (fold set_user_field args) True)"

definition UserMgo_Find :: "'w user_coll \<Rightarrow> string list \<Rightarrow> ('w, UserModel list) user_op" where
  "UserMgo_Find C userIDs = mgo_Find C (\<lambda>u. umUserID u \<in> set userIDs) None"

definition UserMgo_Take :: "'w user_coll \<Rightarrow> string \<Rightarrow> ('w, UserModel) user_op" where
  "UserMgo_Take C userID = mgo_FindOne C (\<lambda>u. umUserID u = userID)"

definition UserMgo_TakeNotification :: "'w user_coll \<Rightarrow> int \<Rightarrow> ('w, UserModel list) user_op" where
  "UserMgo_TakeNotification C level = mgo_Find C (\<lambda>u. umAppMangerLevel u = level) None"

definition UserMgo_TakeByNickname :: "'w user_coll \<Rightarrow> string \<Rightarrow> ('w, UserModel list) user_op" where
  "UserMgo_TakeByNickname C nickname = mgo_Find C (\<lambda>u. umNickname u = nickname) None"

definition UserMgo_Page :: "'w user_coll \<Rightarrow> pagination \<Rightarrow> ('w, int \<times> UserModel list) user_op" where
  "UserMgo_Page C p = mgo_FindPage C (\<lambda>u. True) p"

definition UserMgo_PageFindUser :: "'w user_coll \<Rightarrow> int \<Rightarrow> int \<Rightarrow> pagination \<Rightarrow> ('w, int \<times> UserModel list) user_op" where
  "UserMgo_PageFindUser C level1 level2 p =
     mgo_FindPage C (\<lambda>u. umAppMangerLevel u = level1 \<or> umAppMangerLevel u = level2) p"

definition UserMgo_GetAllUserID :: "'w user_coll \<Rightarrow> pagination \<Rightarrow> ('w, int \<times> string list) user_op" where
  "UserMgo_GetAllUserID C p = bindG (mgo_FindPage C (\<lambda>u. True) p) (\<lambda>(count, us). retG (count, map umUserID us))"

definition UserMgo_Exist :: "'w user_coll \<Rightarrow> string \<Rightarrow> ('w, bool) user_op" where
  "UserMgo_Exist C userID = mgo_Exist C (\<lambda>u. umUserID u = userID)"

definition UserMgo_GetUserGlobalRecvMsgOpt :: "'w user_coll \<Rightarrow> string \<Rightarrow> ('w, int) user_op" where
  "UserMgo_GetUserGlobalRecvMsgOpt C userID = bindG (mgo_FindOne C (\<lambda>u. umUserID u = userID)) decode_int"

definition UserMgo_CountTotal :: "'w user_coll \<Rightarrow> int option \<Rightarrow> ('w, int) user_op" where
  "UserMgo_CountTotal C before' = (case before' of
       None \<Rightarrow> mgo_Count C (\<lambda>u. True)
     | Some t \<Rightarrow> mgo_Count C (\<lambda>u. umCreateTime u < t))"

definition UserMgo_CountRangeEverydayTotal ::
  "'w user_coll \<Rightarrow> (int \<Rightarrow> string) \<Rightarrow> int \<Rightarrow> int \<Rightarrow> ('w, string \<rightharpoonup> int) user_op" where
  "UserMgo_CountRangeEverydayTotal C day start end' =
     bindG (mgo_Aggregate C (\<lambda>u. start \<le> umCreateTime u \<and> umCreateTime u < end') (\<lambda>u. day (umCreateTime u))) (\<lambda>items.
       retG (fold (\<lambda>(d, n) m. m(d \<mapsto> n)) items Map.empty))"

text \<open>The commands use the driver itself.\<close>

type_synonym ('w, 'a) command_op = "((UserCommand, 'w) mstore, 'a) go"
type_synonym 'w command_coll = "(UserCommand, 'w) mongo_coll"

definition command_is :: "string \<Rightarrow> int \<Rightarrow> string \<Rightarrow> UserCommand \<Rightarrow> bool" where
  "command_is userID ty uuid c = (ucUserID c = userID \<and> ucType c = ty \<and> ucUuid c = uuid)"

definition UserMgo_AddUserCommand ::
  "'w command_coll \<Rightarrow> int \<Rightarrow> string \<Rightarrow> int \<Rightarrow> string \<Rightarrow> string \<Rightarrow> ('w, unit) command_op" where
  "UserMgo_AddUserCommand C now userID ty uuid value' =
     mcInsertMany C [\<lparr> ucUserID = userID, ucType = ty, ucUuid = uuid, ucCreateTime = now div 1000, ucValue = value' \<rparr>]"

definition UserMgo_DeleteUserCommand :: "'w command_coll \<Rightarrow> string \<Rightarrow> int \<Rightarrow> string \<Rightarrow> ('w, unit) command_op" where
  "UserMgo_DeleteUserCommand C userID ty uuid = mcDeleteOne C (command_is userID ty uuid)"

definition UserMgo_UpdateUserCommand :: "'w command_coll \<Rightarrow> string \<Rightarrow> int \<Rightarrow> string \<Rightarrow> string \<Rightarrow> ('w, unit) command_op" where
  "UserMgo_UpdateUserCommand C userID ty uuid value' =
     bindG (mcUpdateOne C (command_is userID ty uuid) (\<lambda>c. c\<lparr> ucValue := value' \<rparr>)) (\<lambda>_. retG ())"

definition UserMgo_GetUserCommand :: "'w command_coll \<Rightarrow> string \<Rightarrow> int \<Rightarrow> ('w, CommandInfoResp list) command_op" where
  "UserMgo_GetUserCommand C userID ty =
     bindG (mcFind C (\<lambda>c. ucUserID c = userID \<and> ucType c = ty) None) (\<lambda>cs.
       retG (map (\<lambda>c. \<lparr> ciUuid = ucUuid c, ciValue = ucValue c, ciCreateTime = ucCreateTime c \<rparr>) cs))"

section \<open>Subscriptions (unrelation/user.go)\<close>

text \<open>
  Two documents per user: the users it watches and the users that watch it.  \<open>upsert\<close> is an
  \<open>UpdateOne\<close> that creates the document when there is none; \<open>\$addToSet\<close> adds what is missing at the
  end, \<open>\$pull\<close> removes.
\<close>

type_synonym ('w, 'a) sub_op = "((SubscribeUser, 'w) mstore, 'a) go"
type_synonym 'w sub_coll = "(SubscribeUser, 'w) mongo_coll"
type_synonym 'w sub_upsert = "string \<Rightarrow> (string list \<Rightarrow> string list) \<Rightarrow> ('w, unit) sub_op"

definition SubscriptionPrefix :: string where
  "SubscriptionPrefix = ''subscription_prefix''"

definition SubscribedPrefix :: string where
  "SubscribedPrefix = ''subscribed_prefix''"

abbreviation (input) MaximumSubscription :: int where "MaximumSubscription \<equiv> 3000"

definition add_to_set :: "string list \<Rightarrow> string list \<Rightarrow> string list" where
  "add_to_set new old = fold (\<lambda>v l. if v \<in> set l then l else l @ [v]) new old"

definition pull :: "string list \<Rightarrow> string list \<Rightarrow> string list" where
  "pull gone old = filter (\<lambda>v. v \<notin> set gone) old"

definition sub_update :: "'w sub_coll \<Rightarrow> string \<Rightarrow> (string list \<Rightarrow> string list) \<Rightarrow> ('w, unit) sub_op" where
  "sub_update C key f =
     bindG (mcUpdateOne C (\<lambda>d. sbUserID d = key) (\<lambda>d. d\<lparr> sbUserIDList := f (sbUserIDList d) \<rparr>)) (\<lambda>_. retG ())"

definition read_list :: "'w sub_coll \<Rightarrow> string \<Rightarrow> ('w, string list) sub_op" where
  "read_list C key = bindG (attemptG (mcFindOne C (\<lambda>d. sbUserID d = key))) (\<lambda>r. case r of
       Inr d \<Rightarrow> retG (sbUserIDList d)
     | Inl err \<Rightarrow> if err = MongoNoDocuments then retG [] else failG (Wrapped [] err))"

definition UserMongoDriver_GetAllSubscribeList :: "'w sub_coll \<Rightarrow> string \<Rightarrow> ('w, string list) sub_op" where
  "UserMongoDriver_GetAllSubscribeList C userID = read_list C (SubscriptionPrefix @ userID)"

definition UserMongoDriver_GetSubscribedList :: "'w sub_coll \<Rightarrow> string \<Rightarrow> ('w, string list) sub_op" where
  "UserMongoDriver_GetSubscribedList C userID = read_list C (SubscribedPrefix @ userID)"

text \<open>\<open>list[low:]\<close>.\<close>

definition slice_from :: "string list \<Rightarrow> int \<Rightarrow> string list outcome" where
  "slice_from l low =
     (if low < 0 \<or> low > int (length l) then Panic ''slice bounds out of range'' else Ok (drop (nat low) l))"

definition UserMongoDriver_AddSubscriptionList ::
  "'w sub_coll \<Rightarrow> 'w sub_upsert \<Rightarrow> string \<Rightarrow> string list \<Rightarrow> ('w, unit) sub_op" where
  "UserMongoDriver_AddSubscriptionList C upsert userID userIDList =
     (let key = SubscriptionPrefix @ userID; n = int (length userIDList) in
      bindG (wrapG [] (mcFind C (\<lambda>d. sbUserID d = key) None)) (\<lambda>ds.
        let count = (if ds = [] then 0 else int (length (sbUserIDList (last ds)))) in
      bindG (whenG (count + n > MaximumSubscription)
               (bindG (UserMongoDriver_GetAllSubscribeList C userID) (\<lambda>all.
                bindG (liftG (slice_from all (MaximumSubscription - n))) (\<lambda>kept.
                  sub_update C key (\<lambda>_. kept))))) (\<lambda>_.
      bindG (wrapG [] (upsert key (add_to_set userIDList))) (\<lambda>_.
        forG userIDList (\<lambda>user. wrapG ''==> transaction failed'' (upsert (SubscribedPrefix @ user) (add_to_set [userID])))))))"

text \<open>Only the error of the last update is returned.\<close>

definition UserMongoDriver_RemoveSubscribedListFromUser :: "'w sub_coll \<Rightarrow> string \<Rightarrow> string list \<Rightarrow> ('w, unit) sub_op" where
  "UserMongoDriver_RemoveSubscribedListFromUser C userID userIDList =
     bindG (foldG (\<lambda>u err. attemptG (sub_update C (SubscribedPrefix @ u) (pull [userID]))) userIDList (Inr ())) (\<lambda>r. case r of
         Inl err \<Rightarrow> failG (Wrapped [] err) | Inr _ \<Rightarrow> retG ())"

definition UserMongoDriver_UnsubscriptionList :: "'w sub_coll \<Rightarrow> string \<Rightarrow> string list \<Rightarrow> ('w, unit) sub_op" where
  "UserMongoDriver_UnsubscriptionList C userID userIDList =
     bindG (wrapG [] (sub_update C (SubscriptionPrefix @ userID) (pull userIDList))) (\<lambda>_.
       wrapG [] (UserMongoDriver_RemoveSubscribedListFromUser C userID userIDList))"

section \<open>The state and its parts\<close>

record 'w user_state =
  uzUsers :: "(UserModel, 'w) mstore"
  uzCommands :: "(UserCommand, 'w) mstore"
  uzSubs :: "(SubscribeUser, 'w) mstore"
  uzCache :: "'w cstore"
  uzWorld :: 'w

type_synonym ('w, 'a) ugo = "('w user_state, 'a) go"

text \<open>
  \<open>udStatusDecode\<close> is \<open>json.Unmarshal\<close> into an empty status: its error and what it has filled in.
  \<open>udDayOf\<close> is the day of a time.
\<close>

record 'w user_db =
  udUsers :: "'w user_coll"
  udCommands :: "'w command_coll"
  udSubs :: "'w sub_coll"
  udUpsert :: "'w sub_upsert"
  udRc :: "'w cstore rc_api"
  udRdb :: "'w redis_api"
  udTx :: "'w user_state tx_api"
  udUserJson :: "UserModel codec"
  udIntJson :: "int codec"
  udStatusEncode :: "OnlineStatus \<Rightarrow> go_error + string"
  udStatusDecode :: "string \<Rightarrow> go_error option \<times> OnlineStatus"
  udDayOf :: "int \<Rightarrow> string"

definition onUserDocs :: "('w, 'a) user_op \<Rightarrow> ('w, 'a) ugo" where
  "onUserDocs m = zoomG uzUsers (\<lambda>t s. s\<lparr> uzUsers := t \<rparr>) m"

definition onCommands :: "('w, 'a) command_op \<Rightarrow> ('w, 'a) ugo" where
  "onCommands m = zoomG uzCommands (\<lambda>t s. s\<lparr> uzCommands := t \<rparr>) m"

definition onSubs :: "('w, 'a) sub_op \<Rightarrow> ('w, 'a) ugo" where
  "onSubs m = zoomG uzSubs (\<lambda>t s. s\<lparr> uzSubs := t \<rparr>) m"

definition onUserCache :: "('w cstore, 'a) go \<Rightarrow> ('w, 'a) ugo" where
  "onUserCache m = zoomG uzCache (\<lambda>t s. s\<lparr> uzCache := t \<rparr>) m"

definition onUserWorld :: "('w, 'a) go \<Rightarrow> ('w, 'a) ugo" where
  "onUserWorld m = zoomG uzWorld (\<lambda>t s. s\<lparr> uzWorld := t \<rparr>) m"

definition userCache :: "'w user_db \<Rightarrow> 'w user_state rc_api" where
  "userCache D = \<lparr> rcGet = (\<lambda>k. onUserCache (rcGet (udRc D) k)), rcPut = (\<lambda>k v t. onUserCache (rcPut (udRc D) k v t)),
     rcTagAsDeleted = (\<lambda>k. onUserCache (rcTagAsDeleted (udRc D) k)) \<rparr>"

section \<open>The cache (cache/user.go)\<close>

abbreviation (input) userExpireTime :: int where "userExpireTime \<equiv> 43200"
abbreviation (input) userOlineStatusExpireTime :: int where "userOlineStatusExpireTime \<equiv> 86400"

definition getUserInfoKey :: "string \<Rightarrow> string" where
  "getUserInfoKey userID = ''USER_INFO:'' @ userID"

definition getUserGlobalRecvMsgOptKey :: "string \<Rightarrow> string" where
  "getUserGlobalRecvMsgOptKey userID = ''USER_GLOBAL_RECV_MSG_OPT_KEY:'' @ userID"

definition UserCacheRedis_GetUserInfo :: "'w user_db \<Rightarrow> string \<Rightarrow> ('w, UserModel) ugo" where
  "UserCacheRedis_GetUserInfo D userID =
     getCache (userCache D) (udUserJson D) (getUserInfoKey userID) userExpireTime (onUserDocs (UserMgo_Take (udUsers D) userID))"

definition UserCacheRedis_GetUsersInfo :: "'w user_db \<Rightarrow> string list \<Rightarrow> ('w, UserModel list) ugo" where
  "UserCacheRedis_GetUsersInfo D userIDs =
     batchGetCache2 (userCache D) (udUserJson D) userExpireTime getUserInfoKey
       (\<lambda>userID. onUserDocs (UserMgo_Take (udUsers D) userID)) userIDs"

definition UserCacheRedis_GetUsersInfoWaitGroup :: "'w user_db \<Rightarrow> string list \<Rightarrow> ('w, UserModel list) ugo" where
  "UserCacheRedis_GetUsersInfoWaitGroup D userIDs =
     batchGetCacheWaitGroup (userCache D) (udUserJson D) userExpireTime getUserInfoKey
       (\<lambda>userID. onUserDocs (UserMgo_Take (udUsers D) userID)) userIDs"

definition UserCacheRedis_DelUsersInfo :: "string list \<Rightarrow> string list" where
  "UserCacheRedis_DelUsersInfo userIDs = map getUserInfoKey userIDs"

definition UserCacheRedis_GetUserGlobalRecvMsgOpt :: "'w user_db \<Rightarrow> string \<Rightarrow> ('w, int) ugo" where
  "UserCacheRedis_GetUserGlobalRecvMsgOpt D userID =
     getCache (userCache D) (udIntJson D) (getUserGlobalRecvMsgOptKey userID) userExpireTime
       (onUserDocs (UserMgo_GetUserGlobalRecvMsgOpt (udUsers D) userID))"

definition UserCacheRedis_DelUsersGlobalRecvMsgOpt :: "string list \<Rightarrow> string list" where
  "UserCacheRedis_DelUsersGlobalRecvMsgOpt userIDs = map getUserGlobalRecvMsgOptKey userIDs"

text \<open>The status of the users lies in 501 hashes.\<close>

definition status_key :: "string \<Rightarrow> string" where
  "status_key userID = ''ONLINE_STATUS:'' @ itoa (uint (crc32 userID) mod 501)"

definition read_status :: "'w user_db \<Rightarrow> string \<Rightarrow> ('w, string option) ugo" where
  "read_status D userID = bindG (attemptG (onUserWorld (rdHGet (udRdb D) (status_key userID) userID))) (\<lambda>r. case r of
       Inr v \<Rightarrow> retG (Some v)
     | Inl err \<Rightarrow> if Unwrap err = RedisNil then retG None else failG (Wrapped [] err))"

definition UserCacheRedis_GetUserStatus :: "'w user_db \<Rightarrow> string list \<Rightarrow> ('w, OnlineStatus list) ugo" where
  "UserCacheRedis_GetUserStatus D userIDs = mapG (\<lambda>userID. bindG (read_status D userID) (\<lambda>r. case r of
       None \<Rightarrow> retG \<lparr> osUserID = userID, osStatus = Offline, osPlatformIDs = [] \<rparr>
     | Some v \<Rightarrow> (case udStatusDecode D v of
           (Some err, _) \<Rightarrow> failG (Wrapped [] err)
         | (None, st) \<Rightarrow> retG (st\<lparr> osUserID := userID, osStatus := Online \<rparr>)))) userIDs"

fun RemoveRepeatedElementsInList_loop :: "'t set \<Rightarrow> 't list \<Rightarrow> 't list" where
  "RemoveRepeatedElementsInList_loop temp [] = []"
| "RemoveRepeatedElementsInList_loop temp (e # es) =
     (if e \<in> temp then RemoveRepeatedElementsInList_loop temp es
      else e # RemoveRepeatedElementsInList_loop (insert e temp) es)"

definition RemoveRepeatedElementsInList :: "'t list \<Rightarrow> 't list" where
  "RemoveRepeatedElementsInList slc = RemoveRepeatedElementsInList_loop {} slc"

definition store_status :: "'w user_db \<Rightarrow> string \<Rightarrow> OnlineStatus \<Rightarrow> ('w, unit) ugo" where
  "store_status D userID st = (case udStatusEncode D st of
       Inl err \<Rightarrow> failG (Wrapped [] err)
     | Inr data \<Rightarrow> wrapG [] (onUserWorld (rdHSet (udRdb D) (status_key userID) [userID \<mapsto> data])))"

definition UserCacheRedis_refreshStatusOffline :: "'w user_db \<Rightarrow> string \<Rightarrow> int \<Rightarrow> string option \<Rightarrow> ('w, unit) ugo" where
  "UserCacheRedis_refreshStatusOffline D userID platformID result = (case result of
       None \<Rightarrow> retG ()
     | Some v \<Rightarrow> (case udStatusDecode D v of
           (Some err, _) \<Rightarrow> failG (Wrapped [] err)
         | (None, st) \<Rightarrow>
             let new = filter (\<lambda>p. p \<noteq> platformID) (osPlatformIDs st) in
             if new = [] then wrapG [] (onUserWorld (rdHDel (udRdb D) (status_key userID) [userID]))
             else store_status D userID (st\<lparr> osPlatformIDs := new \<rparr>)))"

text \<open>The error of the decoding is not looked at.\<close>

definition UserCacheRedis_refreshStatusOnline :: "'w user_db \<Rightarrow> string \<Rightarrow> int \<Rightarrow> string option \<Rightarrow> ('w, unit) ugo" where
  "UserCacheRedis_refreshStatusOnline D userID platformID result =
     (let st = (case result of
            None \<Rightarrow> \<lparr> osUserID = [], osStatus = 0, osPlatformIDs = [platformID] \<rparr>
          | Some v \<Rightarrow> (let d = snd (udStatusDecode D v) in
              d\<lparr> osPlatformIDs := RemoveRepeatedElementsInList (osPlatformIDs d @ [platformID]) \<rparr>))
      in store_status D userID (st\<lparr> osStatus := Online, osUserID := userID \<rparr>))"

definition UserCacheRedis_SetUserStatus :: "'w user_db \<Rightarrow> string \<Rightarrow> int \<Rightarrow> int \<Rightarrow> ('w, unit) ugo" where
  "UserCacheRedis_SetUserStatus D userID status platformID =
     bindG (wrapG [] (onUserWorld (rdExists (udRdb D) (status_key userID)))) (\<lambda>isNewKey.
       if isNewKey = 0 \<and> status = Online
       then bindG (store_status D userID \<lparr> osUserID = userID, osStatus = Online, osPlatformIDs = [platformID] \<rparr>) (\<lambda>_.
              ignoreG (onUserWorld (rdExpire (udRdb D) (status_key userID) (seconds userOlineStatusExpireTime))))
       else
       bindG (read_status D userID) (\<lambda>result.
         if status = Offline then UserCacheRedis_refreshStatusOffline D userID platformID result
         else wrapG [] (UserCacheRedis_refreshStatusOnline D userID platformID result)))"

section \<open>The controller (controller/user.go)\<close>

abbreviation "ErrRegisteredAlready \<equiv> Sentinel (CodeError 1102 ''RegisteredAlreadyError'' [])"

definition userExecDel :: "'w user_db \<Rightarrow> string list \<Rightarrow> ('w, unit) ugo" where
  "userExecDel D keys = ExecDel (userCache D) keys"

definition userDatabase_InitOnce :: "'w user_db \<Rightarrow> UserModel list \<Rightarrow> ('w, unit) ugo" where
  "userDatabase_InitOnce D users =
     bindG (onUserDocs (UserMgo_Find (udUsers D) (Slice users umUserID))) (\<lambda>existingUsers.
       let missingUsers = SliceAnySub users existingUsers umUserID in
       if length missingUsers > 0 then onUserDocs (UserMgo_Create (udUsers D) missingUsers) else retG ())"

text \<open>The users found are returned beside the error; no caller of the service looks at them then.\<close>

definition all_found :: "string list \<Rightarrow> UserModel list \<Rightarrow> ('w, UserModel list) ugo" where
  "all_found userIDs users =
     (if length users \<noteq> length userIDs then failG (Wrap1m ErrRecordNotFound ''userID not found'') else retG users)"

definition userDatabase_FindWithError :: "'w user_db \<Rightarrow> string list \<Rightarrow> ('w, UserModel list) ugo" where
  "userDatabase_FindWithError D userIDs = bindG (UserCacheRedis_GetUsersInfo D userIDs) (all_found userIDs)"

definition userDatabase_FindWithErrorWaitGroup :: "'w user_db \<Rightarrow> string list \<Rightarrow> ('w, UserModel list) ugo" where
  "userDatabase_FindWithErrorWaitGroup D userIDs = bindG (UserCacheRedis_GetUsersInfoWaitGroup D userIDs) (all_found userIDs)"

definition userDatabase_Find :: "'w user_db \<Rightarrow> string list \<Rightarrow> ('w, UserModel list) ugo" where
  "userDatabase_Find D userIDs = UserCacheRedis_GetUsersInfo D userIDs"

definition userDatabase_FindByNickname :: "'w user_db \<Rightarrow> string \<Rightarrow> ('w, UserModel list) ugo" where
  "userDatabase_FindByNickname D nickname = onUserDocs (UserMgo_TakeByNickname (udUsers D) nickname)"

definition userDatabase_FindNotification :: "'w user_db \<Rightarrow> int \<Rightarrow> ('w, UserModel list) ugo" where
  "userDatabase_FindNotification D level = onUserDocs (UserMgo_TakeNotification (udUsers D) level)"

definition userDatabase_Create_tx :: "'w user_db \<Rightarrow> UserModel list \<Rightarrow> ('w, unit) ugo" where
  "userDatabase_Create_tx D users =
     bindG (onUserDocs (UserMgo_Create (udUsers D) users)) (\<lambda>_.
       userExecDel D (UserCacheRedis_DelUsersInfo (Slice users umUserID)))"

definition userDatabase_Create :: "'w user_db \<Rightarrow> UserModel list \<Rightarrow> ('w, unit) ugo" where
  "userDatabase_Create D users = Mongo_Transaction (udTx D) (userDatabase_Create_tx D users)"

definition userDatabase_UpdateByMap_tx :: "'w user_db \<Rightarrow> string \<Rightarrow> user_field list \<Rightarrow> ('w, unit) ugo" where
  "userDatabase_UpdateByMap_tx D userID args =
     bindG (onUserDocs (UserMgo_UpdateByMap (udUsers D) userID args)) (\<lambda>_.
       userExecDel D (UserCacheRedis_DelUsersInfo [userID]))"

definition userDatabase_UpdateByMap :: "'w user_db \<Rightarrow> string \<Rightarrow> user_field list \<Rightarrow> ('w, unit) ugo" where
  "userDatabase_UpdateByMap D userID args = Mongo_Transaction (udTx D) (userDatabase_UpdateByMap_tx D userID args)"

definition userDatabase_Page :: "'w user_db \<Rightarrow> pagination \<Rightarrow> ('w, int \<times> UserModel list) ugo" where
  "userDatabase_Page D p = onUserDocs (UserMgo_Page (udUsers D) p)"

definition userDatabase_PageFindUser :: "'w user_db \<Rightarrow> int \<Rightarrow> int \<Rightarrow> pagination \<Rightarrow> ('w, int \<times> UserModel list) ugo" where
  "userDatabase_PageFindUser D level1 level2 p = onUserDocs (UserMgo_PageFindUser (udUsers D) level1 level2 p)"

definition userDatabase_IsExist :: "'w user_db \<Rightarrow> string list \<Rightarrow> ('w, bool) ugo" where
  "userDatabase_IsExist D userIDs =
     bindG (onUserDocs (UserMgo_Find (udUsers D) userIDs)) (\<lambda>users. retG (length users > 0))"

definition userDatabase_GetAllUserID :: "'w user_db \<Rightarrow> pagination \<Rightarrow> ('w, int \<times> string list) ugo" where
  "userDatabase_GetAllUserID D p = onUserDocs (UserMgo_GetAllUserID (udUsers D) p)"

definition userDatabase_GetUserByID :: "'w user_db \<Rightarrow> string \<Rightarrow> ('w, UserModel) ugo" where
  "userDatabase_GetUserByID D userID = onUserDocs (UserMgo_Take (udUsers D) userID)"

definition userDatabase_CountTotal :: "'w user_db \<Rightarrow> int option \<Rightarrow> ('w, int) ugo" where
  "userDatabase_CountTotal D before' = onUserDocs (UserMgo_CountTotal (udUsers D) before')"

definition userDatabase_CountRangeEverydayTotal :: "'w user_db \<Rightarrow> int \<Rightarrow> int \<Rightarrow> ('w, string \<rightharpoonup> int) ugo" where
  "userDatabase_CountRangeEverydayTotal D start end' =
     onUserDocs (UserMgo_CountRangeEverydayTotal (udUsers D) (udDayOf D) start end')"

definition userDatabase_SubscribeUsersStatus :: "'w user_db \<Rightarrow> string \<Rightarrow> string list \<Rightarrow> ('w, unit) ugo" where
  "userDatabase_SubscribeUsersStatus D userID userIDs =
     onSubs (UserMongoDriver_AddSubscriptionList (udSubs D) (udUpsert D) userID userIDs)"

definition userDatabase_UnsubscribeUsersStatus :: "'w user_db \<Rightarrow> string \<Rightarrow> string list \<Rightarrow> ('w, unit) ugo" where
  "userDatabase_UnsubscribeUsersStatus D userID userIDs = onSubs (UserMongoDriver_UnsubscriptionList (udSubs D) userID userIDs)"

definition userDatabase_GetAllSubscribeList :: "'w user_db \<Rightarrow> string \<Rightarrow> ('w, string list) ugo" where
  "userDatabase_GetAllSubscribeList D userID = onSubs (UserMongoDriver_GetAllSubscribeList (udSubs D) userID)"

definition userDatabase_GetSubscribedList :: "'w user_db \<Rightarrow> string \<Rightarrow> ('w, string list) ugo" where
  "userDatabase_GetSubscribedList D userID = onSubs (UserMongoDriver_GetSubscribedList (udSubs D) userID)"

definition userDatabase_GetUserStatus :: "'w user_db \<Rightarrow> string list \<Rightarrow> ('w, OnlineStatus list) ugo" where
  "userDatabase_GetUserStatus D userIDs = UserCacheRedis_GetUserStatus D userIDs"

definition userDatabase_SetUserStatus :: "'w user_db \<Rightarrow> string \<Rightarrow> int \<Rightarrow> int \<Rightarrow> ('w, unit) ugo" where
  "userDatabase_SetUserStatus D userID status platformID = UserCacheRedis_SetUserStatus D userID status platformID"

definition userDatabase_AddUserCommand :: "'w user_db \<Rightarrow> int \<Rightarrow> string \<Rightarrow> int \<Rightarrow> string \<Rightarrow> string \<Rightarrow> ('w, unit) ugo" where
  "userDatabase_AddUserCommand D now userID ty uuid value' =
     onCommands (UserMgo_AddUserCommand (udCommands D) now userID ty uuid value')"

definition userDatabase_DeleteUserCommand :: "'w user_db \<Rightarrow> string \<Rightarrow> int \<Rightarrow> string \<Rightarrow> ('w, unit) ugo" where
  "userDatabase_DeleteUserCommand D userID ty uuid = onCommands (UserMgo_DeleteUserCommand (udCommands D) userID ty uuid)"

definition userDatabase_UpdateUserCommand :: "'w user_db \<Rightarrow> string \<Rightarrow> int \<Rightarrow> string \<Rightarrow> string \<Rightarrow> ('w, unit) ugo" where
  "userDatabase_UpdateUserCommand D userID ty uuid value' =
     onCommands (UserMgo_UpdateUserCommand (udCommands D) userID ty uuid value')"

definition userDatabase_GetUserCommands :: "'w user_db \<Rightarrow> string \<Rightarrow> int \<Rightarrow> ('w, CommandInfoResp list) ugo" where
  "userDatabase_GetUserCommands D userID ty = onCommands (UserMgo_GetUserCommand (udCommands D) userID ty)"

end
