(* ===== verification/UserServer.thy ===== *)
theory UserServer
  imports UserDB RpcClients Callbacks Notification UserClient
begin

text \<open>
  The user service (\<open>internal/rpc/user\<close>): its webhooks, the conversions
  (\<open>pkg/common/convert/user.go\<close>), the notifications and every operation.
\<close>

section \<open>Conversions (convert/user.go)\<close>

definition UsersDB2Pb :: "UserModel list \<Rightarrow> UserInfo list" where
  "UsersDB2Pb users = map (\<lambda>u. \<lparr> uUserID = umUserID u, uNickname = umNickname u, uFaceURL = umFaceURL u, uEx = umEx u,
     uCreateTime = umCreateTime u, uAppMangerLevel = umAppMangerLevel u, uGlobalRecvMsgOpt = umGlobalRecvMsgOpt u \<rparr>) users"

definition UserPb2DB :: "UserInfo \<Rightarrow> UserModel" where
  "UserPb2DB u = \<lparr> umUserID = uUserID u, umNickname = uNickname u, umFaceURL = uFaceURL u, umEx = uEx u,
     umAppMangerLevel = uAppMangerLevel u, umGlobalRecvMsgOpt = uGlobalRecvMsgOpt u, umCreateTime = uCreateTime u \<rparr>"

text \<open>Zero values are left out.\<close>

definition UserPb2DBMap :: "UserInfo \<Rightarrow> user_field list" where
  "UserPb2DBMap u =
     (if uNickname u \<noteq> [] then [UfNickname (uNickname u)] else [])
     @ (if uFaceURL u \<noteq> [] then [UfFaceURL (uFaceURL u)] else [])
     @ (if uEx u \<noteq> [] then [UfEx (uEx u)] else [])
     @ (if uAppMangerLevel u \<noteq> 0 then [UfAppManagerLevel (uAppMangerLevel u)] else [])
     @ (if uGlobalRecvMsgOpt u \<noteq> 0 then [UfGlobalRecvMsgOpt (uGlobalRecvMsgOpt u)] else [])"

record UserInfoWithEx =
  uxUserID :: string
  uxNickname :: "string option"
  uxFaceURL :: "string option"
  uxEx :: "string option"
  uxGlobalRecvMsgOpt :: "int option"

definition opt_field :: "('v \<Rightarrow> user_field) \<Rightarrow> 'v option \<Rightarrow> user_field list" where
  "opt_field f v = (case v of None \<Rightarrow> [] | Some x \<Rightarrow> [f x])"

definition UserPb2DBMapEx :: "UserInfoWithEx \<Rightarrow> user_field list" where
  "UserPb2DBMapEx u = opt_field UfNickname (uxNickname u) @ opt_field UfFaceURL (uxFaceURL u)
     @ opt_field UfEx (uxEx u) @ opt_field UfGlobalRecvMsgOpt (uxGlobalRecvMsgOpt u)"

section \<open>The server\<close>

record user_cb_config =
  ukBeforeUpdateUserInfo :: CallBackConfig
  ukAfterUpdateUserInfo :: CallBackConfig
  ukBeforeUpdateUserInfoEx :: CallBackConfig
  ukAfterUpdateUserInfoEx :: CallBackConfig
  ukBeforeUserRegister :: CallBackConfig
  ukAfterUserRegister :: CallBackConfig

datatype user_callback =
    CbBeforeUpdateUserInfo string string string
  | CbAfterUpdateUserInfo string string string
  | CbBeforeUpdateUserInfoEx string "string option" "string option"
  | CbAfterUpdateUserInfoEx string "string option" "string option"
  | CbBeforeUserRegister string "UserInfo list"
  | CbAfterUserRegister string "UserInfo list"

record CallbackBeforeUpdateUserInfoResp =
  buCommon :: CommonCallbackResp
  buNickname :: "string option"
  buFaceURL :: "string option"
  buEx :: "string option"

datatype user_tips =
    UserInfoUpdatedTips string
  | UserStatusChangeTips string string int int

record 'w user_server =
  uvDB :: "'w user_db"
  uvGetFriendIDs :: "string \<Rightarrow> ('w, string list) go"
  uvGroup :: "'w group_stub"
  uvSender :: "'w notification_sender"
  uvTips :: "user_tips \<Rightarrow> go_error + string"
  uvPost :: "user_callback \<Rightarrow> ('w, string) go"
  uvDecode :: "string \<Rightarrow> go_error + CommonCallbackResp"
  uvDecodeUpdate :: "string \<Rightarrow> go_error + CallbackBeforeUpdateUserInfoResp"
  uvDecodeRegister :: "string \<Rightarrow> go_error + (CommonCallbackResp \<times> UserInfo list)"
  uvErrorText :: "go_error \<Rightarrow> string"
  uvCbConfig :: user_cb_config
  uvAuthCfg :: auth_config
  uvRandom :: "('w, int list) go"

section \<open>Webhooks (callback.go)\<close>

definition user_post ::
  "'w user_server \<Rightarrow> (string \<Rightarrow> go_error + 'r) \<Rightarrow> ('r \<Rightarrow> CommonCallbackResp) \<Rightarrow> user_callback \<Rightarrow> CallBackConfig
   \<Rightarrow> ('w, 'r option) ugo" where
  "user_post S decode common req cfg =
     onUserWorld (callBackPostReturn (uvErrorText S) (uvPost S req) decode common cfg)"

definition user_callback_simple :: "'w user_server \<Rightarrow> CallBackConfig \<Rightarrow> CallBackConfig \<Rightarrow> user_callback \<Rightarrow> ('w, unit) ugo" where
  "user_callback_simple S enabled cfg req =
     (if \<not> cbcEnable enabled then retG ()
      else bindG (user_post S (uvDecode S) (\<lambda>c. c) req cfg) (\<lambda>_. retG ()))"

definition CallbackBeforeUpdateUserInfo :: "'w user_server \<Rightarrow> UserInfo \<Rightarrow> ('w, UserInfo) ugo" where
  "CallbackBeforeUpdateUserInfo S u =
     (if \<not> cbcEnable (ukBeforeUpdateUserInfo (uvCbConfig S)) then retG u
      else bindG (user_post S (uvDecodeUpdate S) buCommon (CbBeforeUpdateUserInfo (uUserID u) (uFaceURL u) (uNickname u))
                    (ukBeforeUpdateUserInfo (uvCbConfig S))) (\<lambda>r. case r of
          None \<Rightarrow> retG u
        | Some resp \<Rightarrow> retG (u\<lparr> uFaceURL := NotNilReplace (uFaceURL u) (buFaceURL resp),
            uEx := NotNilReplace (uEx u) (buEx resp), uNickname := NotNilReplace (uNickname u) (buNickname resp) \<rparr>)))"

definition CallbackAfterUpdateUserInfo :: "'w user_server \<Rightarrow> UserInfo \<Rightarrow> ('w, unit) ugo" where
  "CallbackAfterUpdateUserInfo S u = user_callback_simple S (ukAfterUpdateUserInfo (uvCbConfig S))
     (ukBeforeUpdateUserInfo (uvCbConfig S)) (CbAfterUpdateUserInfo (uUserID u) (uFaceURL u) (uNickname u))"

text \<open>\<open>NotNilReplace\<close> of two pointers writes through the old one, which may be nil.\<close>

definition replace_through :: "'v option \<Rightarrow> 'v option \<Rightarrow> ('s, 'v option) go" where
  "replace_through old v = (case v of
       None \<Rightarrow> retG old
     | Some x \<Rightarrow> (case old of None \<Rightarrow> panicG ''nil pointer dereference'' | Some _ \<Rightarrow> retG (Some x)))"

definition CallbackBeforeUpdateUserInfoEx :: "'w user_server \<Rightarrow> UserInfoWithEx \<Rightarrow> ('w, UserInfoWithEx) ugo" where
  "CallbackBeforeUpdateUserInfoEx S u =
     (if \<not> cbcEnable (ukBeforeUpdateUserInfoEx (uvCbConfig S)) then retG u
      else bindG (user_post S (uvDecodeUpdate S) buCommon (CbBeforeUpdateUserInfoEx (uxUserID u) (uxFaceURL u) (uxNickname u))
                    (ukBeforeUpdateUserInfoEx (uvCbConfig S))) (\<lambda>r. case r of
          None \<Rightarrow> retG u
        | Some resp \<Rightarrow>
            bindG (replace_through (uxFaceURL u) (buFaceURL resp)) (\<lambda>face.
            bindG (replace_through (uxEx u) (buEx resp)) (\<lambda>ex.
            bindG (replace_through (uxNickname u) (buNickname resp)) (\<lambda>nick.
              retG (u\<lparr> uxFaceURL := face, uxEx := ex, uxNickname := nick \<rparr>))))))"

definition CallbackAfterUpdateUserInfoEx :: "'w user_server \<Rightarrow> UserInfoWithEx \<Rightarrow> ('w, unit) ugo" where
  "CallbackAfterUpdateUserInfoEx S u = user_callback_simple S (ukAfterUpdateUserInfoEx (uvCbConfig S))
     (ukBeforeUpdateUserInfoEx (uvCbConfig S)) (CbAfterUpdateUserInfoEx (uxUserID u) (uxFaceURL u) (uxNickname u))"

definition CallbackBeforeUserRegister :: "'w user_server \<Rightarrow> string \<Rightarrow> UserInfo list \<Rightarrow> ('w, UserInfo list) ugo" where
  "CallbackBeforeUserRegister S secret users =
     (if \<not> cbcEnable (ukBeforeUserRegister (uvCbConfig S)) then retG users
      else bindG (user_post S (uvDecodeRegister S) fst (CbBeforeUserRegister secret users)
                    (ukBeforeUpdateUserInfo (uvCbConfig S))) (\<lambda>r. case r of
          None \<Rightarrow> retG users
        | Some resp \<Rightarrow> retG (if length (snd resp) \<noteq> 0 then snd resp else users)))"

definition CallbackAfterUserRegister :: "'w user_server \<Rightarrow> string \<Rightarrow> UserInfo list \<Rightarrow> ('w, unit) ugo" where
  "CallbackAfterUserRegister S secret users = user_callback_simple S (ukAfterUserRegister (uvCbConfig S))
     (ukAfterUpdateUserInfo (uvCbConfig S)) (CbAfterUserRegister secret users)"

section \<open>Notifications\<close>

definition user_notify :: "'w user_server \<Rightarrow> int \<Rightarrow> rpc_ctx \<Rightarrow> string \<Rightarrow> string \<Rightarrow> int \<Rightarrow> user_tips \<Rightarrow> ('w, unit) ugo" where
  "user_notify S now ctx sendID recvID contentType tips =
     onUserWorld (Notification (uvSender S) now ctx sendID recvID contentType (uvTips S tips) False)"

definition UserInfoUpdatedNotification_send :: "'w user_server \<Rightarrow> int \<Rightarrow> rpc_ctx \<Rightarrow> string \<Rightarrow> ('w, unit) ugo" where
  "UserInfoUpdatedNotification_send S now ctx changedUserID =
     user_notify S now ctx (ctxOpUserID ctx) changedUserID UserInfoUpdatedNotification (UserInfoUpdatedTips changedUserID)"

definition tell_friend :: "'w user_server \<Rightarrow> int \<Rightarrow> rpc_ctx \<Rightarrow> string \<Rightarrow> string \<Rightarrow> ('w, unit) ugo" where
  "tell_friend S now ctx changedUserID needNotifiedUserID =
     ignoreG (user_notify S now ctx (ctxOpUserID ctx) needNotifiedUserID FriendInfoUpdatedNotification
       (UserInfoUpdatedTips changedUserID))"

definition UserStatusChangeNotification_send ::
  "'w user_server \<Rightarrow> int \<Rightarrow> rpc_ctx \<Rightarrow> string \<Rightarrow> string \<Rightarrow> int \<Rightarrow> int \<Rightarrow> ('w, unit) ugo" where
  "UserStatusChangeNotification_send S now ctx fromUserID toUserID status platformID =
     user_notify S now ctx fromUserID toUserID UserStatusChangeNotification
       (UserStatusChangeTips fromUserID toUserID status platformID)"

section \<open>Start-up\<close>

definition start_users :: "string list \<Rightarrow> string list \<Rightarrow> string list \<Rightarrow> string list \<Rightarrow> go_error + UserModel list" where
  "start_users managers nicknames admins adminNicknames =
     (if length managers \<noteq> length nicknames
      then Inl (Plain ''len(config.Config.Manager.AppManagerUid) != len(config.Config.Manager.Nickname)'')
      else if length admins \<noteq> length adminNicknames
      then Inl (Plain ''len(config.Config.AppNotificationAdmin.AppManagerUid) != len(config.Config.AppNotificationAdmin.Nickname)'')
      else
        let account = (\<lambda>level (v, n). \<lparr> umUserID = v, umNickname = n, umFaceURL = [], umEx = [], umAppMangerLevel = level,
              umGlobalRecvMsgOpt = 0, umCreateTime = - 62135596800000 \<rparr>)
        in Inr (map (account AppAdmin) (zip managers nicknames) @ map (account AppNotificationAdmin) (zip admins adminNicknames)))"

section \<open>Users\<close>

definition userServer_GetDesignateUsers :: "'w user_server \<Rightarrow> string list \<Rightarrow> ('w, UserInfo list) ugo" where
  "userServer_GetDesignateUsers S userIDs =
     bindG (userDatabase_FindWithError (uvDB S) userIDs) (\<lambda>users. retG (UsersDB2Pb users))"

definition userServer_GetDesignateUsersWaitGroup :: "'w user_server \<Rightarrow> string list \<Rightarrow> ('w, UserInfo list) ugo" where
  "userServer_GetDesignateUsersWaitGroup S userIDs =
     bindG (userDatabase_FindWithErrorWaitGroup (uvDB S) userIDs) (\<lambda>users. retG (UsersDB2Pb users))"

definition user_access :: "'w user_server \<Rightarrow> rpc_ctx \<Rightarrow> string \<Rightarrow> ('w, unit) ugo" where
  "user_access S ctx userID = errG (CheckAccessV3 (uvAuthCfg S) (ctxOpUserID ctx) userID)"

definition group_update :: "'w user_server \<Rightarrow> string \<Rightarrow> ('w, unit) ugo" where
  "group_update S userID = ignoreG (onUserWorld (GroupRpcClient_NotificationUserInfoUpdate (uvGroup S) userID))"

text \<open>The part that the two operations share: store, notify, tell the groups and the friends.\<close>

definition store_user :: "'w user_server \<Rightarrow> int \<Rightarrow> rpc_ctx \<Rightarrow> string \<Rightarrow> user_field list \<Rightarrow> bool \<Rightarrow> ('w, unit) ugo" where
  "store_user S now ctx userID data shown =
     bindG (userDatabase_UpdateByMap (uvDB S) userID data) (\<lambda>_.
     bindG (ignoreG (UserInfoUpdatedNotification_send S now ctx userID)) (\<lambda>_.
     bindG (onUserWorld (uvGetFriendIDs S userID)) (\<lambda>friends.
     bindG (whenG shown (group_update S userID)) (\<lambda>_.
       forG friends (tell_friend S now ctx userID)))))"

definition userServer_UpdateUserInfo :: "'w user_server \<Rightarrow> int \<Rightarrow> rpc_ctx \<Rightarrow> UserInfo \<Rightarrow> ('w, unit) ugo" where
  "userServer_UpdateUserInfo S now ctx u0 =
     bindG (user_access S ctx (uUserID u0)) (\<lambda>_.
     bindG (CallbackBeforeUpdateUserInfo S u0) (\<lambda>u.
     bindG (store_user S now ctx (uUserID u) (UserPb2DBMap u) (uNickname u \<noteq> [] \<or> uFaceURL u \<noteq> [])) (\<lambda>_.
     bindG (CallbackAfterUpdateUserInfo S u) (\<lambda>_. group_update S (uUserID u)))))"

definition userServer_UpdateUserInfoEx :: "'w user_server \<Rightarrow> int \<Rightarrow> rpc_ctx \<Rightarrow> UserInfoWithEx \<Rightarrow> ('w, unit) ugo" where
  "userServer_UpdateUserInfoEx S now ctx u0 =
     bindG (user_access S ctx (uxUserID u0)) (\<lambda>_.
     bindG (CallbackBeforeUpdateUserInfoEx S u0) (\<lambda>u.
     bindG (store_user S now ctx (uxUserID u) (UserPb2DBMapEx u) (uxNickname u \<noteq> None \<or> uxFaceURL u \<noteq> None)) (\<lambda>_.
     bindG (CallbackAfterUpdateUserInfoEx S u) (\<lambda>_. group_update S (uxUserID u)))))"

definition userServer_SetGlobalRecvMessageOpt :: "'w user_server \<Rightarrow> int \<Rightarrow> rpc_ctx \<Rightarrow> string \<Rightarrow> int \<Rightarrow> ('w, unit) ugo" where
  "userServer_SetGlobalRecvMessageOpt S now ctx userID opt =
     bindG (userDatabase_FindWithError (uvDB S) [userID]) (\<lambda>_.
     bindG (userDatabase_UpdateByMap (uvDB S) userID [UfGlobalRecvMsgOpt opt]) (\<lambda>_.
       ignoreG (UserInfoUpdatedNotification_send S now ctx userID)))"

definition userServer_AccountCheck :: "'w user_server \<Rightarrow> rpc_ctx \<Rightarrow> string list \<Rightarrow> ('w, (string \<times> string) list) ugo" where
  "userServer_AccountCheck S ctx checkUserIDs =
     (if Duplicate checkUserIDs then failG (Wrap1m ErrArgs ''userID repeated'')
      else
        bindG (errG (CheckAdmin (uvAuthCfg S) (ctxOpUserID ctx))) (\<lambda>_.
        bindG (userDatabase_Find (uvDB S) checkUserIDs) (\<lambda>users.
          retG (map (\<lambda>v. (v, if v \<in> umUserID ` set users then ''registered'' else ''unregistered'')) checkUserIDs))))"

definition userServer_GetPaginationUsers :: "'w user_server \<Rightarrow> pagination \<Rightarrow> ('w, int \<times> UserInfo list) ugo" where
  "userServer_GetPaginationUsers S p =
     bindG (userDatabase_PageFindUser (uvDB S) IMOrdinaryUser AppOrdinaryUsers p) (\<lambda>(n, users).
       retG (wrap32 n, UsersDB2Pb users))"

text \<open>The identifiers, one after the other.\<close>

fun register_check :: "UserInfo list \<Rightarrow> go_error option" where
  "register_check [] = None"
| "register_check (u # us) =
     (if uUserID u = [] then Some (Wrap1m ErrArgs ''userID is empty'')
      else if str_contains (uUserID u) '':'' then Some (Wrap1m ErrArgs (''userID contains '' @ [CHR 0x27, CHR 0x3A, CHR 0x27] @ '' is invalid userID''))
      else register_check us)"

definition userServer_UserRegister :: "'w user_server \<Rightarrow> int \<Rightarrow> string \<Rightarrow> UserInfo list \<Rightarrow> ('w, unit) ugo" where
  "userServer_UserRegister S now secret users0 =
     (if length users0 = 0 then failG (Wrap1m ErrArgs ''users is empty'')
      else if secret \<noteq> cfgSecret (uvAuthCfg S) then failG (Wrap1m ErrNoPermission ''secret invalid'')
      else if DuplicateAny users0 uUserID then failG (Wrap1m ErrArgs ''userID repeated'')
      else
        bindG (errG (register_check users0)) (\<lambda>_.
        bindG (userDatabase_IsExist (uvDB S) (map uUserID users0)) (\<lambda>exist.
        if exist then failG (Wrap1m ErrRegisteredAlready ''userID registered already'')
        else
        bindG (CallbackBeforeUserRegister S secret users0) (\<lambda>users.
        bindG (userDatabase_Create (uvDB S) (map (\<lambda>u. (UserPb2DB u)\<lparr> umCreateTime := now \<rparr>) users)) (\<lambda>_.
          CallbackAfterUserRegister S secret users)))))"

definition userServer_GetGlobalRecvMessageOpt :: "'w user_server \<Rightarrow> string \<Rightarrow> ('w, int) ugo" where
  "userServer_GetGlobalRecvMessageOpt S userID =
     bindG (userDatabase_FindWithError (uvDB S) [userID]) (\<lambda>users.
     bindG (first_of users) (\<lambda>u. retG (umGlobalRecvMsgOpt u)))"

definition userServer_GetAllUserID :: "'w user_server \<Rightarrow> pagination \<Rightarrow> ('w, int \<times> string list) ugo" where
  "userServer_GetAllUserID S p = bindG (userDatabase_GetAllUserID (uvDB S) p) (\<lambda>(n, ids). retG (wrap32 n, ids))"

section \<open>Online status\<close>

abbreviation (input) SubscriberUser :: int where "SubscriberUser \<equiv> 1"
abbreviation (input) Unsubscribe :: int where "Unsubscribe \<equiv> 2"

definition userServer_SubscribeOrCancelUsersStatus ::
  "'w user_server \<Rightarrow> string \<Rightarrow> string list \<Rightarrow> int \<Rightarrow> ('w, OnlineStatus list) ugo" where
  "userServer_SubscribeOrCancelUsersStatus S userID userIDs genre =
     (if genre = SubscriberUser
      then bindG (userDatabase_SubscribeUsersStatus (uvDB S) userID userIDs) (\<lambda>_.
             userDatabase_GetUserStatus (uvDB S) userIDs)
      else if genre = Unsubscribe
      then bindG (userDatabase_UnsubscribeUsersStatus (uvDB S) userID userIDs) (\<lambda>_. retG [])
      else retG [])"

definition userServer_GetUserStatus :: "'w user_server \<Rightarrow> string list \<Rightarrow> ('w, OnlineStatus list) ugo" where
  "userServer_GetUserStatus S userIDs = userDatabase_GetUserStatus (uvDB S) userIDs"

definition userServer_SetUserStatus :: "'w user_server \<Rightarrow> int \<Rightarrow> rpc_ctx \<Rightarrow> string \<Rightarrow> int \<Rightarrow> int \<Rightarrow> ('w, unit) ugo" where
  "userServer_SetUserStatus S now ctx userID status platformID =
     bindG (userDatabase_SetUserStatus (uvDB S) userID status platformID) (\<lambda>_.
     bindG (userDatabase_GetSubscribedList (uvDB S) userID) (\<lambda>list.
       forG list (\<lambda>u. ignoreG (UserStatusChangeNotification_send S now ctx userID u status platformID))))"

definition userServer_GetSubscribeUsersStatus :: "'w user_server \<Rightarrow> string \<Rightarrow> ('w, OnlineStatus list) ugo" where
  "userServer_GetSubscribeUsersStatus S userID =
     bindG (userDatabase_GetAllSubscribeList (uvDB S) userID) (userDatabase_GetUserStatus (uvDB S))"

section \<open>User commands\<close>

definition userServer_ProcessUserCommandGetAll :: "('w, unit) ugo" where
  "userServer_ProcessUserCommandGetAll = panicG ''implement me''"

definition userServer_ProcessUserCommandAdd :: "('w, unit) ugo" where
  "userServer_ProcessUserCommandAdd = retG ()"

definition userServer_ProcessUserCommandDelete :: "'w user_server \<Rightarrow> string \<Rightarrow> int \<Rightarrow> string \<Rightarrow> ('w, unit) ugo" where
  "userServer_ProcessUserCommandDelete S userID ty uuid = userDatabase_DeleteUserCommand (uvDB S) userID ty uuid"

definition userServer_ProcessUserCommandUpdate :: "('w, unit) ugo" where
  "userServer_ProcessUserCommandUpdate = retG ()"

definition userServer_ProcessUserCommandGet :: "('w, CommandInfoResp list) ugo" where
  "userServer_ProcessUserCommandGet = retG []"

section \<open>Notification accounts\<close>

text \<open>Ten decimal digits from random bytes, the first of them not 0.\<close>

definition userServer_genUserID :: "int list \<Rightarrow> string" where
  "userServer_genUserID data = (case data of [] \<Rightarrow> []
     | b # bs \<Rightarrow> map (\<lambda>d. char_of (48 + d)) ((1 + b mod 9) # map (\<lambda>x. x mod 10) bs))"

text \<open>Any error of the lookup, also one that is not \<open>not found\<close>, lets the identifier through.\<close>

fun gen_account_id :: "nat \<Rightarrow> 'w user_server \<Rightarrow> ('w, string) ugo" where
  "gen_account_id 0 S = failG (Wrap1m ErrInternalServer ''gen user id failed'')"
| "gen_account_id (Suc n) S =
     bindG (onUserWorld (uvRandom S)) (\<lambda>data.
       let userId = userServer_genUserID data in
     bindG (attemptG (userDatabase_FindWithError (uvDB S) [userId])) (\<lambda>r. case r of
         Inr _ \<Rightarrow> gen_account_id n S
       | Inl _ \<Rightarrow> retG userId))"

definition userServer_AddNotificationAccount ::
  "'w user_server \<Rightarrow> int \<Rightarrow> rpc_ctx \<Rightarrow> string \<Rightarrow> string \<Rightarrow> string \<Rightarrow> ('w, string \<times> string \<times> string) ugo" where
  "userServer_AddNotificationAccount S now ctx userID0 nickname faceURL =
     bindG (errG (CheckIMAdmin (uvAuthCfg S) (ctxOpUserID ctx))) (\<lambda>_.
     bindG (if userID0 = [] then gen_account_id 20 S
            else bindG (attemptG (userDatabase_FindWithError (uvDB S) [userID0])) (\<lambda>r. case r of
                Inr _ \<Rightarrow> failG (Wrap1m ErrArgs ''userID is used'')
              | Inl _ \<Rightarrow> retG userID0)) (\<lambda>userID.
     bindG (userDatabase_Create (uvDB S) [\<lparr> umUserID = userID, umNickname = nickname, umFaceURL = faceURL, umEx = [],
              umAppMangerLevel = AppNotificationAdmin, umGlobalRecvMsgOpt = 0, umCreateTime = now \<rparr>]) (\<lambda>_.
       retG (userID, nickname, faceURL))))"

definition userServer_UpdateNotificationAccountInfo ::
  "'w user_server \<Rightarrow> rpc_ctx \<Rightarrow> string \<Rightarrow> string \<Rightarrow> string \<Rightarrow> ('w, unit) ugo" where
  "userServer_UpdateNotificationAccountInfo S ctx userID nickname faceURL =
     bindG (errG (CheckIMAdmin (uvAuthCfg S) (ctxOpUserID ctx))) (\<lambda>_.
     bindG (attemptG (userDatabase_FindWithError (uvDB S) [userID])) (\<lambda>r. case r of
         Inl _ \<Rightarrow> failG (codeError_Wrap ErrArgs [])
       | Inr _ \<Rightarrow> userDatabase_UpdateByMap (uvDB S) userID
           ((if nickname \<noteq> [] then [UfNickname nickname] else []) @ (if faceURL \<noteq> [] then [UfFaceURL faceURL] else []))))"

definition userServer_userModelToResp ::
  "'w user_server \<Rightarrow> UserModel list \<Rightarrow> pagination \<Rightarrow> ('w, int \<times> (string \<times> string \<times> string) list) ugo" where
  "userServer_userModelToResp S users p =
     (let accounts = map (\<lambda>v. (umUserID v, umFaceURL v, umNickname v))
            (filter (\<lambda>v. umAppMangerLevel v = AppNotificationAdmin \<and> \<not> IsContain (umUserID v) (cfgIMAdmin (uvAuthCfg S))) users)
      in bindG (liftG (Paginate accounts (fst p) (snd p))) (\<lambda>page. retG (int (length accounts), page)))"

definition userServer_SearchNotificationAccount ::
  "'w user_server \<Rightarrow> rpc_ctx \<Rightarrow> string \<Rightarrow> pagination \<Rightarrow> ('w, int \<times> (string \<times> string \<times> string) list) ugo" where
  "userServer_SearchNotificationAccount S ctx keyword p =
     bindG (errG (CheckIMAdmin (uvAuthCfg S) (ctxOpUserID ctx))) (\<lambda>_.
     if keyword \<noteq> []
     then bindG (userDatabase_Find (uvDB S) [keyword]) (\<lambda>users.
          bindG (userServer_userModelToResp S users p) (\<lambda>resp.
          if fst resp \<noteq> 0 then retG resp
          else bindG (userDatabase_FindByNickname (uvDB S) keyword) (\<lambda>users'. userServer_userModelToResp S users' p)))
     else bindG (userDatabase_FindNotification (uvDB S) AppNotificationAdmin) (\<lambda>users. userServer_userModelToResp S users p))"

definition userServer_GetNotificationAccount :: "'w user_server \<Rightarrow> string \<Rightarrow> ('w, unit) ugo" where
  "userServer_GetNotificationAccount S userID =
     (if userID = [] then failG (Wrap1m ErrArgs ''userID is empty'')
      else bindG (attemptG (userDatabase_GetUserByID (uvDB S) userID)) (\<lambda>r. case r of
          Inl _ \<Rightarrow> failG (codeError_Wrap ErrUserIDNotFound [])
        | Inr user \<Rightarrow>
            if umAppMangerLevel user = AppAdmin \<or> umAppMangerLevel user = AppNotificationAdmin then retG ()
            else failG (Wrap1m ErrNoPermission ''notification messages cannot be sent for this ID'')))"

definition userServer_UserRegisterCount :: "'w user_server \<Rightarrow> int \<Rightarrow> int \<Rightarrow> ('w, int \<times> int \<times> (string \<rightharpoonup> int)) ugo" where
  "userServer_UserRegisterCount S start end' =
     (if start > end' then failG (Wrap1m ErrArgs ''start > end'')
      else
        bindG (userDatabase_CountTotal (uvDB S) None) (\<lambda>n.
        bindG (userDatabase_CountTotal (uvDB S) (Some start)) (\<lambda>before'.
        bindG (userDatabase_CountRangeEverydayTotal (uvDB S) start end') (\<lambda>count. retG (n, before', count)))))"

end
