(* ===== verification/UserFacts.thy ===== *)
theory UserFacts
  imports UserServer CacheFacts
begin

text \<open>
  Facts of the user service: which of its operations leave the collection of users alone, and what
  the two that write it do.
\<close>

section \<open>State and assumptions\<close>

definition users_of :: "'w user_state \<Rightarrow> UserModel list" where
  "users_of s = fst (uzUsers s)"

definition ucache :: "'w user_state \<Rightarrow> string \<rightharpoonup> string" where
  "ucache s = fst (uzCache s)"

text \<open>The user collection has its unique index, transactions are supported.\<close>

definition user_env :: "'w user_db \<Rightarrow> bool" where
  "user_env D \<longleftrightarrow> coll_laws (udUsers D) umUserID \<and> tx_laws users_of ucache (udTx D) \<and> tx_on (udTx D)"

lemma envU:
  assumes "user_env D"
  shows "coll_laws (udUsers D) umUserID" "tx_laws users_of ucache (udTx D)" "tx_on (udTx D)"
  using assms by (simp_all add: user_env_def)

lemmas user_part_defs = onUserDocs_def onUserWorld_def onCommands_def onSubs_def onUserCache_def

lemma silent_user_parts [quiet]:
  "silent users_of (onUserWorld m1)" "silent users_of (onCommands m2)" "silent users_of (onSubs m3)" "silent users_of (onUserCache m4)"
  unfolding user_part_defs by (auto intro!: silent_zoom_other simp: users_of_def)

lemma silent_user_read [quiet]: "silent fst m \<Longrightarrow> silent users_of (onUserDocs m)"
  unfolding user_part_defs by (rule silentI) (clarsimp simp: zoomG_iff users_of_def; drule (1) silent_fstD; simp)

lemma userCache_silent [quiet]: "rc_silent users_of (userCache D)"
  by (simp add: rc_silent_def userCache_def silent_user_parts)

section \<open>Operations that leave the users alone\<close>

lemma silent_user_takes [quiet]:
  assumes "user_env D"
  shows "silent users_of (onUserDocs (UserMgo_Take (udUsers D) u))" "silent users_of (onUserDocs (UserMgo_Find (udUsers D) us))"
  unfolding UserMgo_Take_def UserMgo_Find_def
  by (intro silent_user_read silent_FindOne silent_Find; rule envU(1) [OF assms])+

lemma silent_all_found [quiet]: "silent q (all_found ids us)"
  unfolding all_found_def by (intro quiet)

lemma silent_user_finds [quiet]:
  assumes "user_env D"
  shows "silent users_of (userDatabase_Find D ids)" "silent users_of (userDatabase_FindWithError D ids)"
    "silent users_of (userDatabase_IsExist D ids)" "silent users_of (userDatabase_GetUserByID D u)"
  unfolding userDatabase_Find_def userDatabase_FindWithError_def UserCacheRedis_GetUsersInfo_def userDatabase_IsExist_def
    userDatabase_GetUserByID_def
  by (intro quiet assms)+

lemma silent_user_status [quiet]:
  "silent users_of (userDatabase_GetUserStatus D ids)" "silent users_of (userDatabase_SetUserStatus D u st p)"
  unfolding userDatabase_GetUserStatus_def UserCacheRedis_GetUserStatus_def userDatabase_SetUserStatus_def
    UserCacheRedis_SetUserStatus_def UserCacheRedis_refreshStatusOffline_def UserCacheRedis_refreshStatusOnline_def
    read_status_def store_status_def Let_def
  by (intro quiet)+

lemma silent_userExecDel [quiet]: "silent users_of (userExecDel D ks)"
  unfolding userExecDel_def by (intro quiet)

lemma silent_user_post [quiet]: "silent users_of (user_post S dec com req cfg)" "silent users_of (user_callback_simple S a b req)"
  unfolding user_callback_simple_def user_post_def by (intro quiet)+

lemma silent_replace_through [quiet]: "silent q (replace_through a b)"
  unfolding replace_through_def by (intro quiet)

lemma silent_user_callbacks [quiet]:
  "silent users_of (CallbackBeforeUpdateUserInfo S u)" "silent users_of (CallbackAfterUpdateUserInfo S u)"
  "silent users_of (CallbackBeforeUpdateUserInfoEx S x)" "silent users_of (CallbackAfterUpdateUserInfoEx S x)"
  "silent users_of (CallbackBeforeUserRegister S secret us)" "silent users_of (CallbackAfterUserRegister S secret us)"
  unfolding CallbackBeforeUpdateUserInfo_def CallbackAfterUpdateUserInfo_def CallbackBeforeUpdateUserInfoEx_def
    CallbackAfterUpdateUserInfoEx_def CallbackBeforeUserRegister_def CallbackAfterUserRegister_def
  by (intro quiet)+

lemma silent_user_notices [quiet]:
  "silent users_of (user_notify S now ctx a b ty tips)" "silent users_of (UserInfoUpdatedNotification_send S now ctx u)"
  "silent users_of (tell_friend S now ctx u v)" "silent users_of (UserStatusChangeNotification_send S now ctx u v st p)"
  "silent users_of (group_update S u)"
  unfolding user_notify_def UserInfoUpdatedNotification_send_def tell_friend_def UserStatusChangeNotification_send_def group_update_def
  by (intro quiet)+

lemma silent_gen_account_id [quiet]: "user_env (uvDB S) \<Longrightarrow> silent users_of (gen_account_id n S)"
  by (induction n) (auto simp: Let_def intro!: quiet)

section \<open>Identifiers\<close>

definition good_id :: "string \<Rightarrow> bool" where
  "good_id u \<longleftrightarrow> u \<noteq> [] \<and> CHR '':'' \<notin> set u"

text \<open>No identifier is stored twice or badly formed, and those of the list \<open>old\<close> come first.\<close>

definition ids_wf :: "string list \<Rightarrow> string list \<Rightarrow> bool" where
  "ids_wf old ids \<longleftrightarrow> distinct ids \<and> (\<forall>u \<in> set ids. good_id u) \<and> (\<exists>new. ids = old @ new)"

definition users_inv :: "string list \<Rightarrow> 'w user_state \<Rightarrow> bool" where
  "users_inv old s \<longleftrightarrow> ids_wf old (map umUserID (users_of s))"

lemma users_silent_inv: "silent users_of m \<Longrightarrow> preserves (users_inv old) m"
  unfolding users_inv_def [abs_def] by (rule silent_pres)

lemma colon_contains: "str_contains u '':'' \<longleftrightarrow> CHR '':'' \<in> set u"
  by (induction u) auto

lemma register_check_iff: "register_check us = None \<longleftrightarrow> (\<forall>u \<in> set us. good_id (uUserID u))"
  by (induction us) (auto simp: good_id_def colon_contains)

lemma digit_no_colon: "0 \<le> d \<Longrightarrow> d < 10 \<Longrightarrow> char_of (48 + d) \<noteq> CHR '':''" for d :: int
  by (rule notI, drule arg_cong [where f = "of_char :: char \<Rightarrow> int"]) simp

lemma genUserID_good:
  assumes "data \<noteq> []" "\<forall>b \<in> set data. 0 \<le> b"
  shows "good_id (userServer_genUserID data)"
  using assms
proof (cases data)
  case (Cons b bs)
  define ds where "ds = (1 + b mod 9) # map (\<lambda>x. x mod 10) bs"
  have "0 \<le> d \<and> d < 10" if "d \<in> set ds" for d using that unfolding ds_def by (auto; presburger)
  then have *: "\<forall>d \<in> set ds. char_of (48 + d) \<noteq> CHR '':''" by (intro ballI digit_no_colon) blast+
  have "CHR '':'' \<notin> set (map (\<lambda>d. char_of (48 + d)) ds)"
  proof
    assume "CHR '':'' \<in> set (map (\<lambda>d. char_of (48 + d)) ds)"
    then obtain d where "d \<in> set ds" "CHR '':'' = char_of (48 + d)" unfolding list.set_map by (rule imageE)
    with * show False by metis
  qed
  moreover have "userServer_genUserID data = map (\<lambda>d. char_of (48 + d)) ds" "ds \<noteq> []"
    unfolding userServer_genUserID_def Cons ds_def by simp_all
  ultimately show ?thesis unfolding good_id_def by simp
qed (use assms in simp)

section \<open>Writes\<close>

lemma user_tx_inv:
  assumes E: "user_env D" and fn: "preserves (users_inv old) fn"
  shows "preserves (users_inv old) (Mongo_Transaction (udTx D) fn)"
proof (rule preservesI)
  fix s r s' assume s: "users_inv old s" and run: "Mongo_Transaction (udTx D) fn s = (r, s')"
  have same: "users_inv old t \<longleftrightarrow> users_inv old t'" if "users_of t = users_of t'" for t t' :: "'a user_state"
    using that by (simp add: users_inv_def)
  from Transaction_any [where I = "\<lambda>_. True", OF envU(2,3) [OF E] run TrueI TrueI]
  show "users_inv old s'"
  proof (elim disjE exE conjE)
    assume "users_of s' = users_of s" with s show ?thesis by (simp add: same [of s' s])
  next
    fix s1 s2 assume t: "users_of s1 = users_of s" "fn s1 = (Ok (), s2)" "users_of s' = users_of s2"
    from s t(1) have "users_inv old s1" by (simp add: same [of s1 s])
    from preservesD [OF fn this t(2)] t(3) show ?thesis by (simp add: same [of s' s2])
  qed
qed

lemma Create_inv:
  assumes E: "user_env D" and good: "\<forall>u \<in> set us. good_id (umUserID u)"
  shows "preserves (users_inv old) (userDatabase_Create D us)"
  unfolding userDatabase_Create_def userDatabase_Create_tx_def
proof (rule user_tx_inv [OF E], rule preserves_bind)
  show "preserves (users_inv old) (onUserDocs (UserMgo_Create (udUsers D) us))"
  proof (rule preservesI)
    fix s r s' assume s: "users_inv old s" and run: "onUserDocs (UserMgo_Create (udUsers D) us) s = (r, s')"
    from run obtain n where "users_of s' = users_of s @ take n us" "unique_keys umUserID (users_of s) \<longrightarrow> unique_keys umUserID (users_of s')"
      unfolding onUserDocs_def UserMgo_Create_def zoomG_iff by (auto simp: users_of_def dest!: InsertMany_any [OF envU(1) [OF E]])
    then show "users_inv old s'" using s good by (auto simp: users_inv_def ids_wf_def unique_keys_def dest: in_set_takeD)
  qed
qed (intro users_silent_inv silent_userExecDel)

lemma set_user_fields_id [simp]: "umUserID (fold set_user_field args u) = umUserID u"
proof (induction args arbitrary: u)
  case (Cons a as) then show ?case by (cases a) simp_all
qed simp

lemma UpdateByMap_ids:
  assumes E: "user_env D" and run: "onUserDocs (UserMgo_UpdateByMap (udUsers D) u args) s = (r, s')"
  shows "map umUserID (users_of s') = map umUserID (users_of s)"
  using run unfolding onUserDocs_def UserMgo_UpdateByMap_def zoomG_iff
  by (auto simp: users_of_def retG_def map_update_first split: if_splits dest!: UpdateOne_any [OF envU(1) [OF E]])

lemma UpdateByMap_inv:
  assumes E: "user_env D"
  shows "preserves (users_inv old) (userDatabase_UpdateByMap D u args)"
  unfolding userDatabase_UpdateByMap_def userDatabase_UpdateByMap_tx_def
proof (rule user_tx_inv [OF E], rule preserves_bind)
  show "preserves (users_inv old) (onUserDocs (UserMgo_UpdateByMap (udUsers D) u args))"
    by (rule preservesI) (simp add: users_inv_def UpdateByMap_ids [OF E])
qed (intro users_silent_inv silent_userExecDel)

section \<open>Operations\<close>

text \<open>The webhook before a registration may replace the users; here it is off.  Random bytes are bytes.\<close>

definition register_plain :: "'w user_server \<Rightarrow> bool" where
  "register_plain S \<longleftrightarrow> \<not> cbcEnable (ukBeforeUserRegister (uvCbConfig S))"

definition random_bytes :: "'w user_server \<Rightarrow> bool" where
  "random_bytes S \<longleftrightarrow> (\<forall>w data w'. uvRandom S w = (Ok data, w') \<longrightarrow> data \<noteq> [] \<and> (\<forall>b \<in> set data. 0 \<le> b))"

lemma sum_neither: "\<forall>x. a \<noteq> Inl x \<Longrightarrow> \<forall>y. a \<noteq> Inr y \<Longrightarrow> False"
  by (cases a) auto

lemma preserves_sum:
  "(\<And>e. preserves P (f e)) \<Longrightarrow> (\<And>y. preserves P (g y)) \<Longrightarrow> preserves P (case r of Inl e \<Rightarrow> f e | Inr y \<Rightarrow> g y)"
  by (cases r) auto

lemma store_user_inv:
  assumes E: "user_env (uvDB S)"
  shows "preserves (users_inv old) (store_user S now ctx u data shown)"
  unfolding store_user_def whenG_def
  by (intro preserves_bind UpdateByMap_inv E users_silent_inv quiet)

lemma user_updates_inv:
  assumes E: "user_env (uvDB S)"
  shows "preserves (users_inv old) (userServer_UpdateUserInfo S now ctx u)"
    "preserves (users_inv old) (userServer_UpdateUserInfoEx S now ctx x)"
    "preserves (users_inv old) (userServer_SetGlobalRecvMessageOpt S now ctx v opt)"
    "preserves (users_inv old) (userServer_UpdateNotificationAccountInfo S ctx v nick face)"
  unfolding userServer_UpdateUserInfo_def userServer_UpdateUserInfoEx_def userServer_SetGlobalRecvMessageOpt_def
    userServer_UpdateNotificationAccountInfo_def user_access_def
  by (intro preserves_bind preserves_sum store_user_inv UpdateByMap_inv E; rule users_silent_inv; intro quiet E)+

lemma UserRegister_inv:
  assumes E: "user_env (uvDB S)" and W: "register_plain S"
  shows "preserves (users_inv old) (userServer_UserRegister S now secret users)"
proof -
  let ?docs = "map (\<lambda>u. (UserPb2DB u)\<lparr> umCreateTime := now \<rparr>) users"
  have create: "preserves (users_inv old) (userDatabase_Create (uvDB S) ?docs)" if "register_check users = None"
    using that by (intro Create_inv E) (simp add: register_check_iff UserPb2DB_def)
  have off: "CallbackBeforeUserRegister S secret users = retG users"
    using W by (simp add: CallbackBeforeUserRegister_def register_plain_def)
  show ?thesis
  proof (cases "register_check users")
    case None
    then show ?thesis unfolding userServer_UserRegister_def off bindG_ret
      by (intro preserves_if preserves_fail preserves_bind create users_silent_inv quiet E)
  qed (simp add: userServer_UserRegister_def errG_def)
qed

lemma gen_account_id_good:
  assumes R: "random_bytes S"
  shows "gen_account_id n S s = (Ok u, s') \<Longrightarrow> good_id u"
proof (induction n arbitrary: s)
  case (Suc n)
  from R have G: "good_id (userServer_genUserID data)" if "uvRandom S w = (Ok data, w')" for w data w'
    using that by (auto simp: random_bytes_def intro: genUserID_good)
  show ?case using Suc.prems
    by (auto simp: bindG_Ok_iff Let_def onUserWorld_def zoomG_iff retG_def split: sum.splits dest: Suc.IH G sum_neither)
qed (simp add: failG_def)

lemma AddNotificationAccount_inv:
  assumes E: "user_env (uvDB S)" and R: "random_bytes S" and good: "u = [] \<or> good_id u"
  shows "preserves (users_inv old) (userServer_AddNotificationAccount S now ctx u nick face)"
  unfolding userServer_AddNotificationAccount_def
proof (rule preserves_bind [OF users_silent_inv [OF silent_errG]], rule preserves_bind_Ok)
  let ?id = "if u = [] then gen_account_id 20 S
            else bindG (attemptG (userDatabase_FindWithError (uvDB S) [u])) (\<lambda>r. case r of
                Inr _ \<Rightarrow> failG (Wrap1m ErrArgs ''userID is used'') | Inl _ \<Rightarrow> retG u)"
  show "preserves (users_inv old) ?id" by (intro users_silent_inv quiet E)
  fix s v s' assume "?id s = (Ok v, s')"
  with good have "good_id v"
    by (auto simp: bindG_Ok_iff retG_def failG_def split: if_splits sum.splits dest: gen_account_id_good [OF R] sum_neither)
  then show "preserves (users_inv old) (bindG (userDatabase_Create (uvDB S) [\<lparr> umUserID = v, umNickname = nick, umFaceURL = face, umEx = [],
              umAppMangerLevel = AppNotificationAdmin, umGlobalRecvMsgOpt = 0, umCreateTime = now \<rparr>]) (\<lambda>_. retG (v, nick, face)))"
    by (intro preserves_bind preserves_ret Create_inv E) simp
qed

lemma user_status_inv:
  "preserves (users_inv old) (userServer_SubscribeOrCancelUsersStatus S u us g)"
  "preserves (users_inv old) (userServer_SetUserStatus S now ctx u st p)"
  "preserves (users_inv old) (userServer_ProcessUserCommandDelete S u ty uuid)"
  unfolding userServer_SubscribeOrCancelUsersStatus_def userServer_SetUserStatus_def userServer_ProcessUserCommandDelete_def
    userDatabase_SubscribeUsersStatus_def userDatabase_UnsubscribeUsersStatus_def userDatabase_GetSubscribedList_def
    userDatabase_DeleteUserCommand_def
  by (intro users_silent_inv quiet)+

end
