(* ===== verification/UserProps.thy ===== *)
theory UserProps
  imports UserFacts FriendProps MsgServerDemo
begin

text \<open>
  The user service as a state machine: \<open>user_step\<close> is one request, whatever its outcome.  The property
  at the end says that the identifiers of the users stay well formed and are never lost.
\<close>

section \<open>Queries\<close>

lemma silent_user_pages [quiet]:
  assumes "user_env D"
  shows "silent users_of (userDatabase_PageFindUser D l1 l2 p)" "silent users_of (userDatabase_GetAllUserID D p)"
    "silent users_of (userDatabase_FindByNickname D v)" "silent users_of (userDatabase_FindNotification D l)"
    "silent users_of (userDatabase_CountTotal D t)" "silent users_of (userDatabase_CountRangeEverydayTotal D a b)"
    "silent users_of (userDatabase_FindWithErrorWaitGroup D ids)"
proof -
  note L = envU(1) [OF assms]
  show "silent users_of (userDatabase_PageFindUser D l1 l2 p)" "silent users_of (userDatabase_GetAllUserID D p)"
    unfolding userDatabase_PageFindUser_def UserMgo_PageFindUser_def userDatabase_GetAllUserID_def UserMgo_GetAllUserID_def
    by (intro silent_user_read silent_FindPage [OF L] quiet)+
  show "silent users_of (userDatabase_FindByNickname D v)" "silent users_of (userDatabase_FindNotification D l)"
    unfolding userDatabase_FindByNickname_def UserMgo_TakeByNickname_def userDatabase_FindNotification_def UserMgo_TakeNotification_def
    by (intro silent_user_read silent_Find [OF L])+
  show "silent users_of (userDatabase_CountTotal D t)"
    unfolding userDatabase_CountTotal_def UserMgo_CountTotal_def by (intro silent_user_read silent_cases(3) silent_Count [OF L])
  show "silent users_of (userDatabase_CountRangeEverydayTotal D a b)"
    unfolding userDatabase_CountRangeEverydayTotal_def UserMgo_CountRangeEverydayTotal_def
    by (intro silent_user_read silent_rules silent_Group [OF L])
  show "silent users_of (userDatabase_FindWithErrorWaitGroup D ids)"
    unfolding userDatabase_FindWithErrorWaitGroup_def UserCacheRedis_GetUsersInfoWaitGroup_def by (intro quiet assms)
qed

lemma silent_first_of [quiet]: "silent q (first_of xs)"
  by (cases xs) (simp_all add: first_of_def quiet)

lemma silent_userModelToResp [quiet]: "silent q (userServer_userModelToResp S us p)"
  unfolding userServer_userModelToResp_def Let_def by (intro quiet)

lemma user_queries_silent [quiet]:
  assumes "user_env (uvDB S)"
  shows "silent users_of (userServer_GetDesignateUsers S ids)" "silent users_of (userServer_GetDesignateUsersWaitGroup S ids)"
    "silent users_of (userServer_AccountCheck S ctx ids)" "silent users_of (userServer_GetPaginationUsers S p)"
    "silent users_of (userServer_GetGlobalRecvMessageOpt S u)" "silent users_of (userServer_GetAllUserID S p)"
    "silent users_of (userServer_GetUserStatus S ids)" "silent users_of (userServer_GetSubscribeUsersStatus S u)"
    "silent users_of (userServer_SearchNotificationAccount S ctx kw p)" "silent users_of (userServer_GetNotificationAccount S u)"
    "silent users_of (userServer_UserRegisterCount S a b)"
  unfolding userServer_GetDesignateUsers_def userServer_GetDesignateUsersWaitGroup_def userServer_AccountCheck_def
    userServer_GetPaginationUsers_def userServer_GetGlobalRecvMessageOpt_def userServer_GetAllUserID_def userServer_GetUserStatus_def
    userServer_GetSubscribeUsersStatus_def userDatabase_GetAllSubscribeList_def userServer_SearchNotificationAccount_def
    userServer_GetNotificationAccount_def userServer_UserRegisterCount_def
  by (intro quiet assms)+

section \<open>Requests as steps\<close>

text \<open>A notification account gets an identifier of the form that a registration asks for; the code does not check it.\<close>

inductive user_step :: "'w user_server \<Rightarrow> 'w user_state \<Rightarrow> 'w user_state \<Rightarrow> bool" for S where
  us_register: "userServer_UserRegister S now secret us s = (r, s') \<Longrightarrow> user_step S s s'"
| us_update: "userServer_UpdateUserInfo S now ctx u s = (r, s') \<Longrightarrow> user_step S s s'"
| us_update_ex: "userServer_UpdateUserInfoEx S now ctx x s = (r, s') \<Longrightarrow> user_step S s s'"
| us_opt: "userServer_SetGlobalRecvMessageOpt S now ctx v opt s = (r, s') \<Longrightarrow> user_step S s s'"
| us_account: "userServer_AddNotificationAccount S now ctx v nick face s = (ra, s') \<Longrightarrow> v = [] \<or> good_id v \<Longrightarrow> user_step S s s'"
| us_account_info: "userServer_UpdateNotificationAccountInfo S ctx v nick face s = (r, s') \<Longrightarrow> user_step S s s'"
| us_subscribe: "userServer_SubscribeOrCancelUsersStatus S v vs g s = (rs, s') \<Longrightarrow> user_step S s s'"
| us_status: "userServer_SetUserStatus S now ctx v st p s = (r, s') \<Longrightarrow> user_step S s s'"
| us_command: "userServer_ProcessUserCommandDelete S v ty uuid s = (r, s') \<Longrightarrow> user_step S s s'"
| us_users: "userServer_GetDesignateUsers S vs s = (ru, s') \<Longrightarrow> user_step S s s'"
| us_users_wait: "userServer_GetDesignateUsersWaitGroup S vs s = (ru, s') \<Longrightarrow> user_step S s s'"
| us_check: "userServer_AccountCheck S ctx vs s = (rc, s') \<Longrightarrow> user_step S s s'"
| us_page: "userServer_GetPaginationUsers S pg s = (rp, s') \<Longrightarrow> user_step S s s'"
| us_get_opt: "userServer_GetGlobalRecvMessageOpt S v s = (ro, s') \<Longrightarrow> user_step S s s'"
| us_all: "userServer_GetAllUserID S pg s = (rl, s') \<Longrightarrow> user_step S s s'"
| us_get_status: "userServer_GetUserStatus S vs s = (rs, s') \<Longrightarrow> user_step S s s'"
| us_subscribed: "userServer_GetSubscribeUsersStatus S v s = (rs, s') \<Longrightarrow> user_step S s s'"
| us_search: "userServer_SearchNotificationAccount S ctx kw pg s = (rn, s') \<Longrightarrow> user_step S s s'"
| us_get_account: "userServer_GetNotificationAccount S v s = (r, s') \<Longrightarrow> user_step S s s'"
| us_count: "userServer_UserRegisterCount S t1 t2 s = (rk, s') \<Longrightarrow> user_step S s s'"

lemma user_run_inv: "m s = (r, s') \<Longrightarrow> users_inv old s \<Longrightarrow> preserves (users_inv old) m \<Longrightarrow> users_inv old s'"
  by (rule preservesD)

lemma user_step_inv:
  assumes "user_step S s s'" and E: "user_env (uvDB S)" and W: "register_plain S" and R: "random_bytes S" and I: "users_inv old s"
  shows "users_inv old s'"
  using assms(1)
proof (cases rule: user_step.cases)
  case (us_account now ctx v nick face ra)
  show ?thesis by (rule user_run_inv [OF us_account(1) I AddNotificationAccount_inv [OF E R us_account(2)]])
qed (erule user_run_inv [OF _ I],
    (rule UserRegister_inv [OF E W] user_updates_inv [OF E] user_status_inv
     | rule users_silent_inv, rule user_queries_silent [OF E]))+

section \<open>The identifiers\<close>

text \<open>
  C11. The identifiers of the users stay well formed: if all of them are non-empty, without a colon
  (the separator of the keys that are built from them) and stored once, then they are so after any
  sequence of requests to the user service, whatever the requests ask for and however they end; and
  none of the identifiers is lost, changed or moved, new ones come behind them. Assumed: the unique
  index and the transactions of MongoDB, no webhook before registrations, random bytes that are
  bytes, and notification accounts that are not given a badly formed identifier, which the code does
  not check.
\<close>
theorem user_ids_well_formed:
  assumes "user_env (uvDB S)" "register_plain S" "random_bytes S" "(user_step S)\<^sup>*\<^sup>* s s'"
    and "ids_wf [] (map umUserID (users_of s))"
  shows "ids_wf (map umUserID (users_of s)) (map umUserID (users_of s'))"
proof -
  let ?old = "map umUserID (users_of s)"
  from assms(4) have "users_inv ?old s'"
  proof (induction rule: rtranclp_induct)
    case base show ?case using assms(5) by (simp add: users_inv_def ids_wf_def)
  next
    case (step t t') then show ?case by (blast intro: user_step_inv assms(1-3))
  qed
  then show ?thesis by (simp add: users_inv_def)
qed

section \<open>A service in memory\<close>

definition restore_users :: "'w user_state \<Rightarrow> 'w user_state \<Rightarrow> 'w user_state" where
  "restore_users s s' = s'\<lparr> uzUsers := uzUsers s \<rparr>"

definition mem_user_db :: "'w user_db" where
  "mem_user_db = \<lparr> udUsers = mem_coll umUserID, udCommands = mem_coll (\<lambda>c. (ucUserID c, ucType c, ucUuid c)), udSubs = mem_coll sbUserID,
     udUpsert = (\<lambda>k f. retG ()), udRc = mem_rc, udRdb = steady_redis [], udTx = mem_tx restore_users,
     udUserJson = (\<lambda>u. Inl (Plain ''no text''), \<lambda>v. Inl (Plain ''no user'')), udIntJson = (\<lambda>n. Inl (Plain ''no text''), \<lambda>v. Inl (Plain ''no number'')),
     udStatusEncode = (\<lambda>st. Inr []), udStatusDecode = (\<lambda>v. (None, \<lparr> osUserID = [], osStatus = 0, osPlatformIDs = [] \<rparr>)), udDayOf = (\<lambda>t. []) \<rparr>"

lemma mem_user_env: "user_env mem_user_db"
  unfolding user_env_def mem_user_db_def user_db.simps
  by (intro conjI mem_coll_laws mem_tx_laws) (simp_all add: restore_users_def users_of_def ucache_def)

definition quiet_groups :: "'s group_stub" where
  "quiet_groups = \<lparr> gcGetGroupsInfo = (\<lambda>gs. retG []), gcGetGroupMembersInfo = (\<lambda>g us. retG []), gcGetGroupMemberRoleLevel = (\<lambda>g l. retG []),
     gcGetGroupMemberUserIDs = (\<lambda>g. retG []), gcGetGroupInfoCache = (\<lambda>g. retG demo_group),
     gcGetGroupMemberCache = (\<lambda>g u. retG empty_member), gcDismissGroup = (\<lambda>g d. retG ()),
     gcNotificationUserInfoUpdate = (\<lambda>u. retG ()), gcOrd = (\<lambda>A. []) \<rparr>"

definition mem_user_server :: "unit user_server" where
  "mem_user_server = \<lparr> uvDB = mem_user_db, uvGetFriendIDs = (\<lambda>u. retG []), uvGroup = quiet_groups, uvSender = demo_sender,
     uvTips = (\<lambda>t. Inl (Plain ''no tips'')), uvPost = (\<lambda>c. retG []), uvDecode = (\<lambda>b. Inl (Plain ''no answer'')),
     uvDecodeUpdate = (\<lambda>b. Inl (Plain ''no answer'')), uvDecodeRegister = (\<lambda>b. Inl (Plain ''no answer'')), uvErrorText = (\<lambda>e. []),
     uvCbConfig = \<lparr> ukBeforeUpdateUserInfo = no_callback, ukAfterUpdateUserInfo = no_callback, ukBeforeUpdateUserInfoEx = no_callback,
       ukAfterUpdateUserInfoEx = no_callback, ukBeforeUserRegister = no_callback, ukAfterUserRegister = no_callback \<rparr>,
     uvAuthCfg = demo_auth_config\<lparr> cfgIMAdmin := [''im''] \<rparr>, uvRandom = retG [17, 205, 3] \<rparr>"

definition empty_users :: "unit user_state" where
  "empty_users = \<lparr> uzUsers = ([], ()), uzCommands = ([], ()), uzSubs = ([], ()), uzCache = (Map.empty, ()), uzWorld = () \<rparr>"

definition after_register :: "unit user_state" where
  "after_register = snd (userServer_UserRegister mem_user_server 1 [] [demo_user ''u'', demo_user ''v''] empty_users)"

definition after_account :: "unit user_state" where
  "after_account = snd (userServer_AddNotificationAccount mem_user_server 2 (as_user ''im'') [] ''nick'' ''face'' after_register)"

lemma user_ids_well_formed_witness:
  "map umUserID (users_of after_account) = [''u'', ''v'', ''953''] \<and> ids_wf [''u'', ''v''] [''u'', ''v'', ''953'']"
proof -
  have ok: "user_env (uvDB mem_user_server)" "register_plain mem_user_server" "random_bytes mem_user_server"
    by (simp_all add: mem_user_server_def mem_user_env register_plain_def no_callback_def random_bytes_def retG_def)
  have step: "(user_step mem_user_server)\<^sup>*\<^sup>* after_register after_account" unfolding after_account_def
    by (rule r_into_rtranclp, rule us_account [OF surjective_pairing]) simp
  have ids: "map umUserID (users_of after_register) = [''u'', ''v'']" "map umUserID (users_of after_account) = [''u'', ''v'', ''953'']"
    by code_simp+
  have "ids_wf [] (map umUserID (users_of after_register))" unfolding ids by (simp add: ids_wf_def good_id_def)
  from user_ids_well_formed [OF ok step this] show ?thesis unfolding ids by simp
qed

end
