(* ===== verification/OfflinePush.thy ===== *)
theory OfflinePush
  imports RedisCache SliceUtils Constants
begin

text \<open>
  The offline push providers (\<open>internal/push/offlinepush\<close>): getui, FCM, JPush and the dummy.  The
  HTTP post with its JSON, the FCM client, SHA-256 and the redis client are parameters.
\<close>

section \<open>What is pushed (offlinepush\_interface.go)\<close>

record Opts =
  opSignalClientMsgID :: string
  opIOSPushSound :: string
  opIOSBadgeCount :: bool
  opEx :: string

type_synonym 'w offline_pusher = "string list \<Rightarrow> string list \<Rightarrow> string \<Rightarrow> string \<Rightarrow> Opts \<Rightarrow> ('w, unit) go"

section \<open>Dummy (dummy/push.go)\<close>

definition Dummy_Push :: "'w offline_pusher" where
  "Dummy_Push userIDs onlineUserIDs title content opts = retG ()"

section \<open>The tokens of getui (cache/msg.go)\<close>

definition SetGetuiToken :: "'s redis_api \<Rightarrow> string \<Rightarrow> int \<Rightarrow> ('s, unit) go" where
  "SetGetuiToken R token expireTime = wrapG [] (rdSet R ''GETUI_TOKEN'' token (seconds expireTime))"

definition GetGetuiToken :: "'s redis_api \<Rightarrow> ('s, string) go" where
  "GetGetuiToken R = wrapG ''==> '' (rdGet R ''GETUI_TOKEN'')"

definition SetGetuiTaskID :: "'s redis_api \<Rightarrow> string \<Rightarrow> int \<Rightarrow> ('s, unit) go" where
  "SetGetuiTaskID R taskID expireTime = wrapG [] (rdSet R ''GETUI_TASK_ID'' taskID (seconds expireTime))"

definition GetGetuiTaskID :: "'s redis_api \<Rightarrow> ('s, string) go" where
  "GetGetuiTaskID R = wrapG ''==> '' (rdGet R ''GETUI_TASK_ID'')"

section \<open>Getui: requests (getui/body.go)\<close>

record GetuiResp =
  grCode :: int
  grMsg :: string
  grExpireTime :: string
  grToken :: string
  grTaskID :: string

definition ErrTokenExpire :: go_error where "ErrTokenExpire = Plain ''token expire''"
definition ErrUserIDEmpty :: go_error where "ErrUserIDEmpty = Plain ''userIDs is empty''"

definition Resp_parseError :: "GetuiResp \<Rightarrow> go_error option" where
  "Resp_parseError r =
     (if grCode r = 10001 then Some ErrTokenExpire
      else if grCode r = 0 then None
      else Some (Plain (''code '' @ itoa (grCode r) @ '', msg '' @ grMsg r)))"

record GetuiNotification =
  gnTitle :: string
  gnBody :: string
  gnChannelID :: string
  gnChannelName :: string
  gnClickType :: string
  gnPayload :: string

record GetuiAlert =
  gaTitle :: string
  gaBody :: string
  gaPayload :: string

record GetuiIos =
  gxNotificationType :: "string option"
  gxAutoBadge :: "string option"
  gxSound :: string
  gxAlert :: GetuiAlert

record GetuiOptions =
  goHWDefaultSound :: bool
  goHWChannelID :: string
  goHWSound :: string
  goHWImportance :: string
  goXMChannelID :: string
  goVVClassification :: int

record GetuiAndroid =
  gdTransmission :: string
  gdOptions :: GetuiOptions

record GetuiPushChannel =
  pcIos :: "GetuiIos option"
  pcAndroid :: "GetuiAndroid option"

record PushReq =
  prRequestID :: "string option"
  prTTL :: "int option"
  prAudience :: "string list option"
  prTransmission :: "string option"
  prPushChannel :: "GetuiPushChannel option"
  prIsAsync :: "bool option"
  prTaskID :: "string option"

definition empty_push_req :: PushReq where
  "empty_push_req = \<lparr> prRequestID = None, prTTL = None, prAudience = None, prTransmission = None, prPushChannel = None,
     prIsAsync = None, prTaskID = None \<rparr>"

datatype getui_request =
    GetuiAuth string string string
  | GetuiTask PushReq
  | GetuiBatch PushReq
  | GetuiSingle PushReq

text \<open>
  \<open>giPost request token timeout\<close> is the HTTP post to the address of the request, with the token in
  the header, and the decoded answer.
\<close>

record 'w getui =
  giRdb :: "'w redis_api"
  giPost :: "getui_request \<Rightarrow> string \<Rightarrow> int \<Rightarrow> ('w, GetuiResp) go"
  giJson :: "GetuiNotification \<Rightarrow> string"
  giSha256 :: "string \<Rightarrow> string"
  giAppKey :: string
  giMasterSecret :: string
  giChannelID :: string
  giChannelName :: string

definition newPushReq :: "'w getui \<Rightarrow> string \<Rightarrow> string \<Rightarrow> string \<Rightarrow> PushReq" where
  "newPushReq G title content payload =
     empty_push_req\<lparr> prTransmission := Some (giJson G \<lparr> gnTitle = title, gnBody = content, gnChannelID = giChannelID G,
       gnChannelName = giChannelName G, gnClickType = ''startapp'', gnPayload = payload \<rparr>) \<rparr>"

definition newBatchPushReq :: "string list \<Rightarrow> string \<Rightarrow> PushReq" where
  "newBatchPushReq userIDs taskID =
     empty_push_req\<lparr> prAudience := Some userIDs, prIsAsync := Some True, prTaskID := Some taskID \<rparr>"

definition PushReq_setPushChannel :: "'w getui \<Rightarrow> PushReq \<Rightarrow> string \<Rightarrow> string \<Rightarrow> string \<Rightarrow> bool \<Rightarrow> PushReq" where
  "PushReq_setPushChannel G r title body payload pushIOS =
     (let noIos = \<lparr> gxNotificationType = None, gxAutoBadge = None, gxSound = [],
            gxAlert = \<lparr> gaTitle = [], gaBody = [], gaPayload = [] \<rparr> \<rparr>;
          ios = (if pushIOS
            then noIos\<lparr> gxNotificationType := Some ''notify'', gxSound := ''default'',
                   gxAlert := \<lparr> gaTitle = title, gaBody = body, gaPayload = payload \<rparr> \<rparr>
            else noIos);
          transmission = giJson G \<lparr> gnTitle = title, gnBody = body, gnChannelID = [], gnChannelName = [],
            gnClickType = ''startapp'', gnPayload = payload \<rparr>;
          android = \<lparr> gdTransmission = transmission, gdOptions = \<lparr> goHWDefaultSound = False, goHWChannelID = ''RingRing4'',
            goHWSound = ''/raw/ring001'', goHWImportance = ''NORMAL'', goXMChannelID = ''high_system'',
            goVVClassification = 1 \<rparr> \<rparr>
      in r\<lparr> prPushChannel := Some \<lparr> pcIos = Some ios, pcAndroid = Some android \<rparr> \<rparr>)"

section \<open>Getui: the client (getui/push.go)\<close>

definition getui_request :: "'w getui \<Rightarrow> getui_request \<Rightarrow> string \<Rightarrow> ('w, GetuiResp) go" where
  "getui_request G req token =
     bindG (giPost G req token 3) (\<lambda>r. case Resp_parseError r of Some err \<Rightarrow> failG err | None \<Rightarrow> retG r)"

definition getui_Auth :: "'w getui \<Rightarrow> int \<Rightarrow> ('w, string \<times> int) go" where
  "getui_Auth G timeStamp =
     (let sign = giSha256 G (giAppKey G @ itoa timeStamp @ giMasterSecret G) in
      bindG (getui_request G (GetuiAuth sign (itoa timeStamp) (giAppKey G)) []) (\<lambda>r.
      case ParseInt (grExpireTime r) of
        Parsed expire \<Rightarrow> retG (grToken r, expire)
      | _ \<Rightarrow> failG (Plain (''strconv.Atoi: '' @ grExpireTime r))))"

definition getui_getTokenAndSave2Redis :: "'w getui \<Rightarrow> int \<Rightarrow> ('w, string) go" where
  "getui_getTokenAndSave2Redis G now =
     bindG (getui_Auth G now) (\<lambda>(token, _).
     bindG (SetGetuiToken (giRdb G) token (60 * 60 * 23)) (\<lambda>_. retG token))"

definition getui_GetTaskID :: "'w getui \<Rightarrow> string \<Rightarrow> PushReq \<Rightarrow> ('w, string) go" where
  "getui_GetTaskID G token pushReq =
     bindG (wrapG ''==> '' (getui_request G (GetuiTask (pushReq\<lparr> prTTL := Some (1000 * 60 * 5) \<rparr>)) token)) (\<lambda>r.
       retG (grTaskID r))"

text \<open>The token is returned, not the task.\<close>

definition getui_GetTaskIDAndSave2Redis :: "'w getui \<Rightarrow> string \<Rightarrow> PushReq \<Rightarrow> ('w, string) go" where
  "getui_GetTaskIDAndSave2Redis G token pushReq =
     bindG (getui_GetTaskID G token (pushReq\<lparr> prTTL := Some (1000 * 60 * 60 * 24) \<rparr>)) (\<lambda>taskID.
     bindG (SetGetuiTaskID (giRdb G) taskID (60 * 60 * 23)) (\<lambda>_. retG token))"

definition getui_batchPush :: "'w getui \<Rightarrow> string \<Rightarrow> string list \<Rightarrow> PushReq \<Rightarrow> ('w, unit) go" where
  "getui_batchPush G token userIDs pushReq =
     bindG (getui_GetTaskID G token pushReq) (\<lambda>taskID.
     bindG (getui_request G (GetuiBatch (newBatchPushReq userIDs taskID)) token) (\<lambda>_. retG ()))"

definition getui_singlePush :: "'w getui \<Rightarrow> string \<Rightarrow> string \<Rightarrow> string \<Rightarrow> PushReq \<Rightarrow> ('w, unit) go" where
  "getui_singlePush G operationID token userID pushReq =
     (let parts = split_on CHR ''$'' operationID;
          operationID' = (case parts of [] \<Rightarrow> operationID | p # _ \<Rightarrow> p) in
      bindG (getui_request G (GetuiSingle (pushReq\<lparr> prRequestID := Some operationID', prAudience := Some [userID] \<rparr>)) token)
        (\<lambda>_. retG ()))"

text \<open>Several batches run at once; the error of the last one that fails is kept.\<close>

definition getui_batches :: "'w getui \<Rightarrow> string \<Rightarrow> string list list \<Rightarrow> PushReq \<Rightarrow> ('w, go_error option) go" where
  "getui_batches G token batches pushReq =
     foldG (\<lambda>ids err. bindG (attemptG (getui_batchPush G token ids pushReq)) (\<lambda>r. case r of
         Inl err2 \<Rightarrow> retG (Some err2) | Inr _ \<Rightarrow> retG err)) batches None"

definition getui_send :: "'w getui \<Rightarrow> string \<Rightarrow> string \<Rightarrow> string list \<Rightarrow> PushReq \<Rightarrow> ('w, go_error option) go" where
  "getui_send G operationID token userIDs pushReq =
     (if length userIDs > 1 then
        (if length userIDs > 999
         then bindG (liftG (GetSplitResult 999 userIDs)) (\<lambda>batches. getui_batches G token batches pushReq)
         else getui_batches G token [userIDs] pushReq)
      else bindG (attemptG (getui_singlePush G operationID token (hd userIDs) pushReq)) (\<lambda>r. case r of
         Inl err \<Rightarrow> retG (Some err) | Inr _ \<Rightarrow> retG None))"

definition getui_token :: "'w getui \<Rightarrow> int \<Rightarrow> ('w, string) go" where
  "getui_token G now =
     bindG (attemptG (GetGetuiToken (giRdb G))) (\<lambda>r. case r of
         Inr token \<Rightarrow> retG token
       | Inl err \<Rightarrow> if Unwrap err = RedisNil then getui_getTokenAndSave2Redis G now else failG err)"

definition getui_push ::
  "'w getui \<Rightarrow> int \<Rightarrow> string \<Rightarrow> string list \<Rightarrow> string \<Rightarrow> string \<Rightarrow> Opts \<Rightarrow> bool \<Rightarrow> ('w, unit) go" where
  "getui_push G now operationID userIDs title content opts pushIOS =
     bindG (getui_token G now) (\<lambda>token.
     let pushReq = PushReq_setPushChannel G (newPushReq G title content (opEx opts)) title content (opEx opts) pushIOS in
     if userIDs = [] then failG ErrUserIDEmpty
     else bindG (getui_send G operationID token userIDs pushReq) (\<lambda>err. case err of
         None \<Rightarrow> retG ()
       | Some e \<Rightarrow> if e = ErrTokenExpire then bindG (getui_getTokenAndSave2Redis G now) (\<lambda>_. retG ())
                   else failG e))"

definition getui_Push :: "'w getui \<Rightarrow> int \<Rightarrow> string \<Rightarrow> 'w offline_pusher" where
  "getui_Push G now operationID userIDs onlineUserIDs title content opts =
     bindG (whenG (length userIDs > 0) (getui_push G now operationID userIDs title content opts True)) (\<lambda>_.
       whenG (length onlineUserIDs > 0) (getui_push G now operationID onlineUserIDs title content opts True))"

section \<open>FCM (fcm/push.go)\<close>

abbreviation (input) SinglePushCountLimit :: nat where "SinglePushCountLimit \<equiv> 400"

abbreviation (input) Terminal :: "int list" where "Terminal \<equiv> [IOSPlatformID, AndroidPlatformID, WebPlatformID]"

record fcm_message =
  fmEx :: string
  fmToken :: string
  fmTitle :: string
  fmBody :: string
  fmSound :: string
  fmBadge :: "int option"

text \<open>A client that could not be made is nil; the interface that holds it is not.\<close>

record 'w fcm =
  fcRdb :: "'w redis_api"
  fcSendAll :: "fcm_message list \<Rightarrow> ('w, int \<times> int) go"
  fcOrd :: "string set \<Rightarrow> string list"

definition person_tokens :: "'w fcm \<Rightarrow> string \<Rightarrow> ('w, string list) go" where
  "person_tokens F account =
     foldG (\<lambda>v tokens. bindG (attemptG (GetFcmToken (fcRdb F) account v)) (\<lambda>r. case r of
         Inr token \<Rightarrow> retG (tokens @ [token]) | Inl _ \<Rightarrow> retG tokens)) Terminal []"

text \<open>A failed read of the badge leaves its count at 0, so it is taken for 1 and never for an error.\<close>

definition fcm_badge :: "'w fcm \<Rightarrow> Opts \<Rightarrow> string \<Rightarrow> ('w, int option) go" where
  "fcm_badge F opts userID =
     (if opIOSBadgeCount opts
      then bindG (attemptG (IncrUserBadgeUnreadCountSum (fcRdb F) userID)) (\<lambda>r. case r of
          Inr n \<Rightarrow> retG (Some n) | Inl _ \<Rightarrow> retG None)
      else bindG (attemptG (GetUserBadgeUnreadCountSum (fcRdb F) userID)) (\<lambda>r. case r of
          Inr n \<Rightarrow> retG (Some (if n \<noteq> 0 then n else 1)) | Inl _ \<Rightarrow> retG (Some 1)))"

definition fcm_send :: "'w fcm \<Rightarrow> fcm_message list \<Rightarrow> ('w, unit) go" where
  "fcm_send F messages = ignoreG (bindG (fcSendAll F messages) (\<lambda>_. retG ()))"

definition fcm_user ::
  "'w fcm \<Rightarrow> string \<Rightarrow> string \<Rightarrow> Opts \<Rightarrow> (string \<Rightarrow> string list) \<Rightarrow> string \<Rightarrow> fcm_message list
   \<Rightarrow> ('w, fcm_message list) go" where
  "fcm_user F title content opts tokens userID messages0 =
     bindG (whenG (length messages0 \<ge> SinglePushCountLimit) (fcm_send F messages0)) (\<lambda>_.
     let messages = (if length messages0 \<ge> SinglePushCountLimit then [] else messages0) in
     bindG (fcm_badge F opts userID) (\<lambda>badge. case badge of
         None \<Rightarrow> retG messages
       | Some n \<Rightarrow> retG (messages @ map (\<lambda>t. \<lparr> fmEx = opEx opts, fmToken = t, fmTitle = title, fmBody = content,
             fmSound = opIOSPushSound opts, fmBadge = Some n \<rparr>) (tokens userID))))"

definition fcm_Push :: "'w fcm option \<Rightarrow> 'w offline_pusher" where
  "fcm_Push f userIDs onlineUserIDs title content opts = (case f of
       None \<Rightarrow> whenG (userIDs \<noteq> []) (panicG ''nil pointer dereference'')
     | Some F \<Rightarrow>
         bindG (foldG (\<lambda>account m. bindG (person_tokens F account) (\<lambda>ts. retG (m(account \<mapsto> ts)))) userIDs Map.empty) (\<lambda>allTokens.
         bindG (foldG (fcm_user F title content opts (\<lambda>u. the (allTokens u))) (fcOrd F (dom allTokens)) []) (\<lambda>messages.
           whenG (length messages > 0) (fcm_send F messages))))"

section \<open>JPush: the body (jpush/body)\<close>

text \<open>A platform is unset, the word \<open>all\<close>, or a list.\<close>

datatype platform_os = OsNil | OsName string | OsList "string list"

record JPlatform =
  jpOs :: platform_os
  jpArray :: "string list"

definition empty_platform :: JPlatform where
  "empty_platform = \<lparr> jpOs = OsNil, jpArray = [] \<rparr>"

definition Platform_Set :: "JPlatform \<Rightarrow> string \<Rightarrow> JPlatform \<times> go_error option" where
  "Platform_Set p os = (case jpOs p of
       OsName _ \<Rightarrow> (p, Some (Plain ''platform is all''))
     | v \<Rightarrow>
         let arr = (if v = OsNil then [] else jpArray p); p' = p\<lparr> jpArray := arr \<rparr> in
         if os \<in> set arr then (p', None)
         else if os \<in> {''ios'', ''android'', ''quickapp'', ''winphone''}
         then (p\<lparr> jpArray := arr @ [os], jpOs := OsList (arr @ [os]) \<rparr>, None)
         else (p', Some (Plain ''unknow platform'')))"

definition Platform_SetIOS :: "JPlatform \<Rightarrow> JPlatform \<times> go_error option" where
  "Platform_SetIOS p = Platform_Set p ''ios''"

definition Platform_SetAndroid :: "JPlatform \<Rightarrow> JPlatform \<times> go_error option" where
  "Platform_SetAndroid p = Platform_Set p ''android''"

definition Platform_SetQuickApp :: "JPlatform \<Rightarrow> JPlatform \<times> go_error option" where
  "Platform_SetQuickApp p = Platform_Set p ''quickapp''"

definition Platform_SetWindowsPhone :: "JPlatform \<Rightarrow> JPlatform \<times> go_error option" where
  "Platform_SetWindowsPhone p = Platform_Set p ''winphone''"

definition Platform_SetPlatform :: "JPlatform \<Rightarrow> string \<Rightarrow> JPlatform \<times> go_error option" where
  "Platform_SetPlatform p platform =
     (if platform = AndroidPlatformStr then Platform_SetAndroid p
      else if platform = IOSPlatformStr then Platform_SetIOS p
      else (p, Some (Plain ''platform err'')))"

definition Platform_SetAll :: "JPlatform \<Rightarrow> JPlatform" where
  "Platform_SetAll p = p\<lparr> jpOs := OsName ''all'' \<rparr>"

text \<open>The object of an audience is a name or the map of its lists, which \<open>set\<close> goes on filling.\<close>

datatype audience_object = AudNil | AudName string | AudMap

record JAudience =
  jaObject :: audience_object
  jaMap :: "(string, string list) gomap"

definition empty_audience :: JAudience where
  "empty_audience = \<lparr> jaObject = AudNil, jaMap = None \<rparr>"

definition Audience_set :: "JAudience \<Rightarrow> string \<Rightarrow> string list \<Rightarrow> JAudience" where
  "Audience_set a key v = (case jaMap a of
       None \<Rightarrow> \<lparr> jaObject = AudMap, jaMap = Some [key \<mapsto> v] \<rparr>
     | Some m \<Rightarrow> a\<lparr> jaMap := Some (m(key \<mapsto> v)) \<rparr>)"

definition Audience_SetTag :: "JAudience \<Rightarrow> string list \<Rightarrow> JAudience" where
  "Audience_SetTag a tags = Audience_set a ''tag'' tags"

definition Audience_SetTagAnd :: "JAudience \<Rightarrow> string list \<Rightarrow> JAudience" where
  "Audience_SetTagAnd a tags = Audience_set a ''tag_and'' tags"

definition Audience_SetTagNot :: "JAudience \<Rightarrow> string list \<Rightarrow> JAudience" where
  "Audience_SetTagNot a tags = Audience_set a ''tag_not'' tags"

definition Audience_SetAlias :: "JAudience \<Rightarrow> string list \<Rightarrow> JAudience" where
  "Audience_SetAlias a alias = Audience_set a ''alias'' alias"

definition Audience_SetRegistrationId :: "JAudience \<Rightarrow> string list \<Rightarrow> JAudience" where
  "Audience_SetRegistrationId a ids = Audience_set a ''registration_id'' ids"

definition Audience_SetAll :: "JAudience \<Rightarrow> JAudience" where
  "Audience_SetAll a = a\<lparr> jaObject := AudName ''all'' \<rparr>"

record JNotification =
  jnAlert :: string
  jnAndroidAlert :: string
  jnAndroidIntentURL :: string
  jnAndroidExtras :: string
  jnIosAlert :: string
  jnIosSound :: string
  jnIosBadge :: string
  jnIosExtras :: string
  jnIosMutableContent :: bool

definition empty_jnotification :: JNotification where
  "empty_jnotification = \<lparr> jnAlert = [], jnAndroidAlert = [], jnAndroidIntentURL = [], jnAndroidExtras = [], jnIosAlert = [],
     jnIosSound = [], jnIosBadge = [], jnIosExtras = [], jnIosMutableContent = False \<rparr>"

definition Notification_SetAndroidIntent :: "string \<Rightarrow> JNotification \<Rightarrow> JNotification" where
  "Notification_SetAndroidIntent pushIntent n = n\<lparr> jnAndroidIntentURL := pushIntent \<rparr>"

definition Notification_SetAlert :: "string \<Rightarrow> JNotification \<Rightarrow> string \<Rightarrow> JNotification" where
  "Notification_SetAlert pushIntent n alert =
     (Notification_SetAndroidIntent pushIntent (n\<lparr> jnAlert := alert, jnAndroidAlert := alert \<rparr>))
       \<lparr> jnIosAlert := alert, jnIosSound := ''default'', jnIosBadge := ''+1'' \<rparr>"

text \<open>The extras hold the identifier of the client's message.\<close>

definition Notification_SetExtras :: "JNotification \<Rightarrow> string \<Rightarrow> JNotification" where
  "Notification_SetExtras n extras = n\<lparr> jnIosExtras := extras, jnAndroidExtras := extras \<rparr>"

definition Notification_IOSEnableMutableContent :: "JNotification \<Rightarrow> JNotification" where
  "Notification_IOSEnableMutableContent n = n\<lparr> jnIosMutableContent := True \<rparr>"

record JMessage =
  jmMsgContent :: string
  jmTitle :: string
  jmContentType :: string
  jmExtras :: "(string, string) gomap"

definition empty_jmessage :: JMessage where
  "empty_jmessage = \<lparr> jmMsgContent = [], jmTitle = [], jmContentType = [], jmExtras = None \<rparr>"

definition Message_SetMsgContent :: "JMessage \<Rightarrow> string \<Rightarrow> JMessage" where
  "Message_SetMsgContent m c = m\<lparr> jmMsgContent := c \<rparr>"

definition Message_SetTitle :: "JMessage \<Rightarrow> string \<Rightarrow> JMessage" where
  "Message_SetTitle m t = m\<lparr> jmTitle := t \<rparr>"

definition Message_SetContentType :: "JMessage \<Rightarrow> string \<Rightarrow> JMessage" where
  "Message_SetContentType m c = m\<lparr> jmContentType := c \<rparr>"

definition Message_SetExtras :: "JMessage \<Rightarrow> string \<Rightarrow> string \<Rightarrow> JMessage" where
  "Message_SetExtras m key v = m\<lparr> jmExtras := Some ((case jmExtras m of None \<Rightarrow> Map.empty | Some f \<Rightarrow> f)(key \<mapsto> v)) \<rparr>"

record PushObj =
  poPlatform :: platform_os
  poAudience :: JAudience
  poNotification :: "JNotification option"
  poMessage :: "JMessage option"
  poApnsProduction :: "bool option"

definition empty_push_obj :: PushObj where
  "empty_push_obj = \<lparr> poPlatform = OsNil, poAudience = empty_audience, poNotification = None, poMessage = None,
     poApnsProduction = None \<rparr>"

definition PushObj_SetPlatform :: "PushObj \<Rightarrow> JPlatform \<Rightarrow> PushObj" where
  "PushObj_SetPlatform p pf = p\<lparr> poPlatform := jpOs pf \<rparr>"

definition PushObj_SetAudience :: "PushObj \<Rightarrow> JAudience \<Rightarrow> PushObj" where
  "PushObj_SetAudience p ad = p\<lparr> poAudience := ad \<rparr>"

definition PushObj_SetNotification :: "PushObj \<Rightarrow> JNotification \<Rightarrow> PushObj" where
  "PushObj_SetNotification p no = p\<lparr> poNotification := Some no \<rparr>"

definition PushObj_SetMessage :: "PushObj \<Rightarrow> JMessage \<Rightarrow> PushObj" where
  "PushObj_SetMessage p m = p\<lparr> poMessage := Some m \<rparr>"

definition PushObj_SetOptions :: "PushObj \<Rightarrow> bool \<Rightarrow> PushObj" where
  "PushObj_SetOptions p production = p\<lparr> poApnsProduction := Some production \<rparr>"

section \<open>JPush: the client (jpush/push.go)\<close>

text \<open>\<open>base64.StdEncoding.EncodeToString\<close>.\<close>

definition b64_alphabet :: string where
  "b64_alphabet = ''ABCDEFGHIJKLMNOPQRSTUVWXYZabcdefghijklmnopqrstuvwxyz0123456789+/''"

definition b64_digit :: "nat \<Rightarrow> char" where
  "b64_digit n = b64_alphabet ! (n mod 64)"

fun base64 :: "string \<Rightarrow> string" where
  "base64 [] = []"
| "base64 [a] = (let n = of_char a * 16 in [b64_digit (n div 64), b64_digit n, CHR ''='', CHR ''=''])"
| "base64 [a, b] = (let n = (of_char a * 256 + of_char b) * 4 in
     [b64_digit (n div 4096), b64_digit (n div 64), b64_digit n, CHR ''=''])"
| "base64 (a # b # c # s) = (let n = (of_char a * 256 + of_char b) * 256 + of_char c in
     [b64_digit (n div 262144), b64_digit (n div 4096), b64_digit (n div 64), b64_digit n] @ base64 s)"

definition JPush_getAuthorization :: "string \<Rightarrow> string \<Rightarrow> string" where
  "JPush_getAuthorization appKey masterSecret =
     ''Basic '' @ base64 (appKey @ [CHR 0x3A] @ masterSecret)"

text \<open>\<open>jcPost object authorization timeout\<close> is \<open>PostReturn\<close>.\<close>

record 'w jpush =
  jcPost :: "PushObj \<Rightarrow> string \<Rightarrow> int \<Rightarrow> ('w, unit) go"
  jcAppKey :: string
  jcMasterSecret :: string
  jcPushIntent :: string
  jcProduction :: bool

definition JPush_Auth :: "string \<Rightarrow> string \<Rightarrow> int \<Rightarrow> ('w, string) go" where
  "JPush_Auth apiKey secretKey timeStamp = retG []"

definition JPush_SetAlias :: "string \<Rightarrow> string \<Rightarrow> ('w, string) go" where
  "JPush_SetAlias cid alias = retG []"

definition JPush_request :: "'w jpush \<Rightarrow> PushObj \<Rightarrow> int \<Rightarrow> ('w, unit) go" where
  "JPush_request J po timeout = jcPost J po (JPush_getAuthorization (jcAppKey J) (jcMasterSecret J)) timeout"

definition JPush_Push :: "'w jpush \<Rightarrow> 'w offline_pusher" where
  "JPush_Push J userIDs onlineUserIDs title content opts =
     (let pf = Platform_SetAll empty_platform;
          au = Audience_SetAlias empty_audience userIDs;
          no0 = Notification_IOSEnableMutableContent empty_jnotification;
          no1 = Notification_SetExtras no0 (opSignalClientMsgID opts);
          no = Notification_SetAlert (jcPushIntent J) no1 title;
          msg = Message_SetMsgContent empty_jmessage content;
          obj0 = PushObj_SetPlatform empty_push_obj pf;
          obj1 = PushObj_SetAudience obj0 au;
          obj2 = PushObj_SetNotification obj1 no;
          obj3 = PushObj_SetMessage obj2 msg;
          obj = PushObj_SetOptions obj3 (jcProduction J)
      in JPush_request J obj 5)"

section \<open>Which provider (push\_to\_client.go)\<close>

definition NewOfflinePusher ::
  "string \<Rightarrow> 'w getui \<Rightarrow> 'w fcm option \<Rightarrow> 'w jpush \<Rightarrow> int \<Rightarrow> string \<Rightarrow> 'w offline_pusher" where
  "NewOfflinePusher enable G F J now operationID =
     (if enable = ''getui'' then getui_Push G now operationID
      else if enable = ''fcm'' then fcm_Push F
      else if enable = ''jpush'' then JPush_Push J
      else Dummy_Push)"

end
