(* ===== verification/Push.thy ===== *)
theory Push
  imports MongoUtil OfflinePush RpcClients Callbacks Notification Gateway
begin

text \<open>
  The push service (\<open>internal/push\<close>): the consumer of the queue, the RPC server, the webhooks, the
  push over the gateways and the offline push.  With it go the two local caches
  (\<open>pkg/common/db/localcache\<close>).
\<close>

section \<open>Local caches (localcache)\<close>

record GroupMemberIDsHash =
  ghMemberListHash :: int
  ghUserIDs :: "string list"

record Hash =
  hsHash :: int
  hsIds :: "string list"

record 'w push_state =
  psGroups :: "string \<rightharpoonup> GroupMemberIDsHash"
  psConversations :: "string \<rightharpoonup> Hash"
  psWorld :: 'w

type_synonym ('w, 'a) pgo = "('w push_state, 'a) go"

definition onPushWorld :: "('w, 'a) go \<Rightarrow> ('w, 'a) pgo" where
  "onPushWorld m = zoomG psWorld (\<lambda>t s. s\<lparr> psWorld := t \<rparr>) m"

text \<open>The calls of the services that the caches make; the answer about a group is its hash.\<close>

record 'w local_stub =
  lsGetGroupAbstractInfo :: "string list \<Rightarrow> ('w, int list) go"
  lsGetGroupMemberUserIDs :: "string \<Rightarrow> ('w, string list) go"
  lsGetRecvMsgNotNotifyUserIDs :: "string \<Rightarrow> ('w, string list) go"
  lsGetUserConversationIDsHash :: "string \<Rightarrow> ('w, int) go"
  lsGetConversationIDs :: "string \<Rightarrow> ('w, string list) go"

definition GroupLocalCache_GetGroupMemberIDs :: "'w local_stub \<Rightarrow> string \<Rightarrow> ('w, string list) pgo" where
  "GroupLocalCache_GetGroupMemberIDs L groupID =
     bindG (onPushWorld (lsGetGroupAbstractInfo L [groupID])) (\<lambda>hashes. case hashes of
       [] \<Rightarrow> failG ErrGroupIDNotFound
     | h # _ \<Rightarrow>
         bindG (getsG psGroups) (\<lambda>cache.
         let fetch = bindG (onPushWorld (lsGetGroupMemberUserIDs L groupID)) (\<lambda>userIDs.
               bindG (modG (\<lambda>s. s\<lparr> psGroups := (psGroups s)(groupID \<mapsto> \<lparr> ghMemberListHash = h, ghUserIDs = userIDs \<rparr>) \<rparr>)) (\<lambda>_.
                 retG userIDs))
         in case cache groupID of
              Some local \<Rightarrow> if ghMemberListHash local = h then retG (ghUserIDs local) else fetch
            | None \<Rightarrow> fetch))"

definition ConversationLocalCache_GetRecvMsgNotNotifyUserIDs :: "'w local_stub \<Rightarrow> string \<Rightarrow> ('w, string list) pgo" where
  "ConversationLocalCache_GetRecvMsgNotNotifyUserIDs L groupID = onPushWorld (lsGetRecvMsgNotNotifyUserIDs L groupID)"

definition ConversationLocalCache_GetConversationIDs :: "'w local_stub \<Rightarrow> string \<Rightarrow> ('w, string list) pgo" where
  "ConversationLocalCache_GetConversationIDs L userID =
     bindG (onPushWorld (lsGetUserConversationIDsHash L userID)) (\<lambda>h.
     bindG (getsG psConversations) (\<lambda>cache.
     let fetch = bindG (onPushWorld (lsGetConversationIDs L userID)) (\<lambda>ids.
           bindG (modG (\<lambda>s. s\<lparr> psConversations := (psConversations s)(userID \<mapsto> \<lparr> hsHash = h, hsIds = ids \<rparr>) \<rparr>)) (\<lambda>_.
             retG ids))
     in case cache userID of
          Some hash \<Rightarrow> if hsHash hash \<noteq> h then fetch else retG (hsIds hash)
        | None \<Rightarrow> fetch))"

section \<open>The pusher\<close>

text \<open>The contents of the group notifications that the pusher reads.\<close>

datatype push_callback =
    CbOfflinePush "string list" string MsgData string
  | CbOnlinePush "string list" string MsgData string
  | CbSuperGroupOnlinePush string string MsgData string

record CallbackBeforePushResp =
  bpCommon :: CommonCallbackResp
  bpUserIDs :: "string list"
  bpOfflinePushInfo :: "OfflinePushInfo option"

record push_cb_config =
  pkOfflinePush :: CallBackConfig
  pkOnlinePush :: CallBackConfig
  pkBeforeSuperGroupOnlinePush :: CallBackConfig

type_synonym conn_ref = nat

text \<open>
  \<open>puQuit\<close>, \<open>puKicked\<close> and \<open>puDismissed\<close> are \<open>UnmarshalNotificationElem\<close> into the three tips, of which the pusher
  reads the user that quits (which may be missing) and the users that are kicked.  A gateway is
  reached over a connection; \<open>puGetConn\<close> may return none beside its error.  \<open>puParams\<close> is the JSON text of the
  parameters of an offline push and \<open>puAtUsers\<close> the list in the content of a message that names users.
\<close>

record 'w pusher =
  puRdb :: "'w redis_api"
  puOffline :: "'w offline_pusher option"
  puLocal :: "'w local_stub"
  puMsg :: "'w msg_stub"
  puConversation :: "'w conversation_stub"
  puGroup :: "rpc_ctx \<Rightarrow> 'w group_stub"
  puConf :: "string \<Rightarrow> NotificationConf"
  puGetConns :: "('w, conn_ref list) go"
  puGetUserIdHashGatewayHost :: "string \<Rightarrow> ('w, string) go"
  puGetConn :: "string \<Rightarrow> ('w, conn_ref option) go"
  puOnlineBatchPush :: "conn_ref \<Rightarrow> MsgData \<Rightarrow> string list \<Rightarrow> ('w, SingleMsgToUserResults list option) go"
  puHostOrd :: "string set \<Rightarrow> string list"
  puConnOrd :: "conn_ref option set \<Rightarrow> conn_ref option list"
  puQuit :: "string \<Rightarrow> go_error + string option"
  puKicked :: "string \<Rightarrow> go_error + string list"
  puDismissed :: "string \<Rightarrow> go_error + unit"
  puTipsDetail :: "string \<Rightarrow> string"
  puParams :: "string \<Rightarrow> MsgData \<Rightarrow> string"
  puAtUsers :: "string \<Rightarrow> string list"
  puJson :: json_codec
  puPost :: "push_callback \<Rightarrow> ('w, string) go"
  puDecodePush :: "string \<Rightarrow> go_error + CallbackBeforePushResp"
  puErrorText :: "go_error \<Rightarrow> string"
  puCbConfig :: push_cb_config
  puDiscovery :: string
  puManagers :: "string list"
  puMaxWorkers :: int

definition errNoOfflinePusher :: go_error where
  "errNoOfflinePusher = Plain ''no offlinePusher is configured''"

definition Pusher_DeleteMemberAndSetConversationSeq :: "'w pusher \<Rightarrow> string \<Rightarrow> string list \<Rightarrow> ('w, unit) pgo" where
  "Pusher_DeleteMemberAndSetConversationSeq P groupID userIDs =
     (let conversationID = GetConversationIDBySessionType SuperGroupChatType [groupID] in
      bindG (onPushWorld (MessageRpcClient_GetConversationMaxSeq (puMsg P) conversationID)) (\<lambda>maxSeq.
        onPushWorld (ConversationRpcClient_SetConversationMaxSeq (puConversation P) userIDs conversationID maxSeq)))"

section \<open>Webhooks (callback.go, tools.go)\<close>

definition push_GetContent :: "'w pusher \<Rightarrow> MsgData \<Rightarrow> string" where
  "push_GetContent P msg =
     (if ContentType msg \<ge> NotificationBegin \<and> ContentType msg \<le> NotificationEnd
      then puTipsDetail P (Content msg) else Content msg)"

definition push_post :: "'w pusher \<Rightarrow> push_callback \<Rightarrow> CallBackConfig \<Rightarrow> ('w, CallbackBeforePushResp option) pgo" where
  "push_post P req cfg =
     onPushWorld (callBackPostReturn (puErrorText P) (puPost P req) (puDecodePush P) bpCommon cfg)"

text \<open>The users that the answer names, if any, and the message with the answer's push information.\<close>

definition callbackOfflinePush :: "'w pusher \<Rightarrow> rpc_ctx \<Rightarrow> string list \<Rightarrow> MsgData \<Rightarrow> ('w, string list \<times> MsgData) pgo" where
  "callbackOfflinePush P ctx userIDs msg =
     (if \<not> cbcEnable (pkOfflinePush (puCbConfig P)) then retG ([], msg)
      else bindG (push_post P (CbOfflinePush userIDs (ctxOperationID ctx) msg (push_GetContent P msg))
                    (pkOfflinePush (puCbConfig P))) (\<lambda>r. case r of
          None \<Rightarrow> retG ([], msg)
        | Some resp \<Rightarrow> retG (bpUserIDs resp,
            (case bpOfflinePushInfo resp of None \<Rightarrow> msg | Some i \<Rightarrow> msg\<lparr> OfflinePush := Some i \<rparr>))))"

definition callbackOnlinePush :: "'w pusher \<Rightarrow> rpc_ctx \<Rightarrow> string list \<Rightarrow> MsgData \<Rightarrow> ('w, unit) pgo" where
  "callbackOnlinePush P ctx userIDs msg =
     (if \<not> cbcEnable (pkOnlinePush (puCbConfig P)) \<or> Contain (SendID msg) userIDs then retG ()
      else bindG (push_post P (CbOnlinePush userIDs (ctxOperationID ctx) msg (push_GetContent P msg))
                    (pkOnlinePush (puCbConfig P))) (\<lambda>_. retG ()))"

text \<open>The users in the answer are not used.\<close>

definition callbackBeforeSuperGroupOnlinePush :: "'w pusher \<Rightarrow> rpc_ctx \<Rightarrow> string \<Rightarrow> MsgData \<Rightarrow> ('w, string list) pgo" where
  "callbackBeforeSuperGroupOnlinePush P ctx groupID msg =
     (if \<not> cbcEnable (pkBeforeSuperGroupOnlinePush (puCbConfig P)) then retG []
      else bindG (push_post P (CbSuperGroupOnlinePush groupID (ctxOperationID ctx) msg (push_GetContent P msg))
                    (pkBeforeSuperGroupOnlinePush (puCbConfig P))) (\<lambda>_. retG []))"

section \<open>Online push\<close>

text \<open>A gateway that fails, or answers without results, adds none.\<close>

definition push_over :: "'w pusher \<Rightarrow> MsgData \<Rightarrow> string list \<Rightarrow> conn_ref \<Rightarrow> ('w, SingleMsgToUserResults list) pgo" where
  "push_over P msg userIDs conn =
     bindG (attemptG (onPushWorld (puOnlineBatchPush P conn msg userIDs))) (\<lambda>r. case r of
         Inr (Some rs) \<Rightarrow> retG rs | _ \<Rightarrow> retG [])"

text \<open>An \<open>errgroup\<close> with the limit 0 lets no goroutine start.\<close>

definition limit_workers :: "'w pusher \<Rightarrow> nat \<Rightarrow> ('w, unit) pgo" where
  "limit_workers P n =
     whenG (n > 0 \<and> WaitGroupSetLimit (puMaxWorkers P) (int n) = 0) (panicG ''blocked: errgroup with limit 0'')"

definition user_hosts :: "'w pusher \<Rightarrow> string list \<Rightarrow> ('w, string \<rightharpoonup> string list) pgo" where
  "user_hosts P pushToUserIDs =
     foldG (\<lambda>v m. bindG (onPushWorld (puGetUserIdHashGatewayHost P v)) (\<lambda>h.
       retG (m(h \<mapsto> (case m h of None \<Rightarrow> [v] | Some us \<Rightarrow> us @ [v]))))) pushToUserIDs Map.empty"

text \<open>Two hosts with one connection, or without one, leave the users of the last.\<close>

definition user_conns :: "'w pusher \<Rightarrow> (string \<rightharpoonup> string list) \<Rightarrow> ('w, conn_ref option \<rightharpoonup> string list) pgo" where
  "user_conns P hosts =
     foldG (\<lambda>h m. bindG (attemptG (onPushWorld (puGetConn P h))) (\<lambda>r.
       let conn = (case r of Inr c \<Rightarrow> c | Inl _ \<Rightarrow> None)
       in retG (m(conn \<mapsto> the (hosts h))))) (puHostOrd P (dom hosts)) Map.empty"

definition Pusher_k8sOnlinePush :: "'w pusher \<Rightarrow> MsgData \<Rightarrow> string list \<Rightarrow> ('w, SingleMsgToUserResults list) pgo" where
  "Pusher_k8sOnlinePush P msg pushToUserIDs =
     bindG (user_hosts P pushToUserIDs) (\<lambda>hosts.
     bindG (user_conns P hosts) (\<lambda>conns.
     let order = puConnOrd P (dom conns) in
     bindG (limit_workers P (length order)) (\<lambda>_.
     bindG (mapG (\<lambda>c. case c of
         None \<Rightarrow> panicG ''nil pointer dereference''
       | Some conn \<Rightarrow> push_over P msg (the (conns c)) conn) order) (\<lambda>rs.
       retG (concat rs)))))"

definition contentTypes2 :: "int list" where
  "contentTypes2 =
     [GroupCreatedNotification, JoinGroupApplicationNotification, MemberKickedNotification,
      MemberInvitedNotification, MemberEnterNotification,
      GroupInfoSetAnnouncementNotification, GroupInfoSetNameNotification, GroupInfoSetFaceURLNotification,
      GroupInfoSetNotification,
      GroupMemberSetToAdminNotification, GroupMemberSetToOrdinaryUserNotification, GroupMemberInfoSetNotification,
      BlackAddedNotification, BlackDeletedNotification, MsgRevokeNotification,
      FriendRemarkSetNotification]"

text \<open>\<open>SetPushNotificationResultToRedis\<close> (cache/msg.go): the error of redis is dropped.\<close>

definition SetPushNotificationResultToRedis :: "'s redis_api \<Rightarrow> string \<Rightarrow> string \<Rightarrow> ('s, unit) go" where
  "SetPushNotificationResultToRedis R operationID clientMsgID =
     (let parts = split_on CHR ''$'' operationID;
          redisKey = ''PUSH_NOTIFICATION_RESULT:'' @ (if length parts > 1 then hd parts else operationID)
      in ignoreG (rdSet R redisKey clientMsgID (seconds 10)))"

definition Pusher_GetConnsAndOnlinePush ::
  "'w pusher \<Rightarrow> rpc_ctx \<Rightarrow> MsgData \<Rightarrow> string list \<Rightarrow> ('w, SingleMsgToUserResults list) pgo" where
  "Pusher_GetConnsAndOnlinePush P ctx msg pushToUserIDs =
     (if length pushToUserIDs = 0 then retG []
      else if puDiscovery P = ''k8s'' then Pusher_k8sOnlinePush P msg pushToUserIDs
      else
        bindG (onPushWorld (puGetConns P)) (\<lambda>conns.
        bindG (limit_workers P (length conns)) (\<lambda>_.
        bindG (mapG (push_over P msg pushToUserIDs) conns) (\<lambda>rs.
        bindG (whenG (ContentType msg \<in> set contentTypes2)
                 (onPushWorld (SetPushNotificationResultToRedis (puRdb P) (ctxOperationID ctx) (ClientMsgID msg)))) (\<lambda>_.
          retG (concat rs))))))"

section \<open>Offline push\<close>

fun ContentType2PushContent :: "int \<Rightarrow> string" where
  "ContentType2PushContent t =
     (if t = Picture then ''[PICTURE]'' else if t = Voice then ''[VOICE]'' else if t = Video then ''[VIDEO]''
      else if t = File then ''[File]'' else if t = Card then ''[Card]'' else if t = Text then ''[TEXT]''
      else if t = AtText then ''[@TEXT]'' else if t = GroupMsg then ''[GROUPMSG]]'' else if t = Common then ''[NEWMSG]''
      else if t = SignalMsg then ''[SIGNALINVITE]'' else [])"

definition Pusher_GetOfflinePushOpts :: "MsgData \<Rightarrow> Opts" where
  "Pusher_GetOfflinePushOpts msg = (case OfflinePush msg of
       None \<Rightarrow> \<lparr> opSignalClientMsgID = [], opIOSPushSound = [], opIOSBadgeCount = False, opEx = [] \<rparr>
     | Some i \<Rightarrow> \<lparr> opSignalClientMsgID = [], opIOSPushSound = IOSPushSound i, opIOSBadgeCount = IOSBadgeCount i,
         opEx = PushEx i \<rparr>)"

definition push_title :: "'w pusher \<Rightarrow> string \<Rightarrow> MsgData \<Rightarrow> string" where
  "push_title P conversationID msg =
     (if ContentType msg \<in> {Text, Picture, Voice, Video, Card, File} then ContentType2PushContent (ContentType msg)
      else if ContentType msg = AtText then
        (if IsContain conversationID (puAtUsers P (Content msg))
         then ContentType2PushContent AtText @ ContentType2PushContent Common
         else ContentType2PushContent GroupMsg)
      else if ContentType msg = SignalingNotification then ContentType2PushContent SignalMsg
      else ContentType2PushContent Common)"

definition Pusher_getOfflinePushInfos :: "'w pusher \<Rightarrow> string \<Rightarrow> MsgData \<Rightarrow> go_error + (string \<times> string \<times> Opts)" where
  "Pusher_getOfflinePushInfos P conversationID msg =
     (case puOffline P of
        None \<Rightarrow> Inl errNoOfflinePusher
      | Some _ \<Rightarrow>
          let title0 = (case OfflinePush msg of None \<Rightarrow> [] | Some i \<Rightarrow> Title i);
              content0 = (case OfflinePush msg of None \<Rightarrow> [] | Some i \<Rightarrow> Desc i);
              title = (if title0 = [] then push_title P conversationID msg else title0);
              content = (if content0 = [] then title else content0)
          in Inr (title, content, Pusher_GetOfflinePushOpts msg))"

text \<open>Notifications, the custom messages 5000 and 5001, and typing are not pushed.\<close>

definition pushed_offline :: "'w pusher \<Rightarrow> MsgData \<Rightarrow> bool" where
  "pushed_offline P msg =
     (if newContentTypeConf (puConf P) (ContentType msg) \<noteq> None then False
      else if ContentType msg = 110
      then jsCustomType (puJson P) (Content msg) \<noteq> 5000 \<and> jsCustomType (puJson P) (Content msg) \<noteq> 5001
      else ContentType msg \<noteq> Typing)"

definition Pusher_offlinePushMsg ::
  "'w pusher \<Rightarrow> string \<Rightarrow> MsgData \<Rightarrow> string list \<Rightarrow> string list \<Rightarrow> ('w, unit) pgo" where
  "Pusher_offlinePushMsg P conversationID msg onlinePushUserIds offlinePushUserIds =
     (case Pusher_getOfflinePushInfos P conversationID msg of
        Inl err \<Rightarrow> failG err
      | Inr (title, content, opts) \<Rightarrow>
          if \<not> pushed_offline P msg then retG ()
          else onPushWorld (the (puOffline P) (Distinct onlinePushUserIds) (Distinct offlinePushUserIds) title content
                 (opts\<lparr> opEx := puParams P conversationID msg \<rparr>)))"

section \<open>A message to users\<close>

text \<open>The results that reached an iOS client, and the users of the other results but the sender.\<close>

definition online_ids :: "SingleMsgToUserResults list \<Rightarrow> string list" where
  "online_ids rs = map srUserID (filter (\<lambda>e. srOnlinePush e \<and> srUserID e \<noteq> []
     \<and> (case srResp e of [] \<Rightarrow> 0 | r # _ \<Rightarrow> spRecvPlatFormID r) = 1) rs)"

definition offline_ids :: "MsgData \<Rightarrow> SingleMsgToUserResults list \<Rightarrow> string list" where
  "offline_ids msg rs = map srUserID (filter (\<lambda>e. srUserID e \<notin> set (online_ids rs) \<and> srUserID e \<noteq> []
     \<and> srUserID e \<noteq> SendID msg) rs)"

definition Pusher_Push2User :: "'w pusher \<Rightarrow> rpc_ctx \<Rightarrow> string list \<Rightarrow> MsgData \<Rightarrow> ('w, unit) pgo" where
  "Pusher_Push2User P ctx userIDs msg0 =
     bindG (callbackOnlinePush P ctx userIDs msg0) (\<lambda>_.
     bindG (Pusher_GetConnsAndOnlinePush P ctx msg0 userIDs) (\<lambda>wsResults.
     whenG (length userIDs > 0)
       (bindG (callbackOfflinePush P ctx userIDs msg0) (\<lambda>(_, msg).
          Pusher_offlinePushMsg P (SendID msg) msg (online_ids wsResults) (offline_ids msg wsResults)))))"

section \<open>A message to a group\<close>

text \<open>
  The end of both forms of the offline push: the webhook, the users that want a push, the push of the
  two lists that \<open>split\<close> makes of them, and \<open>after\<close>.
\<close>

definition offline_to_group ::
  "'w pusher \<Rightarrow> rpc_ctx \<Rightarrow> string \<Rightarrow> MsgData \<Rightarrow> string list \<Rightarrow> (string list \<Rightarrow> string list \<times> string list)
   \<Rightarrow> (MsgData \<Rightarrow> string list \<Rightarrow> ('w, unit) pgo) \<Rightarrow> ('w, unit) pgo" where
  "offline_to_group P ctx groupID msg0 need split after =
     (if need = [] then retG ()
      else
        bindG (callbackOfflinePush P ctx need msg0) (\<lambda>(ids, msg).
        let need' = (if length ids > 0 then ids else need) in
        if ContentType msg = SignalingNotification then retG ()
        else
          bindG (onPushWorld (cstGetConversationOfflinePushUserIDs (puConversation P) (GenGroupConversationID groupID) need'))
            (\<lambda>userIDs.
          if userIDs = [] then retG ()
          else
            bindG (Pusher_offlinePushMsg P groupID msg (fst (split userIDs)) (snd (split userIDs))) (\<lambda>_.
              after msg userIDs))))"

definition Pusher_k8sOfflinePush2SuperGroup ::
  "'w pusher \<Rightarrow> rpc_ctx \<Rightarrow> string \<Rightarrow> MsgData \<Rightarrow> SingleMsgToUserResults list \<Rightarrow> ('w, unit) pgo" where
  "Pusher_k8sOfflinePush2SuperGroup P ctx groupID msg wsResults =
     offline_to_group P ctx groupID msg (map srUserID (filter (\<lambda>v. \<not> srOnlinePush v) wsResults))
       (\<lambda>userIDs. (userIDs, [])) (\<lambda>_ _. retG ())"

definition background_ids :: "SingleMsgToUserResults list \<Rightarrow> string list" where
  "background_ids rs = concat (map (\<lambda>v. if srOnlinePush v then [] else
     map (\<lambda>_. srUserID v) (filter (\<lambda>r. spResultCode r = - 2
       \<and> (PlatformIDToName (spRecvPlatFormID r) = TerminalPC \<or> spRecvPlatFormID r = WebPlatformID)) (srResp v))) rs)"

definition offline_push_group ::
  "'w pusher \<Rightarrow> rpc_ctx \<Rightarrow> string \<Rightarrow> MsgData \<Rightarrow> string list \<Rightarrow> SingleMsgToUserResults list \<Rightarrow> ('w, unit) pgo" where
  "offline_push_group P ctx groupID msg pushToUserIDs wsResults =
     (let isOfflinePush = GetSwitchFromOptions (Options msg) IsOfflinePush in
      if isOfflinePush \<and> puDiscovery P = ''k8s'' then Pusher_k8sOfflinePush2SuperGroup P ctx groupID msg wsResults
      else if isOfflinePush \<and> puDiscovery P = ''zookeeper'' then
        let online = SendID msg # map srUserID (filter (\<lambda>v. srOnlinePush v \<and> srUserID v \<noteq> SendID msg) wsResults)
        in offline_to_group P ctx groupID msg (DifferenceString online pushToUserIDs) (\<lambda>userIDs. (online, userIDs))
             (\<lambda>msg' userIDs. bindG (Pusher_GetConnsAndOnlinePush P ctx msg' (IntersectString userIDs (background_ids wsResults)))
                (\<lambda>_. retG ()))
      else retG ())"

text \<open>
  The whom and the afterwards of a message to a group.  A notification that cannot be read ends the
  push without an error (\<open>None\<close>).
\<close>

definition group_targets ::
  "'w pusher \<Rightarrow> rpc_ctx \<Rightarrow> string \<Rightarrow> MsgData \<Rightarrow> string list
   \<Rightarrow> ('w, (string list \<times> rpc_ctx \<times> ('w, unit) pgo option) option) pgo" where
  "group_targets P ctx groupID msg members =
     (if ContentType msg = MemberQuitNotification then
        (case puQuit P (Content msg) of
           Inl _ \<Rightarrow> retG None
         | Inr None \<Rightarrow> panicG ''nil pointer dereference''
         | Inr (Some u) \<Rightarrow> retG (Some (members @ [u], ctx, Some (Pusher_DeleteMemberAndSetConversationSeq P groupID [u]))))
      else if ContentType msg = MemberKickedNotification then
        (case puKicked P (Content msg) of
           Inl _ \<Rightarrow> retG None
         | Inr us \<Rightarrow> retG (Some (members @ us, ctx, Some (Pusher_DeleteMemberAndSetConversationSeq P groupID us))))
      else if ContentType msg = GroupDismissedNotification \<and> IsNotification (GetConversationIDByMsg msg) then
        (case puDismissed P (Content msg) of
           Inl _ \<Rightarrow> retG None
         | Inr _ \<Rightarrow>
             let ctx' = (case puManagers P of [] \<Rightarrow> ctx | m # _ \<Rightarrow> ctx\<lparr> ctxOpUserID := m \<rparr>)
             in retG (Some (members, ctx', Some (onPushWorld (GroupRpcClient_DismissGroup (puGroup P ctx') groupID)))))
      else retG (Some (members, ctx, None)))"

text \<open>
  A deferred closure that assigns the named result: what the function returned is lost, and a panic
  goes on after the closure has run.
\<close>

definition deferG :: "('s, unit) go option \<Rightarrow> ('s, unit) go \<Rightarrow> ('s, unit) go" where
  "deferG d m = (case d of
       None \<Rightarrow> m
     | Some f \<Rightarrow> (\<lambda>s. case m s of
           (Panic p, s') \<Rightarrow> (case f s' of (Panic q, s2) \<Rightarrow> (Panic q, s2) | (_, s2) \<Rightarrow> (Panic p, s2))
         | (_, s') \<Rightarrow> f s'))"

definition Pusher_Push2SuperGroup :: "'w pusher \<Rightarrow> rpc_ctx \<Rightarrow> string \<Rightarrow> MsgData \<Rightarrow> ('w, unit) pgo" where
  "Pusher_Push2SuperGroup P ctx groupID msg =
     bindG (callbackBeforeSuperGroupOnlinePush P ctx groupID msg) (\<lambda>ids.
     bindG (if length ids = 0
            then bindG (GroupLocalCache_GetGroupMemberIDs (puLocal P) groupID) (group_targets P ctx groupID msg)
            else retG (Some (ids, ctx, None))) (\<lambda>t. case t of
         None \<Rightarrow> retG ()
       | Some (pushToUserIDs, ctx', d) \<Rightarrow>
           deferG d (bindG (Pusher_GetConnsAndOnlinePush P ctx' msg pushToUserIDs) (\<lambda>wsResults.
             offline_push_group P ctx' groupID msg pushToUserIDs wsResults))))"

section \<open>The consumer (push\_handler.go)\<close>

definition push_user_ids :: "MsgData \<Rightarrow> string list" where
  "push_user_ids msg =
     (if \<not> GetSwitchFromOptions (Options msg) IsSenderSync \<or> SendID msg = RecvID msg then [RecvID msg]
      else [RecvID msg, SendID msg])"

definition quot64 :: "int \<Rightarrow> int \<Rightarrow> int" where
  "quot64 a b = wrap64 (a sdiv b)"

text \<open>\<open>decode\<close> is \<open>proto.Unmarshal\<close>: the message, which may be missing, and its conversation.\<close>

definition handleMs2PsChat ::
  "'w pusher \<Rightarrow> (string \<Rightarrow> go_error + (MsgData option \<times> string)) \<Rightarrow> int \<Rightarrow> rpc_ctx \<Rightarrow> string \<Rightarrow> ('w, unit) pgo" where
  "handleMs2PsChat P decode nowSec ctx raw = (case decode raw of
       Inl _ \<Rightarrow> retG ()
     | Inr (None, _) \<Rightarrow> panicG ''nil pointer dereference''
     | Inr (Some msg, conversationID) \<Rightarrow>
         if sub64 nowSec (quot64 (SendTime msg) 1000) > 30 then retG ()
         else
           bindG (ignoreG (if SessionType msg = SuperGroupChatType then Pusher_Push2SuperGroup P ctx (GroupID msg) msg
                           else Pusher_Push2User P ctx (push_user_ids msg) msg)) (\<lambda>_.
           if \<not> str_contains conversationID ''sg_'' \<and> \<not> str_contains conversationID ''si_'' then retG ()
           else ignoreG (onPushWorld (ConversationRpcClient_SetConversations (puConversation P) [SendID msg]
                  (empty_conversation_req\<lparr> crConversationID := conversationID, crConversationType := SessionType msg,
                     crGroupID := GroupID msg, crUserID := SendID msg, crLatestMsgSendTime := Some (SendTime msg) \<rparr>)))))"

text \<open>\<open>threading.GoSafe\<close> recovers from a panic.\<close>

definition go_safe :: "('s, unit) go \<Rightarrow> ('s, unit) go" where
  "go_safe m = (\<lambda>s. (Ok (), snd (m s)))"

definition ConsumeClaim ::
  "'w pusher \<Rightarrow> (string \<Rightarrow> go_error + (MsgData option \<times> string)) \<Rightarrow> (int \<times> rpc_ctx \<times> string) list \<Rightarrow> ('w, unit) pgo" where
  "ConsumeClaim P decode messages = forG messages (\<lambda>(nowSec, ctx, raw). go_safe (handleMs2PsChat P decode nowSec ctx raw))"

section \<open>The server (push\_rpc\_server.go)\<close>

definition pushServer_PushMsg :: "'w pusher \<Rightarrow> rpc_ctx \<Rightarrow> MsgData \<Rightarrow> ('w, unit) pgo" where
  "pushServer_PushMsg P ctx msg =
     bindG (attemptG (if SessionType msg = SuperGroupChatType then Pusher_Push2SuperGroup P ctx (GroupID msg) msg
            else Pusher_Push2User P ctx
              (if \<not> GetSwitchFromOptions (Options msg) IsSenderSync then [RecvID msg] else [RecvID msg, SendID msg]) msg)) (\<lambda>r. case r of
         Inl err \<Rightarrow> if err \<noteq> errNoOfflinePusher then failG err else retG ()
       | Inr _ \<Rightarrow> retG ())"

definition pushDataBase_DelFcmToken :: "'w redis_api \<Rightarrow> string \<Rightarrow> int \<Rightarrow> ('w, unit) go" where
  "pushDataBase_DelFcmToken R userID platformID = DelFcmToken R userID platformID"

definition pushServer_DelUserPushToken :: "'w pusher \<Rightarrow> string \<Rightarrow> int \<Rightarrow> ('w, unit) pgo" where
  "pushServer_DelUserPushToken P userID platformID = onPushWorld (pushDataBase_DelFcmToken (puRdb P) userID platformID)"

end
